(* ===== verification/Prelude.thy ===== *)
theory Prelude
  imports Main "HOL-Library.Word" "HOL-Library.Sublist"
begin

text \<open>
  Shared vocabulary of the development: the machine types of the drivers, the bit macros of the
  kernel, the sequencing of C calls that return an error code, the table search loops, and the
  generic lemmas on them.

  A C function that returns \<^verbatim>\<open>int\<close> and changes the state is an \<open>'s op\<close>: it maps a state to the
  returned code and the new state.  A block of the form
  \<^verbatim>\<open>ret = f(); if (ret) return ret; ret = g(); if (ret) return ret; ... return 0;\<close>
  is \<open>run_steps [f, g, ...]\<close>.
\<close>

unbundle bit_operations_syntax

named_theorems kernel_simps \<open>equations that execute the environment calls\<close>
named_theorems ret_rules \<open>return codes are zero or negative\<close>
named_theorems ok_rules \<open>operations that succeed when the bus does\<close>
named_theorems frame_simps \<open>fields an operation leaves alone\<close>

type_synonym u8 = "8 word"
type_synonym u16 = "16 word"
type_synonym u32 = "32 word"
type_synonym u64 = "64 word"
type_synonym 's op = "'s \<Rightarrow> int \<times> 's"

section \<open>Error numbers and bit macros\<close>

abbreviation (input) EIO :: int where "EIO \<equiv> 5"
abbreviation (input) ENOMEM :: int where "ENOMEM \<equiv> 12"
abbreviation (input) EFAULT :: int where "EFAULT \<equiv> 14"
abbreviation (input) EBUSY :: int where "EBUSY \<equiv> 16"
abbreviation (input) ENODEV :: int where "ENODEV \<equiv> 19"
abbreviation (input) EINVAL :: int where "EINVAL \<equiv> 22"

definition BIT :: "nat \<Rightarrow> 'a::len word" where
  "BIT n = push_bit n 1"

definition GENMASK :: "nat \<Rightarrow> nat \<Rightarrow> 'a::len word" where
  "GENMASK h l = push_bit l (mask (Suc h - l))"

lemma bit_BIT [bit_simps]: "bit (BIT n :: 'a::len word) i \<longleftrightarrow> i = n \<and> n < LENGTH('a)"
  by (auto simp: BIT_def bit_simps)

lemma bit_GENMASK [bit_simps]:
  "bit (GENMASK h l :: 'a::len word) i \<longleftrightarrow> l \<le> i \<and> i \<le> h \<and> i < LENGTH('a)"
  by (auto simp: GENMASK_def bit_simps)

lemmas bit_macro_defs = BIT_def GENMASK_def mask_eq_exp_minus_1

section \<open>Bytes\<close>

text \<open>The two bytes of a 16-bit address as the drivers put them on the wire, and back.\<close>

definition hi8 :: "u16 \<Rightarrow> u8" where
  "hi8 a = ucast (drop_bit 8 a)"

definition lo8 :: "u16 \<Rightarrow> u8" where
  "lo8 a = ucast (a AND 0xff)"

definition be16 :: "u8 \<Rightarrow> u8 \<Rightarrow> u16" where
  "be16 h l = push_bit 8 (ucast h) OR ucast l"

lemma bit_hi8 [bit_simps]: "bit (hi8 a) i \<longleftrightarrow> i < 8 \<and> bit a (i + 8)"
  by (auto simp: hi8_def bit_simps add.commute)

lemma lo8_take_bit: "lo8 a = ucast (take_bit 8 a)"
  by (simp add: lo8_def take_bit_eq_mask mask_eq_exp_minus_1)

lemma bit_lo8 [bit_simps]: "bit (lo8 a) i \<longleftrightarrow> i < 8 \<and> bit a i"
  by (auto simp: lo8_take_bit bit_simps)

lemma be16_bytes [simp]: "be16 (hi8 a) (lo8 a) = a"
  by (rule bit_word_eqI) (auto simp: be16_def bit_simps)

lemma hi8_be16 [simp]: "hi8 (be16 h l) = h"
  by (rule bit_word_eqI) (auto simp: be16_def bit_simps dest: bit_imp_le_length)

lemma lo8_be16 [simp]: "lo8 (be16 h l) = l"
  by (rule bit_word_eqI) (auto simp: be16_def bit_simps)

section \<open>Sequencing calls that return an error code\<close>

fun run_steps :: "'s op list \<Rightarrow> 's op" where
  "run_steps [] s = (0, s)"
| "run_steps (f # fs) s =
     (let (ret, s') = f s in if ret \<noteq> 0 then (ret, s') else run_steps fs s')"

text \<open>A call without a result, as a step.\<close>

definition act :: "('s \<Rightarrow> 's) \<Rightarrow> 's op" where
  "act f s = (0, f s)"

lemma act_0 [simp]: "act f s = (r, s') \<longleftrightarrow> r = 0 \<and> s' = f s"
  by (auto simp: act_def)

lemma run_steps_Cons_0:
  "run_steps (f # fs) s = (0, s') \<longleftrightarrow> (\<exists>s1. f s = (0, s1) \<and> run_steps fs s1 = (0, s'))"
  by (cases "f s") auto

lemma run_steps_append:
  "run_steps (fs @ gs) s =
     (let (ret, s') = run_steps fs s in if ret \<noteq> 0 then (ret, s') else run_steps gs s')"
  by (induction fs arbitrary: s) (auto split: prod.splits)

lemma run_steps_append_0:
  "run_steps (fs @ gs) s = (0, s') \<longleftrightarrow>
     (\<exists>s1. run_steps fs s = (0, s1) \<and> run_steps gs s1 = (0, s'))"
  by (cases "run_steps fs s") (auto simp: run_steps_append)

text \<open>
  A property of one step that relates the state before and after, is reflexive and transitive,
  and holds whatever the step returns, holds of the whole sequence.
\<close>

lemma run_steps_rel:
  assumes refl: "\<And>s. R s s"
    and trans: "\<And>a b c. R a b \<Longrightarrow> R b c \<Longrightarrow> R a c"
    and step: "\<And>f s. f \<in> set fs \<Longrightarrow> R s (snd (f s))"
  shows "R s (snd (run_steps fs s))"
  using step
proof (induction fs arbitrary: s)
  case Nil
  then show ?case by (simp add: refl)
next
  case (Cons f fs)
  obtain r s1 where f: "f s = (r, s1)" by (cases "f s")
  have 1: "R s s1" using Cons.prems [of f s] f by simp
  show ?case
  proof (cases "r = 0")
    case True
    have "R s1 (snd (run_steps fs s1))"
      by (rule Cons.IH) (simp add: Cons.prems)
    with 1 have "R s (snd (run_steps fs s1))" by (rule trans)
    with f True show ?thesis by simp
  next
    case False
    with f 1 show ?thesis by simp
  qed
qed

text \<open>The code returned is zero or the code of one of the steps.\<close>

lemma run_steps_ret:
  assumes "\<And>f s. f \<in> set fs \<Longrightarrow> P (fst (f s))" and "P 0"
  shows "P (fst (run_steps fs s))"
  using assms(1)
proof (induction fs arbitrary: s)
  case Nil
  then show ?case by (simp add: assms(2))
next
  case (Cons f fs)
  obtain r s1 where f: "f s = (r, s1)" by (cases "f s")
  have "P r" using Cons.prems [of f s] f by simp
  moreover have "P (fst (run_steps fs s1))"
    by (rule Cons.IH) (simp add: Cons.prems)
  ultimately show ?case using f by simp
qed

lemma run_steps_nonpos:
  assumes "\<And>f s. f \<in> set fs \<Longrightarrow> fst (f s) \<le> 0"
  shows "fst (run_steps fs s) \<le> 0"
  using assms by (rule run_steps_ret) auto

lemma run_steps_ok:
  assumes "\<And>f s. f \<in> set fs \<Longrightarrow> fst (f s) = 0"
  shows "fst (run_steps fs s) = 0"
  using assms by (rule run_steps_ret) auto

lemma ok_pair: "fst x = 0 \<Longrightarrow> x = (0, snd x)"
  by (simp add: prod_eq_iff)

declare run_steps.simps(2) [simp del]

section \<open>Search loops\<close>

text \<open>
  \<^verbatim>\<open>for (i = 0; i < N; i++) if (P(tab[i])) break;\<close> leaves \<open>i\<close> at the first hit, or at \<open>N\<close>.
\<close>

fun find_index :: "('a \<Rightarrow> bool) \<Rightarrow> 'a list \<Rightarrow> nat" where
  "find_index P [] = 0"
| "find_index P (x # xs) = (if P x then 0 else Suc (find_index P xs))"

lemma find_index_le: "find_index P xs \<le> length xs"
  by (induction xs) auto

lemma find_index_less: "find_index P xs < length xs \<longleftrightarrow> (\<exists>x\<in>set xs. P x)"
  by (induction xs) auto

lemma find_index_hit: "find_index P xs < length xs \<Longrightarrow> P (xs ! find_index P xs)"
  by (induction xs) auto

lemma find_index_before: "i < find_index P xs \<Longrightarrow> \<not> P (xs ! i)"
proof (induction xs arbitrary: i)
  case Nil
  then show ?case by simp
next
  case (Cons x xs)
  then show ?case by (cases i) (auto split: if_splits)
qed

lemma find_index_nth:
  assumes "distinct xs" and "i < length xs"
  shows "find_index (\<lambda>x. x = xs ! i) xs = i"
proof -
  let ?j = "find_index (\<lambda>x. x = xs ! i) xs"
  have "?j < length xs"
    unfolding find_index_less using assms(2) by (intro bexI [of _ "xs ! i"]) simp_all
  moreover from this have "xs ! ?j = xs ! i"
    by (rule find_index_hit)
  ultimately show ?thesis
    using assms by (simp add: nth_eq_iff_index_eq)
qed

end
