(* ===== verification/Kernel.thy ===== *)
theory Kernel
  imports Prelude
begin

text \<open>
  The environment of the sensor drivers.  The I2C core, regulators, clocks, GPIOs, runtime power
  management and the V4L2 framework are code outside the repository.  Every call into them is
  recorded, with its arguments and its answer, in the history of the state; the answer itself is
  a parameter: a record \<open>kapi\<close> of functions from the history so far (so the environment may
  answer differently at every call) to the value the call returns.  Framework calls that call
  back into the driver are parameters of their own, in the record \<open>kcb\<close>.

  The second half of the theory reads histories: the register image the bus traffic leaves in the
  sensor, and the balance of supplies, clock, usage counts and locks.
\<close>

section \<open>Events and the state of a run\<close>

datatype rail = DOVDD | AVDD | DVDD | BULK

datatype gpio = GPIO_RESET | GPIO_POWERDOWN

text \<open>
  The calls of the drivers on the system-on-chip: registers of a device by bank and offset, clocks, reset
  lines and the supply of the receiver's PHY.
\<close>

datatype bank = CSIS_REGS | GASKET | MIX_GPR | ISI_REGS | ISI_CHAIN

datatype soc_clk = MIPI_CLK | DISP_AXI | DISP_APB

datatype reset_line = SOFT_RESETN | CLK_ENABLE | MIPI_RESET

text \<open>The clocks of the imaging interface, on the older chips and on the newer ones.\<close>

datatype isi_clk = CLK_ISI | CLK_AXI | CLK_APB | CLK_ROOT_AXI | CLK_ROOT_APB

text \<open>
  Events of the imaging interface: its clocks, buffers handed back to the user, memory of the discard buffer,
  calls into the video-buffer queue and the media framework, accesses outside an array.  The channel has two spinlocks
  and two mutexes: \<open>SpinLock\<close> and \<open>MutexLock\<close> are \<^verbatim>\<open>mxc_isi->slock\<close> and \<^verbatim>\<open>isi_cap->lock\<close>, the events here
  \<^verbatim>\<open>isi_cap->slock\<close> and \<^verbatim>\<open>mxc_isi->lock\<close>.
\<close>

datatype buf_ref = DiscardBuf nat | UserBuf nat

datatype isi_event =
    IsiClkEnable isi_clk int
  | IsiClkDisable isi_clk
  | BufDone buf_ref bool
  | DmaAlloc nat u32 bool
  | DmaFree nat u32
  | VbStreamOn int
  | VbStreamOff int
  | FhOpen int
  | FhRelease int
  | GraphLock
  | GraphUnlock
  | VideoRegister int
  | VideoUnregister
  | Populate int
  | Depopulate
  | OutOfBounds string nat
  | CapSpinLock
  | CapSpinUnlock
  | ChanMutexLock
  | ChanMutexUnlock

datatype soc_event =
    MmioRead bank u32 u32
  | MmioWrite bank u32 u32
  | RegmapUpdate bank u32 u32 u32
  | MemcpyFromIo nat bank u32 u32
  | Udelay u32
  | PhySetVoltage u32 u32
  | PhyEnable int
  | PhyDisable int
  | SocClkEnable soc_clk int
  | SocClkDisable soc_clk
  | SocClkSetRate soc_clk u32 int
  | ResetAssert reset_line int
  | ResetDeassert reset_line int
  | SpinLock
  | SpinUnlock
  | IrqRequest int
  | PmForceSuspend
  | PmForceResume
  | RegmapWrite bank u32 u32
  | Mdelay u32
  | DivByZero
  | Isi isi_event

datatype kevent =
    I2cSend "u8 list" int
  | I2cRecv "u8 list" int
  | I2cTransfer "u8 list" "u8 list" int
  | Msleep u32
  | UsleepRange u32 u32
  | GpioSet gpio bool
  | RegulatorEnable rail int
  | RegulatorDisable rail
  | ClkPrepareEnable int
  | ClkDisableUnprepare
  | MutexInit
  | MutexLock
  | MutexUnlock
  | MutexDestroy
  | PmGetSync
  | PmPutNoidle
  | PmPut
  | PmGetIfInUse int
  | PmEnable
  | PmDisable
  | PmSetSuspended
  | PmSetActive
  | PmIdle
  | CtrlHandlerInit nat
  | CtrlNew u32 int int int int
  | CtrlCluster "u32 list"
  | CtrlHandlerFree
  | CtrlHandlerSetup
  | CtrlSet u32 int
  | CtrlModifyRange u32 int int int int
  | CtrlGrab u32 bool
  | EndpointParse int
  | EndpointFree
  | FwnodeGet
  | FwnodePut
  | EntityPadsInit int
  | EntityCleanup
  | SubdevInit
  | AsyncRegister int
  | AsyncUnregister
  | NullDeref
  | LockdepWarn
  | Soc soc_event

record kstate =
  hist :: "kevent list"

definition emit :: "kevent \<Rightarrow> 'a kstate_scheme \<Rightarrow> 'a kstate_scheme" where
  "emit e s = s\<lparr>hist := hist s @ [e]\<rparr>"

lemma hist_emit [simp]: "hist (emit e s) = hist s @ [e]"
  by (simp add: emit_def)

lemma more_emit [simp]: "kstate.more (emit e s) = kstate.more s"
  by (simp add: emit_def)

section \<open>The parameters\<close>

text \<open>The fields of a V4L2 control that the drivers read or write, and a handler's controls by id.\<close>

record v4l2_ctrl =
  ctrl_val :: int
  ctrl_minimum :: int
  ctrl_maximum :: int
  ctrl_step :: int
  ctrl_default :: int
  ctrl_is_new :: bool
  ctrl_flags :: u32

type_synonym ctrl_store = "u32 \<Rightarrow> v4l2_ctrl"

text \<open>A pointer handed out by the kernel: NULL, an encoded error, or a usable object.\<close>

datatype kptr = NullPtr | ErrPtr int | Obj

fun IS_ERR :: "kptr \<Rightarrow> bool" where
  "IS_ERR (ErrPtr _) = True"
| "IS_ERR _ = False"

fun PTR_ERR :: "kptr \<Rightarrow> int" where
  "PTR_ERR (ErrPtr e) = e"
| "PTR_ERR _ = 0"

record kapi =
  i2c_send_ret :: "kevent list \<Rightarrow> u8 list \<Rightarrow> int"
  i2c_recv_ret :: "kevent list \<Rightarrow> nat \<Rightarrow> int"
  i2c_recv_data :: "kevent list \<Rightarrow> nat \<Rightarrow> nat \<Rightarrow> u8"
  i2c_xfer_ret :: "kevent list \<Rightarrow> u8 list \<Rightarrow> nat \<Rightarrow> int"
  i2c_xfer_data :: "kevent list \<Rightarrow> u8 list \<Rightarrow> nat \<Rightarrow> nat \<Rightarrow> u8"
  regulator_ret :: "kevent list \<Rightarrow> rail \<Rightarrow> int"
  clk_ret :: "kevent list \<Rightarrow> int"
  clk_rate :: "kevent list \<Rightarrow> u64"
  rpm_enabled :: "kevent list \<Rightarrow> bool"
  rpm_suspended :: "kevent list \<Rightarrow> bool"
  rpm_in_use :: "kevent list \<Rightarrow> int"
  nearest_size :: "(u32 \<times> u32) list \<Rightarrow> u32 \<Rightarrow> u32 \<Rightarrow> nat option"
  ctrl_assign :: "kevent list \<Rightarrow> u32 \<Rightarrow> int \<Rightarrow> ctrl_store \<Rightarrow> ctrl_store"
  ctrl_create :: "kevent list \<Rightarrow> u32 \<Rightarrow> int \<Rightarrow> int \<Rightarrow> int \<Rightarrow> int \<Rightarrow> v4l2_ctrl option"
  handler_init_ret :: "kevent list \<Rightarrow> nat \<Rightarrow> int"
  handler_error :: "kevent list \<Rightarrow> int"
  kzalloc_ok :: "kevent list \<Rightarrow> bool"
  endpoint_node :: "kevent list \<Rightarrow> bool"
  endpoint_parse_ret :: "kevent list \<Rightarrow> int"
  endpoint_lanes :: "kevent list \<Rightarrow> u32"
  endpoint_freqs :: "kevent list \<Rightarrow> u64 list"
  gpio_get :: "kevent list \<Rightarrow> gpio \<Rightarrow> kptr"
  regulator_get :: "kevent list \<Rightarrow> rail \<Rightarrow> kptr"
  bulk_get_ret :: "kevent list \<Rightarrow> int"
  clk_get :: "kevent list \<Rightarrow> kptr"
  pads_init_ret :: "kevent list \<Rightarrow> int"
  async_register_ret :: "kevent list \<Rightarrow> int"

section \<open>The calls\<close>

definition i2c_master_send :: "kapi \<Rightarrow> u8 list \<Rightarrow> 'a kstate_scheme op" where
  "i2c_master_send k data s =
     (let ret = i2c_send_ret k (hist s) data in (ret, emit (I2cSend data ret) s))"

text \<open>\<^verbatim>\<open>i2c_master_recv\<close> also fills the caller's buffer of \<open>n\<close> bytes.\<close>

definition i2c_master_recv ::
  "kapi \<Rightarrow> nat \<Rightarrow> 'a kstate_scheme \<Rightarrow> int \<times> u8 list \<times> 'a kstate_scheme" where
  "i2c_master_recv k n s =
     (let ret = i2c_recv_ret k (hist s) n;
          data = map (i2c_recv_data k (hist s) n) [0..<n]
      in (ret, data, emit (I2cRecv data ret) s))"

text \<open>\<^verbatim>\<open>i2c_transfer\<close> of two messages: the address bytes written, then \<open>n\<close> bytes read.\<close>

definition i2c_transfer2 ::
  "kapi \<Rightarrow> u8 list \<Rightarrow> nat \<Rightarrow> 'a kstate_scheme \<Rightarrow> int \<times> u8 list \<times> 'a kstate_scheme" where
  "i2c_transfer2 k addr n s =
     (let ret = i2c_xfer_ret k (hist s) addr n;
          data = map (i2c_xfer_data k (hist s) addr n) [0..<n]
      in (ret, data, emit (I2cTransfer addr data ret) s))"

definition regulator_enable :: "kapi \<Rightarrow> rail \<Rightarrow> 'a kstate_scheme op" where
  "regulator_enable k r s =
     (let ret = regulator_ret k (hist s) r in (ret, emit (RegulatorEnable r ret) s))"

definition clk_prepare_enable :: "kapi \<Rightarrow> 'a kstate_scheme op" where
  "clk_prepare_enable k s =
     (let ret = clk_ret k (hist s) in (ret, emit (ClkPrepareEnable ret) s))"

definition pm_runtime_get_if_in_use :: "kapi \<Rightarrow> 'a kstate_scheme op" where
  "pm_runtime_get_if_in_use k s =
     (let ret = rpm_in_use k (hist s) in (ret, emit (PmGetIfInUse ret) s))"

text \<open>Dereferencing a pointer that may be NULL.\<close>

definition deref :: "'p option \<Rightarrow> ('p \<Rightarrow> 'a kstate_scheme op) \<Rightarrow> 'a kstate_scheme op" where
  "deref p f s = (case p of None \<Rightarrow> (- EFAULT, emit NullDeref s) | Some x \<Rightarrow> f x s)"

lemma deref_Some [simp]: "deref (Some x) f s = f x s"
  by (simp add: deref_def)

section \<open>Calls that call back into the driver\<close>

text \<open>
  \<open>pm_runtime_get_sync\<close> may run the driver's runtime-resume callback, \<open>pm_runtime_put\<close> its
  runtime-suspend callback; the control framework may run the driver's \<open>s_ctrl\<close> operation.
  The hypotheses below state what the kernel documents of them.
\<close>

record 's kcb =
  pm_get :: "'s op \<Rightarrow> 's op"
  pm_put :: "'s op \<Rightarrow> 's \<Rightarrow> 's"
  ctrl_setup :: "(u32 \<Rightarrow> 's op) \<Rightarrow> 's op"
  ctrl_set :: "(u32 \<Rightarrow> 's op) \<Rightarrow> u32 \<Rightarrow> int \<Rightarrow> 's op"
  ctrl_range :: "(u32 \<Rightarrow> 's op) \<Rightarrow> u32 \<Rightarrow> int \<Rightarrow> int \<Rightarrow> int \<Rightarrow> int \<Rightarrow> 's op"

definition pm_runtime_get_sync ::
  "('a kstate_scheme) kcb \<Rightarrow> 'a kstate_scheme op \<Rightarrow> 'a kstate_scheme op" where
  "pm_runtime_get_sync c resume s = pm_get c resume (emit PmGetSync s)"

definition pm_runtime_put ::
  "('a kstate_scheme) kcb \<Rightarrow> 'a kstate_scheme op \<Rightarrow> 'a kstate_scheme \<Rightarrow> 'a kstate_scheme" where
  "pm_runtime_put c suspend s = pm_put c suspend (emit PmPut s)"

text \<open>\<^verbatim>\<open>pm_runtime_idle\<close> may suspend the device in the same way.\<close>

definition pm_runtime_idle ::
  "('a kstate_scheme) kcb \<Rightarrow> 'a kstate_scheme op \<Rightarrow> 'a kstate_scheme \<Rightarrow> 'a kstate_scheme" where
  "pm_runtime_idle c suspend s = pm_put c suspend (emit PmIdle s)"

definition v4l2_ctrl_handler_setup ::
  "('a kstate_scheme) kcb \<Rightarrow> (u32 \<Rightarrow> 'a kstate_scheme op) \<Rightarrow> 'a kstate_scheme op" where
  "v4l2_ctrl_handler_setup c s_ctrl s = ctrl_setup c s_ctrl (emit CtrlHandlerSetup s)"

definition v4l2_ctrl_s_ctrl ::
  "('a kstate_scheme) kcb \<Rightarrow> (u32 \<Rightarrow> 'a kstate_scheme op) \<Rightarrow> u32 \<Rightarrow> int \<Rightarrow> 'a kstate_scheme op"
where
  "v4l2_ctrl_s_ctrl c s_ctrl i v s = ctrl_set c s_ctrl i v (emit (CtrlSet i v) s)"

definition v4l2_ctrl_modify_range ::
  "('a kstate_scheme) kcb \<Rightarrow> (u32 \<Rightarrow> 'a kstate_scheme op) \<Rightarrow> u32 \<Rightarrow>
   int \<Rightarrow> int \<Rightarrow> int \<Rightarrow> int \<Rightarrow> 'a kstate_scheme op"
where
  "v4l2_ctrl_modify_range c s_ctrl i mi ma st df s =
     ctrl_range c s_ctrl i mi ma st df (emit (CtrlModifyRange i mi ma st df) s)"

end
