(* ===== verification/History.thy ===== *)
theory History
  imports Kernel
begin

text \<open>
  Reading histories.  \<open>emits P\<close> says that a call changes nothing but the history, and extends it
  by events that satisfy \<open>P\<close>; it composes along \<open>run_steps\<close>.  \<open>bus_image\<close> is the register file
  the bus traffic leaves behind, \<open>balance\<close> counts acquisitions against releases.  The predicates
  \<open>regfile_recv\<close> and \<open>regfile_xfer\<close> are the hypotheses on a sensor that reads back what was
  written to it.
\<close>

section \<open>Calls that only extend the history\<close>

named_theorems emits_rules \<open>the events each operation may emit\<close>

definition emits :: "(kevent \<Rightarrow> bool) \<Rightarrow> 'a kstate_scheme \<Rightarrow> 'a kstate_scheme \<Rightarrow> bool" where
  "emits P s s' \<longleftrightarrow> (\<exists>es. s' = s\<lparr>hist := hist s @ es\<rparr> \<and> list_all P es)"

lemma emits_refl [simp, intro]: "emits P s s"
  by (auto simp: emits_def intro: exI [of _ "[]"])

lemma emits_trans [trans]: "emits P a b \<Longrightarrow> emits P b c \<Longrightarrow> emits P a c"
  by (auto simp: emits_def)

lemma emits_mono: "emits P s s' \<Longrightarrow> (\<And>e. P e \<Longrightarrow> Q e) \<Longrightarrow> emits Q s s'"
  by (auto simp: emits_def list_all_iff)

lemma emits_emit: "P e \<Longrightarrow> emits P s (emit e s)"
  by (auto simp: emits_def emit_def)

lemma emits_emit_trans: "P e \<Longrightarrow> emits P (emit e s) s' \<Longrightarrow> emits P s s'"
  by (blast intro: emits_emit emits_trans)

lemma emits_run_steps:
  assumes "\<And>f s. f \<in> set fs \<Longrightarrow> emits P s (snd (f s))"
  shows "emits P s (snd (run_steps fs s))"
  by (rule run_steps_rel [where R = "emits P"]) (blast intro: emits_trans assms)+

lemma emits_upd: "emits P s s' \<Longrightarrow> s' = s\<lparr>hist := hist s'\<rparr>"
  by (auto simp: emits_def)

lemma emits_hist: "emits P s s' \<Longrightarrow> \<exists>es. hist s' = hist s @ es \<and> list_all P es"
  by (auto simp: emits_def)

text \<open>Bus traffic and delays: the only events of the register configuration code.\<close>

fun bus_event :: "kevent \<Rightarrow> bool" where
  "bus_event (I2cSend _ _) = True"
| "bus_event (I2cRecv _ _) = True"
| "bus_event (I2cTransfer _ _ _) = True"
| "bus_event (Msleep _) = True"
| "bus_event _ = False"

lemma i2c_master_send_emits [emits_rules]: "emits bus_event s (snd (i2c_master_send k data s))"
  by (simp add: i2c_master_send_def Let_def emits_emit)

lemma i2c_master_recv_emits [emits_rules]:
  "emits bus_event s (snd (snd (i2c_master_recv k n s)))"
  by (simp add: i2c_master_recv_def Let_def emits_emit)

lemma i2c_transfer2_emits [emits_rules]:
  "emits bus_event s (snd (snd (i2c_transfer2 k a n s)))"
  by (simp add: i2c_transfer2_def Let_def emits_emit)

text \<open>A history that has grown by events satisfying \<open>P\<close>, whatever else has changed.\<close>

definition grows :: "(kevent \<Rightarrow> bool) \<Rightarrow> 'a kstate_scheme \<Rightarrow> 'a kstate_scheme \<Rightarrow> bool" where
  "grows P s s' \<longleftrightarrow> (\<exists>es. hist s' = hist s @ es \<and> list_all P es)"

lemma grows_refl [simp, intro]: "grows P s s"
  by (simp add: grows_def)

lemma grows_trans [trans]: "grows P a b \<Longrightarrow> grows P b c \<Longrightarrow> grows P a c"
  by (auto simp: grows_def)

lemma grows_mono: "grows P s s' \<Longrightarrow> (\<And>e. P e \<Longrightarrow> Q e) \<Longrightarrow> grows Q s s'"
  by (auto simp: grows_def list_all_iff)

lemma grows_emit [simp]: "grows P s (emit e s) \<longleftrightarrow> P e"
  by (simp add: grows_def)

lemma emits_grows: "emits P s s' \<Longrightarrow> grows P s s'"
  by (auto simp: emits_def grows_def)

lemma grows_run_steps:
  assumes "\<And>f s. f \<in> set fs \<Longrightarrow> grows P s (snd (f s))"
  shows "grows P s (snd (run_steps fs s))"
  by (rule run_steps_rel [where R = "grows P"]) (blast intro: grows_trans assms)+

section \<open>The register image\<close>

text \<open>
  A message to the sensor is a 16-bit register address, high byte first, and the bytes stored
  from that address on.
\<close>

fun wire_writes :: "u8 list \<Rightarrow> (u16 \<times> u8) list" where
  "wire_writes (h # l # bs) = zip (map (\<lambda>i. be16 h l + of_nat i) [0..<length bs]) bs"
| "wire_writes _ = []"

fun image_event :: "kevent \<Rightarrow> (u16 \<rightharpoonup> u8) \<Rightarrow> (u16 \<rightharpoonup> u8)" where
  "image_event (I2cSend data ret) m =
     (if 0 \<le> ret then fold (\<lambda>(a, v) m. m(a \<mapsto> v)) (wire_writes data) m else m)"
| "image_event _ m = m"

definition bus_image :: "kevent list \<Rightarrow> (u16 \<rightharpoonup> u8)" where
  "bus_image h = fold image_event h Map.empty"

lemma bus_image_append [simp]: "bus_image (h @ es) = fold image_event es (bus_image h)"
  by (simp add: bus_image_def)

lemma wire_writes_byte [simp]: "wire_writes [hi8 a, lo8 a, v] = [(a, v)]"
  by simp

lemma wire_writes_addr [simp]: "wire_writes [h, l] = []"
  by simp

text \<open>The value of a register: the last one written, or its value at reset.\<close>

definition reg_value :: "(u16 \<Rightarrow> u8) \<Rightarrow> kevent list \<Rightarrow> u16 \<Rightarrow> u8" where
  "reg_value dflt h a = (case bus_image h a of Some v \<Rightarrow> v | None \<Rightarrow> dflt a)"

text \<open>
  The hypotheses on the device: a read that follows an acknowledged address phase returns the
  value of the register.
\<close>

definition regfile_recv :: "kapi \<Rightarrow> (u16 \<Rightarrow> u8) \<Rightarrow> bool" where
  "regfile_recv k dflt \<longleftrightarrow>
     (\<forall>h a r. 0 \<le> r \<longrightarrow>
        i2c_recv_data k (h @ [I2cSend [hi8 a, lo8 a] r]) 1 0 = reg_value dflt h a)"

definition regfile_xfer :: "kapi \<Rightarrow> (u16 \<Rightarrow> u8) \<Rightarrow> bool" where
  "regfile_xfer k dflt \<longleftrightarrow>
     (\<forall>h a n i. i < n \<longrightarrow>
        i2c_xfer_data k h [hi8 a, lo8 a] n i = reg_value dflt h (a + of_nat i))"

text \<open>A bus on which every message is acknowledged.\<close>

definition bus_ok :: "kapi \<Rightarrow> bool" where
  "bus_ok k \<longleftrightarrow> (\<forall>h d. i2c_send_ret k h d = int (length d)) \<and> (\<forall>h n. i2c_recv_ret k h n = int n) \<and>
     (\<forall>h a n. i2c_xfer_ret k h a n = 2)"

text \<open>
  A concrete environment: a sensor that acknowledges every message and reads back its registers,
  supplies and a 24 MHz clock that always come up, runtime PM enabled and the device active.
\<close>

definition ideal_env :: "(u16 \<Rightarrow> u8) \<Rightarrow> kapi" where
  "ideal_env dflt = \<lparr>
     i2c_send_ret = (\<lambda>h d. int (length d)),
     i2c_recv_ret = (\<lambda>h n. int n),
     i2c_recv_data = (\<lambda>h n i. case rev h of
         I2cSend [a, b] r # h' \<Rightarrow> reg_value dflt (rev h') (be16 a b + of_nat i)
       | _ \<Rightarrow> 0),
     i2c_xfer_ret = (\<lambda>h a n. 2),
     i2c_xfer_data = (\<lambda>h a n i. case a of
         [x, y] \<Rightarrow> reg_value dflt h (be16 x y + of_nat i)
       | _ \<Rightarrow> 0),
     regulator_ret = (\<lambda>h r. 0),
     clk_ret = (\<lambda>h. 0),
     clk_rate = (\<lambda>h. 24000000),
     rpm_enabled = (\<lambda>h. True),
     rpm_suspended = (\<lambda>h. False),
     rpm_in_use = (\<lambda>h. 1),
     nearest_size = (\<lambda>tab w h. None),
     ctrl_assign = (\<lambda>h i v cs. cs(i := (cs i)\<lparr>ctrl_val := v\<rparr>)),
     ctrl_create = (\<lambda>h i mi ma st df. Some \<lparr>ctrl_val = df, ctrl_minimum = mi, ctrl_maximum = ma,
       ctrl_step = st, ctrl_default = df, ctrl_is_new = False, ctrl_flags = 0\<rparr>),
     handler_init_ret = (\<lambda>h n. 0),
     handler_error = (\<lambda>h. 0),
     kzalloc_ok = (\<lambda>h. True),
     endpoint_node = (\<lambda>h. True),
     endpoint_parse_ret = (\<lambda>h. 0),
     endpoint_lanes = (\<lambda>h. 2),
     endpoint_freqs = (\<lambda>h. [456000000]),
     gpio_get = (\<lambda>h g. Obj),
     regulator_get = (\<lambda>h r. Obj),
     bulk_get_ret = (\<lambda>h. 0),
     clk_get = (\<lambda>h. Obj),
     pads_init_ret = (\<lambda>h. 0),
     async_register_ret = (\<lambda>h. 0)\<rparr>"

lemma ideal_env_bus_ok [simp]: "bus_ok (ideal_env dflt)"
  by (simp add: bus_ok_def ideal_env_def)

lemma ideal_env_recv [simp]: "regfile_recv (ideal_env dflt) dflt"
  by (simp add: regfile_recv_def ideal_env_def)

lemma ideal_env_xfer [simp]: "regfile_xfer (ideal_env dflt) dflt"
  by (simp add: regfile_xfer_def ideal_env_def)

section \<open>Acquisitions and releases\<close>

definition balance :: "(kevent \<Rightarrow> int) \<Rightarrow> kevent list \<Rightarrow> int" where
  "balance d h = sum_list (map d h)"

lemma balance_append [simp]: "balance d (h @ es) = balance d h + balance d es"
  by (simp add: balance_def)

lemma balance_Nil [simp]: "balance d [] = 0"
  by (simp add: balance_def)

lemma balance_Cons [simp]: "balance d (e # es) = d e + balance d es"
  by (simp add: balance_def)

lemma balance_zero: "list_all P es \<Longrightarrow> (\<And>e. P e \<Longrightarrow> d e = 0) \<Longrightarrow> balance d es = 0"
  by (induction es) auto

lemma emits_balance:
  assumes "emits P s s'" and "\<And>e. P e \<Longrightarrow> d e = 0"
  shows "balance d (hist s') = balance d (hist s)"
  using assms by (auto simp: emits_def balance_zero)

lemma grows_balance:
  assumes "grows P s s'" and "\<And>e. P e \<Longrightarrow> d e = 0"
  shows "balance d (hist s') = balance d (hist s)"
  using assms by (auto simp: grows_def balance_zero)

fun rail_delta :: "rail \<Rightarrow> kevent \<Rightarrow> int" where
  "rail_delta r (RegulatorEnable r' ret) = (if r' = r \<and> ret = 0 then 1 else 0)"
| "rail_delta r (RegulatorDisable r') = (if r' = r then - 1 else 0)"
| "rail_delta r _ = 0"

fun clk_delta :: "kevent \<Rightarrow> int" where
  "clk_delta (ClkPrepareEnable ret) = (if ret = 0 then 1 else 0)"
| "clk_delta ClkDisableUnprepare = - 1"
| "clk_delta _ = 0"

text \<open>The runtime-PM usage count: \<^verbatim>\<open>pm_runtime_get_sync\<close> takes a reference even when it fails.\<close>

fun pm_delta :: "kevent \<Rightarrow> int" where
  "pm_delta PmGetSync = 1"
| "pm_delta PmPutNoidle = - 1"
| "pm_delta PmPut = - 1"
| "pm_delta (PmGetIfInUse ret) = (if 0 < ret then 1 else 0)"
| "pm_delta _ = 0"

fun lock_delta :: "kevent \<Rightarrow> int" where
  "lock_delta MutexLock = 1"
| "lock_delta MutexUnlock = - 1"
| "lock_delta _ = 0"

lemma bus_event_rail [simp]: "bus_event e \<Longrightarrow> rail_delta r e = 0"
  by (cases e) auto

lemma bus_event_clk [simp]: "bus_event e \<Longrightarrow> clk_delta e = 0"
  by (cases e) auto

lemma bus_event_pm [simp]: "bus_event e \<Longrightarrow> pm_delta e = 0"
  by (cases e) auto

lemma bus_event_lock [simp]: "bus_event e \<Longrightarrow> lock_delta e = 0"
  by (cases e) auto

end
