(* ===== verification/V4l2.thy ===== *)
theory V4l2
  imports History
begin

text \<open>
  The V4L2 vocabulary of the drivers: media bus codes, control ids and format fields with the
  numbers of the uapi headers that the repository carries in
  \<^verbatim>\<open>exercise-10/ov5648/linux\<close>, the format and control structures, and the default-mapping macros.
\<close>

section \<open>Media bus codes\<close>

abbreviation (input) MEDIA_BUS_FMT_SBGGR8_1X8 :: u32 where
  "MEDIA_BUS_FMT_SBGGR8_1X8 \<equiv> 0x3001"

abbreviation (input) MEDIA_BUS_FMT_SGBRG8_1X8 :: u32 where
  "MEDIA_BUS_FMT_SGBRG8_1X8 \<equiv> 0x3013"

abbreviation (input) MEDIA_BUS_FMT_SGRBG8_1X8 :: u32 where
  "MEDIA_BUS_FMT_SGRBG8_1X8 \<equiv> 0x3002"

abbreviation (input) MEDIA_BUS_FMT_SRGGB8_1X8 :: u32 where
  "MEDIA_BUS_FMT_SRGGB8_1X8 \<equiv> 0x3014"

abbreviation (input) MEDIA_BUS_FMT_SBGGR10_1X10 :: u32 where
  "MEDIA_BUS_FMT_SBGGR10_1X10 \<equiv> 0x3007"

abbreviation (input) MEDIA_BUS_FMT_SGBRG10_1X10 :: u32 where
  "MEDIA_BUS_FMT_SGBRG10_1X10 \<equiv> 0x300e"

abbreviation (input) MEDIA_BUS_FMT_SGRBG10_1X10 :: u32 where
  "MEDIA_BUS_FMT_SGRBG10_1X10 \<equiv> 0x300a"

abbreviation (input) MEDIA_BUS_FMT_SRGGB10_1X10 :: u32 where
  "MEDIA_BUS_FMT_SRGGB10_1X10 \<equiv> 0x300f"

abbreviation (input) MEDIA_BUS_FMT_RGB888_1X24 :: u32 where
  "MEDIA_BUS_FMT_RGB888_1X24 \<equiv> 0x100a"

abbreviation (input) MEDIA_BUS_FMT_Y8_1X8 :: u32 where
  "MEDIA_BUS_FMT_Y8_1X8 \<equiv> 0x2001"

abbreviation (input) MEDIA_BUS_FMT_UYVY8_2X8 :: u32 where
  "MEDIA_BUS_FMT_UYVY8_2X8 \<equiv> 0x2006"

abbreviation (input) MEDIA_BUS_FMT_VYUY8_2X8 :: u32 where
  "MEDIA_BUS_FMT_VYUY8_2X8 \<equiv> 0x2007"

abbreviation (input) MEDIA_BUS_FMT_YUYV8_2X8 :: u32 where
  "MEDIA_BUS_FMT_YUYV8_2X8 \<equiv> 0x2008"

abbreviation (input) MEDIA_BUS_FMT_YVYU8_2X8 :: u32 where
  "MEDIA_BUS_FMT_YVYU8_2X8 \<equiv> 0x2009"

abbreviation (input) MEDIA_BUS_FMT_Y10_1X10 :: u32 where
  "MEDIA_BUS_FMT_Y10_1X10 \<equiv> 0x200a"

abbreviation (input) MEDIA_BUS_FMT_Y12_1X12 :: u32 where
  "MEDIA_BUS_FMT_Y12_1X12 \<equiv> 0x2013"

abbreviation (input) MEDIA_BUS_FMT_SBGGR12_1X12 :: u32 where
  "MEDIA_BUS_FMT_SBGGR12_1X12 \<equiv> 0x3008"

abbreviation (input) MEDIA_BUS_FMT_SGBRG12_1X12 :: u32 where
  "MEDIA_BUS_FMT_SGBRG12_1X12 \<equiv> 0x3010"

abbreviation (input) MEDIA_BUS_FMT_SGRBG12_1X12 :: u32 where
  "MEDIA_BUS_FMT_SGRBG12_1X12 \<equiv> 0x3011"

abbreviation (input) MEDIA_BUS_FMT_SRGGB12_1X12 :: u32 where
  "MEDIA_BUS_FMT_SRGGB12_1X12 \<equiv> 0x3012"

section \<open>Pixel formats\<close>

text \<open>Four-character codes, first character in the low byte.\<close>

abbreviation (input) V4L2_PIX_FMT_SBGGR8 :: u32 where
  "V4L2_PIX_FMT_SBGGR8 \<equiv> 0x31384142"

abbreviation (input) V4L2_PIX_FMT_SGBRG8 :: u32 where
  "V4L2_PIX_FMT_SGBRG8 \<equiv> 0x47524247"

abbreviation (input) V4L2_PIX_FMT_SGRBG8 :: u32 where
  "V4L2_PIX_FMT_SGRBG8 \<equiv> 0x47425247"

abbreviation (input) V4L2_PIX_FMT_SRGGB8 :: u32 where
  "V4L2_PIX_FMT_SRGGB8 \<equiv> 0x42474752"

abbreviation (input) V4L2_PIX_FMT_GREY :: u32 where
  "V4L2_PIX_FMT_GREY \<equiv> 0x59455247"

abbreviation (input) V4L2_PIX_FMT_SBGGR10 :: u32 where
  "V4L2_PIX_FMT_SBGGR10 \<equiv> 0x30314742"

abbreviation (input) V4L2_PIX_FMT_SGBRG10 :: u32 where
  "V4L2_PIX_FMT_SGBRG10 \<equiv> 0x30314247"

abbreviation (input) V4L2_PIX_FMT_SGRBG10 :: u32 where
  "V4L2_PIX_FMT_SGRBG10 \<equiv> 0x30314142"

abbreviation (input) V4L2_PIX_FMT_SRGGB10 :: u32 where
  "V4L2_PIX_FMT_SRGGB10 \<equiv> 0x30314752"

abbreviation (input) V4L2_PIX_FMT_Y10 :: u32 where
  "V4L2_PIX_FMT_Y10 \<equiv> 0x20303159"

abbreviation (input) V4L2_PIX_FMT_SBGGR12 :: u32 where
  "V4L2_PIX_FMT_SBGGR12 \<equiv> 0x32314742"

abbreviation (input) V4L2_PIX_FMT_SGBRG12 :: u32 where
  "V4L2_PIX_FMT_SGBRG12 \<equiv> 0x32314247"

abbreviation (input) V4L2_PIX_FMT_SGRBG12 :: u32 where
  "V4L2_PIX_FMT_SGRBG12 \<equiv> 0x32314142"

abbreviation (input) V4L2_PIX_FMT_SRGGB12 :: u32 where
  "V4L2_PIX_FMT_SRGGB12 \<equiv> 0x32314752"

abbreviation (input) V4L2_PIX_FMT_Y12 :: u32 where
  "V4L2_PIX_FMT_Y12 \<equiv> 0x20323159"

abbreviation (input) V4L2_PIX_FMT_RGB565 :: u32 where
  "V4L2_PIX_FMT_RGB565 \<equiv> 0x50424752"

abbreviation (input) V4L2_PIX_FMT_RGB24 :: u32 where
  "V4L2_PIX_FMT_RGB24 \<equiv> 0x33424752"

abbreviation (input) V4L2_PIX_FMT_RGB32 :: u32 where
  "V4L2_PIX_FMT_RGB32 \<equiv> 0x34424752"

abbreviation (input) V4L2_PIX_FMT_BGR32 :: u32 where
  "V4L2_PIX_FMT_BGR32 \<equiv> 0x34524742"

abbreviation (input) V4L2_PIX_FMT_XRGB32 :: u32 where
  "V4L2_PIX_FMT_XRGB32 \<equiv> 0x34325842"

abbreviation (input) V4L2_PIX_FMT_XBGR32 :: u32 where
  "V4L2_PIX_FMT_XBGR32 \<equiv> 0x34325258"

abbreviation (input) V4L2_PIX_FMT_BGR24 :: u32 where
  "V4L2_PIX_FMT_BGR24 \<equiv> 0x33524742"

abbreviation (input) V4L2_PIX_FMT_RGBA32 :: u32 where
  "V4L2_PIX_FMT_RGBA32 \<equiv> 0x34324241"

abbreviation (input) V4L2_PIX_FMT_ABGR32 :: u32 where
  "V4L2_PIX_FMT_ABGR32 \<equiv> 0x34325241"

abbreviation (input) V4L2_PIX_FMT_ARGB32 :: u32 where
  "V4L2_PIX_FMT_ARGB32 \<equiv> 0x34324142"

abbreviation (input) V4L2_PIX_FMT_YUYV :: u32 where
  "V4L2_PIX_FMT_YUYV \<equiv> 0x56595559"

abbreviation (input) V4L2_PIX_FMT_YUV32 :: u32 where
  "V4L2_PIX_FMT_YUV32 \<equiv> 0x34565559"

abbreviation (input) V4L2_PIX_FMT_YUV444M :: u32 where
  "V4L2_PIX_FMT_YUV444M \<equiv> 0x34324d59"

abbreviation (input) V4L2_PIX_FMT_YUV24 :: u32 where
  "V4L2_PIX_FMT_YUV24 \<equiv> 0x33565559"

abbreviation (input) V4L2_PIX_FMT_NV12 :: u32 where
  "V4L2_PIX_FMT_NV12 \<equiv> 0x3231564e"

section \<open>Control ids\<close>

abbreviation (input) V4L2_CID_BASE :: u32 where
  "V4L2_CID_BASE \<equiv> 0x980900"

abbreviation (input) V4L2_CID_AUTO_WHITE_BALANCE :: u32 where
  "V4L2_CID_AUTO_WHITE_BALANCE \<equiv> 0x98090c"

abbreviation (input) V4L2_CID_RED_BALANCE :: u32 where
  "V4L2_CID_RED_BALANCE \<equiv> 0x98090e"

abbreviation (input) V4L2_CID_BLUE_BALANCE :: u32 where
  "V4L2_CID_BLUE_BALANCE \<equiv> 0x98090f"

abbreviation (input) V4L2_CID_EXPOSURE :: u32 where
  "V4L2_CID_EXPOSURE \<equiv> 0x980911"

abbreviation (input) V4L2_CID_AUTOGAIN :: u32 where
  "V4L2_CID_AUTOGAIN \<equiv> 0x980912"

abbreviation (input) V4L2_CID_GAIN :: u32 where
  "V4L2_CID_GAIN \<equiv> 0x980913"

abbreviation (input) V4L2_CID_HFLIP :: u32 where
  "V4L2_CID_HFLIP \<equiv> 0x980914"

abbreviation (input) V4L2_CID_VFLIP :: u32 where
  "V4L2_CID_VFLIP \<equiv> 0x980915"

abbreviation (input) V4L2_CID_CAMERA_CLASS_BASE :: u32 where
  "V4L2_CID_CAMERA_CLASS_BASE \<equiv> 0x9a0900"

abbreviation (input) V4L2_CID_EXPOSURE_AUTO :: u32 where
  "V4L2_CID_EXPOSURE_AUTO \<equiv> 0x9a0901"

abbreviation (input) V4L2_CID_IMAGE_SOURCE_CLASS_BASE :: u32 where
  "V4L2_CID_IMAGE_SOURCE_CLASS_BASE \<equiv> 0x9e0900"

abbreviation (input) V4L2_CID_VBLANK :: u32 where
  "V4L2_CID_VBLANK \<equiv> 0x9e0901"

abbreviation (input) V4L2_CID_HBLANK :: u32 where
  "V4L2_CID_HBLANK \<equiv> 0x9e0902"

abbreviation (input) V4L2_CID_ANALOGUE_GAIN :: u32 where
  "V4L2_CID_ANALOGUE_GAIN \<equiv> 0x9e0903"

abbreviation (input) V4L2_CID_TEST_PATTERN_RED :: u32 where
  "V4L2_CID_TEST_PATTERN_RED \<equiv> 0x9e0904"

abbreviation (input) V4L2_CID_TEST_PATTERN_GREENR :: u32 where
  "V4L2_CID_TEST_PATTERN_GREENR \<equiv> 0x9e0905"

abbreviation (input) V4L2_CID_TEST_PATTERN_BLUE :: u32 where
  "V4L2_CID_TEST_PATTERN_BLUE \<equiv> 0x9e0906"

abbreviation (input) V4L2_CID_TEST_PATTERN_GREENB :: u32 where
  "V4L2_CID_TEST_PATTERN_GREENB \<equiv> 0x9e0907"

abbreviation (input) V4L2_CID_IMAGE_PROC_CLASS_BASE :: u32 where
  "V4L2_CID_IMAGE_PROC_CLASS_BASE \<equiv> 0x9f0900"

abbreviation (input) V4L2_CID_LINK_FREQ :: u32 where
  "V4L2_CID_LINK_FREQ \<equiv> 0x9f0901"

abbreviation (input) V4L2_CID_PIXEL_RATE :: u32 where
  "V4L2_CID_PIXEL_RATE \<equiv> 0x9f0902"

abbreviation (input) V4L2_CID_TEST_PATTERN :: u32 where
  "V4L2_CID_TEST_PATTERN \<equiv> 0x9f0903"

abbreviation (input) V4L2_CID_DIGITAL_GAIN :: u32 where
  "V4L2_CID_DIGITAL_GAIN \<equiv> 0x9f0905"

abbreviation (input) V4L2_EXPOSURE_AUTO :: int where
  "V4L2_EXPOSURE_AUTO \<equiv> 0"

abbreviation (input) V4L2_EXPOSURE_MANUAL :: int where
  "V4L2_EXPOSURE_MANUAL \<equiv> 1"

abbreviation (input) V4L2_CTRL_FLAG_READ_ONLY :: u32 where
  "V4L2_CTRL_FLAG_READ_ONLY \<equiv> 0x0004"

abbreviation (input) V4L2_CTRL_FLAG_VOLATILE :: u32 where
  "V4L2_CTRL_FLAG_VOLATILE \<equiv> 0x0080"

abbreviation (input) V4L2_CTRL_FLAG_MODIFY_LAYOUT :: u32 where
  "V4L2_CTRL_FLAG_MODIFY_LAYOUT \<equiv> 0x0400"

section \<open>Frame formats\<close>

abbreviation (input) V4L2_SUBDEV_FORMAT_TRY :: u32 where
  "V4L2_SUBDEV_FORMAT_TRY \<equiv> 0"

abbreviation (input) V4L2_SUBDEV_FORMAT_ACTIVE :: u32 where
  "V4L2_SUBDEV_FORMAT_ACTIVE \<equiv> 1"

abbreviation (input) V4L2_FIELD_NONE :: u32 where
  "V4L2_FIELD_NONE \<equiv> 1"

abbreviation (input) V4L2_COLORSPACE_REC709 :: u32 where
  "V4L2_COLORSPACE_REC709 \<equiv> 3"

abbreviation (input) V4L2_COLORSPACE_SMPTE240M :: u32 where
  "V4L2_COLORSPACE_SMPTE240M \<equiv> 2"

abbreviation (input) V4L2_COLORSPACE_JPEG :: u32 where
  "V4L2_COLORSPACE_JPEG \<equiv> 7"

abbreviation (input) V4L2_COLORSPACE_SRGB :: u32 where
  "V4L2_COLORSPACE_SRGB \<equiv> 8"

abbreviation (input) V4L2_COLORSPACE_OPRGB :: u32 where
  "V4L2_COLORSPACE_OPRGB \<equiv> 9"

abbreviation (input) V4L2_COLORSPACE_BT2020 :: u32 where
  "V4L2_COLORSPACE_BT2020 \<equiv> 10"

abbreviation (input) V4L2_COLORSPACE_RAW :: u32 where
  "V4L2_COLORSPACE_RAW \<equiv> 11"

abbreviation (input) V4L2_COLORSPACE_DCI_P3 :: u32 where
  "V4L2_COLORSPACE_DCI_P3 \<equiv> 12"

abbreviation (input) V4L2_XFER_FUNC_709 :: u32 where
  "V4L2_XFER_FUNC_709 \<equiv> 1"

abbreviation (input) V4L2_XFER_FUNC_SRGB :: u32 where
  "V4L2_XFER_FUNC_SRGB \<equiv> 2"

abbreviation (input) V4L2_XFER_FUNC_OPRGB :: u32 where
  "V4L2_XFER_FUNC_OPRGB \<equiv> 3"

abbreviation (input) V4L2_XFER_FUNC_SMPTE240M :: u32 where
  "V4L2_XFER_FUNC_SMPTE240M \<equiv> 4"

abbreviation (input) V4L2_XFER_FUNC_NONE :: u32 where
  "V4L2_XFER_FUNC_NONE \<equiv> 5"

abbreviation (input) V4L2_XFER_FUNC_DCI_P3 :: u32 where
  "V4L2_XFER_FUNC_DCI_P3 \<equiv> 6"

abbreviation (input) V4L2_YCBCR_ENC_601 :: u32 where
  "V4L2_YCBCR_ENC_601 \<equiv> 1"

abbreviation (input) V4L2_YCBCR_ENC_709 :: u32 where
  "V4L2_YCBCR_ENC_709 \<equiv> 2"

abbreviation (input) V4L2_YCBCR_ENC_BT2020 :: u32 where
  "V4L2_YCBCR_ENC_BT2020 \<equiv> 6"

abbreviation (input) V4L2_YCBCR_ENC_SMPTE240M :: u32 where
  "V4L2_YCBCR_ENC_SMPTE240M \<equiv> 8"

abbreviation (input) V4L2_QUANTIZATION_FULL_RANGE :: u32 where
  "V4L2_QUANTIZATION_FULL_RANGE \<equiv> 1"

abbreviation (input) V4L2_QUANTIZATION_LIM_RANGE :: u32 where
  "V4L2_QUANTIZATION_LIM_RANGE \<equiv> 2"

definition V4L2_MAP_XFER_FUNC_DEFAULT :: "u32 \<Rightarrow> u32" where
  "V4L2_MAP_XFER_FUNC_DEFAULT colsp =
     (if colsp = V4L2_COLORSPACE_OPRGB then V4L2_XFER_FUNC_OPRGB
      else if colsp = V4L2_COLORSPACE_SMPTE240M then V4L2_XFER_FUNC_SMPTE240M
      else if colsp = V4L2_COLORSPACE_DCI_P3 then V4L2_XFER_FUNC_DCI_P3
      else if colsp = V4L2_COLORSPACE_RAW then V4L2_XFER_FUNC_NONE
      else if colsp = V4L2_COLORSPACE_SRGB \<or> colsp = V4L2_COLORSPACE_JPEG
      then V4L2_XFER_FUNC_SRGB else V4L2_XFER_FUNC_709)"

definition V4L2_MAP_YCBCR_ENC_DEFAULT :: "u32 \<Rightarrow> u32" where
  "V4L2_MAP_YCBCR_ENC_DEFAULT colsp =
     (if colsp = V4L2_COLORSPACE_REC709 \<or> colsp = V4L2_COLORSPACE_DCI_P3 then V4L2_YCBCR_ENC_709
      else if colsp = V4L2_COLORSPACE_BT2020 then V4L2_YCBCR_ENC_BT2020
      else if colsp = V4L2_COLORSPACE_SMPTE240M then V4L2_YCBCR_ENC_SMPTE240M
      else V4L2_YCBCR_ENC_601)"

definition V4L2_MAP_QUANTIZATION_DEFAULT :: "bool \<Rightarrow> u32 \<Rightarrow> u32 \<Rightarrow> u32" where
  "V4L2_MAP_QUANTIZATION_DEFAULT is_rgb_or_hsv colsp ycbcr_enc =
     (if is_rgb_or_hsv \<or> colsp = V4L2_COLORSPACE_JPEG
      then V4L2_QUANTIZATION_FULL_RANGE else V4L2_QUANTIZATION_LIM_RANGE)"

record v4l2_mbus_framefmt =
  fmt_width :: u32
  fmt_height :: u32
  fmt_code :: u32
  fmt_field :: u32
  fmt_colorspace :: u32
  fmt_ycbcr_enc :: u32
  fmt_quantization :: u32
  fmt_xfer_func :: u32

record v4l2_subdev_format =
  sf_which :: u32
  sf_pad :: u32
  sf_format :: v4l2_mbus_framefmt

text \<open>The try formats of an open file handle, by pad.\<close>

type_synonym pad_config = "u32 \<Rightarrow> v4l2_mbus_framefmt"

text \<open>A fraction of seconds, numerator first.\<close>

type_synonym v4l2_fract = "u32 \<times> u32"

section \<open>The nearest entry of a size table\<close>

text \<open>
  \<^verbatim>\<open>v4l2_find_nearest_size\<close> is a kernel function: the field \<open>nearest_size\<close> of the environment.
  Its documented behaviour: no entry for an empty table, otherwise the first entry with the least
  sum of the distances in width and height.
\<close>

definition size_error :: "u32 \<Rightarrow> u32 \<Rightarrow> u32 \<times> u32 \<Rightarrow> int" where
  "size_error w h sz = \<bar>uint (fst sz) - uint w\<bar> + \<bar>uint (snd sz) - uint h\<bar>"

definition nearest_spec :: "((u32 \<times> u32) list \<Rightarrow> u32 \<Rightarrow> u32 \<Rightarrow> nat option) \<Rightarrow> bool" where
  "nearest_spec f \<longleftrightarrow>
     (\<forall>tab w h.
        case f tab w h of
          None \<Rightarrow> tab = []
        | Some i \<Rightarrow> i < length tab \<and>
            (\<forall>j < length tab. size_error w h (tab ! i) \<le> size_error w h (tab ! j)))"

lemma nearest_spec_Some:
  assumes "nearest_spec f" and "tab \<noteq> []"
  obtains i where "f tab w h = Some i" and "i < length tab"
    and "\<And>j. j < length tab \<Longrightarrow> size_error w h (tab ! i) \<le> size_error w h (tab ! j)"
proof -
  have "case f tab w h of None \<Rightarrow> tab = [] | Some i \<Rightarrow> i < length tab \<and>
          (\<forall>j < length tab. size_error w h (tab ! i) \<le> size_error w h (tab ! j))"
    using assms(1) by (simp add: nearest_spec_def)
  then show ?thesis
    using assms(2) that by (cases "f tab w h") auto
qed

lemma size_error_nonneg: "0 \<le> size_error w h sz"
  by (simp add: size_error_def)

lemma size_error_0 [simp]: "size_error w h sz = 0 \<longleftrightarrow> sz = (w, h)"
  by (cases sz) (auto simp: size_error_def word_uint_eq_iff)

text \<open>An executable search that satisfies the documented behaviour.\<close>

fun nearest_from :: "u32 \<Rightarrow> u32 \<Rightarrow> nat \<Rightarrow> (u32 \<times> u32) list \<Rightarrow> nat option" where
  "nearest_from w h i [] = None"
| "nearest_from w h i [sz] = Some i"
| "nearest_from w h i (a # b # tab) =
     (case nearest_from w h (Suc i) (b # tab) of
        None \<Rightarrow> Some i
      | Some j \<Rightarrow> if size_error w h a \<le> size_error w h ((b # tab) ! (j - Suc i)) then Some i else Some j)"

lemma nearest_from_spec:
  "case nearest_from w h i tab of
     None \<Rightarrow> tab = []
   | Some j \<Rightarrow> i \<le> j \<and> j - i < length tab \<and>
       (\<forall>l < length tab. size_error w h (tab ! (j - i)) \<le> size_error w h (tab ! l))"
proof (induction w h i tab rule: nearest_from.induct)
  case (1 w h i)
  then show ?case by simp
next
  case (2 w h i sz)
  then show ?case by simp
next
  case (3 w h i a b tab)
  then obtain j where j: "nearest_from w h (Suc i) (b # tab) = Some j" "Suc i \<le> j"
      "j - Suc i < length (b # tab)"
      "\<And>l. l < length (b # tab) \<Longrightarrow>
         size_error w h ((b # tab) ! (j - Suc i)) \<le> size_error w h ((b # tab) ! l)"
    by (cases "nearest_from w h (Suc i) (b # tab)") auto
  have split: "size_error w h ((a # b # tab) ! n) \<ge> m"
    if "m \<le> size_error w h a" and "m \<le> size_error w h ((b # tab) ! (j - Suc i))"
      and "n < length (a # b # tab)" for m n
    using that j(4) [of "n - 1"] by (cases n) auto
  have "(a # b # tab) ! (j - i) = (b # tab) ! (j - Suc i)"
    using j(2) by (simp add: nth_Cons')
  with j split show ?case
    by (auto intro: split)
qed

lemma nearest_from_nearest: "nearest_spec (\<lambda>tab w h. nearest_from w h 0 tab)"
  unfolding nearest_spec_def
proof (intro allI)
  fix tab w h
  show "case nearest_from w h 0 tab of None \<Rightarrow> tab = []
        | Some i \<Rightarrow> i < length tab \<and>
            (\<forall>j<length tab. size_error w h (tab ! i) \<le> size_error w h (tab ! j))"
    using nearest_from_spec [where i = 0 and w = w and h = h and tab = tab] by (auto split: option.splits)
qed

text \<open>The concrete environment with this search.\<close>

definition ideal :: "(u16 \<Rightarrow> u8) \<Rightarrow> kapi" where
  "ideal dflt = (ideal_env dflt)\<lparr>nearest_size := (\<lambda>tab w h. nearest_from w h 0 tab)\<rparr>"

lemma ideal_facts [simp]:
  "bus_ok (ideal dflt)" "regfile_recv (ideal dflt) dflt" "regfile_xfer (ideal dflt) dflt"
  "nearest_spec (nearest_size (ideal dflt))" "clk_rate (ideal dflt) h = 24000000"
  "rpm_enabled (ideal dflt) h" "\<not> rpm_suspended (ideal dflt) h" "rpm_in_use (ideal dflt) h = 1"
  "regulator_ret (ideal dflt) h r = 0" "clk_ret (ideal dflt) h = 0"
  using ideal_env_bus_ok [of dflt] ideal_env_recv [of dflt] ideal_env_xfer [of dflt]
  by (simp_all add: ideal_def nearest_from_nearest bus_ok_def regfile_recv_def regfile_xfer_def)
    (simp_all add: ideal_env_def)

end
