(* ===== verification/Runtime.thy ===== *)
theory Runtime
  imports V4l2
begin

text \<open>
  What the drivers rely on from the frameworks that call back into them, and the interface of a
  power switch.

  \<open>cb_runs W f s s'\<close> is the closure of the ways a framework may change the driver: by its own
  steps \<open>W\<close> (the control framework updates the controls of a handler) and by calling the operation
  \<open>f\<close>.  The hypotheses \<open>setup_spec\<close>, \<open>set_spec\<close> and \<open>range_spec\<close> state that the control calls do
  nothing else; \<open>pm_spec\<close> states that runtime PM either runs the callback once or leaves the driver
  alone.

  The locale \<open>power_pair\<close> is the contract of a power-on and a power-off operation: switching on
  takes each supply of the device once, switching off gives it back; \<open>safe_power\<close> adds that a
  failed power-on keeps nothing.  \<open>held\<close> counts the resources a probe acquires and a removal
  releases.
\<close>

section \<open>Callbacks\<close>

inductive cb_runs :: "('s \<Rightarrow> 's \<Rightarrow> bool) \<Rightarrow> (u32 \<Rightarrow> 's op) \<Rightarrow> 's \<Rightarrow> 's \<Rightarrow> bool" for W f where
  stop: "cb_runs W f s s"
| framework: "W s s' \<Longrightarrow> cb_runs W f s' s'' \<Longrightarrow> cb_runs W f s s''"
| callback: "cb_runs W f (snd (f i s)) s'' \<Longrightarrow> cb_runs W f s s''"

lemma cb_runs_rel:
  assumes "cb_runs W f s s'"
    and "\<And>s. R s s" and "\<And>a b c. R a b \<Longrightarrow> R b c \<Longrightarrow> R a c"
    and "\<And>s s'. W s s' \<Longrightarrow> R s s'" and "\<And>i s. R s (snd (f i s))"
  shows "R s s'"
  using assms(1)
proof induction
  case (stop s)
  show ?case by (rule assms(2))
next
  case (framework s s' s'')
  then show ?case by (blast intro: assms(3,4))
next
  case (callback i s s'')
  then show ?case by (blast intro: assms(3,5))
qed

lemma cb_runs_run_steps: "cb_runs W f s (snd (run_steps (map f ids) s))"
proof (induction ids arbitrary: s)
  case Nil
  then show ?case by (simp add: cb_runs.stop)
next
  case (Cons i ids)
  obtain r s1 where f: "f i s = (r, s1)" by (cases "f i s")
  show ?case
  proof (rule cb_runs.callback [of W f i])
    show "cb_runs W f (snd (f i s)) (snd (run_steps (map f (i # ids)) s))"
      using Cons.IH [of s1] f by (simp add: run_steps.simps(2) cb_runs.stop)
  qed
qed

definition setup_spec :: "('s \<Rightarrow> 's \<Rightarrow> bool) \<Rightarrow> 's kcb \<Rightarrow> bool" where
  "setup_spec W c \<longleftrightarrow> (\<forall>f s. cb_runs W f s (snd (ctrl_setup c f s)))"

definition set_spec :: "('s \<Rightarrow> 's \<Rightarrow> bool) \<Rightarrow> 's kcb \<Rightarrow> bool" where
  "set_spec W c \<longleftrightarrow> (\<forall>f i v s. cb_runs W f s (snd (ctrl_set c f i v s)))"

definition range_spec :: "('s \<Rightarrow> 's \<Rightarrow> bool) \<Rightarrow> 's kcb \<Rightarrow> bool" where
  "range_spec W c \<longleftrightarrow> (\<forall>f i mi ma st df s. cb_runs W f s (snd (ctrl_range c f i mi ma st df s)))"

definition pm_spec :: "'s kcb \<Rightarrow> bool" where
  "pm_spec c \<longleftrightarrow>
     (\<forall>f s. (\<exists>r. pm_get c f s = (r, s)) \<or> pm_get c f s = f s) \<and>
     (\<forall>f s. pm_put c f s = s \<or> pm_put c f s = snd (f s))"

lemma pm_get_cases:
  assumes "pm_spec c"
  obtains (kept) r where "pm_get c f s = (r, s)" | (run) "pm_get c f s = f s"
  using assms unfolding pm_spec_def by blast

lemma pm_put_cases:
  assumes "pm_spec c"
  obtains (kept) "pm_put c f s = s" | (run) "pm_put c f s = snd (f s)"
  using assms unfolding pm_spec_def by blast

text \<open>
  What every step of the framework and every call of the operation keeps, the calls into the control
  framework keep.
\<close>

fun ctrl_call :: "kevent \<Rightarrow> bool" where
  "ctrl_call (CtrlModifyRange _ _ _ _ _) \<longleftrightarrow> True"
| "ctrl_call (CtrlSet _ _) \<longleftrightarrow> True"
| "ctrl_call CtrlHandlerSetup \<longleftrightarrow> True"
| "ctrl_call _ \<longleftrightarrow> False"

lemma control_calls:
  assumes "\<And>s. R s s" and trans: "\<And>a b c. R a b \<Longrightarrow> R b c \<Longrightarrow> R a c"
    and "\<And>s s'. W s s' \<Longrightarrow> R s s'" and "\<And>i s. R s (snd (f i s))"
    and emit: "\<And>e s. ctrl_call e \<Longrightarrow> R s (emit e s)"
  shows "range_spec W c \<Longrightarrow> R s (snd (v4l2_ctrl_modify_range c f i mi ma st df s))"
    and "set_spec W c \<Longrightarrow> R s (snd (v4l2_ctrl_s_ctrl c f i v s))"
    and "setup_spec W c \<Longrightarrow> R s (snd (v4l2_ctrl_handler_setup c f s))"
proof -
  have run: "R s t" if "ctrl_call e" and "cb_runs W f (emit e s) t" for e t
    using trans [OF emit [OF that(1)] cb_runs_rel [OF that(2), of R]] assms(1-4) by blast
  show "R s (snd (v4l2_ctrl_modify_range c f i mi ma st df s))" if "range_spec W c"
    using that unfolding range_spec_def v4l2_ctrl_modify_range_def
    by (intro run [of "CtrlModifyRange i mi ma st df"]) simp_all
  show "R s (snd (v4l2_ctrl_s_ctrl c f i v s))" if "set_spec W c"
    using that unfolding set_spec_def v4l2_ctrl_s_ctrl_def by (intro run [of "CtrlSet i v"]) simp_all
  show "R s (snd (v4l2_ctrl_handler_setup c f s))" if "setup_spec W c"
    using that unfolding setup_spec_def v4l2_ctrl_handler_setup_def
    by (intro run [of CtrlHandlerSetup]) simp_all
qed

text \<open>The call itself is the first event that such a call leaves.\<close>

lemma control_trace:
  assumes "\<And>s s'. W s s' \<Longrightarrow> hist s' = hist s" and "\<And>i s. prefix (hist s) (hist (snd (f i s)))"
  shows "range_spec W c \<Longrightarrow> \<exists>h. hist (snd (v4l2_ctrl_modify_range c f i mi ma st df s)) =
      hist s @ CtrlModifyRange i mi ma st df # h"
    and "set_spec W c \<Longrightarrow> \<exists>h. hist (snd (v4l2_ctrl_s_ctrl c f i v s)) = hist s @ CtrlSet i v # h"
proof -
  have run: "\<exists>h. hist t = hist s @ e # h" if "cb_runs W f (emit e s) t" for e t
  proof -
    have "prefix (hist (emit e s)) (hist t)"
      using that by (rule cb_runs_rel [where R = "\<lambda>s t. prefix (hist s) (hist t)"])
        (auto simp: assms(1) intro: assms(2) prefix_order.trans)
    then show ?thesis by (auto simp: prefix_def)
  qed
  show "\<exists>h. hist (snd (v4l2_ctrl_modify_range c f i mi ma st df s)) =
      hist s @ CtrlModifyRange i mi ma st df # h" if "range_spec W c"
    using that unfolding range_spec_def v4l2_ctrl_modify_range_def by (intro run) simp
  show "\<exists>h. hist (snd (v4l2_ctrl_s_ctrl c f i v s)) = hist s @ CtrlSet i v # h" if "set_spec W c"
    using that unfolding set_spec_def v4l2_ctrl_s_ctrl_def by (intro run) simp
qed

text \<open>
  Concrete frameworks that satisfy the hypotheses: runtime PM that always runs the callback, and a
  control framework that sets up the controls \<open>ids\<close> in order and stores values with \<open>st\<close>.
\<close>

definition ideal_cb :: "u32 list \<Rightarrow> (u32 \<Rightarrow> int \<Rightarrow> 's \<Rightarrow> 's) \<Rightarrow> 's kcb" where
  "ideal_cb ids st = \<lparr>
     pm_get = (\<lambda>f s. f s),
     pm_put = (\<lambda>f s. snd (f s)),
     ctrl_setup = (\<lambda>f s. run_steps (map f ids) s),
     ctrl_set = (\<lambda>f i v s. f i (st i v s)),
     ctrl_range = (\<lambda>f i mi ma stp df s. (0, s))\<rparr>"

lemma ideal_cb_specs [simp]:
  "pm_spec (ideal_cb ids st)" "setup_spec W (ideal_cb ids st)" "range_spec W (ideal_cb ids st)"
  by (simp_all add: pm_spec_def setup_spec_def range_spec_def ideal_cb_def cb_runs_run_steps
      cb_runs.stop)

lemma ideal_cb_set_spec: "(\<And>i v s. W s (st i v s)) \<Longrightarrow> set_spec W (ideal_cb ids st)"
  by (simp add: set_spec_def ideal_cb_def cb_runs.framework [OF _ cb_runs.callback [OF cb_runs.stop]])

text \<open>
  Setting up a handler reports an error only when the operation of one of its controls \<open>ids\<close> did, in a
  state that the framework and the operation reach; resuming reports one only when the callback did.
\<close>

definition setup_reports :: "('s \<Rightarrow> 's \<Rightarrow> bool) \<Rightarrow> u32 list \<Rightarrow> 's kcb \<Rightarrow> bool" where
  "setup_reports W ids c \<longleftrightarrow>
     (\<forall>I f s. I s \<and> (\<forall>i \<in> set ids. \<forall>t. I t \<longrightarrow> fst (f i t) = 0 \<and> I (snd (f i t))) \<and>
        (\<forall>t t'. W t t' \<and> I t \<longrightarrow> I t') \<longrightarrow> fst (ctrl_setup c f s) = 0)"

definition pm_reports :: "'s kcb \<Rightarrow> bool" where
  "pm_reports c \<longleftrightarrow> (\<forall>f s. fst (f s) = 0 \<longrightarrow> 0 \<le> fst (pm_get c f s))"

lemma setup_reportsD:
  assumes "setup_reports W ids c" and "I s"
    and "\<And>i t. i \<in> set ids \<Longrightarrow> I t \<Longrightarrow> fst (f i t) = 0"
    and "\<And>i t. i \<in> set ids \<Longrightarrow> I t \<Longrightarrow> I (snd (f i t))" and "\<And>t t'. W t t' \<Longrightarrow> I t \<Longrightarrow> I t'"
  shows "fst (ctrl_setup c f s) = 0"
proof (rule assms(1) [unfolded setup_reports_def, rule_format, of I s f], intro conjI ballI allI impI)
  show "I s" by (rule assms(2))
  show "fst (f i t) = 0" "I (snd (f i t))" if "i \<in> set ids" and "I t" for i t
    using that by (rule assms(3), intro assms(4) that)
  show "I t'" if "W t t' \<and> I t" for t t'
    using that assms(5) by blast
qed

lemma ideal_cb_reports [simp]: "setup_reports W ids (ideal_cb ids st)" "pm_reports (ideal_cb ids st)"
proof -
  have run: "fst (run_steps (map f js) s) = 0"
    if "I s" and "\<forall>i \<in> set js. \<forall>t. I t \<longrightarrow> fst (f i t) = 0 \<and> I (snd (f i t))" for I f js s
    using that
  proof (induction js arbitrary: s)
    case Nil
    then show ?case by simp
  next
    case (Cons j js)
    obtain s1 where "f j s = (0, s1)" "I s1"
      using Cons.prems by (cases "f j s") auto
    with Cons show ?case by (simp add: run_steps.simps(2))
  qed
  show "setup_reports W ids (ideal_cb ids st)"
    unfolding setup_reports_def
  proof (intro allI impI, elim conjE)
    fix I and f :: "u32 \<Rightarrow> 'a op" and s
    assume "I s" and "\<forall>i \<in> set ids. \<forall>t. I t \<longrightarrow> fst (f i t) = 0 \<and> I (snd (f i t))"
    then have "fst (run_steps (map f ids) s) = 0" by (rule run)
    then show "fst (ctrl_setup (ideal_cb ids st) f s) = 0" by (simp add: ideal_cb_def)
  qed
  show "pm_reports (ideal_cb ids st)"
    by (simp add: pm_reports_def ideal_cb_def)
qed

section \<open>Power switches\<close>

datatype supplies = Rail rail | Clock

fun supply_delta :: "supplies \<Rightarrow> kevent \<Rightarrow> int" where
  "supply_delta (Rail r) = rail_delta r"
| "supply_delta Clock = clk_delta"

definition level :: "supplies \<Rightarrow> 'a kstate_scheme \<Rightarrow> int" where
  "level x s = balance (supply_delta x) (hist s)"

lemma level_emit [simp]: "level x (emit e s) = level x s + supply_delta x e"
  by (simp add: level_def)

lemma grows_level:
  assumes "grows P s s'" and "\<And>e. P e \<Longrightarrow> supply_delta x e = 0"
  shows "level x s' = level x s"
  unfolding level_def using assms by (rule grows_balance)

lemma supply_delta_bus [simp]: "bus_event e \<Longrightarrow> supply_delta x e = 0"
  by (cases x) simp_all

locale power_pair =
  fixes pw_on :: "'a kstate_scheme op" and pw_off :: "'a kstate_scheme \<Rightarrow> 'a kstate_scheme"
    and draws :: "'a kstate_scheme \<Rightarrow> supplies \<Rightarrow> bool"
  assumes on_level: "pw_on s = (0, s') \<Longrightarrow> level x s' = level x s + (if draws s x then 1 else 0)"
    and on_draws: "pw_on s = (r, s') \<Longrightarrow> draws s' = draws s"
    and off_level: "level x (pw_off s) = level x s - (if draws s x then 1 else 0)"
begin

text \<open>A power cycle with any work in between that leaves the supplies alone is neutral.\<close>

lemma cycle:
  assumes "pw_on s = (0, s1)" and "grows P s1 s2" and "\<And>e x. P e \<Longrightarrow> supply_delta x e = 0"
    and "draws s2 = draws s1"
  shows "level x (pw_off s2) = level x s"
proof -
  have "level x s2 = level x s1"
    using assms(2,3) by (rule grows_level)
  then show ?thesis
    using on_level [OF assms(1)] on_draws [OF assms(1)] assms(4) by (simp add: off_level)
qed

end

locale safe_power = power_pair +
  assumes on_fail: "pw_on s = (r, s') \<Longrightarrow> r \<noteq> 0 \<Longrightarrow> level x s' = level x s"
begin

text \<open>The supplies taken by an attempt to switch on are exactly those of a success.\<close>

lemma attempt:
  assumes "pw_on s = (r, s')"
  shows "level x s' = level x s + (if r = 0 \<and> draws s x then 1 else 0)"
  using assms on_level [of s s' x] on_fail [of s r s' x] by (cases "r = 0") auto

end

section \<open>Resources\<close>

text \<open>What probe acquires and removal gives back, counted over the history.\<close>

datatype resource = Endpoint | Fwnode | Mutex | Handler | RuntimePm | Subdev

fun resource_use :: "kevent \<Rightarrow> (resource \<times> int) option" where
  "resource_use (EndpointParse ret) = (if ret = 0 then Some (Endpoint, 1) else None)"
| "resource_use EndpointFree = Some (Endpoint, - 1)"
| "resource_use FwnodeGet = Some (Fwnode, 1)"
| "resource_use FwnodePut = Some (Fwnode, - 1)"
| "resource_use MutexInit = Some (Mutex, 1)"
| "resource_use MutexDestroy = Some (Mutex, - 1)"
| "resource_use (CtrlHandlerInit n) = Some (Handler, 1)"
| "resource_use CtrlHandlerFree = Some (Handler, - 1)"
| "resource_use PmEnable = Some (RuntimePm, 1)"
| "resource_use PmDisable = Some (RuntimePm, - 1)"
| "resource_use (AsyncRegister ret) = (if ret = 0 then Some (Subdev, 1) else None)"
| "resource_use AsyncUnregister = Some (Subdev, - 1)"
| "resource_use _ = None"

definition resource_delta :: "resource \<Rightarrow> kevent \<Rightarrow> int" where
  "resource_delta x e = (case resource_use e of Some (y, d) \<Rightarrow> if x = y then d else 0 | None \<Rightarrow> 0)"

definition held :: "resource \<Rightarrow> 'a kstate_scheme \<Rightarrow> int" where
  "held x s = balance (resource_delta x) (hist s)"

lemma held_emit [simp]: "held x (emit e s) = held x s + resource_delta x e"
  by (simp add: held_def)

lemma bus_event_resource [simp]: "bus_event e \<Longrightarrow> resource_use e = None"
  by (cases e) simp_all

lemma held_cong: "hist s = hist s' \<Longrightarrow> held x s = held x s'"
  by (simp add: held_def)

text \<open>Zeroed structures.\<close>

definition zero_ctrl :: v4l2_ctrl where
  "zero_ctrl = \<lparr>ctrl_val = 0, ctrl_minimum = 0, ctrl_maximum = 0, ctrl_step = 0,
     ctrl_default = 0, ctrl_is_new = False, ctrl_flags = 0\<rparr>"

definition zero_fmt :: v4l2_mbus_framefmt where
  "zero_fmt = \<lparr>fmt_width = 0, fmt_height = 0, fmt_code = 0, fmt_field = 0, fmt_colorspace = 0,
     fmt_ycbcr_enc = 0, fmt_quantization = 0, fmt_xfer_func = 0\<rparr>"

end
