(* ===== verification/Soc.thy ===== *)
theory Soc
  imports Runtime
begin

text \<open>
  The environment of the drivers on the system-on-chip.  Registers are accessed by bank and offset; what a
  read returns, and what the clock, regulator, reset, device-tree and interrupt calls answer, is the
  record \<open>sapi\<close> of functions of the history.  \<open>mmio_image\<close> is what the writes since the last reset of a
  device have left in its registers; \<open>mmio_holds\<close> is the hypothesis on a register, or on some bits of
  it, that it reads back what was written.  \<open>soc_level\<close> counts the enables of clocks and of the PHY supply.
\<close>

section \<open>Parameters\<close>

abbreviation (input) ENOIOCTLCMD :: int where "ENOIOCTLCMD \<equiv> 515"

text \<open>The pad at the other end of a link: its index, and whether its entity is a sub-device.\<close>

record remote_pad =
  rp_index :: u32
  rp_is_subdev :: bool

record sapi =
  mmio :: "kevent list \<Rightarrow> bank \<Rightarrow> u32 \<Rightarrow> u32"
  phy_get :: "kevent list \<Rightarrow> kptr"
  phy_enable_ret :: "kevent list \<Rightarrow> int"
  phy_disable_ret :: "kevent list \<Rightarrow> int"
  soc_clk_get :: "kevent list \<Rightarrow> soc_clk \<Rightarrow> kptr"
  soc_clk_ret :: "kevent list \<Rightarrow> soc_clk \<Rightarrow> int"
  soc_clk_rate_ret :: "kevent list \<Rightarrow> soc_clk \<Rightarrow> u32 \<Rightarrow> int"
  reset_ret :: "kevent list \<Rightarrow> reset_line \<Rightarrow> int"
  syscon :: "kevent list \<Rightarrow> string \<Rightarrow> kptr"
  ioremap :: "kevent list \<Rightarrow> kptr"
  irq_number :: "kevent list \<Rightarrow> int"
  irq_request_ret :: "kevent list \<Rightarrow> int"
  of_alias_id :: "kevent list \<Rightarrow> string \<Rightarrow> int"
  of_u32 :: "kevent list \<Rightarrow> string \<Rightarrow> u32 option"
  of_bool :: "kevent list \<Rightarrow> string \<Rightarrow> bool"
  of_endpoint :: "kevent list \<Rightarrow> bool"
  of_match :: "kevent list \<Rightarrow> string list \<Rightarrow> nat option"
  of_phandle_ret :: "kevent list \<Rightarrow> int"
  of_reset_nodes :: "kevent list \<Rightarrow> (string option \<times> kptr) list"
  of_compat :: "string \<Rightarrow> string \<Rightarrow> bool"
  soc_kzalloc :: "kevent list \<Rightarrow> bool"
  soc_pads_init_ret :: "kevent list \<Rightarrow> int"
  media_remote_pad :: "kevent list \<Rightarrow> nat \<Rightarrow> remote_pad option"
  debug_level :: "kevent list \<Rightarrow> int"

text \<open>Forced suspend and resume of a device run its runtime-PM callbacks.\<close>

record 's scb =
  force_suspend :: "'s op \<Rightarrow> 's op"
  force_resume :: "'s op \<Rightarrow> 's op"

definition force_spec :: "'s scb \<Rightarrow> bool" where
  "force_spec c \<longleftrightarrow>
     (\<forall>f s. (\<exists>r. force_suspend c f s = (r, s)) \<or> force_suspend c f s = f s) \<and>
     (\<forall>f s. (\<exists>r. force_resume c f s = (r, s)) \<or> force_resume c f s = f s)"

lemma force_suspend_cases:
  assumes "force_spec c"
  obtains (kept) r where "force_suspend c f s = (r, s)" | (run) "force_suspend c f s = f s"
  using assms unfolding force_spec_def by blast

lemma force_resume_cases:
  assumes "force_spec c"
  obtains (kept) r where "force_resume c f s = (r, s)" | (run) "force_resume c f s = f s"
  using assms unfolding force_spec_def by blast

section \<open>Calls\<close>

definition readl :: "sapi \<Rightarrow> bank \<Rightarrow> u32 \<Rightarrow> 'a kstate_scheme \<Rightarrow> u32 \<times> 'a kstate_scheme" where
  "readl k b off s = (let v = mmio k (hist s) b off in (v, emit (Soc (MmioRead b off v)) s))"

definition writel :: "bank \<Rightarrow> u32 \<Rightarrow> u32 \<Rightarrow> 'a kstate_scheme \<Rightarrow> 'a kstate_scheme" where
  "writel b off v s = emit (Soc (MmioWrite b off v)) s"

definition regmap_update_bits :: "bank \<Rightarrow> u32 \<Rightarrow> u32 \<Rightarrow> u32 \<Rightarrow> 'a kstate_scheme \<Rightarrow> 'a kstate_scheme" where
  "regmap_update_bits b off msk v s = emit (Soc (RegmapUpdate b off msk v)) s"

definition regmap_write :: "bank \<Rightarrow> u32 \<Rightarrow> u32 \<Rightarrow> 'a kstate_scheme \<Rightarrow> 'a kstate_scheme" where
  "regmap_write b off v s = emit (Soc (RegmapWrite b off v)) s"

definition phy_enable :: "sapi \<Rightarrow> 'a kstate_scheme op" where
  "phy_enable k s = (let ret = phy_enable_ret k (hist s) in (ret, emit (Soc (PhyEnable ret)) s))"

definition phy_disable :: "sapi \<Rightarrow> 'a kstate_scheme op" where
  "phy_disable k s = (let ret = phy_disable_ret k (hist s) in (ret, emit (Soc (PhyDisable ret)) s))"

definition soc_clk_enable :: "sapi \<Rightarrow> soc_clk \<Rightarrow> 'a kstate_scheme op" where
  "soc_clk_enable k c s = (let ret = soc_clk_ret k (hist s) c in (ret, emit (Soc (SocClkEnable c ret)) s))"

definition soc_clk_set_rate :: "sapi \<Rightarrow> soc_clk \<Rightarrow> u32 \<Rightarrow> 'a kstate_scheme op" where
  "soc_clk_set_rate k c r s =
     (let ret = soc_clk_rate_ret k (hist s) c r in (ret, emit (Soc (SocClkSetRate c r ret)) s))"

text \<open>An absent reset line is the NULL pointer, for which the calls do nothing.\<close>

definition reset_control_assert :: "sapi \<Rightarrow> reset_line \<Rightarrow> kptr \<Rightarrow> 'a kstate_scheme op" where
  "reset_control_assert k l p s =
     (if p = NullPtr then (0, s)
      else let ret = reset_ret k (hist s) l in (ret, emit (Soc (ResetAssert l ret)) s))"

definition reset_control_deassert :: "sapi \<Rightarrow> reset_line \<Rightarrow> kptr \<Rightarrow> 'a kstate_scheme op" where
  "reset_control_deassert k l p s =
     (if p = NullPtr then (0, s)
      else let ret = reset_ret k (hist s) l in (ret, emit (Soc (ResetDeassert l ret)) s))"

section \<open>The register image\<close>

text \<open>
  A software reset: bit 1 of the common control register of the receiver, bit 24 of the channel control
  register of the imaging interface.
\<close>

fun resets :: "bank \<Rightarrow> u32 \<Rightarrow> u32 \<Rightarrow> bool" where
  "resets CSIS_REGS off v \<longleftrightarrow> off = 0x04 \<and> bit v 1"
| "resets ISI_REGS off v \<longleftrightarrow> off = 0x00 \<and> bit v 24"
| "resets _ off v \<longleftrightarrow> False"

type_synonym mmio_map = "bank \<times> u32 \<rightharpoonup> u32"

fun mmio_event :: "kevent \<Rightarrow> mmio_map \<Rightarrow> mmio_map" where
  "mmio_event (Soc (MmioWrite b off v)) m =
     (if resets b off v then (\<lambda>(b', off'). if b' = b then None else m (b', off')) else m((b, off) \<mapsto> v))"
| "mmio_event (Soc (RegmapUpdate b off msk v)) m =
     (case m (b, off) of None \<Rightarrow> m | Some w \<Rightarrow> m((b, off) \<mapsto> (w AND NOT msk) OR (v AND msk)))"
| "mmio_event (Soc (RegmapWrite b off v)) m = m((b, off) \<mapsto> v)"
| "mmio_event _ m = m"

definition mmio_image :: "kevent list \<Rightarrow> mmio_map" where
  "mmio_image h = fold mmio_event h Map.empty"

abbreviation regs :: "'a kstate_scheme \<Rightarrow> mmio_map" where
  "regs s \<equiv> mmio_image (hist s)"

lemma mmio_image_append [simp]: "mmio_image (h @ es) = fold mmio_event es (mmio_image h)"
  by (simp add: mmio_image_def)

text \<open>Bits of a register that read back what was written.\<close>

definition mmio_holds :: "sapi \<Rightarrow> bank \<Rightarrow> u32 \<Rightarrow> u32 \<Rightarrow> bool" where
  "mmio_holds k b off msk \<longleftrightarrow>
     (\<forall>h v. mmio_image h (b, off) = Some v \<longrightarrow> mmio k h b off AND msk = v AND msk)"

abbreviation (input) plain_reg :: "sapi \<Rightarrow> bank \<Rightarrow> u32 \<Rightarrow> bool" where
  "plain_reg k b off \<equiv> mmio_holds k b off (- 1)"

lemma mmio_holdsD:
  "mmio_holds k b off msk \<Longrightarrow> mmio_image h (b, off) = Some v \<Longrightarrow> mmio k h b off AND msk = v AND msk"
  by (simp add: mmio_holds_def)

lemma plain_reg_read:
  "plain_reg k b off \<Longrightarrow> mmio_image h (b, off) \<noteq> None \<Longrightarrow> mmio k h b off = the (mmio_image h (b, off))"
  by (auto dest: mmio_holdsD)

lemma fst_readl [simp]: "fst (readl k b off s) = mmio k (hist s) b off"
  by (simp add: readl_def Let_def)

lemma regs_readl [simp]: "regs (snd (readl k b off s)) = regs s"
  by (simp add: readl_def Let_def)

lemma regs_writel [simp]:
  "\<not> resets b off v \<Longrightarrow> regs (writel b off v s) = (regs s)((b, off) \<mapsto> v)"
  by (simp add: writel_def)

lemma more_readl [simp]: "kstate.more (snd (readl k b off s)) = kstate.more s"
  by (simp add: readl_def Let_def)

lemma more_writel [simp]: "kstate.more (writel b off v s) = kstate.more s"
  by (simp add: writel_def)

text \<open>
  A register read, changed by \<open>f\<close> and written back, as the drivers do it in three statements.
\<close>

definition modify_reg ::
  "sapi \<Rightarrow> bank \<Rightarrow> u32 \<Rightarrow> (u32 \<Rightarrow> u32) \<Rightarrow> 'a kstate_scheme \<Rightarrow> 'a kstate_scheme" where
  "modify_reg k b off f s = (let (val, s) = readl k b off s in writel b off (f val) s)"

lemma modify_reg_upd:
  "modify_reg k b off f s = s\<lparr>hist := hist s @
     [Soc (MmioRead b off (mmio k (hist s) b off)), Soc (MmioWrite b off (f (mmio k (hist s) b off)))]\<rparr>"
  by (simp add: modify_reg_def readl_def writel_def Let_def emit_def)

lemma regs_modify_reg [simp]:
  "\<not> resets b off (f (mmio k (hist s) b off)) \<Longrightarrow>
     regs (modify_reg k b off f s) = (regs s)((b, off) \<mapsto> f (mmio k (hist s) b off))"
  by (simp add: modify_reg_upd)

lemma regs_quiet [simp]:
  "regs (emit (Msleep n) s) = regs s" "regs (emit (Soc (Udelay u)) s) = regs s"
  "regs (emit NullDeref s) = regs s" "regs (emit (Soc (Mdelay u)) s) = regs s"
  "regs (emit (Soc DivByZero) s) = regs s" "regs (emit (UsleepRange a b) s) = regs s"
  by simp_all

lemma regs_update_bits [simp]:
  "regs (regmap_update_bits b off msk v s) =
     (case regs s (b, off) of None \<Rightarrow> regs s | Some w \<Rightarrow> (regs s)((b, off) \<mapsto> (w AND NOT msk) OR (v AND msk)))"
  by (simp add: regmap_update_bits_def)

lemma regs_regmap_write [simp]: "regs (regmap_write b off v s) = (regs s)((b, off) \<mapsto> v)"
  by (simp add: regmap_write_def)

lemma more_regmap_write [simp]: "kstate.more (regmap_write b off v s) = kstate.more s"
  by (simp add: regmap_write_def)

section \<open>Register fields\<close>

text \<open>The field of \<open>w\<close> bits from bit \<open>off\<close> on.\<close>

definition field :: "nat \<Rightarrow> nat \<Rightarrow> u32 \<Rightarrow> u32" where
  "field off w v = take_bit w (drop_bit off v)"

lemma bit_if [bit_simps]: "bit (if c then a else b) n \<longleftrightarrow> (if c then bit a n else bit b n)"
  by simp

lemma field_if: "field off w (if c then a else b) = (if c then field off w a else field off w b)"
  by simp

named_theorems field_simps \<open>fields of register expressions\<close>

lemma bit_field [bit_simps]: "bit (field off w v) i \<longleftrightarrow> i < w \<and> bit v (off + i)"
  by (auto simp: field_def bit_simps)

lemma field_or [field_simps]: "field off w (a OR b) = field off w a OR field off w b"
  by (rule bit_word_eqI) (auto simp: bit_simps)

lemma field_and: "field off w (a AND b) = field off w a AND field off w b"
  by (rule bit_word_eqI) (auto simp: bit_simps)

lemma field_push [field_simps]: "off + w \<le> 32 \<Longrightarrow> field off w (push_bit off v) = take_bit w v"
  by (rule bit_word_eqI) (auto simp: bit_simps)

lemma field_push_above [field_simps]: "off + w \<le> n \<Longrightarrow> field off w (push_bit n v) = 0"
  by (rule bit_word_eqI) (auto simp: bit_simps)

lemma take_bit_below [field_simps]: "(v :: u32) < 2 ^ m \<Longrightarrow> take_bit m v = v"
  by (simp add: take_bit_eq_self_iff_drop_bit_eq_0 drop_bit_eq_div div_word_less)

lemma word_below_bit: "(v :: u32) < 2 ^ m \<Longrightarrow> bit v i \<Longrightarrow> i < m"
  by (metis bit_take_bit_iff take_bit_below)

lemma field_push_below: "v < 2 ^ m \<Longrightarrow> n + m \<le> off \<Longrightarrow> field off w (push_bit n v) = 0"
  by (rule bit_word_eqI) (auto simp: bit_simps dest: word_below_bit)

lemma field_below: "v < 2 ^ m \<Longrightarrow> m \<le> off \<Longrightarrow> field off w v = 0"
  by (rule bit_word_eqI) (auto simp: bit_simps dest: word_below_bit)

text \<open>Clearing a mask clears the fields it covers and keeps those it does not meet.\<close>

lemma field_clear [field_simps]:
  assumes "field off w c = mask w" shows "field off w (a AND NOT c) = 0"
proof (rule bit_word_eqI)
  fix i
  assume "i < LENGTH(32)"
  then have "bit (field off w c) i \<longleftrightarrow> i < w" by (simp add: assms bit_simps)
  then show "bit (field off w (a AND NOT c)) i \<longleftrightarrow> bit (0 :: u32) i"
    by (auto simp: bit_simps)
qed

lemma field_keep [field_simps]:
  assumes "field off w c = 0" shows "field off w (a AND NOT c) = field off w a"
proof (rule bit_word_eqI)
  fix i
  have "\<not> bit (field off w c) i" by (simp add: assms)
  then show "bit (field off w (a AND NOT c)) i \<longleftrightarrow> bit (field off w a) i"
    by (auto simp: bit_simps dest: bit_imp_le_length)
qed

text \<open>A field of bits that read back.\<close>

lemma field_cong:
  assumes "a AND msk = b AND msk" and "field off w msk = mask w"
  shows "field off w a = field off w b"
proof -
  have "bit a (off + i) = bit b (off + i)" if "i < w" "off + i < 32" for i
  proof -
    have "bit (field off w msk) i" using that by (simp add: assms(2) bit_simps)
    then have "bit msk (off + i)" by (simp add: bit_simps)
    with arg_cong [OF assms(1), of "\<lambda>x. bit x (off + i)"] show ?thesis by (simp add: bit_simps)
  qed
  moreover have "off + i < 32" if "bit (v :: u32) (off + i)" for v i
    using bit_imp_le_length [OF that] by simp
  ultimately show ?thesis
    by (intro bit_word_eqI) (auto simp: bit_simps)
qed

section \<open>Clocks and the PHY supply\<close>

datatype soc_supply = PhySupply | SocClock soc_clk

fun soc_delta :: "soc_supply \<Rightarrow> kevent \<Rightarrow> int" where
  "soc_delta PhySupply (Soc (PhyEnable ret)) = (if ret = 0 then 1 else 0)"
| "soc_delta PhySupply (Soc (PhyDisable ret)) = (if ret = 0 then - 1 else 0)"
| "soc_delta (SocClock c) (Soc (SocClkEnable c' ret)) = (if c' = c \<and> ret = 0 then 1 else 0)"
| "soc_delta (SocClock c) (Soc (SocClkDisable c')) = (if c' = c then - 1 else 0)"
| "soc_delta _ _ = 0"

definition soc_level :: "soc_supply \<Rightarrow> 'a kstate_scheme \<Rightarrow> int" where
  "soc_level x s = balance (soc_delta x) (hist s)"

lemma soc_level_emit [simp]: "soc_level x (emit e s) = soc_level x s + soc_delta x e"
  by (simp add: soc_level_def)

lemma soc_level_cong: "hist s = hist s' \<Longrightarrow> soc_level x s = soc_level x s'"
  by (simp add: soc_level_def)

text \<open>The kernel answers enabling and disabling with zero or a negative code.\<close>

definition soc_answers :: "sapi \<Rightarrow> bool" where
  "soc_answers k \<longleftrightarrow> (\<forall>h. phy_enable_ret k h \<le> 0 \<and> phy_disable_ret k h \<le> 0 \<and> (\<forall>c. soc_clk_ret k h c \<le> 0))"

text \<open>Events that leave every level alone.\<close>

fun soc_level_free :: "kevent \<Rightarrow> bool" where
  "soc_level_free (Soc (PhyEnable _)) = False"
| "soc_level_free (Soc (PhyDisable _)) = False"
| "soc_level_free (Soc (SocClkEnable _ _)) = False"
| "soc_level_free (Soc (SocClkDisable _)) = False"
| "soc_level_free _ = True"

lemma soc_level_free [simp]: "soc_level_free e \<Longrightarrow> soc_delta x e = 0"
  by (cases "(x, e)" rule: soc_delta.cases) simp_all

lemma grows_soc_level: "grows soc_level_free s t \<Longrightarrow> soc_level x t = soc_level x s"
  unfolding soc_level_def by (erule grows_balance) simp

text \<open>
  The contract of the runtime-PM callbacks of such a driver: a successful resume takes every supply and clock
  that the device \<open>draws\<close> once, a successful suspend gives them back, and the events in \<open>idle\<close> leave the
  levels alone.
\<close>

locale soc_power =
  fixes env :: bool and lvl :: "'x \<Rightarrow> 'a kstate_scheme \<Rightarrow> int" and idle :: "kevent \<Rightarrow> bool"
    and draws :: "'a kstate_scheme \<Rightarrow> 'x \<Rightarrow> bool" and up down :: "'a kstate_scheme op"
  assumes up_level: "env \<Longrightarrow> up s = (0, s') \<Longrightarrow> lvl x s' = lvl x s + (if draws s x then 1 else 0)"
    and up_draws: "up s = (0, s') \<Longrightarrow> draws s' = draws s"
    and down_level: "env \<Longrightarrow> down s = (0, s') \<Longrightarrow> lvl x s' = lvl x s - (if draws s x then 1 else 0)"
    and idle_level: "grows idle s s' \<Longrightarrow> lvl x s' = lvl x s"
begin

lemma cycle:
  assumes env and "up s = (0, s1)" and "grows idle s1 s2" and "down s2 = (0, s3)" and "draws s2 = draws s1"
  shows "lvl x s3 = lvl x s"
  using up_level [OF assms(1,2)] up_draws [OF assms(2)] down_level [OF assms(1,4)] idle_level [OF assms(3)] assms(5)
  by simp

end

text \<open>The spin lock of a driver.\<close>

fun spin_delta :: "kevent \<Rightarrow> int" where
  "spin_delta (Soc SpinLock) = 1"
| "spin_delta (Soc SpinUnlock) = - 1"
| "spin_delta _ = 0"

section \<open>A concrete environment\<close>

text \<open>
  Registers that hold what was written, the self-clearing reset bit of the receiver apart, and are zero after
  a reset; calls that succeed; the device tree of a board with a two-lane sensor on pad 0.
\<close>

definition ideal_soc :: sapi where
  "ideal_soc = \<lparr>
     mmio = (\<lambda>h b off. case mmio_image h (b, off) of
         Some v \<Rightarrow> if b = CSIS_REGS \<and> off = 0x04 then v AND NOT 0x2 else v
       | None \<Rightarrow> 0),
     phy_get = (\<lambda>h. Obj),
     phy_enable_ret = (\<lambda>h. 0),
     phy_disable_ret = (\<lambda>h. 0),
     soc_clk_get = (\<lambda>h c. Obj),
     soc_clk_ret = (\<lambda>h c. 0),
     soc_clk_rate_ret = (\<lambda>h c r. 0),
     reset_ret = (\<lambda>h l. 0),
     syscon = (\<lambda>h n. Obj),
     ioremap = (\<lambda>h. Obj),
     irq_number = (\<lambda>h. 17),
     irq_request_ret = (\<lambda>h. 0),
     of_alias_id = (\<lambda>h n. 0),
     of_u32 = (\<lambda>h n. if n = ''bus-width'' then Some 4
       else if n = ''data-lanes'' then Some 2
       else if n = ''csis-hs-settle'' then Some 13
       else if n = ''csis-clk-settle'' then Some 2
       else None),
     of_bool = (\<lambda>h n. False),
     of_endpoint = (\<lambda>h. True),
     of_match = (\<lambda>h tab. if tab = [] then None else Some 0),
     of_phandle_ret = (\<lambda>h. 0),
     of_reset_nodes = (\<lambda>h. [(Some ''csi,soft-resetn'', Obj), (Some ''csi,clk-enable'', Obj),
       (Some ''csi,mipi-reset'', Obj)]),
     of_compat = (=),
     soc_kzalloc = (\<lambda>h. True),
     soc_pads_init_ret = (\<lambda>h. 0),
     media_remote_pad = (\<lambda>h i. if i = 0 then Some \<lparr>rp_index = 0, rp_is_subdev = True\<rparr> else None),
     debug_level = (\<lambda>h. 0)\<rparr>"

definition ideal_scb :: "'s scb" where
  "ideal_scb = \<lparr>force_suspend = (\<lambda>f s. f s), force_resume = (\<lambda>f s. f s)\<rparr>"

lemma ideal_scb_spec [simp]: "force_spec ideal_scb"
  by (simp add: force_spec_def ideal_scb_def)

lemma ideal_soc_holds [simp]:
  assumes "b \<noteq> CSIS_REGS \<or> off \<noteq> 0x04 \<or> msk AND 0x2 = 0" shows "mmio_holds ideal_soc b off msk"
proof -
  have "(v AND NOT 2) AND msk = v AND msk" if "msk AND 2 = 0" for v :: u32
  proof (rule bit_word_eqI)
    fix i
    assume "i < LENGTH(32)"
    moreover have "bit (msk AND 2) i = False" by (simp add: that)
    ultimately show "bit ((v AND NOT 2) AND msk) i \<longleftrightarrow> bit (v AND msk) i" by (auto simp: bit_simps)
  qed
  with assms show ?thesis by (auto simp: mmio_holds_def ideal_soc_def)
qed

end
