(* ===== verification/Csis_Data.thy ===== *)
theory Csis_Data
  imports Soc
begin

text \<open>
  Constants, tables and structures of the MIPI CSI-2 receiver driver
  (\<^verbatim>\<open>exercise-09-dec-21/camera/staging/media/imx/imx8-mipi-csi2-sam.c\<close>): the receiver between the sensors and the
  imaging interface of the i.MX8.  Names follow the source; only the constants the code uses appear.
\<close>

section \<open>Registers\<close>

abbreviation (input) MIPI_CSIS_VC0_PAD_SINK :: nat where
  "MIPI_CSIS_VC0_PAD_SINK \<equiv> 0"

abbreviation (input) MIPI_CSIS_VC1_PAD_SINK :: nat where
  "MIPI_CSIS_VC1_PAD_SINK \<equiv> 1"

abbreviation (input) MIPI_CSIS_VC2_PAD_SINK :: nat where
  "MIPI_CSIS_VC2_PAD_SINK \<equiv> 2"

abbreviation (input) MIPI_CSIS_VC3_PAD_SINK :: nat where
  "MIPI_CSIS_VC3_PAD_SINK \<equiv> 3"

abbreviation (input) MIPI_CSIS_VC0_PAD_SOURCE :: nat where
  "MIPI_CSIS_VC0_PAD_SOURCE \<equiv> 4"

abbreviation (input) MIPI_CSIS_VC1_PAD_SOURCE :: nat where
  "MIPI_CSIS_VC1_PAD_SOURCE \<equiv> 5"

abbreviation (input) MIPI_CSIS_VC2_PAD_SOURCE :: nat where
  "MIPI_CSIS_VC2_PAD_SOURCE \<equiv> 6"

abbreviation (input) MIPI_CSIS_VC3_PAD_SOURCE :: nat where
  "MIPI_CSIS_VC3_PAD_SOURCE \<equiv> 7"

abbreviation (input) MIPI_CSIS_VCX_PADS_NUM :: nat where
  "MIPI_CSIS_VCX_PADS_NUM \<equiv> 8"

abbreviation (input) MIPI_CSIS_DEF_PIX_WIDTH :: u32 where
  "MIPI_CSIS_DEF_PIX_WIDTH \<equiv> 1920"

abbreviation (input) MIPI_CSIS_DEF_PIX_HEIGHT :: u32 where
  "MIPI_CSIS_DEF_PIX_HEIGHT \<equiv> 1080"

abbreviation (input) MIPI_CSIS_CMN_CTRL :: u32 where
  "MIPI_CSIS_CMN_CTRL \<equiv> 0x4"

abbreviation (input) MIPI_CSIS_CMN_CTRL_UPDATE_SHADOW :: u32 where
  "MIPI_CSIS_CMN_CTRL_UPDATE_SHADOW \<equiv> 0x10000"

abbreviation (input) MIPI_CSIS_CMN_CTRL_HDR_MODE :: u32 where
  "MIPI_CSIS_CMN_CTRL_HDR_MODE \<equiv> 0x800"

abbreviation (input) MIPI_CSIS_CMN_CTRL_LANE_NR_OFFSET :: nat where
  "MIPI_CSIS_CMN_CTRL_LANE_NR_OFFSET \<equiv> 8"

abbreviation (input) MIPI_CSIS_CMN_CTRL_LANE_NR_MASK :: u32 where
  "MIPI_CSIS_CMN_CTRL_LANE_NR_MASK \<equiv> 0x300"

abbreviation (input) MIPI_CSIS_CMN_CTRL_UPDATE_SHADOW_CTRL :: u32 where
  "MIPI_CSIS_CMN_CTRL_UPDATE_SHADOW_CTRL \<equiv> 0x4"

abbreviation (input) MIPI_CSIS_CMN_CTRL_RESET :: u32 where
  "MIPI_CSIS_CMN_CTRL_RESET \<equiv> 0x2"

abbreviation (input) MIPI_CSIS_CMN_CTRL_ENABLE :: u32 where
  "MIPI_CSIS_CMN_CTRL_ENABLE \<equiv> 0x1"

abbreviation (input) MIPI_CSIS_CLK_CTRL :: u32 where
  "MIPI_CSIS_CLK_CTRL \<equiv> 0x8"

abbreviation (input) MIPI_CSIS_CLK_CTRL_CLKGATE_EN_MSK :: u32 where
  "MIPI_CSIS_CLK_CTRL_CLKGATE_EN_MSK \<equiv> 0xf0"

abbreviation (input) MIPI_CSIS_CLK_CTRL_WCLK_SRC :: u32 where
  "MIPI_CSIS_CLK_CTRL_WCLK_SRC \<equiv> 0x1"

abbreviation (input) MIPI_CSIS_INTMSK :: u32 where
  "MIPI_CSIS_INTMSK \<equiv> 0x10"

abbreviation (input) MIPI_CSIS_INTSRC :: u32 where
  "MIPI_CSIS_INTSRC \<equiv> 0x14"

abbreviation (input) MIPI_CSIS_INTSRC_EVEN_BEFORE :: u32 where
  "MIPI_CSIS_INTSRC_EVEN_BEFORE \<equiv> 0x80000000"

abbreviation (input) MIPI_CSIS_INTSRC_EVEN_AFTER :: u32 where
  "MIPI_CSIS_INTSRC_EVEN_AFTER \<equiv> 0x40000000"

abbreviation (input) MIPI_CSIS_INTSRC_EVEN :: u32 where
  "MIPI_CSIS_INTSRC_EVEN \<equiv> 0xc0000000"

abbreviation (input) MIPI_CSIS_INTSRC_ODD_BEFORE :: u32 where
  "MIPI_CSIS_INTSRC_ODD_BEFORE \<equiv> 0x20000000"

abbreviation (input) MIPI_CSIS_INTSRC_ODD_AFTER :: u32 where
  "MIPI_CSIS_INTSRC_ODD_AFTER \<equiv> 0x10000000"

abbreviation (input) MIPI_CSIS_INTSRC_NON_IMAGE_DATA :: u32 where
  "MIPI_CSIS_INTSRC_NON_IMAGE_DATA \<equiv> 0xf0000000"

abbreviation (input) MIPI_CSIS_INTSRC_FRAME_START :: u32 where
  "MIPI_CSIS_INTSRC_FRAME_START \<equiv> 0x1000000"

abbreviation (input) MIPI_CSIS_INTSRC_FRAME_END :: u32 where
  "MIPI_CSIS_INTSRC_FRAME_END \<equiv> 0x100000"

abbreviation (input) MIPI_CSIS_INTSRC_ERR_SOT_HS :: u32 where
  "MIPI_CSIS_INTSRC_ERR_SOT_HS \<equiv> 0x10000"

abbreviation (input) MIPI_CSIS_INTSRC_ERR_LOST_FS :: u32 where
  "MIPI_CSIS_INTSRC_ERR_LOST_FS \<equiv> 0x1000"

abbreviation (input) MIPI_CSIS_INTSRC_ERR_LOST_FE :: u32 where
  "MIPI_CSIS_INTSRC_ERR_LOST_FE \<equiv> 0x100"

abbreviation (input) MIPI_CSIS_INTSRC_ERR_OVER :: u32 where
  "MIPI_CSIS_INTSRC_ERR_OVER \<equiv> 0x10"

abbreviation (input) MIPI_CSIS_INTSRC_ERR_ECC :: u32 where
  "MIPI_CSIS_INTSRC_ERR_ECC \<equiv> 0x4"

abbreviation (input) MIPI_CSIS_INTSRC_ERR_CRC :: u32 where
  "MIPI_CSIS_INTSRC_ERR_CRC \<equiv> 0x2"

abbreviation (input) MIPI_CSIS_INTSRC_ERR_UNKNOWN :: u32 where
  "MIPI_CSIS_INTSRC_ERR_UNKNOWN \<equiv> 0x1"

abbreviation (input) MIPI_CSIS_INTSRC_ERRORS :: u32 where
  "MIPI_CSIS_INTSRC_ERRORS \<equiv> 0xfffff"

abbreviation (input) MIPI_CSIS_DPHYCTRL :: u32 where
  "MIPI_CSIS_DPHYCTRL \<equiv> 0x24"

abbreviation (input) MIPI_CSIS_DPHYCTRL_HSS_MASK :: u32 where
  "MIPI_CSIS_DPHYCTRL_HSS_MASK \<equiv> 0xff000000"

abbreviation (input) MIPI_CSIS_DPHYCTRL_ENABLE :: u32 where
  "MIPI_CSIS_DPHYCTRL_ENABLE \<equiv> 0x1f"

abbreviation (input) MIPI_CSIS_DPHYBCTRL_L :: u32 where
  "MIPI_CSIS_DPHYBCTRL_L \<equiv> 0x30"

abbreviation (input) MIPI_CSIS_DPHYBCTRL_H :: u32 where
  "MIPI_CSIS_DPHYBCTRL_H \<equiv> 0x34"

abbreviation (input) MIPI_CSIS_ISPCONFIG_CH0 :: u32 where
  "MIPI_CSIS_ISPCONFIG_CH0 \<equiv> 0x40"

abbreviation (input) MIPI_CSIS_ISPCONFIG_CH0_PIXEL_MODE_MASK :: u32 where
  "MIPI_CSIS_ISPCONFIG_CH0_PIXEL_MODE_MASK \<equiv> 0x3000"

abbreviation (input) MIPI_CSIS_ISPCONFIG_CH0_PIXEL_MODE_SHIFT :: nat where
  "MIPI_CSIS_ISPCONFIG_CH0_PIXEL_MODE_SHIFT \<equiv> 12"

abbreviation (input) MIPI_CSIS_ISPCONFIG_CH1 :: u32 where
  "MIPI_CSIS_ISPCONFIG_CH1 \<equiv> 0x50"

abbreviation (input) MIPI_CSIS_ISPCONFIG_CH2 :: u32 where
  "MIPI_CSIS_ISPCONFIG_CH2 \<equiv> 0x60"

abbreviation (input) MIPI_CSIS_ISPCONFIG_CH3 :: u32 where
  "MIPI_CSIS_ISPCONFIG_CH3 \<equiv> 0x70"

abbreviation (input) PIXEL_MODE_DUAL_PIXEL_MODE :: u32 where
  "PIXEL_MODE_DUAL_PIXEL_MODE \<equiv> 0x1"

abbreviation (input) MIPI_CSIS_ISPCFG_ALIGN_32BIT :: u32 where
  "MIPI_CSIS_ISPCFG_ALIGN_32BIT \<equiv> 0x800"

abbreviation (input) MIPI_CSIS_ISPCFG_FMT_YCBCR422_8BIT :: u32 where
  "MIPI_CSIS_ISPCFG_FMT_YCBCR422_8BIT \<equiv> 0x78"

abbreviation (input) MIPI_CSIS_ISPCFG_FMT_RAW8 :: u32 where
  "MIPI_CSIS_ISPCFG_FMT_RAW8 \<equiv> 0xa8"

abbreviation (input) MIPI_CSIS_ISPCFG_FMT_RAW10 :: u32 where
  "MIPI_CSIS_ISPCFG_FMT_RAW10 \<equiv> 0xac"

abbreviation (input) MIPI_CSIS_ISPCFG_FMT_RAW12 :: u32 where
  "MIPI_CSIS_ISPCFG_FMT_RAW12 \<equiv> 0xb0"

abbreviation (input) MIPI_CSIS_ISPCFG_FMT_RGB888 :: u32 where
  "MIPI_CSIS_ISPCFG_FMT_RGB888 \<equiv> 0x90"

abbreviation (input) MIPI_CSIS_ISPCFG_FMT_MASK :: u32 where
  "MIPI_CSIS_ISPCFG_FMT_MASK \<equiv> 0xfc"

abbreviation (input) MIPI_CSIS_ISPRESOL_CH0 :: u32 where
  "MIPI_CSIS_ISPRESOL_CH0 \<equiv> 0x44"

abbreviation (input) MIPI_CSIS_ISPRESOL_CH1 :: u32 where
  "MIPI_CSIS_ISPRESOL_CH1 \<equiv> 0x54"

abbreviation (input) MIPI_CSIS_ISPRESOL_CH2 :: u32 where
  "MIPI_CSIS_ISPRESOL_CH2 \<equiv> 0x64"

abbreviation (input) MIPI_CSIS_ISPRESOL_CH3 :: u32 where
  "MIPI_CSIS_ISPRESOL_CH3 \<equiv> 0x74"

abbreviation (input) MIPI_CSIS_ISPSYNC_CH0 :: u32 where
  "MIPI_CSIS_ISPSYNC_CH0 \<equiv> 0x48"

abbreviation (input) MIPI_CSIS_ISPSYNC_HSYNC_LINTV_OFFSET :: nat where
  "MIPI_CSIS_ISPSYNC_HSYNC_LINTV_OFFSET \<equiv> 18"

abbreviation (input) MIPI_CSIS_ISPSYNC_VSYNC_SINTV_OFFSET :: nat where
  "MIPI_CSIS_ISPSYNC_VSYNC_SINTV_OFFSET \<equiv> 12"

abbreviation (input) MIPI_CSIS_ISPSYNC_VSYNC_EINTV_OFFSET :: nat where
  "MIPI_CSIS_ISPSYNC_VSYNC_EINTV_OFFSET \<equiv> 0"

abbreviation (input) MIPI_CSIS_PKTDATA_ODD :: u32 where
  "MIPI_CSIS_PKTDATA_ODD \<equiv> 0x2000"

abbreviation (input) MIPI_CSIS_PKTDATA_EVEN :: u32 where
  "MIPI_CSIS_PKTDATA_EVEN \<equiv> 0x3000"

abbreviation (input) MIPI_CSIS_PKTDATA_SIZE :: u32 where
  "MIPI_CSIS_PKTDATA_SIZE \<equiv> 4096"

abbreviation (input) DEFAULT_SCLK_CSIS_FREQ :: u32 where
  "DEFAULT_SCLK_CSIS_FREQ \<equiv> 166000000"

abbreviation (input) DISP_MIX_GASKET_0_CTRL :: u32 where
  "DISP_MIX_GASKET_0_CTRL \<equiv> 0x0"

abbreviation (input) GASKET_0_CTRL_DATA_TYPE_YUV422_8 :: u32 where
  "GASKET_0_CTRL_DATA_TYPE_YUV422_8 \<equiv> 0x1e"

abbreviation (input) GASKET_0_CTRL_DATA_TYPE_RGB888 :: u32 where
  "GASKET_0_CTRL_DATA_TYPE_RGB888 \<equiv> 0x24"

abbreviation (input) GASKET_0_CTRL_DATA_TYPE_RAW8 :: u32 where
  "GASKET_0_CTRL_DATA_TYPE_RAW8 \<equiv> 0x2a"

abbreviation (input) GASKET_0_CTRL_DATA_TYPE_RAW10 :: u32 where
  "GASKET_0_CTRL_DATA_TYPE_RAW10 \<equiv> 0x2b"

abbreviation (input) GASKET_0_CTRL_DATA_TYPE_RAW12 :: u32 where
  "GASKET_0_CTRL_DATA_TYPE_RAW12 \<equiv> 0x2c"

abbreviation (input) GASKET_0_CTRL_DUAL_COMP_ENABLE :: u32 where
  "GASKET_0_CTRL_DUAL_COMP_ENABLE \<equiv> 0x2"

abbreviation (input) GASKET_0_CTRL_ENABLE :: u32 where
  "GASKET_0_CTRL_ENABLE \<equiv> 0x1"

abbreviation (input) DISP_MIX_GASKET_0_HSIZE :: u32 where
  "DISP_MIX_GASKET_0_HSIZE \<equiv> 0x4"

abbreviation (input) DISP_MIX_GASKET_0_VSIZE :: u32 where
  "DISP_MIX_GASKET_0_VSIZE \<equiv> 0x8"

definition MIPI_CSIS_CLK_CTRL_CLKGATE_TRAIL_CH0 :: "u32 \<Rightarrow> u32" where
  "MIPI_CSIS_CLK_CTRL_CLKGATE_TRAIL_CH0 x = push_bit 16 x"

definition GASKET_0_CTRL_DATA_TYPE :: "u32 \<Rightarrow> u32" where
  "GASKET_0_CTRL_DATA_TYPE x = push_bit 8 (x AND 0x3f)"

abbreviation (input) MEDIA_PAD_FL_SINK :: u32 where
  "MEDIA_PAD_FL_SINK \<equiv> 0x1"

abbreviation (input) MEDIA_PAD_FL_SOURCE :: u32 where
  "MEDIA_PAD_FL_SOURCE \<equiv> 0x2"

section \<open>Formats and events\<close>

record csis_pix_format =
  pix_width_alignment :: u32
  pf_code :: u32
  pf_fmt_reg :: u32
  data_alignment :: u8

text \<open>Fields that an initialiser leaves out are zero.\<close>

definition pix_format_entry :: "u32 \<Rightarrow> u32 \<Rightarrow> u8 \<Rightarrow> csis_pix_format" where
  "pix_format_entry c r a = \<lparr>pix_width_alignment = 0, pf_code = c, pf_fmt_reg = r, data_alignment = a\<rparr>"

definition mipi_csis_formats :: "csis_pix_format list" where
  "mipi_csis_formats = [
     pix_format_entry MEDIA_BUS_FMT_YUYV8_2X8 MIPI_CSIS_ISPCFG_FMT_YCBCR422_8BIT 16,
     pix_format_entry MEDIA_BUS_FMT_RGB888_1X24 MIPI_CSIS_ISPCFG_FMT_RGB888 24,
     pix_format_entry MEDIA_BUS_FMT_UYVY8_2X8 MIPI_CSIS_ISPCFG_FMT_YCBCR422_8BIT 16,
     pix_format_entry MEDIA_BUS_FMT_VYUY8_2X8 MIPI_CSIS_ISPCFG_FMT_YCBCR422_8BIT 16,
     pix_format_entry MEDIA_BUS_FMT_SBGGR8_1X8 MIPI_CSIS_ISPCFG_FMT_RAW8 8,
     pix_format_entry MEDIA_BUS_FMT_SGBRG8_1X8 MIPI_CSIS_ISPCFG_FMT_RAW8 8,
     pix_format_entry MEDIA_BUS_FMT_SGRBG8_1X8 MIPI_CSIS_ISPCFG_FMT_RAW8 8,
     pix_format_entry MEDIA_BUS_FMT_SRGGB8_1X8 MIPI_CSIS_ISPCFG_FMT_RAW8 8,
     pix_format_entry MEDIA_BUS_FMT_SBGGR10_1X10 MIPI_CSIS_ISPCFG_FMT_RAW10 16,
     pix_format_entry MEDIA_BUS_FMT_SGBRG10_1X10 MIPI_CSIS_ISPCFG_FMT_RAW10 16,
     pix_format_entry MEDIA_BUS_FMT_SGRBG10_1X10 MIPI_CSIS_ISPCFG_FMT_RAW10 16,
     pix_format_entry MEDIA_BUS_FMT_SRGGB10_1X10 MIPI_CSIS_ISPCFG_FMT_RAW10 16,
     pix_format_entry MEDIA_BUS_FMT_SBGGR12_1X12 MIPI_CSIS_ISPCFG_FMT_RAW12 16,
     pix_format_entry MEDIA_BUS_FMT_SGBRG12_1X12 MIPI_CSIS_ISPCFG_FMT_RAW12 16,
     pix_format_entry MEDIA_BUS_FMT_SGRBG12_1X12 MIPI_CSIS_ISPCFG_FMT_RAW12 16,
     pix_format_entry MEDIA_BUS_FMT_SRGGB12_1X12 MIPI_CSIS_ISPCFG_FMT_RAW12 16,
     pix_format_entry MEDIA_BUS_FMT_Y8_1X8 MIPI_CSIS_ISPCFG_FMT_RAW8 8,
     pix_format_entry MEDIA_BUS_FMT_Y10_1X10 MIPI_CSIS_ISPCFG_FMT_RAW10 16,
     pix_format_entry MEDIA_BUS_FMT_Y12_1X12 MIPI_CSIS_ISPCFG_FMT_RAW12 16]"

record mipi_csis_event =
  ev_mask :: u32
  ev_name :: string
  ev_counter :: u32

definition event_entry :: "u32 \<Rightarrow> string \<Rightarrow> mipi_csis_event" where
  "event_entry m n = \<lparr>ev_mask = m, ev_name = n, ev_counter = 0\<rparr>"

definition mipi_csis_events :: "mipi_csis_event list" where
  "mipi_csis_events = [
     event_entry MIPI_CSIS_INTSRC_ERR_SOT_HS ''SOT Error'',
     event_entry MIPI_CSIS_INTSRC_ERR_LOST_FS ''Lost Frame Start Error'',
     event_entry MIPI_CSIS_INTSRC_ERR_LOST_FE ''Lost Frame End Error'',
     event_entry MIPI_CSIS_INTSRC_ERR_OVER ''FIFO Overflow Error'',
     event_entry MIPI_CSIS_INTSRC_ERR_ECC ''ECC Error'',
     event_entry MIPI_CSIS_INTSRC_ERR_CRC ''CRC Error'',
     event_entry MIPI_CSIS_INTSRC_ERR_UNKNOWN ''Unknown Error'',
     event_entry MIPI_CSIS_INTSRC_EVEN_BEFORE ''Non-image data before even frame'',
     event_entry MIPI_CSIS_INTSRC_EVEN_AFTER ''Non-image data after even frame'',
     event_entry MIPI_CSIS_INTSRC_ODD_BEFORE ''Non-image data before odd frame'',
     event_entry MIPI_CSIS_INTSRC_ODD_AFTER ''Non-image data after odd frame'',
     event_entry MIPI_CSIS_INTSRC_FRAME_START ''Frame Start'',
     event_entry MIPI_CSIS_INTSRC_FRAME_END ''Frame End'']"

definition MIPI_CSIS_NUM_EVENTS :: nat where
  "MIPI_CSIS_NUM_EVENTS = length mipi_csis_events"

section \<open>The driver structure\<close>

text \<open>The one PHY reset function of the match table.\<close>

datatype phy_reset = Mx8mn

text \<open>
  \<^verbatim>\<open>struct csi_state\<close>: \<open>cs_csis_fmt\<close> is the pointer into the format table, \<open>cs_pkt_data\<close> the buffer for
  non-image data and \<open>cs_pkt_len\<close> its length, \<open>cs_pads\<close> the flags of the pads, \<open>cs_num_pads\<close> the number of pads
  registered with the entity.  The remote sub-device, a separate driver, is the field \<open>cs_remote\<close>.
\<close>

record 'r csi_state = kstate +
  cs_index :: u8
  cs_regs :: kptr
  cs_mipi_clk :: kptr
  cs_disp_axi :: kptr
  cs_disp_apb :: kptr
  cs_irq :: int
  cs_clk_frequency :: u32
  cs_hs_settle :: u32
  cs_clk_settle :: u32
  cs_num_lanes :: u32
  cs_max_num_lanes :: u32
  cs_wclk_ext :: bool
  cs_csis_fmt :: "csis_pix_format option"
  cs_format :: v4l2_mbus_framefmt
  cs_pkt_data :: "nat option"
  cs_pkt_len :: u32
  cs_events :: "mipi_csis_event list"
  cs_mipi_phy_regulator :: kptr
  cs_gasket :: kptr
  cs_mix_gpr :: kptr
  cs_soft_resetn :: kptr
  cs_clk_enable :: kptr
  cs_mipi_reset :: kptr
  cs_phy_reset_fn :: "phy_reset option"
  cs_hdr :: bool
  cs_pads :: "u32 list"
  cs_num_pads :: nat
  cs_remote :: 'r

text \<open>Private ioctl commands and the argument of the format command.\<close>

abbreviation (input) VVCSIOC_RESET :: u32 where "VVCSIOC_RESET \<equiv> 0x100"

abbreviation (input) VVCSIOC_POWERON :: u32 where "VVCSIOC_POWERON \<equiv> 0x101"

abbreviation (input) VVCSIOC_POWEROFF :: u32 where "VVCSIOC_POWEROFF \<equiv> 0x102"

abbreviation (input) VVCSIOC_STREAMON :: u32 where "VVCSIOC_STREAMON \<equiv> 0x103"

abbreviation (input) VVCSIOC_STREAMOFF :: u32 where "VVCSIOC_STREAMOFF \<equiv> 0x104"

abbreviation (input) VVCSIOC_S_FMT :: u32 where "VVCSIOC_S_FMT \<equiv> 0x105"

abbreviation (input) VVCSIOC_S_HDR :: u32 where "VVCSIOC_S_HDR \<equiv> 0x106"

abbreviation (input) VIDIOC_QUERYCAP :: u32 where "VIDIOC_QUERYCAP \<equiv> 0x80685600"

record csi_sam_format =
  sam_format :: "64 word"
  sam_width :: u32
  sam_height :: u32

section \<open>The format table\<close>

definition find_csis_format :: "u32 \<Rightarrow> csis_pix_format option" where
  "find_csis_format code = find (\<lambda>f. code = pf_code f) mipi_csis_formats"

lemma formats_distinct: "distinct (map pf_code mipi_csis_formats)"
  by (simp add: mipi_csis_formats_def pix_format_entry_def)

lemma find_csis_format_Some:
  "find_csis_format c = Some f \<longleftrightarrow> f \<in> set mipi_csis_formats \<and> pf_code f = c"
proof
  show "f \<in> set mipi_csis_formats \<and> pf_code f = c" if "find_csis_format c = Some f"
    using that by (auto simp: find_csis_format_def find_Some_iff)
  assume f: "f \<in> set mipi_csis_formats \<and> pf_code f = c"
  then obtain g where g: "find_csis_format c = Some g"
    by (cases "find_csis_format c") (auto simp: find_csis_format_def find_None_iff)
  then have "g \<in> set mipi_csis_formats" and "pf_code g = pf_code f"
    using f by (auto simp: find_csis_format_def find_Some_iff)
  then have "g = f"
    using f formats_distinct by (auto dest: eq_key_imp_eq_value simp: distinct_map inj_on_def)
  with g show "find_csis_format c = Some f" by simp
qed

lemma find_csis_format_None: "find_csis_format c = None \<longleftrightarrow> c \<notin> pf_code ` set mipi_csis_formats"
  by (auto simp: find_csis_format_def find_None_iff)

text \<open>What the register programming relies on for an entry of the table.\<close>

definition format_ok :: "csis_pix_format \<Rightarrow> bool" where
  "format_ok f \<longleftrightarrow> pf_fmt_reg f \<in> {MIPI_CSIS_ISPCFG_FMT_YCBCR422_8BIT, MIPI_CSIS_ISPCFG_FMT_RAW8,
     MIPI_CSIS_ISPCFG_FMT_RAW10, MIPI_CSIS_ISPCFG_FMT_RAW12, MIPI_CSIS_ISPCFG_FMT_RGB888} \<and>
     data_alignment f \<noteq> 32"

lemma formats_ok: "f \<in> set mipi_csis_formats \<Longrightarrow> format_ok f"
  by (auto simp: mipi_csis_formats_def pix_format_entry_def format_ok_def)

end
