(* ===== verification/Csis_Hw.thy ===== *)
theory Csis_Hw
  imports Csis_Data
begin

text \<open>
  The register programming of the receiver: interrupts, reset, D-PHY lanes, pixel format and resolution, the
  gasket towards the imaging interface, and the sequences that start and stop a stream.  The lemmas compute
  the registers these sequences leave behind.  A register that is read, changed in a local variable and
  written back is a \<open>modify_reg\<close>.
\<close>

section \<open>Interrupts and reset\<close>

definition mipi_csis_clean_irq :: "sapi \<Rightarrow> 'r csi_state \<Rightarrow> 'r csi_state" where
  "mipi_csis_clean_irq k s =
     (let s = modify_reg k CSIS_REGS MIPI_CSIS_INTSRC (\<lambda>status. status) s
      in modify_reg k CSIS_REGS MIPI_CSIS_INTMSK (\<lambda>status. status) s)"

definition mipi_csis_enable_interrupts :: "sapi \<Rightarrow> bool \<Rightarrow> 'r csi_state \<Rightarrow> 'r csi_state" where
  "mipi_csis_enable_interrupts k on s =
     (let s = mipi_csis_clean_irq k s
      in modify_reg k CSIS_REGS MIPI_CSIS_INTMSK
           (\<lambda>val. if on then val OR 0x0FFFFF1F else val AND NOT 0x0FFFFF1F) s)"

definition mipi_csis_sw_reset :: "sapi \<Rightarrow> 'r csi_state \<Rightarrow> 'r csi_state" where
  "mipi_csis_sw_reset k s =
     (let s = modify_reg k CSIS_REGS MIPI_CSIS_CMN_CTRL (\<lambda>val. val OR MIPI_CSIS_CMN_CTRL_RESET) s
      in emit (Soc (Udelay 20)) s)"

section \<open>PHY\<close>

definition mipi_csis_phy_init :: "sapi \<Rightarrow> 'r csi_state op" where
  "mipi_csis_phy_init k s =
     (let s = s\<lparr>cs_mipi_phy_regulator := phy_get k (hist s)\<rparr>
      in if IS_ERR (cs_mipi_phy_regulator s) then (PTR_ERR (cs_mipi_phy_regulator s), s)
      else (0, emit (Soc (PhySetVoltage 1000000 1000000)) s))"

definition mipi_csis_phy_reset_mx8mn :: "sapi \<Rightarrow> 'r csi_state \<Rightarrow> 'r csi_state" where
  "mipi_csis_phy_reset_mx8mn k s =
     (let reset = cs_mipi_reset s;
          s = snd (reset_control_assert k MIPI_RESET reset s);
          s = emit (UsleepRange 10 20) s;
          s = snd (reset_control_deassert k MIPI_RESET reset s);
          s = emit (UsleepRange 10 20) s
      in if cs_mix_gpr s \<noteq> NullPtr then writel MIX_GPR 0x138 0x8d8360 s else s)"

text \<open>Calling through the function pointer of the match table.\<close>

fun phy_reset_call :: "sapi \<Rightarrow> phy_reset \<Rightarrow> 'r csi_state \<Rightarrow> 'r csi_state" where
  "phy_reset_call k Mx8mn s = mipi_csis_phy_reset_mx8mn k s"

text \<open>
  The shift \<^verbatim>\<open>1 << (num_lanes + 1)\<close> is defined in C for up to 29 lanes; probe bounds the number of lanes by
  the width of the bus.
\<close>

definition mipi_csis_system_enable :: "sapi \<Rightarrow> bool \<Rightarrow> 'r csi_state \<Rightarrow> 'r csi_state" where
  "mipi_csis_system_enable k on s =
     (let s = modify_reg k CSIS_REGS MIPI_CSIS_CMN_CTRL
            (\<lambda>val. if on then val OR MIPI_CSIS_CMN_CTRL_ENABLE else val AND NOT MIPI_CSIS_CMN_CTRL_ENABLE) s;
          msk = push_bit (unat (cs_num_lanes s + 1)) 1 - 1
      in modify_reg k CSIS_REGS MIPI_CSIS_DPHYCTRL
           (\<lambda>val. let val = val AND NOT MIPI_CSIS_DPHYCTRL_ENABLE
                  in if on then val OR (msk AND MIPI_CSIS_DPHYCTRL_ENABLE) else val) s)"

section \<open>Format and parameters\<close>

definition mipi_csis_set_format_locked :: "sapi \<Rightarrow> csis_pix_format \<Rightarrow> 'r csi_state \<Rightarrow> 'r csi_state" where
  "mipi_csis_set_format_locked k fmt s =
     (let mf = cs_format s;
          s = modify_reg k CSIS_REGS MIPI_CSIS_ISPCONFIG_CH0
            (\<lambda>val. (val AND NOT MIPI_CSIS_ISPCFG_FMT_MASK) OR pf_fmt_reg fmt) s;
          s = modify_reg k CSIS_REGS MIPI_CSIS_ISPCONFIG_CH0
            (\<lambda>val. let val = val AND NOT MIPI_CSIS_ISPCONFIG_CH0_PIXEL_MODE_MASK
                   in if pf_fmt_reg fmt = MIPI_CSIS_ISPCFG_FMT_YCBCR422_8BIT
                      then val OR push_bit MIPI_CSIS_ISPCONFIG_CH0_PIXEL_MODE_SHIFT PIXEL_MODE_DUAL_PIXEL_MODE
                      else val) s;
          val = fmt_width mf OR push_bit 16 (fmt_height mf);
          s = writel CSIS_REGS MIPI_CSIS_ISPRESOL_CH0 val s
      in if cs_hdr s
         then let s = writel CSIS_REGS MIPI_CSIS_ISPRESOL_CH1 val s;
                  s = writel CSIS_REGS MIPI_CSIS_ISPRESOL_CH2 val s;
                  s = writel CSIS_REGS MIPI_CSIS_ISPRESOL_CH3 val s;
                  val = pf_fmt_reg fmt;
                  s = writel CSIS_REGS MIPI_CSIS_ISPCONFIG_CH1 (val OR 1) s;
                  s = writel CSIS_REGS MIPI_CSIS_ISPCONFIG_CH2 (val OR 2) s
              in writel CSIS_REGS MIPI_CSIS_ISPCONFIG_CH3 (val OR 3) s
         else s)"

definition mipi_csis_set_hsync_settle :: "sapi \<Rightarrow> 'r csi_state \<Rightarrow> 'r csi_state" where
  "mipi_csis_set_hsync_settle k s =
     modify_reg k CSIS_REGS MIPI_CSIS_DPHYCTRL
       (\<lambda>val. (val AND NOT MIPI_CSIS_DPHYCTRL_HSS_MASK) OR
              (push_bit 24 (cs_hs_settle s) OR push_bit 22 (cs_clk_settle s))) s"

text \<open>\<^verbatim>\<open>state->csis_fmt\<close> is dereferenced after the first register write.\<close>

definition mipi_csis_set_params :: "sapi \<Rightarrow> 'r csi_state \<Rightarrow> 'r csi_state" where
  "mipi_csis_set_params k s =
     (let lanes = cs_num_lanes s;
          s = modify_reg k CSIS_REGS MIPI_CSIS_CMN_CTRL
            (\<lambda>val. let val = val AND NOT MIPI_CSIS_CMN_CTRL_LANE_NR_MASK;
                       val = val OR push_bit MIPI_CSIS_CMN_CTRL_LANE_NR_OFFSET (lanes - 1)
                   in val OR MIPI_CSIS_CMN_CTRL_HDR_MODE) s
      in case cs_csis_fmt s of
           None \<Rightarrow> emit NullDeref s
         | Some fmt \<Rightarrow>
      let s = mipi_csis_set_format_locked k fmt s;
          s = mipi_csis_set_hsync_settle k s;
          s = modify_reg k CSIS_REGS MIPI_CSIS_ISPCONFIG_CH0
            (\<lambda>val. if data_alignment fmt = 32 then val OR MIPI_CSIS_ISPCFG_ALIGN_32BIT
                   else val AND NOT MIPI_CSIS_ISPCFG_ALIGN_32BIT) s;
          val = (push_bit MIPI_CSIS_ISPSYNC_HSYNC_LINTV_OFFSET 0 OR
                 push_bit MIPI_CSIS_ISPSYNC_VSYNC_SINTV_OFFSET 0 OR
                 push_bit MIPI_CSIS_ISPSYNC_VSYNC_EINTV_OFFSET 0);
          s = writel CSIS_REGS MIPI_CSIS_ISPSYNC_CH0 val s;
          wclk_ext = cs_wclk_ext s;
          s = modify_reg k CSIS_REGS MIPI_CSIS_CLK_CTRL
            (\<lambda>val. let val = val AND NOT MIPI_CSIS_CLK_CTRL_WCLK_SRC;
                       val = (if wclk_ext then val OR MIPI_CSIS_CLK_CTRL_WCLK_SRC else val);
                       val = val OR MIPI_CSIS_CLK_CTRL_CLKGATE_TRAIL_CH0 15
                   in val AND NOT MIPI_CSIS_CLK_CTRL_CLKGATE_EN_MSK) s;
          s = writel CSIS_REGS MIPI_CSIS_DPHYBCTRL_L 0x1f4 s;
          s = writel CSIS_REGS MIPI_CSIS_DPHYBCTRL_H 0 s;
          hdr = cs_hdr s
      in modify_reg k CSIS_REGS MIPI_CSIS_CMN_CTRL
           (\<lambda>val. let val = val OR (MIPI_CSIS_CMN_CTRL_UPDATE_SHADOW OR MIPI_CSIS_CMN_CTRL_UPDATE_SHADOW_CTRL)
                  in if hdr then val OR MIPI_CSIS_CMN_CTRL_HDR_MODE OR 0xE0000 else val) s)"

section \<open>Clocks and resets\<close>

definition mipi_csis_clk_enable :: "sapi \<Rightarrow> 'r csi_state op" where
  "mipi_csis_clk_enable k s = run_steps [
     soc_clk_enable k MIPI_CLK,
     soc_clk_enable k DISP_AXI,
     soc_clk_enable k DISP_APB] s"

definition mipi_csis_clk_disable :: "'r csi_state \<Rightarrow> 'r csi_state" where
  "mipi_csis_clk_disable s =
     emit (Soc (SocClkDisable DISP_APB)) (emit (Soc (SocClkDisable DISP_AXI))
       (emit (Soc (SocClkDisable MIPI_CLK)) s))"

definition mipi_csis_clk_get :: "sapi \<Rightarrow> 'r csi_state op" where
  "mipi_csis_clk_get k s =
     (let s = s\<lparr>cs_mipi_clk := soc_clk_get k (hist s) MIPI_CLK\<rparr>
      in if IS_ERR (cs_mipi_clk s) then (- ENODEV, s)
      else let s = s\<lparr>cs_disp_axi := soc_clk_get k (hist s) DISP_AXI\<rparr>
      in if IS_ERR (cs_disp_axi s) then (- ENODEV, s)
      else let s = s\<lparr>cs_disp_apb := soc_clk_get k (hist s) DISP_APB\<rparr>
      in if IS_ERR (cs_disp_apb s) then (- ENODEV, s)
      else if cs_clk_frequency s \<noteq> 0
      then let (ret, s) = soc_clk_set_rate k MIPI_CLK (cs_clk_frequency s) s
           in if ret < 0 then (- EINVAL, s) else (0, s)
      else (0, s))"

definition disp_mix_sft_rstn :: "sapi \<Rightarrow> kptr \<Rightarrow> bool \<Rightarrow> 'r csi_state op" where
  "disp_mix_sft_rstn k reset enable s =
     (if reset = NullPtr then (0, s)
      else if enable then reset_control_assert k SOFT_RESETN reset s
      else reset_control_deassert k SOFT_RESETN reset s)"

definition disp_mix_clks_enable :: "sapi \<Rightarrow> kptr \<Rightarrow> bool \<Rightarrow> 'r csi_state op" where
  "disp_mix_clks_enable k reset enable s =
     (if reset = NullPtr then (0, s)
      else if enable then reset_control_assert k CLK_ENABLE reset s
      else reset_control_deassert k CLK_ENABLE reset s)"

section \<open>Gasket\<close>

text \<open>The switch of \<^verbatim>\<open>disp_mix_gasket_config\<close>: the MIPI data type of a code.\<close>

definition gasket_data_type :: "u32 \<Rightarrow> u32 option" where
  "gasket_data_type code =
     (if code = MEDIA_BUS_FMT_RGB888_1X24 then Some GASKET_0_CTRL_DATA_TYPE_RGB888
      else if code \<in> set [MEDIA_BUS_FMT_YUYV8_2X8, MEDIA_BUS_FMT_YVYU8_2X8, MEDIA_BUS_FMT_UYVY8_2X8,
        MEDIA_BUS_FMT_VYUY8_2X8] then Some GASKET_0_CTRL_DATA_TYPE_YUV422_8
      else if code \<in> set [MEDIA_BUS_FMT_SBGGR8_1X8, MEDIA_BUS_FMT_SRGGB8_1X8, MEDIA_BUS_FMT_SGRBG8_1X8,
        MEDIA_BUS_FMT_SGBRG8_1X8, MEDIA_BUS_FMT_Y8_1X8] then Some GASKET_0_CTRL_DATA_TYPE_RAW8
      else if code \<in> set [MEDIA_BUS_FMT_SBGGR10_1X10, MEDIA_BUS_FMT_SGBRG10_1X10,
        MEDIA_BUS_FMT_SGRBG10_1X10, MEDIA_BUS_FMT_SRGGB10_1X10, MEDIA_BUS_FMT_Y10_1X10]
      then Some GASKET_0_CTRL_DATA_TYPE_RAW10
      else if code \<in> set [MEDIA_BUS_FMT_SBGGR12_1X12, MEDIA_BUS_FMT_SGBRG12_1X12,
        MEDIA_BUS_FMT_SGRBG12_1X12, MEDIA_BUS_FMT_SRGGB12_1X12, MEDIA_BUS_FMT_Y12_1X12]
      then Some GASKET_0_CTRL_DATA_TYPE_RAW12
      else None)"

definition disp_mix_gasket_config :: "sapi \<Rightarrow> 'r csi_state \<Rightarrow> 'r csi_state" where
  "disp_mix_gasket_config k s =
     (case cs_csis_fmt s of
        None \<Rightarrow> emit NullDeref s
      | Some fmt \<Rightarrow>
          let mf = cs_format s
          in case gasket_data_type (pf_code fmt) of
               None \<Rightarrow> s
             | Some fmt_val \<Rightarrow>
                 let s = modify_reg k GASKET DISP_MIX_GASKET_0_CTRL
                       (\<lambda>val. let val = (if fmt_val = GASKET_0_CTRL_DATA_TYPE_YUV422_8
                                         then val OR GASKET_0_CTRL_DUAL_COMP_ENABLE else val)
                              in val OR GASKET_0_CTRL_DATA_TYPE fmt_val) s
                 in if fmt_width mf = 0 \<or> fmt_height mf = 0 then s
                    else let s = writel GASKET DISP_MIX_GASKET_0_HSIZE (fmt_width mf) s
                         in writel GASKET DISP_MIX_GASKET_0_VSIZE (fmt_height mf) s)"

definition disp_mix_gasket_enable :: "bool \<Rightarrow> 'r csi_state \<Rightarrow> 'r csi_state" where
  "disp_mix_gasket_enable enable s =
     (if enable
      then regmap_update_bits GASKET DISP_MIX_GASKET_0_CTRL GASKET_0_CTRL_ENABLE GASKET_0_CTRL_ENABLE s
      else regmap_update_bits GASKET DISP_MIX_GASKET_0_CTRL GASKET_0_CTRL_ENABLE 0 s)"

section \<open>Streams and counters\<close>

definition mipi_csis_start_stream :: "sapi \<Rightarrow> 'r csi_state \<Rightarrow> 'r csi_state" where
  "mipi_csis_start_stream k s =
     (let s = mipi_csis_sw_reset k s;
          s = disp_mix_gasket_config k s;
          s = mipi_csis_set_params k s;
          s = mipi_csis_system_enable k True s;
          s = disp_mix_gasket_enable True s;
          s = mipi_csis_enable_interrupts k True s
      in emit (Msleep 5) s)"

definition mipi_csis_stop_stream :: "sapi \<Rightarrow> 'r csi_state \<Rightarrow> 'r csi_state" where
  "mipi_csis_stop_stream k s =
     (let s = mipi_csis_enable_interrupts k False s;
          s = mipi_csis_system_enable k False s
      in disp_mix_gasket_enable False s)"

definition mipi_csis_clear_counters :: "'r csi_state \<Rightarrow> 'r csi_state" where
  "mipi_csis_clear_counters s =
     (let s = emit (Soc SpinLock) s;
          s = s\<lparr>cs_events := map (\<lambda>e. e\<lparr>ev_counter := 0\<rparr>) (cs_events s)\<rparr>
      in emit (Soc SpinUnlock) s)"

text \<open>
  The loop of \<^verbatim>\<open>mipi_csis_log_counters\<close> runs from the last of the first \<open>n\<close> events down to the first; the
  result lists the lines it logs.
\<close>

definition mipi_csis_log_counters ::
  "sapi \<Rightarrow> bool \<Rightarrow> 'r csi_state \<Rightarrow> (string \<times> u32) list \<times> 'r csi_state" where
  "mipi_csis_log_counters k non_errors s =
     (let i = (if non_errors then MIPI_CSIS_NUM_EVENTS else MIPI_CSIS_NUM_EVENTS - 4);
          s = emit (Soc SpinLock) s;
          logged = filter (\<lambda>e. 0 < ev_counter e \<or> debug_level k (hist s) \<noteq> 0) (rev (take i (cs_events s)))
      in (map (\<lambda>e. (ev_name e, ev_counter e)) logged, emit (Soc SpinUnlock) s))"

section \<open>Register dumps\<close>

definition dump_csis_regs :: "sapi \<Rightarrow> 'r csi_state \<Rightarrow> 'r csi_state" where
  "dump_csis_regs k s = fold (\<lambda>off s. snd (readl k CSIS_REGS off s))
     [0x00, 0x04, 0x08, 0x10, 0x14, 0x20, 0x24, 0x30, 0x34, 0x38, 0x3C, 0x40, 0x50, 0x60, 0x70,
      0x44, 0x54, 0x64, 0x74, 0x48, 0x58, 0x68, 0x78] s"

definition dump_gasket_regs :: "sapi \<Rightarrow> 'r csi_state \<Rightarrow> 'r csi_state" where
  "dump_gasket_regs k s = fold (\<lambda>off s. snd (readl k GASKET off s)) [0x60, 0x64, 0x68] s"

section \<open>Frames of the operations\<close>

text \<open>Register traffic and delays: the events of the register code, once a format is chosen.\<close>

fun hw_event :: "kevent \<Rightarrow> bool" where
  "hw_event (Soc (MmioRead _ _ _)) = True"
| "hw_event (Soc (MmioWrite _ _ _)) = True"
| "hw_event (Soc (RegmapUpdate _ _ _ _)) = True"
| "hw_event (Soc (Udelay _)) = True"
| "hw_event (Msleep _) = True"
| "hw_event _ = False"

named_theorems hw_frame \<open>the register code emits register traffic only\<close>

lemma emits_modify_reg [hw_frame]: "emits hw_event s t \<Longrightarrow> emits hw_event s (modify_reg k b off f t)"
  by (auto simp: modify_reg_upd emits_def)

lemma emits_writel [hw_frame]: "emits hw_event s t \<Longrightarrow> emits hw_event s (writel b off v t)"
  by (auto simp: writel_def emit_def emits_def)

lemma emits_readl [hw_frame]: "emits hw_event s t \<Longrightarrow> emits hw_event s (snd (readl k b off t))"
  by (auto simp: readl_def Let_def emit_def emits_def)

lemma emits_update_bits [hw_frame]: "emits hw_event s t \<Longrightarrow> emits hw_event s (regmap_update_bits b off m v t)"
  by (auto simp: regmap_update_bits_def emit_def emits_def)

lemma emits_hw_emit [hw_frame]: "hw_event e \<Longrightarrow> emits hw_event s t \<Longrightarrow> emits hw_event s (emit e t)"
  by (auto simp: emit_def emits_def)

lemma modify_fields [simp]:
  "cs_num_lanes (modify_reg k b off f s) = cs_num_lanes s" "cs_hs_settle (modify_reg k b off f s) = cs_hs_settle s"
  "cs_clk_settle (modify_reg k b off f s) = cs_clk_settle s" "cs_csis_fmt (modify_reg k b off f s) = cs_csis_fmt s"
  "cs_format (modify_reg k b off f s) = cs_format s" "cs_hdr (modify_reg k b off f s) = cs_hdr s"
  "cs_wclk_ext (modify_reg k b off f s) = cs_wclk_ext s"
  by (simp_all add: modify_reg_upd)

lemma writel_fields [simp]:
  "cs_num_lanes (writel b off v s) = cs_num_lanes s" "cs_hs_settle (writel b off v s) = cs_hs_settle s"
  "cs_clk_settle (writel b off v s) = cs_clk_settle s" "cs_csis_fmt (writel b off v s) = cs_csis_fmt s"
  "cs_format (writel b off v s) = cs_format s" "cs_hdr (writel b off v s) = cs_hdr s"
  "cs_wclk_ext (writel b off v s) = cs_wclk_ext s"
  by (simp_all add: writel_def emit_def)

lemma emits_clean_irq [hw_frame]: "emits hw_event s t \<Longrightarrow> emits hw_event s (mipi_csis_clean_irq k t)"
  unfolding mipi_csis_clean_irq_def Let_def by (intro hw_frame)

lemma emits_enable_interrupts [hw_frame]:
  "emits hw_event s t \<Longrightarrow> emits hw_event s (mipi_csis_enable_interrupts k on t)"
  unfolding mipi_csis_enable_interrupts_def Let_def by (intro hw_frame)

lemma emits_sw_reset [hw_frame]: "emits hw_event s t \<Longrightarrow> emits hw_event s (mipi_csis_sw_reset k t)"
  unfolding mipi_csis_sw_reset_def Let_def by (intro hw_frame) simp_all

lemma emits_system_enable [hw_frame]:
  "emits hw_event s t \<Longrightarrow> emits hw_event s (mipi_csis_system_enable k on t)"
  unfolding mipi_csis_system_enable_def Let_def by (intro hw_frame)

lemma emits_set_format [hw_frame]:
  "emits hw_event s t \<Longrightarrow> emits hw_event s (mipi_csis_set_format_locked k fmt t)"
  unfolding mipi_csis_set_format_locked_def Let_def by (simp add: hw_frame)

lemma emits_set_params [hw_frame]:
  assumes "emits hw_event s t" and "cs_csis_fmt s \<noteq> None"
  shows "emits hw_event s (mipi_csis_set_params k t)"
proof -
  obtain fmt where "cs_csis_fmt t = Some fmt" using assms by (auto simp: emits_def)
  then show ?thesis
    using assms(1) unfolding mipi_csis_set_params_def mipi_csis_set_hsync_settle_def Let_def
    by (auto intro!: hw_frame)
qed

lemma emits_gasket_config [hw_frame]:
  assumes "emits hw_event s t" and "cs_csis_fmt s \<noteq> None"
  shows "emits hw_event s (disp_mix_gasket_config k t)"
proof -
  obtain fmt where "cs_csis_fmt t = Some fmt" using assms by (auto simp: emits_def)
  then show ?thesis
    using assms(1) unfolding disp_mix_gasket_config_def Let_def by (auto intro!: hw_frame split: option.split)
qed

lemma emits_gasket_enable [hw_frame]:
  "emits hw_event s t \<Longrightarrow> emits hw_event s (disp_mix_gasket_enable on t)"
  unfolding disp_mix_gasket_enable_def by (auto intro!: hw_frame)

lemma emits_start_stream [hw_frame]:
  "emits hw_event s t \<Longrightarrow> cs_csis_fmt s \<noteq> None \<Longrightarrow> emits hw_event s (mipi_csis_start_stream k t)"
  unfolding mipi_csis_start_stream_def Let_def by (intro hw_frame) simp_all

lemma emits_stop_stream [hw_frame]: "emits hw_event s t \<Longrightarrow> emits hw_event s (mipi_csis_stop_stream k t)"
  unfolding mipi_csis_stop_stream_def Let_def by (intro hw_frame)

text \<open>Register code leaves the driver structure alone.\<close>

lemma hw_fields:
  assumes "emits P s t"
  shows "cs_num_lanes t = cs_num_lanes s" "cs_hs_settle t = cs_hs_settle s" "cs_clk_settle t = cs_clk_settle s"
    "cs_csis_fmt t = cs_csis_fmt s" "cs_format t = cs_format s" "cs_hdr t = cs_hdr s"
    "cs_wclk_ext t = cs_wclk_ext s" "cs_events t = cs_events s" "cs_remote t = cs_remote s"
    "cs_pkt_data t = cs_pkt_data s" "cs_pkt_len t = cs_pkt_len s"
  using assms by (auto simp: emits_def)

section \<open>What the sequences program\<close>

text \<open>
  The hypotheses on the receiver: the reset bit clears itself, and the registers that the driver modifies
  in several steps read back what was written, in the common control register at least the lane number and
  the enable bit.
\<close>

definition csis_hw :: "sapi \<Rightarrow> bool" where
  "csis_hw k \<longleftrightarrow> (\<forall>h. \<not> bit (mmio k h CSIS_REGS MIPI_CSIS_CMN_CTRL) 1) \<and>
     mmio_holds k CSIS_REGS MIPI_CSIS_CMN_CTRL (MIPI_CSIS_CMN_CTRL_LANE_NR_MASK OR MIPI_CSIS_CMN_CTRL_ENABLE) \<and>
     plain_reg k CSIS_REGS MIPI_CSIS_DPHYCTRL \<and> plain_reg k CSIS_REGS MIPI_CSIS_ISPCONFIG_CH0 \<and>
     plain_reg k CSIS_REGS MIPI_CSIS_INTMSK \<and> plain_reg k GASKET DISP_MIX_GASKET_0_CTRL"

lemma ideal_csis_hw [simp]: "csis_hw ideal_soc"
  by (simp add: csis_hw_def) (auto simp: ideal_soc_def bit_simps split: option.split)

lemma set_format_regs:
  assumes "plain_reg k CSIS_REGS MIPI_CSIS_ISPCONFIG_CH0"
  shows "regs (mipi_csis_set_format_locked k fmt s) (CSIS_REGS, MIPI_CSIS_ISPCONFIG_CH0) =
      Some ((mmio k (hist s) CSIS_REGS MIPI_CSIS_ISPCONFIG_CH0 AND NOT MIPI_CSIS_ISPCFG_FMT_MASK OR pf_fmt_reg fmt)
        AND NOT MIPI_CSIS_ISPCONFIG_CH0_PIXEL_MODE_MASK OR
        (if pf_fmt_reg fmt = MIPI_CSIS_ISPCFG_FMT_YCBCR422_8BIT then 0x1000 else 0))"
    and "regs (mipi_csis_set_format_locked k fmt s) (CSIS_REGS, MIPI_CSIS_ISPRESOL_CH0) =
      Some (fmt_width (cs_format s) OR push_bit 16 (fmt_height (cs_format s)))"
    and "off \<notin> {MIPI_CSIS_ISPCONFIG_CH0, MIPI_CSIS_ISPRESOL_CH0, MIPI_CSIS_ISPRESOL_CH1, MIPI_CSIS_ISPRESOL_CH2,
      MIPI_CSIS_ISPRESOL_CH3, MIPI_CSIS_ISPCONFIG_CH1, MIPI_CSIS_ISPCONFIG_CH2, MIPI_CSIS_ISPCONFIG_CH3} \<or>
      b \<noteq> CSIS_REGS \<Longrightarrow> regs (mipi_csis_set_format_locked k fmt s) (b, off) = regs s (b, off)"
  using plain_reg_read [OF assms] unfolding mipi_csis_set_format_locked_def Let_def by auto

text \<open>The parameters of a stream, register by register.\<close>

definition params_programmed :: "csis_pix_format \<Rightarrow> 'r csi_state \<Rightarrow> mmio_map \<Rightarrow> bool" where
  "params_programmed fmt s m \<longleftrightarrow>
     (\<exists>ctrl. m (CSIS_REGS, MIPI_CSIS_CMN_CTRL) = Some ctrl \<and>
        field 8 2 ctrl = take_bit 2 (cs_num_lanes s - 1)) \<and>
     (\<exists>phy. m (CSIS_REGS, MIPI_CSIS_DPHYCTRL) = Some phy \<and> field 24 8 phy = cs_hs_settle s \<and>
        field 22 2 phy AND cs_clk_settle s = cs_clk_settle s) \<and>
     (\<exists>cfg. m (CSIS_REGS, MIPI_CSIS_ISPCONFIG_CH0) = Some cfg \<and> push_bit 2 (field 2 6 cfg) = pf_fmt_reg fmt \<and>
        field 12 2 cfg = (if pf_fmt_reg fmt = MIPI_CSIS_ISPCFG_FMT_YCBCR422_8BIT then 1 else 0) \<and>
        \<not> bit cfg 11) \<and>
     m (CSIS_REGS, MIPI_CSIS_ISPRESOL_CH0) = Some (fmt_width (cs_format s) OR push_bit 16 (fmt_height (cs_format s)))"

lemma csis_hwD:
  assumes "csis_hw k"
  shows "\<not> bit (mmio k h CSIS_REGS MIPI_CSIS_CMN_CTRL) (Suc 0)"
    and "off \<in> {MIPI_CSIS_DPHYCTRL, MIPI_CSIS_ISPCONFIG_CH0, MIPI_CSIS_INTMSK} \<Longrightarrow>
      mmio_image h (CSIS_REGS, off) \<noteq> None \<Longrightarrow>
      mmio k h CSIS_REGS off = the (mmio_image h (CSIS_REGS, off))"
    and "mmio_image h (GASKET, DISP_MIX_GASKET_0_CTRL) \<noteq> None \<Longrightarrow>
      mmio k h GASKET DISP_MIX_GASKET_0_CTRL = the (mmio_image h (GASKET, DISP_MIX_GASKET_0_CTRL))"
    and "mmio_image h (CSIS_REGS, MIPI_CSIS_CMN_CTRL) \<noteq> None \<Longrightarrow>
      field 8 2 (mmio k h CSIS_REGS MIPI_CSIS_CMN_CTRL) =
        field 8 2 (the (mmio_image h (CSIS_REGS, MIPI_CSIS_CMN_CTRL)))"
    and "mmio_image h (CSIS_REGS, MIPI_CSIS_CMN_CTRL) \<noteq> None \<Longrightarrow>
      field 0 1 (mmio k h CSIS_REGS MIPI_CSIS_CMN_CTRL) =
        field 0 1 (the (mmio_image h (CSIS_REGS, MIPI_CSIS_CMN_CTRL)))"
proof -
  let ?m = "MIPI_CSIS_CMN_CTRL_LANE_NR_MASK OR MIPI_CSIS_CMN_CTRL_ENABLE"
  have "mmio k h CSIS_REGS MIPI_CSIS_CMN_CTRL AND ?m = the (mmio_image h (CSIS_REGS, MIPI_CSIS_CMN_CTRL)) AND ?m"
    if "mmio_image h (CSIS_REGS, MIPI_CSIS_CMN_CTRL) \<noteq> None"
    using that assms by (auto simp: csis_hw_def dest: mmio_holdsD)
  note cong = field_cong [OF this]
  show "field 8 2 (mmio k h CSIS_REGS MIPI_CSIS_CMN_CTRL) =
        field 8 2 (the (mmio_image h (CSIS_REGS, MIPI_CSIS_CMN_CTRL)))"
    if "mmio_image h (CSIS_REGS, MIPI_CSIS_CMN_CTRL) \<noteq> None"
    by (rule cong [OF that]) (simp add: field_def mask_eq_exp_minus_1)
  show "field 0 1 (mmio k h CSIS_REGS MIPI_CSIS_CMN_CTRL) =
        field 0 1 (the (mmio_image h (CSIS_REGS, MIPI_CSIS_CMN_CTRL)))"
    if "mmio_image h (CSIS_REGS, MIPI_CSIS_CMN_CTRL) \<noteq> None"
    by (rule cong [OF that]) (simp add: field_def mask_eq_exp_minus_1)
qed (use assms in \<open>auto simp: csis_hw_def intro: plain_reg_read\<close>)

lemma set_format_fields [simp]:
  "cs_num_lanes (mipi_csis_set_format_locked k fmt s) = cs_num_lanes s"
  "cs_hs_settle (mipi_csis_set_format_locked k fmt s) = cs_hs_settle s"
  "cs_clk_settle (mipi_csis_set_format_locked k fmt s) = cs_clk_settle s"
  "cs_csis_fmt (mipi_csis_set_format_locked k fmt s) = cs_csis_fmt s"
  "cs_format (mipi_csis_set_format_locked k fmt s) = cs_format s"
  "cs_hdr (mipi_csis_set_format_locked k fmt s) = cs_hdr s"
  "cs_wclk_ext (mipi_csis_set_format_locked k fmt s) = cs_wclk_ext s"
  by (simp_all add: hw_fields [OF emits_set_format [OF emits_refl]])

text \<open>A field of a register value, by evaluation of the constants.\<close>

lemmas field_eval = field_or field_and field_push field_push_above field_if

text \<open>The clock settle time is merged into what the register holds: its field is not cleared.\<close>

lemma set_params_clk:
  assumes hw: "csis_hw k" and fmt: "cs_csis_fmt s = Some fmt" "format_ok fmt" and settle: "cs_clk_settle s < 4"
  shows "\<exists>phy h. regs (mipi_csis_set_params k s) (CSIS_REGS, MIPI_CSIS_DPHYCTRL) = Some phy \<and>
    mmio_image h (CSIS_REGS, MIPI_CSIS_DPHYCTRL) = regs s (CSIS_REGS, MIPI_CSIS_DPHYCTRL) \<and>
    field 22 2 phy = field 22 2 (mmio k h CSIS_REGS MIPI_CSIS_DPHYCTRL) OR cs_clk_settle s"
proof -
  have p: "plain_reg k CSIS_REGS MIPI_CSIS_ISPCONFIG_CH0" using hw by (simp add: csis_hw_def)
  note set = set_format_regs [OF p]
  have align: "data_alignment fmt \<noteq> 32" using fmt(2) by (simp add: format_ok_def)
  have clear: "field 22 2 (x AND NOT MIPI_CSIS_DPHYCTRL_HSS_MASK) = field 22 2 x" for x
    by (rule field_keep) (simp add: field_def mask_eq_exp_minus_1)
  have val: "field 22 2 (x AND NOT MIPI_CSIS_DPHYCTRL_HSS_MASK OR (push_bit 24 (cs_hs_settle s) OR push_bit 22 (cs_clk_settle s))) =
      field 22 2 x OR cs_clk_settle s" for x
    using take_bit_below [of "cs_clk_settle s" 2] settle
    by (simp only: field_or clear) (simp add: field_push field_push_above)
  have lit: "NOT MIPI_CSIS_DPHYCTRL_HSS_MASK = - 4278190081" by (simp add: bit_simps)
  show ?thesis
    by (simp add: mipi_csis_set_params_def Let_def fmt(1) mipi_csis_set_hsync_settle_def MIPI_CSIS_CLK_CTRL_CLKGATE_TRAIL_CH0_def
        csis_hwD(1) [OF hw] set bit_simps align) (intro exI conjI; (rule val [unfolded lit])?; simp add: set bit_simps csis_hwD(1) [OF hw])
qed

lemma set_params_regs:
  fixes s :: "'r csi_state"
  assumes hw: "csis_hw k" and fmt: "cs_csis_fmt s = Some fmt" "format_ok fmt"
    and settle: "cs_hs_settle s < 256" "cs_clk_settle s < 4"
  shows "params_programmed fmt s (regs (mipi_csis_set_params k s))"
    and "regs (mipi_csis_set_params k s) (GASKET, off) = regs s (GASKET, off)"
proof -
  note hwD = csis_hwD [OF hw]
  have p: "plain_reg k CSIS_REGS MIPI_CSIS_ISPCONFIG_CH0" using hw by (simp add: csis_hw_def)
  note set = set_format_regs [OF p]
  have align: "data_alignment fmt \<noteq> 32" using fmt(2) by (simp add: format_ok_def)
  note go = mipi_csis_set_params_def Let_def fmt(1) mipi_csis_set_hsync_settle_def
     MIPI_CSIS_CLK_CTRL_CLKGATE_TRAIL_CH0_def hwD(1) set bit_simps align
  have "\<exists>ctrl. regs (mipi_csis_set_params k s) (CSIS_REGS, MIPI_CSIS_CMN_CTRL) = Some ctrl \<and>
      field 8 2 ctrl = take_bit 2 (cs_num_lanes s - 1)"
    by (simp add: go field_if) (simp add: field_eval hwD(4) set bit_simps go, simp add: field_def)
  moreover have "\<exists>phy. regs (mipi_csis_set_params k s) (CSIS_REGS, MIPI_CSIS_DPHYCTRL) = Some phy \<and>
      field 24 8 phy = cs_hs_settle s"
    using field_push_below [of "cs_clk_settle s" 2 22 24 8] take_bit_below [of "cs_hs_settle s" 8] settle
    by (simp add: go) (simp add: field_eval, simp add: field_def)
  moreover have "field 22 2 phy AND cs_clk_settle s = cs_clk_settle s"
    if "regs (mipi_csis_set_params k s) (CSIS_REGS, MIPI_CSIS_DPHYCTRL) = Some phy" for phy
    using set_params_clk [OF hw fmt settle(2)] that by (auto simp: bit.conj_disj_distrib2)
  moreover have "\<exists>cfg. regs (mipi_csis_set_params k s) (CSIS_REGS, MIPI_CSIS_ISPCONFIG_CH0) = Some cfg \<and>
      push_bit 2 (field 2 6 cfg) = pf_fmt_reg fmt \<and>
      field 12 2 cfg = (if pf_fmt_reg fmt = MIPI_CSIS_ISPCFG_FMT_YCBCR422_8BIT then 1 else 0) \<and> \<not> bit cfg 11"
    using fmt(2)
    by (simp add: go hwD(2) format_ok_def) (elim disjE; simp add: field_eval bit_simps, simp add: field_def)
  moreover have "regs (mipi_csis_set_params k s) (CSIS_REGS, MIPI_CSIS_ISPRESOL_CH0) =
      Some (fmt_width (cs_format s) OR push_bit 16 (fmt_height (cs_format s)))"
    by (simp add: go)
  ultimately show "params_programmed fmt s (regs (mipi_csis_set_params k s))"
    unfolding params_programmed_def by blast
  show "regs (mipi_csis_set_params k s) (GASKET, off) = regs s (GASKET, off)"
    by (simp add: go)
qed

lemma sw_reset_regs: "regs (mipi_csis_sw_reset k s) (b, off) = (if b = CSIS_REGS then None else regs s (b, off))"
  by (simp add: mipi_csis_sw_reset_def Let_def modify_reg_upd bit_simps)

lemma system_enable_regs:
  fixes s :: "'r csi_state" and on :: bool
  assumes hw: "csis_hw k" and c: "regs s (CSIS_REGS, MIPI_CSIS_CMN_CTRL) = Some c"
    and d: "regs s (CSIS_REGS, MIPI_CSIS_DPHYCTRL) = Some d"
  defines "m \<equiv> regs (mipi_csis_system_enable k on s)"
  shows "\<exists>c'. m (CSIS_REGS, MIPI_CSIS_CMN_CTRL) = Some c' \<and> field 8 2 c' = field 8 2 c \<and> bit c' 0 = on"
    and "\<exists>d'. m (CSIS_REGS, MIPI_CSIS_DPHYCTRL) = Some d' \<and> field 24 8 d' = field 24 8 d \<and> field 22 2 d' = field 22 2 d \<and>
      field 0 5 d' = (if on then take_bit 5 (push_bit (unat (cs_num_lanes s + 1)) 1 - 1) else 0)"
    and "off \<notin> {MIPI_CSIS_CMN_CTRL, MIPI_CSIS_DPHYCTRL} \<or> b \<noteq> CSIS_REGS \<Longrightarrow> m (b, off) = regs s (b, off)"
proof -
  note hwD = csis_hwD [OF hw]
  note go = m_def mipi_csis_system_enable_def Let_def hwD(1) bit_simps c d
  have keep: "field 24 8 (d AND NOT 0x1f) = field 24 8 d" "field 22 2 (d AND NOT 0x1f) = field 22 2 d" "field 0 5 (d AND NOT 0x1f) = 0"
    "field 8 2 (x AND NOT 1) = field 8 2 x" for x
    by (rule field_keep field_clear, simp add: field_def mask_eq_exp_minus_1)+
  have full: "take_bit 5 x AND 0x1f = take_bit 5 x" for x :: u32
    by (simp add: take_bit_eq_mask mask_eq_exp_minus_1 and.assoc)
  show "\<exists>c'. m (CSIS_REGS, MIPI_CSIS_CMN_CTRL) = Some c' \<and> field 8 2 c' = field 8 2 c \<and> bit c' 0 = on"
    using hwD(4) [of "hist s"] keep(4) by (cases on) (simp_all add: go field_or, simp_all add: field_def)
  show "\<exists>d'. m (CSIS_REGS, MIPI_CSIS_DPHYCTRL) = Some d' \<and> field 24 8 d' = field 24 8 d \<and> field 22 2 d' = field 22 2 d \<and>
      field 0 5 d' = (if on then take_bit 5 (push_bit (unat (cs_num_lanes s + 1)) 1 - 1) else 0)"
    using keep by (cases on) (simp_all add: go hwD(2) field_or field_and, simp_all add: field_def full)
  show "m (b, off) = regs s (b, off)" if "off \<notin> {MIPI_CSIS_CMN_CTRL, MIPI_CSIS_DPHYCTRL} \<or> b \<noteq> CSIS_REGS"
    using that by (cases on) (auto simp: go)
qed

lemma enable_interrupts_regs:
  assumes hw: "csis_hw k"
  shows "\<exists>v. regs (mipi_csis_enable_interrupts k on s) (CSIS_REGS, MIPI_CSIS_INTMSK) = Some v \<and>
      v AND 0x0FFFFF1F = (if on then 0x0FFFFF1F else 0)"
    and "off \<notin> {MIPI_CSIS_INTSRC, MIPI_CSIS_INTMSK} \<or> b \<noteq> CSIS_REGS \<Longrightarrow>
      regs (mipi_csis_enable_interrupts k on s) (b, off) = regs s (b, off)"
proof -
  note hwD = csis_hwD [OF hw]
  note go = mipi_csis_enable_interrupts_def mipi_csis_clean_irq_def Let_def
  show "\<exists>v. regs (mipi_csis_enable_interrupts k on s) (CSIS_REGS, MIPI_CSIS_INTMSK) = Some v \<and>
      v AND 0x0FFFFF1F = (if on then 0x0FFFFF1F else 0)"
    by (cases on) (simp_all add: go bit.conj_disj_distrib2 and.assoc)
  show "regs (mipi_csis_enable_interrupts k on s) (b, off) = regs s (b, off)"
    if "off \<notin> {MIPI_CSIS_INTSRC, MIPI_CSIS_INTMSK} \<or> b \<noteq> CSIS_REGS"
    using that by (cases on) (auto simp: go)
qed

lemma gasket_enable_regs:
  "regs s (GASKET, DISP_MIX_GASKET_0_CTRL) = Some g \<Longrightarrow>
     \<exists>g'. regs (disp_mix_gasket_enable on s) (GASKET, DISP_MIX_GASKET_0_CTRL) = Some g' \<and>
       field 8 6 g' = field 8 6 g \<and> bit g' 1 = bit g 1 \<and> bit g' 0 = on"
  "off \<noteq> DISP_MIX_GASKET_0_CTRL \<or> b \<noteq> GASKET \<Longrightarrow>
     regs (disp_mix_gasket_enable on s) (b, off) = regs s (b, off)"
proof -
  have keep: "field 8 6 (g AND NOT 1) = field 8 6 g"
    by (rule field_keep) (simp add: field_def)
  show "\<exists>g'. regs (disp_mix_gasket_enable on s) (GASKET, DISP_MIX_GASKET_0_CTRL) = Some g' \<and>
       field 8 6 g' = field 8 6 g \<and> bit g' 1 = bit g 1 \<and> bit g' 0 = on"
    if "regs s (GASKET, DISP_MIX_GASKET_0_CTRL) = Some g"
    using that keep by (cases on) (simp_all add: disp_mix_gasket_enable_def field_or bit_simps, simp_all add: field_def)
  show "regs (disp_mix_gasket_enable on s) (b, off) = regs s (b, off)"
    if "off \<noteq> DISP_MIX_GASKET_0_CTRL \<or> b \<noteq> GASKET"
    using that by (auto simp: disp_mix_gasket_enable_def split: option.split)
qed

text \<open>
  The data type of a format of the table, and the one its receiver configuration carries, are the same; a
  code outside the table has none.
\<close>

lemma gasket_type_of_format:
  assumes "fmt \<in> set mipi_csis_formats"
  shows "gasket_data_type (pf_code fmt) = Some (field 2 6 (pf_fmt_reg fmt))"
proof -
  have "list_all (\<lambda>f. gasket_data_type (pf_code f) = Some (field 2 6 (pf_fmt_reg f))) mipi_csis_formats"
    by (simp add: mipi_csis_formats_def pix_format_entry_def gasket_data_type_def field_def)
  with assms show ?thesis by (simp add: list_all_iff)
qed

lemma gasket_config_regs:
  fixes k :: sapi
  assumes fmt: "cs_csis_fmt s = Some fmt" "fmt \<in> set mipi_csis_formats"
  defines "m \<equiv> regs (disp_mix_gasket_config k s)"
  shows "m (GASKET, DISP_MIX_GASKET_0_CTRL) = Some (mmio k (hist s) GASKET DISP_MIX_GASKET_0_CTRL OR
      (if pf_fmt_reg fmt = MIPI_CSIS_ISPCFG_FMT_YCBCR422_8BIT then GASKET_0_CTRL_DUAL_COMP_ENABLE else 0) OR
      GASKET_0_CTRL_DATA_TYPE (field 2 6 (pf_fmt_reg fmt)))"
    and "fmt_width (cs_format s) \<noteq> 0 \<Longrightarrow> fmt_height (cs_format s) \<noteq> 0 \<Longrightarrow>
      m (GASKET, DISP_MIX_GASKET_0_HSIZE) = Some (fmt_width (cs_format s)) \<and>
      m (GASKET, DISP_MIX_GASKET_0_VSIZE) = Some (fmt_height (cs_format s))"
    and "m (CSIS_REGS, off) = regs s (CSIS_REGS, off)"
proof -
  have yuv: "field 2 6 (pf_fmt_reg fmt) = GASKET_0_CTRL_DATA_TYPE_YUV422_8 \<longleftrightarrow>
      pf_fmt_reg fmt = MIPI_CSIS_ISPCFG_FMT_YCBCR422_8BIT"
    using formats_ok [OF fmt(2)] by (auto simp: format_ok_def field_def)
  note go = m_def disp_mix_gasket_config_def Let_def fmt(1) gasket_type_of_format [OF fmt(2)] yuv
  show "m (GASKET, DISP_MIX_GASKET_0_CTRL) = Some (mmio k (hist s) GASKET DISP_MIX_GASKET_0_CTRL OR
      (if pf_fmt_reg fmt = MIPI_CSIS_ISPCFG_FMT_YCBCR422_8BIT then GASKET_0_CTRL_DUAL_COMP_ENABLE else 0) OR
      GASKET_0_CTRL_DATA_TYPE (field 2 6 (pf_fmt_reg fmt)))"
    by (simp add: go or.assoc)
  show "m (GASKET, DISP_MIX_GASKET_0_HSIZE) = Some (fmt_width (cs_format s)) \<and>
      m (GASKET, DISP_MIX_GASKET_0_VSIZE) = Some (fmt_height (cs_format s))"
    if "fmt_width (cs_format s) \<noteq> 0" "fmt_height (cs_format s) \<noteq> 0"
    using that by (simp add: go)
  show "m (CSIS_REGS, off) = regs s (CSIS_REGS, off)"
    by (simp add: go)
qed

section \<open>Starting and stopping\<close>

text \<open>
  The switches of a running or stopped receiver: the enable bit, the clock lane and the data lanes of the
  D-PHY, the interrupt mask and the gasket.
\<close>

definition switches :: "bool \<Rightarrow> 'r csi_state \<Rightarrow> mmio_map \<Rightarrow> bool" where
  "switches on s m \<longleftrightarrow>
     (\<exists>c. m (CSIS_REGS, MIPI_CSIS_CMN_CTRL) = Some c \<and> bit c 0 = on) \<and>
     (\<exists>d. m (CSIS_REGS, MIPI_CSIS_DPHYCTRL) = Some d \<and>
        (\<forall>i < 5. bit d i \<longleftrightarrow> on \<and> i \<le> unat (cs_num_lanes s))) \<and>
     (\<exists>i. m (CSIS_REGS, MIPI_CSIS_INTMSK) = Some i \<and> i AND 0x0FFFFF1F = (if on then 0x0FFFFF1F else 0)) \<and>
     (\<exists>g. m (GASKET, DISP_MIX_GASKET_0_CTRL) = Some g \<and> bit g 0 = on)"

text \<open>The data type of the gasket and the size it passes on.\<close>

definition gasket_type :: "mmio_map \<Rightarrow> u32 option" where
  "gasket_type m = map_option (field 8 6) (m (GASKET, DISP_MIX_GASKET_0_CTRL))"

definition gasket_size :: "mmio_map \<Rightarrow> (u32 \<times> u32) option" where
  "gasket_size m = (case (m (GASKET, DISP_MIX_GASKET_0_HSIZE), m (GASKET, DISP_MIX_GASKET_0_VSIZE)) of
     (Some w, Some h) \<Rightarrow> Some (w, h) | _ \<Rightarrow> None)"

lemma lane_bits:
  assumes "unat (n :: u32) \<le> 4" and "i < 5"
  shows "bit (take_bit 5 (push_bit (unat (n + 1)) 1 - 1 :: u32)) i \<longleftrightarrow> i \<le> unat n"
proof -
  have "n + 1 \<noteq> 0"
  proof
    assume "n + 1 = 0"
    then have "n = - 1" by (simp add: eq_neg_iff_add_eq_0)
    with assms(1) show False by (simp add: unsigned_minus_1_eq_mask mask_eq_exp_minus_1)
  qed
  then have "unat (n + 1) = Suc (unat n)" by (simp add: unatSuc add.commute)
  moreover have "push_bit (Suc j) 1 - 1 = (mask (Suc j) :: u32)" for j
    by (simp add: mask_eq_exp_minus_1)
  ultimately show ?thesis
    using assms by (auto simp: bit_simps)
qed

lemma start_stream_regs:
  assumes hw: "csis_hw k" and fmt: "cs_csis_fmt s = Some fmt" "fmt \<in> set mipi_csis_formats"
    and settle: "cs_hs_settle s < 256" "cs_clk_settle s < 4"
    and lanes: "unat (cs_num_lanes s) \<le> 4"
    and size: "fmt_width (cs_format s) \<noteq> 0" "fmt_height (cs_format s) \<noteq> 0"
  shows "params_programmed fmt s (regs (mipi_csis_start_stream k s)) \<and>
    switches True s (regs (mipi_csis_start_stream k s)) \<and>
    gasket_size (regs (mipi_csis_start_stream k s)) =
      Some (fmt_width (cs_format s), fmt_height (cs_format s)) \<and>
    (\<forall>t. gasket_type (regs s) = Some t \<longrightarrow>
      gasket_type (regs (mipi_csis_start_stream k s)) = Some (t OR field 2 6 (pf_fmt_reg fmt))) \<and>
    ((\<forall>h. mmio_image h (CSIS_REGS, MIPI_CSIS_DPHYCTRL) = None \<longrightarrow> field 22 2 (mmio k h CSIS_REGS MIPI_CSIS_DPHYCTRL) = 0) \<longrightarrow>
      (\<exists>phy. regs (mipi_csis_start_stream k s) (CSIS_REGS, MIPI_CSIS_DPHYCTRL) = Some phy \<and> field 22 2 phy = cs_clk_settle s))"
proof -
  define s1 where "s1 = mipi_csis_sw_reset k s"
  define s2 where "s2 = disp_mix_gasket_config k s1"
  define s3 where "s3 = mipi_csis_set_params k s2"
  define s4 where "s4 = mipi_csis_system_enable k True s3"
  define s5 where "s5 = disp_mix_gasket_enable True s4"
  define s6 where "s6 = mipi_csis_enable_interrupts k True s5"
  have start: "regs (mipi_csis_start_stream k s) = regs s6"
    by (simp add: mipi_csis_start_stream_def Let_def s6_def s5_def s4_def s3_def s2_def s1_def)
  have "emits hw_event s s1" "emits hw_event s s2" "emits hw_event s s3"
    unfolding s3_def s2_def s1_def using fmt(1) by (intro hw_frame emits_refl; simp)+
  note f1 = hw_fields [OF this(1)] and f2 = hw_fields [OF this(2)] and f3 = hw_fields [OF this(3)]
  note f = f1(4,5) f2(2-5) f3(1)
  have fm: "cs_csis_fmt s1 = Some fmt" "cs_csis_fmt s2 = Some fmt" using f fmt(1) by simp_all
  note g = gasket_config_regs [where k = k, OF fm(1) fmt(2), folded s2_def]
  note q = set_params_regs [OF hw fm(2) formats_ok [OF fmt(2)], folded s3_def]
  have p: "params_programmed fmt s (regs s3)"
    using q(1) settle by (simp add: f2 params_programmed_def)
  then obtain c d where cd: "regs s3 (CSIS_REGS, MIPI_CSIS_CMN_CTRL) = Some c"
      "field 8 2 c = take_bit 2 (cs_num_lanes s - 1)"
      "regs s3 (CSIS_REGS, MIPI_CSIS_DPHYCTRL) = Some d" "field 24 8 d = cs_hs_settle s"
    unfolding params_programmed_def by blast
  note e = system_enable_regs [where on = True, OF hw cd(1,3), folded s4_def]
  obtain gc where gc: "regs s4 (GASKET, DISP_MIX_GASKET_0_CTRL) = Some gc"
      "gc = mmio k (hist s1) GASKET DISP_MIX_GASKET_0_CTRL OR
        (if pf_fmt_reg fmt = MIPI_CSIS_ISPCFG_FMT_YCBCR422_8BIT then GASKET_0_CTRL_DUAL_COMP_ENABLE else 0) OR
        GASKET_0_CTRL_DATA_TYPE (field 2 6 (pf_fmt_reg fmt))"
    using g(1) q(2) settle e(3) [of 0 GASKET] by (simp add: f2)
  note h = gasket_enable_regs(1) [where on = True, OF gc(1), folded s5_def]
    and h2 = gasket_enable_regs(2) [where on = True and s = s4, folded s5_def]
  note i = enable_interrupts_regs [where on = True and s = s5, OF hw, folded s6_def]
  have same: "regs s6 (CSIS_REGS, off) = regs s4 (CSIS_REGS, off)" if "off \<notin> {0x14, 0x10}" for off
    using that h2 [of off CSIS_REGS] i(2) [of off CSIS_REGS] by simp
  have gas: "regs s6 (GASKET, off) = regs s5 (GASKET, off)" for off
    using i(2) [of off GASKET] by simp
  have "params_programmed fmt s (regs s6)"
    using p e cd unfolding params_programmed_def by (auto simp: same)
  moreover have "switches True s (regs s6)"
  proof -
    obtain d' where d': "regs s6 (CSIS_REGS, MIPI_CSIS_DPHYCTRL) = Some d'"
        "field 0 5 d' = take_bit 5 (push_bit (unat (cs_num_lanes s + 1)) 1 - 1)"
      using e(2) by (auto simp: same f3(1))
    have "bit d' n \<longleftrightarrow> n \<le> unat (cs_num_lanes s)" if "n < 5" for n
    proof -
      have "bit d' n \<longleftrightarrow> bit (field 0 5 d') n" using that by (simp add: bit_field)
      with lane_bits [OF lanes that] show ?thesis by (simp only: d'(2))
    qed
    with d'(1) e(1) h i(1) show ?thesis
      by (auto simp: switches_def same gas)
  qed
  moreover have "gasket_size (regs s6) = Some (fmt_width (cs_format s), fmt_height (cs_format s))"
    using g(2) size h2 [of 4 GASKET] h2 [of 8 GASKET] e(3) [of 4 GASKET] e(3) [of 8 GASKET] q(2) settle
    by (simp add: gasket_size_def gas f f2)
  moreover have "gasket_type (regs s6) = Some (t OR field 2 6 (pf_fmt_reg fmt))"
    if t: "gasket_type (regs s) = Some t" for t
  proof -
    have "field 8 6 (mmio k (hist s1) GASKET DISP_MIX_GASKET_0_CTRL) = t"
      using t csis_hwD(3) [OF hw, of "hist s1"] by (auto simp: gasket_type_def s1_def sw_reset_regs)
    moreover have "field 8 6 (GASKET_0_CTRL_DATA_TYPE (field 2 6 x)) = field 2 6 x" for x
    proof -
      have "GASKET_0_CTRL_DATA_TYPE y = push_bit 8 (take_bit 6 y)" for y
        by (simp add: GASKET_0_CTRL_DATA_TYPE_def take_bit_eq_mask mask_eq_exp_minus_1)
      then show ?thesis by (simp add: field_push, simp add: field_def)
    qed
    moreover have "field 8 6 0 = 0" "field 8 6 2 = 0" by (simp_all add: field_def)
    ultimately show ?thesis
      using h by (auto simp: gasket_type_def gas gc(2) field_or field_if)
  qed
  moreover have "\<exists>phy. regs s6 (CSIS_REGS, MIPI_CSIS_DPHYCTRL) = Some phy \<and> field 22 2 phy = cs_clk_settle s"
    if "\<forall>h. mmio_image h (CSIS_REGS, MIPI_CSIS_DPHYCTRL) = None \<longrightarrow> field 22 2 (mmio k h CSIS_REGS MIPI_CSIS_DPHYCTRL) = 0"
  proof -
    have none: "regs s2 (CSIS_REGS, MIPI_CSIS_DPHYCTRL) = None" using g(3) by (simp add: s1_def sw_reset_regs)
    from set_params_clk [OF hw fm(2) formats_ok [OF fmt(2)], folded s3_def] settle(2) f2(3) cd(3) that none
    have "field 22 2 d = cs_clk_settle s" by auto
    with e(2) show ?thesis by (auto simp: same)
  qed
  ultimately show ?thesis by (simp add: start)
qed

lemma stop_stream_regs:
  assumes hw: "csis_hw k" and known: "regs s (CSIS_REGS, MIPI_CSIS_CMN_CTRL) = Some c"
      "regs s (CSIS_REGS, MIPI_CSIS_DPHYCTRL) = Some d" "regs s (GASKET, DISP_MIX_GASKET_0_CTRL) = Some g"
  shows "switches False s (regs (mipi_csis_stop_stream k s)) \<and>
    gasket_type (regs (mipi_csis_stop_stream k s)) = gasket_type (regs s)"
proof -
  define s1 where "s1 = mipi_csis_enable_interrupts k False s"
  define s2 where "s2 = mipi_csis_system_enable k False s1"
  define s3 where "s3 = disp_mix_gasket_enable False s2"
  have stop: "mipi_csis_stop_stream k s = s3"
    by (simp add: mipi_csis_stop_stream_def Let_def s3_def s2_def s1_def)
  have "emits hw_event s s1" unfolding s1_def by (intro hw_frame emits_refl)
  note f = hw_fields [OF this]
  note i = enable_interrupts_regs [where on = False and s = s, OF hw, folded s1_def]
  have k1: "regs s1 (CSIS_REGS, MIPI_CSIS_CMN_CTRL) = Some c" "regs s1 (CSIS_REGS, MIPI_CSIS_DPHYCTRL) = Some d"
      "regs s1 (GASKET, DISP_MIX_GASKET_0_CTRL) = Some g"
    using i(2) known by simp_all
  note e = system_enable_regs [where on = False, OF hw k1(1,2), folded s2_def]
  have k2: "regs s2 (GASKET, DISP_MIX_GASKET_0_CTRL) = Some g" using e(3) [of 0 GASKET] k1(3) by simp
  note h = gasket_enable_regs(1) [where on = False, OF k2, folded s3_def]
    and h2 = gasket_enable_regs(2) [where on = False and s = s2, folded s3_def]
  obtain d' where d': "regs s3 (CSIS_REGS, MIPI_CSIS_DPHYCTRL) = Some d'" "field 0 5 d' = 0"
    using e(2) h2 [of MIPI_CSIS_DPHYCTRL CSIS_REGS] by auto
  have "\<not> bit d' n" if "n < 5" for n
  proof -
    have "bit d' n \<longleftrightarrow> bit (field 0 5 d') n" using that by (simp add: bit_field)
    then show ?thesis by (simp add: d'(2))
  qed
  moreover have "\<exists>c'. regs s3 (CSIS_REGS, MIPI_CSIS_CMN_CTRL) = Some c' \<and> \<not> bit c' 0"
    using e(1) h2 [of MIPI_CSIS_CMN_CTRL CSIS_REGS] by auto
  moreover have "\<exists>i. regs s3 (CSIS_REGS, MIPI_CSIS_INTMSK) = Some i \<and> i AND 0x0FFFFF1F = 0"
    using i(1) e(3) [of MIPI_CSIS_INTMSK CSIS_REGS] h2 [of MIPI_CSIS_INTMSK CSIS_REGS] by auto
  ultimately show ?thesis
    using d'(1) h known(3) unfolding stop switches_def gasket_type_def by auto
qed

section \<open>Properties\<close>

text \<open>The zeroed structure of a receiver with two lanes.\<close>

definition csis_example :: "unit csi_state" where
  "csis_example = \<lparr>hist = [], cs_index = 0, cs_regs = Obj, cs_mipi_clk = Obj, cs_disp_axi = Obj,
     cs_disp_apb = Obj, cs_irq = 17, cs_clk_frequency = 166000000, cs_hs_settle = 13, cs_clk_settle = 2,
     cs_num_lanes = 2, cs_max_num_lanes = 4, cs_wclk_ext = False,
     cs_csis_fmt = Some (mipi_csis_formats ! 8),
     cs_format = zero_fmt\<lparr>fmt_width := 2592, fmt_height := 1944, fmt_code := MEDIA_BUS_FMT_SBGGR10_1X10\<rparr>,
     cs_pkt_data = None, cs_pkt_len = 0, cs_events = mipi_csis_events, cs_mipi_phy_regulator = Obj,
     cs_gasket = Obj, cs_mix_gpr = Obj, cs_soft_resetn = Obj, cs_clk_enable = Obj, cs_mipi_reset = Obj,
     cs_phy_reset_fn = Some Mx8mn, cs_hdr = False, cs_pads = [1, 1, 1, 1, 2, 2, 2, 2], cs_num_pads = 8,
     cs_remote = ()\<rparr>"

text \<open>
  C12: on hardware whose registers hold what is written, with a high-speed settle time below 256, a clock
  settle time below 4, at most 4 lanes and a frame that is not empty, starting the receiver leaves it
  configured for the driver's format, geometry, lane count and high-speed settle time, enabled with exactly
  its lanes and its interrupts on, and the gasket open with the frame size; the data type of the gasket is
  the new one merged into whatever was there before.  The clock settle time is merged into its field in the
  same way, as the driver clears only the other field: its bits are all set, and the field is exactly the
  clock settle time when the register reads zero there after the reset.
\<close>

theorem csis_start_programs:
  assumes hw: "csis_hw k" and fmt: "cs_csis_fmt s = Some fmt" "fmt \<in> set mipi_csis_formats"
    and settle: "cs_hs_settle s < 256" "cs_clk_settle s < 4"
    and lanes: "unat (cs_num_lanes s) \<le> 4"
    and size: "fmt_width (cs_format s) \<noteq> 0" "fmt_height (cs_format s) \<noteq> 0"
  shows "params_programmed fmt s (regs (mipi_csis_start_stream k s)) \<and>
    switches True s (regs (mipi_csis_start_stream k s)) \<and>
    gasket_size (regs (mipi_csis_start_stream k s)) =
      Some (fmt_width (cs_format s), fmt_height (cs_format s)) \<and>
    (\<forall>t. gasket_type (regs s) = Some t \<longrightarrow>
      gasket_type (regs (mipi_csis_start_stream k s)) = Some (t OR field 2 6 (pf_fmt_reg fmt))) \<and>
    ((\<forall>h. mmio_image h (CSIS_REGS, MIPI_CSIS_DPHYCTRL) = None \<longrightarrow> field 22 2 (mmio k h CSIS_REGS MIPI_CSIS_DPHYCTRL) = 0) \<longrightarrow>
      (\<exists>phy. regs (mipi_csis_start_stream k s) (CSIS_REGS, MIPI_CSIS_DPHYCTRL) = Some phy \<and> field 22 2 phy = cs_clk_settle s))"
  using assms by (rule start_stream_regs)

theorem csis_start_programs_witness:
  "params_programmed (mipi_csis_formats ! 8) csis_example (regs (mipi_csis_start_stream ideal_soc csis_example)) \<and>
   switches True csis_example (regs (mipi_csis_start_stream ideal_soc csis_example)) \<and>
   gasket_size (regs (mipi_csis_start_stream ideal_soc csis_example)) = Some (2592, 1944) \<and>
   (\<exists>phy. regs (mipi_csis_start_stream ideal_soc csis_example) (CSIS_REGS, MIPI_CSIS_DPHYCTRL) = Some phy \<and> field 22 2 phy = 2)"
proof -
  have "mipi_csis_formats ! 8 \<in> set mipi_csis_formats" by (simp add: mipi_csis_formats_def)
  moreover have "field 22 2 (mmio ideal_soc h CSIS_REGS MIPI_CSIS_DPHYCTRL) = 0"
    if "mmio_image h (CSIS_REGS, MIPI_CSIS_DPHYCTRL) = None" for h
    using that by (simp add: ideal_soc_def field_def)
  ultimately show ?thesis
    using csis_start_programs [of ideal_soc csis_example "mipi_csis_formats ! 8"]
    by (simp add: csis_example_def zero_fmt_def)
qed

text \<open>
  stopping a receiver whose control registers and gasket have been written since their last reset
  disables it, all its lanes, its interrupts and the gasket, and keeps the data type of the gasket.
\<close>

theorem csis_stop_switches_off:
  assumes "csis_hw k" and "regs s (CSIS_REGS, MIPI_CSIS_CMN_CTRL) = Some c"
    and "regs s (CSIS_REGS, MIPI_CSIS_DPHYCTRL) = Some d" and "regs s (GASKET, DISP_MIX_GASKET_0_CTRL) = Some g"
  shows "switches False s (regs (mipi_csis_stop_stream k s)) \<and>
    gasket_type (regs (mipi_csis_stop_stream k s)) = gasket_type (regs s)"
  using assms by (rule stop_stream_regs)

theorem csis_stop_switches_off_witness:
  "switches False csis_example
     (regs (mipi_csis_stop_stream ideal_soc (csis_example\<lparr>hist := [Soc (MmioWrite CSIS_REGS 0x04 0x101),
        Soc (MmioWrite CSIS_REGS 0x24 0x7), Soc (MmioWrite GASKET 0 0x2b01)]\<rparr>)))"
proof -
  let ?s = "csis_example\<lparr>hist := [Soc (MmioWrite CSIS_REGS 0x04 0x101),
        Soc (MmioWrite CSIS_REGS 0x24 0x7), Soc (MmioWrite GASKET 0 0x2b01)]\<rparr>"
  have "switches False ?s (regs (mipi_csis_stop_stream ideal_soc ?s))"
    by (rule csis_stop_switches_off [THEN conjunct1]) (simp_all add: mmio_image_def)
  then show ?thesis by (simp add: switches_def)
qed

text \<open>
  the gasket never forgets a data type: when the previous one has a bit that the new one has not,
  starting the receiver leaves the gasket with a type that is not the one of the driver's format.
\<close>

theorem csis_gasket_type_accumulates:
  assumes "csis_hw k" and "cs_csis_fmt s = Some fmt" and "fmt \<in> set mipi_csis_formats"
    and "cs_hs_settle s < 256" and "cs_clk_settle s < 4" and "unat (cs_num_lanes s) \<le> 4"
    and "fmt_width (cs_format s) \<noteq> 0" and "fmt_height (cs_format s) \<noteq> 0"
    and "gasket_type (regs s) = Some t" and "bit t i" and "\<not> bit (the (gasket_data_type (pf_code fmt))) i"
  shows "gasket_type (regs (mipi_csis_start_stream k s)) \<noteq> gasket_data_type (pf_code fmt)"
  using start_stream_regs [OF assms(1-8)] assms(9-11) gasket_type_of_format [OF assms(3)]
  by (auto simp: bit_simps dest: arg_cong [where f = "\<lambda>x. bit x i"])

theorem csis_gasket_type_accumulates_witness:
  "gasket_type (regs (mipi_csis_start_stream ideal_soc (csis_example\<lparr>cs_csis_fmt := Some (mipi_csis_formats ! 4),
      hist := [Soc (MmioWrite GASKET 0 0x2b01)]\<rparr>))) \<noteq> gasket_data_type MEDIA_BUS_FMT_SBGGR8_1X8"
proof -
  let ?f = "mipi_csis_formats ! 4"
  let ?s = "csis_example\<lparr>cs_csis_fmt := Some ?f, hist := [Soc (MmioWrite GASKET 0 0x2b01)]\<rparr>"
  have f: "?f \<in> set mipi_csis_formats" "pf_code ?f = MEDIA_BUS_FMT_SBGGR8_1X8"
    by (simp_all add: mipi_csis_formats_def pix_format_entry_def)
  have "gasket_type (regs (mipi_csis_start_stream ideal_soc ?s)) \<noteq> gasket_data_type (pf_code ?f)"
    by (rule csis_gasket_type_accumulates [where i = 0 and t = "0x2b"])
      (use f in \<open>simp_all add: csis_example_def zero_fmt_def gasket_type_def mmio_image_def field_def
         gasket_data_type_def\<close>)
  from this [unfolded f(2)] show ?thesis .
qed

end
