(* ===== verification/Csis_Dev.thy ===== *)
theory Csis_Dev
  imports Csis_Hw
begin

text \<open>
  The receiver as a V4L2 sub-device: runtime power, the operations that are passed on to the remote
  sub-device at the other end of the first connected link, streaming, the private ioctls and the interrupt
  handler.  The remote sub-device is a separate driver: its operations are the record \<open>remote_ops\<close>, an
  operation that it does not implement is \<open>None\<close>.
\<close>

section \<open>The remote sub-device\<close>

record frame_size_enum =
  fse_index :: u32
  fse_pad :: u32
  fse_code :: u32
  fse_width :: "u32 \<times> u32"
  fse_height :: "u32 \<times> u32"

record frame_interval_enum =
  fie_index :: u32
  fie_pad :: u32
  fie_code :: u32
  fie_width :: u32
  fie_height :: u32
  fie_interval :: v4l2_fract

text \<open>An operation takes the argument structure and returns the code and the changed structure.\<close>

type_synonym ('x, 'r) remote_op = "('x \<Rightarrow> 'r \<Rightarrow> int \<times> 'x \<times> 'r) option"

text \<open>The pad operations are called with a NULL pad configuration.\<close>

record 'r remote_ops =
  r_s_power :: "(int, 'r) remote_op"
  r_set_fmt :: "(v4l2_subdev_format, 'r) remote_op"
  r_get_fmt :: "(v4l2_subdev_format, 'r) remote_op"
  r_s_frame_interval :: "(v4l2_fract, 'r) remote_op"
  r_g_frame_interval :: "(v4l2_fract, 'r) remote_op"
  r_enum_frame_size :: "(frame_size_enum, 'r) remote_op"
  r_enum_frame_interval :: "(frame_interval_enum, 'r) remote_op"

definition v4l2_subdev_call ::
  "('x, 'r) remote_op \<Rightarrow> 'x \<Rightarrow> 'r csi_state \<Rightarrow> int \<times> 'x \<times> 'r csi_state" where
  "v4l2_subdev_call f x s =
     (case f of None \<Rightarrow> (- ENOIOCTLCMD, x, s)
      | Some g \<Rightarrow> let (ret, x', r) = g x (cs_remote s) in (ret, x', s\<lparr>cs_remote := r\<rparr>))"

text \<open>
  The pad search runs over the pads of the entity from \<open>i\<close> on and stops at the first sink with a remote
  pad.  The endless loop around it in the source returns in its first round.
\<close>

function csis_scan_pads :: "sapi \<Rightarrow> 'r csi_state \<Rightarrow> nat \<Rightarrow> remote_pad option" where
  "csis_scan_pads k s i =
     (if i < cs_num_pads s
      then if cs_pads s ! i AND MEDIA_PAD_FL_SINK \<noteq> 0
           then case media_remote_pad k (hist s) i of
                  Some p \<Rightarrow> Some p
                | None \<Rightarrow> csis_scan_pads k s (Suc i)
           else csis_scan_pads k s (Suc i)
      else None)"
  by pat_completeness auto
termination
  by (relation "measure (\<lambda>(k, s, i). cs_num_pads s - i)") auto

declare csis_scan_pads.simps [simp del]

definition csis_get_remote_sensor_pad :: "sapi \<Rightarrow> 'r csi_state \<Rightarrow> remote_pad option" where
  "csis_get_remote_sensor_pad k s = csis_scan_pads k s 0"

text \<open>Whether there is a remote sub-device; its state is \<open>cs_remote\<close>.\<close>

definition csis_get_remote_subdev :: "sapi \<Rightarrow> 'r csi_state \<Rightarrow> bool" where
  "csis_get_remote_subdev k s =
     (case csis_get_remote_sensor_pad k s of None \<Rightarrow> False | Some p \<Rightarrow> rp_is_subdev p)"

definition mipi_csi2_link_setup :: "u32 \<Rightarrow> 'r csi_state op" where
  "mipi_csi2_link_setup flags s = (0, s)"

section \<open>Runtime power\<close>

definition mipi_csis_runtime_suspend :: "sapi \<Rightarrow> 'r csi_state op" where
  "mipi_csis_runtime_suspend k s =
     (let (ret, s) = phy_disable k s
      in if ret < 0 then (ret, s)
      else let s = snd (disp_mix_clks_enable k (cs_clk_enable s) False s)
           in (0, mipi_csis_clk_disable s))"

definition mipi_csis_runtime_resume :: "sapi \<Rightarrow> 'r csi_state op" where
  "mipi_csis_runtime_resume k s =
     (let (ret, s) = phy_enable k s
      in if ret < 0 then (ret, s)
      else let (ret, s) = mipi_csis_clk_enable k s
      in if ret < 0 then (ret, s)
      else let s = snd (disp_mix_clks_enable k (cs_clk_enable s) True s);
               s = snd (disp_mix_sft_rstn k (cs_soft_resetn s) False s)
           in (0, case cs_phy_reset_fn s of None \<Rightarrow> s | Some f \<Rightarrow> phy_reset_call k f s))"

definition mipi_csis_system_suspend :: "sapi \<Rightarrow> 'r csi_state scb \<Rightarrow> 'r csi_state op" where
  "mipi_csis_system_suspend k f s =
     force_suspend f (mipi_csis_runtime_suspend k) (emit (Soc PmForceSuspend) s)"

definition mipi_csis_system_resume :: "sapi \<Rightarrow> 'r csi_state scb \<Rightarrow> 'r csi_state op" where
  "mipi_csis_system_resume k f s =
     (let (ret, s) = force_resume f (mipi_csis_runtime_resume k) (emit (Soc PmForceResume) s)
      in if ret < 0 then (ret, s) else (0, s))"

section \<open>Sub-device operations\<close>

definition mipi_csis_s_power :: "sapi \<Rightarrow> 'r remote_ops \<Rightarrow> int \<Rightarrow> 'r csi_state op" where
  "mipi_csis_s_power k r on s =
     (if \<not> csis_get_remote_subdev k s then (- EINVAL, s)
      else let (ret, _, s) = v4l2_subdev_call (r_s_power r) on s in (ret, s))"

definition mipi_csis_s_stream :: "sapi \<Rightarrow> 'r csi_state kcb \<Rightarrow> int \<Rightarrow> 'r csi_state op" where
  "mipi_csis_s_stream k c enable s =
     (if enable \<noteq> 0
      then let (_, s) = pm_runtime_get_sync c (mipi_csis_runtime_resume k) s;
               s = mipi_csis_clear_counters s;
               s = mipi_csis_start_stream k s;
               s = dump_csis_regs k s
           in (0, dump_gasket_regs k s)
      else let s = mipi_csis_stop_stream k s;
               s = (if 0 < debug_level k (hist s) then snd (mipi_csis_log_counters k True s) else s)
           in (0, pm_runtime_put c (mipi_csis_runtime_suspend k) s))"

definition mipi_csis_set_fmt ::
  "sapi \<Rightarrow> 'r remote_ops \<Rightarrow> v4l2_subdev_format \<Rightarrow> 'r csi_state \<Rightarrow> int \<times> v4l2_subdev_format \<times> 'r csi_state" where
  "mipi_csis_set_fmt k r format s =
     (case csis_get_remote_sensor_pad k s of
        None \<Rightarrow> (- EINVAL, format, s)
      | Some source_pad \<Rightarrow>
          if \<not> csis_get_remote_subdev k s then (- EINVAL, format, s)
          else let format = format\<lparr>sf_pad := rp_index source_pad\<rparr>;
                   (ret, format, s) = v4l2_subdev_call (r_set_fmt r) format s
          in if ret < 0 then (- EINVAL, format, s)
          else case find_csis_format (fmt_code (sf_format format)) of
                 Some csis_fmt \<Rightarrow> (0, format, s\<lparr>cs_csis_fmt := Some csis_fmt\<rparr>)
               | None \<Rightarrow>
                   let csis_fmt = mipi_csis_formats ! 0;
                       format = format\<lparr>sf_format := (sf_format format)\<lparr>fmt_code := pf_code csis_fmt\<rparr>\<rparr>
                   in (0, format, s\<lparr>cs_csis_fmt := Some csis_fmt\<rparr>))"

definition mipi_csis_get_fmt ::
  "sapi \<Rightarrow> 'r remote_ops \<Rightarrow> v4l2_subdev_format \<Rightarrow> 'r csi_state \<Rightarrow> int \<times> v4l2_subdev_format \<times> 'r csi_state" where
  "mipi_csis_get_fmt k r format s =
     (case csis_get_remote_sensor_pad k s of
        None \<Rightarrow> (- EINVAL, format, s)
      | Some source_pad \<Rightarrow>
          if \<not> csis_get_remote_subdev k s then (- EINVAL, format, s)
          else let format = format\<lparr>sf_pad := rp_index source_pad\<rparr>;
                   (ret, format, s) = v4l2_subdev_call (r_get_fmt r) format s
          in if ret < 0 then (ret, format, s)
          else (0, format, s\<lparr>cs_format := sf_format format\<rparr>))"

definition mipi_csis_s_rx_buffer :: "nat option \<Rightarrow> u32 \<Rightarrow> 'r csi_state \<Rightarrow> int \<times> u32 \<times> 'r csi_state" where
  "mipi_csis_s_rx_buffer buf sz s =
     (let sz = min sz MIPI_CSIS_PKTDATA_SIZE;
          s = emit (Soc SpinLock) s;
          s = s\<lparr>cs_pkt_data := buf, cs_pkt_len := sz\<rparr>
      in (0, sz, emit (Soc SpinUnlock) s))"

definition mipi_csis_s_frame_interval ::
  "sapi \<Rightarrow> 'r remote_ops \<Rightarrow> v4l2_fract \<Rightarrow> 'r csi_state \<Rightarrow> int \<times> v4l2_fract \<times> 'r csi_state" where
  "mipi_csis_s_frame_interval k r interval s =
     (if \<not> csis_get_remote_subdev k s then (- EINVAL, interval, s)
      else v4l2_subdev_call (r_s_frame_interval r) interval s)"

definition mipi_csis_g_frame_interval ::
  "sapi \<Rightarrow> 'r remote_ops \<Rightarrow> v4l2_fract \<Rightarrow> 'r csi_state \<Rightarrow> int \<times> v4l2_fract \<times> 'r csi_state" where
  "mipi_csis_g_frame_interval k r interval s =
     (if \<not> csis_get_remote_subdev k s then (- EINVAL, interval, s)
      else v4l2_subdev_call (r_g_frame_interval r) interval s)"

definition mipi_csis_enum_framesizes ::
  "sapi \<Rightarrow> 'r remote_ops \<Rightarrow> frame_size_enum \<Rightarrow> 'r csi_state \<Rightarrow> int \<times> frame_size_enum \<times> 'r csi_state" where
  "mipi_csis_enum_framesizes k r fse s =
     (if \<not> csis_get_remote_subdev k s then (- EINVAL, fse, s)
      else v4l2_subdev_call (r_enum_frame_size r) fse s)"

definition mipi_csis_enum_frameintervals ::
  "sapi \<Rightarrow> 'r remote_ops \<Rightarrow> frame_interval_enum \<Rightarrow> 'r csi_state \<Rightarrow> int \<times> frame_interval_enum \<times> 'r csi_state"
where
  "mipi_csis_enum_frameintervals k r fie s =
     (if \<not> csis_get_remote_subdev k s then (- EINVAL, fie, s)
      else v4l2_subdev_call (r_enum_frame_interval r) fie s)"

definition mipi_csis_log_status :: "sapi \<Rightarrow> 'r csi_state op" where
  "mipi_csis_log_status k s =
     (let s = emit MutexLock s;
          s = snd (mipi_csis_log_counters k True s);
          s = (if debug_level k (hist s) \<noteq> 0 then dump_gasket_regs k (dump_csis_regs k s) else s)
      in (0, emit MutexUnlock s))"

section \<open>Private ioctls\<close>

text \<open>The switch of \<^verbatim>\<open>csis_s_fmt\<close>: the media bus code of a pixel format.\<close>

definition sam_code :: "64 word \<Rightarrow> u32 option" where
  "sam_code format = map_of [
     (ucast V4L2_PIX_FMT_SBGGR8, MEDIA_BUS_FMT_SBGGR8_1X8),
     (ucast V4L2_PIX_FMT_SGBRG8, MEDIA_BUS_FMT_SGBRG8_1X8),
     (ucast V4L2_PIX_FMT_SGRBG8, MEDIA_BUS_FMT_SGRBG8_1X8),
     (ucast V4L2_PIX_FMT_SRGGB8, MEDIA_BUS_FMT_SRGGB8_1X8),
     (ucast V4L2_PIX_FMT_GREY, MEDIA_BUS_FMT_Y8_1X8),
     (ucast V4L2_PIX_FMT_SBGGR10, MEDIA_BUS_FMT_SBGGR10_1X10),
     (ucast V4L2_PIX_FMT_SGBRG10, MEDIA_BUS_FMT_SGBRG10_1X10),
     (ucast V4L2_PIX_FMT_SGRBG10, MEDIA_BUS_FMT_SGRBG10_1X10),
     (ucast V4L2_PIX_FMT_SRGGB10, MEDIA_BUS_FMT_SRGGB10_1X10),
     (ucast V4L2_PIX_FMT_Y10, MEDIA_BUS_FMT_Y10_1X10),
     (ucast V4L2_PIX_FMT_SBGGR12, MEDIA_BUS_FMT_SBGGR12_1X12),
     (ucast V4L2_PIX_FMT_SGBRG12, MEDIA_BUS_FMT_SGBRG12_1X12),
     (ucast V4L2_PIX_FMT_SGRBG12, MEDIA_BUS_FMT_SGRBG12_1X12),
     (ucast V4L2_PIX_FMT_SRGGB12, MEDIA_BUS_FMT_SRGGB12_1X12),
     (ucast V4L2_PIX_FMT_Y12, MEDIA_BUS_FMT_Y12_1X12)] format"

definition csis_s_fmt :: "sapi \<Rightarrow> csi_sam_format \<Rightarrow> 'r csi_state op" where
  "csis_s_fmt k fmt s =
     (case sam_code (sam_format fmt) of
        None \<Rightarrow> (- EINVAL, s)
      | Some code \<Rightarrow>
          case find_csis_format code of
            None \<Rightarrow> (- EINVAL, s)
          | Some csis_format \<Rightarrow>
              let s = s\<lparr>cs_csis_fmt := Some csis_format\<rparr>;
                  s = s\<lparr>cs_format := (cs_format s)\<lparr>fmt_width := sam_width fmt, fmt_height := sam_height fmt\<rparr>\<rparr>;
                  s = disp_mix_gasket_config k s
              in (0, mipi_csis_set_params k s))"

definition csis_s_hdr :: "bool \<Rightarrow> 'r csi_state op" where
  "csis_s_hdr enable s = (0, s\<lparr>cs_hdr := enable\<rparr>)"

text \<open>The driver name and the first byte of the bus information of \<^verbatim>\<open>struct v4l2_capability\<close>.\<close>

definition csis_ioc_qcap :: "'r csi_state \<Rightarrow> int \<times> (string \<times> u8) \<times> 'r csi_state" where
  "csis_ioc_qcap s = (0, (''csi_samsung_subdev'', cs_index s), s)"

text \<open>The argument of an ioctl: a format, a flag, or a capability structure to fill.\<close>

definition csis_priv_ioctl ::
  "sapi \<Rightarrow> 'r csi_state kcb \<Rightarrow> 'r remote_ops \<Rightarrow> u32 \<Rightarrow> csi_sam_format \<Rightarrow> bool \<Rightarrow> 'r csi_state op" where
  "csis_priv_ioctl k c r cmd fmt_arg hdr_arg s =
     (let (_, s) = pm_runtime_get_sync c (mipi_csis_runtime_resume k) s;
          (ret, s) =
            (if cmd = VVCSIOC_RESET then (0, mipi_csis_sw_reset k s)
             else if cmd = VVCSIOC_POWERON then mipi_csis_s_power k r 1 s
             else if cmd = VVCSIOC_POWEROFF then mipi_csis_s_power k r 0 s
             else if cmd = VVCSIOC_STREAMON then mipi_csis_s_stream k c 1 s
             else if cmd = VVCSIOC_STREAMOFF then mipi_csis_s_stream k c 0 s
             else if cmd = VVCSIOC_S_FMT then csis_s_fmt k fmt_arg s
             else if cmd = VVCSIOC_S_HDR then csis_s_hdr hdr_arg s
             else if cmd = VIDIOC_QUERYCAP then let (ret, _, s) = csis_ioc_qcap s in (ret, s)
             else (- EINVAL, s))
      in (ret, pm_runtime_put c (mipi_csis_runtime_suspend k) s))"

section \<open>Interrupts\<close>

text \<open>The loop over the events: the counters of those whose bit is in \<open>status\<close> go up.\<close>

definition count_events :: "u32 \<Rightarrow> mipi_csis_event list \<Rightarrow> mipi_csis_event list" where
  "count_events status =
     map (\<lambda>e. if status AND ev_mask e = 0 then e else e\<lparr>ev_counter := ev_counter e + 1\<rparr>)"

definition mipi_csis_irq_handler :: "sapi \<Rightarrow> 'r csi_state \<Rightarrow> 'r csi_state" where
  "mipi_csis_irq_handler k s =
     (let (status, s) = readl k CSIS_REGS MIPI_CSIS_INTSRC s;
          s = emit (Soc SpinLock) s;
          s = (if status AND MIPI_CSIS_INTSRC_NON_IMAGE_DATA \<noteq> 0
               then case cs_pkt_data s of
                      None \<Rightarrow> s
                    | Some data \<Rightarrow>
                        let offset = (if status AND MIPI_CSIS_INTSRC_EVEN \<noteq> 0 then MIPI_CSIS_PKTDATA_EVEN
                                      else MIPI_CSIS_PKTDATA_ODD);
                            s = emit (Soc (MemcpyFromIo data CSIS_REGS offset (cs_pkt_len s))) s
                        in s\<lparr>cs_pkt_data := None\<rparr>
               else s);
          s = (if status AND MIPI_CSIS_INTSRC_ERRORS \<noteq> 0 \<or> debug_level k (hist s) \<noteq> 0
               then s\<lparr>cs_events := count_events status (cs_events s)\<rparr> else s);
          s = emit (Soc SpinUnlock) s
      in writel CSIS_REGS MIPI_CSIS_INTSRC status s)"

section \<open>Well-formedness\<close>

text \<open>
  A receiver that has been probed: a format of the table, a supported lane count, its eight pads, its event
  table with whatever counts, a packet buffer within the window of the device, released locks and no fault.
\<close>

definition csis_wf :: "'r csi_state \<Rightarrow> bool" where
  "csis_wf s \<longleftrightarrow> (\<exists>fmt \<in> set mipi_csis_formats. cs_csis_fmt s = Some fmt) \<and>
     cs_num_lanes s \<noteq> 0 \<and> cs_num_lanes s \<le> cs_max_num_lanes s \<and>
     cs_num_pads s = MIPI_CSIS_VCX_PADS_NUM \<and> length (cs_pads s) = MIPI_CSIS_VCX_PADS_NUM \<and>
     map (\<lambda>e. (ev_mask e, ev_name e)) (cs_events s) = map (\<lambda>e. (ev_mask e, ev_name e)) mipi_csis_events \<and>
     cs_pkt_len s \<le> MIPI_CSIS_PKTDATA_SIZE \<and>
     balance spin_delta (hist s) = 0 \<and> balance lock_delta (hist s) = 0 \<and> NullDeref \<notin> set (hist s)"

definition quiet :: "kevent \<Rightarrow> bool" where
  "quiet e \<longleftrightarrow> spin_delta e = 0 \<and> lock_delta e = 0 \<and> pm_delta e = 0 \<and> e \<noteq> NullDeref"

lemma hw_quiet: "hw_event e \<Longrightarrow> quiet e"
  by (cases e rule: hw_event.cases) (simp_all add: quiet_def)

lemma quiet_list:
  assumes "list_all quiet es"
  shows "balance spin_delta es = 0" "balance lock_delta es = 0" "balance pm_delta es = 0" "NullDeref \<notin> set es"
  using assms by (auto intro!: balance_zero [OF assms] simp: quiet_def list_all_iff)

lemma wf_hist:
  "csis_wf s \<Longrightarrow> balance spin_delta es = 0 \<Longrightarrow> balance lock_delta es = 0 \<Longrightarrow> NullDeref \<notin> set es \<Longrightarrow>
     csis_wf (s\<lparr>hist := hist s @ es\<rparr>)"
  by (simp add: csis_wf_def)

lemma wf_emits: "emits quiet s t \<Longrightarrow> csis_wf s \<Longrightarrow> csis_wf t"
  by (auto simp: emits_def quiet_list intro!: wf_hist)

lemma emits_hw_quiet: "emits hw_event s t \<Longrightarrow> emits quiet s t"
  by (erule emits_mono) (rule hw_quiet)

lemma wf_fmt: "csis_wf s \<Longrightarrow> cs_csis_fmt s \<noteq> None"
  by (auto simp: csis_wf_def)

lemma wf_remote [simp]: "csis_wf (s\<lparr>cs_remote := r\<rparr>) = csis_wf s"
  by (simp add: csis_wf_def)

named_theorems wf_rules \<open>operations keep the receiver well formed\<close>

lemma wf_start_stream [wf_rules]: "csis_wf s \<Longrightarrow> csis_wf (mipi_csis_start_stream k s)"
  by (rule wf_emits [OF emits_hw_quiet [OF emits_start_stream [OF emits_refl wf_fmt]]])

lemma wf_stop_stream [wf_rules]: "csis_wf s \<Longrightarrow> csis_wf (mipi_csis_stop_stream k s)"
  by (rule wf_emits [OF emits_hw_quiet [OF emits_stop_stream [OF emits_refl]]])

lemma wf_sw_reset [wf_rules]: "csis_wf s \<Longrightarrow> csis_wf (mipi_csis_sw_reset k s)"
  by (rule wf_emits [OF emits_hw_quiet [OF emits_sw_reset [OF emits_refl]]])

lemma wf_clear_counters [wf_rules]: "csis_wf s \<Longrightarrow> csis_wf (mipi_csis_clear_counters s)"
  by (auto simp: mipi_csis_clear_counters_def Let_def csis_wf_def o_def emit_def)

lemma wf_log_counters [wf_rules]: "csis_wf s \<Longrightarrow> csis_wf (snd (mipi_csis_log_counters k b s))"
  by (auto simp: mipi_csis_log_counters_def Let_def csis_wf_def emit_def)

lemma emits_reads: "emits hw_event s (fold (\<lambda>off s. snd (readl k b off s)) offs s)"
proof (induction offs arbitrary: s)
  case (Cons off offs)
  have "emits hw_event s (snd (readl k b off s))" by (intro hw_frame emits_refl)
  with Cons show ?case by (auto intro: emits_trans)
qed simp

lemma wf_dumps [wf_rules]:
  "csis_wf s \<Longrightarrow> csis_wf (dump_csis_regs k s)" "csis_wf s \<Longrightarrow> csis_wf (dump_gasket_regs k s)"
  unfolding dump_csis_regs_def dump_gasket_regs_def
  by (erule wf_emits [OF emits_hw_quiet [OF emits_reads]])+

text \<open>Power: supplies, clocks, reset lines and the registers of the PHY reset.\<close>

lemma emits_quiet_emit: "quiet e \<Longrightarrow> emits quiet s t \<Longrightarrow> emits quiet s (emit e t)"
  by (auto simp: emits_def emit_def)

lemma emits_resets:
  "emits quiet s t \<Longrightarrow> emits quiet s (snd (reset_control_assert k l p t))"
  "emits quiet s t \<Longrightarrow> emits quiet s (snd (reset_control_deassert k l p t))"
  "emits quiet s t \<Longrightarrow> emits quiet s (snd (disp_mix_clks_enable k p on t))"
  "emits quiet s t \<Longrightarrow> emits quiet s (snd (disp_mix_sft_rstn k p on t))"
  by (auto simp: reset_control_assert_def reset_control_deassert_def disp_mix_clks_enable_def
      disp_mix_sft_rstn_def Let_def emits_def emit_def quiet_def)

lemma emits_phy_reset: "emits quiet s t \<Longrightarrow> emits quiet s (phy_reset_call k f t)"
  by (cases f) (auto simp: mipi_csis_phy_reset_mx8mn_def Let_def writel_def quiet_def
      intro!: emits_quiet_emit emits_resets)

lemma emits_clk_enable: "emits quiet s (snd (mipi_csis_clk_enable k s))"
  unfolding mipi_csis_clk_enable_def
  by (rule emits_run_steps) (auto simp: soc_clk_enable_def Let_def emits_def emit_def quiet_def)

lemma emits_runtime_suspend: "emits quiet s (snd (mipi_csis_runtime_suspend k s))"
proof -
  have "emits quiet s (snd (phy_disable k s))"
    by (simp add: phy_disable_def Let_def emits_emit quiet_def)
  then show ?thesis
    by (auto simp: mipi_csis_runtime_suspend_def mipi_csis_clk_disable_def Let_def quiet_def split: prod.split
        intro!: emits_quiet_emit emits_resets)
qed

lemma emits_runtime_resume: "emits quiet s (snd (mipi_csis_runtime_resume k s))"
proof -
  obtain r1 s1 where 1: "phy_enable k s = (r1, s1)" by (cases "phy_enable k s")
  obtain r2 s2 where 2: "mipi_csis_clk_enable k s1 = (r2, s2)" by (cases "mipi_csis_clk_enable k s1")
  have e1: "emits quiet s s1" using 1 by (auto simp: phy_enable_def Let_def emits_emit quiet_def)
  have "emits quiet s1 s2" using emits_clk_enable [of s1 k] 2 by simp
  with e1 have "emits quiet s s2" by (rule emits_trans)
  with e1 show ?thesis
    by (auto simp: mipi_csis_runtime_resume_def 1 2 Let_def split: option.split
        intro!: emits_phy_reset emits_resets)
qed

lemma wf_pm_get [wf_rules]:
  assumes "pm_spec c" and "csis_wf s"
  shows "csis_wf (snd (pm_runtime_get_sync c (mipi_csis_runtime_resume k) s))"
proof -
  have "csis_wf (emit PmGetSync s)"
    using assms(2) by (simp add: csis_wf_def emit_def)
  with wf_emits [OF emits_runtime_resume this] show ?thesis
    using pm_get_cases [OF assms(1)] unfolding pm_runtime_get_sync_def by (metis snd_conv)
qed

lemma wf_pm_put [wf_rules]:
  assumes "pm_spec c" and "csis_wf s"
  shows "csis_wf (pm_runtime_put c (mipi_csis_runtime_suspend k) s)"
proof -
  have "csis_wf (emit PmPut s)"
    using assms(2) by (simp add: csis_wf_def emit_def)
  with wf_emits [OF emits_runtime_suspend this] show ?thesis
    using pm_put_cases [OF assms(1)] unfolding pm_runtime_put_def by metis
qed

lemma wf_system_sleep [wf_rules]:
  assumes "force_spec f" and "csis_wf s"
  shows "csis_wf (snd (mipi_csis_system_suspend k f s))" "csis_wf (snd (mipi_csis_system_resume k f s))"
proof -
  have e: "csis_wf (emit (Soc PmForceSuspend) s)" "csis_wf (emit (Soc PmForceResume) s)"
    by (rule wf_emits [OF emits_emit assms(2)], simp add: quiet_def)+
  show "csis_wf (snd (mipi_csis_system_suspend k f s))"
    using force_suspend_cases [OF assms(1)] wf_emits [OF emits_runtime_suspend e(1)] e(1)
    unfolding mipi_csis_system_suspend_def by (metis snd_conv)
  have "csis_wf (snd (force_resume f (mipi_csis_runtime_resume k) (emit (Soc PmForceResume) s)))"
    using force_resume_cases [OF assms(1)] wf_emits [OF emits_runtime_resume e(2)] e(2) by (metis snd_conv)
  then show "csis_wf (snd (mipi_csis_system_resume k f s))"
    by (auto simp: mipi_csis_system_resume_def Let_def split: prod.split)
qed

lemma wf_call [wf_rules]: "csis_wf s \<Longrightarrow> csis_wf (snd (snd (v4l2_subdev_call f x s)))"
  by (auto simp: v4l2_subdev_call_def Let_def split: option.split prod.split)

lemma wf_s_power [wf_rules]: "csis_wf s \<Longrightarrow> csis_wf (snd (mipi_csis_s_power k r on s))"
  using wf_call [of s "r_s_power r" on] by (auto simp: mipi_csis_s_power_def Let_def split: prod.split)

lemma wf_s_stream [wf_rules]:
  assumes "pm_spec c" and "csis_wf s" shows "csis_wf (snd (mipi_csis_s_stream k c on s))"
  using assms wf_stop_stream [of s k]
  by (auto simp: mipi_csis_s_stream_def Let_def split: prod.split intro!: wf_dumps wf_start_stream
      wf_clear_counters wf_pm_put wf_log_counters dest: wf_pm_get [of c s k])

lemma formats_first [simp]: "mipi_csis_formats ! 0 \<in> set mipi_csis_formats"
  by (simp add: mipi_csis_formats_def)

lemma wf_set_csis_fmt: "csis_wf s \<Longrightarrow> fmt \<in> set mipi_csis_formats \<Longrightarrow> csis_wf (s\<lparr>cs_csis_fmt := Some fmt\<rparr>)"
  by (auto simp: csis_wf_def)

lemma wf_set_format [simp]: "csis_wf (s\<lparr>cs_format := f\<rparr>) = csis_wf s"
  by (simp add: csis_wf_def)

lemma wf_set_fmt [wf_rules]: "csis_wf s \<Longrightarrow> csis_wf (snd (snd (mipi_csis_set_fmt k r f s)))"
  using wf_call [of s "r_set_fmt r"]
  by (auto simp: mipi_csis_set_fmt_def Let_def find_csis_format_Some split: option.split prod.split
      intro!: wf_set_csis_fmt) (metis snd_conv)+

lemma wf_get_fmt [wf_rules]: "csis_wf s \<Longrightarrow> csis_wf (snd (snd (mipi_csis_get_fmt k r f s)))"
  using wf_call [of s "r_get_fmt r"]
  by (auto simp: mipi_csis_get_fmt_def Let_def split: option.split prod.split) (metis snd_conv)+

lemma wf_rx_buffer [wf_rules]: "csis_wf s \<Longrightarrow> csis_wf (snd (snd (mipi_csis_s_rx_buffer buf n s)))"
  by (simp add: mipi_csis_s_rx_buffer_def Let_def csis_wf_def emit_def)

lemma wf_calls [wf_rules]:
  assumes "csis_wf s"
  shows "csis_wf (snd (snd (mipi_csis_s_frame_interval k r i s)))"
    "csis_wf (snd (snd (mipi_csis_g_frame_interval k r i s)))"
    "csis_wf (snd (snd (mipi_csis_enum_framesizes k r a s)))"
    "csis_wf (snd (snd (mipi_csis_enum_frameintervals k r b s)))"
  using assms
  by (simp_all add: wf_call mipi_csis_s_frame_interval_def mipi_csis_g_frame_interval_def
      mipi_csis_enum_framesizes_def mipi_csis_enum_frameintervals_def)

lemma wf_log_status [wf_rules]:
  assumes "csis_wf s" shows "csis_wf (snd (mipi_csis_log_status k s))"
proof -
  let ?l = "snd (mipi_csis_log_counters k True (emit MutexLock s))"
  have l: "?l = s\<lparr>hist := hist s @ [MutexLock, Soc SpinLock, Soc SpinUnlock]\<rparr>"
    by (simp add: mipi_csis_log_counters_def Let_def emit_def)
  have d: "emits quiet ?l (dump_gasket_regs k (dump_csis_regs k ?l))"
    unfolding dump_csis_regs_def dump_gasket_regs_def by (intro emits_hw_quiet emits_trans [OF emits_reads emits_reads])
  define t where "t = (if debug_level k (hist ?l) \<noteq> 0 then dump_gasket_regs k (dump_csis_regs k ?l) else ?l)"
  have "emits quiet ?l t" using d by (simp add: t_def)
  then obtain es where es: "t = ?l\<lparr>hist := hist ?l @ es\<rparr>" "list_all quiet es"
    by (auto simp: emits_def)
  have "snd (mipi_csis_log_status k s) = emit MutexUnlock t"
    by (simp add: mipi_csis_log_status_def Let_def t_def)
  also have "\<dots> = s\<lparr>hist := hist s @ [MutexLock, Soc SpinLock, Soc SpinUnlock] @ es @ [MutexUnlock]\<rparr>"
    unfolding es(1) l by (simp add: emit_def)
  also have "csis_wf \<dots>"
    using quiet_list [OF es(2)] by (intro wf_hist assms) simp_all
  finally show ?thesis .
qed

lemma wf_s_fmt [wf_rules]:
  assumes "csis_wf s" shows "csis_wf (snd (csis_s_fmt k fmt s))"
proof -
  have "csis_wf (mipi_csis_set_params k (disp_mix_gasket_config k t))" if "csis_wf t" for t :: "'a csi_state"
    using wf_fmt [OF that]
    by (intro wf_emits [OF emits_hw_quiet that] emits_set_params emits_gasket_config emits_refl)
  note params = this
  have "csis_wf (s\<lparr>cs_csis_fmt := Some f, cs_format := m\<rparr>)" if "f \<in> set mipi_csis_formats" for f m
    using assms that by (auto simp: csis_wf_def)
  with assms params show ?thesis
    by (auto simp: csis_s_fmt_def Let_def find_csis_format_Some split: option.split)
qed

lemma wf_priv_ioctl [wf_rules]:
  assumes "pm_spec c" and "csis_wf s"
  shows "csis_wf (snd (csis_priv_ioctl k c r cmd fa ha s))"
proof -
  obtain r1 t where t: "pm_runtime_get_sync c (mipi_csis_runtime_resume k) s = (r1, t)" "csis_wf t"
    using wf_pm_get [OF assms] by (metis prod.collapse)
  have "csis_wf (t\<lparr>cs_hdr := ha\<rparr>)" using t(2) by (simp add: csis_wf_def)
  then show ?thesis
    using t(2) wf_s_power [OF t(2)] wf_s_stream [OF assms(1) t(2)] wf_s_fmt [OF t(2)] wf_sw_reset [OF t(2)] assms(1)
    by (auto simp: csis_priv_ioctl_def t(1) csis_s_hdr_def csis_ioc_qcap_def Let_def split: prod.split
        intro!: wf_pm_put) (metis snd_conv)+
qed

lemma wf_irq [wf_rules]:
  assumes "csis_wf s" shows "csis_wf (mipi_csis_irq_handler k s)"
proof -
  have "map (\<lambda>e. (ev_mask e, ev_name e)) (count_events st es) = map (\<lambda>e. (ev_mask e, ev_name e)) es" for st es
    by (simp add: count_events_def o_def if_distrib cong: if_cong)
  with assms show ?thesis
    by (auto simp: mipi_csis_irq_handler_def Let_def readl_def writel_def csis_wf_def emit_def split: option.split)
qed

section \<open>Levels of supplies and usage counts\<close>

lemma quiet_pm: "emits quiet s t \<Longrightarrow> balance pm_delta (hist t) = balance pm_delta (hist s)"
  by (auto simp: emits_def quiet_list)

lemma pm_get_count:
  "pm_spec c \<Longrightarrow> balance pm_delta (hist (snd (pm_runtime_get_sync c (mipi_csis_runtime_resume k) s))) =
     balance pm_delta (hist s) + 1"
  using quiet_pm [OF emits_runtime_resume [of "emit PmGetSync s" k]] pm_get_cases [of c]
  unfolding pm_runtime_get_sync_def by (metis hist_emit snd_conv balance_append balance_Cons balance_Nil
      pm_delta.simps(1) add.right_neutral)

lemma pm_put_count:
  "pm_spec c \<Longrightarrow> balance pm_delta (hist (pm_runtime_put c (mipi_csis_runtime_suspend k) s)) =
     balance pm_delta (hist s) - 1"
  using quiet_pm [OF emits_runtime_suspend [of "emit PmPut s" k]] pm_put_cases [of c]
  unfolding pm_runtime_put_def by (metis hist_emit balance_append balance_Cons balance_Nil
      pm_delta.simps(3) add.right_neutral uminus_add_conv_diff add.commute)

lemma soc_level_resets [simp]:
  "soc_level x (snd (reset_control_assert k l p s)) = soc_level x s"
  "soc_level x (snd (reset_control_deassert k l p s)) = soc_level x s"
  "soc_level x (snd (disp_mix_clks_enable k p on s)) = soc_level x s"
  "soc_level x (snd (disp_mix_sft_rstn k p on s)) = soc_level x s"
  "soc_level x (phy_reset_call k f s) = soc_level x s"
  by (cases f; simp add: reset_control_assert_def reset_control_deassert_def disp_mix_clks_enable_def
      disp_mix_sft_rstn_def mipi_csis_phy_reset_mx8mn_def writel_def Let_def)+

lemma clk_nonpos: "soc_answers k \<Longrightarrow> fst (soc_clk_enable k c s) \<le> 0"
  by (simp add: soc_answers_def soc_clk_enable_def Let_def)

lemma clk_enable_cases:
  assumes "mipi_csis_clk_enable k s = (r, s')"
  obtains (mipi) "r \<noteq> 0" and "s' = emit (Soc (SocClkEnable MIPI_CLK r)) s"
  | (axi) "r \<noteq> 0" and "s' = emit (Soc (SocClkEnable DISP_AXI r)) (emit (Soc (SocClkEnable MIPI_CLK 0)) s)"
  | (apb) "s' = emit (Soc (SocClkEnable DISP_APB r)) (emit (Soc (SocClkEnable DISP_AXI 0))
      (emit (Soc (SocClkEnable MIPI_CLK 0)) s))"
  using assms by (auto simp: mipi_csis_clk_enable_def run_steps.simps(2) soc_clk_enable_def Let_def
      split: if_splits)

text \<open>
  A failing resume returns the error of the first supply that fails and keeps those enabled before it.
\<close>

lemma runtime_resume_levels:
  assumes "soc_answers k" and "mipi_csis_runtime_resume k s = (r, s')"
  obtains (on) "r = 0" and "\<And>x. soc_level x s' = soc_level x s + 1"
  | (phy) "r < 0" and "\<And>x. soc_level x s' = soc_level x s"
  | (clock) c where "r < 0" and "soc_level PhySupply s' = soc_level PhySupply s + 1"
      and "soc_level (SocClock c) s' = soc_level (SocClock c) s"
      and "\<And>c'. soc_level (SocClock c') s' = soc_level (SocClock c') s +
        (if (c = DISP_AXI \<and> c' = MIPI_CLK) \<or> (c = DISP_APB \<and> c' \<noteq> DISP_APB) then 1 else 0)"
proof -
  let ?p = "phy_enable_ret k (hist s)"
  define s1 where "s1 = emit (Soc (PhyEnable ?p)) s"
  obtain r2 s2 where 2: "mipi_csis_clk_enable k s1 = (r2, s2)" by (cases "mipi_csis_clk_enable k s1")
  have pe: "phy_enable k s = (?p, s1)" by (simp add: phy_enable_def s1_def Let_def)
  have p0: "?p \<le> 0" using assms(1) by (simp add: soc_answers_def)
  have r0: "r2 \<le> 0"
    using run_steps_nonpos [of "[soc_clk_enable k MIPI_CLK, soc_clk_enable k DISP_AXI, soc_clk_enable k DISP_APB]" s1]
      clk_nonpos [OF assms(1)] 2 by (auto simp: mipi_csis_clk_enable_def)
  show thesis
  proof (cases "?p < 0")
    case True
    then have "r = ?p" "s' = s1" using assms(2) by (auto simp: mipi_csis_runtime_resume_def pe Let_def)
    with True show thesis by (intro phy) (auto simp: s1_def, case_tac x, auto)
  next
    case False
    then have p: "?p = 0" using p0 by simp
    show thesis
    proof (cases "r2 < 0")
      case True
      then have rs: "r = r2" "s' = s2"
        using assms(2) False 2 by (auto simp: mipi_csis_runtime_resume_def pe Let_def)
      from 2 show thesis
      proof (cases rule: clk_enable_cases)
        case mipi
        with rs True p show thesis by (intro clock [of MIPI_CLK]) (auto simp: s1_def)
      next
        case axi
        with rs True p show thesis by (intro clock [of DISP_AXI]) (auto simp: s1_def)
      next
        case apb
        with rs True p show thesis by (intro clock [of DISP_APB]) (auto simp: s1_def, case_tac c', auto)
      qed
    next
      case False
      then have r2: "r2 = 0" using r0 by simp
      have "r = 0" "\<And>x. soc_level x s' = soc_level x s2"
        using assms(2) 2 p r2
        by (auto simp: mipi_csis_runtime_resume_def pe Let_def split: option.splits)
      moreover have "soc_level x s2 = soc_level x s + 1" for x
        using 2 r2 p by (cases rule: clk_enable_cases) (cases x; auto simp: s1_def split: soc_clk.splits; case_tac x2; auto)+
      ultimately show thesis by (intro on) auto
    qed
  qed
qed

interpretation csis_power: soc_power "soc_answers k" soc_level soc_level_free "\<lambda>_ _. True"
  "mipi_csis_runtime_resume k" "mipi_csis_runtime_suspend k" for k
proof unfold_locales
  fix s s' :: "'b csi_state" and x
  show "soc_level x s' = soc_level x s" if "grows soc_level_free s s'"
    using that by (rule grows_soc_level)
  show "soc_level x s' = soc_level x s + (if True then 1 else 0)"
    if "soc_answers k" and "mipi_csis_runtime_resume k s = (0, s')"
    using that by (cases rule: runtime_resume_levels) simp_all
  assume a: "soc_answers k" and "mipi_csis_runtime_suspend k s = (0, s')"
  moreover from a have "phy_disable_ret k (hist s) \<le> 0" by (simp add: soc_answers_def)
  ultimately show "soc_level x s' = soc_level x s - (if True then 1 else 0)"
    by (cases x; cases "case x of SocClock c \<Rightarrow> c")
      (auto simp: mipi_csis_runtime_suspend_def phy_disable_def mipi_csis_clk_disable_def Let_def
        split: if_splits)
qed simp

section \<open>The pad search\<close>

lemma scan_pads_Some:
  "csis_scan_pads k s i = Some p \<longleftrightarrow>
     (\<exists>j. i \<le> j \<and> j < cs_num_pads s \<and> cs_pads s ! j AND MEDIA_PAD_FL_SINK \<noteq> 0 \<and>
        media_remote_pad k (hist s) j = Some p \<and>
        (\<forall>l. i \<le> l \<and> l < j \<longrightarrow> cs_pads s ! l AND MEDIA_PAD_FL_SINK = 0 \<or> media_remote_pad k (hist s) l = None))"
proof (induction k s i rule: csis_scan_pads.induct)
  case (1 k s i)
  let ?sink = "\<lambda>j. cs_pads s ! j AND MEDIA_PAD_FL_SINK \<noteq> 0"
  let ?hit = "\<lambda>i j. i \<le> j \<and> j < cs_num_pads s \<and> ?sink j \<and> media_remote_pad k (hist s) j = Some p \<and>
    (\<forall>l. i \<le> l \<and> l < j \<longrightarrow> \<not> ?sink l \<or> media_remote_pad k (hist s) l = None)"
  consider "\<not> i < cs_num_pads s" | "i < cs_num_pads s" "?sink i" "media_remote_pad k (hist s) i \<noteq> None"
    | "i < cs_num_pads s" "\<not> ?sink i \<or> media_remote_pad k (hist s) i = None" by blast
  then show ?case
  proof cases
    case 1
    then show ?thesis by (subst csis_scan_pads.simps) auto
  next
    case 2
    then have scan: "csis_scan_pads k s i = media_remote_pad k (hist s) i"
      by (subst csis_scan_pads.simps) (auto split: option.split)
    have only: "j = i" if "?hit i j" for j
      using that 2 by (cases "i < j") (auto dest: spec [of _ i])
    have "(\<exists>j. ?hit i j) \<longleftrightarrow> ?hit i i"
    proof
      assume "\<exists>j. ?hit i j"
      then obtain j where h: "?hit i j" ..
      from h [unfolded only [OF h]] show "?hit i i" .
    qed (rule exI)
    also have "\<dots> \<longleftrightarrow> media_remote_pad k (hist s) i = Some p" using 2 by auto
    finally show ?thesis using scan by simp
  next
    case 3
    then have step: "csis_scan_pads k s i = csis_scan_pads k s (Suc i)"
      by (subst csis_scan_pads.simps) (auto split: option.split)
    have "csis_scan_pads k s (Suc i) = Some p \<longleftrightarrow> (\<exists>j. ?hit (Suc i) j)"
      using 3 1 by (cases "?sink i") auto
    also have "\<dots> \<longleftrightarrow> (\<exists>j. ?hit i j)"
    proof (rule arg_cong [of _ _ Ex], rule ext)
      fix j
      have "(\<forall>l. i \<le> l \<and> l < j \<longrightarrow> P l) \<longleftrightarrow> (i < j \<longrightarrow> P i) \<and> (\<forall>l. Suc i \<le> l \<and> l < j \<longrightarrow> P l)" for P
        by (metis Suc_leD Suc_leI le_neq_implies_less order_refl)
      then show "?hit (Suc i) j \<longleftrightarrow> ?hit i j" using 3 by (cases "j = i") auto
    qed
    finally show ?thesis using step by simp
  qed
qed

section \<open>Properties\<close>

text \<open>
  C35: the search for the sensor's pad ends for every number of pads, and returns the pad linked to the first
  sink pad that has a link; it returns nothing exactly when no sink pad of the entity is linked.
\<close>

theorem csis_remote_pad_first:
  "(csis_get_remote_sensor_pad k s = Some p \<longleftrightarrow>
     (\<exists>j < cs_num_pads s. cs_pads s ! j AND MEDIA_PAD_FL_SINK \<noteq> 0 \<and> media_remote_pad k (hist s) j = Some p \<and>
        (\<forall>l < j. cs_pads s ! l AND MEDIA_PAD_FL_SINK \<noteq> 0 \<longrightarrow> media_remote_pad k (hist s) l = None))) \<and>
   (csis_get_remote_sensor_pad k s = None \<longleftrightarrow>
     (\<forall>j < cs_num_pads s. cs_pads s ! j AND MEDIA_PAD_FL_SINK \<noteq> 0 \<longrightarrow> media_remote_pad k (hist s) j = None))"
proof -
  let ?hit = "\<lambda>j p. j < cs_num_pads s \<and> cs_pads s ! j AND MEDIA_PAD_FL_SINK \<noteq> 0 \<and>
    media_remote_pad k (hist s) j = Some p"
  have some: "csis_get_remote_sensor_pad k s = Some p \<longleftrightarrow> (\<exists>j. ?hit j p \<and>
      (\<forall>l < j. cs_pads s ! l AND MEDIA_PAD_FL_SINK \<noteq> 0 \<longrightarrow> media_remote_pad k (hist s) l = None))" for p
    unfolding csis_get_remote_sensor_pad_def scan_pads_Some by (intro arg_cong [of _ _ Ex] ext) auto
  have "(\<exists>p. csis_get_remote_sensor_pad k s = Some p) \<longleftrightarrow> (\<exists>j p. ?hit j p)"
  proof
    assume "\<exists>j p. ?hit j p"
    then have "\<exists>j. (\<exists>p. ?hit j p) \<and> (\<forall>l < j. \<not> (\<exists>p. ?hit l p))"
      using exists_least_iff [of "\<lambda>j. \<exists>p. ?hit j p"] by blast
    then obtain j p where j: "?hit j p" "\<forall>l < j. \<not> (\<exists>p. ?hit l p)" by blast
    then have "cs_pads s ! l AND MEDIA_PAD_FL_SINK \<noteq> 0 \<longrightarrow> media_remote_pad k (hist s) l = None" if "l < j" for l
      using that by (cases "media_remote_pad k (hist s) l") auto
    with j(1) show "\<exists>p. csis_get_remote_sensor_pad k s = Some p" unfolding some by blast
  qed (auto simp: some)
  then have "csis_get_remote_sensor_pad k s = None \<longleftrightarrow> \<not> (\<exists>j p. ?hit j p)"
    by (metis not_None_eq)
  then have none: "csis_get_remote_sensor_pad k s = None \<longleftrightarrow> (\<forall>j < cs_num_pads s.
      cs_pads s ! j AND MEDIA_PAD_FL_SINK \<noteq> 0 \<longrightarrow> media_remote_pad k (hist s) j = None)"
    by (metis not_None_eq)
  show ?thesis unfolding none some by blast
qed

theorem csis_remote_pad_first_witness:
  "csis_get_remote_sensor_pad ideal_soc csis_example = Some \<lparr>rp_index = 0, rp_is_subdev = True\<rparr>"
  by (rule csis_remote_pad_first [THEN conjunct1, THEN iffD2])
    (simp add: csis_example_def ideal_soc_def)

text \<open>The copies among the events, and a device whose interrupt status reads a given value.\<close>

definition is_copy :: "kevent \<Rightarrow> bool" where
  "is_copy e = (case e of Soc (MemcpyFromIo d b off n) \<Rightarrow> True | _ \<Rightarrow> False)"

definition example_irq :: "u32 \<Rightarrow> sapi" where
  "example_irq status = ideal_soc\<lparr>mmio := \<lambda>h b off. status\<rparr>"

text \<open>
  C19: on every well-formed receiver the interrupt handler acknowledges exactly the status it has read, as its
  last access; when the status announces non-image data and a buffer is waiting, it copies the half of the
  window that the status names into that buffer, exactly once, never beyond the buffer's length or the window
  of the device, and no buffer waits any more; otherwise it copies nothing and the buffer stays.  It counts
  exactly the events in the status when one of them is an error or debugging is on, and none otherwise.
\<close>

theorem csis_irq_safe:
  fixes k :: sapi
  assumes wf: "csis_wf s"
  defines "status \<equiv> mmio k (hist s) CSIS_REGS MIPI_CSIS_INTSRC"
  shows "\<exists>es. hist (mipi_csis_irq_handler k s) =
      hist s @ es @ [Soc (MmioWrite CSIS_REGS MIPI_CSIS_INTSRC status)] \<and>
    (\<forall>b off w. Soc (MmioWrite b off w) \<notin> set es) \<and>
    (\<forall>d b off n. Soc (MemcpyFromIo d b off n) \<in> set es \<longrightarrow>
       cs_pkt_data s = Some d \<and> cs_pkt_data (mipi_csis_irq_handler k s) = None \<and> n = cs_pkt_len s \<and>
       b = CSIS_REGS \<and> off \<in> {MIPI_CSIS_PKTDATA_ODD, MIPI_CSIS_PKTDATA_EVEN} \<and> n \<le> MIPI_CSIS_PKTDATA_SIZE) \<and>
    filter is_copy es = (case cs_pkt_data s of None \<Rightarrow> [] | Some d \<Rightarrow>
       if status AND MIPI_CSIS_INTSRC_NON_IMAGE_DATA = 0 then []
       else [Soc (MemcpyFromIo d CSIS_REGS (if status AND MIPI_CSIS_INTSRC_EVEN \<noteq> 0 then MIPI_CSIS_PKTDATA_EVEN
         else MIPI_CSIS_PKTDATA_ODD) (cs_pkt_len s))]) \<and>
    cs_pkt_data (mipi_csis_irq_handler k s) =
      (if status AND MIPI_CSIS_INTSRC_NON_IMAGE_DATA = 0 then cs_pkt_data s else None) \<and>
    cs_events (mipi_csis_irq_handler k s) =
      (if status AND MIPI_CSIS_INTSRC_ERRORS = 0 \<and> debug_level k (hist s @ butlast es) = 0 then cs_events s
       else count_events status (cs_events s))"
proof -
  define copy where "copy = (case cs_pkt_data s of None \<Rightarrow> [] | Some d \<Rightarrow>
    if status AND MIPI_CSIS_INTSRC_NON_IMAGE_DATA = 0 then []
    else [Soc (MemcpyFromIo d CSIS_REGS (if status AND MIPI_CSIS_INTSRC_EVEN \<noteq> 0
      then MIPI_CSIS_PKTDATA_EVEN else MIPI_CSIS_PKTDATA_ODD) (cs_pkt_len s))])"
  show ?thesis
    using wf
    by (intro exI [of _ "[Soc (MmioRead CSIS_REGS MIPI_CSIS_INTSRC status), Soc SpinLock] @ copy @ [Soc SpinUnlock]"])
      (auto simp: mipi_csis_irq_handler_def readl_def writel_def Let_def copy_def is_copy_def status_def csis_wf_def
        emit_def butlast_append split: option.split)
qed

text \<open>
  A device that reports non-image data in the even half together with an uncorrectable code error, while a
  buffer of sixteen bytes is waiting.
\<close>

theorem csis_irq_safe_witness:
  "\<exists>es. hist (mipi_csis_irq_handler (example_irq 0x80000004) (csis_example\<lparr>cs_pkt_data := Some 7, cs_pkt_len := 16\<rparr>)) =
      es @ [Soc (MmioWrite CSIS_REGS MIPI_CSIS_INTSRC 0x80000004)] \<and>
    filter is_copy es = [Soc (MemcpyFromIo 7 CSIS_REGS MIPI_CSIS_PKTDATA_EVEN 16)] \<and>
    map ev_counter (cs_events (mipi_csis_irq_handler (example_irq 0x80000004)
      (csis_example\<lparr>cs_pkt_data := Some 7, cs_pkt_len := 16\<rparr>))) = [0, 0, 0, 0, 1, 0, 0, 1, 0, 0, 0, 0, 0]"
proof -
  let ?s = "csis_example\<lparr>cs_pkt_data := Some 7, cs_pkt_len := 16\<rparr>"
  have "csis_wf ?s"
    by (simp add: csis_wf_def csis_example_def mipi_csis_formats_def)
  note safe = csis_irq_safe [OF this, of "example_irq 0x80000004"]
  have f: "hist ?s = []" "cs_pkt_data ?s = Some 7" "cs_pkt_len ?s = 16" "cs_events ?s = mipi_csis_events"
    "mmio (example_irq 0x80000004) h CSIS_REGS MIPI_CSIS_INTSRC = 0x80000004" for h
    by (simp_all add: csis_example_def example_irq_def)
  have "map ev_counter (count_events 0x80000004 mipi_csis_events) = [0, 0, 0, 0, 1, 0, 0, 1, 0, 0, 0, 0, 0]"
    by (simp add: count_events_def mipi_csis_events_def event_entry_def)
  with safe show ?thesis unfolding f append_Nil by (elim exE conjE) (rule exI, intro conjI, assumption, simp_all)
qed

text \<open>
  setting a format on the receiver passes it to the sensor's pad; when the sensor accepts, the receiver is
  configured for a format of its table with the code that it reports back, which is the sensor's code
  whenever the table has it; when the sensor refuses, the receiver keeps its format and reports -EINVAL.  In
  both cases the stored frame geometry is not touched.
\<close>

theorem csis_set_fmt_result:
  assumes "csis_get_remote_sensor_pad k s = Some p" and "rp_is_subdev p" and "r_set_fmt r = Some g"
    and "g (f\<lparr>sf_pad := rp_index p\<rparr>) (cs_remote s) = (ret, f1, r1)"
    and "mipi_csis_set_fmt k r f s = (ret2, f2, s')"
  shows "cs_remote s' = r1 \<and> cs_format s' = cs_format s \<and>
    (ret < 0 \<longrightarrow> ret2 = - EINVAL \<and> cs_csis_fmt s' = cs_csis_fmt s) \<and>
    (0 \<le> ret \<longrightarrow> ret2 = 0 \<and>
       (\<exists>fmt \<in> set mipi_csis_formats. cs_csis_fmt s' = Some fmt \<and> pf_code fmt = fmt_code (sf_format f2)) \<and>
       (fmt_code (sf_format f1) \<in> pf_code ` set mipi_csis_formats \<longrightarrow> f2 = f1))"
  using assms
  by (auto simp: mipi_csis_set_fmt_def csis_get_remote_subdev_def v4l2_subdev_call_def Let_def
      find_csis_format_Some find_csis_format_None split: if_splits option.splits)

lemma example_settle: "cs_hs_settle csis_example < 256" "cs_clk_settle csis_example < 4"
  by (simp_all add: csis_example_def)

text \<open>A sensor without state that sets every request to a given code.\<close>

definition example_remote :: "u32 \<Rightarrow> unit remote_ops" where
  "example_remote code = \<lparr>r_s_power = None,
     r_set_fmt = Some (\<lambda>f u. (0, f\<lparr>sf_format := (sf_format f)\<lparr>fmt_code := code\<rparr>\<rparr>, u)),
     r_get_fmt = None, r_s_frame_interval = None, r_g_frame_interval = None, r_enum_frame_size = None,
     r_enum_frame_interval = None\<rparr>"

definition example_request :: "v4l2_subdev_format" where
  "example_request = \<lparr>sf_which = V4L2_SUBDEV_FORMAT_ACTIVE, sf_pad = 4,
     sf_format = zero_fmt\<lparr>fmt_width := 640, fmt_height := 480\<rparr>\<rparr>"

lemma example_remote_pad: "csis_get_remote_sensor_pad ideal_soc csis_example = Some \<lparr>rp_index = 0, rp_is_subdev = True\<rparr>"
  by (simp add: csis_get_remote_sensor_pad_def csis_scan_pads.simps csis_example_def ideal_soc_def)

theorem csis_set_fmt_result_witness:
  "\<exists>f2 s'. mipi_csis_set_fmt ideal_soc (example_remote MEDIA_BUS_FMT_SBGGR8_1X8) example_request csis_example =
     (0, f2, s') \<and> fmt_code (sf_format f2) = MEDIA_BUS_FMT_SBGGR8_1X8"
proof -
  obtain ret2 f2 s' where m: "mipi_csis_set_fmt ideal_soc (example_remote MEDIA_BUS_FMT_SBGGR8_1X8)
      example_request csis_example = (ret2, f2, s')"
    by (cases "mipi_csis_set_fmt ideal_soc (example_remote MEDIA_BUS_FMT_SBGGR8_1X8) example_request csis_example")
  have "MEDIA_BUS_FMT_SBGGR8_1X8 \<in> pf_code ` set mipi_csis_formats"
    by (simp add: mipi_csis_formats_def pix_format_entry_def)
  with csis_set_fmt_result [OF example_remote_pad _ _ _ m] show ?thesis
    by (simp add: m) (simp add: example_remote_def)
qed

text \<open>
  when the sensor's code is not in the receiver's table, setting a format succeeds nevertheless: the
  receiver reports and programs YUYV while the sensor has been configured for its own, different code.
\<close>

theorem csis_set_fmt_fallback:
  assumes "csis_get_remote_sensor_pad k s = Some p" and "rp_is_subdev p" and "r_set_fmt r = Some g"
    and "g (f\<lparr>sf_pad := rp_index p\<rparr>) (cs_remote s) = (0, f1, r1)"
    and "fmt_code (sf_format f1) \<notin> pf_code ` set mipi_csis_formats"
  shows "\<exists>f2 s'. mipi_csis_set_fmt k r f s = (0, f2, s') \<and> cs_remote s' = r1 \<and>
    fmt_code (sf_format f2) = MEDIA_BUS_FMT_YUYV8_2X8 \<and>
    cs_csis_fmt s' = Some (mipi_csis_formats ! 0) \<and> fmt_code (sf_format f2) \<noteq> fmt_code (sf_format f1)"
proof -
  have "find_csis_format (fmt_code (sf_format f1)) = None"
    using assms(5) by (simp add: find_csis_format_None)
  moreover have "pf_code (mipi_csis_formats ! 0) = MEDIA_BUS_FMT_YUYV8_2X8"
      "MEDIA_BUS_FMT_YUYV8_2X8 \<in> pf_code ` set mipi_csis_formats"
    by (simp_all add: mipi_csis_formats_def pix_format_entry_def)
  ultimately show ?thesis
    using assms
    by (auto simp: mipi_csis_set_fmt_def csis_get_remote_subdev_def v4l2_subdev_call_def Let_def)
qed

theorem csis_set_fmt_fallback_witness:
  "\<exists>f2 s'. mipi_csis_set_fmt ideal_soc (example_remote MEDIA_BUS_FMT_YVYU8_2X8) example_request csis_example =
     (0, f2, s') \<and> fmt_code (sf_format f2) = MEDIA_BUS_FMT_YUYV8_2X8"
proof -
  let ?g = "\<lambda>f u. (0, f\<lparr>sf_format := (sf_format f)\<lparr>fmt_code := MEDIA_BUS_FMT_YVYU8_2X8\<rparr>\<rparr>, u)"
  have "MEDIA_BUS_FMT_YVYU8_2X8 \<notin> pf_code ` set mipi_csis_formats"
    by (simp add: mipi_csis_formats_def pix_format_entry_def)
  then show ?thesis
    using csis_set_fmt_fallback [OF example_remote_pad, of "example_remote MEDIA_BUS_FMT_YVYU8_2X8" ?g
        example_request "fst (snd (?g (example_request\<lparr>sf_pad := 0\<rparr>) ()))" "()"]
    by (auto simp: example_remote_def)
qed



text \<open>What starting adds to the history: a reset and register traffic.\<close>

lemma start_stream_events:
  assumes "cs_csis_fmt t \<noteq> None"
  shows "\<exists>es v. hist (dump_gasket_regs k (dump_csis_regs k (mipi_csis_start_stream k t))) = hist t @ es \<and>
      Soc (MmioWrite CSIS_REGS MIPI_CSIS_CMN_CTRL v) \<in> set es \<and> balance pm_delta es = 0"
proof -
  have dumps: "emits hw_event t (dump_gasket_regs k (dump_csis_regs k t))" for t :: "'a csi_state"
    unfolding dump_csis_regs_def dump_gasket_regs_def by (rule emits_trans [OF emits_reads emits_reads])
  define u where "u = mipi_csis_sw_reset k t"
  obtain v e1 where u: "hist u = hist t @ [e1, Soc (MmioWrite CSIS_REGS MIPI_CSIS_CMN_CTRL v), Soc (Udelay 20)]"
      "pm_delta e1 = 0" "cs_csis_fmt u = cs_csis_fmt t"
    by (simp add: u_def mipi_csis_sw_reset_def Let_def modify_reg_upd) (simp add: emit_def)
  have "emits hw_event u (dump_gasket_regs k (dump_csis_regs k (mipi_csis_start_stream k t)))"
    unfolding mipi_csis_start_stream_def Let_def u_def [symmetric]
    using assms u(3) by (intro emits_trans [OF _ dumps] hw_frame emits_refl) simp_all
  then obtain es where es: "hist (dump_gasket_regs k (dump_csis_regs k (mipi_csis_start_stream k t))) = hist u @ es"
      "list_all hw_event es" by (auto simp: emits_def)
  have "balance pm_delta es = 0"
    using es(2) by (intro quiet_list) (auto simp: list_all_iff hw_quiet)
  with es u show ?thesis
    by (intro exI [of _ "[e1, Soc (MmioWrite CSIS_REGS MIPI_CSIS_CMN_CTRL v), Soc (Udelay 20)] @ es"] exI [of _ v]) simp
qed

lemma pm_get_emits:
  assumes "pm_spec c" and "pm_runtime_get_sync c (mipi_csis_runtime_resume k) s = (r, t)"
  shows "emits (\<lambda>e. True) s t"
proof (cases rule: pm_get_cases [OF assms(1), of "mipi_csis_runtime_resume k" "emit PmGetSync s"])
  case (1 r')
  with assms(2) show ?thesis by (auto simp: pm_runtime_get_sync_def emits_emit)
next
  case 2
  with assms(2) have "emits quiet (emit PmGetSync s) t"
    using emits_runtime_resume [of "emit PmGetSync s" k] by (simp add: pm_runtime_get_sync_def)
  then have "emits (\<lambda>e. True) (emit PmGetSync s) t" by (rule emits_mono) simp
  then show ?thesis by (rule emits_trans [rotated]) (simp add: emits_emit)
qed

lemma clear_counters_trace:
  "hist (mipi_csis_clear_counters t) = hist t @ [Soc SpinLock, Soc SpinUnlock]"
  "cs_csis_fmt (mipi_csis_clear_counters t) = cs_csis_fmt t"
  by (simp_all add: mipi_csis_clear_counters_def Let_def emit_def)

text \<open>
  starting and stopping always report success and take or drop exactly one runtime-PM reference, also
  when resuming the device fails; then the registers of the unpowered receiver are programmed all the same.
\<close>

theorem csis_s_stream_reference:
  assumes "pm_spec c" and "cs_csis_fmt s \<noteq> None"
  shows "fst (mipi_csis_s_stream k c on s) = 0 \<and>
    balance pm_delta (hist (snd (mipi_csis_s_stream k c on s))) =
      balance pm_delta (hist s) + (if on \<noteq> 0 then 1 else - 1) \<and>
    (\<forall>r t. on \<noteq> 0 \<and> pm_runtime_get_sync c (mipi_csis_runtime_resume k) s = (r, t) \<longrightarrow>
       (\<exists>es v. hist (snd (mipi_csis_s_stream k c on s)) = hist t @ es \<and>
          Soc (MmioWrite CSIS_REGS MIPI_CSIS_CMN_CTRL v) \<in> set es))"
proof (cases "on = 0")
  case True
  have e: "emits quiet s (mipi_csis_stop_stream k s)"
    by (intro emits_hw_quiet emits_stop_stream emits_refl)
  have l: "balance pm_delta (hist (snd (mipi_csis_log_counters k True t))) = balance pm_delta (hist t)"
    for t :: "'a csi_state"
    by (simp add: mipi_csis_log_counters_def Let_def)
  show ?thesis
    using True pm_put_count [OF assms(1)] quiet_pm [OF e] by (simp add: mipi_csis_s_stream_def Let_def l)
next
  case False
  obtain r t where t: "pm_runtime_get_sync c (mipi_csis_runtime_resume k) s = (r, t)"
    by (cases "pm_runtime_get_sync c (mipi_csis_runtime_resume k) s")
  have "cs_csis_fmt (mipi_csis_clear_counters t) \<noteq> None"
    using assms(2) hw_fields(4) [OF pm_get_emits [OF assms(1) t]] by (simp add: clear_counters_trace)
  from start_stream_events [OF this, of k] obtain es v where "hist (snd (mipi_csis_s_stream k c on s)) =
      hist t @ [Soc SpinLock, Soc SpinUnlock] @ es" "balance pm_delta es = 0"
      "Soc (MmioWrite CSIS_REGS MIPI_CSIS_CMN_CTRL v) \<in> set es"
    using False by (auto simp: mipi_csis_s_stream_def t clear_counters_trace Let_def)
  moreover have "balance pm_delta (hist t) = balance pm_delta (hist s) + 1"
    using pm_get_count [OF assms(1), of k s] t by simp
  moreover have "fst (mipi_csis_s_stream k c on s) = 0"
    using False by (simp add: mipi_csis_s_stream_def t Let_def)
  ultimately show ?thesis using False t by auto
qed

theorem csis_s_stream_reference_witness:
  "balance pm_delta (hist (snd (mipi_csis_s_stream ideal_soc (ideal_cb [] (\<lambda>i v s. s)) 1 csis_example))) = 1"
  using csis_s_stream_reference [of "ideal_cb [] (\<lambda>i v s. s)" csis_example ideal_soc 1]
  by (simp add: csis_example_def)

text \<open>
  a runtime resume that fails keeps what it had enabled: when clock number \<open>n\<close> fails, the PHY supply and
  the clocks before it stay on, although the runtime-PM core counts the device as suspended.
\<close>

theorem csis_resume_failure_leaks:
  assumes "soc_answers k" and "mipi_csis_runtime_resume k s = (r, s')" and "r < 0"
  shows "(\<forall>x. soc_level x s' = soc_level x s) \<or>
    (\<exists>c. soc_level PhySupply s' = soc_level PhySupply s + 1 \<and>
       (\<forall>c'. soc_level (SocClock c') s' = soc_level (SocClock c') s +
          (if (c = DISP_AXI \<and> c' = MIPI_CLK) \<or> (c = DISP_APB \<and> c' \<noteq> DISP_APB) then 1 else 0)))"
  using assms(1,2)
proof (cases rule: runtime_resume_levels)
  case on
  with assms(3) show ?thesis by simp
next
  case phy
  then show ?thesis by simp
next
  case (clock c)
  then show ?thesis by blast
qed

theorem csis_resume_failure_leaks_witness:
  "\<exists>s'. mipi_csis_runtime_resume (ideal_soc\<lparr>soc_clk_ret := (\<lambda>h c. if c = DISP_APB then - 5 else 0)\<rparr>) csis_example
      = (- 5, s') \<and> soc_level PhySupply s' = 1 \<and> soc_level (SocClock MIPI_CLK) s' = 1"
proof -
  let ?k = "ideal_soc\<lparr>soc_clk_ret := (\<lambda>h c. if c = DISP_APB then - 5 else 0)\<rparr>"
  have a: "soc_answers ?k" by (simp add: soc_answers_def ideal_soc_def)
  obtain s' where s': "mipi_csis_runtime_resume ?k csis_example = (- 5, s')"
      "soc_level PhySupply s' = 1" "soc_level (SocClock MIPI_CLK) s' = 1"
    by (auto simp: mipi_csis_runtime_resume_def phy_enable_def mipi_csis_clk_enable_def run_steps.simps(2)
        soc_clk_enable_def Let_def ideal_soc_def soc_level_def csis_example_def)
  with csis_resume_failure_leaks [OF a s'(1)] show ?thesis by auto
qed

text \<open>
  a runtime resume that succeeds, any work that does not touch supplies and clocks, and a runtime suspend
  that succeeds leave every supply and clock of the receiver as before.
\<close>

theorem csis_power_cycle:
  assumes "soc_answers k" and "mipi_csis_runtime_resume k s = (0, s1)" and "grows soc_level_free s1 s2"
    and "mipi_csis_runtime_suspend k s2 = (0, s3)"
  shows "soc_level x s3 = soc_level x s"
  using assms by (rule csis_power.cycle) simp

theorem csis_power_cycle_witness:
  "\<exists>s3. mipi_csis_runtime_suspend ideal_soc (snd (mipi_csis_runtime_resume ideal_soc csis_example)) = (0, s3) \<and>
     soc_level PhySupply s3 = 0"
proof -
  have a: "soc_answers ideal_soc" by (simp add: soc_answers_def ideal_soc_def)
  obtain s1 where 1: "mipi_csis_runtime_resume ideal_soc csis_example = (0, s1)"
    by (simp add: mipi_csis_runtime_resume_def phy_enable_def mipi_csis_clk_enable_def run_steps.simps(2)
        soc_clk_enable_def Let_def ideal_soc_def)
  obtain s3 where 3: "mipi_csis_runtime_suspend ideal_soc s1 = (0, s3)"
    by (simp add: mipi_csis_runtime_suspend_def phy_disable_def Let_def ideal_soc_def)
  show ?thesis
    using csis_power_cycle [OF a 1 grows_refl 3, of PhySupply] 3
    by (simp add: 1) (simp add: soc_level_def csis_example_def)
qed

end
