(* ===== verification/Csis_Probe.thy ===== *)
theory Csis_Probe
  imports Csis_Dev
begin

text \<open>
  Device tree, probe and removal of the receiver, and the receiver as a whole: every state that its
  operations and its interrupt reach from a successful probe is well formed.  Device-managed resources
  (memory, registers, interrupt, clock and regulator handles) are released by the driver core and do not
  appear.
\<close>

section \<open>Operations\<close>

definition mipi_csis_parse_dt :: "sapi \<Rightarrow> 'r csi_state op" where
  "mipi_csis_parse_dt k s =
     (let s = s\<lparr>cs_index := word_of_int (of_alias_id k (hist s) ''csi'')\<rparr>;
          s = s\<lparr>cs_clk_frequency := (case of_u32 k (hist s) ''clock-frequency'' of
                   Some v \<Rightarrow> v | None \<Rightarrow> DEFAULT_SCLK_CSIS_FREQ)\<rparr>
      in case of_u32 k (hist s) ''bus-width'' of
           None \<Rightarrow> (- EINVAL, s)
         | Some v \<Rightarrow>
             let s = s\<lparr>cs_max_num_lanes := v\<rparr>
             in if \<not> of_endpoint k (hist s) then (- EINVAL, s)
                else let s = emit FwnodeGet s;
                         s = (case of_u32 k (hist s) ''csis-hs-settle'' of
                                Some v \<Rightarrow> s\<lparr>cs_hs_settle := v\<rparr> | None \<Rightarrow> s);
                         s = (case of_u32 k (hist s) ''csis-clk-settle'' of
                                Some v \<Rightarrow> s\<lparr>cs_clk_settle := v\<rparr> | None \<Rightarrow> s);
                         s = (case of_u32 k (hist s) ''data-lanes'' of
                                Some v \<Rightarrow> s\<lparr>cs_num_lanes := v\<rparr> | None \<Rightarrow> s);
                         s = s\<lparr>cs_wclk_ext := of_bool k (hist s) ''csis-wclk''\<rparr>
                     in (0, emit FwnodePut s))"

definition mipi_csis_subdev_init :: "'r csi_state op" where
  "mipi_csis_subdev_init s =
     (let s = emit SubdevInit s;
          s = s\<lparr>cs_csis_fmt := Some (mipi_csis_formats ! 0)\<rparr>
      in (0, s\<lparr>cs_format := (cs_format s)\<lparr>fmt_code := pf_code (mipi_csis_formats ! 0),
               fmt_width := MIPI_CSIS_DEF_PIX_WIDTH, fmt_height := MIPI_CSIS_DEF_PIX_HEIGHT\<rparr>\<rparr>))"

text \<open>The loop over the child nodes: the state and the number of reset lines found.\<close>

fun reset_loop :: "sapi \<Rightarrow> (string option \<times> kptr) list \<Rightarrow> nat \<Rightarrow> 'r csi_state \<Rightarrow> nat \<times> 'r csi_state" where
  "reset_loop k [] rstc_num s = (rstc_num, s)"
| "reset_loop k ((node, rstc) # nodes) rstc_num s =
     (case node of
        None \<Rightarrow> reset_loop k nodes rstc_num s
      | Some cmp \<Rightarrow>
          if IS_ERR rstc then reset_loop k nodes rstc_num s
          else if of_compat k ''csi,soft-resetn'' cmp
          then reset_loop k nodes (Suc rstc_num) (s\<lparr>cs_soft_resetn := rstc\<rparr>)
          else if of_compat k ''csi,clk-enable'' cmp
          then reset_loop k nodes (Suc rstc_num) (s\<lparr>cs_clk_enable := rstc\<rparr>)
          else if of_compat k ''csi,mipi-reset'' cmp
          then reset_loop k nodes (Suc rstc_num) (s\<lparr>cs_mipi_reset := rstc\<rparr>)
          else reset_loop k nodes rstc_num s)"

definition mipi_csis_of_parse_resets :: "sapi \<Rightarrow> 'r csi_state op" where
  "mipi_csis_of_parse_resets k s =
     (let ret = of_phandle_ret k (hist s)
      in if ret \<noteq> 0 then (ret, s)
      else let s = emit FwnodeGet s;
               (rstc_num, s) = reset_loop k (of_reset_nodes k (hist s)) 0 s
      in if rstc_num = 0 then (- EINVAL, s)
      else (0, emit FwnodePut s))"

text \<open>The one entry of the match table; its data is the PHY reset function.\<close>

definition mipi_csis_of_match :: "(string \<times> phy_reset) list" where
  "mipi_csis_of_match = [(''fsl,imx8mn-mipi-csi'', Mx8mn)]"

text \<open>The zeroed structure of \<^verbatim>\<open>devm_kzalloc\<close>; the sensor is another device and keeps its state.\<close>

definition csis_kzalloc :: "'r csi_state \<Rightarrow> 'r csi_state" where
  "csis_kzalloc s = \<lparr>hist = hist s, cs_index = 0, cs_regs = NullPtr, cs_mipi_clk = NullPtr,
     cs_disp_axi = NullPtr, cs_disp_apb = NullPtr, cs_irq = 0, cs_clk_frequency = 0, cs_hs_settle = 0,
     cs_clk_settle = 0, cs_num_lanes = 0, cs_max_num_lanes = 0, cs_wclk_ext = False, cs_csis_fmt = None,
     cs_format = zero_fmt, cs_pkt_data = None, cs_pkt_len = 0,
     cs_events = replicate MIPI_CSIS_NUM_EVENTS \<lparr>ev_mask = 0, ev_name = [], ev_counter = 0\<rparr>,
     cs_mipi_phy_regulator = NullPtr, cs_gasket = NullPtr, cs_mix_gpr = NullPtr, cs_soft_resetn = NullPtr,
     cs_clk_enable = NullPtr, cs_mipi_reset = NullPtr, cs_phy_reset_fn = None, cs_hdr = False,
     cs_pads = replicate MIPI_CSIS_VCX_PADS_NUM 0, cs_num_pads = 0, cs_remote = cs_remote s\<rparr>"

text \<open>Probe up to its check of the number of lanes.\<close>

definition csis_probe_dt :: "sapi \<Rightarrow> 'r csi_state op" where
  "csis_probe_dt k s =
     (let (ret, s) = mipi_csis_parse_dt k s
      in if ret < 0 then (ret, s)
      else if cs_num_lanes s = 0 \<or> cs_max_num_lanes s < cs_num_lanes s then (- EINVAL, s)
      else (0, s))"

text \<open>The regulator, the register maps, the reset lines, the interrupt number and the clock handles.\<close>

definition csis_probe_board :: "sapi \<Rightarrow> 'r csi_state op" where
  "csis_probe_board k = run_steps [
     (\<lambda>s. let (ret, s) = mipi_csis_phy_init k s in if ret < 0 then (ret, s) else (0, s)),
     (\<lambda>s. case of_match k (hist s) (map fst mipi_csis_of_match) of
            None \<Rightarrow> (- EINVAL, s)
          | Some i \<Rightarrow> (0, s\<lparr>cs_phy_reset_fn := Some (snd (mipi_csis_of_match ! i))\<rparr>)),
     (\<lambda>s. let s = s\<lparr>cs_gasket := syscon k (hist s) ''csi-gpr''\<rparr>
          in if IS_ERR (cs_gasket s) then (PTR_ERR (cs_gasket s), s) else (0, s)),
     (\<lambda>s. if of_bool k (hist s) ''no-reset-control'' then (0, s)
          else let (ret, s) = mipi_csis_of_parse_resets k s in if ret < 0 then (ret, s) else (0, s)),
     act (\<lambda>s. let s = s\<lparr>cs_mix_gpr := syscon k (hist s) ''gpr''\<rparr>
              in if IS_ERR (cs_mix_gpr s) then s\<lparr>cs_mix_gpr := NullPtr\<rparr> else s),
     (\<lambda>s. let s = s\<lparr>cs_regs := ioremap k (hist s)\<rparr>
          in if IS_ERR (cs_regs s) then (PTR_ERR (cs_regs s), s) else (0, s)),
     (\<lambda>s. let s = s\<lparr>cs_irq := irq_number k (hist s)\<rparr>
          in if cs_irq s < 0 then (cs_irq s, s) else (0, s)),
     (\<lambda>s. let (ret, s) = mipi_csis_clk_get k s in if ret < 0 then (ret, s) else (0, s))]"

text \<open>With the clocks on: resets, interrupt, sub-device, pads, runtime PM.\<close>

definition csis_probe_device :: "sapi \<Rightarrow> 'r csi_state op" where
  "csis_probe_device k s =
     (let s = snd (disp_mix_clks_enable k (cs_clk_enable s) True s);
          s = snd (disp_mix_sft_rstn k (cs_soft_resetn s) False s);
          s = (case cs_phy_reset_fn s of None \<Rightarrow> s | Some f \<Rightarrow> phy_reset_call k f s);
          ret = irq_request_ret k (hist s);
          s = emit (Soc (IrqRequest ret)) s
      in if ret \<noteq> 0 then (ret, s)
      else let (ret, s) = mipi_csis_subdev_init s
      in if ret < 0 then (ret, s)
      else let s = s\<lparr>cs_pads := [MEDIA_PAD_FL_SINK, MEDIA_PAD_FL_SINK, MEDIA_PAD_FL_SINK, MEDIA_PAD_FL_SINK,
                 MEDIA_PAD_FL_SOURCE, MEDIA_PAD_FL_SOURCE, MEDIA_PAD_FL_SOURCE, MEDIA_PAD_FL_SOURCE]\<rparr>;
               ret = soc_pads_init_ret k (hist s);
               s = emit (EntityPadsInit ret) s
      in if ret < 0 then (ret, s)
      else let s = s\<lparr>cs_num_pads := MIPI_CSIS_VCX_PADS_NUM\<rparr>;
               s = s\<lparr>cs_events := mipi_csis_events\<rparr>
      in (0, emit PmEnable s))"

definition mipi_csis_probe :: "sapi \<Rightarrow> 'r csi_state op" where
  "mipi_csis_probe k s =
     (if \<not> soc_kzalloc k (hist s) then (- ENOMEM, s)
      else let s = emit MutexInit (csis_kzalloc s);
               (ret, s) = csis_probe_dt k s
      in if ret \<noteq> 0 then (ret, s)
      else let (ret, s) = csis_probe_board k s
      in if ret \<noteq> 0 then (ret, s)
      else let (ret, s) = mipi_csis_clk_enable k s
      in if ret < 0 then (ret, s)
      else csis_probe_device k s)"

definition mipi_csis_remove :: "'r csi_state op" where
  "mipi_csis_remove s = (0, emit PmDisable (emit EntityCleanup s))"

section \<open>Every reachable state is well formed\<close>

text \<open>
  A step of a probed receiver with the remote operations \<open>r\<close>, the runtime-PM core \<open>c\<close> and forced sleep \<open>f\<close>: a
  call of a sub-device operation, a power transition or an interrupt.
\<close>

inductive csis_step ::
  "sapi \<Rightarrow> 'r remote_ops \<Rightarrow> 'r csi_state kcb \<Rightarrow> 'r csi_state scb \<Rightarrow> 'r csi_state \<Rightarrow> 'r csi_state \<Rightarrow> bool"
  for k r c f where
  s_power: "mipi_csis_s_power k r on s = (ret, s') \<Longrightarrow> csis_step k r c f s s'"
| s_stream: "mipi_csis_s_stream k c enable s = (ret, s') \<Longrightarrow> csis_step k r c f s s'"
| set_fmt: "mipi_csis_set_fmt k r format s = (ret, format', s') \<Longrightarrow> csis_step k r c f s s'"
| get_fmt: "mipi_csis_get_fmt k r format s = (ret, format', s') \<Longrightarrow> csis_step k r c f s s'"
| s_rx_buffer: "mipi_csis_s_rx_buffer buf n s = (ret, n', s') \<Longrightarrow> csis_step k r c f s s'"
| s_interval: "mipi_csis_s_frame_interval k r iv s = (ret, iv', s') \<Longrightarrow> csis_step k r c f s s'"
| g_interval: "mipi_csis_g_frame_interval k r iv s = (ret, iv', s') \<Longrightarrow> csis_step k r c f s s'"
| enum_sizes: "mipi_csis_enum_framesizes k r fse s = (ret, fse', s') \<Longrightarrow> csis_step k r c f s s'"
| enum_intervals: "mipi_csis_enum_frameintervals k r fie s = (ret, fie', s') \<Longrightarrow> csis_step k r c f s s'"
| log_status: "mipi_csis_log_status k s = (ret, s') \<Longrightarrow> csis_step k r c f s s'"
| ioctl: "csis_priv_ioctl k c r cmd fa ha s = (ret, s') \<Longrightarrow> csis_step k r c f s s'"
| link_setup: "mipi_csi2_link_setup flags s = (ret, s') \<Longrightarrow> csis_step k r c f s s'"
| resumed: "mipi_csis_runtime_resume k s = (ret, s') \<Longrightarrow> csis_step k r c f s s'"
| suspended: "mipi_csis_runtime_suspend k s = (ret, s') \<Longrightarrow> csis_step k r c f s s'"
| system_suspended: "mipi_csis_system_suspend k f s = (ret, s') \<Longrightarrow> csis_step k r c f s s'"
| system_resumed: "mipi_csis_system_resume k f s = (ret, s') \<Longrightarrow> csis_step k r c f s s'"
| interrupt: "csis_step k r c f s (mipi_csis_irq_handler k s)"

inductive csis_reach ::
  "sapi \<Rightarrow> 'r remote_ops \<Rightarrow> 'r csi_state kcb \<Rightarrow> 'r csi_state scb \<Rightarrow> 'r csi_state \<Rightarrow> bool"
  for k r c f where
  probed: "hist s = [] \<Longrightarrow> mipi_csis_probe k s = (0, s') \<Longrightarrow> csis_reach k r c f s'"
| step: "csis_reach k r c f s \<Longrightarrow> csis_step k r c f s s' \<Longrightarrow> csis_reach k r c f s'"

lemma csis_step_wf:
  assumes "pm_spec c" and "force_spec f" and "csis_step k r c f s s'" and "csis_wf s"
  shows "csis_wf s'"
proof -
  have power: "csis_wf (snd (mipi_csis_runtime_resume k s))" "csis_wf (snd (mipi_csis_runtime_suspend k s))"
    using assms(4) by (blast intro: wf_emits emits_runtime_resume emits_runtime_suspend)+
  note ops = power wf_rules(1-3)
  from assms(3) show ?thesis
  proof cases
    case (s_power on ret)
    then show ?thesis using wf_s_power [OF assms(4), of k r on] by simp
  next
    case (s_stream enable ret)
    then show ?thesis using wf_s_stream [OF assms(1,4), of k enable] by simp
  next
    case (set_fmt format ret format')
    then show ?thesis using wf_set_fmt [OF assms(4), of k r format] by simp
  next
    case (get_fmt format ret format')
    then show ?thesis using wf_get_fmt [OF assms(4), of k r format] by simp
  next
    case (s_rx_buffer buf n ret n')
    then show ?thesis using wf_rx_buffer [OF assms(4), of buf n] by simp
  next
    case (s_interval iv ret iv')
    then show ?thesis using wf_calls(1) [OF assms(4), of k r iv] by simp
  next
    case (g_interval iv ret iv')
    then show ?thesis using wf_calls(2) [OF assms(4), of k r iv] by simp
  next
    case (enum_sizes fse ret fse')
    then show ?thesis using wf_calls(3) [OF assms(4), of k r fse] by simp
  next
    case (enum_intervals fie ret fie')
    then show ?thesis using wf_calls(4) [OF assms(4), of k r fie] by simp
  next
    case (log_status ret)
    then show ?thesis using wf_log_status [OF assms(4), of k] by simp
  next
    case (ioctl cmd fa ha ret)
    then show ?thesis using wf_priv_ioctl [OF assms(1,4), of k r cmd fa ha] by simp
  next
    case (link_setup flags ret)
    then show ?thesis using assms(4) by (simp add: mipi_csi2_link_setup_def)
  next
    case (resumed ret)
    then show ?thesis using power by simp
  next
    case (suspended ret)
    then show ?thesis using power by simp
  next
    case (system_suspended ret)
    then show ?thesis using wf_system_sleep(1) [OF assms(2,4), of k] by simp
  next
    case (system_resumed ret)
    then show ?thesis using wf_system_sleep(2) [OF assms(2,4), of k] by simp
  next
    case interrupt
    then show ?thesis using wf_irq [OF assms(4)] by simp
  qed
qed

text \<open>What probing keeps once the device tree is read.\<close>

definition probe_frame :: "(kevent \<Rightarrow> bool) \<Rightarrow> 'r csi_state \<Rightarrow> 'r csi_state \<Rightarrow> bool" where
  "probe_frame P s t \<longleftrightarrow> grows P s t \<and> cs_num_lanes t = cs_num_lanes s \<and>
     cs_max_num_lanes t = cs_max_num_lanes s \<and> cs_pkt_len t = cs_pkt_len s"

lemma probe_frame_refl [simp]: "probe_frame P s s"
  by (simp add: probe_frame_def)

lemma probe_frame_trans: "probe_frame P a b \<Longrightarrow> probe_frame P b c \<Longrightarrow> probe_frame P a c"
  by (auto simp: probe_frame_def intro: grows_trans)

lemma probe_frame_mono: "probe_frame P s t \<Longrightarrow> (\<And>e. P e \<Longrightarrow> Q e) \<Longrightarrow> probe_frame Q s t"
  unfolding probe_frame_def by (blast intro: grows_mono)

text \<open>Events of setting up: no lock, no clock, no supply, no interrupt.\<close>

definition calm :: "kevent \<Rightarrow> bool" where
  "calm e \<longleftrightarrow> quiet e \<and> soc_level_free e \<and> (\<forall>r. e \<noteq> Soc (IrqRequest r))"

lemma frame_emits: "emits P s t \<Longrightarrow> probe_frame P s t"
  by (auto simp: probe_frame_def emits_def grows_def)

lemma frame_reset_loop:
  "reset_loop k nodes n s = (n', s') \<Longrightarrow> probe_frame P s s' \<and> hist s' = hist s"
proof (induction k nodes n s rule: reset_loop.induct)
  case (2 k node rstc nodes n s)
  then show ?case
    by (auto simp: probe_frame_def grows_def split: option.splits if_splits)
qed simp

lemma frame_emit: "P e \<Longrightarrow> probe_frame P s (emit e s)"
  by (rule frame_emits) (simp add: emits_emit)

lemma frame_parse_resets: "probe_frame calm s (snd (mipi_csis_of_parse_resets k s))"
proof -
  let ?s = "emit FwnodeGet s"
  obtain n s' where l: "reset_loop k (of_reset_nodes k (hist ?s)) 0 ?s = (n, s')"
    by (cases "reset_loop k (of_reset_nodes k (hist ?s)) 0 ?s")
  have "probe_frame calm s s'"
    using frame_reset_loop [OF l] probe_frame_trans [OF frame_emit [of calm FwnodeGet s]] by (simp add: calm_def quiet_def)
  moreover have "snd (mipi_csis_of_parse_resets k s) \<in> {s, s', emit FwnodePut s'}"
    unfolding mipi_csis_of_parse_resets_def Let_def l by simp
  ultimately show ?thesis
    using frame_emit [of calm FwnodePut s'] by (auto simp: calm_def quiet_def intro: probe_frame_trans)
qed

lemma frame_board: "probe_frame calm s (snd (csis_probe_board k s))"
  unfolding csis_probe_board_def
proof (rule run_steps_rel [where R = "probe_frame calm"])
  show "probe_frame calm a c" if "probe_frame calm a b" "probe_frame calm b c" for a b c :: "'a csi_state"
    using that by (rule probe_frame_trans)
  have same: "probe_frame calm s t" if "hist t = hist s" "cs_num_lanes t = cs_num_lanes s"
      "cs_max_num_lanes t = cs_max_num_lanes s" "cs_pkt_len t = cs_pkt_len s" for s t :: "'a csi_state"
    using that by (simp add: probe_frame_def grows_def)
  have phy: "probe_frame calm s (snd (mipi_csis_phy_init k s))" for s :: "'a csi_state"
    by (auto simp: mipi_csis_phy_init_def Let_def probe_frame_def grows_def emit_def calm_def quiet_def)
  have clk: "probe_frame calm s (snd (mipi_csis_clk_get k s))" for s :: "'a csi_state"
    by (auto simp: mipi_csis_clk_get_def soc_clk_set_rate_def Let_def probe_frame_def grows_def emit_def calm_def quiet_def)
  fix f :: "'a csi_state op" and s
  assume "f \<in> set [
     (\<lambda>s. let (ret, s) = mipi_csis_phy_init k s in if ret < 0 then (ret, s) else (0, s)),
     (\<lambda>s. case of_match k (hist s) (map fst mipi_csis_of_match) of
            None \<Rightarrow> (- EINVAL, s)
          | Some i \<Rightarrow> (0, s\<lparr>cs_phy_reset_fn := Some (snd (mipi_csis_of_match ! i))\<rparr>)),
     (\<lambda>s. let s = s\<lparr>cs_gasket := syscon k (hist s) ''csi-gpr''\<rparr>
          in if IS_ERR (cs_gasket s) then (PTR_ERR (cs_gasket s), s) else (0, s)),
     (\<lambda>s. if of_bool k (hist s) ''no-reset-control'' then (0, s)
          else let (ret, s) = mipi_csis_of_parse_resets k s in if ret < 0 then (ret, s) else (0, s)),
     act (\<lambda>s. let s = s\<lparr>cs_mix_gpr := syscon k (hist s) ''gpr''\<rparr>
              in if IS_ERR (cs_mix_gpr s) then s\<lparr>cs_mix_gpr := NullPtr\<rparr> else s),
     (\<lambda>s. let s = s\<lparr>cs_regs := ioremap k (hist s)\<rparr>
          in if IS_ERR (cs_regs s) then (PTR_ERR (cs_regs s), s) else (0, s)),
     (\<lambda>s. let s = s\<lparr>cs_irq := irq_number k (hist s)\<rparr>
          in if cs_irq s < 0 then (cs_irq s, s) else (0, s)),
     (\<lambda>s. let (ret, s) = mipi_csis_clk_get k s in if ret < 0 then (ret, s) else (0, s))]"
  then show "probe_frame calm s (snd (f s))"
    using phy [of s] clk [of s] frame_parse_resets [of s k]
    by (auto simp: act_def Let_def split: option.split prod.split intro: same)
qed simp

lemma frame_resume_parts:
  "probe_frame quiet s (snd (mipi_csis_clk_enable k s))"
  "probe_frame quiet s (snd (disp_mix_clks_enable k p on s))"
  "probe_frame quiet s (snd (disp_mix_sft_rstn k p on s))"
  "probe_frame quiet s (phy_reset_call k g s)"
  by (rule frame_emits, rule emits_clk_enable emits_resets emits_phy_reset, simp?)+

text \<open>A probe that succeeds leaves a well-formed receiver.\<close>

lemma probe_dt_lanes:
  assumes "csis_probe_dt k s = (0, s')"
  shows "grows calm s s' \<and> cs_num_lanes s' \<noteq> 0 \<and> cs_num_lanes s' \<le> cs_max_num_lanes s' \<and>
    cs_pkt_len s' = cs_pkt_len s"
proof -
  have f: "grows calm s (snd (mipi_csis_parse_dt k s)) \<and>
      cs_pkt_len (snd (mipi_csis_parse_dt k s)) = cs_pkt_len s"
    by (auto simp: mipi_csis_parse_dt_def Let_def grows_def emit_def calm_def quiet_def split: option.split)
  then show ?thesis
    using assms by (auto simp: csis_probe_dt_def Let_def split: prod.splits if_splits)
qed

lemma probe_device_wf:
  assumes "csis_probe_device k s = (0, s')" and "cs_num_lanes s \<noteq> 0" and "cs_num_lanes s \<le> cs_max_num_lanes s"
    and "cs_pkt_len s = 0" and "balance spin_delta (hist s) = 0" and "balance lock_delta (hist s) = 0"
    and "NullDeref \<notin> set (hist s)"
  shows "csis_wf s'"
proof -
  define t where "t = (let s = snd (disp_mix_clks_enable k (cs_clk_enable s) True s);
      s = snd (disp_mix_sft_rstn k (cs_soft_resetn s) False s)
    in case cs_phy_reset_fn s of None \<Rightarrow> s | Some f \<Rightarrow> phy_reset_call k f s)"
  have "probe_frame quiet s t"
    unfolding t_def Let_def
    by (auto split: option.split intro!: frame_emits emits_phy_reset emits_resets emits_refl)
  then have t: "cs_num_lanes t \<noteq> 0" "cs_num_lanes t \<le> cs_max_num_lanes t" "cs_pkt_len t = 0"
      "balance spin_delta (hist t) = 0" "balance lock_delta (hist t) = 0" "NullDeref \<notin> set (hist t)"
    using assms(2-) by (auto simp: probe_frame_def grows_def quiet_list)
  have "csis_probe_device k s =
      (let ret = irq_request_ret k (hist t); s = emit (Soc (IrqRequest ret)) t
       in if ret \<noteq> 0 then (ret, s)
       else let (ret, s) = mipi_csis_subdev_init s
       in if ret < 0 then (ret, s)
       else let s = s\<lparr>cs_pads := [MEDIA_PAD_FL_SINK, MEDIA_PAD_FL_SINK, MEDIA_PAD_FL_SINK, MEDIA_PAD_FL_SINK,
                 MEDIA_PAD_FL_SOURCE, MEDIA_PAD_FL_SOURCE, MEDIA_PAD_FL_SOURCE, MEDIA_PAD_FL_SOURCE]\<rparr>;
               ret = soc_pads_init_ret k (hist s);
               s = emit (EntityPadsInit ret) s
       in if ret < 0 then (ret, s)
       else (0, emit PmEnable (s\<lparr>cs_num_pads := MIPI_CSIS_VCX_PADS_NUM, cs_events := mipi_csis_events\<rparr>)))"
    by (simp add: csis_probe_device_def mipi_csis_subdev_init_def t_def Let_def)
  with assms(1) t show ?thesis
    by (auto simp: mipi_csis_subdev_init_def Let_def csis_wf_def emit_def
        split: if_splits)
qed

lemma frame_dt: "grows calm s (snd (csis_probe_dt k s))"
proof -
  have "grows calm s (snd (mipi_csis_parse_dt k s))"
    by (auto simp: mipi_csis_parse_dt_def Let_def grows_def emit_def calm_def quiet_def split: option.split)
  then show ?thesis by (auto simp: csis_probe_dt_def Let_def split: prod.split)
qed

text \<open>How far a probe gets.\<close>

lemma probe_cases:
  assumes "mipi_csis_probe k s = (r, s')"
  obtains (board) "r \<noteq> 0" and "grows calm s s'"
  | (clocks) s2 where "grows calm s s2" and "mipi_csis_clk_enable k s2 = (r, s')" and "r < 0"
  | (device) s1 s2 r3 s3 where "csis_probe_dt k (emit MutexInit (csis_kzalloc s)) = (0, s1)"
      and "grows calm s s1" and "csis_probe_board k s1 = (0, s2)" and "grows calm s s2"
      and "mipi_csis_clk_enable k s2 = (r3, s3)" and "0 \<le> r3" and "csis_probe_device k s3 = (r, s')"
proof (cases "soc_kzalloc k (hist s)")
  case False
  with assms show thesis by (intro board) (auto simp: mipi_csis_probe_def)
next
  case True
  let ?s = "emit MutexInit (csis_kzalloc s)"
  obtain r1 s1 where 1: "csis_probe_dt k ?s = (r1, s1)" by (cases "csis_probe_dt k ?s")
  obtain r2 s2 where 2: "csis_probe_board k s1 = (r2, s2)" by (cases "csis_probe_board k s1")
  obtain r3 s3 where 3: "mipi_csis_clk_enable k s2 = (r3, s3)" by (cases "mipi_csis_clk_enable k s2")
  have "grows calm s ?s" by (simp add: grows_def csis_kzalloc_def emit_def calm_def quiet_def)
  also have "grows calm ?s s1" using frame_dt [of ?s k] by (simp add: 1)
  finally have g1: "grows calm s s1" .
  also have "grows calm s1 s2" using frame_board [of s1 k] by (simp add: 2 probe_frame_def)
  finally have g2: "grows calm s s2" .
  note parts = mipi_csis_probe_def Let_def True 1 2 3
  consider (dt) "r1 \<noteq> 0" | (brd) "r1 = 0" "r2 \<noteq> 0" | (clk) "r1 = 0" "r2 = 0" "r3 < 0"
    | (dev) "r1 = 0" "r2 = 0" "0 \<le> r3" by linarith
  then show thesis
  proof cases
    case dt
    with assms g1 show thesis by (intro board) (auto simp: parts)
  next
    case brd
    with assms g2 show thesis by (intro board) (auto simp: parts)
  next
    case clk
    with assms g2 show thesis by (intro clocks [of s2]) (auto simp: parts)
  next
    case dev
    with assms g1 g2 1 2 3 show thesis by (intro device [of s1 s2 r3 s3]) (auto simp: parts)
  qed
qed

lemma probe_wf:
  assumes "mipi_csis_probe k s = (0, s')" and "hist s = []"
  shows "csis_wf s'"
  using assms(1)
proof (cases rule: probe_cases)
  case (device s1 s2 r3 s3)
  have "probe_frame quiet s1 s2"
    using frame_board [of s1 k] device by (auto simp: calm_def intro: probe_frame_mono)
  moreover have "probe_frame quiet s2 s3"
    using frame_resume_parts(1) [of s2 k] by (simp add: device)
  ultimately have f: "probe_frame quiet s1 s3" by (rule probe_frame_trans)
  have "grows quiet s s1" using device(2) by (rule grows_mono) (simp add: calm_def)
  with f have "grows quiet s s3" by (auto simp: probe_frame_def intro: grows_trans)
  then have "list_all quiet (hist s3)" by (simp add: grows_def assms(2))
  from quiet_list [OF this] probe_dt_lanes [OF device(1)] f show ?thesis
    by (intro probe_device_wf [OF device(7)]) (simp_all add: probe_frame_def csis_kzalloc_def emit_def)
qed simp_all

text \<open>
  C5: every state that a successfully probed receiver reaches by its sub-device operations, ioctls, power
  transitions and interrupts is well formed: it has a format of its table, a lane count that the bus carries,
  eight pads, its event table, a packet buffer no larger than the hardware window, no lock held and no NULL
  pointer dereferenced.
\<close>

theorem csis_reach_invariant:
  assumes "pm_spec c" and "force_spec f" and "csis_reach k r c f s"
  shows "csis_wf s"
  using assms(3)
proof induction
  case (probed s s')
  then show ?case by (blast intro: probe_wf)
next
  case (step s s')
  with assms(1,2) show ?case by (blast intro: csis_step_wf)
qed

text \<open>A probe of the example board, for the witnesses.\<close>

lemma example_probe:
  "fst (mipi_csis_probe ideal_soc csis_example) = 0"
  "Soc (IrqRequest 0) \<in> set (hist (snd (mipi_csis_probe ideal_soc csis_example)))"
  by (simp_all add: mipi_csis_probe_def csis_probe_dt_def mipi_csis_parse_dt_def csis_probe_board_def
      run_steps.simps(2) act_def mipi_csis_phy_init_def mipi_csis_of_match_def mipi_csis_of_parse_resets_def
      mipi_csis_clk_get_def soc_clk_set_rate_def mipi_csis_clk_enable_def soc_clk_enable_def
      csis_probe_device_def disp_mix_clks_enable_def disp_mix_sft_rstn_def mipi_csis_phy_reset_mx8mn_def
      reset_control_assert_def reset_control_deassert_def writel_def mipi_csis_subdev_init_def
      csis_kzalloc_def ideal_soc_def csis_example_def emit_def Let_def)

theorem csis_reach_invariant_witness:
  "csis_wf (mipi_csis_irq_handler ideal_soc (snd (mipi_csis_s_stream ideal_soc (ideal_cb [] (\<lambda>i v s. s)) 1
     (snd (mipi_csis_probe ideal_soc csis_example)))))"
proof -
  let ?c = "ideal_cb [] (\<lambda>i v s. s) :: unit csi_state kcb"
  let ?r = "example_remote MEDIA_BUS_FMT_SBGGR8_1X8"
  let ?s = "snd (mipi_csis_probe ideal_soc csis_example)"
  have "csis_reach ideal_soc ?r ?c ideal_scb ?s"
    by (rule csis_reach.probed [where s = csis_example])
      (use example_probe(1) in \<open>simp_all add: csis_example_def prod_eq_iff\<close>)
  then have "csis_reach ideal_soc ?r ?c ideal_scb (snd (mipi_csis_s_stream ideal_soc ?c 1 ?s))"
    by (rule csis_reach.step) (rule csis_step.s_stream [OF prod.collapse [symmetric]])
  then have "csis_reach ideal_soc ?r ?c ideal_scb
      (mipi_csis_irq_handler ideal_soc (snd (mipi_csis_s_stream ideal_soc ?c 1 ?s)))"
    by (rule csis_reach.step) (rule csis_step.interrupt)
  then show ?thesis by (rule csis_reach_invariant [rotated 2]) simp_all
qed

section \<open>Clocks\<close>

lemma calm_level: "grows calm s t \<Longrightarrow> soc_level x t = soc_level x s"
  by (erule grows_soc_level [OF grows_mono]) (simp add: calm_def)

lemma calm_no_irq: "grows calm s t \<Longrightarrow> hist s = [] \<Longrightarrow> Soc (IrqRequest r) \<notin> set (hist t)"
  by (auto simp: grows_def calm_def list_all_iff)

lemma soc_level_fields [simp]:
  "soc_level x (s\<lparr>cs_csis_fmt := a, cs_format := b\<rparr>) = soc_level x s"
  "soc_level x (s\<lparr>cs_pads := p\<rparr>) = soc_level x s"
  "soc_level x (s\<lparr>cs_num_pads := n, cs_events := e\<rparr>) = soc_level x s"
  by (rule soc_level_cong; simp)+

lemma device_levels: "soc_level x (snd (csis_probe_device k s)) = soc_level x s"
  by (cases x) (auto simp: csis_probe_device_def mipi_csis_subdev_init_def Let_def split: option.split)

lemma device_quiet: "grows quiet s (snd (csis_probe_device k s))"
proof -
  define t where "t = (let s = snd (disp_mix_clks_enable k (cs_clk_enable s) True s);
      s = snd (disp_mix_sft_rstn k (cs_soft_resetn s) False s)
    in case cs_phy_reset_fn s of None \<Rightarrow> s | Some f \<Rightarrow> phy_reset_call k f s)"
  have "emits quiet s t"
    unfolding t_def Let_def
    by (auto split: option.split intro!: emits_phy_reset emits_resets emits_refl)
  moreover have "grows quiet t (snd (csis_probe_device k s))"
    unfolding csis_probe_device_def Let_def t_def [unfolded Let_def, symmetric]
    by (auto simp: mipi_csis_subdev_init_def Let_def grows_def emit_def quiet_def)
  ultimately show ?thesis by (blast intro: grows_trans emits_grows)
qed

text \<open>
  once probing has come as far as the interrupt request, whether it then fails or succeeds, the three
  clocks of the receiver are on although runtime PM counts the device as suspended and the PHY supply is off;
  removing the driver does not switch them off either.
\<close>

theorem csis_probe_keeps_clocks:
  assumes "soc_answers k" and "hist s = []" and "mipi_csis_probe k s = (ret, s')"
    and "Soc (IrqRequest r) \<in> set (hist s')"
  shows "soc_level (SocClock c) s' = 1 \<and> soc_level PhySupply s' = 0 \<and> balance pm_delta (hist s') = 0 \<and>
    soc_level (SocClock c) (snd (mipi_csis_remove s')) = 1"
  using assms(3)
proof (cases rule: probe_cases)
  case board
  with calm_no_irq assms(2,4) show ?thesis by blast
next
  case (clocks s2)
  from clocks(2) have "set (hist s') \<subseteq> set (hist s2) \<union> {Soc (SocClkEnable c r) |c r. True}"
    by (cases rule: clk_enable_cases) auto
  with calm_no_irq [OF clocks(1) assms(2)] assms(4) show ?thesis by blast
next
  case (device s1 s2 r3 s3)
  have "r3 \<le> 0"
    using run_steps_nonpos [of "[soc_clk_enable k MIPI_CLK, soc_clk_enable k DISP_AXI, soc_clk_enable k DISP_APB]" s2]
      clk_nonpos [OF assms(1)] device(5) by (auto simp: mipi_csis_clk_enable_def)
  with device(6) have r3: "r3 = 0" by simp
  have l: "soc_level x s2 = 0" for x
    using calm_level [OF device(4)] assms(2) by (simp add: soc_level_def)
  have "soc_level (SocClock c) s3 = 1" "soc_level PhySupply s3 = 0"
    using device(5) r3 l by (cases rule: clk_enable_cases; cases c; simp)+
  moreover have "soc_level x s' = soc_level x s3" for x
    using device_levels [of x k s3] by (simp add: device(7))
  moreover have "soc_level x (snd (mipi_csis_remove s')) = soc_level x s'" for x
    by (cases x) (simp_all add: mipi_csis_remove_def)
  moreover have "grows quiet s s'"
    using grows_trans [OF grows_mono [OF device(4), of quiet]
        grows_trans [OF emits_grows [OF emits_clk_enable [of s2 k]] device_quiet [of _ k]]] device(5,7)
    by (simp add: calm_def)
  then have "balance pm_delta (hist s') = 0"
    by (auto simp: grows_def quiet_list assms(2))
  ultimately show ?thesis by simp
qed

theorem csis_probe_keeps_clocks_witness:
  "soc_level (SocClock DISP_AXI) (snd (mipi_csis_remove (snd (mipi_csis_probe ideal_soc csis_example)))) = 1"
proof -
  have "soc_answers ideal_soc" "hist csis_example = []"
    by (simp_all add: soc_answers_def ideal_soc_def csis_example_def)
  from csis_probe_keeps_clocks [OF this prod.collapse [symmetric] example_probe(2)] show ?thesis by blast
qed

end
