(* ===== verification/Ov5648_Regs.thy ===== *)
theory Ov5648_Regs
  imports V4l2
begin

text \<open>
  The register map of the OV5648 (\<^verbatim>\<open>imx219/exercise-02/ov5648.c\<close>, "Register definitions"): the
  addresses and bits the driver uses, under their names in the source, and the field macros as
  functions of their argument.  A macro result is passed to a \<^verbatim>\<open>u8\<close> parameter, so the field
  functions end in a conversion to a byte.  The lemmas recombine the bytes of a split field.
\<close>

section \<open>Addresses, bits and fields\<close>

abbreviation (input) OV5648_XVCLK_RATE :: u64 where
  "OV5648_XVCLK_RATE \<equiv> 24000000"

abbreviation (input) OV5648_SW_STANDBY_REG :: u16 where
  "OV5648_SW_STANDBY_REG \<equiv> 0x0100"

abbreviation (input) OV5648_SW_STANDBY_STREAM_ON :: u8 where
  "OV5648_SW_STANDBY_STREAM_ON \<equiv> BIT 0"

abbreviation (input) OV5648_SW_RESET_REG :: u16 where
  "OV5648_SW_RESET_REG \<equiv> 0x0103"

abbreviation (input) OV5648_SW_RESET_RESET :: u8 where
  "OV5648_SW_RESET_RESET \<equiv> BIT 0"

abbreviation (input) OV5648_PAD_OEN1_REG :: u16 where
  "OV5648_PAD_OEN1_REG \<equiv> 0x3001"

abbreviation (input) OV5648_PAD_OEN2_REG :: u16 where
  "OV5648_PAD_OEN2_REG \<equiv> 0x3002"

abbreviation (input) OV5648_CHIP_ID_H_REG :: u16 where
  "OV5648_CHIP_ID_H_REG \<equiv> 0x300a"

abbreviation (input) OV5648_CHIP_ID_H_VALUE :: u8 where
  "OV5648_CHIP_ID_H_VALUE \<equiv> 0x56"

abbreviation (input) OV5648_CHIP_ID_L_REG :: u16 where
  "OV5648_CHIP_ID_L_REG \<equiv> 0x300b"

abbreviation (input) OV5648_CHIP_ID_L_VALUE :: u8 where
  "OV5648_CHIP_ID_L_VALUE \<equiv> 0x48"

abbreviation (input) OV5648_PAD_PK_REG :: u16 where
  "OV5648_PAD_PK_REG \<equiv> 0x3011"

abbreviation (input) OV5648_PAD_PK_DRIVE_STRENGTH_1X :: u8 where
  "OV5648_PAD_PK_DRIVE_STRENGTH_1X \<equiv> push_bit 5 0"

abbreviation (input) OV5648_PAD_PK_FREX_N :: u8 where
  "OV5648_PAD_PK_FREX_N \<equiv> BIT 1"

abbreviation (input) OV5648_A_PWC_PK_O0_REG :: u16 where
  "OV5648_A_PWC_PK_O0_REG \<equiv> 0x3013"

abbreviation (input) OV5648_A_PWC_PK_O0_BP_REGULATOR_N :: u8 where
  "OV5648_A_PWC_PK_O0_BP_REGULATOR_N \<equiv> BIT 3"

abbreviation (input) OV5648_MIPI_SC_CTRL0_REG :: u16 where
  "OV5648_MIPI_SC_CTRL0_REG \<equiv> 0x3018"

definition OV5648_MIPI_SC_CTRL0_MIPI_LANES :: "u32 \<Rightarrow> u8" where
  "OV5648_MIPI_SC_CTRL0_MIPI_LANES v = ucast (push_bit 5 v AND GENMASK 7 5)"

abbreviation (input) OV5648_MIPI_SC_CTRL0_PHY_LP_RX_PD :: u8 where
  "OV5648_MIPI_SC_CTRL0_PHY_LP_RX_PD \<equiv> BIT 3"

abbreviation (input) OV5648_MIPI_SC_CTRL0_MIPI_EN :: u8 where
  "OV5648_MIPI_SC_CTRL0_MIPI_EN \<equiv> BIT 2"

abbreviation (input) OV5648_PLL_CTRL0_REG :: u16 where
  "OV5648_PLL_CTRL0_REG \<equiv> 0x3034"

definition OV5648_PLL_CTRL0_PLL_CHARGE_PUMP :: "u32 \<Rightarrow> u8" where
  "OV5648_PLL_CTRL0_PLL_CHARGE_PUMP v = ucast (push_bit 4 v AND GENMASK 6 4)"

definition OV5648_PLL_CTRL0_BITS :: "u32 \<Rightarrow> u8" where
  "OV5648_PLL_CTRL0_BITS v = ucast (v AND GENMASK 3 0)"

abbreviation (input) OV5648_PLL_CTRL1_REG :: u16 where
  "OV5648_PLL_CTRL1_REG \<equiv> 0x3035"

definition OV5648_PLL_CTRL1_SYS_DIV :: "u32 \<Rightarrow> u8" where
  "OV5648_PLL_CTRL1_SYS_DIV v = ucast (push_bit 4 v AND GENMASK 7 4)"

definition OV5648_PLL_CTRL1_MIPI_DIV :: "u32 \<Rightarrow> u8" where
  "OV5648_PLL_CTRL1_MIPI_DIV v = ucast (v AND GENMASK 3 0)"

abbreviation (input) OV5648_PLL_MUL_REG :: u16 where
  "OV5648_PLL_MUL_REG \<equiv> 0x3036"

definition OV5648_PLL_MUL :: "u32 \<Rightarrow> u8" where
  "OV5648_PLL_MUL v = ucast (v AND GENMASK 7 0)"

abbreviation (input) OV5648_PLL_DIV_REG :: u16 where
  "OV5648_PLL_DIV_REG \<equiv> 0x3037"

definition OV5648_PLL_DIV_ROOT_DIV :: "u32 \<Rightarrow> u8" where
  "OV5648_PLL_DIV_ROOT_DIV v = ucast (push_bit 4 (v - 1) AND BIT 4)"

definition OV5648_PLL_DIV_PLL_PRE_DIV :: "u32 \<Rightarrow> u8" where
  "OV5648_PLL_DIV_PLL_PRE_DIV v = ucast (v AND GENMASK 3 0)"

abbreviation (input) OV5648_PLLS_MUL_REG :: u16 where
  "OV5648_PLLS_MUL_REG \<equiv> 0x303b"

definition OV5648_PLLS_MUL :: "u32 \<Rightarrow> u8" where
  "OV5648_PLLS_MUL v = ucast (v AND GENMASK 4 0)"

abbreviation (input) OV5648_PLLS_CTRL_REG :: u16 where
  "OV5648_PLLS_CTRL_REG \<equiv> 0x303c"

definition OV5648_PLLS_CTRL_PLL_CHARGE_PUMP :: "u32 \<Rightarrow> u8" where
  "OV5648_PLLS_CTRL_PLL_CHARGE_PUMP v = ucast (push_bit 4 v AND GENMASK 6 4)"

definition OV5648_PLLS_CTRL_SYS_DIV :: "u32 \<Rightarrow> u8" where
  "OV5648_PLLS_CTRL_SYS_DIV v = ucast (v AND GENMASK 3 0)"

abbreviation (input) OV5648_PLLS_DIV_REG :: u16 where
  "OV5648_PLLS_DIV_REG \<equiv> 0x303d"

definition OV5648_PLLS_DIV_PLLS_PRE_DIV :: "u32 \<Rightarrow> u8" where
  "OV5648_PLLS_DIV_PLLS_PRE_DIV v = ucast (push_bit 4 v AND GENMASK 5 4)"

definition OV5648_PLLS_DIV_PLLS_DIV_R :: "u32 \<Rightarrow> u8" where
  "OV5648_PLLS_DIV_PLLS_DIV_R v = ucast (push_bit 2 (v - 1) AND BIT 2)"

definition OV5648_PLLS_DIV_PLLS_SEL_DIV :: "u32 \<Rightarrow> u8" where
  "OV5648_PLLS_DIV_PLLS_SEL_DIV v = ucast (v AND GENMASK 1 0)"

abbreviation (input) OV5648_SRB_CTRL_REG :: u16 where
  "OV5648_SRB_CTRL_REG \<equiv> 0x3106"

definition OV5648_SRB_CTRL_SCLK_DIV :: "u32 \<Rightarrow> u8" where
  "OV5648_SRB_CTRL_SCLK_DIV v = ucast (push_bit 2 v AND GENMASK 3 2)"

abbreviation (input) OV5648_SRB_CTRL_SCLK_ARBITER_EN :: u8 where
  "OV5648_SRB_CTRL_SCLK_ARBITER_EN \<equiv> BIT 0"

abbreviation (input) OV5648_EXPOSURE_CTRL_HH_REG :: u16 where
  "OV5648_EXPOSURE_CTRL_HH_REG \<equiv> 0x3500"

definition OV5648_EXPOSURE_CTRL_HH :: "u32 \<Rightarrow> u8" where
  "OV5648_EXPOSURE_CTRL_HH v = ucast (drop_bit 16 (v AND GENMASK 19 16))"

definition OV5648_EXPOSURE_CTRL_HH_VALUE :: "u32 \<Rightarrow> u32" where
  "OV5648_EXPOSURE_CTRL_HH_VALUE v = push_bit 16 v AND GENMASK 19 16"

abbreviation (input) OV5648_EXPOSURE_CTRL_H_REG :: u16 where
  "OV5648_EXPOSURE_CTRL_H_REG \<equiv> 0x3501"

definition OV5648_EXPOSURE_CTRL_H :: "u32 \<Rightarrow> u8" where
  "OV5648_EXPOSURE_CTRL_H v = ucast (drop_bit 8 (v AND GENMASK 15 8))"

definition OV5648_EXPOSURE_CTRL_H_VALUE :: "u32 \<Rightarrow> u32" where
  "OV5648_EXPOSURE_CTRL_H_VALUE v = push_bit 8 v AND GENMASK 15 8"

abbreviation (input) OV5648_EXPOSURE_CTRL_L_REG :: u16 where
  "OV5648_EXPOSURE_CTRL_L_REG \<equiv> 0x3502"

definition OV5648_EXPOSURE_CTRL_L :: "u32 \<Rightarrow> u8" where
  "OV5648_EXPOSURE_CTRL_L v = ucast (v AND GENMASK 7 0)"

definition OV5648_EXPOSURE_CTRL_L_VALUE :: "u32 \<Rightarrow> u32" where
  "OV5648_EXPOSURE_CTRL_L_VALUE v = v AND GENMASK 7 0"

abbreviation (input) OV5648_MANUAL_CTRL_REG :: u16 where
  "OV5648_MANUAL_CTRL_REG \<equiv> 0x3503"

definition OV5648_MANUAL_CTRL_FRAME_DELAY :: "u32 \<Rightarrow> u8" where
  "OV5648_MANUAL_CTRL_FRAME_DELAY v = ucast (push_bit 4 v AND GENMASK 5 4)"

abbreviation (input) OV5648_MANUAL_CTRL_AGC_MANUAL_EN :: u8 where
  "OV5648_MANUAL_CTRL_AGC_MANUAL_EN \<equiv> BIT 1"

abbreviation (input) OV5648_MANUAL_CTRL_AEC_MANUAL_EN :: u8 where
  "OV5648_MANUAL_CTRL_AEC_MANUAL_EN \<equiv> BIT 0"

abbreviation (input) OV5648_GAIN_CTRL_H_REG :: u16 where
  "OV5648_GAIN_CTRL_H_REG \<equiv> 0x350a"

definition OV5648_GAIN_CTRL_H :: "u32 \<Rightarrow> u8" where
  "OV5648_GAIN_CTRL_H v = ucast (drop_bit 8 (v AND GENMASK 9 8))"

definition OV5648_GAIN_CTRL_H_VALUE :: "u32 \<Rightarrow> u32" where
  "OV5648_GAIN_CTRL_H_VALUE v = push_bit 8 v AND GENMASK 9 8"

abbreviation (input) OV5648_GAIN_CTRL_L_REG :: u16 where
  "OV5648_GAIN_CTRL_L_REG \<equiv> 0x350b"

definition OV5648_GAIN_CTRL_L :: "u32 \<Rightarrow> u8" where
  "OV5648_GAIN_CTRL_L v = ucast (v AND GENMASK 7 0)"

definition OV5648_GAIN_CTRL_L_VALUE :: "u32 \<Rightarrow> u32" where
  "OV5648_GAIN_CTRL_L_VALUE v = v AND GENMASK 7 0"

abbreviation (input) OV5648_AEC_CTRL0_REG :: u16 where
  "OV5648_AEC_CTRL0_REG \<equiv> 0x3a00"

abbreviation (input) OV5648_AEC_CTRL0_DEBUG :: u8 where
  "OV5648_AEC_CTRL0_DEBUG \<equiv> BIT 6"

abbreviation (input) OV5648_AEC_CTRL0_START_SEL_EN :: u8 where
  "OV5648_AEC_CTRL0_START_SEL_EN \<equiv> BIT 3"

abbreviation (input) OV5648_CROP_START_X_H_REG :: u16 where
  "OV5648_CROP_START_X_H_REG \<equiv> 0x3800"

definition OV5648_CROP_START_X_H :: "u32 \<Rightarrow> u8" where
  "OV5648_CROP_START_X_H v = ucast (drop_bit 8 (v AND GENMASK 11 8))"

abbreviation (input) OV5648_CROP_START_X_L_REG :: u16 where
  "OV5648_CROP_START_X_L_REG \<equiv> 0x3801"

definition OV5648_CROP_START_X_L :: "u32 \<Rightarrow> u8" where
  "OV5648_CROP_START_X_L v = ucast (v AND GENMASK 7 0)"

abbreviation (input) OV5648_CROP_START_Y_H_REG :: u16 where
  "OV5648_CROP_START_Y_H_REG \<equiv> 0x3802"

definition OV5648_CROP_START_Y_H :: "u32 \<Rightarrow> u8" where
  "OV5648_CROP_START_Y_H v = ucast (drop_bit 8 (v AND GENMASK 11 8))"

abbreviation (input) OV5648_CROP_START_Y_L_REG :: u16 where
  "OV5648_CROP_START_Y_L_REG \<equiv> 0x3803"

definition OV5648_CROP_START_Y_L :: "u32 \<Rightarrow> u8" where
  "OV5648_CROP_START_Y_L v = ucast (v AND GENMASK 7 0)"

abbreviation (input) OV5648_CROP_END_X_H_REG :: u16 where
  "OV5648_CROP_END_X_H_REG \<equiv> 0x3804"

definition OV5648_CROP_END_X_H :: "u32 \<Rightarrow> u8" where
  "OV5648_CROP_END_X_H v = ucast (drop_bit 8 (v AND GENMASK 11 8))"

abbreviation (input) OV5648_CROP_END_X_L_REG :: u16 where
  "OV5648_CROP_END_X_L_REG \<equiv> 0x3805"

definition OV5648_CROP_END_X_L :: "u32 \<Rightarrow> u8" where
  "OV5648_CROP_END_X_L v = ucast (v AND GENMASK 7 0)"

abbreviation (input) OV5648_CROP_END_Y_H_REG :: u16 where
  "OV5648_CROP_END_Y_H_REG \<equiv> 0x3806"

definition OV5648_CROP_END_Y_H :: "u32 \<Rightarrow> u8" where
  "OV5648_CROP_END_Y_H v = ucast (drop_bit 8 (v AND GENMASK 11 8))"

abbreviation (input) OV5648_CROP_END_Y_L_REG :: u16 where
  "OV5648_CROP_END_Y_L_REG \<equiv> 0x3807"

definition OV5648_CROP_END_Y_L :: "u32 \<Rightarrow> u8" where
  "OV5648_CROP_END_Y_L v = ucast (v AND GENMASK 7 0)"

abbreviation (input) OV5648_OUTPUT_SIZE_X_H_REG :: u16 where
  "OV5648_OUTPUT_SIZE_X_H_REG \<equiv> 0x3808"

definition OV5648_OUTPUT_SIZE_X_H :: "u32 \<Rightarrow> u8" where
  "OV5648_OUTPUT_SIZE_X_H v = ucast (drop_bit 8 (v AND GENMASK 11 8))"

abbreviation (input) OV5648_OUTPUT_SIZE_X_L_REG :: u16 where
  "OV5648_OUTPUT_SIZE_X_L_REG \<equiv> 0x3809"

definition OV5648_OUTPUT_SIZE_X_L :: "u32 \<Rightarrow> u8" where
  "OV5648_OUTPUT_SIZE_X_L v = ucast (v AND GENMASK 7 0)"

abbreviation (input) OV5648_OUTPUT_SIZE_Y_H_REG :: u16 where
  "OV5648_OUTPUT_SIZE_Y_H_REG \<equiv> 0x380a"

definition OV5648_OUTPUT_SIZE_Y_H :: "u32 \<Rightarrow> u8" where
  "OV5648_OUTPUT_SIZE_Y_H v = ucast (drop_bit 8 (v AND GENMASK 11 8))"

abbreviation (input) OV5648_OUTPUT_SIZE_Y_L_REG :: u16 where
  "OV5648_OUTPUT_SIZE_Y_L_REG \<equiv> 0x380b"

definition OV5648_OUTPUT_SIZE_Y_L :: "u32 \<Rightarrow> u8" where
  "OV5648_OUTPUT_SIZE_Y_L v = ucast (v AND GENMASK 7 0)"

abbreviation (input) OV5648_HTS_H_REG :: u16 where
  "OV5648_HTS_H_REG \<equiv> 0x380c"

definition OV5648_HTS_H :: "u32 \<Rightarrow> u8" where
  "OV5648_HTS_H v = ucast (drop_bit 8 (v AND GENMASK 12 8))"

abbreviation (input) OV5648_HTS_L_REG :: u16 where
  "OV5648_HTS_L_REG \<equiv> 0x380d"

definition OV5648_HTS_L :: "u32 \<Rightarrow> u8" where
  "OV5648_HTS_L v = ucast (v AND GENMASK 7 0)"

abbreviation (input) OV5648_VTS_H_REG :: u16 where
  "OV5648_VTS_H_REG \<equiv> 0x380e"

definition OV5648_VTS_H :: "u32 \<Rightarrow> u8" where
  "OV5648_VTS_H v = ucast (drop_bit 8 (v AND GENMASK 15 8))"

abbreviation (input) OV5648_VTS_L_REG :: u16 where
  "OV5648_VTS_L_REG \<equiv> 0x380f"

definition OV5648_VTS_L :: "u32 \<Rightarrow> u8" where
  "OV5648_VTS_L v = ucast (v AND GENMASK 7 0)"

abbreviation (input) OV5648_OFFSET_X_H_REG :: u16 where
  "OV5648_OFFSET_X_H_REG \<equiv> 0x3810"

definition OV5648_OFFSET_X_H :: "u32 \<Rightarrow> u8" where
  "OV5648_OFFSET_X_H v = ucast (drop_bit 8 (v AND GENMASK 11 8))"

abbreviation (input) OV5648_OFFSET_X_L_REG :: u16 where
  "OV5648_OFFSET_X_L_REG \<equiv> 0x3811"

definition OV5648_OFFSET_X_L :: "u32 \<Rightarrow> u8" where
  "OV5648_OFFSET_X_L v = ucast (v AND GENMASK 7 0)"

abbreviation (input) OV5648_OFFSET_Y_H_REG :: u16 where
  "OV5648_OFFSET_Y_H_REG \<equiv> 0x3812"

definition OV5648_OFFSET_Y_H :: "u32 \<Rightarrow> u8" where
  "OV5648_OFFSET_Y_H v = ucast (drop_bit 8 (v AND GENMASK 11 8))"

abbreviation (input) OV5648_OFFSET_Y_L_REG :: u16 where
  "OV5648_OFFSET_Y_L_REG \<equiv> 0x3813"

definition OV5648_OFFSET_Y_L :: "u32 \<Rightarrow> u8" where
  "OV5648_OFFSET_Y_L v = ucast (v AND GENMASK 7 0)"

abbreviation (input) OV5648_SUB_INC_X_REG :: u16 where
  "OV5648_SUB_INC_X_REG \<equiv> 0x3814"

definition OV5648_SUB_INC_X_ODD :: "u32 \<Rightarrow> u8" where
  "OV5648_SUB_INC_X_ODD v = ucast (push_bit 4 v AND GENMASK 7 4)"

definition OV5648_SUB_INC_X_EVEN :: "u32 \<Rightarrow> u8" where
  "OV5648_SUB_INC_X_EVEN v = ucast (v AND GENMASK 3 0)"

abbreviation (input) OV5648_SUB_INC_Y_REG :: u16 where
  "OV5648_SUB_INC_Y_REG \<equiv> 0x3815"

definition OV5648_SUB_INC_Y_ODD :: "u32 \<Rightarrow> u8" where
  "OV5648_SUB_INC_Y_ODD v = ucast (push_bit 4 v AND GENMASK 7 4)"

definition OV5648_SUB_INC_Y_EVEN :: "u32 \<Rightarrow> u8" where
  "OV5648_SUB_INC_Y_EVEN v = ucast (v AND GENMASK 3 0)"

abbreviation (input) OV5648_TC20_REG :: u16 where
  "OV5648_TC20_REG \<equiv> 0x3820"

abbreviation (input) OV5648_TC20_DEBUG :: u8 where
  "OV5648_TC20_DEBUG \<equiv> BIT 6"

abbreviation (input) OV5648_TC20_FLIP_VERT_ISP_EN :: u8 where
  "OV5648_TC20_FLIP_VERT_ISP_EN \<equiv> BIT 2"

abbreviation (input) OV5648_TC20_FLIP_VERT_SENSOR_EN :: u8 where
  "OV5648_TC20_FLIP_VERT_SENSOR_EN \<equiv> BIT 1"

abbreviation (input) OV5648_TC20_BINNING_VERT_EN :: u8 where
  "OV5648_TC20_BINNING_VERT_EN \<equiv> BIT 0"

abbreviation (input) OV5648_TC21_REG :: u16 where
  "OV5648_TC21_REG \<equiv> 0x3821"

abbreviation (input) OV5648_TC21_FLIP_HORZ_ISP_EN :: u8 where
  "OV5648_TC21_FLIP_HORZ_ISP_EN \<equiv> BIT 2"

abbreviation (input) OV5648_TC21_FLIP_HORZ_SENSOR_EN :: u8 where
  "OV5648_TC21_FLIP_HORZ_SENSOR_EN \<equiv> BIT 1"

abbreviation (input) OV5648_TC21_BINNING_HORZ_EN :: u8 where
  "OV5648_TC21_BINNING_HORZ_EN \<equiv> BIT 0"

abbreviation (input) OV5648_PSRAM_CTRL1_REG :: u16 where
  "OV5648_PSRAM_CTRL1_REG \<equiv> 0x3f01"

abbreviation (input) OV5648_PSRAM_CTRLF_REG :: u16 where
  "OV5648_PSRAM_CTRLF_REG \<equiv> 0x3f0f"

abbreviation (input) OV5648_BLC_CTRL1_REG :: u16 where
  "OV5648_BLC_CTRL1_REG \<equiv> 0x4001"

definition OV5648_BLC_CTRL1_START_LINE :: "u32 \<Rightarrow> u8" where
  "OV5648_BLC_CTRL1_START_LINE v = ucast (v AND GENMASK 5 0)"

abbreviation (input) OV5648_BLC_CTRL2_REG :: u16 where
  "OV5648_BLC_CTRL2_REG \<equiv> 0x4002"

abbreviation (input) OV5648_BLC_CTRL2_AUTO_EN :: u8 where
  "OV5648_BLC_CTRL2_AUTO_EN \<equiv> BIT 6"

definition OV5648_BLC_CTRL2_RESET_FRAME_NUM :: "u32 \<Rightarrow> u8" where
  "OV5648_BLC_CTRL2_RESET_FRAME_NUM v = ucast (v AND GENMASK 5 0)"

abbreviation (input) OV5648_BLC_LINE_NUM_REG :: u16 where
  "OV5648_BLC_LINE_NUM_REG \<equiv> 0x4004"

definition OV5648_BLC_LINE_NUM :: "u32 \<Rightarrow> u8" where
  "OV5648_BLC_LINE_NUM v = ucast (v AND GENMASK 7 0)"

abbreviation (input) OV5648_BLC_CTRL5_REG :: u16 where
  "OV5648_BLC_CTRL5_REG \<equiv> 0x4005"

abbreviation (input) OV5648_BLC_CTRL5_UPDATE_EN :: u8 where
  "OV5648_BLC_CTRL5_UPDATE_EN \<equiv> BIT 1"

abbreviation (input) OV5648_MIPI_CTRL0_REG :: u16 where
  "OV5648_MIPI_CTRL0_REG \<equiv> 0x4800"

abbreviation (input) OV5648_MIPI_CTRL0_CLK_LANE_AUTOGATE :: u8 where
  "OV5648_MIPI_CTRL0_CLK_LANE_AUTOGATE \<equiv> BIT 5"

abbreviation (input) OV5648_MIPI_CTRL0_LANE_SELECT_LANE1 :: u8 where
  "OV5648_MIPI_CTRL0_LANE_SELECT_LANE1 \<equiv> 0"

abbreviation (input) OV5648_MIPI_CTRL0_IDLE_LP11 :: u8 where
  "OV5648_MIPI_CTRL0_IDLE_LP11 \<equiv> BIT 2"

abbreviation (input) OV5648_ISP_CTRL0_REG :: u16 where
  "OV5648_ISP_CTRL0_REG \<equiv> 0x5000"

abbreviation (input) OV5648_ISP_CTRL0_BLACK_CORRECT_EN :: u8 where
  "OV5648_ISP_CTRL0_BLACK_CORRECT_EN \<equiv> BIT 2"

abbreviation (input) OV5648_ISP_CTRL0_WHITE_CORRECT_EN :: u8 where
  "OV5648_ISP_CTRL0_WHITE_CORRECT_EN \<equiv> BIT 1"

abbreviation (input) OV5648_ISP_CTRL1_REG :: u16 where
  "OV5648_ISP_CTRL1_REG \<equiv> 0x5001"

abbreviation (input) OV5648_ISP_CTRL1_AWB_EN :: u8 where
  "OV5648_ISP_CTRL1_AWB_EN \<equiv> BIT 0"

abbreviation (input) OV5648_ISP_CTRL2_REG :: u16 where
  "OV5648_ISP_CTRL2_REG \<equiv> 0x5002"

abbreviation (input) OV5648_ISP_CTRL2_WIN_EN :: u8 where
  "OV5648_ISP_CTRL2_WIN_EN \<equiv> BIT 6"

abbreviation (input) OV5648_ISP_CTRL2_AWB_GAIN_EN :: u8 where
  "OV5648_ISP_CTRL2_AWB_GAIN_EN \<equiv> BIT 0"

abbreviation (input) OV5648_ISP_CTRL3_REG :: u16 where
  "OV5648_ISP_CTRL3_REG \<equiv> 0x5003"

abbreviation (input) OV5648_ISP_CTRL3_BUF_EN :: u8 where
  "OV5648_ISP_CTRL3_BUF_EN \<equiv> BIT 3"

abbreviation (input) OV5648_ISP_CTRL3_BIN_AUTO_EN :: u8 where
  "OV5648_ISP_CTRL3_BIN_AUTO_EN \<equiv> BIT 1"

abbreviation (input) OV5648_ISP_CTRL4_REG :: u16 where
  "OV5648_ISP_CTRL4_REG \<equiv> 0x5004"

abbreviation (input) OV5648_ISP_CTRL1F_REG :: u16 where
  "OV5648_ISP_CTRL1F_REG \<equiv> 0x501f"

abbreviation (input) OV5648_ISP_CTRL1F_OUTPUT_EN :: u8 where
  "OV5648_ISP_CTRL1F_OUTPUT_EN \<equiv> 3"

abbreviation (input) OV5648_ISP_CTRL3D_REG :: u16 where
  "OV5648_ISP_CTRL3D_REG \<equiv> 0x503d"

abbreviation (input) OV5648_ISP_CTRL3D_PATTERN_EN :: u8 where
  "OV5648_ISP_CTRL3D_PATTERN_EN \<equiv> BIT 7"

abbreviation (input) OV5648_ISP_CTRL3D_ROLLING_BAR_EN :: u8 where
  "OV5648_ISP_CTRL3D_ROLLING_BAR_EN \<equiv> BIT 6"

abbreviation (input) OV5648_ISP_CTRL3D_PATTERN_COLOR_BARS :: u8 where
  "OV5648_ISP_CTRL3D_PATTERN_COLOR_BARS \<equiv> 0"

abbreviation (input) OV5648_ISP_CTRL3D_PATTERN_RANDOM_DATA :: u8 where
  "OV5648_ISP_CTRL3D_PATTERN_RANDOM_DATA \<equiv> 1"

abbreviation (input) OV5648_ISP_CTRL3D_PATTERN_COLOR_SQUARES :: u8 where
  "OV5648_ISP_CTRL3D_PATTERN_COLOR_SQUARES \<equiv> 2"

abbreviation (input) OV5648_ISP_CTRL4B_REG :: u16 where
  "OV5648_ISP_CTRL4B_REG \<equiv> 0x504b"

abbreviation (input) OV5648_ISP_CTRL4B_POST_BIN_H_EN :: u8 where
  "OV5648_ISP_CTRL4B_POST_BIN_H_EN \<equiv> BIT 5"

abbreviation (input) OV5648_ISP_CTRL4B_POST_BIN_V_EN :: u8 where
  "OV5648_ISP_CTRL4B_POST_BIN_V_EN \<equiv> BIT 4"

abbreviation (input) OV5648_AWB_CTRL_REG :: u16 where
  "OV5648_AWB_CTRL_REG \<equiv> 0x5180"

abbreviation (input) OV5648_AWB_CTRL_GAIN_MANUAL_EN :: u8 where
  "OV5648_AWB_CTRL_GAIN_MANUAL_EN \<equiv> BIT 3"

abbreviation (input) OV5648_GAIN_RED_MAN_H_REG :: u16 where
  "OV5648_GAIN_RED_MAN_H_REG \<equiv> 0x5186"

definition OV5648_GAIN_RED_MAN_H :: "u32 \<Rightarrow> u8" where
  "OV5648_GAIN_RED_MAN_H v = ucast (drop_bit 8 (v AND GENMASK 11 8))"

abbreviation (input) OV5648_GAIN_RED_MAN_L_REG :: u16 where
  "OV5648_GAIN_RED_MAN_L_REG \<equiv> 0x5187"

definition OV5648_GAIN_RED_MAN_L :: "u32 \<Rightarrow> u8" where
  "OV5648_GAIN_RED_MAN_L v = ucast (v AND GENMASK 7 0)"

abbreviation (input) OV5648_GAIN_BLUE_MAN_H_REG :: u16 where
  "OV5648_GAIN_BLUE_MAN_H_REG \<equiv> 0x518a"

definition OV5648_GAIN_BLUE_MAN_H :: "u32 \<Rightarrow> u8" where
  "OV5648_GAIN_BLUE_MAN_H v = ucast (drop_bit 8 (v AND GENMASK 11 8))"

abbreviation (input) OV5648_GAIN_BLUE_MAN_L_REG :: u16 where
  "OV5648_GAIN_BLUE_MAN_L_REG \<equiv> 0x518b"

definition OV5648_GAIN_BLUE_MAN_L :: "u32 \<Rightarrow> u8" where
  "OV5648_GAIN_BLUE_MAN_L v = ucast (v AND GENMASK 7 0)"

lemmas ov5648_field_defs =
  OV5648_MIPI_SC_CTRL0_MIPI_LANES_def OV5648_PLL_CTRL0_PLL_CHARGE_PUMP_def
  OV5648_PLL_CTRL0_BITS_def OV5648_PLL_CTRL1_SYS_DIV_def OV5648_PLL_CTRL1_MIPI_DIV_def
  OV5648_PLL_MUL_def OV5648_PLL_DIV_ROOT_DIV_def OV5648_PLL_DIV_PLL_PRE_DIV_def
  OV5648_PLLS_MUL_def OV5648_PLLS_CTRL_PLL_CHARGE_PUMP_def OV5648_PLLS_CTRL_SYS_DIV_def
  OV5648_PLLS_DIV_PLLS_PRE_DIV_def OV5648_PLLS_DIV_PLLS_DIV_R_def
  OV5648_PLLS_DIV_PLLS_SEL_DIV_def OV5648_SRB_CTRL_SCLK_DIV_def OV5648_EXPOSURE_CTRL_HH_def
  OV5648_EXPOSURE_CTRL_HH_VALUE_def OV5648_EXPOSURE_CTRL_H_def OV5648_EXPOSURE_CTRL_H_VALUE_def
  OV5648_EXPOSURE_CTRL_L_def OV5648_EXPOSURE_CTRL_L_VALUE_def OV5648_MANUAL_CTRL_FRAME_DELAY_def
  OV5648_GAIN_CTRL_H_def OV5648_GAIN_CTRL_H_VALUE_def OV5648_GAIN_CTRL_L_def
  OV5648_GAIN_CTRL_L_VALUE_def OV5648_CROP_START_X_H_def OV5648_CROP_START_X_L_def
  OV5648_CROP_START_Y_H_def OV5648_CROP_START_Y_L_def OV5648_CROP_END_X_H_def
  OV5648_CROP_END_X_L_def OV5648_CROP_END_Y_H_def OV5648_CROP_END_Y_L_def
  OV5648_OUTPUT_SIZE_X_H_def OV5648_OUTPUT_SIZE_X_L_def OV5648_OUTPUT_SIZE_Y_H_def
  OV5648_OUTPUT_SIZE_Y_L_def OV5648_HTS_H_def OV5648_HTS_L_def OV5648_VTS_H_def OV5648_VTS_L_def
  OV5648_OFFSET_X_H_def OV5648_OFFSET_X_L_def OV5648_OFFSET_Y_H_def OV5648_OFFSET_Y_L_def
  OV5648_SUB_INC_X_ODD_def OV5648_SUB_INC_X_EVEN_def OV5648_SUB_INC_Y_ODD_def
  OV5648_SUB_INC_Y_EVEN_def OV5648_BLC_CTRL1_START_LINE_def OV5648_BLC_CTRL2_RESET_FRAME_NUM_def
  OV5648_BLC_LINE_NUM_def OV5648_GAIN_RED_MAN_H_def OV5648_GAIN_RED_MAN_L_def
  OV5648_GAIN_BLUE_MAN_H_def OV5648_GAIN_BLUE_MAN_L_def

section \<open>Split fields recombine\<close>

definition join_hl :: "u8 \<Rightarrow> u8 \<Rightarrow> u32" where
  "join_hl h l = push_bit 8 (ucast h) OR ucast l"

lemma bit_small:
  assumes "unat (v :: u32) < 2 ^ n" and "n \<le> i"
  shows "\<not> bit v i"
proof
  assume "bit v i"
  then have "bit (unat v) i"
    by (simp add: bit_unsigned_iff)
  then have odd: "odd (unat v div 2 ^ i)"
    by (simp add: bit_iff_odd)
  have "(2 :: nat) ^ n \<le> 2 ^ i"
    using assms(2) by simp
  with assms(1) have "unat v < 2 ^ i"
    by (rule less_le_trans)
  then have "unat v div 2 ^ i = 0" by simp
  with odd show False by simp
qed

lemma join_hl_field:
  assumes "unat (v :: u32) < 2 ^ Suc n" and "n < 16" and "7 < n"
  shows "join_hl (ucast (drop_bit 8 (v AND GENMASK n 8))) (ucast (v AND GENMASK 7 0)) = v"
proof (rule bit_word_eqI)
  fix i
  assume "i < LENGTH(32)"
  moreover have "\<not> bit v i" if "n < i"
    using bit_small [OF assms(1)] that by simp
  ultimately show "bit (join_hl (ucast (drop_bit 8 (v AND GENMASK n 8)))
      (ucast (v AND GENMASK 7 0))) i = bit v i"
    using assms(2,3) by (cases "n < i"; cases "i < 8") (auto simp: join_hl_def bit_simps)
qed

end
