(* ===== verification/Ov5648_Data.thy ===== *)
theory Ov5648_Data
  imports Ov5648_Regs
begin

text \<open>
  The data of the OV5648 driver: its structures as records, its static tables as lists, and the
  driver instance \<^verbatim>\<open>struct ov5648\<close> as an extension of the run state.  A pointer to a mode is
  \<open>None\<close> for NULL and otherwise the table entry itself: the entries are pairwise different
  (\<open>ov5648_modes_distinct\<close>), so comparing entries is comparing pointers.
\<close>

section \<open>Structures\<close>

record ov5648_register_value =
  rv_address :: u16
  rv_value :: u8
  rv_delay_ms :: u32

record ov5648_pll1_config =
  pll_pre_div :: u32
  pll_mul :: u32
  pll1_sys_div :: u32
  root_div :: u32
  sclk_div :: u32
  mipi_div :: u32

record ov5648_pll2_config =
  plls_pre_div :: u32
  plls_div_r :: u32
  plls_mul :: u32
  pll2_sys_div :: u32
  sel_div :: u32

text \<open>The two-element arrays hold the 8-bit entry first and the 10-bit entry second.\<close>

record ov5648_mode =
  crop_start_x :: u32
  offset_x :: u32
  output_size_x :: u32
  crop_end_x :: u32
  hts :: u32
  crop_start_y :: u32
  offset_y :: u32
  output_size_y :: u32
  crop_end_y :: u32
  vts :: u32
  binning_x :: bool
  binning_y :: bool
  inc_x_odd :: u32
  inc_x_even :: u32
  inc_y_odd :: u32
  inc_y_even :: u32
  frame_interval :: "v4l2_fract \<times> v4l2_fract"
  pll1_config :: "ov5648_pll1_config \<times> ov5648_pll1_config"
  pll2_config :: ov5648_pll2_config
  register_values :: "ov5648_register_value list option"

record ov5648_format =
  of_code :: u32
  bpp :: u32
  x_offset :: u32
  y_offset :: u32

text \<open>
  \<^verbatim>\<open>struct ov5648_state\<close> (mode, mbus_code, streaming) is inlined; \<open>ctrls\<close> is the control handler,
  by control id; \<open>num_data_lanes\<close> and \<open>link_frequencies\<close> are the parsed endpoint.
\<close>

record ov5648 = kstate +
  reset :: kptr
  powerdown :: kptr
  avdd :: kptr
  dvdd :: kptr
  dovdd :: kptr
  xvclk :: kptr
  num_data_lanes :: u32
  link_frequencies :: "u64 list"
  mode :: "ov5648_mode option"
  mbus_code :: u32
  streaming :: bool
  ctrls :: ctrl_store
  fmt :: v4l2_mbus_framefmt
  interval :: v4l2_fract
  formats :: "ov5648_format list"
  modes :: "ov5648_mode list"

section \<open>Static tables\<close>

definition ov5648_formats :: "ov5648_format list" where
  "ov5648_formats = [
     \<lparr>of_code = MEDIA_BUS_FMT_SGBRG8_1X8, bpp = 8, x_offset = 1, y_offset = 1\<rparr>,
     \<lparr>of_code = MEDIA_BUS_FMT_SBGGR8_1X8, bpp = 8, x_offset = 0, y_offset = 1\<rparr>,
     \<lparr>of_code = MEDIA_BUS_FMT_SRGGB8_1X8, bpp = 8, x_offset = 1, y_offset = 0\<rparr>,
     \<lparr>of_code = MEDIA_BUS_FMT_SGRBG8_1X8, bpp = 8, x_offset = 0, y_offset = 0\<rparr>,
     \<lparr>of_code = MEDIA_BUS_FMT_SGBRG10_1X10, bpp = 10, x_offset = 1, y_offset = 1\<rparr>,
     \<lparr>of_code = MEDIA_BUS_FMT_SBGGR10_1X10, bpp = 10, x_offset = 0, y_offset = 1\<rparr>,
     \<lparr>of_code = MEDIA_BUS_FMT_SRGGB10_1X10, bpp = 10, x_offset = 1, y_offset = 0\<rparr>,
     \<lparr>of_code = MEDIA_BUS_FMT_SGRBG10_1X10, bpp = 10, x_offset = 0, y_offset = 0\<rparr>]"

definition ov5648_pll1_config_native_8_bits :: ov5648_pll1_config where
  "ov5648_pll1_config_native_8_bits = \<lparr>
     pll_pre_div = 3, pll_mul = 84, pll1_sys_div = 2, root_div = 1, sclk_div = 1, mipi_div = 1\<rparr>"

definition ov5648_pll1_config_native_10_bits :: ov5648_pll1_config where
  "ov5648_pll1_config_native_10_bits = \<lparr>
     pll_pre_div = 3, pll_mul = 105, pll1_sys_div = 2, root_div = 1, sclk_div = 1, mipi_div = 1\<rparr>"

definition ov5648_pll2_config_native :: ov5648_pll2_config where
  "ov5648_pll2_config_native = \<lparr>
     plls_pre_div = 3, plls_div_r = 1, plls_mul = 25, pll2_sys_div = 1, sel_div = 1\<rparr>"

lemmas ov5648_pll_defs =
  ov5648_pll1_config_native_8_bits_def ov5648_pll1_config_native_10_bits_def
  ov5648_pll2_config_native_def

definition ov5648_mode_2592x1944 :: ov5648_mode where
  "ov5648_mode_2592x1944 = \<lparr>
     crop_start_x = 16, offset_x = 0, output_size_x = 2592, crop_end_x = 2607, hts = 2816,
     crop_start_y = 6, offset_y = 0, output_size_y = 1944, crop_end_y = 1949, vts = 1984,
     binning_x = False, binning_y = False,
     inc_x_odd = 1, inc_x_even = 1, inc_y_odd = 1, inc_y_even = 1,
     frame_interval = ((1, 15), (1, 15)),
     pll1_config = (ov5648_pll1_config_native_8_bits, ov5648_pll1_config_native_10_bits),
     pll2_config = ov5648_pll2_config_native, register_values = None\<rparr>"

definition ov5648_mode_1600x1200 :: ov5648_mode where
  "ov5648_mode_1600x1200 = \<lparr>
     crop_start_x = 512, offset_x = 0, output_size_x = 1600, crop_end_x = 2111, hts = 2816,
     crop_start_y = 378, offset_y = 0, output_size_y = 1200, crop_end_y = 1577, vts = 1984,
     binning_x = False, binning_y = False,
     inc_x_odd = 1, inc_x_even = 1, inc_y_odd = 1, inc_y_even = 1,
     frame_interval = ((1, 15), (1, 15)),
     pll1_config = (ov5648_pll1_config_native_8_bits, ov5648_pll1_config_native_10_bits),
     pll2_config = ov5648_pll2_config_native, register_values = None\<rparr>"

definition ov5648_mode_1920x1080 :: ov5648_mode where
  "ov5648_mode_1920x1080 = \<lparr>
     crop_start_x = 352, offset_x = 0, output_size_x = 1920, crop_end_x = 2271, hts = 2816,
     crop_start_y = 438, offset_y = 0, output_size_y = 1080, crop_end_y = 1517, vts = 1984,
     binning_x = False, binning_y = False,
     inc_x_odd = 1, inc_x_even = 1, inc_y_odd = 1, inc_y_even = 1,
     frame_interval = ((1, 15), (1, 15)),
     pll1_config = (ov5648_pll1_config_native_8_bits, ov5648_pll1_config_native_10_bits),
     pll2_config = ov5648_pll2_config_native, register_values = None\<rparr>"

definition ov5648_mode_1280x960 :: ov5648_mode where
  "ov5648_mode_1280x960 = \<lparr>
     crop_start_x = 16, offset_x = 8, output_size_x = 1280, crop_end_x = 2607, hts = 1912,
     crop_start_y = 6, offset_y = 6, output_size_y = 960, crop_end_y = 1949, vts = 1496,
     binning_x = True, binning_y = False,
     inc_x_odd = 3, inc_x_even = 1, inc_y_odd = 3, inc_y_even = 1,
     frame_interval = ((1, 30), (1, 30)),
     pll1_config = (ov5648_pll1_config_native_8_bits, ov5648_pll1_config_native_10_bits),
     pll2_config = ov5648_pll2_config_native, register_values = None\<rparr>"

definition ov5648_mode_1280x720 :: ov5648_mode where
  "ov5648_mode_1280x720 = \<lparr>
     crop_start_x = 16, offset_x = 8, output_size_x = 1280, crop_end_x = 2607, hts = 1912,
     crop_start_y = 254, offset_y = 2, output_size_y = 720, crop_end_y = 1701, vts = 1496,
     binning_x = True, binning_y = False,
     inc_x_odd = 3, inc_x_even = 1, inc_y_odd = 3, inc_y_even = 1,
     frame_interval = ((1, 30), (1, 30)),
     pll1_config = (ov5648_pll1_config_native_8_bits, ov5648_pll1_config_native_10_bits),
     pll2_config = ov5648_pll2_config_native, register_values = None\<rparr>"

definition ov5648_mode_640x480 :: ov5648_mode where
  "ov5648_mode_640x480 = \<lparr>
     crop_start_x = 0, offset_x = 8, output_size_x = 640, crop_end_x = 2623, hts = 1896,
     crop_start_y = 0, offset_y = 2, output_size_y = 480, crop_end_y = 1953, vts = 984,
     binning_x = True, binning_y = False,
     inc_x_odd = 7, inc_x_even = 1, inc_y_odd = 7, inc_y_even = 1,
     frame_interval = ((1, 30), (1, 30)),
     pll1_config = (ov5648_pll1_config_native_8_bits, ov5648_pll1_config_native_10_bits),
     pll2_config = ov5648_pll2_config_native, register_values = None\<rparr>"

definition ov5648_modes :: "ov5648_mode list" where
  "ov5648_modes = [
     ov5648_mode_2592x1944, ov5648_mode_1600x1200, ov5648_mode_1920x1080,
     ov5648_mode_1280x960, ov5648_mode_1280x720, ov5648_mode_640x480]"

lemmas ov5648_mode_defs =
  ov5648_mode_2592x1944_def ov5648_mode_1600x1200_def ov5648_mode_1920x1080_def
  ov5648_mode_1280x960_def ov5648_mode_1280x720_def ov5648_mode_640x480_def

definition ov5648_mbus_codes :: "u32 list" where
  "ov5648_mbus_codes = [
     MEDIA_BUS_FMT_SBGGR8_1X8, MEDIA_BUS_FMT_SGBRG8_1X8,
     MEDIA_BUS_FMT_SGRBG8_1X8, MEDIA_BUS_FMT_SRGGB8_1X8,
     MEDIA_BUS_FMT_SBGGR10_1X10, MEDIA_BUS_FMT_SGBRG10_1X10,
     MEDIA_BUS_FMT_SGRBG10_1X10, MEDIA_BUS_FMT_SRGGB10_1X10]"

definition ov5648_init_sequence :: "ov5648_register_value list" where
  "ov5648_init_sequence = [
     \<lparr>rv_address = OV5648_PSRAM_CTRL1_REG, rv_value = 0x0d, rv_delay_ms = 0\<rparr>,
     \<lparr>rv_address = OV5648_PSRAM_CTRLF_REG, rv_value = 0xf5, rv_delay_ms = 0\<rparr>]"

definition ov5648_link_freq_menu :: "u64 list" where
  "ov5648_link_freq_menu = [210000000, 168000000]"

definition ov5648_test_pattern_menu :: "string list" where
  "ov5648_test_pattern_menu = [
     ''Disabled'', ''Random data'', ''Color bars'', ''Color bars with rolling bar'',
     ''Color squares'', ''Color squares with rolling bar'']"

definition ov5648_test_pattern_bits :: "u8 list" where
  "ov5648_test_pattern_bits = [
     0,
     OV5648_ISP_CTRL3D_PATTERN_EN OR OV5648_ISP_CTRL3D_PATTERN_RANDOM_DATA,
     OV5648_ISP_CTRL3D_PATTERN_EN OR OV5648_ISP_CTRL3D_PATTERN_COLOR_BARS,
     OV5648_ISP_CTRL3D_PATTERN_EN OR OV5648_ISP_CTRL3D_ROLLING_BAR_EN OR
       OV5648_ISP_CTRL3D_PATTERN_COLOR_BARS,
     OV5648_ISP_CTRL3D_PATTERN_EN OR OV5648_ISP_CTRL3D_PATTERN_COLOR_SQUARES,
     OV5648_ISP_CTRL3D_PATTERN_EN OR OV5648_ISP_CTRL3D_ROLLING_BAR_EN OR
       OV5648_ISP_CTRL3D_PATTERN_COLOR_SQUARES]"

section \<open>Facts about the tables\<close>

text \<open>The 8-bit and the 10-bit codes, as the \<^verbatim>\<open>switch\<close> statements of the driver group them.\<close>

definition code_8bit :: "u32 \<Rightarrow> bool" where
  "code_8bit c \<longleftrightarrow>
     c = MEDIA_BUS_FMT_SBGGR8_1X8 \<or> c = MEDIA_BUS_FMT_SGBRG8_1X8 \<or>
     c = MEDIA_BUS_FMT_SGRBG8_1X8 \<or> c = MEDIA_BUS_FMT_SRGGB8_1X8"

definition code_10bit :: "u32 \<Rightarrow> bool" where
  "code_10bit c \<longleftrightarrow>
     c = MEDIA_BUS_FMT_SBGGR10_1X10 \<or> c = MEDIA_BUS_FMT_SGBRG10_1X10 \<or>
     c = MEDIA_BUS_FMT_SGRBG10_1X10 \<or> c = MEDIA_BUS_FMT_SRGGB10_1X10"

lemma code_8bit_not_10bit: "code_8bit c \<Longrightarrow> \<not> code_10bit c"
  by (auto simp: code_8bit_def code_10bit_def)

lemma mbus_codes_cases: "c \<in> set ov5648_mbus_codes \<longleftrightarrow> code_8bit c \<or> code_10bit c"
  by (auto simp: ov5648_mbus_codes_def code_8bit_def code_10bit_def)

lemma ov5648_modes_ne [simp]: "ov5648_modes \<noteq> []"
  by (simp add: ov5648_modes_def)

lemma ov5648_mode_sizes:
  "map (\<lambda>m. (output_size_x m, output_size_y m)) ov5648_modes =
     [(2592, 1944), (1600, 1200), (1920, 1080), (1280, 960), (1280, 720), (640, 480)]"
  by (simp add: ov5648_modes_def ov5648_mode_defs)

lemma ov5648_mode_sizes_distinct:
  "distinct (map (\<lambda>m. (output_size_x m, output_size_y m)) ov5648_modes)"
  by (simp add: ov5648_mode_sizes)

lemma ov5648_modes_distinct: "distinct ov5648_modes"
  using ov5648_mode_sizes_distinct by (simp add: distinct_map)

lemma ov5648_modes_all:
  "(\<forall>m \<in> set ov5648_modes. P m) \<longleftrightarrow>
     P ov5648_mode_2592x1944 \<and> P ov5648_mode_1600x1200 \<and> P ov5648_mode_1920x1080 \<and>
     P ov5648_mode_1280x960 \<and> P ov5648_mode_1280x720 \<and> P ov5648_mode_640x480"
  by (simp add: ov5648_modes_def)

text \<open>
  Every mode fits the registers: the geometry is below 2^12, the line length below 2^13, the
  frame length below 2^16, the window lies inside the crop, the increments fit four bits, and all
  modes share the native PLL settings.
\<close>

definition mode_fits :: "ov5648_mode \<Rightarrow> bool" where
  "mode_fits m \<longleftrightarrow>
     unat (crop_start_x m) < 2 ^ 12 \<and> unat (offset_x m) < 2 ^ 12 \<and>
     unat (output_size_x m) < 2 ^ 12 \<and> unat (crop_end_x m) < 2 ^ 12 \<and> unat (hts m) < 2 ^ 13 \<and>
     unat (crop_start_y m) < 2 ^ 12 \<and> unat (offset_y m) < 2 ^ 12 \<and>
     unat (output_size_y m) < 2 ^ 12 \<and> unat (crop_end_y m) < 2 ^ 12 \<and> unat (vts m) < 2 ^ 16"

lemma ov5648_modes_fit: "m \<in> set ov5648_modes \<Longrightarrow> mode_fits m"
proof -
  have "\<forall>m \<in> set ov5648_modes. mode_fits m"
    unfolding ov5648_modes_all by (simp add: mode_fits_def ov5648_mode_defs)
  then show "m \<in> set ov5648_modes \<Longrightarrow> mode_fits m" by blast
qed

lemma ov5648_modes_pll:
  "m \<in> set ov5648_modes \<Longrightarrow>
     pll1_config m = (ov5648_pll1_config_native_8_bits, ov5648_pll1_config_native_10_bits) \<and>
     pll2_config m = ov5648_pll2_config_native \<and> register_values m = None"
  by (auto simp: ov5648_modes_def ov5648_mode_defs)

end
