(* ===== verification/Ov5648_IO.thy ===== *)
theory Ov5648_IO
  imports Ov5648_Data
begin

text \<open>
  Register access of the OV5648 driver (section "Input/Output" of \<^verbatim>\<open>ov5648.c\<close>): reads, writes,
  write sequences and masked updates over the I2C core.  A read takes the old contents of the
  caller's byte and returns its new contents.

  The locale \<open>reg_port\<close> is the interface the configuration code relies on: a write returns zero
  or a negative code, touches nothing but the history, and when it returns zero the register image
  has changed in exactly the addressed byte.  It is interpreted on \<open>ov5648_write\<close> here and on the
  single-byte \<open>imx219_write_reg\<close> in \<open>Imx219_IO\<close>.
\<close>

section \<open>Operations\<close>

definition ov5648_read ::
  "kapi \<Rightarrow> u16 \<Rightarrow> u8 \<Rightarrow> 'a kstate_scheme \<Rightarrow> int \<times> u8 \<times> 'a kstate_scheme" where
  "ov5648_read k address old s =
     (let (ret, s) = i2c_master_send k [hi8 address, lo8 address] s
      in if ret < 0 then (ret, old, s)
         else let (ret, data, s) = i2c_master_recv k 1 s
              in if ret < 0 then (ret, old, s) else (0, data ! 0, s))"

definition ov5648_write :: "kapi \<Rightarrow> u16 \<Rightarrow> u8 \<Rightarrow> 'a kstate_scheme op" where
  "ov5648_write k address v s =
     (let (ret, s) = i2c_master_send k [hi8 address, lo8 address, v] s
      in if ret < 0 then (ret, s) else (0, s))"

fun ov5648_write_sequence :: "kapi \<Rightarrow> ov5648_register_value list \<Rightarrow> 'a kstate_scheme op" where
  "ov5648_write_sequence k [] s = (0, s)"
| "ov5648_write_sequence k (rv # rvs) s =
     (let (ret, s) = ov5648_write k (rv_address rv) (rv_value rv) s
      in if ret \<noteq> 0 then (ret, s)
         else ov5648_write_sequence k rvs
                (if rv_delay_ms rv \<noteq> 0 then emit (Msleep (rv_delay_ms rv)) s else s))"

definition ov5648_update_bits :: "kapi \<Rightarrow> u16 \<Rightarrow> u8 \<Rightarrow> u8 \<Rightarrow> 'a kstate_scheme op" where
  "ov5648_update_bits k address msk bits s =
     (let (ret, v, s) = ov5648_read k address 0 s
      in if ret \<noteq> 0 then (ret, s)
         else let (ret, s) = ov5648_write k address ((v AND NOT msk) OR bits) s
              in if ret \<noteq> 0 then (ret, s) else (0, s))"

section \<open>The interface of a register port\<close>

locale reg_port =
  fixes wr :: "u16 \<Rightarrow> u8 \<Rightarrow> 'a kstate_scheme op"
  assumes wr_ret: "fst (wr a v s) \<le> 0"
    and wr_emits: "emits bus_event s (snd (wr a v s))"
    and wr_image: "fst (wr a v s) = 0 \<Longrightarrow> bus_image (hist (snd (wr a v s))) = (bus_image (hist s))(a \<mapsto> v)"
begin

text \<open>A table written entry by entry, stopping at the first failure.\<close>

definition table_steps :: "(u16 \<times> u8) list \<Rightarrow> 'a kstate_scheme op list" where
  "table_steps tab = map (\<lambda>(a, v). wr a v) tab"

lemma table_ret: "fst (run_steps (table_steps tab) s) \<le> 0"
  by (rule run_steps_ret [where P = "\<lambda>r. r \<le> 0"]) (auto simp: table_steps_def wr_ret)

lemma table_emits: "emits bus_event s (snd (run_steps (table_steps tab) s))"
  by (rule emits_run_steps) (auto simp: table_steps_def wr_emits)

lemma table_image:
  "run_steps (table_steps tab) s = (0, s') \<Longrightarrow> bus_image (hist s') = (bus_image (hist s))(map fst tab [\<mapsto>] map snd tab)"
proof (induction tab arbitrary: s)
  case Nil
  then show ?case by (simp add: table_steps_def)
next
  case (Cons av tab)
  obtain a v where av: "av = (a, v)" by (cases av)
  with Cons.prems obtain s1 where s1: "wr a v s = (0, s1)"
    and rest: "run_steps (table_steps tab) s1 = (0, s')"
    by (auto simp: table_steps_def run_steps_Cons_0)
  have "bus_image (hist s1) = (bus_image (hist s))(a \<mapsto> v)"
    using wr_image [of a v s] s1 by simp
  with Cons.IH [OF rest] show ?case
    by (simp only: av list.map fst_conv snd_conv map_upds_Cons)
qed

end

section \<open>Executing the operations\<close>

lemma ov5648_write_eq [kernel_simps]:
  "ov5648_write k a v s =
     (let ret = i2c_send_ret k (hist s) [hi8 a, lo8 a, v]
      in (min ret 0, emit (I2cSend [hi8 a, lo8 a, v] ret) s))"
  by (simp add: ov5648_write_def i2c_master_send_def Let_def)

lemma ov5648_write_emits [emits_rules]: "emits bus_event s (snd (ov5648_write k a v s))"
  by (simp add: kernel_simps Let_def emits_emit)

lemma ov5648_write_0:
  "ov5648_write k a v s = (0, s') \<longleftrightarrow>
     0 \<le> i2c_send_ret k (hist s) [hi8 a, lo8 a, v] \<and>
     s' = emit (I2cSend [hi8 a, lo8 a, v] (i2c_send_ret k (hist s) [hi8 a, lo8 a, v])) s"
  by (auto simp: kernel_simps Let_def min_def)

interpretation ov5648_port: reg_port "ov5648_write k" for k
  by unfold_locales (auto simp: kernel_simps Let_def min_def emits_emit split: if_splits)

lemmas ov5648_write_ret [ret_rules] = ov5648_port.wr_ret

lemma ov5648_write_image:
  "ov5648_write k a v s = (0, s') \<Longrightarrow> bus_image (hist s') = (bus_image (hist s))(a \<mapsto> v)"
  using ov5648_port.wr_image [of k a v s] by simp

lemma ov5648_read_eq [kernel_simps]:
  "ov5648_read k a old s =
     (let r1 = i2c_send_ret k (hist s) [hi8 a, lo8 a];
          s1 = emit (I2cSend [hi8 a, lo8 a] r1) s;
          r2 = i2c_recv_ret k (hist s1) 1;
          v = i2c_recv_data k (hist s1) 1 0
      in if r1 < 0 then (r1, old, s1)
         else if r2 < 0 then (r2, old, emit (I2cRecv [v] r2) s1)
         else (0, v, emit (I2cRecv [v] r2) s1))"
  by (simp add: ov5648_read_def i2c_master_send_def i2c_master_recv_def Let_def)

lemma ov5648_read_emits [emits_rules]: "emits bus_event s (snd (snd (ov5648_read k a old s)))"
  by (auto simp: ov5648_read_eq Let_def intro!: emits_emit intro: emits_trans [OF emits_emit emits_emit])

lemma ov5648_read_ret [ret_rules]: "fst (ov5648_read k a old s) \<le> 0"
  by (simp add: ov5648_read_eq Let_def)

lemma ov5648_read_image [simp]:
  "ov5648_read k a old s = (r, v, s') \<Longrightarrow> bus_image (hist s') = bus_image (hist s)"
  by (auto simp: ov5648_read_eq Let_def split: if_splits)

lemma ov5648_read_value:
  assumes "ov5648_read k a old s = (0, v, s')" and "regfile_recv k dflt"
  shows "v = reg_value dflt (hist s) a"
  using assms by (auto simp: ov5648_read_eq Let_def regfile_recv_def split: if_splits)

lemma ov5648_update_bits_eq:
  "ov5648_update_bits k a m b s =
     (let (ret, v, s1) = ov5648_read k a 0 s
      in if ret \<noteq> 0 then (ret, s1) else ov5648_write k a ((v AND NOT m) OR b) s1)"
  by (auto simp: ov5648_update_bits_def Let_def split: prod.splits)

lemma ov5648_update_bits_emits [emits_rules]:
  "emits bus_event s (snd (ov5648_update_bits k a m b s))"
  using ov5648_read_emits [of s k a 0]
  by (auto simp: ov5648_update_bits_eq split: prod.splits
      intro: emits_trans [OF _ ov5648_write_emits])

lemma ov5648_update_bits_ret [ret_rules]: "fst (ov5648_update_bits k a m b s) \<le> 0"
  using ov5648_read_ret [of k a 0 s]
  by (auto simp: ov5648_update_bits_eq ov5648_port.wr_ret split: prod.splits)

lemma ov5648_update_bits_image:
  assumes "ov5648_update_bits k a m b s = (0, s')"
  obtains v where "bus_image (hist s') = (bus_image (hist s))(a \<mapsto> (v AND NOT m) OR b)"
    and "\<And>dflt. regfile_recv k dflt \<Longrightarrow> v = reg_value dflt (hist s) a"
proof -
  obtain r v s1 where rd: "ov5648_read k a 0 s = (r, v, s1)"
    by (cases "ov5648_read k a 0 s")
  with assms have r: "r = 0" and wr: "ov5648_write k a ((v AND NOT m) OR b) s1 = (0, s')"
    by (auto simp: ov5648_update_bits_eq split: if_splits)
  show ?thesis
  proof (rule that)
    show "bus_image (hist s') = (bus_image (hist s))(a \<mapsto> (v AND NOT m) OR b)"
      using ov5648_write_image [OF wr] rd by simp
    show "v = reg_value dflt (hist s) a" if "regfile_recv k dflt" for dflt
      using ov5648_read_value [of k a 0 s v s1 dflt] rd r that by simp
  qed
qed

lemma ov5648_write_sequence_emits [emits_rules]:
  "emits bus_event s (snd (ov5648_write_sequence k rvs s))"
proof (induction rvs arbitrary: s)
  case Nil
  then show ?case by simp
next
  case (Cons rv rvs)
  obtain r s1 where w: "ov5648_write k (rv_address rv) (rv_value rv) s = (r, s1)"
    by (cases "ov5648_write k (rv_address rv) (rv_value rv) s")
  have 1: "emits bus_event s s1"
    using ov5648_write_emits [of s k "rv_address rv" "rv_value rv"] w by simp
  have 2: "emits bus_event s1 (if rv_delay_ms rv \<noteq> 0 then emit (Msleep (rv_delay_ms rv)) s1 else s1)"
    by (simp add: emits_emit)
  show ?case
    using w 1 emits_trans [OF 1 emits_trans [OF 2 Cons.IH]] by simp
qed

lemma ov5648_write_sequence_ret [ret_rules]: "fst (ov5648_write_sequence k rvs s) \<le> 0"
proof (induction rvs arbitrary: s)
  case Nil
  then show ?case by simp
next
  case (Cons rv rvs)
  obtain r s1 where "ov5648_write k (rv_address rv) (rv_value rv) s = (r, s1)"
    by (cases "ov5648_write k (rv_address rv) (rv_value rv) s")
  moreover from this have "r \<le> 0"
    using ov5648_port.wr_ret [of k "rv_address rv" "rv_value rv" s] by simp
  ultimately show ?case
    by (simp add: Cons.IH)
qed

lemma ov5648_write_sequence_image:
  "ov5648_write_sequence k rvs s = (0, s') \<Longrightarrow>
     bus_image (hist s') = (bus_image (hist s))(map rv_address rvs [\<mapsto>] map rv_value rvs)"
proof (induction rvs arbitrary: s)
  case Nil
  then show ?case by simp
next
  case (Cons rv rvs)
  then obtain s1 where w: "ov5648_write k (rv_address rv) (rv_value rv) s = (0, s1)"
    and rest: "ov5648_write_sequence k rvs
      (if rv_delay_ms rv \<noteq> 0 then emit (Msleep (rv_delay_ms rv)) s1 else s1) = (0, s')"
    by (auto simp: Let_def split: prod.splits if_splits)
  have "bus_image (hist (if rv_delay_ms rv \<noteq> 0 then emit (Msleep (rv_delay_ms rv)) s1 else s1)) =
      bus_image (hist s1)"
    by simp
  then show ?case
    using Cons.IH [OF rest] ov5648_write_image [OF w]
    by (simp only: list.map map_upds_Cons)
qed

section \<open>No error without a bus error\<close>

lemma ov5648_write_ok [ok_rules]: "bus_ok k \<Longrightarrow> fst (ov5648_write k a v s) = 0"
  by (simp add: kernel_simps Let_def bus_ok_def)

lemma ov5648_read_ok [ok_rules]: "bus_ok k \<Longrightarrow> fst (ov5648_read k a old s) = 0"
  by (simp add: ov5648_read_eq Let_def bus_ok_def)

lemma ov5648_update_bits_ok [ok_rules]: "bus_ok k \<Longrightarrow> fst (ov5648_update_bits k a m b s) = 0"
  using ov5648_read_ok [of k a 0 s]
  by (auto simp: ov5648_update_bits_eq ov5648_write_ok split: prod.splits)

lemma ov5648_write_sequence_ok [ok_rules]:
  "bus_ok k \<Longrightarrow> fst (ov5648_write_sequence k rvs s) = 0"
proof (induction rvs arbitrary: s)
  case Nil
  then show ?case by simp
next
  case (Cons rv rvs)
  obtain s1 where "ov5648_write k (rv_address rv) (rv_value rv) s = (0, s1)"
    using ok_pair [OF ov5648_write_ok [OF Cons.prems]] by blast
  with Cons show ?case by simp
qed

end
