(* ===== verification/Ov5648_Sensor.thy ===== *)
theory Ov5648_Sensor
  imports Ov5648_IO
begin

text \<open>
  The sensor configuration of the OV5648 driver (section "Sensor" of \<^verbatim>\<open>ov5648.c\<close>): reset and
  standby, chip identification, pads, MIPI, black level, ISP, PLLs and the mode registers, and the
  clock rates computed from a mode.  \<^verbatim>\<open>unsigned long\<close> is 64 bits wide (arm64).

  The lemmas at the end decode the register image: after a successful \<open>ov5648_mode_configure\<close> the
  timing registers hold the fields of the mode and the PLL registers its dividers.
\<close>

section \<open>Operations\<close>

definition ov5648_sw_reset :: "kapi \<Rightarrow> ov5648 op" where
  "ov5648_sw_reset k = ov5648_write k OV5648_SW_RESET_REG OV5648_SW_RESET_RESET"

definition ov5648_sw_standby :: "kapi \<Rightarrow> bool \<Rightarrow> ov5648 op" where
  "ov5648_sw_standby k standby =
     ov5648_write k OV5648_SW_STANDBY_REG (if \<not> standby then OV5648_SW_STANDBY_STREAM_ON else 0)"

fun ov5648_check_ids :: "kapi \<Rightarrow> (u16 \<times> u8) list \<Rightarrow> ov5648 op" where
  "ov5648_check_ids k [] s = (0, s)"
| "ov5648_check_ids k ((reg, expected) # rest) s =
     (let (ret, v, s) = ov5648_read k reg 0 s
      in if ret < 0 then (ret, s)
         else if v \<noteq> expected then (- EINVAL, s)
         else ov5648_check_ids k rest s)"

definition ov5648_chip_id_check :: "kapi \<Rightarrow> ov5648 op" where
  "ov5648_chip_id_check k =
     ov5648_check_ids k [(OV5648_CHIP_ID_H_REG, OV5648_CHIP_ID_H_VALUE),
                         (OV5648_CHIP_ID_L_REG, OV5648_CHIP_ID_L_VALUE)]"

definition ov5648_avdd_internal_power :: "kapi \<Rightarrow> bool \<Rightarrow> ov5648 op" where
  "ov5648_avdd_internal_power k on =
     ov5648_write k OV5648_A_PWC_PK_O0_REG (if on then 0 else OV5648_A_PWC_PK_O0_BP_REGULATOR_N)"

definition ov5648_pad_configure :: "kapi \<Rightarrow> ov5648 op" where
  "ov5648_pad_configure k = run_steps [
     ov5648_write k OV5648_PAD_OEN1_REG 0,
     ov5648_write k OV5648_PAD_OEN2_REG 0,
     ov5648_write k OV5648_PAD_PK_REG (OV5648_PAD_PK_DRIVE_STRENGTH_1X OR OV5648_PAD_PK_FREX_N)]"

definition ov5648_mipi_configure :: "kapi \<Rightarrow> ov5648 op" where
  "ov5648_mipi_configure k s =
     (let lanes_count = num_data_lanes s
      in run_steps [
           ov5648_write k OV5648_MIPI_CTRL0_REG
             (OV5648_MIPI_CTRL0_CLK_LANE_AUTOGATE OR OV5648_MIPI_CTRL0_LANE_SELECT_LANE1 OR
              OV5648_MIPI_CTRL0_IDLE_LP11),
           ov5648_write k OV5648_MIPI_SC_CTRL0_REG
             (OV5648_MIPI_SC_CTRL0_MIPI_LANES lanes_count OR OV5648_MIPI_SC_CTRL0_PHY_LP_RX_PD OR
              OV5648_MIPI_SC_CTRL0_MIPI_EN)] s)"

definition ov5648_black_level_configure :: "kapi \<Rightarrow> ov5648 op" where
  "ov5648_black_level_configure k = run_steps [
     ov5648_write k OV5648_BLC_CTRL1_REG (OV5648_BLC_CTRL1_START_LINE 2),
     ov5648_write k OV5648_BLC_CTRL2_REG
       (OV5648_BLC_CTRL2_AUTO_EN OR OV5648_BLC_CTRL2_RESET_FRAME_NUM 5),
     ov5648_write k OV5648_BLC_LINE_NUM_REG (OV5648_BLC_LINE_NUM 4),
     ov5648_update_bits k OV5648_BLC_CTRL5_REG OV5648_BLC_CTRL5_UPDATE_EN
       OV5648_BLC_CTRL5_UPDATE_EN]"

definition ov5648_isp_configure :: "kapi \<Rightarrow> ov5648 op" where
  "ov5648_isp_configure k =
     (let bits = OV5648_ISP_CTRL0_BLACK_CORRECT_EN OR OV5648_ISP_CTRL0_WHITE_CORRECT_EN
      in run_steps [
           ov5648_update_bits k OV5648_ISP_CTRL0_REG bits bits,
           ov5648_write k OV5648_ISP_CTRL1_REG OV5648_ISP_CTRL1_AWB_EN,
           ov5648_write k OV5648_ISP_CTRL2_REG
             (OV5648_ISP_CTRL2_WIN_EN OR OV5648_ISP_CTRL2_AWB_GAIN_EN),
           ov5648_write k OV5648_ISP_CTRL3_REG
             (OV5648_ISP_CTRL3_BUF_EN OR OV5648_ISP_CTRL3_BIN_AUTO_EN),
           ov5648_write k OV5648_ISP_CTRL4_REG 0,
           ov5648_write k OV5648_ISP_CTRL1F_REG OV5648_ISP_CTRL1F_OUTPUT_EN,
           ov5648_write k OV5648_ISP_CTRL4B_REG
             (OV5648_ISP_CTRL4B_POST_BIN_H_EN OR OV5648_ISP_CTRL4B_POST_BIN_V_EN),
           ov5648_write k OV5648_AEC_CTRL0_REG
             (OV5648_AEC_CTRL0_DEBUG OR OV5648_AEC_CTRL0_START_SEL_EN),
           ov5648_write k OV5648_MANUAL_CTRL_REG (OV5648_MANUAL_CTRL_FRAME_DELAY 1)])"

definition ov5648_mode_pll1_rate :: "kapi \<Rightarrow> ov5648_pll1_config \<Rightarrow> ov5648 \<Rightarrow> u64" where
  "ov5648_mode_pll1_rate k config s =
     (let xvclk_rate = clk_rate k (hist s);
          pll1_rate = xvclk_rate * ucast (pll_mul config)
      in if pll_pre_div config = 5 then (pll1_rate * 3) div 2
         else if pll_pre_div config = 7 then (pll1_rate * 5) div 2
         else pll1_rate div ucast (pll_pre_div config))"

definition ov5648_mode_pll1_configure :: "kapi \<Rightarrow> ov5648_mode \<Rightarrow> u32 \<Rightarrow> ov5648 op" where
  "ov5648_mode_pll1_configure k m code s =
     (let v = OV5648_PLL_CTRL0_PLL_CHARGE_PUMP 1;
          choice =
            (if code_8bit code then Some (fst (pll1_config m), v OR OV5648_PLL_CTRL0_BITS 8)
             else if code_10bit code then Some (snd (pll1_config m), v OR OV5648_PLL_CTRL0_BITS 10)
             else None)
      in case choice of
           None \<Rightarrow> (- EINVAL, s)
         | Some (config, v) \<Rightarrow> run_steps [
             ov5648_write k OV5648_PLL_CTRL0_REG v,
             ov5648_write k OV5648_PLL_DIV_REG
               (OV5648_PLL_DIV_ROOT_DIV (root_div config) OR
                OV5648_PLL_DIV_PLL_PRE_DIV (pll_pre_div config)),
             ov5648_write k OV5648_PLL_MUL_REG (OV5648_PLL_MUL (pll_mul config)),
             ov5648_write k OV5648_PLL_CTRL1_REG
               (OV5648_PLL_CTRL1_SYS_DIV (pll1_sys_div config) OR
                OV5648_PLL_CTRL1_MIPI_DIV (mipi_div config)),
             ov5648_write k OV5648_SRB_CTRL_REG
               (OV5648_SRB_CTRL_SCLK_DIV (sclk_div config) OR OV5648_SRB_CTRL_SCLK_ARBITER_EN)] s)"

definition ov5648_mode_pll2_configure :: "kapi \<Rightarrow> ov5648_mode \<Rightarrow> ov5648 op" where
  "ov5648_mode_pll2_configure k m =
     (let config = pll2_config m
      in run_steps [
           ov5648_write k OV5648_PLLS_DIV_REG
             (OV5648_PLLS_DIV_PLLS_PRE_DIV (plls_pre_div config) OR
              OV5648_PLLS_DIV_PLLS_DIV_R (plls_div_r config) OR
              OV5648_PLLS_DIV_PLLS_SEL_DIV (sel_div config)),
           ov5648_write k OV5648_PLLS_MUL_REG (OV5648_PLLS_MUL (plls_mul config)),
           ov5648_write k OV5648_PLLS_CTRL_REG
             (OV5648_PLLS_CTRL_PLL_CHARGE_PUMP 1 OR
              OV5648_PLLS_CTRL_SYS_DIV (pll2_sys_div config))])"

text \<open>The ten 16-bit timing fields, each a high and a low register.\<close>

definition ov5648_mode_geometry :: "kapi \<Rightarrow> ov5648_mode \<Rightarrow> ov5648 op list" where
  "ov5648_mode_geometry k m = [
     ov5648_write k OV5648_CROP_START_X_H_REG (OV5648_CROP_START_X_H (crop_start_x m)),
     ov5648_write k OV5648_CROP_START_X_L_REG (OV5648_CROP_START_X_L (crop_start_x m)),
     ov5648_write k OV5648_OFFSET_X_H_REG (OV5648_OFFSET_X_H (offset_x m)),
     ov5648_write k OV5648_OFFSET_X_L_REG (OV5648_OFFSET_X_L (offset_x m)),
     ov5648_write k OV5648_OUTPUT_SIZE_X_H_REG (OV5648_OUTPUT_SIZE_X_H (output_size_x m)),
     ov5648_write k OV5648_OUTPUT_SIZE_X_L_REG (OV5648_OUTPUT_SIZE_X_L (output_size_x m)),
     ov5648_write k OV5648_CROP_END_X_H_REG (OV5648_CROP_END_X_H (crop_end_x m)),
     ov5648_write k OV5648_CROP_END_X_L_REG (OV5648_CROP_END_X_L (crop_end_x m)),
     ov5648_write k OV5648_HTS_H_REG (OV5648_HTS_H (hts m)),
     ov5648_write k OV5648_HTS_L_REG (OV5648_HTS_L (hts m)),
     ov5648_write k OV5648_CROP_START_Y_H_REG (OV5648_CROP_START_Y_H (crop_start_y m)),
     ov5648_write k OV5648_CROP_START_Y_L_REG (OV5648_CROP_START_Y_L (crop_start_y m)),
     ov5648_write k OV5648_OFFSET_Y_H_REG (OV5648_OFFSET_Y_H (offset_y m)),
     ov5648_write k OV5648_OFFSET_Y_L_REG (OV5648_OFFSET_Y_L (offset_y m)),
     ov5648_write k OV5648_OUTPUT_SIZE_Y_H_REG (OV5648_OUTPUT_SIZE_Y_H (output_size_y m)),
     ov5648_write k OV5648_OUTPUT_SIZE_Y_L_REG (OV5648_OUTPUT_SIZE_Y_L (output_size_y m)),
     ov5648_write k OV5648_CROP_END_Y_H_REG (OV5648_CROP_END_Y_H (crop_end_y m)),
     ov5648_write k OV5648_CROP_END_Y_L_REG (OV5648_CROP_END_Y_L (crop_end_y m)),
     ov5648_write k OV5648_VTS_H_REG (OV5648_VTS_H (vts m)),
     ov5648_write k OV5648_VTS_L_REG (OV5648_VTS_L (vts m))]"

definition ov5648_mode_configure :: "kapi \<Rightarrow> ov5648_mode \<Rightarrow> u32 \<Rightarrow> ov5648 op" where
  "ov5648_mode_configure k m code = run_steps (ov5648_mode_geometry k m @ [
     ov5648_update_bits k OV5648_TC20_REG (OV5648_TC20_DEBUG OR OV5648_TC20_BINNING_VERT_EN)
       (if binning_y m then OV5648_TC20_BINNING_VERT_EN else 0),
     ov5648_update_bits k OV5648_TC21_REG OV5648_TC21_BINNING_HORZ_EN
       (if binning_x m then OV5648_TC21_BINNING_HORZ_EN else 0),
     ov5648_write k OV5648_SUB_INC_X_REG
       (OV5648_SUB_INC_X_ODD (inc_x_odd m) OR OV5648_SUB_INC_X_EVEN (inc_x_even m)),
     ov5648_write k OV5648_SUB_INC_Y_REG
       (OV5648_SUB_INC_Y_ODD (inc_y_odd m) OR OV5648_SUB_INC_Y_EVEN (inc_y_even m)),
     ov5648_mode_pll1_configure k m code,
     ov5648_mode_pll2_configure k m,
     (case register_values m of
        None \<Rightarrow> (\<lambda>s. (0, s))
      | Some rvs \<Rightarrow> ov5648_write_sequence k rvs)])"

definition ov5648_mode_mipi_clk_rate :: "kapi \<Rightarrow> ov5648_mode \<Rightarrow> u32 \<Rightarrow> ov5648 \<Rightarrow> u64" where
  "ov5648_mode_mipi_clk_rate k m code s =
     (let choice =
            (if code_8bit code then Some (fst (pll1_config m))
             else if code_10bit code then Some (snd (pll1_config m))
             else None)
      in case choice of
           None \<Rightarrow> 0
         | Some config \<Rightarrow>
             ov5648_mode_pll1_rate k config s
               div ucast (pll1_sys_div config) div ucast (mipi_div config) div 2)"

section \<open>What the configuration emits and returns\<close>

lemma ov5648_check_ids_emits [emits_rules]: "emits bus_event s (snd (ov5648_check_ids k ids s))"
proof (induction k ids s rule: ov5648_check_ids.induct)
  case (1 k s)
  then show ?case by simp
next
  case (2 k reg x rest s)
  obtain r v s1 where rd: "ov5648_read k reg 0 s = (r, v, s1)"
    by (cases "ov5648_read k reg 0 s")
  then have "emits bus_event s s1"
    using ov5648_read_emits [of s k reg 0] by simp
  with rd "2.IH" [OF rd [symmetric] refl] show ?case
    by (auto intro: emits_trans)
qed

lemma ov5648_check_ids_ret [ret_rules]: "fst (ov5648_check_ids k ids s) \<le> 0"
proof (induction k ids s rule: ov5648_check_ids.induct)
  case (1 k s)
  then show ?case by simp
next
  case (2 k reg x rest s)
  then show ?case by (auto split: prod.splits)
qed

declare ov5648_check_ids.simps(2) [simp del]

lemmas sensor_op_defs =
  ov5648_sw_reset_def ov5648_sw_standby_def ov5648_chip_id_check_def
  ov5648_avdd_internal_power_def ov5648_pad_configure_def ov5648_mipi_configure_def
  ov5648_black_level_configure_def ov5648_isp_configure_def ov5648_mode_pll1_configure_def
  ov5648_mode_pll2_configure_def

lemma sensor_ops_emits [emits_rules]:
  "emits bus_event s (snd (ov5648_sw_reset k s))"
  "emits bus_event s (snd (ov5648_sw_standby k b s))"
  "emits bus_event s (snd (ov5648_chip_id_check k s))"
  "emits bus_event s (snd (ov5648_avdd_internal_power k b s))"
  "emits bus_event s (snd (ov5648_pad_configure k s))"
  "emits bus_event s (snd (ov5648_mipi_configure k s))"
  "emits bus_event s (snd (ov5648_black_level_configure k s))"
  "emits bus_event s (snd (ov5648_isp_configure k s))"
  "emits bus_event s (snd (ov5648_mode_pll1_configure k m code s))"
  "emits bus_event s (snd (ov5648_mode_pll2_configure k m s))"
  by (auto simp: sensor_op_defs Let_def split: option.splits
      intro!: emits_run_steps emits_rules)

lemma sensor_ops_ret [ret_rules]:
  "fst (ov5648_sw_reset k s) \<le> 0"
  "fst (ov5648_sw_standby k b s) \<le> 0"
  "fst (ov5648_chip_id_check k s) \<le> 0"
  "fst (ov5648_avdd_internal_power k b s) \<le> 0"
  "fst (ov5648_pad_configure k s) \<le> 0"
  "fst (ov5648_mipi_configure k s) \<le> 0"
  "fst (ov5648_black_level_configure k s) \<le> 0"
  "fst (ov5648_isp_configure k s) \<le> 0"
  "fst (ov5648_mode_pll1_configure k m code s) \<le> 0"
  "fst (ov5648_mode_pll2_configure k m s) \<le> 0"
  by (auto simp: sensor_op_defs Let_def split: option.splits
      intro!: run_steps_nonpos ret_rules)

lemma ov5648_mode_configure_emits [emits_rules]:
  "emits bus_event s (snd (ov5648_mode_configure k m code s))"
  unfolding ov5648_mode_configure_def
  by (rule emits_run_steps)
    (auto simp: ov5648_mode_geometry_def split: option.splits intro!: emits_rules)

lemma ov5648_mode_configure_ret [ret_rules]: "fst (ov5648_mode_configure k m code s) \<le> 0"
  unfolding ov5648_mode_configure_def
  by (rule run_steps_nonpos)
    (auto simp: ov5648_mode_geometry_def split: option.splits intro!: ret_rules)

section \<open>Decoding the register image\<close>

text \<open>The value of a pair of registers, high byte first.\<close>

definition reg_pair :: "(u16 \<rightharpoonup> u8) \<Rightarrow> u16 \<Rightarrow> u16 \<Rightarrow> u32 option" where
  "reg_pair img h l =
     (case (img h, img l) of (Some x, Some y) \<Rightarrow> Some (join_hl x y) | _ \<Rightarrow> None)"

lemma reg_pair_Some [simp]: "img h = Some x \<Longrightarrow> img l = Some y \<Longrightarrow> reg_pair img h l = Some (join_hl x y)"
  by (simp add: reg_pair_def)

definition geometry_table :: "ov5648_mode \<Rightarrow> (u16 \<times> u8) list" where
  "geometry_table m = [
     (OV5648_CROP_START_X_H_REG, OV5648_CROP_START_X_H (crop_start_x m)),
     (OV5648_CROP_START_X_L_REG, OV5648_CROP_START_X_L (crop_start_x m)),
     (OV5648_OFFSET_X_H_REG, OV5648_OFFSET_X_H (offset_x m)),
     (OV5648_OFFSET_X_L_REG, OV5648_OFFSET_X_L (offset_x m)),
     (OV5648_OUTPUT_SIZE_X_H_REG, OV5648_OUTPUT_SIZE_X_H (output_size_x m)),
     (OV5648_OUTPUT_SIZE_X_L_REG, OV5648_OUTPUT_SIZE_X_L (output_size_x m)),
     (OV5648_CROP_END_X_H_REG, OV5648_CROP_END_X_H (crop_end_x m)),
     (OV5648_CROP_END_X_L_REG, OV5648_CROP_END_X_L (crop_end_x m)),
     (OV5648_HTS_H_REG, OV5648_HTS_H (hts m)),
     (OV5648_HTS_L_REG, OV5648_HTS_L (hts m)),
     (OV5648_CROP_START_Y_H_REG, OV5648_CROP_START_Y_H (crop_start_y m)),
     (OV5648_CROP_START_Y_L_REG, OV5648_CROP_START_Y_L (crop_start_y m)),
     (OV5648_OFFSET_Y_H_REG, OV5648_OFFSET_Y_H (offset_y m)),
     (OV5648_OFFSET_Y_L_REG, OV5648_OFFSET_Y_L (offset_y m)),
     (OV5648_OUTPUT_SIZE_Y_H_REG, OV5648_OUTPUT_SIZE_Y_H (output_size_y m)),
     (OV5648_OUTPUT_SIZE_Y_L_REG, OV5648_OUTPUT_SIZE_Y_L (output_size_y m)),
     (OV5648_CROP_END_Y_H_REG, OV5648_CROP_END_Y_H (crop_end_y m)),
     (OV5648_CROP_END_Y_L_REG, OV5648_CROP_END_Y_L (crop_end_y m)),
     (OV5648_VTS_H_REG, OV5648_VTS_H (vts m)),
     (OV5648_VTS_L_REG, OV5648_VTS_L (vts m))]"

lemma mode_geometry_table: "ov5648_mode_geometry k m = ov5648_port.table_steps k (geometry_table m)"
  by (simp add: ov5648_mode_geometry_def ov5648_port.table_steps_def geometry_table_def)

definition pll1_table :: "ov5648_pll1_config \<Rightarrow> u32 \<Rightarrow> (u16 \<times> u8) list" where
  "pll1_table config bits = [
     (OV5648_PLL_CTRL0_REG, OV5648_PLL_CTRL0_PLL_CHARGE_PUMP 1 OR OV5648_PLL_CTRL0_BITS bits),
     (OV5648_PLL_DIV_REG,
      OV5648_PLL_DIV_ROOT_DIV (root_div config) OR OV5648_PLL_DIV_PLL_PRE_DIV (pll_pre_div config)),
     (OV5648_PLL_MUL_REG, OV5648_PLL_MUL (pll_mul config)),
     (OV5648_PLL_CTRL1_REG,
      OV5648_PLL_CTRL1_SYS_DIV (pll1_sys_div config) OR OV5648_PLL_CTRL1_MIPI_DIV (mipi_div config)),
     (OV5648_SRB_CTRL_REG,
      OV5648_SRB_CTRL_SCLK_DIV (sclk_div config) OR OV5648_SRB_CTRL_SCLK_ARBITER_EN)]"

definition pll1_of :: "ov5648_mode \<Rightarrow> u32 \<Rightarrow> ov5648_pll1_config" where
  "pll1_of m code = (if code_8bit code then fst (pll1_config m) else snd (pll1_config m))"

definition code_bits :: "u32 \<Rightarrow> u32" where
  "code_bits code = (if code_8bit code then 8 else 10)"

lemma pll1_configure_table:
  assumes "code \<in> set ov5648_mbus_codes"
  shows "ov5648_mode_pll1_configure k m code =
    run_steps (ov5648_port.table_steps k (pll1_table (pll1_of m code) (code_bits code)))"
  using assms unfolding mbus_codes_cases
  by (intro ext) (auto simp: ov5648_mode_pll1_configure_def ov5648_port.table_steps_def
      pll1_table_def pll1_of_def code_bits_def dest: code_8bit_not_10bit)

definition pll2_table :: "ov5648_pll2_config \<Rightarrow> (u16 \<times> u8) list" where
  "pll2_table config = [
     (OV5648_PLLS_DIV_REG,
      OV5648_PLLS_DIV_PLLS_PRE_DIV (plls_pre_div config) OR
      OV5648_PLLS_DIV_PLLS_DIV_R (plls_div_r config) OR
      OV5648_PLLS_DIV_PLLS_SEL_DIV (sel_div config)),
     (OV5648_PLLS_MUL_REG, OV5648_PLLS_MUL (plls_mul config)),
     (OV5648_PLLS_CTRL_REG,
      OV5648_PLLS_CTRL_PLL_CHARGE_PUMP 1 OR OV5648_PLLS_CTRL_SYS_DIV (pll2_sys_div config))]"

lemma pll2_configure_table:
  "ov5648_mode_pll2_configure k m =
     run_steps (ov5648_port.table_steps k (pll2_table (pll2_config m)))"
  by (simp add: ov5648_mode_pll2_configure_def ov5648_port.table_steps_def pll2_table_def Let_def)

text \<open>
  The image after a successful mode configuration, as updates of the image before: the timing
  fields, the binning bits over the values read back, the increments and the PLLs.
\<close>

lemma mode_configure_image:
  assumes ok: "ov5648_mode_configure k m code s = (0, s')"
    and code: "code \<in> set ov5648_mbus_codes" and rv: "register_values m = None"
  obtains v20 v21 where
    "bus_image (hist s') =
       ((bus_image (hist s))(map fst (geometry_table m) [\<mapsto>] map snd (geometry_table m)))
        (OV5648_TC20_REG \<mapsto>
           (v20 AND NOT (OV5648_TC20_DEBUG OR OV5648_TC20_BINNING_VERT_EN)) OR
           (if binning_y m then OV5648_TC20_BINNING_VERT_EN else 0),
         OV5648_TC21_REG \<mapsto>
           (v21 AND NOT OV5648_TC21_BINNING_HORZ_EN) OR
           (if binning_x m then OV5648_TC21_BINNING_HORZ_EN else 0),
         OV5648_SUB_INC_X_REG \<mapsto>
           OV5648_SUB_INC_X_ODD (inc_x_odd m) OR OV5648_SUB_INC_X_EVEN (inc_x_even m),
         OV5648_SUB_INC_Y_REG \<mapsto>
           OV5648_SUB_INC_Y_ODD (inc_y_odd m) OR OV5648_SUB_INC_Y_EVEN (inc_y_even m),
         map fst (pll1_table (pll1_of m code) (code_bits code)) [\<mapsto>]
           map snd (pll1_table (pll1_of m code) (code_bits code)),
         map fst (pll2_table (pll2_config m)) [\<mapsto>] map snd (pll2_table (pll2_config m)))"
proof -
  from ok rv obtain s1 s2 s3 s4 s5 s6 where
    1: "run_steps (ov5648_mode_geometry k m) s = (0, s1)"
    and 2: "ov5648_update_bits k OV5648_TC20_REG (OV5648_TC20_DEBUG OR OV5648_TC20_BINNING_VERT_EN)
       (if binning_y m then OV5648_TC20_BINNING_VERT_EN else 0) s1 = (0, s2)"
    and 3: "ov5648_update_bits k OV5648_TC21_REG OV5648_TC21_BINNING_HORZ_EN
       (if binning_x m then OV5648_TC21_BINNING_HORZ_EN else 0) s2 = (0, s3)"
    and 4: "ov5648_write k OV5648_SUB_INC_X_REG
       (OV5648_SUB_INC_X_ODD (inc_x_odd m) OR OV5648_SUB_INC_X_EVEN (inc_x_even m)) s3 = (0, s4)"
    and 5: "ov5648_write k OV5648_SUB_INC_Y_REG
       (OV5648_SUB_INC_Y_ODD (inc_y_odd m) OR OV5648_SUB_INC_Y_EVEN (inc_y_even m)) s4 = (0, s5)"
    and 6: "ov5648_mode_pll1_configure k m code s5 = (0, s6)"
    and 7: "ov5648_mode_pll2_configure k m s6 = (0, s')"
    unfolding ov5648_mode_configure_def run_steps_append_0 run_steps_Cons_0 by auto
  obtain v20 where i2: "bus_image (hist s2) = (bus_image (hist s1))(OV5648_TC20_REG \<mapsto>
       (v20 AND NOT (OV5648_TC20_DEBUG OR OV5648_TC20_BINNING_VERT_EN)) OR
       (if binning_y m then OV5648_TC20_BINNING_VERT_EN else 0))"
    using ov5648_update_bits_image [OF 2] by blast
  obtain v21 where i3: "bus_image (hist s3) = (bus_image (hist s2))(OV5648_TC21_REG \<mapsto>
       (v21 AND NOT OV5648_TC21_BINNING_HORZ_EN) OR
       (if binning_x m then OV5648_TC21_BINNING_HORZ_EN else 0))"
    using ov5648_update_bits_image [OF 3] by blast
  show ?thesis
    by (rule that [of v20 v21])
      (simp only: ov5648_port.table_image [OF 1 [unfolded mode_geometry_table]] i2 i3
        ov5648_write_image [OF 4] ov5648_write_image [OF 5]
        ov5648_port.table_image [OF 6 [unfolded pll1_configure_table [OF code]]]
        ov5648_port.table_image [OF 7 [unfolded pll2_configure_table]])
qed

text \<open>The timing registers decode to the fields of the mode.\<close>

definition geometry_decoded :: "(u16 \<rightharpoonup> u8) \<Rightarrow> ov5648_mode \<Rightarrow> bool" where
  "geometry_decoded img m \<longleftrightarrow>
     reg_pair img OV5648_CROP_START_X_H_REG OV5648_CROP_START_X_L_REG = Some (crop_start_x m) \<and>
     reg_pair img OV5648_OFFSET_X_H_REG OV5648_OFFSET_X_L_REG = Some (offset_x m) \<and>
     reg_pair img OV5648_OUTPUT_SIZE_X_H_REG OV5648_OUTPUT_SIZE_X_L_REG = Some (output_size_x m) \<and>
     reg_pair img OV5648_CROP_END_X_H_REG OV5648_CROP_END_X_L_REG = Some (crop_end_x m) \<and>
     reg_pair img OV5648_HTS_H_REG OV5648_HTS_L_REG = Some (hts m) \<and>
     reg_pair img OV5648_CROP_START_Y_H_REG OV5648_CROP_START_Y_L_REG = Some (crop_start_y m) \<and>
     reg_pair img OV5648_OFFSET_Y_H_REG OV5648_OFFSET_Y_L_REG = Some (offset_y m) \<and>
     reg_pair img OV5648_OUTPUT_SIZE_Y_H_REG OV5648_OUTPUT_SIZE_Y_L_REG = Some (output_size_y m) \<and>
     reg_pair img OV5648_CROP_END_Y_H_REG OV5648_CROP_END_Y_L_REG = Some (crop_end_y m) \<and>
     reg_pair img OV5648_VTS_H_REG OV5648_VTS_L_REG = Some (vts m)"

lemmas timing_field_defs =
  OV5648_CROP_START_X_H_def OV5648_CROP_START_X_L_def OV5648_OFFSET_X_H_def OV5648_OFFSET_X_L_def
  OV5648_OUTPUT_SIZE_X_H_def OV5648_OUTPUT_SIZE_X_L_def OV5648_CROP_END_X_H_def
  OV5648_CROP_END_X_L_def OV5648_HTS_H_def OV5648_HTS_L_def
  OV5648_CROP_START_Y_H_def OV5648_CROP_START_Y_L_def OV5648_OFFSET_Y_H_def OV5648_OFFSET_Y_L_def
  OV5648_OUTPUT_SIZE_Y_H_def OV5648_OUTPUT_SIZE_Y_L_def OV5648_CROP_END_Y_H_def
  OV5648_CROP_END_Y_L_def OV5648_VTS_H_def OV5648_VTS_L_def

lemma timing_fields_join:
  "unat v < 4096 \<Longrightarrow> join_hl (OV5648_CROP_START_X_H v) (OV5648_CROP_START_X_L v) = v"
  "unat v < 4096 \<Longrightarrow> join_hl (OV5648_OFFSET_X_H v) (OV5648_OFFSET_X_L v) = v"
  "unat v < 4096 \<Longrightarrow> join_hl (OV5648_OUTPUT_SIZE_X_H v) (OV5648_OUTPUT_SIZE_X_L v) = v"
  "unat v < 4096 \<Longrightarrow> join_hl (OV5648_CROP_END_X_H v) (OV5648_CROP_END_X_L v) = v"
  "unat v < 8192 \<Longrightarrow> join_hl (OV5648_HTS_H v) (OV5648_HTS_L v) = v"
  "unat v < 4096 \<Longrightarrow> join_hl (OV5648_CROP_START_Y_H v) (OV5648_CROP_START_Y_L v) = v"
  "unat v < 4096 \<Longrightarrow> join_hl (OV5648_OFFSET_Y_H v) (OV5648_OFFSET_Y_L v) = v"
  "unat v < 4096 \<Longrightarrow> join_hl (OV5648_OUTPUT_SIZE_Y_H v) (OV5648_OUTPUT_SIZE_Y_L v) = v"
  "unat v < 4096 \<Longrightarrow> join_hl (OV5648_CROP_END_Y_H v) (OV5648_CROP_END_Y_L v) = v"
  "unat v < 65536 \<Longrightarrow> join_hl (OV5648_VTS_H v) (OV5648_VTS_L v) = v"
  unfolding timing_field_defs by (rule join_hl_field; simp)+

lemma geometry_decodes:
  assumes "mode_fits m"
    and "\<And>a. a \<in> set (map fst (geometry_table m)) \<Longrightarrow> img a = map_of (geometry_table m) a"
  shows "geometry_decoded img m"
proof -
  have reg: "img a = map_of (geometry_table m) a" if "a \<in> set (map fst (geometry_table m))" for a
    using assms(2) that by blast
  note fits = assms(1) [unfolded mode_fits_def]
  show ?thesis
    unfolding geometry_decoded_def reg_pair_def
    using fits
    by (simp add: reg geometry_table_def timing_fields_join)
qed

text \<open>
  The binning bits and the sub-sampling increments decode to those of the mode, the debug bit is clear, and the
  PLL registers hold the configuration of the mode: everything that configuring a mode programs, with the timing.
\<close>

definition sampling_decoded :: "(u16 \<rightharpoonup> u8) \<Rightarrow> ov5648_mode \<Rightarrow> bool" where
  "sampling_decoded img m \<longleftrightarrow>
     (\<exists>t20 t21. img OV5648_TC20_REG = Some t20 \<and> img OV5648_TC21_REG = Some t21 \<and>
        bit t20 0 = binning_y m \<and> \<not> bit t20 6 \<and> bit t21 0 = binning_x m) \<and>
     (\<exists>x y. img OV5648_SUB_INC_X_REG = Some x \<and> img OV5648_SUB_INC_Y_REG = Some y \<and>
        ucast (drop_bit 4 x) = inc_x_odd m \<and> ucast (x AND 0xf) = inc_x_even m \<and>
        ucast (drop_bit 4 y) = inc_y_odd m \<and> ucast (y AND 0xf) = inc_y_even m)"

definition plls_decoded :: "(u16 \<rightharpoonup> u8) \<Rightarrow> ov5648_mode \<Rightarrow> u32 \<Rightarrow> bool" where
  "plls_decoded img m code \<longleftrightarrow>
     list_all (\<lambda>(a, v). img a = Some v) (pll1_table (pll1_of m code) (code_bits code) @ pll2_table (pll2_config m))"

definition mode_decoded :: "(u16 \<rightharpoonup> u8) \<Rightarrow> ov5648_mode \<Rightarrow> u32 \<Rightarrow> bool" where
  "mode_decoded img m code \<longleftrightarrow> geometry_decoded img m \<and> sampling_decoded img m \<and> plls_decoded img m code"

lemma increments_join:
  assumes "m \<in> set ov5648_modes"
  defines "x \<equiv> OV5648_SUB_INC_X_ODD (inc_x_odd m) OR OV5648_SUB_INC_X_EVEN (inc_x_even m)"
    and "y \<equiv> OV5648_SUB_INC_Y_ODD (inc_y_odd m) OR OV5648_SUB_INC_Y_EVEN (inc_y_even m)"
  shows "ucast (drop_bit 4 x) = inc_x_odd m" "ucast (x AND 0xf) = inc_x_even m"
    and "ucast (drop_bit 4 y) = inc_y_odd m" "ucast (y AND 0xf) = inc_y_even m"
proof -
  have "list_all (\<lambda>m. inc_x_odd m \<in> {1, 3, 7} \<and> inc_x_even m = 1 \<and> inc_y_odd m \<in> {1, 3, 7} \<and> inc_y_even m = 1) ov5648_modes"
    by (simp add: ov5648_modes_def ov5648_mode_defs)
  then have "inc_x_odd m \<in> {1, 3, 7} \<and> inc_x_even m = 1 \<and> inc_y_odd m \<in> {1, 3, 7} \<and> inc_y_even m = 1"
    using assms(1) by (simp only: list_all_iff)
  then show "ucast (drop_bit 4 x) = inc_x_odd m" "ucast (x AND 0xf) = inc_x_even m"
      "ucast (drop_bit 4 y) = inc_y_odd m" "ucast (y AND 0xf) = inc_y_even m"
    unfolding x_def y_def
    by (auto simp: OV5648_SUB_INC_X_ODD_def OV5648_SUB_INC_X_EVEN_def OV5648_SUB_INC_Y_ODD_def OV5648_SUB_INC_Y_EVEN_def
        GENMASK_def mask_eq_exp_minus_1)
qed

section \<open>No error without a bus error\<close>

lemma sensor_ops_ok [ok_rules]:
  assumes "bus_ok k"
  shows "fst (ov5648_sw_reset k s) = 0"
    and "fst (ov5648_sw_standby k b s) = 0"
    and "fst (ov5648_avdd_internal_power k b s) = 0"
    and "fst (ov5648_pad_configure k s) = 0"
    and "fst (ov5648_mipi_configure k s) = 0"
    and "fst (ov5648_black_level_configure k s) = 0"
    and "fst (ov5648_isp_configure k s) = 0"
    and "fst (ov5648_mode_pll2_configure k m s) = 0"
  using assms
  by (auto simp: sensor_op_defs Let_def intro!: run_steps_ok ok_rules)

lemma ov5648_mode_pll1_configure_ok [ok_rules]:
  "bus_ok k \<Longrightarrow> code \<in> set ov5648_mbus_codes \<Longrightarrow> fst (ov5648_mode_pll1_configure k m code s) = 0"
  by (simp add: pll1_configure_table ov5648_port.table_steps_def)
    (auto intro!: run_steps_ok ok_rules)

lemma ov5648_mode_configure_ok [ok_rules]:
  assumes "bus_ok k" and "code \<in> set ov5648_mbus_codes"
  shows "fst (ov5648_mode_configure k m code s) = 0"
  unfolding ov5648_mode_configure_def using assms
  by (intro run_steps_ok)
    (auto simp: ov5648_mode_geometry_def split: option.splits intro!: ok_rules)

section \<open>The clock tree\<close>

text \<open>
  The PLL1 clock tree of the comment above \<^verbatim>\<open>struct ov5648_pll1_config\<close>, read off the registers:
  the MIPI clock is XVCLK multiplied by register 0x3036, divided by the low nibble of 0x3037, by
  the high and by the low nibble of 0x3035, and by the fixed PHY divider of two.
\<close>

definition tree_mipi_clk :: "(u16 \<rightharpoonup> u8) \<Rightarrow> u64 \<Rightarrow> u64 option" where
  "tree_mipi_clk img xvclk_rate =
     (case (img OV5648_PLL_MUL_REG, img OV5648_PLL_DIV_REG, img OV5648_PLL_CTRL1_REG) of
        (Some mul, Some dv, Some ctrl1) \<Rightarrow>
          Some (xvclk_rate * ucast mul div ucast (dv AND 0xf) div ucast (drop_bit 4 ctrl1)
                  div ucast (ctrl1 AND 0xf) div 2)
      | _ \<Rightarrow> None)"

lemmas pll_field_defs =
  OV5648_PLL_DIV_ROOT_DIV_def OV5648_PLL_DIV_PLL_PRE_DIV_def OV5648_PLL_MUL_def
  OV5648_PLL_CTRL1_SYS_DIV_def OV5648_PLL_CTRL1_MIPI_DIV_def

lemma mode_configure_registers:
  assumes "ov5648_mode_configure k m code s = (0, s')"
    and "m \<in> set ov5648_modes" and "code \<in> set ov5648_mbus_codes"
  shows "geometry_decoded (bus_image (hist s')) m"
    and "a \<in> set (map fst (pll1_table (pll1_of m code) (code_bits code))) \<Longrightarrow>
           bus_image (hist s') a = map_of (pll1_table (pll1_of m code) (code_bits code)) a"
    and "mode_decoded (bus_image (hist s')) m code"
proof -
  obtain v20 v21 where img: "bus_image (hist s') =
       ((bus_image (hist s))(map fst (geometry_table m) [\<mapsto>] map snd (geometry_table m)))
        (OV5648_TC20_REG \<mapsto>
           (v20 AND NOT (OV5648_TC20_DEBUG OR OV5648_TC20_BINNING_VERT_EN)) OR
           (if binning_y m then OV5648_TC20_BINNING_VERT_EN else 0),
         OV5648_TC21_REG \<mapsto>
           (v21 AND NOT OV5648_TC21_BINNING_HORZ_EN) OR
           (if binning_x m then OV5648_TC21_BINNING_HORZ_EN else 0),
         OV5648_SUB_INC_X_REG \<mapsto>
           OV5648_SUB_INC_X_ODD (inc_x_odd m) OR OV5648_SUB_INC_X_EVEN (inc_x_even m),
         OV5648_SUB_INC_Y_REG \<mapsto>
           OV5648_SUB_INC_Y_ODD (inc_y_odd m) OR OV5648_SUB_INC_Y_EVEN (inc_y_even m),
         map fst (pll1_table (pll1_of m code) (code_bits code)) [\<mapsto>]
           map snd (pll1_table (pll1_of m code) (code_bits code)),
         map fst (pll2_table (pll2_config m)) [\<mapsto>] map snd (pll2_table (pll2_config m)))"
    using mode_configure_image [OF assms(1,3)] ov5648_modes_pll [OF assms(2)] by blast
  show geo: "geometry_decoded (bus_image (hist s')) m"
  proof (rule geometry_decodes [OF ov5648_modes_fit [OF assms(2)]])
    fix a
    assume "a \<in> set (map fst (geometry_table m))"
    then show "bus_image (hist s') a = map_of (geometry_table m) a"
      unfolding img by (auto simp: geometry_table_def pll1_table_def pll2_table_def)
  qed
  show "bus_image (hist s') a = map_of (pll1_table (pll1_of m code) (code_bits code)) a"
    if "a \<in> set (map fst (pll1_table (pll1_of m code) (code_bits code)))"
    using that unfolding img by (auto simp: pll1_table_def pll2_table_def)
  have "sampling_decoded (bus_image (hist s')) m"
    unfolding img sampling_decoded_def
    using increments_join [OF assms(2)] by (simp add: pll1_table_def pll2_table_def bit_simps)
  moreover have "plls_decoded (bus_image (hist s')) m code"
    unfolding img plls_decoded_def by (simp add: pll1_table_def pll2_table_def)
  ultimately show "mode_decoded (bus_image (hist s')) m code"
    using geo by (simp add: mode_decoded_def)
qed

lemma pll1_of_modes:
  "m \<in> set ov5648_modes \<Longrightarrow> pll1_of m code =
     (if code_8bit code then ov5648_pll1_config_native_8_bits
      else ov5648_pll1_config_native_10_bits)"
  by (simp add: pll1_of_def ov5648_modes_pll)

lemma mipi_clk_rate_native:
  assumes "m \<in> set ov5648_modes" and "code \<in> set ov5648_mbus_codes"
  shows "ov5648_mode_mipi_clk_rate k m code s =
    clk_rate k (hist s) * (if code_8bit code then 84 else 105) div 3 div 2 div 1 div 2"
  using assms(2) unfolding mbus_codes_cases
  by (auto simp: ov5648_mode_mipi_clk_rate_def ov5648_mode_pll1_rate_def ov5648_modes_pll [OF assms(1)]
      ov5648_pll_defs Let_def dest: code_8bit_not_10bit)

section \<open>Properties\<close>

text \<open>
  C13: when \<open>ov5648_mode_configure\<close> returns zero for a mode of the table and a supported bus code,
  the timing registers (crop window, offsets, output size, line and frame length) decode, high and
  low byte together, to the fields of the mode: no field is truncated by its register mask and no
  later write of the sequence disturbs it.
\<close>

theorem ov5648_mode_configure_geometry:
  assumes "m \<in> set ov5648_modes" and "code \<in> set ov5648_mbus_codes"
    and "ov5648_mode_configure k m code s = (0, s')"
  shows "geometry_decoded (bus_image (hist s')) m"
  using assms by (intro mode_configure_registers)

text \<open>A driver instance for the witnesses.\<close>

definition ov5648_example :: ov5648 where
  "ov5648_example = \<lparr>hist = [], reset = Obj, powerdown = Obj, avdd = NullPtr, dvdd = Obj,
     dovdd = Obj, xvclk = Obj, num_data_lanes = 2, link_frequencies = [168000000],
     mode = Some ov5648_mode_2592x1944, mbus_code = MEDIA_BUS_FMT_SBGGR8_1X8, streaming = False,
     ctrls = (\<lambda>i. \<lparr>ctrl_val = 1, ctrl_minimum = 0, ctrl_maximum = 1, ctrl_step = 1,
       ctrl_default = 0, ctrl_is_new = False, ctrl_flags = 0\<rparr>),
     fmt = \<lparr>fmt_width = 0, fmt_height = 0, fmt_code = 0, fmt_field = 0, fmt_colorspace = 0,
       fmt_ycbcr_enc = 0, fmt_quantization = 0, fmt_xfer_func = 0\<rparr>,
     interval = (1, 15), formats = [], modes = []\<rparr>"

lemma example_code [simp]: "MEDIA_BUS_FMT_SBGGR8_1X8 \<in> set ov5648_mbus_codes"
  "MEDIA_BUS_FMT_SGRBG10_1X10 \<in> set ov5648_mbus_codes"
  by (simp_all add: ov5648_mbus_codes_def)

lemma example_modes [simp]:
  "ov5648_mode_640x480 \<in> set ov5648_modes" "ov5648_mode_2592x1944 \<in> set ov5648_modes"
  by (simp_all add: ov5648_modes_def)

theorem ov5648_mode_configure_geometry_witness:
  "geometry_decoded (bus_image (hist (snd (ov5648_mode_configure (ideal (\<lambda>_. 0))
     ov5648_mode_640x480 MEDIA_BUS_FMT_SGRBG10_1X10 ov5648_example)))) ov5648_mode_640x480"
  by (rule ov5648_mode_configure_geometry [OF _ _ ok_pair])
    (simp_all add: ov5648_mode_configure_ok)

text \<open>
  C18: after a successful mode configuration the clock that the PLL registers select, read off the
  register image along the documented clock tree, is exactly the rate that
  \<open>ov5648_mode_mipi_clk_rate\<close> computes from the mode for the link-frequency control.
\<close>

theorem ov5648_mode_configure_clock:
  assumes "m \<in> set ov5648_modes" and "code \<in> set ov5648_mbus_codes"
    and "ov5648_mode_configure k m code s = (0, s')"
  shows "tree_mipi_clk (bus_image (hist s')) (clk_rate k (hist s)) =
    Some (ov5648_mode_mipi_clk_rate k m code s)"
proof -
  let ?tab = "pll1_table (pll1_of m code) (code_bits code)"
  have reg: "bus_image (hist s') a = map_of ?tab a" if "a \<in> set (map fst ?tab)" for a
    using mode_configure_registers(2) [OF assms(3,1,2) that] .
  show ?thesis
    unfolding tree_mipi_clk_def mipi_clk_rate_native [OF assms(1,2)]
    by (cases "code_8bit code")
      (simp_all add: reg pll1_table_def pll1_of_modes [OF assms(1)] ov5648_pll_defs
        pll_field_defs bit_macro_defs)
qed

theorem ov5648_mode_configure_clock_witness:
  "tree_mipi_clk (bus_image (hist (snd (ov5648_mode_configure (ideal (\<lambda>_. 0))
     ov5648_mode_640x480 MEDIA_BUS_FMT_SBGGR8_1X8 ov5648_example))))
     (clk_rate (ideal (\<lambda>_. 0)) (hist ov5648_example)) =
   Some (ov5648_mode_mipi_clk_rate (ideal (\<lambda>_. 0)) ov5648_mode_640x480
     MEDIA_BUS_FMT_SBGGR8_1X8 ov5648_example)"
  by (rule ov5648_mode_configure_clock [OF _ _ ok_pair])
    (simp_all add: ov5648_mode_configure_ok)

text \<open>
  with the 24 MHz input clock that probe insists on, every mode and supported code gives a
  MIPI clock of 168 MHz (8 bits) or 210 MHz (10 bits), without overflow of the 64-bit product, and
  both rates are entries of the link-frequency menu.
\<close>

theorem ov5648_mipi_clk_rate_menu:
  assumes "m \<in> set ov5648_modes" and "code \<in> set ov5648_mbus_codes"
    and "clk_rate k (hist s) = OV5648_XVCLK_RATE"
  shows "ov5648_mode_mipi_clk_rate k m code s = (if code_8bit code then 168000000 else 210000000) \<and>
    ov5648_mode_mipi_clk_rate k m code s \<in> set ov5648_link_freq_menu"
  using assms by (auto simp: mipi_clk_rate_native ov5648_link_freq_menu_def)

theorem ov5648_mipi_clk_rate_menu_witness:
  "ov5648_mode_mipi_clk_rate (ideal (\<lambda>_. 0)) ov5648_mode_640x480 MEDIA_BUS_FMT_SBGGR8_1X8
     ov5648_example = 168000000"
  using ov5648_mipi_clk_rate_menu [of ov5648_mode_640x480 MEDIA_BUS_FMT_SBGGR8_1X8
      "ideal (\<lambda>_. 0)" ov5648_example]
  by (simp add: code_8bit_def)

lemma mode_configure_fails:
  assumes "code \<notin> set ov5648_mbus_codes" and "ov5648_mode_configure k m code s = (r, s')"
  shows "r \<noteq> 0"
proof
  assume "r = 0"
  with assms(2) obtain s1 s2 where "ov5648_mode_pll1_configure k m code s1 = (0, s2)"
    by (auto simp: ov5648_mode_configure_def run_steps_append_0 run_steps_Cons_0)
  then show False
    using assms(1) unfolding mbus_codes_cases
    by (simp add: ov5648_mode_pll1_configure_def)
qed

text \<open>
  a bus code outside the two groups of the driver never configures the PLLs:
  \<open>ov5648_mode_configure\<close> returns a negative code, and the PLL step itself returns -EINVAL
  without touching the bus.
\<close>

theorem ov5648_mode_configure_bad_code:
  assumes "code \<notin> set ov5648_mbus_codes"
  shows "fst (ov5648_mode_configure k m code s) < 0 \<and>
    ov5648_mode_pll1_configure k m code s = (- EINVAL, s)"
proof
  show "fst (ov5648_mode_configure k m code s) < 0"
    using mode_configure_fails [OF assms, of k m s] ov5648_mode_configure_ret [of k m code s]
    by (cases "ov5648_mode_configure k m code s") auto
  show "ov5648_mode_pll1_configure k m code s = (- EINVAL, s)"
    using assms unfolding mbus_codes_cases by (simp add: ov5648_mode_pll1_configure_def)
qed

theorem ov5648_mode_configure_bad_code_witness:
  "fst (ov5648_mode_configure (ideal (\<lambda>_. 0)) ov5648_mode_640x480 0x2006 ov5648_example) < 0"
  using ov5648_mode_configure_bad_code [of "0x2006" "ideal (\<lambda>_. 0)" ov5648_mode_640x480
      ov5648_example]
  by (simp add: ov5648_mbus_codes_def)

end
