(* ===== verification/Ov5648_Ctrl.thy ===== *)
theory Ov5648_Ctrl
  imports Ov5648_Sensor
begin

text \<open>
  Controls and state of the OV5648 driver (sections "Exposure" to "State" and "Controls" of
  \<^verbatim>\<open>ov5648.c\<close>).  A control is read through the handler \<open>ctrls\<close>; its value is an \<open>int\<close>, converted
  to \<^verbatim>\<open>u32\<close> where the driver does.  The link-frequency and pixel-rate controls have no driver
  operations, so setting them is a call into the framework alone.

  The lemmas give the register image each control leaves behind, the round trip of exposure and
  gain through the sensor, and the state kept by \<open>ov5648_state_configure\<close>.
\<close>

section \<open>Exposure, gain, white balance, flip and test pattern\<close>

definition ov5648_exposure_auto_configure :: "kapi \<Rightarrow> bool \<Rightarrow> ov5648 op" where
  "ov5648_exposure_auto_configure k enable =
     ov5648_update_bits k OV5648_MANUAL_CTRL_REG OV5648_MANUAL_CTRL_AEC_MANUAL_EN
       (if enable then 0 else OV5648_MANUAL_CTRL_AEC_MANUAL_EN)"

definition ov5648_exposure_configure :: "kapi \<Rightarrow> u32 \<Rightarrow> ov5648 op" where
  "ov5648_exposure_configure k exposure s =
     (if ctrl_val (ctrls s V4L2_CID_EXPOSURE_AUTO) \<noteq> V4L2_EXPOSURE_MANUAL then (- EINVAL, s)
      else run_steps [
        ov5648_write k OV5648_EXPOSURE_CTRL_HH_REG (OV5648_EXPOSURE_CTRL_HH exposure),
        ov5648_write k OV5648_EXPOSURE_CTRL_H_REG (OV5648_EXPOSURE_CTRL_H exposure),
        ov5648_write k OV5648_EXPOSURE_CTRL_L_REG (OV5648_EXPOSURE_CTRL_L exposure)] s)"

text \<open>The result of the pointer argument is \<open>None\<close> where the function returns before storing it.\<close>

definition ov5648_exposure_value :: "kapi \<Rightarrow> ov5648 \<Rightarrow> int \<times> u32 option \<times> ov5648" where
  "ov5648_exposure_value k s =
     (let (ret, exposure_hh, s) = ov5648_read k OV5648_EXPOSURE_CTRL_HH_REG 0 s
      in if ret \<noteq> 0 then (ret, None, s)
      else let (ret, exposure_h, s) = ov5648_read k OV5648_EXPOSURE_CTRL_H_REG 0 s
      in if ret \<noteq> 0 then (ret, None, s)
      else let (ret, exposure_l, s) = ov5648_read k OV5648_EXPOSURE_CTRL_L_REG 0 s
      in if ret \<noteq> 0 then (ret, None, s)
      else (0, Some (OV5648_EXPOSURE_CTRL_HH_VALUE (ucast exposure_hh) OR
                     OV5648_EXPOSURE_CTRL_H_VALUE (ucast exposure_h) OR
                     OV5648_EXPOSURE_CTRL_L_VALUE (ucast exposure_l)), s))"

definition ov5648_gain_auto_configure :: "kapi \<Rightarrow> bool \<Rightarrow> ov5648 op" where
  "ov5648_gain_auto_configure k enable =
     ov5648_update_bits k OV5648_MANUAL_CTRL_REG OV5648_MANUAL_CTRL_AGC_MANUAL_EN
       (if enable then 0 else OV5648_MANUAL_CTRL_AGC_MANUAL_EN)"

definition ov5648_gain_configure :: "kapi \<Rightarrow> u32 \<Rightarrow> ov5648 op" where
  "ov5648_gain_configure k gain s =
     (if ctrl_val (ctrls s V4L2_CID_AUTOGAIN) \<noteq> 0 then (- EINVAL, s)
      else run_steps [
        ov5648_write k OV5648_GAIN_CTRL_H_REG (OV5648_GAIN_CTRL_H gain),
        ov5648_write k OV5648_GAIN_CTRL_L_REG (OV5648_GAIN_CTRL_L gain)] s)"

definition ov5648_gain_value :: "kapi \<Rightarrow> ov5648 \<Rightarrow> int \<times> u32 option \<times> ov5648" where
  "ov5648_gain_value k s =
     (let (ret, gain_h, s) = ov5648_read k OV5648_GAIN_CTRL_H_REG 0 s
      in if ret \<noteq> 0 then (ret, None, s)
      else let (ret, gain_l, s) = ov5648_read k OV5648_GAIN_CTRL_L_REG 0 s
      in if ret \<noteq> 0 then (ret, None, s)
      else (0, Some (OV5648_GAIN_CTRL_H_VALUE (ucast gain_h) OR
                     OV5648_GAIN_CTRL_L_VALUE (ucast gain_l)), s))"

definition ov5648_white_balance_auto_configure :: "kapi \<Rightarrow> bool \<Rightarrow> ov5648 op" where
  "ov5648_white_balance_auto_configure k enable =
     ov5648_write k OV5648_AWB_CTRL_REG (if enable then 0 else OV5648_AWB_CTRL_GAIN_MANUAL_EN)"

definition ov5648_white_balance_configure :: "kapi \<Rightarrow> u32 \<Rightarrow> u32 \<Rightarrow> ov5648 op" where
  "ov5648_white_balance_configure k red_balance blue_balance s =
     (if ctrl_val (ctrls s V4L2_CID_AUTO_WHITE_BALANCE) \<noteq> 0 then (- EINVAL, s)
      else run_steps [
        ov5648_write k OV5648_GAIN_RED_MAN_H_REG (OV5648_GAIN_RED_MAN_H red_balance),
        ov5648_write k OV5648_GAIN_RED_MAN_L_REG (OV5648_GAIN_RED_MAN_L red_balance),
        ov5648_write k OV5648_GAIN_BLUE_MAN_H_REG (OV5648_GAIN_BLUE_MAN_H blue_balance),
        ov5648_write k OV5648_GAIN_BLUE_MAN_L_REG (OV5648_GAIN_BLUE_MAN_L blue_balance)] s)"

definition ov5648_flip_vert_configure :: "kapi \<Rightarrow> bool \<Rightarrow> ov5648 op" where
  "ov5648_flip_vert_configure k enable =
     (let bits = OV5648_TC20_FLIP_VERT_ISP_EN OR OV5648_TC20_FLIP_VERT_SENSOR_EN
      in ov5648_update_bits k OV5648_TC20_REG bits (if enable then bits else 0))"

definition ov5648_flip_horz_configure :: "kapi \<Rightarrow> bool \<Rightarrow> ov5648 op" where
  "ov5648_flip_horz_configure k enable =
     (let bits = OV5648_TC21_FLIP_HORZ_ISP_EN OR OV5648_TC21_FLIP_HORZ_SENSOR_EN
      in ov5648_update_bits k OV5648_TC21_REG bits (if enable then bits else 0))"

definition ov5648_test_pattern_configure :: "kapi \<Rightarrow> u32 \<Rightarrow> ov5648 op" where
  "ov5648_test_pattern_configure k index s =
     (if length ov5648_test_pattern_bits \<le> unat index then (- EINVAL, s)
      else ov5648_write k OV5648_ISP_CTRL3D_REG (ov5648_test_pattern_bits ! unat index) s)"

section \<open>State\<close>

text \<open>Setting a control that has no driver operations.\<close>

definition ov5648_ctrl_assign :: "kapi \<Rightarrow> u32 \<Rightarrow> int \<Rightarrow> ov5648 \<Rightarrow> ov5648" where
  "ov5648_ctrl_assign k i v s =
     emit (CtrlSet i v) (s\<lparr>ctrls := ctrl_assign k (hist s) i v (ctrls s)\<rparr>)"

definition ov5648_state_mipi_configure :: "kapi \<Rightarrow> ov5648_mode \<Rightarrow> u32 \<Rightarrow> ov5648 op" where
  "ov5648_state_mipi_configure k m code s =
     (let mipi_clk_rate = ov5648_mode_mipi_clk_rate k m code s
      in if mipi_clk_rate = 0 then (- EINVAL, s)
      else let i = find_index (\<lambda>freq. freq = mipi_clk_rate) ov5648_link_freq_menu;
               j = find_index (\<lambda>freq. freq = mipi_clk_rate) (link_frequencies s);
               s = (if i = length ov5648_link_freq_menu then s
                    else if j = length (link_frequencies s) then s
                    else ov5648_ctrl_assign k V4L2_CID_LINK_FREQ (int i) s);
               bits_per_sample = (if code_8bit code then Some 8
                                  else if code_10bit code then Some 10 else None)
      in case bits_per_sample of
           None \<Rightarrow> (- EINVAL, s)
         | Some bits \<Rightarrow>
             let lanes_count = num_data_lanes s;
                 mipi_pixel_rate = mipi_clk_rate * 2 * ucast lanes_count div bits
             in (0, ov5648_ctrl_assign k V4L2_CID_PIXEL_RATE (sint mipi_pixel_rate) s))"

text \<open>
  The mode argument is a pointer.  \<^verbatim>\<open>ov5648_mode_mipi_clk_rate\<close> looks at the bus code before it
  follows the pointer.
\<close>

definition ov5648_state_configure :: "kapi \<Rightarrow> ov5648_mode option \<Rightarrow> u32 \<Rightarrow> ov5648 op" where
  "ov5648_state_configure k mp code s =
     (if streaming s then (- EBUSY, s)
      else run_steps [
        (\<lambda>s. if rpm_enabled k (hist s) \<and> \<not> rpm_suspended k (hist s)
             then deref mp (\<lambda>m. ov5648_mode_configure k m code) s else (0, s)),
        (\<lambda>s. if \<not> code_8bit code \<and> \<not> code_10bit code then (- EINVAL, s)
             else deref mp (\<lambda>m. ov5648_state_mipi_configure k m code) s),
        (\<lambda>s. (0, s\<lparr>mode := mp, mbus_code := code\<rparr>))] s)"

definition ov5648_state_init :: "kapi \<Rightarrow> ov5648 op" where
  "ov5648_state_init k =
     ov5648_state_configure k (Some (ov5648_modes ! 0)) (ov5648_mbus_codes ! 0)"

definition ov5648_detect :: "kapi \<Rightarrow> ov5648 op" where
  "ov5648_detect k s =
     (let (ret, s) = ov5648_write k OV5648_SW_RESET_REG 0x01 s
      in if ret < 0 then (ret, s)
      else let (ret, chip_id_h, s) = ov5648_read k OV5648_CHIP_ID_H_REG 0 s
      in if ret < 0 then (ret, s)
      else if chip_id_h \<noteq> OV5648_CHIP_ID_H_VALUE then (- ENODEV, s)
      else let (ret, chip_id_l, s) = ov5648_read k OV5648_CHIP_ID_L_REG 0 s
      in if ret < 0 then (ret, s)
      else if chip_id_l \<noteq> OV5648_CHIP_ID_L_VALUE then (- ENODEV, s)
      else ov5648_write k OV5648_SW_RESET_REG 0x00 s)"

section \<open>Control operations\<close>

definition ov5648_g_volatile_ctrl :: "kapi \<Rightarrow> u32 \<Rightarrow> ov5648 op" where
  "ov5648_g_volatile_ctrl k ctrl_id s =
     (if ctrl_id = V4L2_CID_EXPOSURE_AUTO then
        (case ov5648_exposure_value k s of
           (ret, Some v, s) \<Rightarrow> (ret, s\<lparr>ctrls := (ctrls s)(V4L2_CID_EXPOSURE :=
             (ctrls s V4L2_CID_EXPOSURE)\<lparr>ctrl_val := sint v\<rparr>)\<rparr>)
         | (ret, None, s) \<Rightarrow> (ret, s))
      else if ctrl_id = V4L2_CID_AUTOGAIN then
        (case ov5648_gain_value k s of
           (ret, Some v, s) \<Rightarrow> (ret, s\<lparr>ctrls := (ctrls s)(V4L2_CID_GAIN :=
             (ctrls s V4L2_CID_GAIN)\<lparr>ctrl_val := sint v\<rparr>)\<rparr>)
         | (ret, None, s) \<Rightarrow> (ret, s))
      else (- EINVAL, s))"

definition ctrl_u32 :: "u32 \<Rightarrow> ov5648 \<Rightarrow> u32" where
  "ctrl_u32 i s = word_of_int (ctrl_val (ctrls s i))"

definition ov5648_s_ctrl :: "kapi \<Rightarrow> u32 \<Rightarrow> ov5648 op" where
  "ov5648_s_ctrl k ctrl_id s =
     (let ctrl = ctrls s ctrl_id
      in if rpm_suspended k (hist s) then (0, s)
      else if ctrl_id = V4L2_CID_EXPOSURE_AUTO then
        (let enable = (ctrl_val ctrl = V4L2_EXPOSURE_AUTO)
         in run_steps [
              ov5648_exposure_auto_configure k enable,
              (\<lambda>s. if \<not> enable \<and> ctrl_is_new (ctrls s V4L2_CID_EXPOSURE)
                   then ov5648_exposure_configure k (ctrl_u32 V4L2_CID_EXPOSURE s) s
                   else (0, s))] s)
      else if ctrl_id = V4L2_CID_AUTOGAIN then
        (let enable = (ctrl_val ctrl \<noteq> 0)
         in run_steps [
              ov5648_gain_auto_configure k enable,
              (\<lambda>s. if \<not> enable then ov5648_gain_configure k (ctrl_u32 V4L2_CID_GAIN s) s
                   else (0, s))] s)
      else if ctrl_id = V4L2_CID_AUTO_WHITE_BALANCE then
        (let enable = (ctrl_val ctrl \<noteq> 0)
         in run_steps [
              ov5648_white_balance_auto_configure k enable,
              (\<lambda>s. if \<not> enable
                   then ov5648_white_balance_configure k (ctrl_u32 V4L2_CID_RED_BALANCE s)
                          (ctrl_u32 V4L2_CID_BLUE_BALANCE s) s
                   else (0, s))] s)
      else if ctrl_id = V4L2_CID_HFLIP then ov5648_flip_horz_configure k (ctrl_val ctrl \<noteq> 0) s
      else if ctrl_id = V4L2_CID_VFLIP then ov5648_flip_vert_configure k (ctrl_val ctrl \<noteq> 0) s
      else if ctrl_id = V4L2_CID_TEST_PATTERN then
        ov5648_test_pattern_configure k (word_of_int (ctrl_val ctrl)) s
      else (- EINVAL, s))"

text \<open>
  Creating a control.  A menu control is created with minimum 0 and its skip mask in place of the
  step; a creation that fails leaves the handler's error set.
\<close>

definition ov5648_ctrl_new :: "kapi \<Rightarrow> u32 \<Rightarrow> int \<Rightarrow> int \<Rightarrow> int \<Rightarrow> int \<Rightarrow> ov5648 \<Rightarrow> ov5648" where
  "ov5648_ctrl_new k i mi ma st df s =
     (let s' = emit (CtrlNew i mi ma st df) s
      in case ctrl_create k (hist s) i mi ma st df of
           None \<Rightarrow> s'
         | Some c \<Rightarrow> s'\<lparr>ctrls := (ctrls s')(i := c)\<rparr>)"

definition ov5648_ctrl_flag :: "u32 \<Rightarrow> u32 \<Rightarrow> ov5648 \<Rightarrow> ov5648" where
  "ov5648_ctrl_flag i flag s =
     s\<lparr>ctrls := (ctrls s)(i := (ctrls s i)\<lparr>ctrl_flags := ctrl_flags (ctrls s i) OR flag\<rparr>)\<rparr>"

definition ov5648_ctrls_init :: "kapi \<Rightarrow> ov5648 op" where
  "ov5648_ctrls_init k s =
     (let s = emit (CtrlHandlerInit 32) s;
          s = ov5648_ctrl_new k V4L2_CID_EXPOSURE_AUTO 0 V4L2_EXPOSURE_MANUAL 0 V4L2_EXPOSURE_AUTO s;
          s = ov5648_ctrl_new k V4L2_CID_EXPOSURE 16 1048575 16 512 s;
          s = emit (CtrlCluster [V4L2_CID_EXPOSURE_AUTO, V4L2_CID_EXPOSURE]) s;
          s = ov5648_ctrl_new k V4L2_CID_AUTOGAIN 0 1 1 1 s;
          s = ov5648_ctrl_new k V4L2_CID_GAIN 16 1023 16 16 s;
          s = emit (CtrlCluster [V4L2_CID_AUTOGAIN, V4L2_CID_GAIN]) s;
          s = ov5648_ctrl_new k V4L2_CID_AUTO_WHITE_BALANCE 0 1 1 1 s;
          s = ov5648_ctrl_new k V4L2_CID_RED_BALANCE 0 4095 1 1024 s;
          s = ov5648_ctrl_new k V4L2_CID_BLUE_BALANCE 0 4095 1 1024 s;
          s = emit (CtrlCluster [V4L2_CID_AUTO_WHITE_BALANCE, V4L2_CID_RED_BALANCE,
                                 V4L2_CID_BLUE_BALANCE]) s;
          s = ov5648_ctrl_new k V4L2_CID_HFLIP 0 1 1 0 s;
          s = ov5648_ctrl_new k V4L2_CID_VFLIP 0 1 1 0 s;
          s = ov5648_ctrl_new k V4L2_CID_TEST_PATTERN 0
                (int (length ov5648_test_pattern_menu) - 1) 0 0 s;
          s = ov5648_ctrl_new k V4L2_CID_LINK_FREQ 0
                (int (length ov5648_link_freq_menu) - 1) 0 0 s;
          s = ov5648_ctrl_new k V4L2_CID_PIXEL_RATE 1 2147483647 1 1 s;
          ret = handler_error k (hist s)
      in if ret \<noteq> 0 then (ret, emit CtrlHandlerFree s)
      else (0, ov5648_ctrl_flag V4L2_CID_PIXEL_RATE V4L2_CTRL_FLAG_READ_ONLY
              (ov5648_ctrl_flag V4L2_CID_LINK_FREQ V4L2_CTRL_FLAG_READ_ONLY
              (ov5648_ctrl_flag V4L2_CID_GAIN V4L2_CTRL_FLAG_VOLATILE
              (ov5648_ctrl_flag V4L2_CID_EXPOSURE V4L2_CTRL_FLAG_VOLATILE s)))))"

section \<open>What the control operations emit and return\<close>

lemmas ctrl_op_defs =
  ov5648_exposure_auto_configure_def ov5648_exposure_configure_def ov5648_gain_auto_configure_def
  ov5648_gain_configure_def ov5648_white_balance_auto_configure_def
  ov5648_white_balance_configure_def ov5648_flip_vert_configure_def ov5648_flip_horz_configure_def
  ov5648_test_pattern_configure_def

lemma ctrl_ops_emits [emits_rules]:
  "emits bus_event s (snd (ov5648_exposure_auto_configure k b s))"
  "emits bus_event s (snd (ov5648_exposure_configure k v s))"
  "emits bus_event s (snd (ov5648_gain_auto_configure k b s))"
  "emits bus_event s (snd (ov5648_gain_configure k v s))"
  "emits bus_event s (snd (ov5648_white_balance_auto_configure k b s))"
  "emits bus_event s (snd (ov5648_white_balance_configure k v w s))"
  "emits bus_event s (snd (ov5648_flip_vert_configure k b s))"
  "emits bus_event s (snd (ov5648_flip_horz_configure k b s))"
  "emits bus_event s (snd (ov5648_test_pattern_configure k i s))"
  by (auto simp: ctrl_op_defs Let_def intro!: emits_run_steps emits_rules)

lemma ov5648_s_ctrl_emits [emits_rules]: "emits bus_event s (snd (ov5648_s_ctrl k i s))"
  by (auto simp: ov5648_s_ctrl_def Let_def intro!: emits_run_steps emits_rules)

lemma ctrl_ops_ret [ret_rules]:
  "fst (ov5648_exposure_auto_configure k b s) \<le> 0"
  "fst (ov5648_exposure_configure k v s) \<le> 0"
  "fst (ov5648_gain_auto_configure k b s) \<le> 0"
  "fst (ov5648_gain_configure k v s) \<le> 0"
  "fst (ov5648_white_balance_auto_configure k b s) \<le> 0"
  "fst (ov5648_white_balance_configure k v w s) \<le> 0"
  "fst (ov5648_flip_vert_configure k b s) \<le> 0"
  "fst (ov5648_flip_horz_configure k b s) \<le> 0"
  "fst (ov5648_test_pattern_configure k i s) \<le> 0"
  by (auto simp: ctrl_op_defs Let_def intro!: run_steps_nonpos ret_rules)

lemma ov5648_s_ctrl_ret [ret_rules]: "fst (ov5648_s_ctrl k i s) \<le> 0"
  by (auto simp: ov5648_s_ctrl_def Let_def intro!: run_steps_nonpos ret_rules)

section \<open>Exposure and gain read back\<close>

lemma reg_value_image: "bus_image h a = Some v \<Longrightarrow> reg_value dflt h a = v"
  by (simp add: reg_value_def)

lemma reg_value_cong: "bus_image h = bus_image h' \<Longrightarrow> reg_value dflt h a = reg_value dflt h' a"
  by (simp add: reg_value_def)

lemma exposure_fields:
  assumes "unat v < 2 ^ 20"
  shows "OV5648_EXPOSURE_CTRL_HH_VALUE (ucast (OV5648_EXPOSURE_CTRL_HH v)) OR
    OV5648_EXPOSURE_CTRL_H_VALUE (ucast (OV5648_EXPOSURE_CTRL_H v)) OR
    OV5648_EXPOSURE_CTRL_L_VALUE (ucast (OV5648_EXPOSURE_CTRL_L v)) = v" (is "?l = v")
proof (rule bit_word_eqI)
  fix i
  assume "i < LENGTH(32)"
  moreover have "\<not> bit v i" if "20 \<le> i"
    using bit_small [OF assms that] .
  ultimately show "bit ?l i = bit v i"
    by (cases "i < 8"; cases "i < 16"; cases "i < 20")
      (auto simp: ov5648_field_defs bit_simps)
qed

lemma gain_fields:
  assumes "unat v < 2 ^ 10"
  shows "OV5648_GAIN_CTRL_H_VALUE (ucast (OV5648_GAIN_CTRL_H v)) OR
    OV5648_GAIN_CTRL_L_VALUE (ucast (OV5648_GAIN_CTRL_L v)) = v" (is "?l = v")
proof (rule bit_word_eqI)
  fix i
  assume "i < LENGTH(32)"
  moreover have "\<not> bit v i" if "10 \<le> i"
    using bit_small [OF assms that] .
  ultimately show "bit ?l i = bit v i"
    by (cases "i < 8"; cases "i < 10") (auto simp: ov5648_field_defs bit_simps)
qed

lemma read_chain:
  assumes "bus_ok k" and "regfile_recv k dflt"
  obtains s' where "ov5648_read k a old s = (0, reg_value dflt (hist s) a, s')"
    and "emits bus_event s s'" and "bus_image (hist s') = bus_image (hist s)"
proof -
  obtain r v s' where rd: "ov5648_read k a old s = (r, v, s')"
    by (cases "ov5648_read k a old s")
  moreover have "r = 0"
    using ov5648_read_ok [OF assms(1), of a old s] rd by simp
  moreover from this rd assms(2) have "v = reg_value dflt (hist s) a"
    using ov5648_read_value by blast
  moreover have "emits bus_event s s'"
    using ov5648_read_emits [of s k a old] rd by simp
  ultimately show ?thesis
    using that ov5648_read_image [OF rd] by simp
qed

lemma exposure_value_regs:
  assumes "bus_ok k" and "regfile_recv k dflt"
  obtains s' where "ov5648_exposure_value k s = (0, Some (
      OV5648_EXPOSURE_CTRL_HH_VALUE (ucast (reg_value dflt (hist s) OV5648_EXPOSURE_CTRL_HH_REG)) OR
      OV5648_EXPOSURE_CTRL_H_VALUE (ucast (reg_value dflt (hist s) OV5648_EXPOSURE_CTRL_H_REG)) OR
      OV5648_EXPOSURE_CTRL_L_VALUE (ucast (reg_value dflt (hist s) OV5648_EXPOSURE_CTRL_L_REG))), s')"
    and "emits bus_event s s'"
proof -
  obtain s1 where 1: "ov5648_read k OV5648_EXPOSURE_CTRL_HH_REG 0 s =
        (0, reg_value dflt (hist s) OV5648_EXPOSURE_CTRL_HH_REG, s1)"
      "emits bus_event s s1" "bus_image (hist s1) = bus_image (hist s)"
    using read_chain [OF assms] .
  obtain s2 where 2: "ov5648_read k OV5648_EXPOSURE_CTRL_H_REG 0 s1 =
        (0, reg_value dflt (hist s1) OV5648_EXPOSURE_CTRL_H_REG, s2)"
      "emits bus_event s1 s2" "bus_image (hist s2) = bus_image (hist s1)"
    using read_chain [OF assms] .
  obtain s3 where 3: "ov5648_read k OV5648_EXPOSURE_CTRL_L_REG 0 s2 =
        (0, reg_value dflt (hist s2) OV5648_EXPOSURE_CTRL_L_REG, s3)" "emits bus_event s2 s3"
    using read_chain [OF assms] .
  show ?thesis
  proof (rule that [of s3])
    show "emits bus_event s s3"
      using 1(2) 2(2) 3(2) by (blast intro: emits_trans)
  qed (simp add: ov5648_exposure_value_def 1 2 3 reg_value_cong [OF 1(3)]
      reg_value_cong [OF trans [OF 2(3) 1(3)]])
qed

lemma gain_value_regs:
  assumes "bus_ok k" and "regfile_recv k dflt"
  obtains s' where "ov5648_gain_value k s = (0, Some (
      OV5648_GAIN_CTRL_H_VALUE (ucast (reg_value dflt (hist s) OV5648_GAIN_CTRL_H_REG)) OR
      OV5648_GAIN_CTRL_L_VALUE (ucast (reg_value dflt (hist s) OV5648_GAIN_CTRL_L_REG))), s')"
    and "emits bus_event s s'"
proof -
  obtain s1 where 1: "ov5648_read k OV5648_GAIN_CTRL_H_REG 0 s =
        (0, reg_value dflt (hist s) OV5648_GAIN_CTRL_H_REG, s1)"
      "emits bus_event s s1" "bus_image (hist s1) = bus_image (hist s)"
    using read_chain [OF assms] .
  obtain s2 where 2: "ov5648_read k OV5648_GAIN_CTRL_L_REG 0 s1 =
        (0, reg_value dflt (hist s1) OV5648_GAIN_CTRL_L_REG, s2)" "emits bus_event s1 s2"
    using read_chain [OF assms] .
  show ?thesis
  proof (rule that [of s2])
    show "emits bus_event s s2"
      using 1(2) 2(2) by (blast intro: emits_trans)
  qed (simp add: ov5648_gain_value_def 1 2 reg_value_cong [OF 1(3)])
qed

lemma exposure_configure_image:
  assumes "ov5648_exposure_configure k v s = (0, s')"
  shows "bus_image (hist s') = (bus_image (hist s))
    (OV5648_EXPOSURE_CTRL_HH_REG \<mapsto> OV5648_EXPOSURE_CTRL_HH v,
     OV5648_EXPOSURE_CTRL_H_REG \<mapsto> OV5648_EXPOSURE_CTRL_H v,
     OV5648_EXPOSURE_CTRL_L_REG \<mapsto> OV5648_EXPOSURE_CTRL_L v)"
  using assms
  by (auto simp: ov5648_exposure_configure_def run_steps_Cons_0 ov5648_write_image
      simp del: fun_upd_apply split: if_splits)

lemma gain_configure_image:
  assumes "ov5648_gain_configure k v s = (0, s')"
  shows "bus_image (hist s') = (bus_image (hist s))
    (OV5648_GAIN_CTRL_H_REG \<mapsto> OV5648_GAIN_CTRL_H v,
     OV5648_GAIN_CTRL_L_REG \<mapsto> OV5648_GAIN_CTRL_L v)"
  using assms
  by (auto simp: ov5648_gain_configure_def run_steps_Cons_0 ov5648_write_image
      simp del: fun_upd_apply split: if_splits)

section \<open>Frames and success of the control operations\<close>

lemma emits_ov5648:
  assumes "emits P s s'"
  shows "ctrls s' = ctrls s" "mode s' = mode s" "mbus_code s' = mbus_code s"
    "streaming s' = streaming s" "num_data_lanes s' = num_data_lanes s"
    "link_frequencies s' = link_frequencies s" "avdd s' = avdd s"
  using assms by (auto simp: emits_def)

lemma ctrl_ops_ok [ok_rules]:
  assumes "bus_ok k"
  shows "fst (ov5648_exposure_auto_configure k b s) = 0"
    and "ctrl_val (ctrls s V4L2_CID_EXPOSURE_AUTO) = V4L2_EXPOSURE_MANUAL \<Longrightarrow>
           fst (ov5648_exposure_configure k v s) = 0"
    and "fst (ov5648_gain_auto_configure k b s) = 0"
    and "ctrl_val (ctrls s V4L2_CID_AUTOGAIN) = 0 \<Longrightarrow> fst (ov5648_gain_configure k v s) = 0"
    and "fst (ov5648_white_balance_auto_configure k b s) = 0"
    and "ctrl_val (ctrls s V4L2_CID_AUTO_WHITE_BALANCE) = 0 \<Longrightarrow>
           fst (ov5648_white_balance_configure k v w s) = 0"
    and "fst (ov5648_flip_vert_configure k b s) = 0"
    and "fst (ov5648_flip_horz_configure k b s) = 0"
    and "unat i < length ov5648_test_pattern_bits \<Longrightarrow>
           fst (ov5648_test_pattern_configure k i s) = 0"
  using assms by (auto simp: ctrl_op_defs Let_def intro!: run_steps_ok ok_rules)

text \<open>Two calls in sequence of which the first succeeds.\<close>

lemma run_steps_two:
  "f s = (0, s1) \<Longrightarrow> run_steps [f, g] s = g s1"
  by (cases "g s1") (simp add: run_steps.simps(2))

lemma step_ok:
  assumes "fst (f s) = 0" and "emits bus_event s (snd (f s))"
  obtains s1 where "f s = (0, s1)" and "emits bus_event s s1"
  using assms by (cases "f s") auto

lemma s_ctrl_exposure_manual:
  assumes "bus_ok k" and "\<not> rpm_suspended k (hist s)"
    and "ctrl_val (ctrls s V4L2_CID_EXPOSURE_AUTO) = V4L2_EXPOSURE_MANUAL"
    and "ctrl_is_new (ctrls s V4L2_CID_EXPOSURE)"
  obtains s1 s' where "ov5648_s_ctrl k V4L2_CID_EXPOSURE_AUTO s = (0, s')"
    and "ov5648_exposure_configure k (ctrl_u32 V4L2_CID_EXPOSURE s) s1 = (0, s')"
    and "emits bus_event s s'"
proof -
  obtain s1 where 1: "ov5648_exposure_auto_configure k False s = (0, s1)" "emits bus_event s s1"
    using step_ok ctrl_ops_ok(1) [OF assms(1)] ctrl_ops_emits(1) by metis
  note fr = emits_ov5648 [OF 1(2)]
  obtain s2 where 2: "ov5648_exposure_configure k (ctrl_u32 V4L2_CID_EXPOSURE s) s1 = (0, s2)"
      "emits bus_event s1 s2"
    using step_ok ctrl_ops_ok(2) [OF assms(1), of s1 "ctrl_u32 V4L2_CID_EXPOSURE s"]
      ctrl_ops_emits(2) assms(3) fr by metis
  show ?thesis
  proof (rule that)
    show "ov5648_s_ctrl k V4L2_CID_EXPOSURE_AUTO s = (0, s2)"
      using assms 1 2 fr by (simp add: ov5648_s_ctrl_def run_steps_two ctrl_u32_def)
    show "emits bus_event s s2"
      using 1(2) 2(2) by (rule emits_trans)
  qed (rule 2(1))
qed

lemma s_ctrl_gain_manual:
  assumes "bus_ok k" and "\<not> rpm_suspended k (hist s)"
    and "ctrl_val (ctrls s V4L2_CID_AUTOGAIN) = 0"
  obtains s1 s' where "ov5648_s_ctrl k V4L2_CID_AUTOGAIN s = (0, s')"
    and "ov5648_gain_configure k (ctrl_u32 V4L2_CID_GAIN s) s1 = (0, s')"
    and "emits bus_event s s'"
proof -
  obtain s1 where 1: "ov5648_gain_auto_configure k False s = (0, s1)" "emits bus_event s s1"
    using step_ok ctrl_ops_ok(3) [OF assms(1)] ctrl_ops_emits(3) by metis
  note fr = emits_ov5648 [OF 1(2)]
  obtain s2 where 2: "ov5648_gain_configure k (ctrl_u32 V4L2_CID_GAIN s) s1 = (0, s2)"
      "emits bus_event s1 s2"
    using step_ok ctrl_ops_ok(4) [OF assms(1), of s1 "ctrl_u32 V4L2_CID_GAIN s"]
      ctrl_ops_emits(4) assms(3) fr by metis
  show ?thesis
  proof (rule that)
    show "ov5648_s_ctrl k V4L2_CID_AUTOGAIN s = (0, s2)"
      using assms 1 2 fr by (simp add: ov5648_s_ctrl_def run_steps_two ctrl_u32_def)
    show "emits bus_event s s2"
      using 1(2) 2(2) by (rule emits_trans)
  qed (rule 2(1))
qed

lemma ctrl_u32_range:
  assumes "0 \<le> ctrl_val (ctrls s i)" and "ctrl_val (ctrls s i) < 2 ^ n" and "n < 32"
  shows "unat (ctrl_u32 i s) < 2 ^ n" and "sint (ctrl_u32 i s) = ctrl_val (ctrls s i)"
proof -
  have "(2 :: int) ^ n \<le> 2 ^ 31"
    using assms(3) by (intro power_increasing) auto
  with assms(2) have less: "ctrl_val (ctrls s i) < 2 ^ 31" by (rule less_le_trans)
  show "unat (ctrl_u32 i s) < 2 ^ n"
    using assms less
    by (simp add: ctrl_u32_def unsigned_of_int take_bit_int_eq_self nat_less_iff)
  show "sint (ctrl_u32 i s) = ctrl_val (ctrls s i)"
    using assms(1) less by (simp add: ctrl_u32_def signed_of_int signed_take_bit_int_eq_self)
qed

section \<open>State configuration\<close>

text \<open>The events of state configuration: bus traffic and control updates.\<close>

fun conf_event :: "kevent \<Rightarrow> bool" where
  "conf_event (CtrlSet _ _) = True"
| "conf_event e = bus_event e"

lemma bus_conf_event: "bus_event e \<Longrightarrow> conf_event e"
  by (cases e) auto

lemma conf_event_deltas [simp]:
  "conf_event e \<Longrightarrow> rail_delta r e = 0" "conf_event e \<Longrightarrow> clk_delta e = 0"
  "conf_event e \<Longrightarrow> pm_delta e = 0" "conf_event e \<Longrightarrow> lock_delta e = 0"
  by (cases e; simp)+

text \<open>
  What a configuration step may change: the history by such events, and the controls.
\<close>

definition configures :: "ov5648 \<Rightarrow> ov5648 \<Rightarrow> bool" where
  "configures s s' \<longleftrightarrow> s'\<lparr>hist := hist s, ctrls := ctrls s\<rparr> = s \<and> grows conf_event s s'"

lemma configures_refl [simp, intro]: "configures s s"
  by (simp add: configures_def)

lemma configures_trans [trans]: "configures a b \<Longrightarrow> configures b c \<Longrightarrow> configures a c"
  unfolding configures_def by (cases a; cases b; cases c) (auto intro: grows_trans)

lemma emits_configures: "emits bus_event s s' \<Longrightarrow> configures s s'"
  by (auto simp: configures_def emits_def grows_def list_all_iff bus_conf_event)

lemma configures_frame:
  assumes "configures s s'"
  shows "mode s' = mode s" "mbus_code s' = mbus_code s" "streaming s' = streaming s"
    "num_data_lanes s' = num_data_lanes s" "link_frequencies s' = link_frequencies s"
    "grows conf_event s s'"
  using assms by (cases s; cases s'; auto simp: configures_def)+

lemma ctrl_assign_configures: "configures s (ov5648_ctrl_assign k i v s)"
  by (simp add: configures_def ov5648_ctrl_assign_def emit_def grows_def)

lemma state_mipi_configures: "configures s (snd (ov5648_state_mipi_configure k m code s))"
  by (auto simp: ov5648_state_mipi_configure_def Let_def
      intro: configures_trans ctrl_assign_configures)

lemma state_mipi_configure_ret [ret_rules]: "fst (ov5648_state_mipi_configure k m code s) \<le> 0"
  by (simp add: ov5648_state_mipi_configure_def Let_def)

definition state_mode_step :: "kapi \<Rightarrow> ov5648_mode option \<Rightarrow> u32 \<Rightarrow> ov5648 op" where
  "state_mode_step k mp code s =
     (if rpm_enabled k (hist s) \<and> \<not> rpm_suspended k (hist s)
      then deref mp (\<lambda>m. ov5648_mode_configure k m code) s else (0, s))"

definition state_mipi_step :: "kapi \<Rightarrow> ov5648_mode option \<Rightarrow> u32 \<Rightarrow> ov5648 op" where
  "state_mipi_step k mp code s =
     (if \<not> code_8bit code \<and> \<not> code_10bit code then (- EINVAL, s)
      else deref mp (\<lambda>m. ov5648_state_mipi_configure k m code) s)"

lemma state_configure_steps:
  "ov5648_state_configure k mp code s =
     (if streaming s then (- EBUSY, s)
      else run_steps [state_mode_step k mp code, state_mipi_step k mp code,
             (\<lambda>s. (0, s\<lparr>mode := mp, mbus_code := code\<rparr>))] s)"
  by (simp add: ov5648_state_configure_def state_mode_step_def [abs_def] state_mipi_step_def [abs_def])

text \<open>With a mode to point to, neither step follows a NULL pointer.\<close>

lemma state_steps_configure:
  "configures s (snd (state_mode_step k (Some m) code s))"
  "configures s (snd (state_mipi_step k (Some m) code s))"
  by (simp_all add: state_mode_step_def state_mipi_step_def emits_configures
      ov5648_mode_configure_emits state_mipi_configures)

lemma state_steps_ret [ret_rules]:
  "fst (state_mode_step k mp code s) \<le> 0" "fst (state_mipi_step k mp code s) \<le> 0"
  by (auto simp: state_mode_step_def state_mipi_step_def deref_def split: option.splits
      intro: ret_rules)

lemma state_configure_ret [ret_rules]: "fst (ov5648_state_configure k mp code s) \<le> 0"
proof -
  have "fst (run_steps [state_mode_step k mp code, state_mipi_step k mp code,
      \<lambda>s. (0, s\<lparr>mode := mp, mbus_code := code\<rparr>)] s) \<le> 0"
    by (rule run_steps_nonpos) (auto simp: state_steps_ret)
  then show ?thesis by (simp add: state_configure_steps)
qed

lemma state_configure_cases:
  assumes "ov5648_state_configure k (Some m) code s = (r, s')"
  obtains (busy) "streaming s" and "r = - EBUSY" and "s' = s"
  | (failed) "\<not> streaming s" and "r < 0" and "configures s s'"
  | (ready) s1 where "\<not> streaming s" and "r = 0" and "configures s s1"
      and "s' = s1\<lparr>mode := Some m, mbus_code := code\<rparr>" and "code_8bit code \<or> code_10bit code"
proof (cases "streaming s")
  case True
  with assms have "r = - EBUSY" "s' = s"
    by (simp_all add: state_configure_steps)
  with True show ?thesis by (rule busy)
next
  case False
  obtain r1 s1 where 1: "state_mode_step k (Some m) code s = (r1, s1)"
    by (cases "state_mode_step k (Some m) code s")
  obtain r2 s2 where 2: "state_mipi_step k (Some m) code s1 = (r2, s2)"
    by (cases "state_mipi_step k (Some m) code s1")
  note eq = assms [unfolded state_configure_steps run_steps.simps(2) 1]
  have c1: "configures s s1" and c2: "configures s1 s2"
    using state_steps_configure [of s k m code] state_steps_configure [of s1 k m code] 1 2 by simp_all
  have n: "r1 \<le> 0" "r2 \<le> 0"
    using state_steps_ret [of k "Some m" code s] state_steps_ret [of k "Some m" code s1] 1 2
    by simp_all
  show ?thesis
  proof (cases "r1 = 0 \<and> r2 = 0")
    case True
    then have "r = 0" "s' = s2\<lparr>mode := Some m, mbus_code := code\<rparr>"
      using eq 2 False by simp_all
    moreover have "code_8bit code \<or> code_10bit code"
      using 2 True by (auto simp: state_mipi_step_def split: if_splits)
    ultimately show ?thesis
      using ready [OF False _ configures_trans [OF c1 c2]] by blast
  next
    case fail: False
    then have "r < 0" "s' = s1 \<or> s' = s2"
      using eq 2 False n by (auto split: if_splits)
    then show ?thesis
      using failed [OF False] c1 configures_trans [OF c1 c2] by blast
  qed
qed

lemma state_mipi_configure_native:
  assumes "m \<in> set ov5648_modes" and "code \<in> set ov5648_mbus_codes"
    and "clk_rate k (hist s) = OV5648_XVCLK_RATE"
  shows "ov5648_state_mipi_configure k m code s =
    (let rate = if code_8bit code then 168000000 else 210000000;
         s1 = (if rate \<in> set (link_frequencies s)
               then ov5648_ctrl_assign k V4L2_CID_LINK_FREQ (if code_8bit code then 1 else 0) s
               else s)
     in (0, ov5648_ctrl_assign k V4L2_CID_PIXEL_RATE
              (sint (rate * 2 * ucast (num_data_lanes s) div (if code_8bit code then 8 else 10) :: u64)) s1))"
proof -
  have miss: "find_index (\<lambda>f. f = x) fs = length fs \<longleftrightarrow> x \<notin> set fs" for x :: u64 and fs
    using find_index_le [of "\<lambda>f. f = x" fs] find_index_less [of "\<lambda>f. f = x" fs] by auto
  have lanes: "num_data_lanes (ov5648_ctrl_assign k i v s) = num_data_lanes s" for i v
    by (simp add: ov5648_ctrl_assign_def emit_def)
  have rate: "ov5648_mode_mipi_clk_rate k m code s = (if code_8bit code then 168000000 else 210000000)"
    by (simp add: mipi_clk_rate_native [OF assms(1,2)] assms(3))
  have ten: "code_10bit code" if "\<not> code_8bit code"
    using assms(2) that by (simp add: mbus_codes_cases)
  show ?thesis
    by (cases "code_8bit code")
      (simp_all add: ov5648_state_mipi_configure_def rate ten miss lanes ov5648_link_freq_menu_def Let_def)
qed

section \<open>Properties\<close>

text \<open>
  C31: setting a manual exposure in the declared range of the control and reading the volatile
  control back gives the same exposure, whatever the framework has cached meanwhile: the three
  exposure registers hold all of the 20 bits and nothing else of the control path loses them.
\<close>

theorem ov5648_exposure_roundtrip:
  assumes "bus_ok k" and "regfile_recv k dflt" and "\<not> rpm_suspended k (hist s)"
    and "ctrl_val (ctrls s V4L2_CID_EXPOSURE_AUTO) = V4L2_EXPOSURE_MANUAL"
    and "ctrl_is_new (ctrls s V4L2_CID_EXPOSURE)"
    and "0 \<le> ctrl_val (ctrls s V4L2_CID_EXPOSURE)"
    and "ctrl_val (ctrls s V4L2_CID_EXPOSURE) \<le> 1048575"
  shows "\<exists>s1. ov5648_s_ctrl k V4L2_CID_EXPOSURE_AUTO s = (0, s1) \<and>
    (\<exists>s2. ov5648_g_volatile_ctrl k V4L2_CID_EXPOSURE_AUTO (s1\<lparr>ctrls := cached\<rparr>) = (0, s2) \<and>
       ctrl_val (ctrls s2 V4L2_CID_EXPOSURE) = ctrl_val (ctrls s V4L2_CID_EXPOSURE))"
proof -
  obtain s0 s1 where 1: "ov5648_s_ctrl k V4L2_CID_EXPOSURE_AUTO s = (0, s1)"
      "ov5648_exposure_configure k (ctrl_u32 V4L2_CID_EXPOSURE s) s0 = (0, s1)"
    using s_ctrl_exposure_manual [OF assms(1,3,4,5)] by blast
  let ?v = "ctrl_u32 V4L2_CID_EXPOSURE s"
  have v: "unat ?v < 2 ^ 20" "sint ?v = ctrl_val (ctrls s V4L2_CID_EXPOSURE)"
    using ctrl_u32_range [of s V4L2_CID_EXPOSURE 20] assms(6,7) by simp_all
  have regs: "reg_value dflt (hist s1) OV5648_EXPOSURE_CTRL_HH_REG = OV5648_EXPOSURE_CTRL_HH ?v"
      "reg_value dflt (hist s1) OV5648_EXPOSURE_CTRL_H_REG = OV5648_EXPOSURE_CTRL_H ?v"
      "reg_value dflt (hist s1) OV5648_EXPOSURE_CTRL_L_REG = OV5648_EXPOSURE_CTRL_L ?v"
    by (simp_all add: exposure_configure_image [OF 1(2)] reg_value_image)
  obtain s2 where "ov5648_exposure_value k (s1\<lparr>ctrls := cached\<rparr>) = (0, Some ?v, s2)"
    using exposure_value_regs [OF assms(1,2), of "s1\<lparr>ctrls := cached\<rparr>"]
    by (auto simp: regs exposure_fields [OF v(1)])
  with 1 v(2) show ?thesis
    by (simp add: ov5648_g_volatile_ctrl_def)
qed

definition ov5648_example_manual :: ov5648 where
  "ov5648_example_manual = ov5648_example\<lparr>ctrls := (\<lambda>i. \<lparr>ctrl_val =
     (if i = V4L2_CID_EXPOSURE_AUTO then 1 else if i = V4L2_CID_EXPOSURE then 70000
      else if i = V4L2_CID_GAIN then 1008 else 0),
     ctrl_minimum = 0, ctrl_maximum = 1048575, ctrl_step = 1,
     ctrl_default = 0, ctrl_is_new = True, ctrl_flags = 0\<rparr>)\<rparr>"

theorem ov5648_exposure_roundtrip_witness:
  "\<exists>s1. ov5648_s_ctrl (ideal (\<lambda>_. 0)) V4L2_CID_EXPOSURE_AUTO ov5648_example_manual = (0, s1) \<and>
    (\<exists>s2. ov5648_g_volatile_ctrl (ideal (\<lambda>_. 0)) V4L2_CID_EXPOSURE_AUTO
        (s1\<lparr>ctrls := ctrls ov5648_example\<rparr>) = (0, s2) \<and>
       ctrl_val (ctrls s2 V4L2_CID_EXPOSURE) = 70000)"
  using ov5648_exposure_roundtrip [of "ideal (\<lambda>_. 0)" "\<lambda>_. 0" ov5648_example_manual
      "ctrls ov5648_example"]
  by (simp add: ov5648_example_manual_def)

text \<open>
  the same round trip for a manual gain of the declared range (ten bits in two registers).
\<close>

theorem ov5648_gain_roundtrip:
  assumes "bus_ok k" and "regfile_recv k dflt" and "\<not> rpm_suspended k (hist s)"
    and "ctrl_val (ctrls s V4L2_CID_AUTOGAIN) = 0"
    and "0 \<le> ctrl_val (ctrls s V4L2_CID_GAIN)" and "ctrl_val (ctrls s V4L2_CID_GAIN) \<le> 1023"
  shows "\<exists>s1. ov5648_s_ctrl k V4L2_CID_AUTOGAIN s = (0, s1) \<and>
    (\<exists>s2. ov5648_g_volatile_ctrl k V4L2_CID_AUTOGAIN (s1\<lparr>ctrls := cached\<rparr>) = (0, s2) \<and>
       ctrl_val (ctrls s2 V4L2_CID_GAIN) = ctrl_val (ctrls s V4L2_CID_GAIN))"
proof -
  obtain s0 s1 where 1: "ov5648_s_ctrl k V4L2_CID_AUTOGAIN s = (0, s1)"
      "ov5648_gain_configure k (ctrl_u32 V4L2_CID_GAIN s) s0 = (0, s1)"
    using s_ctrl_gain_manual [OF assms(1,3,4)] by blast
  let ?v = "ctrl_u32 V4L2_CID_GAIN s"
  have v: "unat ?v < 2 ^ 10" "sint ?v = ctrl_val (ctrls s V4L2_CID_GAIN)"
    using ctrl_u32_range [of s V4L2_CID_GAIN 10] assms(5,6) by simp_all
  have regs: "reg_value dflt (hist s1) OV5648_GAIN_CTRL_H_REG = OV5648_GAIN_CTRL_H ?v"
      "reg_value dflt (hist s1) OV5648_GAIN_CTRL_L_REG = OV5648_GAIN_CTRL_L ?v"
    by (simp_all add: gain_configure_image [OF 1(2)] reg_value_image)
  obtain s2 where "ov5648_gain_value k (s1\<lparr>ctrls := cached\<rparr>) = (0, Some ?v, s2)"
    using gain_value_regs [OF assms(1,2), of "s1\<lparr>ctrls := cached\<rparr>"]
    by (auto simp: regs gain_fields [OF v(1)])
  with 1 v(2) show ?thesis
    by (simp add: ov5648_g_volatile_ctrl_def)
qed

theorem ov5648_gain_roundtrip_witness:
  "\<exists>s1. ov5648_s_ctrl (ideal (\<lambda>_. 0)) V4L2_CID_AUTOGAIN ov5648_example_manual = (0, s1) \<and>
    (\<exists>s2. ov5648_g_volatile_ctrl (ideal (\<lambda>_. 0)) V4L2_CID_AUTOGAIN
        (s1\<lparr>ctrls := ctrls ov5648_example\<rparr>) = (0, s2) \<and>
       ctrl_val (ctrls s2 V4L2_CID_GAIN) = 1008)"
  using ov5648_gain_roundtrip [of "ideal (\<lambda>_. 0)" "\<lambda>_. 0" ov5648_example_manual
      "ctrls ov5648_example"]
  by (simp add: ov5648_example_manual_def)

lemma update_bits_regs:
  assumes "ov5648_update_bits k a m b s = (0, s')" and "regfile_recv k dflt"
  shows "reg_value dflt (hist s') x =
    (if x = a then (reg_value dflt (hist s) a AND NOT m) OR b else reg_value dflt (hist s) x)"
proof -
  obtain v where "bus_image (hist s') = (bus_image (hist s))(a \<mapsto> (v AND NOT m) OR b)"
    and "v = reg_value dflt (hist s) a"
    using ov5648_update_bits_image [OF assms(1)] assms(2) by metis
  then show ?thesis by (simp add: reg_value_def)
qed

text \<open>
  a flip control that returns zero changes exactly the two flip bits of its timing register,
  to the value of the control; the binning and debug bits that \<open>ov5648_mode_configure\<close> keeps in
  the same registers and every other register stay as they are.
\<close>

theorem ov5648_s_ctrl_flip:
  assumes "\<not> rpm_suspended k (hist s)" and "regfile_recv k dflt"
    and "(cid, a) = (V4L2_CID_HFLIP, OV5648_TC21_REG) \<or> (cid, a) = (V4L2_CID_VFLIP, OV5648_TC20_REG)"
    and "ov5648_s_ctrl k cid s = (0, s')"
  shows "bit (reg_value dflt (hist s') x) i =
    (if x = a \<and> (i = 1 \<or> i = 2) then ctrl_val (ctrls s cid) \<noteq> 0
     else bit (reg_value dflt (hist s) x) i)"
proof -
  let ?on = "ctrl_val (ctrls s cid) \<noteq> 0"
  have m: "ov5648_update_bits k a (BIT 2 OR BIT 1) (if ?on then BIT 2 OR BIT 1 else 0) s = (0, s')"
    using assms(1,3,4)
    by (auto simp: ov5648_s_ctrl_def ov5648_flip_horz_configure_def ov5648_flip_vert_configure_def
        Let_def)
  show ?thesis
    unfolding update_bits_regs [OF m assms(2)]
    by (auto simp: bit_simps dest: bit_imp_le_length)
qed

theorem ov5648_s_ctrl_flip_witness:
  "bit (reg_value (\<lambda>_. 0x41) (hist (snd (ov5648_s_ctrl (ideal (\<lambda>_. 0x41)) V4L2_CID_HFLIP
     ov5648_example))) OV5648_TC21_REG) 1"
proof -
  have "ov5648_s_ctrl (ideal (\<lambda>_. 0x41)) V4L2_CID_HFLIP ov5648_example =
      (0, snd (ov5648_s_ctrl (ideal (\<lambda>_. 0x41)) V4L2_CID_HFLIP ov5648_example))"
    by (intro ok_pair) (simp add: ov5648_s_ctrl_def ctrl_ops_ok)
  from ov5648_s_ctrl_flip [OF _ _ _ this, of "\<lambda>_. 0x41" OV5648_TC21_REG OV5648_TC21_REG 1]
  show ?thesis by (simp add: ov5648_example_def)
qed

text \<open>The controls the driver acts on: the cluster masters and the stand-alone controls.\<close>

definition ov5648_ctrl_ids :: "u32 list" where
  "ov5648_ctrl_ids = [V4L2_CID_EXPOSURE_AUTO, V4L2_CID_AUTOGAIN, V4L2_CID_AUTO_WHITE_BALANCE,
     V4L2_CID_HFLIP, V4L2_CID_VFLIP, V4L2_CID_TEST_PATTERN]"

text \<open>
  \<open>ov5648_s_ctrl\<close> touches nothing while the device is suspended, refuses a control that is not
  one of the six it knows and a test pattern past the end of the bit table with -EINVAL and no bus
  traffic, and otherwise only exchanges messages with the sensor, never changing the driver state.
\<close>

theorem ov5648_s_ctrl_guards:
  "(rpm_suspended k (hist s) \<longrightarrow> ov5648_s_ctrl k i s = (0, s)) \<and>
   (\<not> rpm_suspended k (hist s) \<and> i \<notin> set ov5648_ctrl_ids \<longrightarrow> ov5648_s_ctrl k i s = (- EINVAL, s)) \<and>
   (\<not> rpm_suspended k (hist s) \<and> i = V4L2_CID_TEST_PATTERN \<and>
      6 \<le> ctrl_val (ctrls s i) mod 2 ^ 32 \<longrightarrow>
      ov5648_s_ctrl k i s = (- EINVAL, s)) \<and>
   emits bus_event s (snd (ov5648_s_ctrl k i s))"
proof (intro conjI impI)
  show "emits bus_event s (snd (ov5648_s_ctrl k i s))"
    by (rule ov5648_s_ctrl_emits)
  show "ov5648_s_ctrl k i s = (- EINVAL, s)"
    if "\<not> rpm_suspended k (hist s) \<and> i = V4L2_CID_TEST_PATTERN \<and>
      6 \<le> ctrl_val (ctrls s i) mod 2 ^ 32"
  proof -
    have "6 \<le> unat (word_of_int (ctrl_val (ctrls s i)) :: u32)"
      using that by (auto simp: unsigned_of_int take_bit_eq_mod le_nat_iff)
    then show ?thesis
      using that by (simp add: ov5648_s_ctrl_def ov5648_test_pattern_configure_def
          ov5648_test_pattern_bits_def)
  qed
qed (auto simp: ov5648_s_ctrl_def ov5648_ctrl_ids_def)

theorem ov5648_s_ctrl_guards_witness:
  "ov5648_s_ctrl (ideal (\<lambda>_. 0)) V4L2_CID_GAIN ov5648_example = (- EINVAL, ov5648_example)"
  using ov5648_s_ctrl_guards [of "ideal (\<lambda>_. 0)" ov5648_example V4L2_CID_GAIN]
  by (simp add: ov5648_ctrl_ids_def)

text \<open>
  C14: \<open>ov5648_state_configure\<close> on a mode refuses with -EBUSY and changes nothing while streaming;
  when it fails otherwise the active mode and bus code are still the old ones; when it succeeds
  they are the new ones, the code is one of the eight supported codes, and streaming stays off.
\<close>

theorem ov5648_state_configure_atomic:
  assumes "ov5648_state_configure k (Some m) code s = (r, s')"
  shows "r \<le> 0 \<and> streaming s' = streaming s \<and>
    (streaming s \<longrightarrow> r = - EBUSY \<and> s' = s) \<and>
    (r \<noteq> 0 \<longrightarrow> mode s' = mode s \<and> mbus_code s' = mbus_code s) \<and>
    (r = 0 \<longrightarrow> \<not> streaming s \<and> mode s' = Some m \<and> mbus_code s' = code \<and>
       code \<in> set ov5648_mbus_codes)"
  using assms
proof (cases rule: state_configure_cases)
  case busy
  then show ?thesis by simp
next
  case failed
  then show ?thesis using configures_frame [OF failed(3)] by simp
next
  case (ready s1)
  then show ?thesis using configures_frame [OF ready(3)] by (simp add: mbus_codes_cases)
qed

theorem ov5648_state_configure_atomic_witness:
  "fst (ov5648_state_configure (ideal (\<lambda>_. 0)) (Some ov5648_mode_640x480)
       MEDIA_BUS_FMT_SGRBG10_1X10 (ov5648_example\<lparr>streaming := True\<rparr>)) = - EBUSY"
  using ov5648_state_configure_atomic [OF prod.collapse [symmetric], of "ideal (\<lambda>_. 0)"
      ov5648_mode_640x480 MEDIA_BUS_FMT_SGRBG10_1X10 "ov5648_example\<lparr>streaming := True\<rparr>"]
  by simp

text \<open>
  with the 24 MHz clock, \<open>ov5648_state_mipi_configure\<close> succeeds for every mode, supported code
  and lane count up to four; it selects the link-frequency menu entry that equals the MIPI clock
  exactly when the device tree lists that frequency, and announces a pixel rate of 42 MHz per
  lane, the same for 8 and 10 bits, with no overflow on the way.
\<close>

theorem ov5648_state_mipi_rates:
  assumes "m \<in> set ov5648_modes" and "code \<in> set ov5648_mbus_codes"
    and "clk_rate k (hist s) = OV5648_XVCLK_RATE" and "num_data_lanes s \<le> 4"
  shows "fst (ov5648_state_mipi_configure k m code s) = 0 \<and>
    (\<exists>i < length ov5648_link_freq_menu.
    ov5648_link_freq_menu ! i = ov5648_mode_mipi_clk_rate k m code s \<and>
    hist (snd (ov5648_state_mipi_configure k m code s)) = hist s @
      (if ov5648_link_freq_menu ! i \<in> set (link_frequencies s)
       then [CtrlSet V4L2_CID_LINK_FREQ (int i)] else []) @
      [CtrlSet V4L2_CID_PIXEL_RATE (42000000 * uint (num_data_lanes s))])"
proof -
  let ?i = "if code_8bit code then 1 else 0 :: nat"
  have "unat (num_data_lanes s) \<le> 4"
    using assms(4) by (simp add: word_le_nat_alt)
  then have cases: "num_data_lanes s \<in> {0, 1, 2, 3, 4}"
    by (auto simp: word_unat_eq_iff)
  have rate: "ov5648_mode_mipi_clk_rate k m code s = (if code_8bit code then 168000000 else 210000000)"
    by (simp add: mipi_clk_rate_native [OF assms(1,2)] assms(3))
  have pix: "sint ((if code_8bit code then 168000000 else 210000000) * 2 * ucast (num_data_lanes s) div
      (if code_8bit code then 8 else 10) :: u64) = 42000000 * uint (num_data_lanes s)"
    using cases by auto
  show ?thesis
    by (intro conjI exI [of _ ?i])
      (simp_all add: state_mipi_configure_native [OF assms(1-3)] pix rate ov5648_link_freq_menu_def
        ov5648_ctrl_assign_def Let_def)
qed

theorem ov5648_state_mipi_rates_witness:
  "fst (ov5648_state_mipi_configure (ideal (\<lambda>_. 0)) ov5648_mode_2592x1944
     MEDIA_BUS_FMT_SBGGR8_1X8 ov5648_example) = 0"
  using ov5648_state_mipi_rates [of ov5648_mode_2592x1944 MEDIA_BUS_FMT_SBGGR8_1X8
      "ideal (\<lambda>_. 0)" ov5648_example]
  by (simp add: ov5648_example_def)

end
