(* ===== verification/Ov5648_Power.thy ===== *)
theory Ov5648_Power
  imports Ov5648_Ctrl Runtime
begin

text \<open>
  Power and streaming of the OV5648 driver: \<open>ov5648_sensor_init\<close>, \<open>ov5648_sensor_power\<close>, the
  runtime-PM callbacks and \<open>ov5648_s_stream\<close>.  The block of \<^verbatim>\<open>ov5648.c\<close> under \<^verbatim>\<open>#if 0\<close> (an older
  \<^verbatim>\<open>stream_on\<close>/\<^verbatim>\<open>stream_off\<close>) is not compiled and not modelled.

  The lemmas give the order of the power-up events, the balance of the supplies, and what streaming
  leaves of the usage count, the lock and the stream register.
\<close>

section \<open>Operations\<close>

definition ov5648_sensor_init :: "kapi \<Rightarrow> ov5648 op" where
  "ov5648_sensor_init k s = run_steps [
     ov5648_sw_reset k,
     ov5648_sw_standby k True,
     ov5648_chip_id_check k,
     (\<lambda>s. ov5648_avdd_internal_power k (avdd s = NullPtr) s),
     ov5648_write_sequence k ov5648_init_sequence,
     ov5648_pad_configure k,
     ov5648_mipi_configure k,
     ov5648_isp_configure k,
     ov5648_black_level_configure k,
     (\<lambda>s. ov5648_state_configure k (mode s) (mbus_code s) s)] s"

text \<open>The body of \<^verbatim>\<open>if (on)\<close>, up to the first \<^verbatim>\<open>goto disable\<close>, and the code at the label.\<close>

definition ov5648_power_up :: "kapi \<Rightarrow> ov5648 op" where
  "ov5648_power_up k = run_steps [
     act (emit (GpioSet GPIO_RESET True)),
     act (emit (GpioSet GPIO_POWERDOWN True)),
     regulator_enable k DOVDD,
     (\<lambda>s. if avdd s \<noteq> NullPtr then regulator_enable k AVDD s else (0, s)),
     regulator_enable k DVDD,
     act (emit (UsleepRange 5000 10000)),
     clk_prepare_enable k,
     act (emit (GpioSet GPIO_RESET False)),
     act (emit (GpioSet GPIO_POWERDOWN False)),
     act (emit (UsleepRange 20000 25000)),
     ov5648_sensor_init k]"

definition ov5648_power_down :: "ov5648 \<Rightarrow> ov5648" where
  "ov5648_power_down s =
     (let s = emit (GpioSet GPIO_POWERDOWN True) s;
          s = emit (GpioSet GPIO_RESET True) s;
          s = emit ClkDisableUnprepare s;
          s = emit (RegulatorDisable DVDD) s;
          s = (if avdd s \<noteq> NullPtr then emit (RegulatorDisable AVDD) s else s)
      in emit (RegulatorDisable DOVDD) s)"

definition ov5648_sensor_power :: "kapi \<Rightarrow> bool \<Rightarrow> ov5648 op" where
  "ov5648_sensor_power k on s =
     (if on then let (ret, s) = ov5648_power_up k s
                 in if ret \<noteq> 0 then (ret, ov5648_power_down s) else (0, s)
      else (0, ov5648_power_down s))"

definition ov5648_suspend :: "kapi \<Rightarrow> ov5648 op" where
  "ov5648_suspend k s =
     (let s = emit MutexLock s;
          (ret, s) = (if streaming s then ov5648_sw_standby k True s else (0, s));
          (ret, s) =
            (if ret \<noteq> 0 then (ret, s)
             else let (ret, s) = ov5648_sensor_power k False s
                  in (ret, if ret \<noteq> 0 then snd (ov5648_sw_standby k False s) else s))
      in (ret, emit MutexUnlock s))"

definition ov5648_resume :: "kapi \<Rightarrow> ov5648 kcb \<Rightarrow> ov5648 op" where
  "ov5648_resume k c s =
     (let s = emit MutexLock s;
          (ret, s) = ov5648_sensor_power k True s;
          (ret, s) =
            (if ret \<noteq> 0 then (ret, s)
             else let (ret, s) = run_steps [
                        v4l2_ctrl_handler_setup c (ov5648_s_ctrl k),
                        (\<lambda>s. if streaming s then ov5648_sw_standby k False s else (0, s))] s
                  in (ret, if ret \<noteq> 0 then snd (ov5648_sensor_power k False s) else s))
      in (ret, emit MutexUnlock s))"

definition ov5648_s_stream :: "kapi \<Rightarrow> ov5648 kcb \<Rightarrow> bool \<Rightarrow> ov5648 op" where
  "ov5648_s_stream k c enable s =
     (let (ret, s) = (if enable then pm_runtime_get_sync c (ov5648_resume k c) s else (0, s))
      in if enable \<and> ret < 0 then (ret, emit PmPutNoidle s)
      else let s = emit MutexLock s;
               (ret, s) = ov5648_sw_standby k (\<not> enable) s;
               s = emit MutexUnlock s
      in if ret \<noteq> 0 then (ret, s)
      else let s = s\<lparr>streaming := enable\<rparr>;
               s = (if \<not> enable then pm_runtime_put c (ov5648_suspend k) s else s)
      in (0, s))"

section \<open>Sensor initialisation\<close>

text \<open>
  Initialisation changes the history by bus traffic, control updates and, if the driver has no
  mode, the fault of following its NULL pointer; and the controls.
\<close>

definition quiet_event :: "kevent \<Rightarrow> bool" where
  "quiet_event e \<longleftrightarrow> conf_event e \<or> e = NullDeref"

lemma quiet_event_deltas [simp]:
  "quiet_event e \<Longrightarrow> supply_delta x e = 0" "quiet_event e \<Longrightarrow> pm_delta e = 0"
  "quiet_event e \<Longrightarrow> lock_delta e = 0"
  by (cases x; auto simp: quiet_event_def) (auto simp: quiet_event_def)

definition inits :: "ov5648 \<Rightarrow> ov5648 \<Rightarrow> bool" where
  "inits s s' \<longleftrightarrow> s'\<lparr>hist := hist s, ctrls := ctrls s\<rparr> = s \<and> grows quiet_event s s'"

lemma inits_refl [simp, intro]: "inits s s"
  by (simp add: inits_def)

lemma inits_trans [trans]: "inits a b \<Longrightarrow> inits b c \<Longrightarrow> inits a c"
  unfolding inits_def by (cases a; cases b; cases c) (auto intro: grows_trans)

lemma configures_inits: "configures s s' \<Longrightarrow> inits s s'"
  by (auto simp: configures_def inits_def quiet_event_def intro: grows_mono)

lemma emits_inits: "emits bus_event s s' \<Longrightarrow> inits s s'"
  by (intro configures_inits emits_configures)

lemma inits_frame:
  assumes "inits s s'"
  shows "mode s' = mode s" "mbus_code s' = mbus_code s" "streaming s' = streaming s"
    "avdd s' = avdd s" "grows quiet_event s s'"
  using assms by (cases s; cases s'; auto simp: inits_def)+

lemma state_configure_inits:
  "inits s (snd (ov5648_state_configure k (mode s) (mbus_code s) s))"
proof (cases "mode s")
  case None
  then show ?thesis
    by (auto simp: state_configure_steps state_mode_step_def state_mipi_step_def deref_def
        run_steps.simps(2) inits_def quiet_event_def emit_def grows_def)
next
  case (Some m)
  obtain r s' where sc: "ov5648_state_configure k (Some m) (mbus_code s) s = (r, s')"
    by (cases "ov5648_state_configure k (Some m) (mbus_code s) s")
  then show ?thesis
  proof (cases rule: state_configure_cases)
    case busy
    then show ?thesis using sc Some by simp
  next
    case failed
    then show ?thesis using sc Some by (simp add: configures_inits)
  next
    case (ready s1)
    have "s' = s1"
      using ready(4) configures_frame [OF ready(3)] Some by (cases s1) simp
    then show ?thesis using sc Some ready by (simp add: configures_inits)
  qed
qed

lemma sensor_init_inits: "inits s (snd (ov5648_sensor_init k s))"
  unfolding ov5648_sensor_init_def
  by (rule run_steps_rel [where R = inits])
    (auto intro: inits_trans emits_inits emits_rules state_configure_inits)

text \<open>The steps before the state is configured only talk to the sensor.\<close>

definition sensor_setup_steps :: "kapi \<Rightarrow> ov5648 op list" where
  "sensor_setup_steps k = [
     ov5648_sw_reset k,
     ov5648_sw_standby k True,
     ov5648_chip_id_check k,
     (\<lambda>s. ov5648_avdd_internal_power k (avdd s = NullPtr) s),
     ov5648_write_sequence k ov5648_init_sequence,
     ov5648_pad_configure k,
     ov5648_mipi_configure k,
     ov5648_isp_configure k,
     ov5648_black_level_configure k]"

lemma sensor_setup_emits: "emits bus_event s (snd (run_steps (sensor_setup_steps k) s))"
  by (rule emits_run_steps) (auto simp: sensor_setup_steps_def intro: emits_rules)

lemma run_steps_one [simp]: "run_steps [f] s = f s"
  by (cases "f s") (simp add: run_steps.simps(2))

lemma sensor_init_split:
  "ov5648_sensor_init k s =
     (let (ret, s1) = run_steps (sensor_setup_steps k) s
      in if ret \<noteq> 0 then (ret, s1) else ov5648_state_configure k (mode s1) (mbus_code s1) s1)"
proof -
  have "ov5648_sensor_init k s = run_steps (sensor_setup_steps k @
      [\<lambda>s. ov5648_state_configure k (mode s) (mbus_code s) s]) s"
    by (simp add: ov5648_sensor_init_def sensor_setup_steps_def)
  then show ?thesis
    by (cases "run_steps (sensor_setup_steps k) s") (simp add: run_steps_append)
qed

lemma sensor_init_0:
  assumes "ov5648_sensor_init k s = (0, s')"
  obtains s1 where "emits bus_event s s1"
    and "ov5648_state_configure k (mode s) (mbus_code s) s1 = (0, s')"
proof -
  obtain r s1 where 1: "run_steps (sensor_setup_steps k) s = (r, s1)"
    by (cases "run_steps (sensor_setup_steps k) s")
  with assms have "ov5648_state_configure k (mode s1) (mbus_code s1) s1 = (0, s')"
    by (auto simp: sensor_init_split split: if_splits)
  moreover have "emits bus_event s s1"
    using sensor_setup_emits [of s k] 1 by simp
  ultimately show ?thesis
    using that emits_ov5648 [of bus_event s s1] by simp
qed

lemma sensor_init_streaming:
  assumes "streaming s" shows "fst (ov5648_sensor_init k s) \<noteq> 0"
proof
  assume "fst (ov5648_sensor_init k s) = 0"
  then obtain s' where "ov5648_sensor_init k s = (0, s')"
    by (cases "ov5648_sensor_init k s") simp
  then obtain s1 where "emits bus_event s s1"
      "ov5648_state_configure k (mode s) (mbus_code s) s1 = (0, s')"
    by (rule sensor_init_0)
  then show False
    using assms emits_ov5648(4) [of bus_event s s1] by (simp add: state_configure_steps)
qed

lemma state_configure_None: "fst (ov5648_state_configure k None code s) \<noteq> 0"
  by (auto simp: state_configure_steps state_mode_step_def state_mipi_step_def deref_def
      run_steps.simps(2))

section \<open>The power sequence\<close>

definition power_up_trace :: "bool \<Rightarrow> kevent list" where
  "power_up_trace has_avdd =
     [GpioSet GPIO_RESET True, GpioSet GPIO_POWERDOWN True, RegulatorEnable DOVDD 0] @
     (if has_avdd then [RegulatorEnable AVDD 0] else []) @
     [RegulatorEnable DVDD 0, UsleepRange 5000 10000, ClkPrepareEnable 0,
      GpioSet GPIO_RESET False, GpioSet GPIO_POWERDOWN False, UsleepRange 20000 25000]"

lemma power_up_0:
  assumes "ov5648_power_up k s = (0, s')"
  obtains s1 where "s1 = s\<lparr>hist := hist s @ power_up_trace (avdd s \<noteq> NullPtr)\<rparr>"
    and "ov5648_sensor_init k s1 = (0, s')"
proof -
  have "\<exists>s1. s1 = s\<lparr>hist := hist s @ power_up_trace (avdd s \<noteq> NullPtr)\<rparr> \<and>
      ov5648_sensor_init k s1 = (0, s')"
    using assms
    by (auto simp: ov5648_power_up_def run_steps_Cons_0 regulator_enable_def clk_prepare_enable_def
        Let_def emit_def power_up_trace_def split: if_splits)
  then show ?thesis using that by blast
qed

lemma power_up_avdd: "ov5648_power_up k s = (r, s') \<Longrightarrow> avdd s' = avdd s"
proof -
  have "avdd (snd (ov5648_power_up k s)) = avdd s"
    unfolding ov5648_power_up_def
    by (rule run_steps_rel [where R = "\<lambda>s s'. avdd s' = avdd s"])
      (auto simp: act_def regulator_enable_def clk_prepare_enable_def Let_def emit_def
        inits_frame [OF sensor_init_inits])
  then show "ov5648_power_up k s = (r, s') \<Longrightarrow> avdd s' = avdd s" by simp
qed

lemma power_down_upd:
  "ov5648_power_down s = s\<lparr>hist := hist s @
     [GpioSet GPIO_POWERDOWN True, GpioSet GPIO_RESET True, ClkDisableUnprepare, RegulatorDisable DVDD] @
     (if avdd s \<noteq> NullPtr then [RegulatorDisable AVDD] else []) @ [RegulatorDisable DOVDD]\<rparr>"
  by (simp add: ov5648_power_down_def emit_def)

section \<open>The supplies\<close>

definition ov5648_draws :: "ov5648 \<Rightarrow> supplies \<Rightarrow> bool" where
  "ov5648_draws s x \<longleftrightarrow> (case x of Clock \<Rightarrow> True
     | Rail r \<Rightarrow> (case r of AVDD \<Rightarrow> avdd s \<noteq> NullPtr | BULK \<Rightarrow> False | _ \<Rightarrow> True))"

lemma level_upd: "level x (s\<lparr>hist := hist s @ es\<rparr>) = level x s + balance (supply_delta x) es"
  by (simp add: level_def)

lemma power_down_level:
  "level x (ov5648_power_down s) = level x s - (if ov5648_draws s x then 1 else 0)"
  unfolding power_down_upd level_upd
  by (cases x) (auto simp: ov5648_draws_def split: rail.splits)

lemma power_up_level:
  assumes "ov5648_power_up k s = (0, s')"
  shows "level x s' = level x s + (if ov5648_draws s x then 1 else 0)"
proof -
  obtain s1 where s1: "s1 = s\<lparr>hist := hist s @ power_up_trace (avdd s \<noteq> NullPtr)\<rparr>"
    and init: "ov5648_sensor_init k s1 = (0, s')"
    using power_up_0 [OF assms] by blast
  have "grows quiet_event s1 s'"
    using inits_frame(5) [OF sensor_init_inits [of s1 k]] init by simp
  then have "level x s' = level x s1"
    by (rule grows_level) simp
  also have "\<dots> = level x s + balance (supply_delta x) (power_up_trace (avdd s \<noteq> NullPtr))"
    unfolding s1 level_upd by simp
  also have "balance (supply_delta x) (power_up_trace (avdd s \<noteq> NullPtr)) =
      (if ov5648_draws s x then 1 else 0)"
    by (cases x) (auto simp: power_up_trace_def ov5648_draws_def split: rail.splits)
  finally show ?thesis .
qed

lemma sensor_power_off [simp]: "ov5648_sensor_power k False s = (0, ov5648_power_down s)"
  by (simp add: ov5648_sensor_power_def)

lemma sensor_power_on_cases:
  assumes "ov5648_sensor_power k True s = (r, s')"
  obtains (up) "ov5648_power_up k s = (0, s')" and "r = 0"
  | (failed) s1 where "ov5648_power_up k s = (r, s1)" and "r \<noteq> 0" and "s' = ov5648_power_down s1"
  using assms by (cases "ov5648_power_up k s") (auto simp: ov5648_sensor_power_def split: if_splits)

interpretation ov5648_power: power_pair "ov5648_sensor_power k True"
  "\<lambda>s. snd (ov5648_sensor_power k False s)" ov5648_draws for k
proof unfold_locales
  fix s s' :: ov5648 and x r
  show "level x s' = level x s + (if ov5648_draws s x then 1 else 0)"
    if "ov5648_sensor_power k True s = (0, s')"
    using that by (cases rule: sensor_power_on_cases) (simp_all add: power_up_level)
  show "ov5648_draws s' = ov5648_draws s" if "ov5648_sensor_power k True s = (r, s')"
    using that by (cases rule: sensor_power_on_cases)
      (auto simp: ov5648_draws_def fun_eq_iff power_down_upd dest: power_up_avdd
        split: supplies.splits rail.splits)
  show "level x (snd (ov5648_sensor_power k False s)) = level x s - (if ov5648_draws s x then 1 else 0)"
    by (simp add: power_down_level)
qed

section \<open>What power management keeps\<close>

text \<open>The framework's own steps: it may update the controls.\<close>

definition ctrl_step_rel :: "ov5648 \<Rightarrow> ov5648 \<Rightarrow> bool" where
  "ctrl_step_rel s s' \<longleftrightarrow> (\<exists>cs. s' = s\<lparr>ctrls := cs\<rparr>)"

text \<open>
  \<open>neutral\<close>: the usage count, the lock and the driver state are as before, and no NULL pointer has
  been followed unless the driver had no mode.
\<close>

definition neutral :: "ov5648 \<Rightarrow> ov5648 \<Rightarrow> bool" where
  "neutral s s' \<longleftrightarrow>
     (mode s \<noteq> None \<longrightarrow> NullDeref \<in> set (hist s') \<longrightarrow> NullDeref \<in> set (hist s)) \<and>
     balance pm_delta (hist s') = balance pm_delta (hist s) \<and>
     balance lock_delta (hist s') = balance lock_delta (hist s) \<and>
     streaming s' = streaming s \<and> mode s' = mode s \<and> mbus_code s' = mbus_code s \<and> avdd s' = avdd s"

lemma neutral_refl [simp, intro]: "neutral s s"
  by (simp add: neutral_def)

lemma neutral_trans [trans]: "neutral a b \<Longrightarrow> neutral b c \<Longrightarrow> neutral a c"
  by (auto simp: neutral_def)

lemma inits_neutral:
  assumes "inits s s'" and "mode s = None \<or> configures s s'"
  shows "neutral s s'"
proof -
  have "NullDeref \<notin> set (hist s')" if "configures s s'" "NullDeref \<notin> set (hist s)"
    using that configures_frame(6) [of s s']
    by (auto simp: grows_def list_all_iff dest: bspec [of _ _ NullDeref])
  then show ?thesis
    unfolding neutral_def using inits_frame [OF assms(1)] assms(2)
    by (auto intro: grows_balance [of quiet_event])
qed

lemma emits_neutral: "emits bus_event s s' \<Longrightarrow> neutral s s'"
  by (simp add: inits_neutral emits_inits emits_configures)

lemma sensor_init_neutral: "neutral s (snd (ov5648_sensor_init k s))"
proof (rule inits_neutral [OF sensor_init_inits])
  obtain r s1 where 1: "run_steps (sensor_setup_steps k) s = (r, s1)"
    by (cases "run_steps (sensor_setup_steps k) s")
  have e: "emits bus_event s s1" using sensor_setup_emits [of s k] 1 by simp
  have "configures s1 (snd (ov5648_state_configure k (mode s1) (mbus_code s1) s1))"
    if m: "mode s1 = Some m" for m
  proof -
    obtain r' s' where sc: "ov5648_state_configure k (Some m) (mbus_code s1) s1 = (r', s')"
      by (cases "ov5648_state_configure k (Some m) (mbus_code s1) s1")
    then show ?thesis
    proof (cases rule: state_configure_cases)
      case (ready s2)
      then have "s' = s2" using configures_frame [OF ready(3)] m by (cases s2) simp
      then show ?thesis using sc m ready by simp
    qed (simp_all add: sc m)
  qed
  then show "mode s = None \<or> configures s (snd (ov5648_sensor_init k s))"
    using 1 e emits_ov5648(2) [OF e] emits_configures [OF e]
    by (cases "mode s") (auto simp: sensor_init_split intro: configures_trans)
qed

lemma emit_neutral: "pm_delta e = 0 \<Longrightarrow> lock_delta e = 0 \<Longrightarrow> e \<noteq> NullDeref \<Longrightarrow> neutral s (emit e s)"
  by (auto simp: neutral_def emit_def)

lemma power_up_neutral: "neutral s (snd (ov5648_power_up k s))"
  unfolding ov5648_power_up_def
  by (rule run_steps_rel [where R = neutral])
    (auto simp: act_def regulator_enable_def clk_prepare_enable_def Let_def emit_neutral
      intro: neutral_trans sensor_init_neutral)

lemma power_down_neutral: "neutral s (ov5648_power_down s)"
  by (simp add: power_down_upd neutral_def)

lemma sensor_power_neutral: "neutral s (snd (ov5648_sensor_power k on s))"
proof (cases on)
  case True
  obtain r s1 where up: "ov5648_power_up k s = (r, s1)"
    by (cases "ov5648_power_up k s")
  then have "neutral s s1" using power_up_neutral [of s k] by simp
  with True up show ?thesis
    by (auto simp: ov5648_sensor_power_def intro: neutral_trans power_down_neutral)
next
  case False
  then show ?thesis by (simp add: power_down_neutral)
qed

lemma setup_neutral:
  assumes "setup_spec ctrl_step_rel c"
  shows "neutral s (snd (v4l2_ctrl_handler_setup c (ov5648_s_ctrl k) s))"
proof -
  let ?s = "emit CtrlHandlerSetup s"
  have "cb_runs ctrl_step_rel (ov5648_s_ctrl k) ?s (snd (ctrl_setup c (ov5648_s_ctrl k) ?s))"
    using assms by (simp add: setup_spec_def)
  then have "neutral ?s (snd (ctrl_setup c (ov5648_s_ctrl k) ?s))"
    by (rule cb_runs_rel)
      (auto simp: ctrl_step_rel_def neutral_def [of _ "_\<lparr>ctrls := _\<rparr>"]
        intro: neutral_trans emits_neutral ov5648_s_ctrl_emits)
  moreover have "neutral s ?s" by (rule emit_neutral) simp_all
  ultimately show ?thesis
    unfolding v4l2_ctrl_handler_setup_def by (blast intro: neutral_trans)
qed

lemma locked_neutral:
  "neutral (emit MutexLock s) s' \<Longrightarrow> neutral s (emit MutexUnlock s')"
  by (simp add: neutral_def; simp add: emit_def)

lemma resume_neutral:
  assumes "setup_spec ctrl_step_rel c"
  shows "neutral s (snd (ov5648_resume k c s))"
proof -
  let ?steps = "[v4l2_ctrl_handler_setup c (ov5648_s_ctrl k),
    \<lambda>s. if streaming s then ov5648_sw_standby k False s else (0, s)]"
  obtain r s1 where 1: "ov5648_sensor_power k True (emit MutexLock s) = (r, s1)"
    by (cases "ov5648_sensor_power k True (emit MutexLock s)")
  obtain r2 s2 where 2: "run_steps ?steps s1 = (r2, s2)"
    by (cases "run_steps ?steps s1")
  have n1: "neutral (emit MutexLock s) s1"
    using sensor_power_neutral [of "emit MutexLock s" k True] 1 by simp
  have "neutral s1 (snd (run_steps ?steps s1))"
    by (rule run_steps_rel [where R = neutral])
      (auto intro: neutral_trans setup_neutral [OF assms] emits_neutral [OF sensor_ops_emits(2)])
  with 2 have n2: "neutral s1 s2" by simp
  show ?thesis
    unfolding ov5648_resume_def
    using 1 2 n1 n2 power_down_neutral [of s2]
    by (auto simp: Let_def intro!: locked_neutral intro: neutral_trans)
qed

lemma suspend_neutral: "neutral s (snd (ov5648_suspend k s))"
proof -
  obtain r s1 where 1: "(if streaming (emit MutexLock s) then ov5648_sw_standby k True (emit MutexLock s)
      else (0, emit MutexLock s)) = (r, s1)"
    by (cases "if streaming (emit MutexLock s) then ov5648_sw_standby k True (emit MutexLock s)
      else (0, emit MutexLock s)")
  then have "neutral (emit MutexLock s) s1"
    using emits_neutral [OF sensor_ops_emits(2), of "emit MutexLock s" k True]
    by (auto split: if_splits)
  then show ?thesis
    unfolding ov5648_suspend_def
    using 1 power_down_neutral [of s1]
    by (auto simp: Let_def intro!: locked_neutral intro: neutral_trans)
qed

lemma pm_get_neutral:
  assumes "pm_spec c" and "setup_spec ctrl_step_rel c"
  shows "neutral s (snd (pm_get c (ov5648_resume k c) s))"
  by (rule pm_get_cases [OF assms(1), of "ov5648_resume k c" s])
    (auto simp: resume_neutral [OF assms(2)])

lemma pm_put_neutral:
  assumes "pm_spec c"
  shows "neutral s (pm_put c (ov5648_suspend k) s)"
  by (rule pm_put_cases [OF assms, of "ov5648_suspend k" s]) (auto simp: suspend_neutral)

text \<open>The cases of \<open>ov5648_s_stream\<close>.\<close>

lemma s_stream_on_cases:
  assumes "ov5648_s_stream k c True s = (r, s')"
  obtains (no_power) s1 where "pm_get c (ov5648_resume k c) (emit PmGetSync s) = (r, s1)"
      and "r < 0" and "s' = emit PmPutNoidle s1"
  | (no_stream) r1 s1 s2 where "pm_get c (ov5648_resume k c) (emit PmGetSync s) = (r1, s1)"
      and "0 \<le> r1" and "ov5648_sw_standby k False (emit MutexLock s1) = (r, s2)" and "r \<noteq> 0"
      and "s' = emit MutexUnlock s2"
  | (on) r1 s1 s2 where "pm_get c (ov5648_resume k c) (emit PmGetSync s) = (r1, s1)"
      and "0 \<le> r1" and "ov5648_sw_standby k False (emit MutexLock s1) = (0, s2)" and "r = 0"
      and "s' = (emit MutexUnlock s2)\<lparr>streaming := True\<rparr>"
proof -
  obtain r1 s1 where 1: "pm_get c (ov5648_resume k c) (emit PmGetSync s) = (r1, s1)"
    by (cases "pm_get c (ov5648_resume k c) (emit PmGetSync s)")
  obtain r2 s2 where 2: "ov5648_sw_standby k False (emit MutexLock s1) = (r2, s2)"
    by (cases "ov5648_sw_standby k False (emit MutexLock s1)")
  note eq = assms [unfolded ov5648_s_stream_def pm_runtime_get_sync_def]
  consider "r1 < 0" | "0 \<le> r1" "r2 \<noteq> 0" | "0 \<le> r1" "r2 = 0" by linarith
  then show ?thesis
  proof cases
    case 1
    then have "r = r1" "s' = emit PmPutNoidle s1"
      using eq \<open>pm_get c (ov5648_resume k c) (emit PmGetSync s) = (r1, s1)\<close> by simp_all
    then show ?thesis
      using no_power 1 \<open>pm_get c (ov5648_resume k c) (emit PmGetSync s) = (r1, s1)\<close> by blast
  next
    case fail: 2
    then have "r = r2" "s' = emit MutexUnlock s2"
      using eq 1 2 by simp_all
    then show ?thesis using no_stream 1 2 fail by blast
  next
    case 3
    then have "r = 0" "s' = (emit MutexUnlock s2)\<lparr>streaming := True\<rparr>"
      using eq 1 2 by simp_all
    then show ?thesis using on 1 2 3 by blast
  qed
qed

lemma s_stream_off_cases:
  assumes "ov5648_s_stream k c False s = (r, s')"
  obtains (failed) s2 where "ov5648_sw_standby k True (emit MutexLock s) = (r, s2)" and "r \<noteq> 0"
      and "s' = emit MutexUnlock s2"
  | (off) s2 where "ov5648_sw_standby k True (emit MutexLock s) = (0, s2)" and "r = 0"
      and "s' = pm_put c (ov5648_suspend k) (emit PmPut ((emit MutexUnlock s2)\<lparr>streaming := False\<rparr>))"
  using assms
  by (cases "ov5648_sw_standby k True (emit MutexLock s)")
    (auto simp: ov5648_s_stream_def pm_runtime_put_def Let_def split: if_splits)

section \<open>Success on a working board\<close>

text \<open>
  A board on which the sensor answers: every message is acknowledged, registers read back, the
  identification registers hold the OV5648's, supplies and the 24 MHz clock come up.
\<close>

definition ov5648_board :: "kapi \<Rightarrow> (u16 \<Rightarrow> u8) \<Rightarrow> bool" where
  "ov5648_board k dflt \<longleftrightarrow> bus_ok k \<and> regfile_recv k dflt \<and>
     dflt OV5648_CHIP_ID_H_REG = OV5648_CHIP_ID_H_VALUE \<and>
     dflt OV5648_CHIP_ID_L_REG = OV5648_CHIP_ID_L_VALUE \<and>
     (\<forall>h. clk_rate k h = OV5648_XVCLK_RATE) \<and>
     (\<forall>h r. regulator_ret k h r = 0) \<and> (\<forall>h. clk_ret k h = 0)"

text \<open>The driver has a mode of its table and a supported code.\<close>

definition ov5648_wf :: "ov5648 \<Rightarrow> bool" where
  "ov5648_wf s \<longleftrightarrow> (\<exists>m \<in> set ov5648_modes. mode s = Some m) \<and> mbus_code s \<in> set ov5648_mbus_codes"

text \<open>Nothing has been written to the identification registers.\<close>

definition ids_intact :: "'a kstate_scheme \<Rightarrow> bool" where
  "ids_intact s \<longleftrightarrow> bus_image (hist s) OV5648_CHIP_ID_H_REG = None \<and>
     bus_image (hist s) OV5648_CHIP_ID_L_REG = None"

lemma chip_id_check_ok:
  assumes "ov5648_board k dflt" and "ids_intact s"
  shows "fst (ov5648_chip_id_check k s) = 0"
proof -
  note b = assms(1) [unfolded ov5648_board_def] and i = assms(2) [unfolded ids_intact_def]
  have bus: "bus_ok k" "regfile_recv k dflt" using b by simp_all
  obtain s1 where 1: "ov5648_read k OV5648_CHIP_ID_H_REG 0 s =
      (0, reg_value dflt (hist s) OV5648_CHIP_ID_H_REG, s1)" "bus_image (hist s1) = bus_image (hist s)"
    using read_chain [OF bus] .
  obtain s2 where 2: "ov5648_read k OV5648_CHIP_ID_L_REG 0 s1 =
      (0, reg_value dflt (hist s1) OV5648_CHIP_ID_L_REG, s2)"
    using read_chain [OF bus] .
  show ?thesis
    using 1 2 b i by (simp add: ov5648_chip_id_check_def ov5648_check_ids.simps(2) reg_value_def)
qed

lemma state_configure_ok:
  assumes "ov5648_board k dflt" and "m \<in> set ov5648_modes" and "code \<in> set ov5648_mbus_codes"
    and "\<not> streaming s"
  shows "fst (ov5648_state_configure k (Some m) code s) = 0"
proof -
  note b = assms(1) [unfolded ov5648_board_def]
  have 1: "fst (state_mode_step k (Some m) code t) = 0" for t
    using ov5648_mode_configure_ok [of k code m t] b assms(3) by (simp add: state_mode_step_def)
  have 2: "fst (state_mipi_step k (Some m) code t) = 0" for t
    using state_mipi_configure_native [of m code k t] b assms(2,3)
    by (auto simp: state_mipi_step_def mbus_codes_cases Let_def)
  have "fst (run_steps [state_mode_step k (Some m) code, state_mipi_step k (Some m) code,
      \<lambda>s. (0, s\<lparr>mode := Some m, mbus_code := code\<rparr>)] s) = 0"
    by (rule run_steps_ok) (auto simp: 1 2)
  then show ?thesis
    using assms(4) by (simp add: state_configure_steps)
qed

lemma sensor_setup_ok:
  assumes "ov5648_board k dflt" and "ids_intact s"
  shows "fst (run_steps (sensor_setup_steps k) s) = 0"
proof -
  have bus: "bus_ok k" using assms(1) by (simp add: ov5648_board_def)
  obtain s1 where 1: "ov5648_sw_reset k s = (0, s1)"
    using ok_pair [OF sensor_ops_ok(1) [OF bus]] by blast
  obtain s2 where 2: "ov5648_sw_standby k True s1 = (0, s2)"
    using ok_pair [OF sensor_ops_ok(2) [OF bus]] by blast
  have "ids_intact s2"
    using assms(2) unfolding ids_intact_def
    by (simp add: ov5648_write_image [OF 1 [unfolded ov5648_sw_reset_def]]
        ov5648_write_image [OF 2 [unfolded ov5648_sw_standby_def]])
  then obtain s3 where 3: "ov5648_chip_id_check k s2 = (0, s3)"
    using ok_pair [OF chip_id_check_ok [OF assms(1)]] by blast
  have "fst (run_steps (drop 3 (sensor_setup_steps k)) s3) = 0"
    by (rule run_steps_ok)
      (auto simp: sensor_setup_steps_def sensor_ops_ok [OF bus] ov5648_write_sequence_ok [OF bus])
  then show ?thesis
    by (simp add: sensor_setup_steps_def 1 2 3 run_steps.simps(2) [of "ov5648_sw_reset k"]
        run_steps.simps(2) [of "ov5648_sw_standby k True"]
        run_steps.simps(2) [of "ov5648_chip_id_check k"])
qed

lemma power_on_ok:
  assumes "ov5648_board k dflt" and "ids_intact s" and "ov5648_wf s" and "\<not> streaming s"
  shows "fst (ov5648_sensor_power k True s) = 0"
proof -
  let ?s = "s\<lparr>hist := hist s @ power_up_trace (avdd s \<noteq> NullPtr)\<rparr>"
  have up: "ov5648_power_up k s = ov5648_sensor_init k ?s"
    using assms(1) unfolding ov5648_board_def
    by (simp add: ov5648_power_up_def run_steps.simps(2) act_def regulator_enable_def
        clk_prepare_enable_def Let_def emit_def power_up_trace_def split: prod.split)
  have "ids_intact ?s"
    using assms(2) by (simp add: ids_intact_def power_up_trace_def)
  then obtain s1 where s1: "run_steps (sensor_setup_steps k) ?s = (0, s1)"
    using ok_pair [OF sensor_setup_ok [OF assms(1)]] by blast
  then have "emits bus_event ?s s1"
    using sensor_setup_emits [of ?s k] by simp
  note fr = emits_ov5648 [OF this]
  obtain m where "mode s = Some m" "m \<in> set ov5648_modes" "mbus_code s \<in> set ov5648_mbus_codes"
    using assms(3) by (auto simp: ov5648_wf_def)
  then have "fst (ov5648_state_configure k (mode s1) (mbus_code s1) s1) = 0"
    using state_configure_ok [OF assms(1), of m "mbus_code s" s1] fr assms(4) by simp
  then have "fst (ov5648_power_up k s) = 0"
    by (simp add: up sensor_init_split s1)
  then show ?thesis
    by (cases "ov5648_power_up k s") (simp add: ov5648_sensor_power_def)
qed

lemma state_mipi_image:
  "bus_image (hist (snd (ov5648_state_mipi_configure k m code s))) = bus_image (hist s)"
  by (auto simp: ov5648_state_mipi_configure_def ov5648_ctrl_assign_def Let_def)

lemma state_configure_decodes:
  assumes "ov5648_state_configure k (Some m) code s = (0, s')"
    and "m \<in> set ov5648_modes" and "code \<in> set ov5648_mbus_codes"
    and "rpm_enabled k (hist s)" and "\<not> rpm_suspended k (hist s)"
  shows "mode_decoded (bus_image (hist s')) m code"
proof -
  have st: "\<not> streaming s"
    using assms(1) by (auto simp: state_configure_steps)
  obtain s1 where 1: "ov5648_mode_configure k m code s = (0, s1)"
    and 2: "run_steps [state_mipi_step k (Some m) code,
      \<lambda>s. (0, s\<lparr>mode := Some m, mbus_code := code\<rparr>)] s1 = (0, s')"
    using assms(1,4,5) st unfolding state_configure_steps
    by (auto simp: run_steps_Cons_0 [of "state_mode_step k (Some m) code"] state_mode_step_def)
  obtain s2 where 3: "ov5648_state_mipi_configure k m code s1 = (0, s2)" and "hist s' = hist s2"
    using 2 assms(3) by (auto simp: run_steps_Cons_0 state_mipi_step_def mbus_codes_cases)
  then have "bus_image (hist s') = bus_image (hist s1)"
    using state_mipi_image [of k m code s1] by simp
  then show ?thesis
    using mode_configure_registers(3) [OF 1 assms(2,3)] by simp
qed

lemma power_up_decodes:
  assumes "ov5648_power_up k s = (0, s')" and "m \<in> set ov5648_modes" and "mode s = Some m"
    and "mbus_code s \<in> set ov5648_mbus_codes"
    and "\<And>es. rpm_enabled k (hist s @ es) \<and> \<not> rpm_suspended k (hist s @ es)"
  shows "mode_decoded (bus_image (hist s')) m (mbus_code s)"
proof -
  obtain s1 where s1: "s1 = s\<lparr>hist := hist s @ power_up_trace (avdd s \<noteq> NullPtr)\<rparr>"
    and init: "ov5648_sensor_init k s1 = (0, s')"
    using power_up_0 [OF assms(1)] by blast
  obtain s2 where "emits bus_event s1 s2" and "ov5648_state_configure k (mode s1) (mbus_code s1) s2 = (0, s')"
    using sensor_init_0 [OF init] by blast
  then have c: "ov5648_state_configure k (Some m) (mbus_code s) s2 = (0, s')" and "\<exists>es. hist s2 = hist s @ es"
    using assms(3) by (auto simp: s1 emits_def)
  then have "rpm_enabled k (hist s2)" "\<not> rpm_suspended k (hist s2)" using assms(5) by auto
  then show ?thesis
    by (rule state_configure_decodes [OF c assms(2,4)])
qed

definition ov5648_ids :: "u16 \<Rightarrow> u8" where
  "ov5648_ids a = (if a = OV5648_CHIP_ID_H_REG then OV5648_CHIP_ID_H_VALUE
     else if a = OV5648_CHIP_ID_L_REG then OV5648_CHIP_ID_L_VALUE else 0)"

lemma ideal_board [simp]: "ov5648_board (ideal ov5648_ids) ov5648_ids"
  by (simp add: ov5648_board_def) (simp add: ov5648_ids_def)

lemma example_wf [simp]: "ov5648_wf ov5648_example" "ids_intact ov5648_example"
  "\<not> streaming ov5648_example"
  by (simp_all add: ov5648_wf_def ov5648_example_def ids_intact_def bus_image_def)

section \<open>Properties\<close>

text \<open>
  a successful power-on performs the documented sequence and nothing else before the first
  register access: reset and power-down asserted, DOVDD, AVDD when there is one, DVDD, 5 ms, the
  clock, both lines released, 20 ms; after that only sensor traffic and control updates follow.
\<close>

theorem ov5648_power_on_sequence:
  assumes "ov5648_sensor_power k True s = (0, s')"
  shows "\<exists>es. hist s' = hist s @ power_up_trace (avdd s \<noteq> NullPtr) @ es \<and> list_all conf_event es"
  using assms
proof (cases rule: sensor_power_on_cases)
  case up
  then obtain s1 where s1: "s1 = s\<lparr>hist := hist s @ power_up_trace (avdd s \<noteq> NullPtr)\<rparr>"
    and init: "ov5648_sensor_init k s1 = (0, s')"
    using power_up_0 by blast
  obtain s2 where s2: "emits bus_event s1 s2"
    and sc: "ov5648_state_configure k (mode s1) (mbus_code s1) s2 = (0, s')"
    using sensor_init_0 [OF init] by blast
  then obtain m where m: "mode s1 = Some m"
    using state_configure_None [of k "mbus_code s1" s2] by (cases "mode s1") auto
  have "grows conf_event s2 s'"
    using sc [unfolded m]
    by (cases rule: state_configure_cases) (auto dest: configures_frame(6) simp: grows_def)
  moreover have "grows conf_event s1 s2"
    using configures_frame(6) [OF emits_configures [OF s2]] .
  ultimately have "grows conf_event s1 s'"
    by (blast intro: grows_trans)
  then show ?thesis
    by (auto simp: grows_def s1)
qed simp

theorem ov5648_power_on_sequence_witness:
  "\<exists>es. hist (snd (ov5648_sensor_power (ideal ov5648_ids) True ov5648_example)) =
     hist ov5648_example @ power_up_trace (avdd ov5648_example \<noteq> NullPtr) @ es \<and> list_all conf_event es"
  by (rule ov5648_power_on_sequence [OF ok_pair]) (rule power_on_ok [OF ideal_board]; simp)

text \<open>
  C34: on a working board, one where the bus, the supplies and the clock do not fail, the clock has its rate, registers
  read back what was written to them and the sensor identifies itself, with identification registers that nothing has
  written, power-on succeeds whenever the driver holds a mode of its table and a supported code and is not streaming;
  the mode, the code and the streaming flag are unchanged, the mutex and the runtime references are balanced.
  When runtime power management is enabled and does not count the device as suspended from then on, which is when the
  driver writes a mode at all, the sensor is left programmed with exactly that mode: the timing, the binning bits and
  the sub-sampling increments decode to its fields, and the registers of both PLLs hold its configuration for the code.
\<close>

theorem ov5648_power_on_restores_mode:
  assumes "ov5648_board k dflt" and "ids_intact s" and "ov5648_wf s" and "\<not> streaming s"
  shows "\<exists>s' m. ov5648_sensor_power k True s = (0, s') \<and> mode s = Some m \<and> mode s' = Some m \<and>
    mbus_code s' = mbus_code s \<and> neutral s s' \<and>
    ((\<forall>es. rpm_enabled k (hist s @ es) \<and> \<not> rpm_suspended k (hist s @ es)) \<longrightarrow>
       mode_decoded (bus_image (hist s')) m (mbus_code s))"
proof -
  obtain s' where on: "ov5648_sensor_power k True s = (0, s')"
    using ok_pair [OF power_on_ok [OF assms(1-4)]] by blast
  then have up: "ov5648_power_up k s = (0, s')"
    by (cases rule: sensor_power_on_cases) simp_all
  obtain m where m: "mode s = Some m" "m \<in> set ov5648_modes"
      "mbus_code s \<in> set ov5648_mbus_codes"
    using assms(3) by (auto simp: ov5648_wf_def)
  have "mode_decoded (bus_image (hist s')) m (mbus_code s)"
    if "\<forall>es. rpm_enabled k (hist s @ es) \<and> \<not> rpm_suspended k (hist s @ es)"
    by (rule power_up_decodes [OF up m(2,1,3)]) (use that in simp)
  moreover have "neutral s s'"
    using sensor_power_neutral [of s k True] on by simp
  ultimately show ?thesis
    using on m by (auto simp: neutral_def)
qed

theorem ov5648_power_on_restores_mode_witness:
  "\<exists>s' m. ov5648_sensor_power (ideal ov5648_ids) True ov5648_example = (0, s') \<and>
    mode ov5648_example = Some m \<and> mode s' = Some m \<and>
    mbus_code s' = mbus_code ov5648_example \<and> mode_decoded (bus_image (hist s')) m (mbus_code ov5648_example)"
proof -
  have "\<forall>es. rpm_enabled (ideal ov5648_ids) (hist ov5648_example @ es) \<and>
      \<not> rpm_suspended (ideal ov5648_ids) (hist ov5648_example @ es)" by simp
  with ov5648_power_on_restores_mode [OF ideal_board, of ov5648_example] show ?thesis by auto
qed

text \<open>
  after a successful power-on and any work that only talks to the sensor or updates controls,
  power-off returns every supply and the clock to the level before: no enable is left over and no
  disable is in excess.
\<close>

theorem ov5648_power_cycle:
  assumes "ov5648_sensor_power k True s = (0, s1)" and "inits s1 s2"
    and "ov5648_sensor_power k False s2 = (r, s')"
  shows "r = 0 \<and> level x s' = level x s"
proof -
  have "ov5648_draws s2 = ov5648_draws s1"
    using inits_frame(4) [OF assms(2)]
    by (auto simp: ov5648_draws_def fun_eq_iff split: supplies.splits rail.splits)
  then show ?thesis
    using ov5648_power.cycle [OF assms(1) inits_frame(5) [OF assms(2)]] assms(3) by simp
qed

theorem ov5648_power_cycle_witness:
  "level (Rail DVDD) (snd (ov5648_sensor_power (ideal ov5648_ids) False
     (snd (ov5648_sensor_power (ideal ov5648_ids) True ov5648_example)))) =
   level (Rail DVDD) ov5648_example"
  using ov5648_power_cycle [OF ok_pair [OF power_on_ok [OF ideal_board, of ov5648_example]]
      inits_refl prod.collapse [symmetric]]
  by simp

text \<open>
  when the very first supply fails to come up, the error path runs the whole power-off
  sequence: the clock and the digital core supply, which were never enabled, end up disabled once
  too often.
\<close>

theorem ov5648_power_on_excess_disable:
  assumes "regulator_ret k (hist s @ [GpioSet GPIO_RESET True, GpioSet GPIO_POWERDOWN True]) DOVDD = e"
    and "e \<noteq> 0"
  shows "fst (ov5648_sensor_power k True s) = e \<and>
    level Clock (snd (ov5648_sensor_power k True s)) = level Clock s - 1 \<and>
    level (Rail DVDD) (snd (ov5648_sensor_power k True s)) = level (Rail DVDD) s - 1 \<and>
    level (Rail DOVDD) (snd (ov5648_sensor_power k True s)) = level (Rail DOVDD) s - 1"
proof -
  let ?s1 = "s\<lparr>hist := hist s @ [GpioSet GPIO_RESET True, GpioSet GPIO_POWERDOWN True,
    RegulatorEnable DOVDD e]\<rparr>"
  have "ov5648_power_up k s = (e, ?s1)"
    using assms by (simp add: ov5648_power_up_def run_steps.simps(2) act_def regulator_enable_def
        Let_def emit_def)
  then have "ov5648_sensor_power k True s = (e, ov5648_power_down ?s1)"
    using assms(2) by (simp add: ov5648_sensor_power_def)
  then show ?thesis
    using assms(2) unfolding power_down_level [of _ ?s1] level_upd
    by (simp add: power_down_level level_upd ov5648_draws_def)
qed

theorem ov5648_power_on_excess_disable_witness:
  "level Clock (snd (ov5648_sensor_power ((ideal ov5648_ids)\<lparr>regulator_ret := (\<lambda>h r. - 5)\<rparr>) True
     ov5648_example)) = - 1"
  using ov5648_power_on_excess_disable [of "(ideal ov5648_ids)\<lparr>regulator_ret := (\<lambda>h r. - 5)\<rparr>"
      ov5648_example "- 5"]
  by (simp add: level_def ov5648_example_def)

text \<open>
  a runtime resume that finds the driver marked as streaming never succeeds, because the
  state it wants to reprogram is refused with -EBUSY; the branch that restarts the stream is never
  taken.  A failed resume leaves the lock released and the driver state as it was.
\<close>

theorem ov5648_resume_streaming_fails:
  assumes "streaming s" and "setup_spec ctrl_step_rel c"
  shows "fst (ov5648_resume k c s) \<noteq> 0 \<and> neutral s (snd (ov5648_resume k c s))"
proof
  show "neutral s (snd (ov5648_resume k c s))"
    by (rule resume_neutral [OF assms(2)])
  have str: "streaming (emit MutexLock s)"
    using assms(1) by (simp add: emit_def)
  obtain r s1 where on: "ov5648_sensor_power k True (emit MutexLock s) = (r, s1)"
    by (cases "ov5648_sensor_power k True (emit MutexLock s)")
  have "r \<noteq> 0"
  proof
    assume "r = 0"
    with on have "ov5648_power_up k (emit MutexLock s) = (0, s1)"
      by (auto elim: sensor_power_on_cases)
    then obtain s2 where s2: "s2 = (emit MutexLock s)\<lparr>hist := hist (emit MutexLock s) @
          power_up_trace (avdd (emit MutexLock s) \<noteq> NullPtr)\<rparr>"
      and init: "ov5648_sensor_init k s2 = (0, s1)"
      using power_up_0 by blast
    have "streaming s2" using str by (simp add: s2)
    from sensor_init_streaming [OF this, of k] init show False by simp
  qed
  then show "fst (ov5648_resume k c s) \<noteq> 0"
    using on by (simp add: ov5648_resume_def Let_def)
qed

theorem ov5648_resume_streaming_fails_witness:
  "fst (ov5648_resume (ideal ov5648_ids) (ideal_cb ov5648_ctrl_ids (\<lambda>i v s. s))
     (ov5648_example\<lparr>streaming := True\<rparr>)) \<noteq> 0"
  using ov5648_resume_streaming_fails [of "ov5648_example\<lparr>streaming := True\<rparr>"
      "ideal_cb ov5648_ctrl_ids (\<lambda>i v s. s)" "ideal ov5648_ids"]
  by simp

lemma standby_neutral: "ov5648_sw_standby k b s = (r, s') \<Longrightarrow> neutral s s'"
  using emits_neutral [OF sensor_ops_emits(2), of s k b] by simp

text \<open>
  \<open>ov5648_s_stream\<close> releases the lock it takes on every path, sets the streaming flag to the
  request exactly when it returns zero, and then has taken (start) or given back (stop) exactly one
  runtime-PM reference.
\<close>

theorem ov5648_s_stream_success:
  assumes "pm_spec c" and "setup_spec ctrl_step_rel c"
    and "ov5648_s_stream k c enable s = (r, s')"
  shows "balance lock_delta (hist s') = balance lock_delta (hist s) \<and>
    streaming s' = (if r = 0 then enable else streaming s) \<and>
    (r = 0 \<longrightarrow> balance pm_delta (hist s') = balance pm_delta (hist s) + (if enable then 1 else - 1))"
proof (cases enable)
  case True
  have "ov5648_s_stream k c True s = (r, s')" using assms(3) True by simp
  then show ?thesis
  proof (cases rule: s_stream_on_cases)
    case (no_power s1)
    then have "neutral (emit PmGetSync s) s1"
      using pm_get_neutral [OF assms(1,2), of "emit PmGetSync s" k] by simp
    then show ?thesis using no_power by (simp add: neutral_def; simp add: emit_def)
  next
    case (no_stream r1 s1 s2)
    then have "neutral (emit PmGetSync s) s1" "neutral (emit MutexLock s1) s2"
      using pm_get_neutral [OF assms(1,2), of "emit PmGetSync s" k] standby_neutral by auto
    then show ?thesis using no_stream by (simp add: neutral_def; simp add: emit_def)
  next
    case (on r1 s1 s2)
    then have "neutral (emit PmGetSync s) s1" "neutral (emit MutexLock s1) s2"
      using pm_get_neutral [OF assms(1,2), of "emit PmGetSync s" k] standby_neutral by auto
    then show ?thesis using on True by (simp add: neutral_def; simp add: emit_def)
  qed
next
  case False
  have "ov5648_s_stream k c False s = (r, s')" using assms(3) False by simp
  then show ?thesis
  proof (cases rule: s_stream_off_cases)
    case (failed s2)
    then have "neutral (emit MutexLock s) s2" using standby_neutral by blast
    then show ?thesis using failed by (simp add: neutral_def; simp add: emit_def)
  next
    case (off s2)
    let ?t = "emit PmPut ((emit MutexUnlock s2)\<lparr>streaming := False\<rparr>)"
    have "neutral (emit MutexLock s) s2" using off standby_neutral by blast
    moreover have "neutral ?t s'"
      using off pm_put_neutral [OF assms(1), of ?t k] by simp
    ultimately show ?thesis using off False by (simp add: neutral_def; simp add: emit_def)
  qed
qed

theorem ov5648_s_stream_success_witness:
  "balance lock_delta (hist (snd (ov5648_s_stream (ideal ov5648_ids)
     (ideal_cb ov5648_ctrl_ids (\<lambda>i v s. s)) True ov5648_example))) =
   balance lock_delta (hist ov5648_example)"
  using ov5648_s_stream_success [OF _ _ prod.collapse [symmetric], of
      "ideal_cb ov5648_ctrl_ids (\<lambda>i v s. s)" "ideal ov5648_ids" True ov5648_example]
  by simp

text \<open>
  starting the stream and failing to power up gives the runtime-PM reference back; failing at
  the stream register after a successful power-up keeps it: the driver returns an error, is not
  streaming, and still holds the device active.
\<close>

theorem ov5648_s_stream_failure_reference:
  assumes "pm_spec c" and "setup_spec ctrl_step_rel c"
    and "ov5648_s_stream k c True s = (r, s')" and "r \<noteq> 0"
  shows "balance pm_delta (hist s') = balance pm_delta (hist s) +
    (if fst (pm_get c (ov5648_resume k c) (emit PmGetSync s)) < 0 then 0 else 1)"
  using assms(3)
proof (cases rule: s_stream_on_cases)
  case (no_power s1)
  then have "neutral (emit PmGetSync s) s1"
    using pm_get_neutral [OF assms(1,2), of "emit PmGetSync s" k] by simp
  then show ?thesis using no_power by (simp add: neutral_def)
next
  case (no_stream r1 s1 s2)
  then have "neutral (emit PmGetSync s) s1" "neutral (emit MutexLock s1) s2"
    using pm_get_neutral [OF assms(1,2), of "emit PmGetSync s" k] standby_neutral by auto
  then show ?thesis using no_stream by (simp add: neutral_def)
qed (use assms(4) in simp)

text \<open>A bus on which only the message that starts the stream is refused.\<close>

definition ov5648_no_stream :: kapi where
  "ov5648_no_stream = (ideal ov5648_ids)\<lparr>i2c_send_ret :=
     (\<lambda>h d. if d = [hi8 OV5648_SW_STANDBY_REG, lo8 OV5648_SW_STANDBY_REG, OV5648_SW_STANDBY_STREAM_ON]
            then - EIO else int (length d))\<rparr>"

definition ov5648_active_cb :: "ov5648 kcb" where
  "ov5648_active_cb = (ideal_cb [] (\<lambda>i v s. s))\<lparr>pm_get := (\<lambda>f s. (1, s))\<rparr>"

lemma active_cb_specs [simp]: "pm_spec ov5648_active_cb" "setup_spec W ov5648_active_cb"
  using ideal_cb_specs [where ids = "[]" and st = "\<lambda>i v (s :: ov5648). s"]
  by (auto simp: ov5648_active_cb_def pm_spec_def setup_spec_def)

theorem ov5648_s_stream_failure_reference_witness:
  "balance pm_delta (hist (snd (ov5648_s_stream ov5648_no_stream ov5648_active_cb True
     ov5648_example))) = 1"
proof -
  have "fst (ov5648_s_stream ov5648_no_stream ov5648_active_cb True ov5648_example) \<noteq> 0"
    by (simp add: ov5648_s_stream_def pm_runtime_get_sync_def ov5648_active_cb_def
        ov5648_sw_standby_def ov5648_write_eq Let_def ov5648_no_stream_def)
  from ov5648_s_stream_failure_reference [OF _ _ prod.collapse [symmetric] this]
  show ?thesis
    by (simp add: ov5648_example_def) (simp add: ov5648_active_cb_def)
qed

end
