(* ===== verification/Size_Table.thy ===== *)
theory Size_Table
  imports V4l2
begin

text \<open>
  The choice of a mode by its size.  \<open>v4l2_find_nearest_size\<close> is the kernel macro on a driver's mode
  table; the locale \<open>size_table\<close> is what a table has to satisfy (it is not empty and no two entries
  have the same size) and shows what the choice then guarantees: it always finds an entry of the
  table, no entry is nearer, and the size of an entry finds that entry.
\<close>

definition v4l2_find_nearest_size ::
  "kapi \<Rightarrow> ('m \<Rightarrow> u32) \<Rightarrow> ('m \<Rightarrow> u32) \<Rightarrow> 'm list \<Rightarrow> u32 \<Rightarrow> u32 \<Rightarrow> 'm option" where
  "v4l2_find_nearest_size k wd ht tab w h =
     map_option ((!) tab) (nearest_size k (map (\<lambda>m. (wd m, ht m)) tab) w h)"

locale size_table =
  fixes wd ht :: "'m \<Rightarrow> u32" and tab :: "'m list"
  assumes tab_ne: "tab \<noteq> []"
    and sizes_distinct: "distinct (map (\<lambda>m. (wd m, ht m)) tab)"
begin

lemma nearest_best:
  assumes "nearest_spec (nearest_size k)"
  obtains m where "v4l2_find_nearest_size k wd ht tab w h = Some m" and "m \<in> set tab"
    and "\<And>m'. m' \<in> set tab \<Longrightarrow> size_error w h (wd m, ht m) \<le> size_error w h (wd m', ht m')"
proof -
  let ?sz = "\<lambda>m. (wd m, ht m)"
  obtain i where i: "nearest_size k (map ?sz tab) w h = Some i" "i < length tab"
    and best: "\<And>j. j < length tab \<Longrightarrow>
      size_error w h (map ?sz tab ! i) \<le> size_error w h (map ?sz tab ! j)"
    using nearest_spec_Some [OF assms, of "map ?sz tab" w h] tab_ne by auto
  show ?thesis
  proof (rule that)
    show "v4l2_find_nearest_size k wd ht tab w h = Some (tab ! i)"
      by (simp add: v4l2_find_nearest_size_def i)
    show "tab ! i \<in> set tab" using i(2) by simp
    fix m' assume "m' \<in> set tab"
    then obtain j where "j < length tab" "m' = tab ! j" by (auto simp: in_set_conv_nth)
    with best [of j] i(2) show "size_error w h (wd (tab ! i), ht (tab ! i)) \<le> size_error w h (wd m', ht m')"
      by simp
  qed
qed

lemma same_size: "m \<in> set tab \<Longrightarrow> m' \<in> set tab \<Longrightarrow> wd m = wd m' \<Longrightarrow> ht m = ht m' \<Longrightarrow> m = m'"
  using sizes_distinct by (auto simp: distinct_map inj_on_def)

lemma nearest_own:
  assumes "nearest_spec (nearest_size k)" and "m \<in> set tab"
  shows "v4l2_find_nearest_size k wd ht tab (wd m) (ht m) = Some m"
proof -
  obtain m' where m': "v4l2_find_nearest_size k wd ht tab (wd m) (ht m) = Some m'" "m' \<in> set tab"
    and "size_error (wd m) (ht m) (wd m', ht m') \<le> size_error (wd m) (ht m) (wd m, ht m)"
    using nearest_best [OF assms(1), of "wd m" "ht m"] assms(2) by metis
  moreover have "size_error (wd m) (ht m) (wd m, ht m) = 0" by simp
  ultimately have "size_error (wd m) (ht m) (wd m', ht m') = 0"
    using size_error_nonneg [of "wd m" "ht m" "(wd m', ht m')"] by linarith
  then have "wd m' = wd m" "ht m' = ht m"
    by (simp_all only: size_error_0 prod.inject)
  with m' assms(2) same_size [of m' m] show ?thesis by simp
qed

text \<open>The lookup by exact size that the enumeration loops perform.\<close>

lemma find_own: "m \<in> set tab \<Longrightarrow> find (\<lambda>m'. wd m' = wd m \<and> ht m' = ht m) tab = Some m"
proof -
  assume m: "m \<in> set tab"
  then have "find (\<lambda>m'. wd m' = wd m \<and> ht m' = ht m) tab \<noteq> None"
    by (auto simp: find_None_iff)
  then obtain m' where m': "find (\<lambda>m'. wd m' = wd m \<and> ht m' = ht m) tab = Some m'" by blast
  then have "m' \<in> set tab" "wd m' = wd m" "ht m' = ht m"
    by (auto simp: find_Some_iff)
  with m m' show ?thesis using same_size [of m' m] by simp
qed

end

end
