(* ===== verification/Ov5648_Pad.thy ===== *)
theory Ov5648_Pad
  imports Ov5648_Power Size_Table
begin

text \<open>
  Formats and enumeration of the OV5648 driver (sections "Subdev Pad Operations" and frame
  intervals of \<^verbatim>\<open>ov5648.c\<close>).  A structure passed by pointer is an argument and a result; the try
  formats of the file handle are a \<open>pad_config\<close>.

  The table \<open>ov5648_modes\<close> interprets \<open>size_table\<close>; the lemmas show that \<open>ov5648_set_fmt\<close> settles
  on a supported format in one call, that get returns what set has set, and that enumeration and
  selection agree.
\<close>

section \<open>Operations\<close>

definition ov5648_g_frame_interval :: "v4l2_fract \<Rightarrow> ov5648 \<Rightarrow> int \<times> v4l2_fract \<times> ov5648" where
  "ov5648_g_frame_interval old s =
     (let s = emit MutexLock s
      in if code_8bit (mbus_code s) then
           (case mode s of
              None \<Rightarrow> (- EFAULT, old, emit NullDeref s)
            | Some m \<Rightarrow> (0, fst (frame_interval m), emit MutexUnlock s))
         else if code_10bit (mbus_code s) then
           (case mode s of
              None \<Rightarrow> (- EFAULT, old, emit NullDeref s)
            | Some m \<Rightarrow> (0, snd (frame_interval m), emit MutexUnlock s))
         else (- EINVAL, old, emit MutexUnlock s))"

definition ov5648_enum_mbus_code :: "u32 \<Rightarrow> u32 \<Rightarrow> int \<times> u32" where
  "ov5648_enum_mbus_code index old =
     (if length ov5648_mbus_codes \<le> unat index then (- EINVAL, old)
      else (0, ov5648_mbus_codes ! unat index))"

definition ov5648_mbus_format_fill ::
  "v4l2_mbus_framefmt \<Rightarrow> u32 \<Rightarrow> ov5648_mode \<Rightarrow> v4l2_mbus_framefmt" where
  "ov5648_mbus_format_fill f code m =
     f\<lparr>fmt_width := output_size_x m,
       fmt_height := output_size_y m,
       fmt_code := code,
       fmt_field := V4L2_FIELD_NONE,
       fmt_colorspace := V4L2_COLORSPACE_RAW,
       fmt_ycbcr_enc := V4L2_MAP_YCBCR_ENC_DEFAULT V4L2_COLORSPACE_RAW,
       fmt_quantization := V4L2_QUANTIZATION_FULL_RANGE,
       fmt_xfer_func := V4L2_MAP_XFER_FUNC_DEFAULT V4L2_COLORSPACE_RAW\<rparr>"

text \<open>The format a pointer returned by \<^verbatim>\<open>ov5648_get_pad_fmt\<close> points to.\<close>

definition ov5648_get_pad_fmt ::
  "ov5648 \<Rightarrow> pad_config \<Rightarrow> u32 \<Rightarrow> u32 \<Rightarrow> v4l2_mbus_framefmt option" where
  "ov5648_get_pad_fmt s cfg pad which =
     (if which = V4L2_SUBDEV_FORMAT_TRY then Some (cfg pad)
      else if which = V4L2_SUBDEV_FORMAT_ACTIVE then Some (fmt s)
      else None)"

definition ov5648_get_fmt ::
  "pad_config \<Rightarrow> v4l2_subdev_format \<Rightarrow> ov5648 \<Rightarrow> int \<times> v4l2_subdev_format \<times> ov5648" where
  "ov5648_get_fmt cfg format s =
     (let s = emit MutexLock s
      in if sf_which format = V4L2_SUBDEV_FORMAT_TRY
         then (0, format\<lparr>sf_format := cfg (sf_pad format)\<rparr>, emit MutexUnlock s)
         else case mode s of
                None \<Rightarrow> (- EFAULT, format, emit NullDeref s)
              | Some m \<Rightarrow>
                  (0, format\<lparr>sf_format :=
                        ov5648_mbus_format_fill (sf_format format) (mbus_code s) m\<rparr>,
                   emit MutexUnlock s))"

definition ov5648_find_format :: "u32 \<Rightarrow> u32" where
  "ov5648_find_format code =
     (let index = find_index (\<lambda>c. c = code) ov5648_mbus_codes
      in if index < length ov5648_mbus_codes then ov5648_mbus_codes ! index
         else ov5648_mbus_codes ! 0)"

definition ov5648_set_fmt ::
  "kapi \<Rightarrow> pad_config \<Rightarrow> v4l2_subdev_format \<Rightarrow> ov5648 \<Rightarrow>
   int \<times> pad_config \<times> v4l2_subdev_format \<times> ov5648" where
  "ov5648_set_fmt k cfg format s =
     (let s = emit MutexLock s;
          mbus_format = sf_format format
      in if streaming s then (- EBUSY, cfg, format, emit MutexUnlock s)
      else let code = ov5648_find_format (fmt_code mbus_format)
      in case v4l2_find_nearest_size k output_size_x output_size_y ov5648_modes
                (fmt_width mbus_format) (fmt_height mbus_format) of
           None \<Rightarrow> (- EINVAL, cfg, format, emit MutexUnlock s)
         | Some m \<Rightarrow>
             let mbus_format = ov5648_mbus_format_fill mbus_format code m;
                 format = format\<lparr>sf_format := mbus_format\<rparr>
             in if sf_which format = V4L2_SUBDEV_FORMAT_TRY
                then (0, cfg(sf_pad format := mbus_format), format, emit MutexUnlock s)
                else if mode s \<noteq> Some m \<or> mbus_code s \<noteq> code
                then let (ret, s) = ov5648_state_configure k (Some m) code s
                     in (ret, cfg, format, emit MutexUnlock s)
                else (0, cfg, format, emit MutexUnlock s))"

text \<open>The four sizes of \<^verbatim>\<open>struct v4l2_subdev_frame_size_enum\<close>: width range, height range.\<close>

definition ov5648_enum_frame_size :: "u32 \<Rightarrow> int \<times> ((u32 \<times> u32) \<times> (u32 \<times> u32)) option" where
  "ov5648_enum_frame_size index =
     (if length ov5648_modes \<le> unat index then (- EINVAL, None)
      else let m = ov5648_modes ! unat index
           in (0, Some ((output_size_x m, output_size_x m), (output_size_y m, output_size_y m))))"

text \<open>
  The loop of \<^verbatim>\<open>ov5648_enum_frame_interval\<close>: the \<open>index\<close>-th mode of the requested size, counting
  with \<open>interval_index\<close>.
\<close>

fun ov5648_interval_loop :: "ov5648_mode list \<Rightarrow> u32 \<Rightarrow> u32 \<Rightarrow> u32 \<Rightarrow> u32 \<Rightarrow> ov5648_mode option" where
  "ov5648_interval_loop [] w h index interval_index = None"
| "ov5648_interval_loop (m # ms) w h index interval_index =
     (if output_size_x m = w \<and> output_size_y m = h
      then (if interval_index = index then Some m
            else ov5648_interval_loop ms w h index (interval_index + 1))
      else ov5648_interval_loop ms w h index interval_index)"

definition ov5648_enum_frame_interval ::
  "u32 \<Rightarrow> u32 \<Rightarrow> u32 \<Rightarrow> u32 \<Rightarrow> int \<times> v4l2_fract option" where
  "ov5648_enum_frame_interval index code w h =
     (if 0 < index then (- EINVAL, None)
      else case ov5648_interval_loop ov5648_modes w h index 0 of
             None \<Rightarrow> (- EINVAL, None)
           | Some m \<Rightarrow>
               if code_8bit code then (0, Some (fst (frame_interval m)))
               else if code_10bit code then (0, Some (snd (frame_interval m)))
               else (- EINVAL, None))"

definition ov5648_s_power :: "int \<Rightarrow> ov5648 op" where
  "ov5648_s_power on s = (0, s)"

definition ov5648_link_setup :: "u32 \<Rightarrow> ov5648 op" where
  "ov5648_link_setup flags s = (0, s)"

text \<open>
  The search for the bus code that \<^verbatim>\<open>ov5648_set_fmt\<close> of the earlier drivers (\<^verbatim>\<open>exercise-04\<close>,
  \<^verbatim>\<open>exercise-16\<close>) spells out: the code of the request when it is in the table, zero otherwise, and
  the default in place of zero.
\<close>

definition ov5648_inline_format :: "u32 \<Rightarrow> u32" where
  "ov5648_inline_format code =
     (let index = find_index (\<lambda>c. c = code) ov5648_mbus_codes;
          mbus_code = (if index < length ov5648_mbus_codes then code else 0)
      in if mbus_code = 0 then ov5648_mbus_codes ! 0 else mbus_code)"

section \<open>The mode table\<close>

interpretation ov5648_sizes: size_table output_size_x output_size_y ov5648_modes
  by unfold_locales (simp_all add: ov5648_mode_sizes_distinct)

lemma find_format_cases:
  "ov5648_find_format code =
     (if code \<in> set ov5648_mbus_codes then code else MEDIA_BUS_FMT_SBGGR8_1X8)"
proof (cases "code \<in> set ov5648_mbus_codes")
  case True
  then have "find_index (\<lambda>c. c = code) ov5648_mbus_codes < length ov5648_mbus_codes"
    by (auto simp: find_index_less)
  with True show ?thesis
    using find_index_hit [of "\<lambda>c. c = code" ov5648_mbus_codes]
    by (simp add: ov5648_find_format_def Let_def)
next
  case False
  then have "\<not> find_index (\<lambda>c. c = code) ov5648_mbus_codes < length ov5648_mbus_codes"
    by (auto simp: find_index_less)
  with False show ?thesis
    by (simp add: ov5648_find_format_def Let_def) (simp add: ov5648_mbus_codes_def)
qed

lemma find_format_supported [simp]: "ov5648_find_format code \<in> set ov5648_mbus_codes"
  by (simp add: find_format_cases)

lemma find_format_fixed: "code \<in> set ov5648_mbus_codes \<Longrightarrow> ov5648_find_format code = code"
  by (simp add: find_format_cases)

lemma interval_loop_0: "ov5648_interval_loop ms w h 0 0 =
    find (\<lambda>m. output_size_x m = w \<and> output_size_y m = h) ms"
  by (induction ms) auto

text \<open>The format the driver describes for a mode and a code.\<close>

definition ov5648_native_fmt :: "u32 \<Rightarrow> ov5648_mode \<Rightarrow> v4l2_mbus_framefmt" where
  "ov5648_native_fmt code m = \<lparr>fmt_width = output_size_x m, fmt_height = output_size_y m,
     fmt_code = code, fmt_field = V4L2_FIELD_NONE, fmt_colorspace = V4L2_COLORSPACE_RAW,
     fmt_ycbcr_enc = V4L2_YCBCR_ENC_601, fmt_quantization = V4L2_QUANTIZATION_FULL_RANGE,
     fmt_xfer_func = V4L2_XFER_FUNC_NONE\<rparr>"

lemma format_fill: "ov5648_mbus_format_fill f code m = ov5648_native_fmt code m"
  by (simp add: ov5648_mbus_format_fill_def ov5648_native_fmt_def V4L2_MAP_YCBCR_ENC_DEFAULT_def
      V4L2_MAP_XFER_FUNC_DEFAULT_def)

section \<open>Setting a format\<close>

lemma set_fmt_cases:
  assumes "nearest_spec (nearest_size k)" and "ov5648_set_fmt k cfg format s = (r, cfg', format', s')"
  obtains (busy) "streaming s" and "r = - EBUSY" and "cfg' = cfg" and "format' = format"
      and "s' = emit MutexUnlock (emit MutexLock s)"
  | (picked) m where "\<not> streaming s" and "m \<in> set ov5648_modes"
      and "\<And>m'. m' \<in> set ov5648_modes \<Longrightarrow>
        size_error (fmt_width (sf_format format)) (fmt_height (sf_format format))
          (output_size_x m, output_size_y m) \<le>
        size_error (fmt_width (sf_format format)) (fmt_height (sf_format format))
          (output_size_x m', output_size_y m')"
      and "format' = format\<lparr>sf_format :=
        ov5648_native_fmt (ov5648_find_format (fmt_code (sf_format format))) m\<rparr>"
      and "if sf_which format = V4L2_SUBDEV_FORMAT_TRY
           then r = 0 \<and> cfg' = cfg(sf_pad format := sf_format format') \<and>
             s' = emit MutexUnlock (emit MutexLock s)
           else cfg' = cfg \<and>
             (if mode s = Some m \<and> mbus_code s = ov5648_find_format (fmt_code (sf_format format))
              then r = 0 \<and> s' = emit MutexUnlock (emit MutexLock s)
              else \<exists>s1. ov5648_state_configure k (Some m)
                (ov5648_find_format (fmt_code (sf_format format))) (emit MutexLock s) = (r, s1) \<and>
                s' = emit MutexUnlock s1)"
proof (cases "streaming s")
  case True
  then have "streaming (emit MutexLock s)" by (simp add: emit_def)
  with assms(2) True show ?thesis
    by (intro busy) (simp_all add: ov5648_set_fmt_def)
next
  case False
  then have ns: "\<not> streaming (emit MutexLock s)" by (simp add: emit_def)
  have lock: "mode (emit MutexLock s) = mode s" "mbus_code (emit MutexLock s) = mbus_code s"
    by (simp_all add: emit_def)
  let ?c = "ov5648_find_format (fmt_code (sf_format format))"
  obtain m where m: "v4l2_find_nearest_size k output_size_x output_size_y ov5648_modes
        (fmt_width (sf_format format)) (fmt_height (sf_format format)) = Some m"
      "m \<in> set ov5648_modes" and best: "\<And>m'. m' \<in> set ov5648_modes \<Longrightarrow>
        size_error (fmt_width (sf_format format)) (fmt_height (sf_format format))
          (output_size_x m, output_size_y m) \<le>
        size_error (fmt_width (sf_format format)) (fmt_height (sf_format format))
          (output_size_x m', output_size_y m')"
    using ov5648_sizes.nearest_best [OF assms(1)] by blast
  obtain r1 s1 where sc: "ov5648_state_configure k (Some m) ?c (emit MutexLock s) = (r1, s1)"
    by (cases "ov5648_state_configure k (Some m) ?c (emit MutexLock s)")
  note eq = assms(2) [unfolded ov5648_set_fmt_def Let_def if_not_P [OF ns] m(1) option.case
      format_fill lock sc prod.case]
  show ?thesis
  proof (rule picked [OF False m(2) best])
    show "format' = format\<lparr>sf_format := ov5648_native_fmt ?c m\<rparr>"
      using eq by (auto split: if_splits)
  qed (use eq sc in \<open>auto split: if_splits\<close>)
qed

text \<open>What a query of the active format returns for a driver with a mode.\<close>

lemma get_fmt_active:
  assumes "mode s = Some m" and "sf_which format \<noteq> V4L2_SUBDEV_FORMAT_TRY"
  shows "ov5648_get_fmt cfg format s =
    (0, format\<lparr>sf_format := ov5648_native_fmt (mbus_code s) m\<rparr>, emit MutexUnlock (emit MutexLock s))"
  using assms by (simp add: ov5648_get_fmt_def Let_def) (simp add: emit_def format_fill)

section \<open>Properties\<close>

text \<open>
  trying a format while not streaming always succeeds: the answer is a supported code (the
  requested one when it is supported) at the size of a mode, no mode being nearer to the request;
  it is stored as the try format of that pad only, nothing is written to the sensor and the driver
  state is untouched; and trying the answer again gives the same answer.
\<close>

theorem ov5648_set_fmt_try:
  assumes "nearest_spec (nearest_size k)" and "\<not> streaming s"
    and "sf_which format = V4L2_SUBDEV_FORMAT_TRY"
    and "ov5648_set_fmt k cfg format s = (r, cfg', format', s')"
  shows "r = 0 \<and> s' = emit MutexUnlock (emit MutexLock s) \<and>
    cfg' = cfg(sf_pad format := sf_format format') \<and>
    (\<exists>m \<in> set ov5648_modes.
       sf_format format' = ov5648_native_fmt (ov5648_find_format (fmt_code (sf_format format))) m \<and>
       (\<forall>m' \<in> set ov5648_modes.
          size_error (fmt_width (sf_format format)) (fmt_height (sf_format format))
            (output_size_x m, output_size_y m) \<le>
          size_error (fmt_width (sf_format format)) (fmt_height (sf_format format))
            (output_size_x m', output_size_y m'))) \<and>
    ov5648_set_fmt k cfg' format' s = (0, cfg', format', s')"
  using assms(1,4)
proof (cases rule: set_fmt_cases)
  case busy
  then show ?thesis using assms(2) by simp
next
  case (picked m)
  let ?c = "ov5648_find_format (fmt_code (sf_format format))"
  have ns: "\<not> streaming (emit MutexLock s)" using assms(2) by (simp add: emit_def)
  have near: "v4l2_find_nearest_size k output_size_x output_size_y ov5648_modes
      (output_size_x m) (output_size_y m) = Some m"
    using ov5648_sizes.nearest_own [OF assms(1) picked(2)] .
  have again: "ov5648_set_fmt k cfg' format' s = (0, cfg', format', s')"
    using picked(4,5) assms(3) ns
    by (simp add: ov5648_set_fmt_def Let_def format_fill ov5648_native_fmt_def near
        find_format_fixed)
  show ?thesis
    using picked(2-5) assms(3) again by (auto intro!: bexI [of _ m])
qed

definition ov5648_request :: "u32 \<Rightarrow> v4l2_subdev_format" where
  "ov5648_request which = \<lparr>sf_which = which, sf_pad = 0,
     sf_format = \<lparr>fmt_width = 1300, fmt_height = 700, fmt_code = MEDIA_BUS_FMT_SGRBG10_1X10,
       fmt_field = 0, fmt_colorspace = 0, fmt_ycbcr_enc = 0, fmt_quantization = 0,
       fmt_xfer_func = 0\<rparr>\<rparr>"

definition ov5648_no_cfg :: pad_config where
  "ov5648_no_cfg pad = sf_format (ov5648_request V4L2_SUBDEV_FORMAT_TRY)"

theorem ov5648_set_fmt_try_witness:
  "fst (ov5648_set_fmt (ideal ov5648_ids) ov5648_no_cfg (ov5648_request V4L2_SUBDEV_FORMAT_TRY)
     ov5648_example) = 0"
proof -
  obtain r cfg' format' s' where eq: "ov5648_set_fmt (ideal ov5648_ids) ov5648_no_cfg
      (ov5648_request V4L2_SUBDEV_FORMAT_TRY) ov5648_example = (r, cfg', format', s')"
    by (metis prod_cases4)
  from ov5648_set_fmt_try [OF _ _ _ this] eq show ?thesis
    by (simp add: ov5648_request_def)
qed

text \<open>
  when setting the active format returns zero, querying the active format returns exactly the
  format that was returned by the set call; the driver then holds a mode of its table and a
  supported code.
\<close>

theorem ov5648_set_get_active:
  assumes "nearest_spec (nearest_size k)" and "sf_which format \<noteq> V4L2_SUBDEV_FORMAT_TRY"
    and "ov5648_set_fmt k cfg format s = (0, cfg', format', s')"
  shows "fst (snd (ov5648_get_fmt cfg' format s')) = format' \<and> fst (ov5648_get_fmt cfg' format s') = 0 \<and>
    ov5648_wf s'"
  using assms(1,3)
proof (cases rule: set_fmt_cases)
  case busy
  then show ?thesis by simp
next
  case (picked m)
  let ?c = "ov5648_find_format (fmt_code (sf_format format))"
  have state: "mode s' = Some m \<and> mbus_code s' = ?c"
  proof (cases "mode s = Some m \<and> mbus_code s = ?c")
    case True
    then show ?thesis using picked(5) assms(2) by (simp add: emit_def)
  next
    case False
    then obtain s1 where sc: "ov5648_state_configure k (Some m) ?c (emit MutexLock s) = (0, s1)"
      and s': "s' = emit MutexUnlock s1"
      using picked(5) assms(2) by auto
    from sc show ?thesis
      by (cases rule: state_configure_cases) (simp_all add: s' emit_def)
  qed
  then show ?thesis
    using picked(2,4) get_fmt_active [of s' m format cfg'] assms(2) by (simp add: ov5648_wf_def)
qed

theorem ov5648_set_get_active_witness:
  "\<exists>cfg' format' s'. ov5648_set_fmt (ideal ov5648_ids) ov5648_no_cfg
     (ov5648_request V4L2_SUBDEV_FORMAT_ACTIVE) ov5648_example = (0, cfg', format', s') \<and>
     fst (snd (ov5648_get_fmt cfg' (ov5648_request V4L2_SUBDEV_FORMAT_ACTIVE) s')) = format'"
proof -
  let ?q = "ov5648_request V4L2_SUBDEV_FORMAT_ACTIVE"
  have near: "nearest_spec (nearest_size (ideal ov5648_ids))" by simp
  obtain r cfg' format' s' where eq: "ov5648_set_fmt (ideal ov5648_ids) ov5648_no_cfg ?q
      ov5648_example = (r, cfg', format', s')"
    by (metis prod_cases4)
  have "r = 0"
    using near eq
  proof (cases rule: set_fmt_cases)
    case (picked m)
    have "fst (ov5648_state_configure (ideal ov5648_ids) (Some m)
        (ov5648_find_format (fmt_code (sf_format ?q))) (emit MutexLock ov5648_example)) = 0"
      by (rule state_configure_ok [OF ideal_board picked(2) find_format_supported])
        (simp add: ov5648_example_def emit_def)
    then show ?thesis
      using picked(5) by (auto simp: ov5648_request_def split: if_splits)
  qed simp
  with ov5648_set_get_active [OF near, of ?q ov5648_no_cfg ov5648_example cfg' format' s'] eq
  show ?thesis by (auto simp: ov5648_request_def)
qed

text \<open>
  a set call that fails leaves the active format as it was (a query before and after gives
  the same answer), keeps the try formats, and releases the lock; while streaming it is refused
  with -EBUSY and not even the caller's format is touched.
\<close>

theorem ov5648_set_fmt_failure:
  assumes "nearest_spec (nearest_size k)" and "ov5648_wf s"
    and "ov5648_set_fmt k cfg format s = (r, cfg', format', s')" and "r \<noteq> 0"
  shows "fst (snd (ov5648_get_fmt cfg' q s')) = fst (snd (ov5648_get_fmt cfg q s)) \<and>
    cfg' = cfg \<and> balance lock_delta (hist s') = balance lock_delta (hist s) \<and> r < 0 \<and>
    (streaming s \<longrightarrow> r = - EBUSY \<and> format' = format)"
proof -
  obtain m0 where m0: "mode s = Some m0" using assms(2) by (auto simp: ov5648_wf_def)
  have "mode s' = mode s \<and> mbus_code s' = mbus_code s \<and> cfg' = cfg \<and> r < 0 \<and>
      balance lock_delta (hist s') = balance lock_delta (hist s) \<and>
      (streaming s \<longrightarrow> r = - EBUSY \<and> format' = format)"
    using assms(1,3)
  proof (cases rule: set_fmt_cases)
    case busy
    then show ?thesis by (simp add: emit_def)
  next
    case (picked m)
    let ?c = "ov5648_find_format (fmt_code (sf_format format))"
    obtain s1 where sc: "ov5648_state_configure k (Some m) ?c (emit MutexLock s) = (r, s1)"
      and s': "s' = emit MutexUnlock s1" and "cfg' = cfg"
      using picked(5) assms(4) by (auto split: if_splits)
    from sc show ?thesis
    proof (cases rule: state_configure_cases)
      case failed
      have "balance lock_delta (hist s1) = balance lock_delta (hist (emit MutexLock s))"
        by (rule grows_balance [OF configures_frame(6) [OF failed(3)]]) simp
      then show ?thesis
        using configures_frame [OF failed(3)] failed picked(1) s' \<open>cfg' = cfg\<close>
        by simp (simp add: emit_def)
    qed (use picked(1) assms(4) in \<open>auto simp: emit_def\<close>)
  qed
  then show ?thesis
    using m0 get_fmt_active [of s m0 q cfg] get_fmt_active [of s' m0 q cfg]
    by (cases "sf_which q = V4L2_SUBDEV_FORMAT_TRY") (simp_all add: ov5648_get_fmt_def Let_def)
qed

theorem ov5648_set_fmt_failure_witness:
  "fst (ov5648_set_fmt (ideal ov5648_ids) ov5648_no_cfg (ov5648_request V4L2_SUBDEV_FORMAT_ACTIVE)
     (ov5648_example\<lparr>streaming := True\<rparr>)) = - EBUSY"
proof -
  let ?s = "ov5648_example\<lparr>streaming := True\<rparr>"
  obtain r cfg' format' s' where eq: "ov5648_set_fmt (ideal ov5648_ids) ov5648_no_cfg
      (ov5648_request V4L2_SUBDEV_FORMAT_ACTIVE) ?s = (r, cfg', format', s')"
    by (metis prod_cases4)
  have "r \<noteq> 0"
    using eq by (simp add: ov5648_set_fmt_def emit_def)
  moreover have "ov5648_wf ?s" using example_wf(1) by (simp add: ov5648_wf_def)
  ultimately show ?thesis
    using ov5648_set_fmt_failure [OF _ _ eq] eq by simp
qed

text \<open>
  enumeration and selection agree.  Every code and every size that enumeration reports is
  accepted unchanged by trying that format, the frame interval enumerated for the active format is
  the one reported as current, and indices past the tables are refused.
\<close>

theorem ov5648_enumeration_consistent:
  assumes "nearest_spec (nearest_size k)" and "\<not> streaming s" and "ov5648_wf s"
    and "ov5648_enum_mbus_code i c0 = (0, c)"
    and "ov5648_enum_frame_size j = (0, Some ((w, w'), (h, h')))"
    and "fmt_code f = c" and "fmt_width f = w" and "fmt_height f = h"
  shows "w = w' \<and> h = h' \<and>
    (\<exists>cfg' g. ov5648_set_fmt k cfg \<lparr>sf_which = V4L2_SUBDEV_FORMAT_TRY, sf_pad = p, sf_format = f\<rparr> s =
       (0, cfg', g, emit MutexUnlock (emit MutexLock s)) \<and>
       fmt_code (sf_format g) = c \<and> fmt_width (sf_format g) = w \<and> fmt_height (sf_format g) = h) \<and>
    (\<exists>m iv. mode s = Some m \<and>
       ov5648_enum_frame_interval 0 (mbus_code s) (output_size_x m) (output_size_y m) = (0, Some iv) \<and>
       ov5648_g_frame_interval iv0 s = (0, iv, emit MutexUnlock (emit MutexLock s)))"
proof -
  have c: "c \<in> set ov5648_mbus_codes"
    using assms(4) by (auto simp: ov5648_enum_mbus_code_def split: if_splits)
  obtain m where m: "m \<in> set ov5648_modes" "w = output_size_x m" "w' = w" "h = output_size_y m" "h' = h"
  proof (rule that [of "ov5648_modes ! unat j"])
    show "ov5648_modes ! unat j \<in> set ov5648_modes"
      using assms(5) by (auto simp: ov5648_enum_frame_size_def split: if_splits)
  qed (use assms(5) in \<open>auto simp: ov5648_enum_frame_size_def Let_def split: if_splits\<close>)
  have ns: "\<not> streaming (emit MutexLock s)" using assms(2) by (simp add: emit_def)
  have 1: "\<exists>cfg' g. ov5648_set_fmt k cfg \<lparr>sf_which = V4L2_SUBDEV_FORMAT_TRY, sf_pad = p, sf_format = f\<rparr> s =
       (0, cfg', g, emit MutexUnlock (emit MutexLock s)) \<and>
       fmt_code (sf_format g) = c \<and> fmt_width (sf_format g) = w \<and> fmt_height (sf_format g) = h"
    using ns c m(2,4) assms(6-8) ov5648_sizes.nearest_own [OF assms(1) m(1)]
    by (simp add: ov5648_set_fmt_def Let_def format_fill ov5648_native_fmt_def find_format_fixed)
  obtain m0 where m0: "mode s = Some m0" "m0 \<in> set ov5648_modes" "mbus_code s \<in> set ov5648_mbus_codes"
    using assms(3) by (auto simp: ov5648_wf_def)
  have "ov5648_interval_loop ov5648_modes (output_size_x m0) (output_size_y m0) 0 0 = Some m0"
    using ov5648_sizes.find_own [OF m0(2)] by (simp add: interval_loop_0)
  then have 2: "\<exists>iv. ov5648_enum_frame_interval 0 (mbus_code s) (output_size_x m0) (output_size_y m0) =
       (0, Some iv) \<and> ov5648_g_frame_interval iv0 s = (0, iv, emit MutexUnlock (emit MutexLock s))"
    using m0(1,3)
    by (auto simp: ov5648_enum_frame_interval_def ov5648_g_frame_interval_def mbus_codes_cases
        Let_def emit_def)
  show ?thesis using 1 2 m m0 by blast
qed

theorem ov5648_enumeration_consistent_witness:
  "\<exists>m iv. mode ov5648_example = Some m \<and>
     ov5648_enum_frame_interval 0 (mbus_code ov5648_example) (output_size_x m) (output_size_y m) =
       (0, Some iv) \<and>
     ov5648_g_frame_interval (0, 0) ov5648_example =
       (0, iv, emit MutexUnlock (emit MutexLock ov5648_example))"
  using ov5648_enumeration_consistent [of "ideal ov5648_ids" ov5648_example 0 0
      MEDIA_BUS_FMT_SBGGR8_1X8 5 640 640 480 480 "ov5648_native_fmt MEDIA_BUS_FMT_SBGGR8_1X8
      ov5648_mode_640x480" ov5648_no_cfg 0 "(0, 0)"]
  by (simp add: ov5648_enum_mbus_code_def ov5648_enum_frame_size_def ov5648_native_fmt_def
      ov5648_mbus_codes_def ov5648_modes_def ov5648_mode_640x480_def)

text \<open>
  the search loop of \<open>ov5648_find_format\<close>, which starts from the default code, chooses the
  same code as the loop with the zero fallback that it replaced in the driver of \<^verbatim>\<open>exercise-16\<close>.
\<close>

theorem ov5648_find_format_inline: "ov5648_find_format code = ov5648_inline_format code"
proof (cases "code \<in> set ov5648_mbus_codes")
  case True
  moreover from this have "code \<noteq> 0" by (auto simp: ov5648_mbus_codes_def)
  moreover from True have "find_index (\<lambda>c. c = code) ov5648_mbus_codes < length ov5648_mbus_codes"
    by (auto simp: find_index_less)
  ultimately show ?thesis
    by (simp add: find_format_cases ov5648_inline_format_def)
next
  case False
  then have "\<not> find_index (\<lambda>c. c = code) ov5648_mbus_codes < length ov5648_mbus_codes"
    by (auto simp: find_index_less)
  then show ?thesis
    by (simp add: ov5648_find_format_def ov5648_inline_format_def)
qed

end
