(* ===== verification/Ov5648_Probe.thy ===== *)
theory Ov5648_Probe
  imports Ov5648_Pad
begin

text \<open>
  Probe and removal of the OV5648 driver, and the driver as a whole: what probe holds on success
  and gives back on failure, and an invariant of every state that the operations reach from a
  successful probe.  The chain of \<^verbatim>\<open>goto\<close> labels is a chain of functions, each falling through to
  the next.  Device-managed resources (\<^verbatim>\<open>devm_\<close>) are released by the driver core and do not appear.
\<close>

section \<open>Operations\<close>

definition ov5648_set_defaults :: "ov5648 \<Rightarrow> ov5648" where
  "ov5648_set_defaults s =
     s\<lparr>formats := ov5648_formats,
       modes := ov5648_modes,
       interval := fst (frame_interval (ov5648_modes ! 0)),
       fmt := (fmt s)\<lparr>fmt_code := of_code (ov5648_formats ! 0),
         fmt_width := output_size_x (ov5648_modes ! 0),
         fmt_height := output_size_y (ov5648_modes ! 0),
         fmt_field := V4L2_FIELD_NONE,
         fmt_colorspace := V4L2_COLORSPACE_RAW,
         fmt_ycbcr_enc := V4L2_MAP_YCBCR_ENC_DEFAULT V4L2_COLORSPACE_RAW,
         fmt_quantization := V4L2_QUANTIZATION_FULL_RANGE,
         fmt_xfer_func := V4L2_MAP_XFER_FUNC_DEFAULT V4L2_COLORSPACE_RAW\<rparr>\<rparr>"

text \<open>The zeroed instance of \<^verbatim>\<open>devm_kzalloc\<close>.\<close>

definition ov5648_kzalloc :: "ov5648 \<Rightarrow> ov5648" where
  "ov5648_kzalloc s = \<lparr>hist = hist s, reset = NullPtr, powerdown = NullPtr, avdd = NullPtr,
     dvdd = NullPtr, dovdd = NullPtr, xvclk = NullPtr, num_data_lanes = 0, link_frequencies = [],
     mode = None, mbus_code = 0, streaming = False, ctrls = (\<lambda>i. zero_ctrl), fmt = zero_fmt,
     interval = (0, 0), formats = [], modes = []\<rparr>"

definition ov5648_error_endpoint :: "ov5648 \<Rightarrow> ov5648" where
  "ov5648_error_endpoint s = emit EndpointFree s"

definition ov5648_error_entity :: "ov5648 \<Rightarrow> ov5648" where
  "ov5648_error_entity s = ov5648_error_endpoint (emit EntityCleanup s)"

definition ov5648_error_mutex :: "ov5648 \<Rightarrow> ov5648" where
  "ov5648_error_mutex s = ov5648_error_entity (emit MutexDestroy s)"

definition ov5648_error_ctrls :: "ov5648 \<Rightarrow> ov5648" where
  "ov5648_error_ctrls s = ov5648_error_mutex (emit CtrlHandlerFree s)"

definition ov5648_error_pm :: "ov5648 \<Rightarrow> ov5648" where
  "ov5648_error_pm s = ov5648_error_ctrls (emit PmDisable s)"

text \<open>From the mutex on; the resources before it are acquired.\<close>

definition ov5648_probe_sensor :: "kapi \<Rightarrow> ov5648 op" where
  "ov5648_probe_sensor k s =
     (let s = emit MutexInit s;
          (ret, s) = ov5648_ctrls_init k s
      in if ret \<noteq> 0 then (ret, ov5648_error_mutex s)
      else let (ret, s) = ov5648_state_init k s
      in if ret \<noteq> 0 then (ret, ov5648_error_ctrls s)
      else let s = emit PmEnable s;
               s = emit PmSetSuspended s;
               ret = async_register_ret k (hist s);
               s = emit (AsyncRegister ret) s
      in if ret \<noteq> 0 then (ret, ov5648_error_pm s) else (0, s))"

text \<open>The GPIOs, regulators and the clock; an error goes to \<^verbatim>\<open>error_endpoint\<close>.\<close>

definition ov5648_probe_supplies :: "kapi \<Rightarrow> ov5648 op" where
  "ov5648_probe_supplies k = run_steps [
     (\<lambda>s. let s = s\<lparr>powerdown := gpio_get k (hist s) GPIO_POWERDOWN\<rparr>
          in if IS_ERR (powerdown s) then (PTR_ERR (powerdown s), s) else (0, s)),
     (\<lambda>s. let s = s\<lparr>reset := gpio_get k (hist s) GPIO_RESET\<rparr>
          in if IS_ERR (reset s) then (PTR_ERR (reset s), s) else (0, s)),
     (\<lambda>s. let s = s\<lparr>dvdd := regulator_get k (hist s) DVDD\<rparr>
          in if IS_ERR (dvdd s) then (PTR_ERR (dvdd s), s) else (0, s)),
     (\<lambda>s. let s = s\<lparr>dovdd := regulator_get k (hist s) DOVDD\<rparr>
          in if IS_ERR (dvdd s) then (PTR_ERR (dvdd s), s) else (0, s)),
     (\<lambda>s. let s = s\<lparr>avdd := regulator_get k (hist s) AVDD\<rparr>
          in (0, if IS_ERR (avdd s) then s\<lparr>avdd := NullPtr\<rparr> else s)),
     (\<lambda>s. let s = s\<lparr>xvclk := clk_get k (hist s)\<rparr>
          in if IS_ERR (xvclk s) then (PTR_ERR (xvclk s), s) else (0, s)),
     (\<lambda>s. if clk_rate k (hist s) \<noteq> OV5648_XVCLK_RATE then (- EINVAL, s) else (0, s))]"

text \<open>The graph endpoint; parsing fills the endpoint only when it succeeds.\<close>

definition ov5648_probe_endpoint :: "kapi \<Rightarrow> ov5648 op" where
  "ov5648_probe_endpoint k s =
     (let s = emit FwnodeGet s;
          ret = endpoint_parse_ret k (hist s);
          s = (if ret = 0 then s\<lparr>num_data_lanes := endpoint_lanes k (hist s),
                                 link_frequencies := endpoint_freqs k (hist s)\<rparr> else s);
          s = emit (EndpointParse ret) s;
          s = emit FwnodePut s
      in (ret, s))"

text \<open>The subdevice, its entity and pad, and the identification of the chip.\<close>

definition ov5648_probe_entity :: "kapi \<Rightarrow> ov5648 op" where
  "ov5648_probe_entity k s =
     (let s = emit SubdevInit s;
          ret = pads_init_ret k (hist s);
          s = emit (EntityPadsInit ret) s
      in if ret \<noteq> 0 then (ret, ov5648_error_entity s)
      else let (ret, s) = ov5648_chip_id_check k s
      in if ret < 0 then (ret, ov5648_error_entity s)
      else ov5648_probe_sensor k s)"

definition ov5648_probe :: "kapi \<Rightarrow> ov5648 op" where
  "ov5648_probe k s =
     (if \<not> kzalloc_ok k (hist s) then (- ENOMEM, s)
      else let s = ov5648_kzalloc s
      in if \<not> endpoint_node k (hist s) then (- EINVAL, s)
      else let (ret, s) = ov5648_probe_endpoint k s
      in if ret \<noteq> 0 then (ret, s)
      else let (ret, s) = ov5648_probe_supplies k s
      in if ret \<noteq> 0 then (ret, ov5648_error_endpoint s)
      else ov5648_probe_entity k s)"

definition ov5648_remove :: "ov5648 op" where
  "ov5648_remove s =
     (let s = emit AsyncUnregister s;
          s = emit PmDisable s;
          s = emit CtrlHandlerFree s;
          s = emit MutexDestroy s;
          s = emit EntityCleanup s
      in (0, s))"

section \<open>Resources\<close>

lemma conf_event_resource [simp]: "conf_event e \<Longrightarrow> resource_use e = None"
  by (cases e) simp_all

text \<open>The fields that matter after probe, kept by everything but the state configuration.\<close>

definition same_state :: "ov5648 \<Rightarrow> ov5648 \<Rightarrow> bool" where
  "same_state s s' \<longleftrightarrow> mode s' = mode s \<and> mbus_code s' = mbus_code s \<and> streaming s' = streaming s"

lemma ctrl_new_fields [simp]:
  "hist (ov5648_ctrl_new k i mi ma st df s) = hist s @ [CtrlNew i mi ma st df]"
  "mode (ov5648_ctrl_new k i mi ma st df s) = mode s"
  "mbus_code (ov5648_ctrl_new k i mi ma st df s) = mbus_code s"
  "streaming (ov5648_ctrl_new k i mi ma st df s) = streaming s"
  "dovdd (ov5648_ctrl_new k i mi ma st df s) = dovdd s"
  by (auto simp: ov5648_ctrl_new_def Let_def emit_def split: option.splits)

lemma emit_fields [simp]:
  "mode (emit e s) = mode s" "mbus_code (emit e s) = mbus_code s"
  "streaming (emit e s) = streaming s" "dovdd (emit e s) = dovdd s"
  by (simp_all add: emit_def)

lemma ctrl_flag_fields [simp]:
  "hist (ov5648_ctrl_flag i f s) = hist s" "mode (ov5648_ctrl_flag i f s) = mode s"
  "mbus_code (ov5648_ctrl_flag i f s) = mbus_code s"
  "streaming (ov5648_ctrl_flag i f s) = streaming s" "dovdd (ov5648_ctrl_flag i f s) = dovdd s"
  by (simp_all add: ov5648_ctrl_flag_def)

definition ctrls_trace :: "kevent list" where
  "ctrls_trace = [CtrlHandlerInit 32, CtrlNew V4L2_CID_EXPOSURE_AUTO 0 1 0 0,
     CtrlNew V4L2_CID_EXPOSURE 16 1048575 16 512,
     CtrlCluster [V4L2_CID_EXPOSURE_AUTO, V4L2_CID_EXPOSURE],
     CtrlNew V4L2_CID_AUTOGAIN 0 1 1 1, CtrlNew V4L2_CID_GAIN 16 1023 16 16,
     CtrlCluster [V4L2_CID_AUTOGAIN, V4L2_CID_GAIN],
     CtrlNew V4L2_CID_AUTO_WHITE_BALANCE 0 1 1 1, CtrlNew V4L2_CID_RED_BALANCE 0 4095 1 1024,
     CtrlNew V4L2_CID_BLUE_BALANCE 0 4095 1 1024,
     CtrlCluster [V4L2_CID_AUTO_WHITE_BALANCE, V4L2_CID_RED_BALANCE, V4L2_CID_BLUE_BALANCE],
     CtrlNew V4L2_CID_HFLIP 0 1 1 0, CtrlNew V4L2_CID_VFLIP 0 1 1 0,
     CtrlNew V4L2_CID_TEST_PATTERN 0 5 0 0, CtrlNew V4L2_CID_LINK_FREQ 0 1 0 0,
     CtrlNew V4L2_CID_PIXEL_RATE 1 2147483647 1 1]"

lemma ctrls_init_trace:
  assumes "ov5648_ctrls_init k s = (r, s')"
  shows "hist s' = hist s @ ctrls_trace @ (if r = 0 then [] else [CtrlHandlerFree]) \<and>
    same_state s s' \<and> dovdd s' = dovdd s \<and> r = handler_error k (hist s @ ctrls_trace)"
  using assms
  by (auto simp: ov5648_ctrls_init_def Let_def ctrls_trace_def same_state_def
      ov5648_test_pattern_menu_def ov5648_link_freq_menu_def split: if_splits)

lemma state_init_cases:
  assumes "ov5648_state_init k s = (r, s')" and "\<not> streaming s"
  shows "grows conf_event s s' \<and> streaming s' = streaming s \<and> dovdd s' = dovdd s \<and>
    (r = 0 \<longrightarrow> ov5648_wf s')"
proof -
  let ?m = "ov5648_modes ! 0" and ?c = "ov5648_mbus_codes ! 0"
  have m: "?m \<in> set ov5648_modes" by simp
  have fr: "dovdd b = dovdd a" if "configures a b" for a b
    using that by (cases a; cases b) (auto simp: configures_def)
  from assms(1) [unfolded ov5648_state_init_def] show ?thesis
  proof (cases rule: state_configure_cases)
    case busy
    then show ?thesis using assms(2) by simp
  next
    case failed
    then show ?thesis using configures_frame [OF failed(3)] fr [OF failed(3)] by simp
  next
    case (ready s1)
    then show ?thesis
      using configures_frame [OF ready(3)] fr [OF ready(3)] m
      by (auto simp: ov5648_wf_def mbus_codes_cases grows_def)
  qed
qed

lemma probe_supplies_keep:
  assumes "ov5648_probe_supplies k s = (r, s')"
  shows "hist s' = hist s \<and> same_state s s'"
proof -
  have "hist (snd (ov5648_probe_supplies k s)) = hist s \<and>
      same_state s (snd (ov5648_probe_supplies k s))"
    unfolding ov5648_probe_supplies_def
    by (rule run_steps_rel [where R = "\<lambda>s s'. hist s' = hist s \<and> same_state s s'"])
      (auto simp: same_state_def Let_def split: if_splits)
  with assms show ?thesis by simp
qed

lemma grows_held:
  "grows conf_event s s' \<Longrightarrow> held x s' = held x s"
  unfolding held_def by (erule grows_balance) (simp add: resource_delta_def)

lemma emits_held: "emits bus_event s s' \<Longrightarrow> held x s' = held x s"
  unfolding held_def by (erule emits_balance) (simp add: resource_delta_def)

lemmas error_defs = ov5648_error_endpoint_def ov5648_error_entity_def ov5648_error_mutex_def
  ov5648_error_ctrls_def ov5648_error_pm_def

lemma probe_sensor_held:
  assumes "ov5648_probe_sensor k s = (r, s')" and "\<not> streaming s"
  shows "held x s' = held x s + (if r = 0 then (if x \<in> {Mutex, Handler, RuntimePm, Subdev} then 1 else 0)
      else if x = Endpoint then - 1 else 0) \<and>
    (r = 0 \<longrightarrow> ov5648_wf s' \<and> \<not> streaming s' \<and> dovdd s' = dovdd s)"
proof -
  obtain r1 s1 where c: "ov5648_ctrls_init k (emit MutexInit s) = (r1, s1)"
    by (cases "ov5648_ctrls_init k (emit MutexInit s)")
  note tr = ctrls_init_trace [OF c]
  obtain r2 s2 where i: "ov5648_state_init k s1 = (r2, s2)"
    by (cases "ov5648_state_init k s1")
  have ns: "\<not> streaming s1" using tr assms(2) by (simp add: same_state_def)
  note st = state_init_cases [OF i ns]
  have h1: "held x s1 = held x s + (if x = Mutex then 1 else 0) +
      (if r1 = 0 \<and> x = Handler then 1 else 0)"
    using tr by (cases x) (auto simp: held_def ctrls_trace_def resource_delta_def)
  have h2: "held x s2 = held x s1" using st by (simp add: grows_held)
  show ?thesis
    using assms(1) c i h1 h2 st tr ns
    by (cases x)
      (auto simp: ov5648_probe_sensor_def Let_def error_defs resource_delta_def
        ov5648_wf_def same_state_def split: if_splits)
qed

lemma probe_endpoint_held:
  assumes "ov5648_probe_endpoint k s = (r, s')"
  shows "held x s' = held x s + (if r = 0 \<and> x = Endpoint then 1 else 0) \<and> same_state s s'"
  using assms
  by (cases x) (auto simp: ov5648_probe_endpoint_def Let_def held_def resource_delta_def same_state_def
      split: if_splits)

lemma probe_entity_held:
  assumes "ov5648_probe_entity k s = (r, s')" and "\<not> streaming s"
  shows "held x s' = held x s + (if r = 0 then (if x \<in> {Mutex, Handler, RuntimePm, Subdev} then 1 else 0)
      else if x = Endpoint then - 1 else 0) \<and>
    (r = 0 \<longrightarrow> ov5648_wf s' \<and> \<not> streaming s' \<and> dovdd s' = dovdd s)"
proof -
  let ?p = "pads_init_ret k (hist (emit SubdevInit s))"
  let ?u = "emit (EntityPadsInit ?p) (emit SubdevInit s)"
  obtain r2 s2 where 2: "ov5648_chip_id_check k ?u = (r2, s2)"
    by (cases "ov5648_chip_id_check k ?u")
  have e: "emits bus_event ?u s2" using sensor_ops_emits(3) [of ?u k] 2 by simp
  have u: "held x ?u = held x s" by (simp add: resource_delta_def)
  have ns: "\<not> streaming s2" using emits_ov5648(4) [OF e] assms(2) by simp
  have dv: "dovdd s2 = dovdd s" using e by (auto simp: emits_def)
  consider "?p \<noteq> 0" | "?p = 0" "r2 < 0" | "?p = 0" "0 \<le> r2" by linarith
  then show ?thesis
  proof cases
    case 1
    then show ?thesis using assms(1) u
      by (auto simp: ov5648_probe_entity_def Let_def error_defs resource_delta_def)
  next
    case a: 2
    then show ?thesis using assms(1) 2 u emits_held [OF e, of x]
      by (auto simp: ov5648_probe_entity_def Let_def error_defs resource_delta_def)
  next
    case a: 3
    then have "ov5648_probe_sensor k s2 = (r, s')"
      using assms(1) 2 by (simp add: ov5648_probe_entity_def Let_def)
    from probe_sensor_held [OF this ns, of x] show ?thesis
      using emits_held [OF e, of x] u dv by simp
  qed
qed

lemma kzalloc_facts [simp]: "hist (ov5648_kzalloc s) = hist s" "\<not> streaming (ov5648_kzalloc s)"
  by (simp_all add: ov5648_kzalloc_def)

lemma probe_held:
  assumes "ov5648_probe k s = (r, s')"
  shows "held x s' = held x s + (if r = 0 \<and> x \<noteq> Fwnode then 1 else 0) \<and>
    (r = 0 \<longrightarrow> ov5648_wf s' \<and> \<not> streaming s')"
proof -
  let ?z = "ov5648_kzalloc s"
  have z: "held x ?z = held x s" by (simp add: held_def)
  obtain r1 s1 where 1: "ov5648_probe_endpoint k ?z = (r1, s1)"
    by (cases "ov5648_probe_endpoint k ?z")
  obtain r2 s2 where 2: "ov5648_probe_supplies k s1 = (r2, s2)"
    by (cases "ov5648_probe_supplies k s1")
  note h1 = probe_endpoint_held [OF 1, of x] and k2 = probe_supplies_keep [OF 2]
  have h2: "held x s2 = held x s1" using k2 by (simp add: held_def)
  have ns: "\<not> streaming s2" using h1 k2 by (simp add: same_state_def)
  show ?thesis
  proof (cases "kzalloc_ok k (hist s) \<and> endpoint_node k (hist s) \<and> r1 = 0 \<and> r2 = 0")
    case True
    then have "ov5648_probe_entity k s2 = (r, s')"
      using assms 1 2 by (simp add: ov5648_probe_def Let_def)
    from probe_entity_held [OF this ns, of x] show ?thesis
      using h1 h2 z True by (cases x) auto
  next
    case False
    then show ?thesis
      using assms 1 2 h1 h2 z
      by (auto simp: ov5648_probe_def Let_def error_defs resource_delta_def split: if_splits)
  qed
qed

section \<open>What probe never does\<close>

text \<open>Events that leave power, clock, GPIO lines, the lock and the usage count alone.\<close>

fun calm_event :: "kevent \<Rightarrow> bool" where
  "calm_event (GpioSet _ _) = False"
| "calm_event (RegulatorEnable _ _) = False"
| "calm_event (RegulatorDisable _) = False"
| "calm_event (ClkPrepareEnable _) = False"
| "calm_event ClkDisableUnprepare = False"
| "calm_event MutexLock = False"
| "calm_event MutexUnlock = False"
| "calm_event PmGetSync = False"
| "calm_event PmPut = False"
| "calm_event PmPutNoidle = False"
| "calm_event (PmGetIfInUse _) = False"
| "calm_event NullDeref = False"
| "calm_event _ = True"

lemma calm_event_deltas [simp]:
  "calm_event e \<Longrightarrow> lock_delta e = 0" "calm_event e \<Longrightarrow> pm_delta e = 0"
  "calm_event e \<Longrightarrow> supply_delta x e = 0"
  by (cases x; cases e; simp; fail) (cases x; cases e; simp)+

lemma conf_calm: "conf_event e \<Longrightarrow> calm_event e"
  by (cases e) simp_all

lemma emits_calm: "emits bus_event s s' \<Longrightarrow> grows calm_event s s'"
  by (erule grows_mono [OF emits_grows]) (simp add: conf_calm bus_conf_event)

lemma grows_calm_emit: "grows calm_event s s' \<Longrightarrow> calm_event e \<Longrightarrow> grows calm_event s (emit e s')"
  by (auto simp: grows_def)

lemma probe_sensor_calm:
  assumes "\<not> streaming s"
  shows "grows calm_event s (snd (ov5648_probe_sensor k s))"
proof -
  obtain r1 s1 where c: "ov5648_ctrls_init k (emit MutexInit s) = (r1, s1)"
    by (cases "ov5648_ctrls_init k (emit MutexInit s)")
  note tr = ctrls_init_trace [OF c]
  obtain r2 s2 where i: "ov5648_state_init k s1 = (r2, s2)"
    by (cases "ov5648_state_init k s1")
  have ns: "\<not> streaming s1" using tr assms by (simp add: same_state_def)
  have g1: "grows calm_event s s1" using tr by (auto simp: grows_def ctrls_trace_def)
  have "grows calm_event s1 s2"
    using state_init_cases [OF i ns] by (auto intro: grows_mono conf_calm)
  with g1 have g2: "grows calm_event s s2" by (rule grows_trans)
  show ?thesis
    using c i g1 g2 by (auto simp: ov5648_probe_sensor_def Let_def error_defs intro!: grows_calm_emit)
qed

lemma probe_calm:
  assumes "ov5648_probe k s = (r, s')" shows "grows calm_event s s'"
proof -
  let ?z = "ov5648_kzalloc s"
  obtain r1 s1 where 1: "ov5648_probe_endpoint k ?z = (r1, s1)"
    by (cases "ov5648_probe_endpoint k ?z")
  have g1: "grows calm_event s s1"
    using 1 by (auto simp: ov5648_probe_endpoint_def Let_def grows_def)
  obtain r2 s2 where 2: "ov5648_probe_supplies k s1 = (r2, s2)"
    by (cases "ov5648_probe_supplies k s1")
  note k2 = probe_supplies_keep [OF 2]
  have g2: "grows calm_event s s2" using g1 k2 by (simp add: grows_def)
  have ns: "\<not> streaming s2"
    using k2 probe_endpoint_held [OF 1] by (simp add: same_state_def)
  let ?p = "pads_init_ret k (hist (emit SubdevInit s2))"
  let ?u = "emit (EntityPadsInit ?p) (emit SubdevInit s2)"
  obtain r3 s3 where 3: "ov5648_chip_id_check k ?u = (r3, s3)"
    by (cases "ov5648_chip_id_check k ?u")
  have e: "emits bus_event ?u s3" using sensor_ops_emits(3) [of ?u k] 3 by simp
  have gu: "grows calm_event s ?u" using g2 by (auto simp: grows_def)
  then have g3: "grows calm_event s s3" using emits_calm [OF e] by (rule grows_trans)
  have ns3: "\<not> streaming s3" using emits_ov5648(4) [OF e] ns by simp
  have "grows calm_event s (snd (ov5648_probe_sensor k s3))"
    using g3 probe_sensor_calm [OF ns3] by (rule grows_trans)
  then have "grows calm_event s (snd (ov5648_probe_entity k s2))"
    using 3 gu g3 by (auto simp: ov5648_probe_entity_def Let_def error_defs intro!: grows_calm_emit)
  moreover have "snd (ov5648_probe k s) \<in> {s, ?z, s1, ov5648_error_endpoint s2,
      snd (ov5648_probe_entity k s2)}"
    using 1 2 by (simp add: ov5648_probe_def Let_def)
  moreover have "grows calm_event s (ov5648_error_endpoint s2)"
    using g2 by (simp add: error_defs grows_calm_emit)
  ultimately show ?thesis
    using assms g1 by (auto simp: grows_def)
qed

section \<open>Success on a working board\<close>

text \<open>
  The environment of a probe that has nothing to complain about.  Nothing is said of the DOVDD
  supply: probe does not look at it.
\<close>

definition ov5648_described :: "kapi \<Rightarrow> bool" where
  "ov5648_described k \<longleftrightarrow> (\<forall>h. kzalloc_ok k h \<and> endpoint_node k h \<and> endpoint_parse_ret k h = 0 \<and>
     \<not> IS_ERR (gpio_get k h GPIO_POWERDOWN) \<and> \<not> IS_ERR (gpio_get k h GPIO_RESET) \<and>
     \<not> IS_ERR (regulator_get k h DVDD) \<and> \<not> IS_ERR (clk_get k h) \<and>
     pads_init_ret k h = 0 \<and> handler_error k h = 0 \<and> async_register_ret k h = 0)"

lemma probe_sensor_ok:
  assumes "ov5648_board k dflt" and "ov5648_described k" and "\<not> streaming s"
  shows "fst (ov5648_probe_sensor k s) = 0"
proof -
  obtain r1 s1 where c: "ov5648_ctrls_init k (emit MutexInit s) = (r1, s1)"
    by (cases "ov5648_ctrls_init k (emit MutexInit s)")
  note tr = ctrls_init_trace [OF c]
  have r1: "r1 = 0" using tr assms(2) by (simp add: ov5648_described_def)
  have "\<not> streaming s1" using tr assms(3) by (simp add: same_state_def)
  then have "fst (ov5648_state_init k s1) = 0"
    unfolding ov5648_state_init_def
    by (intro state_configure_ok [OF assms(1)]) (simp_all add: ov5648_modes_def ov5648_mbus_codes_def)
  then obtain s2 where "ov5648_state_init k s1 = (0, s2)"
    by (cases "ov5648_state_init k s1") simp
  then show ?thesis
    using c r1 assms(2) by (simp add: ov5648_probe_sensor_def Let_def ov5648_described_def)
qed

lemma probe_supplies_ok:
  assumes "ov5648_board k dflt" and "ov5648_described k"
  shows "\<exists>s'. ov5648_probe_supplies k s = (0, s') \<and> dovdd s' = regulator_get k (hist s) DOVDD"
  using assms unfolding ov5648_board_def ov5648_described_def
  by (simp add: ov5648_probe_supplies_def run_steps.simps(2) Let_def)

lemma probe_ok:
  assumes "ov5648_board k dflt" and "ov5648_described k" and "ids_intact s"
  shows "\<exists>s' h. ov5648_probe k s = (0, s') \<and> dovdd s' = regulator_get k h DOVDD"
proof -
  obtain s1 where 1: "ov5648_probe_endpoint k (ov5648_kzalloc s) = (0, s1)"
    and h1: "hist s1 = hist s @ [FwnodeGet, EndpointParse 0, FwnodePut]" and n1: "\<not> streaming s1"
    using assms(2) by (simp add: ov5648_probe_endpoint_def Let_def ov5648_described_def)
  obtain s2 where 2: "ov5648_probe_supplies k s1 = (0, s2)"
    and d2: "dovdd s2 = regulator_get k (hist s1) DOVDD"
    using probe_supplies_ok [OF assms(1,2)] by blast
  note k2 = probe_supplies_keep [OF 2]
  let ?u = "emit (EntityPadsInit 0) (emit SubdevInit s2)"
  have "ids_intact ?u"
    using assms(3) k2 h1 by (simp add: ids_intact_def)
  then obtain s3 where 3: "ov5648_chip_id_check k ?u = (0, s3)"
    using ok_pair [OF chip_id_check_ok [OF assms(1)]] by blast
  have e: "emits bus_event ?u s3" using sensor_ops_emits(3) [of ?u k] 3 by simp
  have n3: "\<not> streaming s3" using emits_ov5648(4) [OF e] n1 k2 by (simp add: same_state_def)
  obtain s' where 4: "ov5648_probe_sensor k s3 = (0, s')"
    using ok_pair [OF probe_sensor_ok [OF assms(1,2) n3]] by blast
  have "dovdd s' = dovdd s3" using probe_sensor_held [OF 4 n3] by simp
  also have "\<dots> = dovdd s2" using e by (auto simp: emits_def)
  finally have d: "dovdd s' = regulator_get k (hist s1) DOVDD" using d2 by simp
  have "ov5648_probe k s = (0, s')"
    using 1 2 3 4 assms(2)
    by (simp add: ov5648_probe_def ov5648_probe_entity_def Let_def ov5648_described_def)
  with d show ?thesis by blast
qed

lemma ideal_described [simp]: "ov5648_described (ideal ov5648_ids)"
  by (simp add: ov5648_described_def ideal_def ideal_env_def)

section \<open>The driver as a transition system\<close>

text \<open>
  The operations the kernel invokes on a probed device, in any order: streaming, formats, frame
  intervals, controls (the framework stores the new values first) and the runtime-PM callbacks.
\<close>

inductive ov5648_step :: "kapi \<Rightarrow> ov5648 kcb \<Rightarrow> ov5648 \<Rightarrow> ov5648 \<Rightarrow> bool" for k c where
  stream: "ov5648_s_stream k c enable s = (r, s') \<Longrightarrow> ov5648_step k c s s'"
| set_format: "ov5648_set_fmt k cfg format s = (r, cfg', format', s') \<Longrightarrow> ov5648_step k c s s'"
| get_format: "ov5648_get_fmt cfg format s = (r, format', s') \<Longrightarrow> ov5648_step k c s s'"
| frame_interval: "ov5648_g_frame_interval old s = (r, iv, s') \<Longrightarrow> ov5648_step k c s s'"
| set_ctrl: "ov5648_s_ctrl k i (s\<lparr>ctrls := cs\<rparr>) = (r, s') \<Longrightarrow> ov5648_step k c s s'"
| get_ctrl: "ov5648_g_volatile_ctrl k i s = (r, s') \<Longrightarrow> ov5648_step k c s s'"
| resumed: "ov5648_resume k c s = (r, s') \<Longrightarrow> ov5648_step k c s s'"
| suspended: "ov5648_suspend k s = (r, s') \<Longrightarrow> ov5648_step k c s s'"

inductive ov5648_reach :: "kapi \<Rightarrow> ov5648 kcb \<Rightarrow> ov5648 \<Rightarrow> bool" for k c where
  probed: "hist s = [] \<Longrightarrow> ov5648_probe k s = (0, s') \<Longrightarrow> ov5648_reach k c s'"
| step: "ov5648_reach k c s \<Longrightarrow> ov5648_step k c s s' \<Longrightarrow> ov5648_reach k c s'"

text \<open>What every step keeps of a well-formed state.\<close>

definition sound :: "ov5648 \<Rightarrow> ov5648 \<Rightarrow> bool" where
  "sound s s' \<longleftrightarrow> (ov5648_wf s \<longrightarrow> ov5648_wf s' \<and>
     (NullDeref \<in> set (hist s') \<longrightarrow> NullDeref \<in> set (hist s)) \<and>
     balance lock_delta (hist s') = balance lock_delta (hist s))"

lemma sound_trans: "sound a b \<Longrightarrow> sound b c \<Longrightarrow> sound a c"
  by (auto simp: sound_def)

lemma wf_cong: "mode s' = mode s \<Longrightarrow> mbus_code s' = mbus_code s \<Longrightarrow> ov5648_wf s' = ov5648_wf s"
  by (simp add: ov5648_wf_def)

lemma neutral_sound: "neutral s s' \<Longrightarrow> sound s s'"
  by (auto simp: neutral_def sound_def ov5648_wf_def)

lemma s_stream_sound:
  assumes "pm_spec c" and "setup_spec ctrl_step_rel c" and "ov5648_s_stream k c enable s = (r, s')"
  shows "sound s s'"
proof (cases enable)
  case True
  have "ov5648_s_stream k c True s = (r, s')" using assms(3) True by simp
  then show ?thesis
  proof (cases rule: s_stream_on_cases)
    case (no_power s1)
    then have "neutral (emit PmGetSync s) s1"
      using pm_get_neutral [OF assms(1,2), of "emit PmGetSync s" k] by simp
    then show ?thesis using no_power by (auto simp: neutral_def sound_def ov5648_wf_def)
  next
    case (no_stream r1 s1 s2)
    then have "neutral (emit PmGetSync s) s1" "neutral (emit MutexLock s1) s2"
      using pm_get_neutral [OF assms(1,2), of "emit PmGetSync s" k] standby_neutral by auto
    then show ?thesis using no_stream by (auto simp: neutral_def sound_def ov5648_wf_def)
  next
    case (on r1 s1 s2)
    then have "neutral (emit PmGetSync s) s1" "neutral (emit MutexLock s1) s2"
      using pm_get_neutral [OF assms(1,2), of "emit PmGetSync s" k] standby_neutral by auto
    then show ?thesis using on by (auto simp: neutral_def sound_def ov5648_wf_def)
  qed
next
  case False
  have "ov5648_s_stream k c False s = (r, s')" using assms(3) False by simp
  then show ?thesis
  proof (cases rule: s_stream_off_cases)
    case (failed s2)
    then have "neutral (emit MutexLock s) s2" using standby_neutral by blast
    then show ?thesis using failed by (auto simp: neutral_def sound_def ov5648_wf_def)
  next
    case (off s2)
    let ?t = "emit PmPut ((emit MutexUnlock s2)\<lparr>streaming := False\<rparr>)"
    have "neutral (emit MutexLock s) s2" using off standby_neutral by blast
    moreover have "neutral ?t s'"
      using off pm_put_neutral [OF assms(1), of ?t k] by simp
    ultimately show ?thesis by (auto simp: neutral_def sound_def ov5648_wf_def)
  qed
qed

lemma grows_conf_sound:
  assumes "grows conf_event s s'"
  shows "NullDeref \<in> set (hist s') \<longrightarrow> NullDeref \<in> set (hist s)"
    and "balance lock_delta (hist s') = balance lock_delta (hist s)"
  using assms grows_balance [OF assms, of lock_delta]
  by (auto simp: grows_def list_all_iff dest: bspec [of _ _ NullDeref])

lemma set_fmt_sound:
  assumes "nearest_spec (nearest_size k)" and "ov5648_set_fmt k cfg format s = (r, cfg', format', s')"
  shows "sound s s'"
proof -
  have lock: "sound s (emit MutexUnlock (emit MutexLock s))"
    by (auto simp: sound_def ov5648_wf_def)
  from assms show ?thesis
  proof (cases rule: set_fmt_cases)
    case busy
    then show ?thesis using lock by simp
  next
    case (picked m)
    let ?c = "ov5648_find_format (fmt_code (sf_format format))"
    have conf: "sound s (emit MutexUnlock s1)"
      if sc: "ov5648_state_configure k (Some m) ?c (emit MutexLock s) = (r, s1)" for s1
      using sc
    proof (cases rule: state_configure_cases)
      case busy
      then show ?thesis using lock by simp
    next
      case failed
      then show ?thesis
        using configures_frame [OF failed(3)] grows_conf_sound [OF configures_frame(6) [OF failed(3)]]
        by (auto simp: sound_def ov5648_wf_def)
    next
      case (ready s2)
      then show ?thesis
        using grows_conf_sound [OF configures_frame(6) [OF ready(3)]] picked(2)
        by (auto simp: sound_def ov5648_wf_def)
    qed
    then show ?thesis
      using picked(5) lock by (auto split: if_splits)
  qed
qed

lemma value_emits:
  "emits bus_event s (snd (snd (ov5648_exposure_value k s)))"
  "emits bus_event s (snd (snd (ov5648_gain_value k s)))"
proof -
  have rd: "emits bus_event a b" if "ov5648_read k x old a = (r, v, b)" for a b x old r v
    using ov5648_read_emits [of a k x old] that by simp
  show "emits bus_event s (snd (snd (ov5648_exposure_value k s)))"
    unfolding ov5648_exposure_value_def
    by (auto simp: Let_def split: prod.splits dest!: rd intro: emits_trans)
  show "emits bus_event s (snd (snd (ov5648_gain_value k s)))"
    unfolding ov5648_gain_value_def
    by (auto simp: Let_def split: prod.splits dest!: rd intro: emits_trans)
qed

lemma emits_sound: "emits bus_event s s' \<Longrightarrow> sound s s'"
  by (intro neutral_sound emits_neutral)

lemma g_volatile_sound:
  assumes "ov5648_g_volatile_ctrl k i s = (r, s')" shows "sound s s'"
proof -
  have ctrl: "sound s (t\<lparr>ctrls := cs\<rparr>)" if "emits bus_event s t" for t cs
    using emits_sound [OF that] by (auto simp: sound_def ov5648_wf_def)
  show ?thesis
    using assms value_emits [of s k]
    by (auto simp: ov5648_g_volatile_ctrl_def sound_def [of s s] intro: ctrl emits_sound
        split: if_splits prod.splits option.splits)
qed

lemma s_ctrl_sound:
  assumes "ov5648_s_ctrl k i (s\<lparr>ctrls := cs\<rparr>) = (r, s')" shows "sound s s'"
proof -
  have "sound (s\<lparr>ctrls := cs\<rparr>) s'"
    using emits_sound [OF ov5648_s_ctrl_emits, of "s\<lparr>ctrls := cs\<rparr>" k i] assms by simp
  then show ?thesis by (auto simp: sound_def ov5648_wf_def)
qed

lemma query_sound:
  "ov5648_get_fmt cfg format s = (r, format', s') \<Longrightarrow> sound s s'"
  "ov5648_g_frame_interval old s = (r, iv, s') \<Longrightarrow> sound s s'"
  by (auto simp: ov5648_get_fmt_def ov5648_g_frame_interval_def Let_def sound_def ov5648_wf_def
      split: if_splits)

lemma step_sound:
  assumes "pm_spec c" and "setup_spec ctrl_step_rel c" and "nearest_spec (nearest_size k)"
    and "ov5648_step k c s s'"
  shows "sound s s'"
  using assms(4)
proof cases
  case stream
  then show ?thesis by (rule s_stream_sound [OF assms(1,2)])
next
  case set_format
  then show ?thesis by (rule set_fmt_sound [OF assms(3)])
next
  case get_format
  then show ?thesis by (rule query_sound(1))
next
  case frame_interval
  then show ?thesis by (rule query_sound(2))
next
  case set_ctrl
  then show ?thesis by (rule s_ctrl_sound)
next
  case get_ctrl
  then show ?thesis by (rule g_volatile_sound)
next
  case (resumed r)
  then show ?thesis using neutral_sound [OF resume_neutral [OF assms(2), of s k]] by simp
next
  case (suspended r)
  then show ?thesis using neutral_sound [OF suspend_neutral [of s k]] by simp
qed

section \<open>Properties\<close>

text \<open>
  C29: a probe that fails holds nothing: endpoint, firmware node, mutex, control handler, runtime
  PM and subdevice registration are all back to the count before.  A probe that succeeds holds
  each of them once (the firmware node is already given back) and leaves the driver not streaming,
  with a mode of its table and a supported code.
\<close>

theorem ov5648_probe_resources:
  "ov5648_probe k s = (r, s') \<Longrightarrow>
     held x s' = held x s + (if r = 0 \<and> x \<noteq> Fwnode then 1 else 0) \<and>
     (r = 0 \<longrightarrow> ov5648_wf s' \<and> \<not> streaming s')"
  by (rule probe_held)

theorem ov5648_probe_resources_witness:
  "held Endpoint (snd (ov5648_probe (ideal ov5648_ids) ov5648_example)) = held Endpoint ov5648_example + 1"
proof -
  obtain s' where eq: "ov5648_probe (ideal ov5648_ids) ov5648_example = (0, s')"
    using probe_ok [OF ideal_board ideal_described example_wf(2)] by blast
  from ov5648_probe_resources [OF eq, of Endpoint] eq show ?thesis by simp
qed

text \<open>
  probe checks the wrong pointer after asking for the DOVDD supply: with every other resource
  in order, a DOVDD supply that cannot be obtained does not stop the probe, which returns zero and
  leaves the error pointer in the driver.
\<close>

theorem ov5648_probe_ignores_dovdd:
  assumes "ov5648_board k dflt" and "ov5648_described k" and "ids_intact s"
    and "\<And>h. regulator_get k h DOVDD = ErrPtr e"
  shows "\<exists>s'. ov5648_probe k s = (0, s') \<and> IS_ERR (dovdd s')"
  using probe_ok [OF assms(1-3)] assms(4) by auto

theorem ov5648_probe_ignores_dovdd_witness:
  "\<exists>s'. ov5648_probe ((ideal ov5648_ids)\<lparr>regulator_get :=
     (\<lambda>h r. if r = DOVDD then ErrPtr (- 517) else Obj)\<rparr>) ov5648_example = (0, s') \<and> IS_ERR (dovdd s')"
proof (rule ov5648_probe_ignores_dovdd)
  show "ov5648_board ((ideal ov5648_ids)\<lparr>regulator_get :=
      (\<lambda>h r. if r = DOVDD then ErrPtr (- 517) else Obj)\<rparr>) ov5648_ids"
    using ideal_board by (simp add: ov5648_board_def bus_ok_def regfile_recv_def)
  show "ov5648_described ((ideal ov5648_ids)\<lparr>regulator_get :=
      (\<lambda>h r. if r = DOVDD then ErrPtr (- 517) else Obj)\<rparr>)"
    using ideal_described by (simp add: ov5648_described_def)
qed simp_all

text \<open>
  removal gives back the mutex, the control handler, runtime PM and the registration that a
  successful probe took, but not the parsed endpoint: its link-frequency table stays allocated.
\<close>

theorem ov5648_remove_after_probe:
  assumes "ov5648_probe k s = (0, s1)" and "inits s1 s2" and "ov5648_remove s2 = (r, s')"
  shows "r = 0 \<and> held x s' = held x s + (if x = Endpoint then 1 else 0)"
proof -
  have "held x s2 = held x s1"
    unfolding held_def
    by (rule grows_balance [OF inits_frame(5) [OF assms(2)]])
      (auto simp: quiet_event_def resource_delta_def)
  then show ?thesis
    using probe_held [OF assms(1), of x] assms(3)
    by (cases x) (auto simp: ov5648_remove_def Let_def resource_delta_def)
qed

theorem ov5648_remove_after_probe_witness:
  "held Endpoint (snd (ov5648_remove (snd (ov5648_probe (ideal ov5648_ids) ov5648_example)))) = 1"
proof -
  obtain s' where eq: "ov5648_probe (ideal ov5648_ids) ov5648_example = (0, s')"
    using probe_ok [OF ideal_board ideal_described example_wf(2)] by blast
  from ov5648_remove_after_probe [OF eq inits_refl prod.collapse [symmetric], of Endpoint] eq
  show ?thesis by (simp add: held_def ov5648_example_def)
qed
text \<open>
  C11: in every state that the operations of the driver reach from a successful probe, in any order
  and with any failures of the bus and the supplies, the driver has a mode of its table and a
  supported code, has never followed a NULL mode pointer, and does not hold its lock.
\<close>

theorem ov5648_reach_invariant:
  assumes "pm_spec c" and "setup_spec ctrl_step_rel c" and "nearest_spec (nearest_size k)"
    and "ov5648_reach k c s"
  shows "ov5648_wf s \<and> NullDeref \<notin> set (hist s) \<and> balance lock_delta (hist s) = 0"
  using assms(4)
proof induction
  case (probed s s')
  have "grows calm_event s s'" using probe_calm [OF probed(2)] .
  moreover have "balance lock_delta (hist s') = balance lock_delta (hist s)"
    by (rule grows_balance [OF calculation]) simp
  moreover have "ov5648_wf s'" using probe_held [OF probed(2)] by simp
  ultimately show ?case
    using probed(1) by (auto simp: grows_def list_all_iff dest: bspec [of _ _ NullDeref])
next
  case (step s s')
  then show ?case using step_sound [OF assms(1-3) step(2)] by (auto simp: sound_def)
qed

theorem ov5648_reach_invariant_witness:
  "NullDeref \<notin> set (hist (snd (ov5648_s_stream (ideal ov5648_ids)
     (ideal_cb ov5648_ctrl_ids (\<lambda>i v s. s)) True
     (snd (ov5648_probe (ideal ov5648_ids) ov5648_example)))))"
proof -
  let ?c = "ideal_cb ov5648_ctrl_ids (\<lambda>i v s. s) :: ov5648 kcb"
  obtain s' where eq: "ov5648_probe (ideal ov5648_ids) ov5648_example = (0, s')"
    using probe_ok [OF ideal_board ideal_described example_wf(2)] by blast
  have "hist ov5648_example = []" by (simp add: ov5648_example_def)
  then have "ov5648_reach (ideal ov5648_ids) ?c s'"
    using eq by (rule ov5648_reach.probed)
  then have "ov5648_reach (ideal ov5648_ids) ?c (snd (ov5648_s_stream (ideal ov5648_ids) ?c True s'))"
    by (rule ov5648_reach.step) (rule ov5648_step.stream [OF prod.collapse [symmetric]])
  from ov5648_reach_invariant [OF _ _ _ this] eq show ?thesis by simp
qed

text \<open>
  probe identifies the chip over the bus without ever enabling a supply, starting the clock or
  releasing the reset and power-down lines, which it requests in their asserted state: whatever the
  outcome, no such event is among those of the probe.
\<close>

theorem ov5648_probe_unpowered:
  assumes "ov5648_probe k s = (r, s')"
  shows "\<exists>es. hist s' = hist s @ es \<and> list_all calm_event es \<and> level x s' = level x s"
proof -
  have "grows calm_event s s'" using probe_calm [OF assms] .
  moreover from this have "level x s' = level x s"
    by (rule grows_level) simp
  ultimately show ?thesis by (auto simp: grows_def)
qed

theorem ov5648_probe_unpowered_witness:
  "level (Rail DOVDD) (snd (ov5648_probe (ideal ov5648_ids) ov5648_example)) =
   level (Rail DOVDD) ov5648_example"
  using ov5648_probe_unpowered [OF prod.collapse [symmetric], of "ideal ov5648_ids" ov5648_example
      "Rail DOVDD"]
  by blast

end
