(* ===== verification/Imx219_Data.thy ===== *)
theory Imx219_Data
  imports Size_Table Runtime
begin

text \<open>
  The data of the IMX219 driver (\<^verbatim>\<open>imx219/exercise-02/imx219.c\<close>): its constants, register tables,
  bus codes and modes, and the driver instance \<^verbatim>\<open>struct imx219\<close> as an extension of the run state.
  The fields carry the prefix \<open>im_\<close>; the controls are reached through the handler, by control id.
  A pointer to a mode is \<open>None\<close> for NULL and otherwise the table entry, the entries having pairwise
  different sizes.
\<close>

section \<open>Constants\<close>

abbreviation (input) IMX219_REG_VALUE_08BIT :: u32 where
  "IMX219_REG_VALUE_08BIT \<equiv> 1"

abbreviation (input) IMX219_REG_VALUE_16BIT :: u32 where
  "IMX219_REG_VALUE_16BIT \<equiv> 2"

abbreviation (input) IMX219_REG_MODE_SELECT :: u16 where
  "IMX219_REG_MODE_SELECT \<equiv> 0x0100"

abbreviation (input) IMX219_MODE_STANDBY :: u32 where
  "IMX219_MODE_STANDBY \<equiv> 0x00"

abbreviation (input) IMX219_MODE_STREAMING :: u32 where
  "IMX219_MODE_STREAMING \<equiv> 0x01"

abbreviation (input) IMX219_REG_CHIP_ID :: u16 where
  "IMX219_REG_CHIP_ID \<equiv> 0x0000"

abbreviation (input) IMX219_CHIP_ID :: u32 where
  "IMX219_CHIP_ID \<equiv> 0x0219"

abbreviation (input) IMX219_XCLK_FREQ :: u32 where
  "IMX219_XCLK_FREQ \<equiv> 24000000"

abbreviation (input) IMX219_PIXEL_RATE :: int where
  "IMX219_PIXEL_RATE \<equiv> 182400000"

abbreviation (input) IMX219_DEFAULT_LINK_FREQ :: u64 where
  "IMX219_DEFAULT_LINK_FREQ \<equiv> 456000000"

abbreviation (input) IMX219_REG_VTS :: u16 where
  "IMX219_REG_VTS \<equiv> 0x0160"

abbreviation (input) IMX219_VTS_15FPS :: u32 where
  "IMX219_VTS_15FPS \<equiv> 0x0dc6"

abbreviation (input) IMX219_VTS_30FPS_1080P :: u32 where
  "IMX219_VTS_30FPS_1080P \<equiv> 0x06e3"

abbreviation (input) IMX219_VTS_30FPS_BINNED :: u32 where
  "IMX219_VTS_30FPS_BINNED \<equiv> 0x06e3"

abbreviation (input) IMX219_VTS_30FPS_640x480 :: u32 where
  "IMX219_VTS_30FPS_640x480 \<equiv> 0x06e3"

abbreviation (input) IMX219_VTS_MAX :: u32 where
  "IMX219_VTS_MAX \<equiv> 0xffff"

abbreviation (input) IMX219_VBLANK_MIN :: int where
  "IMX219_VBLANK_MIN \<equiv> 4"

abbreviation (input) IMX219_FLL_MIN :: int where
  "IMX219_FLL_MIN \<equiv> 0x08a6"

abbreviation (input) IMX219_FLL_MAX :: int where
  "IMX219_FLL_MAX \<equiv> 0xffff"

abbreviation (input) IMX219_FLL_STEP :: int where
  "IMX219_FLL_STEP \<equiv> 1"

abbreviation (input) IMX219_FLL_DEFAULT :: int where
  "IMX219_FLL_DEFAULT \<equiv> 0x0c98"

abbreviation (input) IMX219_PPL_DEFAULT :: u32 where
  "IMX219_PPL_DEFAULT \<equiv> 3448"

abbreviation (input) IMX219_REG_EXPOSURE :: u16 where
  "IMX219_REG_EXPOSURE \<equiv> 0x015a"

abbreviation (input) IMX219_EXPOSURE_MIN :: int where
  "IMX219_EXPOSURE_MIN \<equiv> 4"

abbreviation (input) IMX219_EXPOSURE_STEP :: int where
  "IMX219_EXPOSURE_STEP \<equiv> 1"

abbreviation (input) IMX219_EXPOSURE_DEFAULT :: int where
  "IMX219_EXPOSURE_DEFAULT \<equiv> 0x640"

abbreviation (input) IMX219_EXPOSURE_MAX :: int where
  "IMX219_EXPOSURE_MAX \<equiv> 65535"

abbreviation (input) IMX219_REG_ANALOG_GAIN :: u16 where
  "IMX219_REG_ANALOG_GAIN \<equiv> 0x0157"

abbreviation (input) IMX219_ANA_GAIN_MIN :: int where
  "IMX219_ANA_GAIN_MIN \<equiv> 0"

abbreviation (input) IMX219_ANA_GAIN_MAX :: int where
  "IMX219_ANA_GAIN_MAX \<equiv> 232"

abbreviation (input) IMX219_ANA_GAIN_STEP :: int where
  "IMX219_ANA_GAIN_STEP \<equiv> 1"

abbreviation (input) IMX219_ANA_GAIN_DEFAULT :: int where
  "IMX219_ANA_GAIN_DEFAULT \<equiv> 0x0"

abbreviation (input) IMX219_REG_DIGITAL_GAIN :: u16 where
  "IMX219_REG_DIGITAL_GAIN \<equiv> 0x0158"

abbreviation (input) IMX219_DGTL_GAIN_MIN :: int where
  "IMX219_DGTL_GAIN_MIN \<equiv> 0x0100"

abbreviation (input) IMX219_DGTL_GAIN_MAX :: int where
  "IMX219_DGTL_GAIN_MAX \<equiv> 0x0fff"

abbreviation (input) IMX219_DGTL_GAIN_DEFAULT :: int where
  "IMX219_DGTL_GAIN_DEFAULT \<equiv> 0x0100"

abbreviation (input) IMX219_DGTL_GAIN_STEP :: int where
  "IMX219_DGTL_GAIN_STEP \<equiv> 1"

abbreviation (input) IMX219_REG_ORIENTATION :: u16 where
  "IMX219_REG_ORIENTATION \<equiv> 0x0172"

abbreviation (input) IMX219_REG_TEST_PATTERN :: u16 where
  "IMX219_REG_TEST_PATTERN \<equiv> 0x0600"

abbreviation (input) IMX219_TEST_PATTERN_DISABLE :: int where
  "IMX219_TEST_PATTERN_DISABLE \<equiv> 0"

abbreviation (input) IMX219_TEST_PATTERN_SOLID_COLOR :: int where
  "IMX219_TEST_PATTERN_SOLID_COLOR \<equiv> 1"

abbreviation (input) IMX219_TEST_PATTERN_COLOR_BARS :: int where
  "IMX219_TEST_PATTERN_COLOR_BARS \<equiv> 2"

abbreviation (input) IMX219_TEST_PATTERN_GREY_COLOR :: int where
  "IMX219_TEST_PATTERN_GREY_COLOR \<equiv> 3"

abbreviation (input) IMX219_TEST_PATTERN_PN9 :: int where
  "IMX219_TEST_PATTERN_PN9 \<equiv> 4"

abbreviation (input) IMX219_REG_TESTP_RED :: u16 where
  "IMX219_REG_TESTP_RED \<equiv> 0x0602"

abbreviation (input) IMX219_REG_TESTP_GREENR :: u16 where
  "IMX219_REG_TESTP_GREENR \<equiv> 0x0604"

abbreviation (input) IMX219_REG_TESTP_BLUE :: u16 where
  "IMX219_REG_TESTP_BLUE \<equiv> 0x0606"

abbreviation (input) IMX219_REG_TESTP_GREENB :: u16 where
  "IMX219_REG_TESTP_GREENB \<equiv> 0x0608"

abbreviation (input) IMX219_TESTP_COLOUR_MIN :: int where
  "IMX219_TESTP_COLOUR_MIN \<equiv> 0"

abbreviation (input) IMX219_TESTP_COLOUR_MAX :: int where
  "IMX219_TESTP_COLOUR_MAX \<equiv> 0x03ff"

abbreviation (input) IMX219_TESTP_COLOUR_STEP :: int where
  "IMX219_TESTP_COLOUR_STEP \<equiv> 1"

abbreviation (input) IMX219_TESTP_RED_DEFAULT :: int where
  "IMX219_TESTP_RED_DEFAULT \<equiv> IMX219_TESTP_COLOUR_MAX"

abbreviation (input) IMX219_TESTP_GREENR_DEFAULT :: int where
  "IMX219_TESTP_GREENR_DEFAULT \<equiv> 0"

abbreviation (input) IMX219_TESTP_BLUE_DEFAULT :: int where
  "IMX219_TESTP_BLUE_DEFAULT \<equiv> 0"

abbreviation (input) IMX219_TESTP_GREENB_DEFAULT :: int where
  "IMX219_TESTP_GREENB_DEFAULT \<equiv> 0"

abbreviation (input) IMX219_XCLR_MIN_DELAY_US :: u32 where
  "IMX219_XCLR_MIN_DELAY_US \<equiv> 6200"

abbreviation (input) IMX219_XCLR_DELAY_RANGE_US :: u32 where
  "IMX219_XCLR_DELAY_RANGE_US \<equiv> 1000"

section \<open>Structures\<close>

record imx219_reg =
  ir_address :: u16
  ir_val :: u8

text \<open>\<^verbatim>\<open>struct imx219_reg_list\<close>, an array with its length, is the list \<open>im_regs\<close>.\<close>

record imx219_mode =
  im_width :: u32
  im_height :: u32
  im_vts_def :: u32
  im_regs :: "imx219_reg list"

record imx219 = kstate +
  im_fmt :: v4l2_mbus_framefmt
  im_xclk :: kptr
  im_xclk_freq :: u32
  im_reset_gpio :: kptr
  im_supplies :: "string list"
  im_ctrls :: ctrl_store
  im_mode :: "imx219_mode option"
  im_streaming :: bool

section \<open>Tables\<close>

text \<open>The register tables as pairs of address and value, and as the array of structures.\<close>

definition imx219_regs :: "(u16 \<times> u8) list \<Rightarrow> imx219_reg list" where
  "imx219_regs tab = map (\<lambda>(a, v). \<lparr>ir_address = a, ir_val = v\<rparr>) tab"

definition mode_3280x2464_regs :: "(u16 \<times> u8) list" where
  "mode_3280x2464_regs = [
     (0x0100, 0x00), (0x30eb, 0x0c), (0x30eb, 0x05), (0x300a, 0xff), (0x300b, 0xff),
     (0x30eb, 0x05), (0x30eb, 0x09), (0x0114, 0x01), (0x0128, 0x00), (0x012a, 0x18),
     (0x012b, 0x00), (0x0164, 0x00), (0x0165, 0x00), (0x0166, 0x0c), (0x0167, 0xcf),
     (0x0168, 0x00), (0x0169, 0x00), (0x016a, 0x09), (0x016b, 0x9f), (0x016c, 0x0c),
     (0x016d, 0xd0), (0x016e, 0x09), (0x016f, 0xa0), (0x0170, 0x01), (0x0171, 0x01),
     (0x0174, 0x00), (0x0175, 0x00), (0x0301, 0x05), (0x0303, 0x01), (0x0304, 0x03),
     (0x0305, 0x03), (0x0306, 0x00), (0x0307, 0x39), (0x030b, 0x01), (0x030c, 0x00),
     (0x030d, 0x72), (0x0624, 0x0c), (0x0625, 0xd0), (0x0626, 0x09), (0x0627, 0xa0),
     (0x455e, 0x00), (0x471e, 0x4b), (0x4767, 0x0f), (0x4750, 0x14), (0x4540, 0x00),
     (0x47b4, 0x14), (0x4713, 0x30), (0x478b, 0x10), (0x478f, 0x10), (0x4793, 0x10),
     (0x4797, 0x0e), (0x479b, 0x0e), (0x0162, 0x0d), (0x0163, 0x78)]"

definition mode_1920_1080_regs :: "(u16 \<times> u8) list" where
  "mode_1920_1080_regs = [
     (0x0100, 0x00), (0x30eb, 0x05), (0x30eb, 0x0c), (0x300a, 0xff), (0x300b, 0xff),
     (0x30eb, 0x05), (0x30eb, 0x09), (0x0114, 0x01), (0x0128, 0x00), (0x012a, 0x18),
     (0x012b, 0x00), (0x0162, 0x0d), (0x0163, 0x78), (0x0164, 0x02), (0x0165, 0xa8),
     (0x0166, 0x0a), (0x0167, 0x27), (0x0168, 0x02), (0x0169, 0xb4), (0x016a, 0x06),
     (0x016b, 0xeb), (0x016c, 0x07), (0x016d, 0x80), (0x016e, 0x04), (0x016f, 0x38),
     (0x0170, 0x01), (0x0171, 0x01), (0x0174, 0x00), (0x0175, 0x00), (0x0301, 0x05),
     (0x0303, 0x01), (0x0304, 0x03), (0x0305, 0x03), (0x0306, 0x00), (0x0307, 0x39),
     (0x030b, 0x01), (0x030c, 0x00), (0x030d, 0x72), (0x0624, 0x07), (0x0625, 0x80),
     (0x0626, 0x04), (0x0627, 0x38), (0x455e, 0x00), (0x471e, 0x4b), (0x4767, 0x0f),
     (0x4750, 0x14), (0x4540, 0x00), (0x47b4, 0x14), (0x4713, 0x30), (0x478b, 0x10),
     (0x478f, 0x10), (0x4793, 0x10), (0x4797, 0x0e), (0x479b, 0x0e), (0x0162, 0x0d),
     (0x0163, 0x78)]"

definition mode_1640_1232_regs :: "(u16 \<times> u8) list" where
  "mode_1640_1232_regs = [
     (0x0100, 0x00), (0x30eb, 0x0c), (0x30eb, 0x05), (0x300a, 0xff), (0x300b, 0xff),
     (0x30eb, 0x05), (0x30eb, 0x09), (0x0114, 0x01), (0x0128, 0x00), (0x012a, 0x18),
     (0x012b, 0x00), (0x0164, 0x00), (0x0165, 0x00), (0x0166, 0x0c), (0x0167, 0xcf),
     (0x0168, 0x00), (0x0169, 0x00), (0x016a, 0x09), (0x016b, 0x9f), (0x016c, 0x06),
     (0x016d, 0x68), (0x016e, 0x04), (0x016f, 0xd0), (0x0170, 0x01), (0x0171, 0x01),
     (0x0174, 0x01), (0x0175, 0x01), (0x0301, 0x05), (0x0303, 0x01), (0x0304, 0x03),
     (0x0305, 0x03), (0x0306, 0x00), (0x0307, 0x39), (0x030b, 0x01), (0x030c, 0x00),
     (0x030d, 0x72), (0x0624, 0x06), (0x0625, 0x68), (0x0626, 0x04), (0x0627, 0xd0),
     (0x455e, 0x00), (0x471e, 0x4b), (0x4767, 0x0f), (0x4750, 0x14), (0x4540, 0x00),
     (0x47b4, 0x14), (0x4713, 0x30), (0x478b, 0x10), (0x478f, 0x10), (0x4793, 0x10),
     (0x4797, 0x0e), (0x479b, 0x0e), (0x0162, 0x0d), (0x0163, 0x78)]"

definition mode_640_480_regs :: "(u16 \<times> u8) list" where
  "mode_640_480_regs = [
     (0x0100, 0x00), (0x30eb, 0x05), (0x30eb, 0x0c), (0x300a, 0xff), (0x300b, 0xff),
     (0x30eb, 0x05), (0x30eb, 0x09), (0x0114, 0x01), (0x0128, 0x00), (0x012a, 0x18),
     (0x012b, 0x00), (0x0162, 0x0d), (0x0163, 0x78), (0x0164, 0x03), (0x0165, 0xe8),
     (0x0166, 0x08), (0x0167, 0xe7), (0x0168, 0x02), (0x0169, 0xf0), (0x016a, 0x06),
     (0x016b, 0xaf), (0x016c, 0x02), (0x016d, 0x80), (0x016e, 0x01), (0x016f, 0xe0),
     (0x0170, 0x01), (0x0171, 0x01), (0x0174, 0x03), (0x0175, 0x03), (0x0301, 0x05),
     (0x0303, 0x01), (0x0304, 0x03), (0x0305, 0x03), (0x0306, 0x00), (0x0307, 0x39),
     (0x030b, 0x01), (0x030c, 0x00), (0x030d, 0x72), (0x0624, 0x06), (0x0625, 0x68),
     (0x0626, 0x04), (0x0627, 0xd0), (0x455e, 0x00), (0x471e, 0x4b), (0x4767, 0x0f),
     (0x4750, 0x14), (0x4540, 0x00), (0x47b4, 0x14), (0x4713, 0x30), (0x478b, 0x10),
     (0x478f, 0x10), (0x4793, 0x10), (0x4797, 0x0e), (0x479b, 0x0e)]"

definition raw8_framefmt_regs :: "(u16 \<times> u8) list" where
  "raw8_framefmt_regs = [
     (0x018c, 0x08), (0x018d, 0x08), (0x0309, 0x08)]"

definition raw10_framefmt_regs :: "(u16 \<times> u8) list" where
  "raw10_framefmt_regs = [
     (0x018c, 0x0a), (0x018d, 0x0a), (0x0309, 0x0a)]"

definition imx219_test_pattern_menu :: "string list" where
  "imx219_test_pattern_menu = [''Disabled'', ''Color Bars'', ''Solid Color'', ''Grey Color Bars'', ''PN9'']"

definition imx219_test_pattern_val :: "int list" where
  "imx219_test_pattern_val = [
     IMX219_TEST_PATTERN_DISABLE,
     IMX219_TEST_PATTERN_COLOR_BARS,
     IMX219_TEST_PATTERN_SOLID_COLOR,
     IMX219_TEST_PATTERN_GREY_COLOR,
     IMX219_TEST_PATTERN_PN9]"

definition imx219_supply_name :: "string list" where
  "imx219_supply_name = [''VANA'', ''VDIG'', ''VDDL'']"

definition codes :: "u32 list" where
  "codes = [
     MEDIA_BUS_FMT_SRGGB10_1X10,
     MEDIA_BUS_FMT_SGRBG10_1X10,
     MEDIA_BUS_FMT_SGBRG10_1X10,
     MEDIA_BUS_FMT_SBGGR10_1X10,
     MEDIA_BUS_FMT_SRGGB8_1X8,
     MEDIA_BUS_FMT_SGRBG8_1X8,
     MEDIA_BUS_FMT_SGBRG8_1X8,
     MEDIA_BUS_FMT_SBGGR8_1X8]"

definition imx219_mode_3280x2464 :: imx219_mode where
  "imx219_mode_3280x2464 = \<lparr>im_width = 3280, im_height = 2464, im_vts_def = IMX219_VTS_15FPS,
     im_regs = imx219_regs mode_3280x2464_regs\<rparr>"

definition imx219_mode_1920x1080 :: imx219_mode where
  "imx219_mode_1920x1080 = \<lparr>im_width = 1920, im_height = 1080, im_vts_def = IMX219_VTS_30FPS_1080P,
     im_regs = imx219_regs mode_1920_1080_regs\<rparr>"

definition imx219_mode_1640x1232 :: imx219_mode where
  "imx219_mode_1640x1232 = \<lparr>im_width = 1640, im_height = 1232, im_vts_def = IMX219_VTS_30FPS_BINNED,
     im_regs = imx219_regs mode_1640_1232_regs\<rparr>"

definition imx219_mode_640x480 :: imx219_mode where
  "imx219_mode_640x480 = \<lparr>im_width = 640, im_height = 480, im_vts_def = IMX219_VTS_30FPS_640x480,
     im_regs = imx219_regs mode_640_480_regs\<rparr>"

definition supported_modes :: "imx219_mode list" where
  "supported_modes = [imx219_mode_3280x2464, imx219_mode_1920x1080, imx219_mode_1640x1232,
     imx219_mode_640x480]"

lemmas imx219_mode_defs = imx219_mode_3280x2464_def imx219_mode_1920x1080_def
  imx219_mode_1640x1232_def imx219_mode_640x480_def

lemmas imx219_table_defs = mode_3280x2464_regs_def mode_1920_1080_regs_def mode_1640_1232_regs_def
  mode_640_480_regs_def

section \<open>Facts about the tables\<close>

lemma supported_modes_all:
  "(\<forall>m \<in> set supported_modes. P m) \<longleftrightarrow> P imx219_mode_3280x2464 \<and> P imx219_mode_1920x1080 \<and>
     P imx219_mode_1640x1232 \<and> P imx219_mode_640x480"
  by (simp add: supported_modes_def)

lemma supported_modes_cases:
  assumes "m \<in> set supported_modes"
  obtains "m = imx219_mode_3280x2464" | "m = imx219_mode_1920x1080" | "m = imx219_mode_1640x1232"
  | "m = imx219_mode_640x480"
  using assms by (auto simp: supported_modes_def)

interpretation imx219_sizes: size_table im_width im_height supported_modes
  by unfold_locales (simp_all add: supported_modes_def imx219_mode_defs)

lemma codes_distinct: "distinct codes"
  by (simp add: codes_def)

lemma length_codes [simp]: "length codes = 8"
  by (simp add: codes_def)

text \<open>The 8-bit codes are the second half of the table.\<close>

definition raw8_code :: "u32 \<Rightarrow> bool" where
  "raw8_code c \<longleftrightarrow> c = MEDIA_BUS_FMT_SRGGB8_1X8 \<or> c = MEDIA_BUS_FMT_SGRBG8_1X8 \<or>
     c = MEDIA_BUS_FMT_SGBRG8_1X8 \<or> c = MEDIA_BUS_FMT_SBGGR8_1X8"

definition raw10_code :: "u32 \<Rightarrow> bool" where
  "raw10_code c \<longleftrightarrow> c = MEDIA_BUS_FMT_SRGGB10_1X10 \<or> c = MEDIA_BUS_FMT_SGRBG10_1X10 \<or>
     c = MEDIA_BUS_FMT_SGBRG10_1X10 \<or> c = MEDIA_BUS_FMT_SBGGR10_1X10"

lemma codes_cases: "c \<in> set codes \<longleftrightarrow> raw8_code c \<or> raw10_code c"
  by (auto simp: codes_def raw8_code_def raw10_code_def)

lemma raw8_not_raw10: "raw8_code c \<Longrightarrow> \<not> raw10_code c"
  by (auto simp: raw8_code_def raw10_code_def)

text \<open>Every mode leaves room for the vertical blanking of its default frame length.\<close>

lemma supported_modes_bounds:
  assumes "m \<in> set supported_modes"
  shows "uint (im_height m) + 4 \<le> uint (im_vts_def m)" and "uint (im_vts_def m) \<le> 0xffff"
    and "uint (im_width m) \<le> 3280" and "uint (im_height m) \<le> 2464"
  using assms by (cases rule: supported_modes_cases; simp add: imx219_mode_defs)+

text \<open>No subtraction behind the blanking and exposure limits wraps around.\<close>

lemma mode_arith:
  assumes "m \<in> set supported_modes"
  shows "uint (IMX219_VTS_MAX - im_height m) = 0xffff - uint (im_height m)"
    and "uint (im_vts_def m - im_height m) = uint (im_vts_def m) - uint (im_height m)"
    and "sint (im_vts_def m - im_height m) = uint (im_vts_def m) - uint (im_height m)"
    and "sint (im_vts_def m - 4) = uint (im_vts_def m) - 4"
    and "sint (IMX219_PPL_DEFAULT - im_width m) = 3448 - uint (im_width m)"
  using assms by (cases rule: supported_modes_cases; simp add: imx219_mode_defs)+

end
