(* ===== verification/Imx219_IO.thy ===== *)
theory Imx219_IO
  imports Imx219_Data Ov5648_IO
begin

text \<open>
  Register access of the IMX219 driver: multi-byte big-endian reads and writes and register tables
  over the I2C core.  The one-byte write interprets \<open>reg_port\<close>, so the table lemmas of that locale
  hold of \<open>imx219_write_regs\<close> too; the lemmas at the end give the bytes a write puts on the wire, the
  image it leaves and the round trip of a write and a read of the same width.
\<close>

section \<open>Big-endian words\<close>

definition be32_bytes :: "u32 \<Rightarrow> u8 list" where
  "be32_bytes v = [ucast (drop_bit 24 v), ucast (drop_bit 16 v), ucast (drop_bit 8 v), ucast v]"

definition be32_word :: "u8 list \<Rightarrow> u32" where
  "be32_word bs = fold (\<lambda>b v. push_bit 8 v OR ucast b) bs 0"

section \<open>Operations\<close>

definition imx219_read_reg ::
  "kapi \<Rightarrow> u16 \<Rightarrow> u32 \<Rightarrow> u32 \<Rightarrow> 'a kstate_scheme \<Rightarrow> int \<times> u32 \<times> 'a kstate_scheme" where
  "imx219_read_reg k reg len old s =
     (if 4 < len then (- EINVAL, old, s)
      else let addr_buf = [hi8 reg, lo8 reg];
               (ret, data, s) = i2c_transfer2 k addr_buf (unat len) s;
               data_buf = replicate (4 - unat len) 0 @ data
           in if ret \<noteq> 2 then (- EIO, old, s) else (0, be32_word data_buf, s))"

definition imx219_write_reg :: "kapi \<Rightarrow> u16 \<Rightarrow> u32 \<Rightarrow> u32 \<Rightarrow> 'a kstate_scheme op" where
  "imx219_write_reg k reg len val s =
     (if 4 < len then (- EINVAL, s)
      else let buf = [hi8 reg, lo8 reg] @ be32_bytes (push_bit (8 * (4 - unat len)) val);
               (ret, s) = i2c_master_send k (take (unat len + 2) buf) s
           in if ret \<noteq> int (unat len + 2) then (- EIO, s) else (0, s))"

fun imx219_write_regs :: "kapi \<Rightarrow> imx219_reg list \<Rightarrow> 'a kstate_scheme op" where
  "imx219_write_regs k [] s = (0, s)"
| "imx219_write_regs k (r # rs) s =
     (let (ret, s) = imx219_write_reg k (ir_address r) 1 (ucast (ir_val r)) s
      in if ret \<noteq> 0 then (ret, s) else imx219_write_regs k rs s)"

section \<open>Writes\<close>

lemma write_reg_emits [emits_rules]: "emits bus_event s (snd (imx219_write_reg k a len v s))"
  by (simp add: imx219_write_reg_def i2c_master_send_def Let_def emits_emit)

lemma write_reg_ret [ret_rules]: "fst (imx219_write_reg k a len v s) \<le> 0"
  by (simp add: imx219_write_reg_def i2c_master_send_def Let_def)

lemma write_reg_1:
  "imx219_write_reg k a 1 v s =
     (let d = [hi8 a, lo8 a, ucast v]; ret = i2c_send_ret k (hist s) d
      in (if ret = 3 then 0 else - EIO, emit (I2cSend d ret) s))"
proof -
  have "ucast (drop_bit 24 (push_bit 24 v)) = (ucast v :: u8)"
    by (rule bit_word_eqI) (auto simp: bit_simps)
  then show ?thesis
    by (simp add: imx219_write_reg_def i2c_master_send_def Let_def be32_bytes_def)
qed

lemma write_reg_2:
  "imx219_write_reg k a 2 v s =
     (let d = [hi8 a, lo8 a, ucast (drop_bit 8 v), ucast v]; ret = i2c_send_ret k (hist s) d
      in (if ret = 4 then 0 else - EIO, emit (I2cSend d ret) s))"
proof -
  have "ucast (drop_bit 24 (push_bit 16 v)) = (ucast (drop_bit 8 v) :: u8)"
    "ucast (drop_bit 16 (push_bit 16 v)) = (ucast v :: u8)"
    by (rule bit_word_eqI, force simp: bit_simps)+
  then show ?thesis
    by (simp add: imx219_write_reg_def i2c_master_send_def Let_def be32_bytes_def)
qed

lemma ucast_byte [simp]: "ucast (ucast (v :: u8) :: u32) = v"
  by (rule bit_word_eqI) (auto simp: bit_simps)

interpretation imx219_port: reg_port "\<lambda>a v. imx219_write_reg k a 1 (ucast v)" for k
proof unfold_locales
  fix a and v :: u8 and s :: "'a kstate_scheme"
  assume "fst (imx219_write_reg k a 1 (ucast v) s) = 0"
  then show "bus_image (hist (snd (imx219_write_reg k a 1 (ucast v) s))) = (bus_image (hist s))(a \<mapsto> v)"
    by (simp add: write_reg_1 Let_def split: if_splits)
qed (simp_all add: write_reg_ret write_reg_emits)

lemma write_regs_table:
  "imx219_write_regs k (imx219_regs tab) s = run_steps (imx219_port.table_steps k tab) s"
  by (induction tab arbitrary: s)
    (auto simp: imx219_regs_def imx219_port.table_steps_def run_steps.simps(2) split: prod.splits)

lemma write_regs_pairs: "imx219_regs (map (\<lambda>r. (ir_address r, ir_val r)) rs) = rs"
  by (induction rs) (simp_all add: imx219_regs_def)

lemma write_regs_emits [emits_rules]: "emits bus_event s (snd (imx219_write_regs k rs s))"
  using imx219_port.table_emits [of s k "map (\<lambda>r. (ir_address r, ir_val r)) rs"]
  by (simp add: write_regs_table [symmetric] write_regs_pairs)

lemma write_regs_ret [ret_rules]: "fst (imx219_write_regs k rs s) \<le> 0"
  using imx219_port.table_ret [of k "map (\<lambda>r. (ir_address r, ir_val r)) rs" s]
  by (simp add: write_regs_table [symmetric] write_regs_pairs)

lemma write_regs_image:
  "imx219_write_regs k (imx219_regs tab) s = (0, s') \<Longrightarrow>
     bus_image (hist s') = (bus_image (hist s))(map fst tab [\<mapsto>] map snd tab)"
  unfolding write_regs_table by (rule imx219_port.table_image)

lemma write_reg_1_image:
  "imx219_write_reg k a 1 v s = (0, s') \<Longrightarrow>
     bus_image (hist s') = (bus_image (hist s))(a \<mapsto> ucast v)"
  by (auto simp: write_reg_1 Let_def split: if_splits)

lemma write_reg_2_image:
  "imx219_write_reg k a 2 v s = (0, s') \<Longrightarrow>
     bus_image (hist s') = (bus_image (hist s))(a \<mapsto> ucast (drop_bit 8 v), a + 1 \<mapsto> ucast v)"
  by (auto simp: write_reg_2 Let_def numeral_2_eq_2 split: if_splits)

section \<open>No error without a bus error\<close>

lemma write_reg_ok [ok_rules]:
  assumes "bus_ok k" and "len \<le> 4" shows "fst (imx219_write_reg k a len v s) = 0"
proof -
  have "unat len \<le> 4" using assms(2) by (simp add: word_le_nat_alt)
  moreover have "i2c_send_ret k h d = int (length d)" for h d
    using assms(1) by (simp add: bus_ok_def)
  ultimately show ?thesis
    using assms(2)
    by (simp add: imx219_write_reg_def i2c_master_send_def Let_def be32_bytes_def not_less)
qed

lemma write_regs_ok [ok_rules]: "bus_ok k \<Longrightarrow> fst (imx219_write_regs k rs s) = 0"
proof (induction rs arbitrary: s)
  case Nil
  then show ?case by simp
next
  case (Cons r rs)
  obtain s1 where "imx219_write_reg k (ir_address r) 1 (ucast (ir_val r)) s = (0, s1)"
    using ok_pair [OF write_reg_ok [OF Cons.prems, of 1 "ir_address r" "ucast (ir_val r)" s]]
    by simp
  with Cons show ?case by simp
qed

section \<open>Reads\<close>

lemma read_reg_emits [emits_rules]: "emits bus_event s (snd (snd (imx219_read_reg k a len old s)))"
  by (simp add: imx219_read_reg_def i2c_transfer2_def Let_def emits_emit)

lemma read_reg_2:
  assumes "regfile_xfer k dflt" and "i2c_xfer_ret k (hist s) [hi8 a, lo8 a] 2 = 2"
  shows "\<exists>s'. imx219_read_reg k a 2 old s =
    (0, push_bit 8 (ucast (reg_value dflt (hist s) a)) OR ucast (reg_value dflt (hist s) (a + 1)), s')"
proof -
  have "i2c_xfer_data k (hist s) [hi8 a, lo8 a] n i = reg_value dflt (hist s) (a + of_nat i)"
    if "i < n" for i n
    using assms(1) that by (simp add: regfile_xfer_def)
  from this [of 0 2] this [of 1 2] have data:
      "map (i2c_xfer_data k (hist s) [hi8 a, lo8 a] 2) [0..<2] =
        [reg_value dflt (hist s) a, reg_value dflt (hist s) (a + 1)]"
    by (simp add: upt_rec)
  have pad: "replicate 2 (0 :: u8) = [0, 0]"
    by (simp add: numeral_2_eq_2)
  show ?thesis
    using assms(2)
    by (simp add: imx219_read_reg_def i2c_transfer2_def Let_def be32_word_def data pad)
qed

section \<open>Properties\<close>

text \<open>The bytes of a write of \<open>n\<close> bytes.\<close>

definition wire_bytes :: "nat \<Rightarrow> u32 \<Rightarrow> u8 list" where
  "wire_bytes n v = take n (be32_bytes (push_bit (8 * (4 - n)) v))"

lemma wire_bytes_word:
  assumes "n \<in> {1, 2, 3, 4}"
  shows "be32_word (replicate (4 - n) 0 @ wire_bytes n v) = v AND mask (8 * n)" (is "?l = _")
proof -
  have "?l = take_bit (8 * n) v"
  proof (rule bit_word_eqI)
    fix i
    assume "i < LENGTH(32)"
    then show "bit ?l i = bit (take_bit (8 * n) v) i"
      using assms unfolding wire_bytes_def be32_word_def be32_bytes_def
      by (elim insertE emptyE; simp add: numeral_2_eq_2 numeral_3_eq_3; cases "i < 8";
          cases "i < 16"; cases "i < 24"; auto simp: bit_simps)
  qed
  then show ?thesis by (simp add: take_bit_eq_mask)
qed

lemma length_wire_bytes [simp]: "n \<le> 4 \<Longrightarrow> length (wire_bytes n v) = n"
  by (simp add: wire_bytes_def be32_bytes_def)

lemma write_reg_wire:
  assumes "len \<le> 4"
  shows "imx219_write_reg k a len v s =
    (let d = hi8 a # lo8 a # wire_bytes (unat len) v; ret = i2c_send_ret k (hist s) d
     in (if ret = int (unat len) + 2 then 0 else - EIO, emit (I2cSend d ret) s))"
  using assms
  by (simp add: imx219_write_reg_def i2c_master_send_def Let_def wire_bytes_def not_less)

lemma fold_updates: "fold (\<lambda>(a, v) m. m(a \<mapsto> v)) xs m = m ++ map_of (rev xs)"
proof (induction xs arbitrary: m)
  case Nil
  then show ?case by simp
next
  case (Cons x xs)
  then show ?case by (cases x) (auto simp: map_add_def fun_eq_iff split: option.splits)
qed

lemma wire_image:
  assumes "length bs \<le> 4" and "i < length bs"
  shows "fold (\<lambda>(a, v) m. m(a \<mapsto> v)) (wire_writes (hi8 a # lo8 a # bs)) m (a + of_nat i) = Some (bs ! i)"
proof -
  let ?ws = "zip (map (\<lambda>i. a + of_nat i) [0..<length bs]) bs"
  have "inj_on (\<lambda>i. a + of_nat i) {0..<length bs}"
    using assms(1) by (auto simp: inj_on_def word_of_nat_eq_iff take_bit_nat_eq_self)
  then have "distinct (map fst ?ws)"
    by (simp add: distinct_map)
  moreover have "(a + of_nat i, bs ! i) \<in> set ?ws"
    using assms(2) by (auto simp: set_zip intro!: exI [of _ i])
  ultimately have "map_of (rev ?ws) (a + of_nat i) = Some (bs ! i)"
    by (intro map_of_is_SomeI) (simp_all add: rev_map [symmetric])
  then show ?thesis by (simp add: fold_updates map_add_def)
qed

text \<open>
  a register write of one to four bytes followed by a read of the same width returns the low
  bytes of the value written, and both succeed, on a bus that acknowledges every message and a
  sensor that stores what it is sent.
\<close>

theorem imx219_write_read:
  assumes "bus_ok k" and "regfile_xfer k dflt" and "unat len \<in> {1, 2, 3, 4}"
  shows "\<exists>s1 s2. imx219_write_reg k a len v s = (0, s1) \<and>
    imx219_read_reg k a len old s1 = (0, v AND mask (8 * unat len), s2)"
proof -
  let ?n = "unat len"
  have le: "len \<le> 4" using assms(3) by (auto simp: word_le_nat_alt)
  have n4: "?n \<le> 4" using assms(3) by auto
  let ?s1 = "snd (imx219_write_reg k a len v s)"
  have w: "imx219_write_reg k a len v s = (0, ?s1)"
    using write_reg_ok [OF assms(1) le, of a v s] by (rule ok_pair)
  have img: "reg_value dflt (hist ?s1) (a + of_nat i) = wire_bytes ?n v ! i" if "i < ?n" for i
    using wire_image [of "wire_bytes ?n v" i a "bus_image (hist s)"] that n4 assms(1)
    by (simp add: write_reg_wire [OF le] Let_def reg_value_def bus_ok_def)
  have data: "map (i2c_xfer_data k (hist ?s1) [hi8 a, lo8 a] ?n) [0..<?n] = wire_bytes ?n v"
    by (rule nth_equalityI) (use assms(2) img n4 in \<open>auto simp: regfile_xfer_def\<close>)
  have "imx219_read_reg k a len old ?s1 = (0, v AND mask (8 * ?n),
      snd (snd (i2c_transfer2 k [hi8 a, lo8 a] ?n ?s1)))"
    using assms(1) le wire_bytes_word [OF assms(3), of v] unfolding bus_ok_def
    by (simp add: imx219_read_reg_def i2c_transfer2_def Let_def data not_less)
  with w show ?thesis by blast
qed

theorem imx219_write_read_witness:
  "\<exists>s1 s2. imx219_write_reg (ideal (\<lambda>_. 0)) 0x0160 2 0x12345 \<lparr>hist = []\<rparr> = (0, s1) \<and>
    imx219_read_reg (ideal (\<lambda>_. 0)) 0x0160 2 0 s1 = (0, 0x2345, s2)"
  using imx219_write_read [of "ideal (\<lambda>_. 0)" "\<lambda>_. 0" 2 "0x0160" "0x12345" "\<lparr>hist = []\<rparr>" 0]
  by (simp add: mask_eq_exp_minus_1)

text \<open>
  widths beyond four bytes are refused with -EINVAL before anything reaches the bus, and a
  transfer that is not completed in full is reported as -EIO: no other result is possible.
\<close>

theorem imx219_reg_errors:
  "(4 < len \<longrightarrow> imx219_write_reg k a len v s = (- EINVAL, s) \<and>
     imx219_read_reg k a len old s = (- EINVAL, old, s)) \<and>
   fst (imx219_write_reg k a len v s) \<in> {0, - EINVAL, - EIO} \<and>
   fst (imx219_read_reg k a len old s) \<in> {0, - EINVAL, - EIO} \<and>
   (fst (imx219_read_reg k a len old s) \<noteq> 0 \<longrightarrow> fst (snd (imx219_read_reg k a len old s)) = old)"
  by (auto simp: imx219_write_reg_def imx219_read_reg_def i2c_master_send_def i2c_transfer2_def Let_def)

theorem imx219_reg_errors_witness:
  "imx219_write_reg (ideal (\<lambda>_. 0)) 0x0160 5 1 \<lparr>hist = []\<rparr> = (- EINVAL, \<lparr>hist = []\<rparr>)"
  using imx219_reg_errors [of 5 "ideal (\<lambda>_. 0)" "0x0160" 1 "\<lparr>hist = []\<rparr>" 0] by simp

end
