(* ===== verification/Imx219_Power.thy ===== *)
theory Imx219_Power
  imports Imx219_IO
begin

text \<open>
  Power of the IMX219 driver: \<open>imx219_power_on\<close> and \<open>imx219_power_off\<close>, which are also its runtime-PM
  callbacks.  The three supplies are switched as one by \<^verbatim>\<open>regulator_bulk_enable\<close>, which enables all
  of them or none.  The pair interprets \<open>safe_power\<close>.
\<close>

section \<open>Operations\<close>

definition imx219_power_on :: "kapi \<Rightarrow> imx219 op" where
  "imx219_power_on k s =
     (let (ret, s) = regulator_enable k BULK s
      in if ret \<noteq> 0 then (ret, s)
      else let (ret, s) = clk_prepare_enable k s
      in if ret \<noteq> 0 then (ret, emit (RegulatorDisable BULK) s)
      else let s = emit (GpioSet GPIO_RESET True) s;
               s = emit (UsleepRange IMX219_XCLR_MIN_DELAY_US
                     (IMX219_XCLR_MIN_DELAY_US + IMX219_XCLR_DELAY_RANGE_US)) s
      in (0, s))"

definition imx219_power_off :: "imx219 op" where
  "imx219_power_off s =
     (let s = emit (GpioSet GPIO_RESET False) s;
          s = emit (RegulatorDisable BULK) s;
          s = emit ClkDisableUnprepare s
      in (0, s))"

section \<open>The supplies\<close>

definition imx219_draws :: "imx219 \<Rightarrow> supplies \<Rightarrow> bool" where
  "imx219_draws s x \<longleftrightarrow> x = Rail BULK \<or> x = Clock"

lemma power_on_cases:
  assumes "imx219_power_on k s = (r, s')"
  obtains (no_supply) "r \<noteq> 0" and "s' = emit (RegulatorEnable BULK r) s"
  | (no_clock) "r \<noteq> 0"
      and "s' = emit (RegulatorDisable BULK) (emit (ClkPrepareEnable r) (emit (RegulatorEnable BULK 0) s))"
  | (on) "r = 0" and "s' = emit (UsleepRange 6200 7200) (emit (GpioSet GPIO_RESET True)
      (emit (ClkPrepareEnable 0) (emit (RegulatorEnable BULK 0) s)))"
  using assms
  by (auto simp: imx219_power_on_def regulator_enable_def clk_prepare_enable_def Let_def
      split: if_splits)

interpretation imx219_power: safe_power "imx219_power_on k" "\<lambda>s. snd (imx219_power_off s)"
  imx219_draws for k
proof unfold_locales
  fix s s' :: imx219 and x r
  show "level x s' = level x s + (if imx219_draws s x then 1 else 0)"
    if "imx219_power_on k s = (0, s')"
    using that by (cases rule: power_on_cases) (cases x; auto simp: imx219_draws_def split: rail.splits)+
  show "imx219_draws s' = imx219_draws s"
    by (simp add: imx219_draws_def fun_eq_iff)
  show "level x (snd (imx219_power_off s)) = level x s - (if imx219_draws s x then 1 else 0)"
    by (cases x) (auto simp: imx219_power_off_def Let_def imx219_draws_def split: rail.splits)
  show "level x s' = level x s" if "imx219_power_on k s = (r, s')" and "r \<noteq> 0"
    using that by (cases rule: power_on_cases) (cases x; auto)+
qed

text \<open>Power switching keeps everything but the history, the usage count and the lock.\<close>

fun power_event :: "kevent \<Rightarrow> bool" where
  "power_event (RegulatorEnable _ _) = True"
| "power_event (RegulatorDisable _) = True"
| "power_event (ClkPrepareEnable _) = True"
| "power_event ClkDisableUnprepare = True"
| "power_event (GpioSet _ _) = True"
| "power_event (UsleepRange _ _) = True"
| "power_event _ = False"

lemma power_event_deltas [simp]:
  "power_event e \<Longrightarrow> lock_delta e = 0" "power_event e \<Longrightarrow> pm_delta e = 0"
  by (cases e; simp)+

lemma power_emits:
  "emits power_event s (snd (imx219_power_on k s))" "emits power_event s (snd (imx219_power_off s))"
  by (auto simp: imx219_power_on_def imx219_power_off_def regulator_enable_def clk_prepare_enable_def
      Let_def emits_def emit_def)

section \<open>Properties\<close>

definition imx219_example :: imx219 where
  "imx219_example = \<lparr>hist = [], im_fmt = zero_fmt\<lparr>fmt_code := MEDIA_BUS_FMT_SRGGB10_1X10\<rparr>,
     im_xclk = Obj, im_xclk_freq = 24000000, im_reset_gpio = Obj,
     im_supplies = imx219_supply_name,
     im_ctrls = (\<lambda>i. zero_ctrl\<lparr>ctrl_minimum := 4, ctrl_step := 1\<rparr>),
     im_mode = Some imx219_mode_3280x2464, im_streaming = False\<rparr>"

text \<open>
  powering the IMX219 up either succeeds, having enabled the supplies, then the clock, then
  released reset and waited at least the 6200 us of the datasheet comment, or fails and keeps
  neither supplies nor clock; power-off after a success and any traffic to the sensor restores
  every level.
\<close>

theorem imx219_power_balanced:
  assumes "imx219_power_on k s = (r, s1)"
  shows "level x s1 = level x s + (if r = 0 \<and> imx219_draws s x then 1 else 0) \<and>
    (r = 0 \<longrightarrow>
       hist s1 = hist s @ [RegulatorEnable BULK 0, ClkPrepareEnable 0, GpioSet GPIO_RESET True,
         UsleepRange 6200 7200] \<and>
       (emits bus_event s1 s2 \<longrightarrow> level x (snd (imx219_power_off s2)) = level x s))"
proof (intro conjI impI)
  show "level x s1 = level x s + (if r = 0 \<and> imx219_draws s x then 1 else 0)"
    using assms by (rule imx219_power.attempt)
  show "hist s1 = hist s @ [RegulatorEnable BULK 0, ClkPrepareEnable 0, GpioSet GPIO_RESET True,
      UsleepRange 6200 7200]" if "r = 0"
    using assms that by (cases rule: power_on_cases) simp_all
  show "level x (snd (imx219_power_off s2)) = level x s" if "r = 0" "emits bus_event s1 s2"
    by (rule imx219_power.cycle [OF assms [unfolded that(1)] emits_grows [OF that(2)]])
      (simp_all add: imx219_draws_def fun_eq_iff)
qed

theorem imx219_power_balanced_witness:
  "level Clock (snd (imx219_power_on ((ideal (\<lambda>_. 0))\<lparr>clk_ret := (\<lambda>h. - 5)\<rparr>) imx219_example)) = 0"
  using imx219_power_balanced [OF prod.collapse [symmetric], of Clock
      "(ideal (\<lambda>_. 0))\<lparr>clk_ret := (\<lambda>h. - 5)\<rparr>" imx219_example imx219_example]
  by (simp add: imx219_power_on_def regulator_enable_def clk_prepare_enable_def Let_def
      level_def imx219_example_def)

end
