(* ===== verification/Imx219_Ctrl.thy ===== *)
theory Imx219_Ctrl
  imports Imx219_Power
begin

text \<open>
  Controls of the IMX219 driver: the Bayer order under flips, the control operation, and the set-up
  and release of the control handler.

  \<^verbatim>\<open>lockdep_assert_held\<close> is a warning event when the driver does not hold its lock.  Reading the test
  pattern table outside its bounds is recorded as a fault, like following a NULL pointer.  The
  range of the exposure control is changed from inside the operation of the vertical-blanking
  control; the framework may then call the operation of the exposure control, and only that, which
  is \<open>imx219_apply_ctrl\<close>.
\<close>

section \<open>Bayer order\<close>

definition mutex_held :: "'a kstate_scheme \<Rightarrow> bool" where
  "mutex_held s \<longleftrightarrow> 0 < balance lock_delta (hist s)"

definition lockdep_assert_held :: "'a kstate_scheme \<Rightarrow> 'a kstate_scheme" where
  "lockdep_assert_held s = (if mutex_held s then s else emit LockdepWarn s)"

definition imx219_get_format_code :: "u32 \<Rightarrow> imx219 \<Rightarrow> u32 \<times> imx219" where
  "imx219_get_format_code code s =
     (let s = lockdep_assert_held s;
          i = find_index (\<lambda>c. c = code) codes;
          i = (if length codes \<le> i then 0 else i);
          i = ((of_nat i :: u32) AND NOT 3) OR
              (if ctrl_val (im_ctrls s V4L2_CID_VFLIP) \<noteq> 0 then 2 else 0) OR
              (if ctrl_val (im_ctrls s V4L2_CID_HFLIP) \<noteq> 0 then 1 else 0)
      in (codes ! unat i, s))"

definition imx219_set_default_format :: "imx219 \<Rightarrow> imx219" where
  "imx219_set_default_format s =
     (let enc = V4L2_MAP_YCBCR_ENC_DEFAULT V4L2_COLORSPACE_SRGB
      in s\<lparr>im_fmt := (im_fmt s)\<lparr>
           fmt_code := MEDIA_BUS_FMT_SRGGB10_1X10,
           fmt_colorspace := V4L2_COLORSPACE_SRGB,
           fmt_ycbcr_enc := enc,
           fmt_quantization := V4L2_MAP_QUANTIZATION_DEFAULT True V4L2_COLORSPACE_SRGB enc,
           fmt_xfer_func := V4L2_MAP_XFER_FUNC_DEFAULT V4L2_COLORSPACE_SRGB,
           fmt_width := im_width (supported_modes ! 0),
           fmt_height := im_height (supported_modes ! 0),
           fmt_field := V4L2_FIELD_NONE\<rparr>\<rparr>)"

section \<open>The control operation\<close>

definition imx219_ctrl_val :: "u32 \<Rightarrow> imx219 \<Rightarrow> u32" where
  "imx219_ctrl_val i s = word_of_int (ctrl_val (im_ctrls s i))"

text \<open>The \<^verbatim>\<open>switch\<close> of \<^verbatim>\<open>imx219_set_ctrl\<close>.\<close>

definition imx219_write_ctrl :: "kapi \<Rightarrow> u32 \<Rightarrow> imx219 op" where
  "imx219_write_ctrl k i s =
     (let val = imx219_ctrl_val i s
      in if i = V4L2_CID_ANALOGUE_GAIN then
           imx219_write_reg k IMX219_REG_ANALOG_GAIN IMX219_REG_VALUE_08BIT val s
         else if i = V4L2_CID_EXPOSURE then
           imx219_write_reg k IMX219_REG_EXPOSURE IMX219_REG_VALUE_16BIT val s
         else if i = V4L2_CID_DIGITAL_GAIN then
           imx219_write_reg k IMX219_REG_DIGITAL_GAIN IMX219_REG_VALUE_16BIT val s
         else if i = V4L2_CID_TEST_PATTERN then
           (let index = ctrl_val (im_ctrls s i)
            in if 0 \<le> index \<and> index < int (length imx219_test_pattern_val)
               then imx219_write_reg k IMX219_REG_TEST_PATTERN IMX219_REG_VALUE_16BIT
                      (word_of_int (imx219_test_pattern_val ! nat index)) s
               else (- EFAULT, emit NullDeref s))
         else if i = V4L2_CID_HFLIP \<or> i = V4L2_CID_VFLIP then
           imx219_write_reg k IMX219_REG_ORIENTATION 1
             (imx219_ctrl_val V4L2_CID_HFLIP s OR push_bit 1 (imx219_ctrl_val V4L2_CID_VFLIP s)) s
         else if i = V4L2_CID_VBLANK then
           deref (im_mode s) (\<lambda>m. imx219_write_reg k IMX219_REG_VTS IMX219_REG_VALUE_16BIT
             (im_height m + val)) s
         else if i = V4L2_CID_TEST_PATTERN_RED then
           imx219_write_reg k IMX219_REG_TESTP_RED IMX219_REG_VALUE_16BIT val s
         else if i = V4L2_CID_TEST_PATTERN_GREENR then
           imx219_write_reg k IMX219_REG_TESTP_GREENR IMX219_REG_VALUE_16BIT val s
         else if i = V4L2_CID_TEST_PATTERN_BLUE then
           imx219_write_reg k IMX219_REG_TESTP_BLUE IMX219_REG_VALUE_16BIT val s
         else if i = V4L2_CID_TEST_PATTERN_GREENB then
           imx219_write_reg k IMX219_REG_TESTP_GREENB IMX219_REG_VALUE_16BIT val s
         else (- EINVAL, s))"

definition imx219_apply_ctrl :: "kapi \<Rightarrow> imx219 kcb \<Rightarrow> u32 \<Rightarrow> imx219 op" where
  "imx219_apply_ctrl k c i s =
     (let (in_use, s) = pm_runtime_get_if_in_use k s
      in if in_use = 0 then (0, s)
      else let (ret, s) = imx219_write_ctrl k i s
      in (ret, pm_runtime_put c imx219_power_off s))"

text \<open>The exposure limits for a frame of \<open>lines\<close> lines.\<close>

definition imx219_exposure_def :: "int \<Rightarrow> int" where
  "imx219_exposure_def exposure_max =
     (if exposure_max < IMX219_EXPOSURE_DEFAULT then exposure_max else IMX219_EXPOSURE_DEFAULT)"

definition imx219_exposure_range :: "kapi \<Rightarrow> imx219 kcb \<Rightarrow> int \<Rightarrow> imx219 \<Rightarrow> imx219" where
  "imx219_exposure_range k c exposure_max s =
     (let e = im_ctrls s V4L2_CID_EXPOSURE
      in snd (v4l2_ctrl_modify_range c (imx219_apply_ctrl k c) V4L2_CID_EXPOSURE (ctrl_minimum e)
                exposure_max (ctrl_step e) (imx219_exposure_def exposure_max) s))"

definition imx219_set_ctrl :: "kapi \<Rightarrow> imx219 kcb \<Rightarrow> u32 \<Rightarrow> imx219 op" where
  "imx219_set_ctrl k c i s = run_steps [
     (\<lambda>s. if i = V4L2_CID_VBLANK
          then deref (im_mode s) (\<lambda>m s. (0, imx219_exposure_range k c
                 (sint (im_height m + imx219_ctrl_val i s - 4)) s)) s
          else (0, s)),
     imx219_apply_ctrl k c i] s"

section \<open>Setting the controls up\<close>

text \<open>A new control gets its flags only when it could be created.\<close>

definition imx219_ctrl_new ::
  "kapi \<Rightarrow> u32 \<Rightarrow> int \<Rightarrow> int \<Rightarrow> int \<Rightarrow> int \<Rightarrow> u32 \<Rightarrow> imx219 \<Rightarrow> imx219" where
  "imx219_ctrl_new k i mi ma st df flags s =
     (let s' = emit (CtrlNew i mi ma st df) s
      in case ctrl_create k (hist s) i mi ma st df of
           None \<Rightarrow> s'
         | Some c \<Rightarrow>
             s'\<lparr>im_ctrls := (im_ctrls s')(i := c\<lparr>ctrl_flags := ctrl_flags c OR flags\<rparr>)\<rparr>)"

definition imx219_new_controls :: "kapi \<Rightarrow> imx219_mode \<Rightarrow> imx219 \<Rightarrow> imx219" where
  "imx219_new_controls k m s =
     (let height = im_height m;
          hblank = sint (IMX219_PPL_DEFAULT - im_width m);
          exposure_max = sint (im_vts_def m - 4);
          s = imx219_ctrl_new k V4L2_CID_PIXEL_RATE IMX219_PIXEL_RATE IMX219_PIXEL_RATE 1
                IMX219_PIXEL_RATE 0 s;
          s = imx219_ctrl_new k V4L2_CID_VBLANK IMX219_VBLANK_MIN (uint (IMX219_VTS_MAX - height)) 1
                (uint (im_vts_def m - height)) 0 s;
          s = imx219_ctrl_new k V4L2_CID_HBLANK hblank hblank 1 hblank V4L2_CTRL_FLAG_READ_ONLY s;
          s = imx219_ctrl_new k V4L2_CID_EXPOSURE IMX219_EXPOSURE_MIN exposure_max
                IMX219_EXPOSURE_STEP (imx219_exposure_def exposure_max) 0 s;
          s = imx219_ctrl_new k V4L2_CID_ANALOGUE_GAIN IMX219_ANA_GAIN_MIN IMX219_ANA_GAIN_MAX
                IMX219_ANA_GAIN_STEP IMX219_ANA_GAIN_DEFAULT 0 s;
          s = imx219_ctrl_new k V4L2_CID_DIGITAL_GAIN IMX219_DGTL_GAIN_MIN IMX219_DGTL_GAIN_MAX
                IMX219_DGTL_GAIN_STEP IMX219_DGTL_GAIN_DEFAULT 0 s;
          s = imx219_ctrl_new k V4L2_CID_HFLIP 0 1 1 0 V4L2_CTRL_FLAG_MODIFY_LAYOUT s;
          s = imx219_ctrl_new k V4L2_CID_VFLIP 0 1 1 0 V4L2_CTRL_FLAG_MODIFY_LAYOUT s;
          s = imx219_ctrl_new k V4L2_CID_TEST_PATTERN 0
                (int (length imx219_test_pattern_menu) - 1) 0 0 0 s
      in fold (\<lambda>i. imx219_ctrl_new k (V4L2_CID_TEST_PATTERN_RED + i) IMX219_TESTP_COLOUR_MIN
           IMX219_TESTP_COLOUR_MAX IMX219_TESTP_COLOUR_STEP IMX219_TESTP_COLOUR_MAX 0) [0, 1, 2, 3] s)"

definition imx219_init_controls :: "kapi \<Rightarrow> imx219 op" where
  "imx219_init_controls k s =
     (case im_mode s of
        None \<Rightarrow> (- EFAULT, emit NullDeref s)
      | Some m \<Rightarrow>
          let ret = handler_init_ret k (hist s) 9;
              s = (if ret = 0 then emit (CtrlHandlerInit 9) s else s)
          in if ret \<noteq> 0 then (ret, s)
          else let s = emit MutexInit s;
                   s = imx219_new_controls k m s;
                   ret = handler_error k (hist s)
          in if ret \<noteq> 0 then (ret, emit MutexDestroy (emit CtrlHandlerFree s))
          else (0, s))"

definition imx219_free_controls :: "imx219 \<Rightarrow> imx219" where
  "imx219_free_controls s = emit MutexDestroy (emit CtrlHandlerFree s)"

section \<open>Bayer order under flips\<close>

definition imx219_flip :: "imx219 \<Rightarrow> nat" where
  "imx219_flip s = (if ctrl_val (im_ctrls s V4L2_CID_VFLIP) \<noteq> 0 then 2 else 0) +
     (if ctrl_val (im_ctrls s V4L2_CID_HFLIP) \<noteq> 0 then 1 else 0)"

lemma lockdep_fields [simp]:
  "im_ctrls (lockdep_assert_held s) = im_ctrls s" "im_mode (lockdep_assert_held s) = im_mode s"
  "im_fmt (lockdep_assert_held s) = im_fmt s" "im_streaming (lockdep_assert_held s) = im_streaming s"
  by (simp_all add: lockdep_assert_held_def emit_def)

lemma code_index:
  "find_index (\<lambda>c. c = code) codes =
     (if code = 0x300f then 0 else if code = 0x300a then 1 else if code = 0x300e then 2
      else if code = 0x3007 then 3 else if code = 0x3014 then 4 else if code = 0x3002 then 5
      else if code = 0x3013 then 6 else if code = 0x3001 then 7 else 8)"
  by (simp add: codes_def eq_commute [of _ code])

lemma get_format_code_eq:
  "imx219_get_format_code code s =
     (codes ! ((if raw8_code code then 4 else 0) + imx219_flip s), lockdep_assert_held s)"
proof -
  have "unat (((of_nat (let i = find_index (\<lambda>c. c = code) codes in if length codes \<le> i then 0 else i)
        :: u32) AND NOT 3) OR
      (if ctrl_val (im_ctrls s V4L2_CID_VFLIP) \<noteq> 0 then 2 else 0) OR
      (if ctrl_val (im_ctrls s V4L2_CID_HFLIP) \<noteq> 0 then 1 else 0)) =
    (if raw8_code code then 4 else 0) + imx219_flip s"
    unfolding code_index imx219_flip_def raw8_code_def by (simp add: Let_def)
  then show ?thesis by (simp add: imx219_get_format_code_def Let_def)
qed

text \<open>
  What a flip does to the order of the colour filter: a horizontal flip exchanges the columns of
  the two-by-two pattern, a vertical flip its rows.
\<close>

definition bayer_hflip :: "u32 \<Rightarrow> u32" where
  "bayer_hflip c =
     (if c = MEDIA_BUS_FMT_SRGGB10_1X10 then MEDIA_BUS_FMT_SGRBG10_1X10
      else if c = MEDIA_BUS_FMT_SGBRG10_1X10 then MEDIA_BUS_FMT_SBGGR10_1X10
      else if c = MEDIA_BUS_FMT_SRGGB8_1X8 then MEDIA_BUS_FMT_SGRBG8_1X8
      else if c = MEDIA_BUS_FMT_SGBRG8_1X8 then MEDIA_BUS_FMT_SBGGR8_1X8 else c)"

definition bayer_vflip :: "u32 \<Rightarrow> u32" where
  "bayer_vflip c =
     (if c = MEDIA_BUS_FMT_SRGGB10_1X10 then MEDIA_BUS_FMT_SGBRG10_1X10
      else if c = MEDIA_BUS_FMT_SGRBG10_1X10 then MEDIA_BUS_FMT_SBGGR10_1X10
      else if c = MEDIA_BUS_FMT_SRGGB8_1X8 then MEDIA_BUS_FMT_SGBRG8_1X8
      else if c = MEDIA_BUS_FMT_SGRBG8_1X8 then MEDIA_BUS_FMT_SBGGR8_1X8 else c)"

lemma flip_less [simp]: "imx219_flip s < 4" "imx219_flip s < 8" "\<not> 4 \<le> imx219_flip s"
  by (simp_all add: imx219_flip_def)

lemma get_format_code_in: "fst (imx219_get_format_code code s) \<in> set codes"
  by (simp add: get_format_code_eq)

lemma raw8_nth: "i < 8 \<Longrightarrow> raw8_code (codes ! i) \<longleftrightarrow> 4 \<le> i"
  unfolding codes_def raw8_code_def by (auto simp: nth_Cons' split: if_splits)

lemma get_format_code_raw8:
  "raw8_code (fst (imx219_get_format_code code s)) = raw8_code code"
  by (simp add: get_format_code_eq raw8_nth)

lemma get_format_code_twice:
  assumes "im_ctrls t = im_ctrls s"
  shows "fst (imx219_get_format_code (fst (imx219_get_format_code code s)) t) =
    fst (imx219_get_format_code code s)"
  using get_format_code_raw8 [of code s] assms by (simp add: get_format_code_eq imx219_flip_def)

section \<open>What the control operation keeps\<close>

definition pattern_ok :: "imx219 \<Rightarrow> bool" where
  "pattern_ok s \<longleftrightarrow> 0 \<le> ctrl_val (im_ctrls s V4L2_CID_TEST_PATTERN) \<and>
     ctrl_val (im_ctrls s V4L2_CID_TEST_PATTERN) < 5"

text \<open>
  The framework's own steps: it may update the controls, but leaves the flips alone while it works
  on another control or sets the controls up, and keeps a menu control inside its menu.
\<close>

definition imx219_ctrl_step :: "imx219 \<Rightarrow> imx219 \<Rightarrow> bool" where
  "imx219_ctrl_step s s' \<longleftrightarrow> (\<exists>cs. s' = s\<lparr>im_ctrls := cs\<rparr>) \<and>
     imx219_flip s' = imx219_flip s \<and> (pattern_ok s \<longrightarrow> pattern_ok s')"

text \<open>
  \<open>im_neutral\<close>: usage count, lock, mode, format, flips and streaming flag are as before; with the test
  pattern inside its menu and a mode, no fault has happened.
\<close>

definition im_neutral :: "imx219 \<Rightarrow> imx219 \<Rightarrow> bool" where
  "im_neutral s s' \<longleftrightarrow>
     balance pm_delta (hist s') = balance pm_delta (hist s) \<and>
     balance lock_delta (hist s') = balance lock_delta (hist s) \<and>
     im_mode s' = im_mode s \<and> im_fmt s' = im_fmt s \<and> im_streaming s' = im_streaming s \<and>
     imx219_flip s' = imx219_flip s \<and>
     (pattern_ok s \<longrightarrow> pattern_ok s' \<and>
        (im_mode s \<noteq> None \<longrightarrow> NullDeref \<in> set (hist s') \<longrightarrow> NullDeref \<in> set (hist s)))"

lemma im_neutral_refl [simp, intro]: "im_neutral s s"
  by (simp add: im_neutral_def)

lemma im_neutral_trans [trans]: "im_neutral a b \<Longrightarrow> im_neutral b c \<Longrightarrow> im_neutral a c"
  by (auto simp: im_neutral_def)

lemma emits_im_neutral:
  assumes "emits P s s'" and "\<And>e. P e \<Longrightarrow> pm_delta e = 0 \<and> lock_delta e = 0 \<and> e \<noteq> NullDeref"
  shows "im_neutral s s'"
proof -
  obtain es where "s' = s\<lparr>hist := hist s @ es\<rparr>" "list_all P es"
    using assms(1) by (auto simp: emits_def)
  moreover from this have "NullDeref \<notin> set es"
    using assms(2) by (auto simp: list_all_iff)
  ultimately show ?thesis
    using emits_balance [OF assms(1), of pm_delta] emits_balance [OF assms(1), of lock_delta] assms(2)
    by (auto simp: im_neutral_def pattern_ok_def imx219_flip_def)
qed

lemma bus_im_neutral: "emits bus_event s s' \<Longrightarrow> im_neutral s s'"
  by (erule emits_im_neutral) auto

lemma power_im_neutral:
  "im_neutral s (snd (imx219_power_on k s))" "im_neutral s (snd (imx219_power_off s))"
  by (rule emits_im_neutral [OF power_emits(1)], auto, rule emits_im_neutral [OF power_emits(2)], auto)

lemma ctrl_step_neutral: "imx219_ctrl_step s s' \<Longrightarrow> im_neutral s s'"
  by (auto simp: imx219_ctrl_step_def im_neutral_def)

lemma emit_im_neutral:
  "pm_delta e = 0 \<Longrightarrow> lock_delta e = 0 \<Longrightarrow> e \<noteq> NullDeref \<Longrightarrow> im_neutral s (emit e s)"
  by (auto simp: im_neutral_def pattern_ok_def imx219_flip_def emit_def)

lemma fault_neutral: "\<not> pattern_ok s \<or> im_mode s = None \<Longrightarrow> im_neutral s (emit NullDeref s)"
  by (auto simp: im_neutral_def pattern_ok_def imx219_flip_def emit_def)

lemma write_ctrl_neutral: "im_neutral s (snd (imx219_write_ctrl k i s))"
proof -
  have w: "im_neutral s (snd (imx219_write_reg k a n v s))" for a n v
    by (intro bus_im_neutral write_reg_emits)
  show ?thesis
    by (auto simp: imx219_write_ctrl_def Let_def deref_def w fault_neutral pattern_ok_def
        imx219_test_pattern_val_def split: option.split)
qed

text \<open>Runtime PM enabled: the usage count can be consulted.\<close>

definition pm_usable :: "kapi \<Rightarrow> bool" where
  "pm_usable k \<longleftrightarrow> (\<forall>h. 0 \<le> rpm_in_use k h)"

lemma pm_put_off_neutral:
  assumes "pm_spec c" shows "im_neutral s (pm_put c imx219_power_off s)"
  by (rule pm_put_cases [OF assms, of imx219_power_off s]) (auto simp: power_im_neutral)

lemma apply_ctrl_cases:
  assumes "imx219_apply_ctrl k c i s = (r, s')"
  obtains (idle) "rpm_in_use k (hist s) = 0" and "r = 0" and "s' = emit (PmGetIfInUse 0) s"
  | (used) s1 where "rpm_in_use k (hist s) \<noteq> 0"
      and "imx219_write_ctrl k i (emit (PmGetIfInUse (rpm_in_use k (hist s))) s) = (r, s1)"
      and "s' = pm_put c imx219_power_off (emit PmPut s1)"
  using assms
  by (auto simp: imx219_apply_ctrl_def pm_runtime_get_if_in_use_def pm_runtime_put_def Let_def
      split: if_splits prod.splits)

lemma apply_ctrl_neutral:
  assumes "pm_spec c" and "pm_usable k"
  shows "im_neutral s (snd (imx219_apply_ctrl k c i s))"
proof -
  obtain r s' where eq: "imx219_apply_ctrl k c i s = (r, s')"
    by (cases "imx219_apply_ctrl k c i s")
  then show ?thesis
  proof (cases rule: apply_ctrl_cases)
    case idle
    then show ?thesis using eq by (simp add: emit_im_neutral)
  next
    case (used s1)
    let ?t = "emit (PmGetIfInUse (rpm_in_use k (hist s))) s"
    have "0 < rpm_in_use k (hist s)"
      using used(1) assms(2) by (simp add: pm_usable_def order_less_le)
    moreover have "im_neutral ?t s1"
      using write_ctrl_neutral [of ?t k i] used(2) by simp
    moreover have "im_neutral (emit PmPut s1) s'"
      using pm_put_off_neutral [OF assms(1), of "emit PmPut s1"] used(3) by simp
    ultimately show ?thesis
      using eq by (auto simp: im_neutral_def pattern_ok_def imx219_flip_def emit_def)
  qed
qed

lemma ctrl_call_neutral: "ctrl_call e \<Longrightarrow> im_neutral s (emit e s)"
  by (rule emit_im_neutral) (cases e; simp)+

lemma control_neutral:
  assumes "\<And>i s. im_neutral s (snd (f i s))"
  shows "range_spec imx219_ctrl_step c \<Longrightarrow>
      im_neutral s (snd (v4l2_ctrl_modify_range c f i mi ma st df s))"
    and "set_spec imx219_ctrl_step c \<Longrightarrow> im_neutral s (snd (v4l2_ctrl_s_ctrl c f i v s))"
    and "setup_spec imx219_ctrl_step c \<Longrightarrow> im_neutral s (snd (v4l2_ctrl_handler_setup c f s))"
  by (rule control_calls [where R = "im_neutral" and W = imx219_ctrl_step and f = f];
      auto intro: im_neutral_trans ctrl_step_neutral ctrl_call_neutral assms)+

lemma exposure_range_neutral:
  assumes "pm_spec c" and "pm_usable k" and "range_spec imx219_ctrl_step c"
  shows "im_neutral s (imx219_exposure_range k c ma s)"
  unfolding imx219_exposure_range_def Let_def
  by (rule control_neutral(1) [OF apply_ctrl_neutral [OF assms(1,2)] assms(3)])

lemma set_ctrl_neutral:
  assumes "pm_spec c" and "pm_usable k" and "range_spec imx219_ctrl_step c"
  shows "im_neutral s (snd (imx219_set_ctrl k c i s))"
  unfolding imx219_set_ctrl_def
proof (rule run_steps_rel [where R = im_neutral])
  fix f s
  assume "f \<in> set [\<lambda>s. if i = V4L2_CID_VBLANK
          then deref (im_mode s) (\<lambda>m s. (0, imx219_exposure_range k c
                 (sint (im_height m + imx219_ctrl_val i s - 4)) s)) s
          else (0, s), imx219_apply_ctrl k c i]"
  then show "im_neutral s (snd (f s))"
    by (auto simp: deref_def fault_neutral exposure_range_neutral [OF assms] apply_ctrl_neutral [OF assms(1,2)]
        split: option.split)
qed (auto intro: im_neutral_trans)

section \<open>The frame length register\<close>

definition reg16 :: "(u16 \<rightharpoonup> u8) \<Rightarrow> u16 \<Rightarrow> u16 option" where
  "reg16 img a = (case (img a, img (a + 1)) of (Some h, Some l) \<Rightarrow> Some (be16 h l) | _ \<Rightarrow> None)"

lemma be16_fields: "be16 (ucast (drop_bit 8 v)) (ucast v) = (ucast (v :: u32) :: u16)"
proof (rule bit_word_eqI)
  fix i
  assume "i < LENGTH(16)"
  then show "bit (be16 (ucast (drop_bit 8 v)) (ucast v)) i = bit (ucast v :: u16) i"
    by (cases "i < 8") (auto simp: be16_def bit_simps)
qed

lemma sint_small:
  assumes "uint (w :: u32) < 2147483648" shows "sint w = uint w"
proof -
  have "- (2 ^ 31) \<le> uint w" by (rule order_trans [OF _ uint_ge_0]) simp
  then show ?thesis
    using assms signed_take_bit_int_eq_self [of 31 "uint w"] by (simp add: sint_uint)
qed

lemma write_reg_2_reg16:
  "imx219_write_reg k a 2 v s = (0, s') \<Longrightarrow> reg16 (bus_image (hist s')) a = Some (ucast v)"
  by (simp add: reg16_def write_reg_2_image be16_fields)

lemma power_off_image:
  assumes "pm_spec c"
  shows "bus_image (hist (pm_put c imx219_power_off s)) = bus_image (hist s)"
    and "prefix (hist s) (hist (pm_put c imx219_power_off s))"
  by (rule pm_put_cases [OF assms, of imx219_power_off s],
      auto simp: imx219_power_off_def Let_def prefix_def)+

text \<open>While the range of the exposure control changes, the framework may update that control only.\<close>

definition imx219_exposure_step :: "imx219 \<Rightarrow> imx219 \<Rightarrow> bool" where
  "imx219_exposure_step s s' \<longleftrightarrow>
     (\<exists>e. s' = s\<lparr>im_ctrls := (im_ctrls s)(V4L2_CID_EXPOSURE := e)\<rparr>)"

definition keeps_blanking :: "imx219 \<Rightarrow> imx219 \<Rightarrow> bool" where
  "keeps_blanking s s' \<longleftrightarrow> prefix (hist s) (hist s') \<and> im_mode s' = im_mode s \<and>
     im_ctrls s' V4L2_CID_VBLANK = im_ctrls s V4L2_CID_VBLANK"

lemma emits_keeps: "emits P s s' \<Longrightarrow> keeps_blanking s s'"
  by (auto simp: emits_def keeps_blanking_def)

lemma keeps_refl [simp]: "keeps_blanking s s"
  by (simp add: keeps_blanking_def)

lemma keeps_trans: "keeps_blanking a b \<Longrightarrow> keeps_blanking b c \<Longrightarrow> keeps_blanking a c"
  by (auto simp: keeps_blanking_def)

lemma emit_keeps: "keeps_blanking s (emit e s)"
  by (simp add: keeps_blanking_def emit_def)

lemma write_ctrl_keeps: "keeps_blanking s (snd (imx219_write_ctrl k i s))"
  by (auto simp: imx219_write_ctrl_def Let_def deref_def emit_keeps
      emits_keeps [OF write_reg_emits] split: option.split)

lemma apply_ctrl_keeps:
  assumes "pm_spec c" shows "keeps_blanking s (snd (imx219_apply_ctrl k c i s))"
proof -
  have put: "keeps_blanking t (pm_put c imx219_power_off t)" for t
    by (rule pm_put_cases [OF assms, of imx219_power_off t])
      (auto simp: emits_keeps [OF power_emits(2)])
  obtain r s' where eq: "imx219_apply_ctrl k c i s = (r, s')"
    by (cases "imx219_apply_ctrl k c i s")
  then show ?thesis
  proof (cases rule: apply_ctrl_cases)
    case idle
    then show ?thesis using eq by (simp add: emit_keeps)
  next
    case (used s1)
    let ?t = "emit (PmGetIfInUse (rpm_in_use k (hist s))) s"
    have "keeps_blanking ?t s1" using write_ctrl_keeps [of ?t k i] used(2) by simp
    then have "keeps_blanking s s'"
      unfolding used(3) using put [of "emit PmPut s1"] emit_keeps keeps_trans by blast
    then show ?thesis using eq by simp
  qed
qed

lemma exposure_range_keeps:
  assumes "pm_spec c" and "range_spec imx219_exposure_step c"
  shows "keeps_blanking s (imx219_exposure_range k c ma s)"
    and "\<exists>mi st. CtrlModifyRange V4L2_CID_EXPOSURE mi ma st (imx219_exposure_def ma) \<in>
           set (hist (imx219_exposure_range k c ma s))"
proof -
  let ?e = "im_ctrls s V4L2_CID_EXPOSURE"
  let ?s = "emit (CtrlModifyRange V4L2_CID_EXPOSURE (ctrl_minimum ?e) ma (ctrl_step ?e)
    (imx219_exposure_def ma)) s"
  have eq: "imx219_exposure_range k c ma s = snd (ctrl_range c (imx219_apply_ctrl k c)
      V4L2_CID_EXPOSURE (ctrl_minimum ?e) ma (ctrl_step ?e) (imx219_exposure_def ma) ?s)"
    by (simp add: imx219_exposure_range_def v4l2_ctrl_modify_range_def Let_def)
  have "cb_runs imx219_exposure_step (imx219_apply_ctrl k c) ?s (imx219_exposure_range k c ma s)"
    using assms(2) unfolding eq by (simp add: range_spec_def)
  then have k: "keeps_blanking ?s (imx219_exposure_range k c ma s)"
    by (rule cb_runs_rel [where R = keeps_blanking])
      (auto simp: imx219_exposure_step_def apply_ctrl_keeps [OF assms(1)] intro: keeps_trans,
        simp add: keeps_blanking_def)
  then show "keeps_blanking s (imx219_exposure_range k c ma s)"
    by (rule keeps_trans [OF emit_keeps])
  show "\<exists>mi st. CtrlModifyRange V4L2_CID_EXPOSURE mi ma st (imx219_exposure_def ma) \<in>
      set (hist (imx219_exposure_range k c ma s))"
    using k by (force simp: keeps_blanking_def prefix_def)
qed

text \<open>A frame of the mode's height and any declared blanking fits its register.\<close>

lemma vblank_arith:
  assumes "m \<in> set supported_modes" and "IMX219_VBLANK_MIN \<le> v" and "v \<le> uint (IMX219_VTS_MAX - im_height m)"
  shows "uint (im_height m + word_of_int v) = uint (im_height m) + v"
    and "sint (im_height m + word_of_int v - 4) = uint (im_height m) + v - 4"
    and "uint (ucast (im_height m + word_of_int v) :: u16) = uint (im_height m) + v"
    and "4 \<le> uint (im_height m)"
proof -
  let ?h = "im_height m" and ?w = "word_of_int v :: u32"
  show h: "4 \<le> uint ?h" using assms(1) by (cases rule: supported_modes_cases; simp add: imx219_mode_defs)
  note b = supported_modes_bounds(4) [OF assms(1)] mode_arith(1) [OF assms(1)]
  have w: "uint ?w = v" using assms(2,3) b h by (simp add: unsigned_of_int take_bit_int_eq_self)
  show sum: "uint (?h + ?w) = uint ?h + v"
    using assms(2,3) b h w by (simp add: uint_add_lem [THEN iffD1])
  have "uint (?h + ?w - 4) = uint ?h + v - 4"
    using sum assms(2) h by (simp add: uint_sub_lem [THEN iffD1] word_le_def)
  then show "sint (?h + ?w - 4) = uint ?h + v - 4"
    using assms(2,3) b h by (simp add: sint_small)
  show "uint (ucast (?h + ?w) :: u16) = uint ?h + v"
    using sum assms(2,3) b h by (simp add: unsigned_ucast_eq take_bit_int_eq_self)
qed

section \<open>Declared ranges\<close>

lemma ctrl_new_hist [simp]:
  "hist (imx219_ctrl_new k i mi ma st df f s) = hist s @ [CtrlNew i mi ma st df]"
  by (simp add: imx219_ctrl_new_def Let_def split: option.splits)

lemma im_ctrl_new_fields [simp]:
  "im_mode (imx219_ctrl_new k i mi ma st df f s) = im_mode s"
  "im_fmt (imx219_ctrl_new k i mi ma st df f s) = im_fmt s"
  "im_streaming (imx219_ctrl_new k i mi ma st df f s) = im_streaming s"
  "im_reset_gpio (imx219_ctrl_new k i mi ma st df f s) = im_reset_gpio s"
  by (simp_all add: imx219_ctrl_new_def Let_def emit_def split: option.splits)

fun range_ok :: "kevent \<Rightarrow> bool" where
  "range_ok (CtrlNew i mi ma st df) \<longleftrightarrow> mi \<le> df \<and> df \<le> ma"
| "range_ok _ \<longleftrightarrow> False"

lemma new_controls_hist:
  assumes "m \<in> set supported_modes"
  shows "\<exists>es. hist (imx219_new_controls k m s) = hist s @ es \<and> length es = 13 \<and> list_all range_ok es"
  using assms
  by (cases rule: supported_modes_cases)
    (simp_all add: imx219_new_controls_def imx219_mode_defs Let_def imx219_exposure_def_def
      imx219_test_pattern_menu_def)

lemma new_controls_fields:
  "im_mode (imx219_new_controls k m s) = im_mode s" "im_fmt (imx219_new_controls k m s) = im_fmt s"
  "im_streaming (imx219_new_controls k m s) = im_streaming s"
  "im_reset_gpio (imx219_new_controls k m s) = im_reset_gpio s"
  by (simp_all add: imx219_new_controls_def Let_def)

section \<open>Properties\<close>

text \<open>
  C37: the code reported for a format is the colour order of the unflipped sensor turned by the
  active flips, as the table comment demands: a horizontal flip exchanges columns and a vertical
  flip rows of the pattern.  It is always a code of the table, keeps the bit depth, and asking again
  changes nothing.
\<close>

theorem imx219_bayer_order:
  "let c = fst (imx219_get_format_code code s);
       base = (if raw8_code code then MEDIA_BUS_FMT_SRGGB8_1X8 else MEDIA_BUS_FMT_SRGGB10_1X10)
   in c \<in> set codes \<and> raw8_code c = raw8_code code \<and>
      c = (if ctrl_val (im_ctrls s V4L2_CID_VFLIP) \<noteq> 0 then bayer_vflip else id)
           ((if ctrl_val (im_ctrls s V4L2_CID_HFLIP) \<noteq> 0 then bayer_hflip else id) base) \<and>
      fst (imx219_get_format_code c s) = c"
proof -
  have "fst (imx219_get_format_code code s) =
      (if ctrl_val (im_ctrls s V4L2_CID_VFLIP) \<noteq> 0 then bayer_vflip else id)
        ((if ctrl_val (im_ctrls s V4L2_CID_HFLIP) \<noteq> 0 then bayer_hflip else id)
          (if raw8_code code then MEDIA_BUS_FMT_SRGGB8_1X8 else MEDIA_BUS_FMT_SRGGB10_1X10))"
    by (simp add: get_format_code_eq imx219_flip_def codes_def bayer_hflip_def bayer_vflip_def)
  then show ?thesis
    using get_format_code_in [of code s] get_format_code_raw8 [of code s]
      get_format_code_twice [OF refl, of code s]
    by (simp only: Let_def simp_thms)
qed

text \<open>
  applying a control leaves the runtime-PM usage count as it was when runtime PM is enabled;
  when the query of the count fails, with a negative code, the driver still writes the register and
  then gives back a reference that it never took.
\<close>

theorem imx219_apply_ctrl_reference:
  assumes "pm_spec c"
  shows "balance pm_delta (hist (snd (imx219_apply_ctrl k c i s))) =
    balance pm_delta (hist s) - (if rpm_in_use k (hist s) < 0 then 1 else 0)"
proof -
  obtain r s' where eq: "imx219_apply_ctrl k c i s = (r, s')"
    by (cases "imx219_apply_ctrl k c i s")
  then show ?thesis
  proof (cases rule: apply_ctrl_cases)
    case idle
    then show ?thesis using eq by simp
  next
    case (used s1)
    let ?t = "emit (PmGetIfInUse (rpm_in_use k (hist s))) s"
    have "im_neutral ?t s1" using write_ctrl_neutral [of ?t k i] used(2) by simp
    moreover have "im_neutral (emit PmPut s1) s'"
      using pm_put_off_neutral [OF assms, of "emit PmPut s1"] used(3) by simp
    ultimately show ?thesis
      using eq used(1) by (auto simp: im_neutral_def)
  qed
qed

theorem imx219_apply_ctrl_reference_witness:
  "balance pm_delta (hist (snd (imx219_apply_ctrl ((ideal (\<lambda>_. 0))\<lparr>rpm_in_use := (\<lambda>h. - 22)\<rparr>)
     (ideal_cb [] (\<lambda>i v s. s)) V4L2_CID_EXPOSURE imx219_example))) = - 1"
  using imx219_apply_ctrl_reference [of "ideal_cb [] (\<lambda>i v s. s)"
      "(ideal (\<lambda>_. 0))\<lparr>rpm_in_use := (\<lambda>h. - 22)\<rparr>" V4L2_CID_EXPOSURE imx219_example]
  by (simp add: imx219_example_def)

text \<open>
  C36: for every mode and every vertical blanking in the declared range, setting the control on a
  device in use programs the frame length register pair with height plus blanking, with nothing
  lost in 16 bits, and limits the exposure to four lines less than the frame, a limit that is not
  below the minimum of four lines.
\<close>

theorem imx219_vblank_programs_frame:
  assumes "pm_spec c" and "range_spec imx219_exposure_step c" and "\<And>h. rpm_in_use k h \<noteq> 0"
    and "im_mode s = Some m" and "m \<in> set supported_modes"
    and "IMX219_VBLANK_MIN \<le> v" and "v \<le> uint (IMX219_VTS_MAX - im_height m)"
    and "ctrl_val (im_ctrls s V4L2_CID_VBLANK) = v"
    and "imx219_set_ctrl k c V4L2_CID_VBLANK s = (0, s')"
  shows "\<exists>vts. reg16 (bus_image (hist s')) IMX219_REG_VTS = Some vts \<and>
    uint vts = uint (im_height m) + v \<and>
    (\<exists>mi st df. CtrlModifyRange V4L2_CID_EXPOSURE mi (uint (im_height m) + v - 4) st df \<in> set (hist s')) \<and>
    IMX219_EXPOSURE_MIN \<le> uint (im_height m) + v - 4"
proof -
  let ?h = "im_height m" and ?w = "word_of_int v :: u32"
  note arith = vblank_arith [OF assms(5-7)]
  let ?x = "imx219_exposure_range k c (uint ?h + v - 4) s"
  note x = exposure_range_keeps [OF assms(1,2), where s = s and k = k and ma = "uint ?h + v - 4"]
  have ap: "imx219_apply_ctrl k c V4L2_CID_VBLANK ?x = (0, s')"
    using assms(4,8,9) arith(2)
    by (simp add: imx219_set_ctrl_def run_steps.simps(2) imx219_ctrl_val_def split: prod.splits if_splits)
  from ap show ?thesis
  proof (cases rule: apply_ctrl_cases)
    case idle
    then show ?thesis using assms(3) by simp
  next
    case (used s1)
    let ?t = "emit (PmGetIfInUse (rpm_in_use k (hist ?x))) ?x"
    have "im_mode ?t = Some m" "ctrl_val (im_ctrls ?t V4L2_CID_VBLANK) = v"
      using x(1) assms(4,8) by (simp_all add: keeps_blanking_def emit_def)
    then have wr: "imx219_write_reg k IMX219_REG_VTS 2 (?h + ?w) ?t = (0, s1)"
      using used(2) by (simp add: imx219_write_ctrl_def imx219_ctrl_val_def)
    have "reg16 (bus_image (hist s')) IMX219_REG_VTS = Some (ucast (?h + ?w))"
      unfolding used(3) power_off_image(1) [OF assms(1)] using write_reg_2_reg16 [OF wr]
      by simp
    moreover note arith(3)
    moreover have "prefix (hist ?x) (hist s')"
      using emits_keeps [OF write_reg_emits, of ?t k IMX219_REG_VTS 2 "?h + ?w"] wr
        power_off_image(2) [OF assms(1), of "emit PmPut s1"] used(3)
      by (auto simp: keeps_blanking_def prefix_def)
    moreover from this x(2) have "\<exists>mi st df. CtrlModifyRange V4L2_CID_EXPOSURE mi
        (uint ?h + v - 4) st df \<in> set (hist s')"
      using set_mono_prefix by blast
    ultimately show ?thesis
      using assms(6) arith(4) by auto
  qed
qed

theorem imx219_vblank_programs_frame_witness:
  "\<exists>vts. reg16 (bus_image (hist (snd (imx219_set_ctrl (ideal (\<lambda>_. 0)) (ideal_cb [] (\<lambda>i v s. s))
     V4L2_CID_VBLANK (imx219_example\<lparr>im_ctrls := (\<lambda>i. zero_ctrl\<lparr>ctrl_val := 1062\<rparr>)\<rparr>)))))
     IMX219_REG_VTS = Some vts \<and> uint vts = 3526"
proof -
  let ?c = "ideal_cb [] (\<lambda>i v s. s) :: imx219 kcb"
  let ?s = "imx219_example\<lparr>im_ctrls := (\<lambda>i. zero_ctrl\<lparr>ctrl_val := 1062\<rparr>)\<rparr>"
  have "fst (imx219_set_ctrl (ideal (\<lambda>_. 0)) ?c V4L2_CID_VBLANK ?s) = 0"
    by (simp add: imx219_set_ctrl_def run_steps.simps(2) imx219_example_def imx219_exposure_range_def
        v4l2_ctrl_modify_range_def ideal_cb_def imx219_apply_ctrl_def pm_runtime_get_if_in_use_def
        imx219_write_ctrl_def write_reg_2 Let_def ideal_def ideal_env_def emit_def)
  then have eq: "imx219_set_ctrl (ideal (\<lambda>_. 0)) ?c V4L2_CID_VBLANK ?s =
      (0, snd (imx219_set_ctrl (ideal (\<lambda>_. 0)) ?c V4L2_CID_VBLANK ?s))"
    by (rule ok_pair)
  show ?thesis
    using imx219_vblank_programs_frame [OF _ _ _ _ _ _ _ _ eq, of imx219_mode_3280x2464 1062]
    by (auto simp: imx219_example_def zero_ctrl_def supported_modes_def imx219_mode_3280x2464_def)
qed

text \<open>
  the controls created for a mode are consistent for every mode of the table: each of the
  thirteen has its default inside its range, none of the unsigned subtractions behind the blanking
  limits wraps around, and the limits are those of the mode.
\<close>

theorem imx219_control_ranges:
  assumes "m \<in> set supported_modes"
  shows "(\<exists>es. hist (imx219_new_controls k m s) = hist s @ es \<and> length es = 13 \<and> list_all range_ok es) \<and>
    uint (IMX219_VTS_MAX - im_height m) = 0xffff - uint (im_height m) \<and>
    uint (im_vts_def m - im_height m) = uint (im_vts_def m) - uint (im_height m) \<and>
    sint (im_vts_def m - 4) = uint (im_vts_def m) - 4 \<and>
    sint (IMX219_PPL_DEFAULT - im_width m) = 3448 - uint (im_width m)"
  using new_controls_hist [OF assms] mode_arith [OF assms] by (simp only: simp_thms)

theorem imx219_control_ranges_witness:
  "sint (IMX219_PPL_DEFAULT - im_width imx219_mode_640x480) = 2808"
  using imx219_control_ranges [of imx219_mode_640x480 "ideal (\<lambda>_. 0)" imx219_example]
  by (simp add: supported_modes_def) (simp add: imx219_mode_640x480_def)

end
