(* ===== verification/Imx219_Writes.thy ===== *)
theory Imx219_Writes
  imports Imx219_Ctrl
begin

text \<open>
  Which registers of the IMX219 the controls may write.  \<open>touches A\<close> relates states whose register
  images agree outside \<open>A\<close>; the control operation touches \<open>imx219_ctrl_regs\<close> only, and so does every
  framework call that may run it.  The registers of the mode tables that describe the picture lie
  outside that set.
\<close>

section \<open>Registers a call may write\<close>

definition touches :: "u16 set \<Rightarrow> 'a kstate_scheme \<Rightarrow> 'a kstate_scheme \<Rightarrow> bool" where
  "touches A s s' \<longleftrightarrow> (\<forall>a. a \<notin> A \<longrightarrow> bus_image (hist s') a = bus_image (hist s) a)"

lemma touches_refl [simp, intro]: "touches A s s"
  by (simp add: touches_def)

lemma touches_trans [trans]: "touches A a b \<Longrightarrow> touches A b c \<Longrightarrow> touches A a c"
  by (simp add: touches_def)

lemma touches_mono: "touches A s s' \<Longrightarrow> A \<subseteq> B \<Longrightarrow> touches B s s'"
  by (auto simp: touches_def)

fun sends :: "kevent \<Rightarrow> bool" where
  "sends (I2cSend _ _) \<longleftrightarrow> True"
| "sends _ \<longleftrightarrow> False"

lemma image_event_quiet: "\<not> sends e \<Longrightarrow> image_event e m = m"
  by (cases e) simp_all

lemma touches_emit: "\<not> sends e \<Longrightarrow> touches A s (emit e s)"
  by (simp add: touches_def image_event_quiet)

lemma touches_same_hist: "hist s' = hist s \<Longrightarrow> touches A s s'"
  by (simp add: touches_def)

lemma touches_emits:
  assumes "emits P s s'" and "\<And>e. P e \<Longrightarrow> \<not> sends e"
  shows "touches A s s'"
proof -
  have "list_all P es \<Longrightarrow> fold image_event es m = m" for es m
    by (induction es arbitrary: m) (auto simp: assms(2) image_event_quiet)
  with assms(1) show ?thesis by (auto simp: emits_def touches_def)
qed

lemma write_reg_1_touches: "touches {a} s (snd (imx219_write_reg k a 1 v s))"
  by (simp add: write_reg_1 touches_def Let_def)

lemma write_reg_2_touches: "touches {a, a + 1} s (snd (imx219_write_reg k a 2 v s))"
  by (simp add: write_reg_2 touches_def Let_def numeral_2_eq_2)

section \<open>The registers of the controls\<close>

definition imx219_ctrl_regs :: "u16 set" where
  "imx219_ctrl_regs = {IMX219_REG_ANALOG_GAIN, IMX219_REG_ORIENTATION,
     IMX219_REG_EXPOSURE, IMX219_REG_EXPOSURE + 1, IMX219_REG_DIGITAL_GAIN,
     IMX219_REG_DIGITAL_GAIN + 1, IMX219_REG_TEST_PATTERN, IMX219_REG_TEST_PATTERN + 1,
     IMX219_REG_VTS, IMX219_REG_VTS + 1, IMX219_REG_TESTP_RED, IMX219_REG_TESTP_RED + 1,
     IMX219_REG_TESTP_GREENR, IMX219_REG_TESTP_GREENR + 1, IMX219_REG_TESTP_BLUE,
     IMX219_REG_TESTP_BLUE + 1, IMX219_REG_TESTP_GREENB, IMX219_REG_TESTP_GREENB + 1}"

text \<open>The registers that describe the picture: crop window, output size, increments, binning.\<close>

definition imx219_picture_regs :: "u16 list" where
  "imx219_picture_regs = [0x0164, 0x0165, 0x0166, 0x0167, 0x0168, 0x0169, 0x016a, 0x016b,
     0x016c, 0x016d, 0x016e, 0x016f, 0x0170, 0x0171, 0x0174, 0x0175]"

lemma touches_picture:
  assumes "touches imx219_ctrl_regs s s'" and "a \<in> set imx219_picture_regs"
  shows "bus_image (hist s') a = bus_image (hist s) a"
proof -
  have "a \<notin> imx219_ctrl_regs"
    using assms(2) by (auto simp: imx219_picture_regs_def imx219_ctrl_regs_def)
  then show ?thesis using assms(1) by (simp add: touches_def)
qed

lemma ctrl_write_touches:
  "a \<in> imx219_ctrl_regs \<Longrightarrow> touches imx219_ctrl_regs s (snd (imx219_write_reg k a 1 v s))"
  "a \<in> imx219_ctrl_regs \<Longrightarrow> a + 1 \<in> imx219_ctrl_regs \<Longrightarrow>
     touches imx219_ctrl_regs s (snd (imx219_write_reg k a 2 v s))"
  by (rule touches_mono [OF write_reg_1_touches], simp, rule touches_mono [OF write_reg_2_touches], simp)

lemma write_ctrl_touches: "touches imx219_ctrl_regs s (snd (imx219_write_ctrl k i s))"
proof -
  have f: "touches imx219_ctrl_regs s (emit NullDeref s)"
    by (simp add: touches_emit)
  have w: "touches imx219_ctrl_regs s (snd (imx219_write_reg k IMX219_REG_ANALOG_GAIN 1 v s))"
    "touches imx219_ctrl_regs s (snd (imx219_write_reg k IMX219_REG_ORIENTATION 1 v s))"
    "touches imx219_ctrl_regs s (snd (imx219_write_reg k IMX219_REG_EXPOSURE 2 v s))"
    "touches imx219_ctrl_regs s (snd (imx219_write_reg k IMX219_REG_DIGITAL_GAIN 2 v s))"
    "touches imx219_ctrl_regs s (snd (imx219_write_reg k IMX219_REG_TEST_PATTERN 2 v s))"
    "touches imx219_ctrl_regs s (snd (imx219_write_reg k IMX219_REG_VTS 2 v s))"
    "touches imx219_ctrl_regs s (snd (imx219_write_reg k IMX219_REG_TESTP_RED 2 v s))"
    "touches imx219_ctrl_regs s (snd (imx219_write_reg k IMX219_REG_TESTP_GREENR 2 v s))"
    "touches imx219_ctrl_regs s (snd (imx219_write_reg k IMX219_REG_TESTP_BLUE 2 v s))"
    "touches imx219_ctrl_regs s (snd (imx219_write_reg k IMX219_REG_TESTP_GREENB 2 v s))" for v
    by (rule ctrl_write_touches; simp add: imx219_ctrl_regs_def)+
  show ?thesis
    by (auto simp: imx219_write_ctrl_def Let_def deref_def w f split: option.split)
qed

lemma power_touches:
  "touches A s (snd (imx219_power_on k s))" "touches A s (snd (imx219_power_off s))"
  by (rule touches_emits [OF power_emits(1)], erule power_event.elims, simp_all)
    (rule touches_emits [OF power_emits(2)], erule power_event.elims, simp_all)

lemma pm_touches:
  assumes "pm_spec c"
  shows "touches A s (pm_put c imx219_power_off s)"
    and "touches A s (snd (pm_get c (imx219_power_on k) s))"
  by (rule pm_put_cases [OF assms, of imx219_power_off s]; simp add: power_touches)
    (rule pm_get_cases [OF assms, of "imx219_power_on k" s]; auto simp: power_touches)

lemma apply_ctrl_touches:
  assumes "pm_spec c" shows "touches imx219_ctrl_regs s (snd (imx219_apply_ctrl k c i s))"
proof -
  obtain r s' where eq: "imx219_apply_ctrl k c i s = (r, s')"
    by (cases "imx219_apply_ctrl k c i s")
  then show ?thesis
  proof (cases rule: apply_ctrl_cases)
    case idle
    then show ?thesis using eq by (simp add: touches_emit)
  next
    case (used s1)
    let ?t = "emit (PmGetIfInUse (rpm_in_use k (hist s))) s"
    have "touches imx219_ctrl_regs s ?t" by (simp add: touches_emit)
    also have "touches imx219_ctrl_regs ?t s1" using write_ctrl_touches [of ?t k i] used(2) by simp
    also have "touches imx219_ctrl_regs s1 (emit PmPut s1)" by (simp add: touches_emit)
    also have "touches imx219_ctrl_regs (emit PmPut s1) s'"
      unfolding used(3) by (rule pm_touches(1) [OF assms])
    finally show ?thesis using eq by simp
  qed
qed

section \<open>Framework calls\<close>

lemma ctrl_step_hist: "imx219_ctrl_step s s' \<Longrightarrow> hist s' = hist s"
  by (auto simp: imx219_ctrl_step_def)

lemma ctrl_call_touches: "ctrl_call e \<Longrightarrow> touches A s (emit e s)"
  by (rule touches_emit) (cases e; simp)

lemma ctrl_step_touches: "imx219_ctrl_step s s' \<Longrightarrow> touches A s s'"
  by (intro touches_same_hist ctrl_step_hist)

lemma control_touches:
  assumes "\<And>i s. touches A s (snd (f i s))"
  shows "range_spec imx219_ctrl_step c \<Longrightarrow>
      touches A s (snd (v4l2_ctrl_modify_range c f i mi ma st df s))"
    and "set_spec imx219_ctrl_step c \<Longrightarrow> touches A s (snd (v4l2_ctrl_s_ctrl c f i v s))"
    and "setup_spec imx219_ctrl_step c \<Longrightarrow> touches A s (snd (v4l2_ctrl_handler_setup c f s))"
  by (rule control_calls [where R = "touches A" and W = imx219_ctrl_step and f = f];
      auto intro: touches_trans ctrl_step_touches ctrl_call_touches assms)+

lemma set_ctrl_touches:
  assumes "pm_spec c" and "range_spec imx219_ctrl_step c"
  shows "touches imx219_ctrl_regs s (snd (imx219_set_ctrl k c i s))"
  unfolding imx219_set_ctrl_def
proof (rule run_steps_rel [where R = "touches imx219_ctrl_regs"])
  fix f s
  assume "f \<in> set [\<lambda>s. if i = V4L2_CID_VBLANK
          then deref (im_mode s) (\<lambda>m s. (0, imx219_exposure_range k c
                 (sint (im_height m + imx219_ctrl_val i s - 4)) s)) s
          else (0, s), imx219_apply_ctrl k c i]"
  moreover have "touches imx219_ctrl_regs s (imx219_exposure_range k c ma s)" for ma
    unfolding imx219_exposure_range_def Let_def
    by (rule control_touches(1) [OF apply_ctrl_touches [OF assms(1)] assms(2)])
  ultimately show "touches imx219_ctrl_regs s (snd (f s))"
    by (auto simp: deref_def apply_ctrl_touches [OF assms(1)] touches_emit split: option.split)
qed (auto intro: touches_trans)

section \<open>The controls the driver can apply\<close>

text \<open>The writable controls of the handler; pixel rate and horizontal blanking are read-only.\<close>

definition imx219_ctrl_ids :: "u32 list" where
  "imx219_ctrl_ids = [V4L2_CID_VBLANK, V4L2_CID_EXPOSURE, V4L2_CID_ANALOGUE_GAIN,
     V4L2_CID_DIGITAL_GAIN, V4L2_CID_HFLIP, V4L2_CID_VFLIP, V4L2_CID_TEST_PATTERN,
     V4L2_CID_TEST_PATTERN_RED, V4L2_CID_TEST_PATTERN_GREENR, V4L2_CID_TEST_PATTERN_BLUE,
     V4L2_CID_TEST_PATTERN_GREENB]"

definition imx219_ready :: "imx219 \<Rightarrow> bool" where
  "imx219_ready s \<longleftrightarrow> pattern_ok s \<and> im_mode s \<noteq> None"

lemma neutral_ready: "im_neutral s s' \<Longrightarrow> imx219_ready s \<Longrightarrow> imx219_ready s'"
  by (auto simp: im_neutral_def imx219_ready_def)

lemma write_ctrl_ok:
  assumes "bus_ok k" and "i \<in> set imx219_ctrl_ids" and "imx219_ready s"
  shows "fst (imx219_write_ctrl k i s) = 0"
proof -
  obtain m where "im_mode s = Some m" using assms(3) by (auto simp: imx219_ready_def)
  moreover have "fst (imx219_write_reg k a 1 v t) = 0" "fst (imx219_write_reg k a 2 v t) = 0"
    for a v and t :: imx219
    by (rule write_reg_ok [OF assms(1)]; simp)+
  ultimately show ?thesis
    using assms(2,3)
    by (auto simp: imx219_write_ctrl_def imx219_ctrl_ids_def imx219_ready_def pattern_ok_def
        imx219_test_pattern_val_def)
qed

lemma apply_ctrl_ok:
  assumes "bus_ok k" and "i \<in> set imx219_ctrl_ids" and "imx219_ready s"
  shows "fst (imx219_apply_ctrl k c i s) = 0"
proof -
  have "imx219_ready (emit (PmGetIfInUse n) s)" for n
    using assms(3) by (simp add: imx219_ready_def pattern_ok_def emit_def)
  then have "fst (imx219_write_ctrl k i (emit (PmGetIfInUse n) s)) = 0" for n
    by (rule write_ctrl_ok [OF assms(1,2)])
  then show ?thesis
    by (simp add: imx219_apply_ctrl_def pm_runtime_get_if_in_use_def Let_def split: prod.split)
      (metis fst_conv)
qed

lemma set_ctrl_ok:
  assumes "bus_ok k" and "pm_spec c" and "pm_usable k" and "range_spec imx219_ctrl_step c"
    and "i \<in> set imx219_ctrl_ids" and "imx219_ready s"
  shows "fst (imx219_set_ctrl k c i s) = 0"
proof -
  obtain m where m: "im_mode s = Some m" using assms(6) by (auto simp: imx219_ready_def)
  have "fst (imx219_apply_ctrl k c i (imx219_exposure_range k c n s)) = 0" for n
    by (rule apply_ctrl_ok [OF assms(1,5) neutral_ready [OF exposure_range_neutral [OF assms(2-4)] assms(6)]])
  then show ?thesis
    using m apply_ctrl_ok [OF assms(1,5,6)]
    by (simp add: imx219_set_ctrl_def run_steps.simps(2) split: prod.split) (metis fst_conv)
qed

end
