(* ===== verification/Imx219_Pad.thy ===== *)
theory Imx219_Pad
  imports Imx219_Writes
begin

text \<open>
  Pad operations of the IMX219 driver: opening a file handle, enumeration, getting and setting the
  format.  The functions that call \<^verbatim>\<open>imx219_get_format_code\<close> return the state too, since the lock
  assertion in it may leave a warning.  \<^verbatim>\<open>imx219->mode != mode\<close> compares addresses in
  \<^verbatim>\<open>supported_modes\<close>; its entries are all different, so the model compares the entries.
\<close>

section \<open>Operations\<close>

definition imx219_open :: "pad_config \<Rightarrow> imx219 \<Rightarrow> int \<times> pad_config \<times> imx219" where
  "imx219_open cfg s =
     (let s = emit MutexLock s;
          (code, s) = imx219_get_format_code MEDIA_BUS_FMT_SRGGB10_1X10 s;
          try_fmt = (cfg 0)\<lparr>fmt_width := im_width (supported_modes ! 0),
            fmt_height := im_height (supported_modes ! 0), fmt_code := code,
            fmt_field := V4L2_FIELD_NONE\<rparr>
      in (0, cfg(0 := try_fmt), emit MutexUnlock s))"

definition imx219_enum_mbus_code :: "u32 \<Rightarrow> u32 \<Rightarrow> imx219 \<Rightarrow> int \<times> u32 \<times> imx219" where
  "imx219_enum_mbus_code index old s =
     (if length codes div 4 \<le> unat index then (- EINVAL, old, s)
      else let (code, s) = imx219_get_format_code (codes ! unat (index * 4)) s in (0, code, s))"

text \<open>The four sizes of \<^verbatim>\<open>struct v4l2_subdev_frame_size_enum\<close>: width range, height range.\<close>

definition imx219_enum_frame_size ::
  "u32 \<Rightarrow> u32 \<Rightarrow> imx219 \<Rightarrow> int \<times> ((u32 \<times> u32) \<times> (u32 \<times> u32)) option \<times> imx219" where
  "imx219_enum_frame_size index code s =
     (if length supported_modes \<le> unat index then (- EINVAL, None, s)
      else let (c, s) = imx219_get_format_code (fmt_code (im_fmt s)) s
      in if code \<noteq> c then (- EINVAL, None, s)
      else let m = supported_modes ! unat index
      in (0, Some ((im_width m, im_width m), (im_height m, im_height m)), s))"

definition imx219_reset_colorspace :: "v4l2_mbus_framefmt \<Rightarrow> v4l2_mbus_framefmt" where
  "imx219_reset_colorspace f =
     (let enc = V4L2_MAP_YCBCR_ENC_DEFAULT V4L2_COLORSPACE_SRGB
      in f\<lparr>fmt_colorspace := V4L2_COLORSPACE_SRGB, fmt_ycbcr_enc := enc,
           fmt_quantization := V4L2_MAP_QUANTIZATION_DEFAULT True V4L2_COLORSPACE_SRGB enc,
           fmt_xfer_func := V4L2_MAP_XFER_FUNC_DEFAULT V4L2_COLORSPACE_SRGB\<rparr>)"

definition imx219_update_pad_format :: "imx219_mode \<Rightarrow> v4l2_subdev_format \<Rightarrow> v4l2_subdev_format" where
  "imx219_update_pad_format m f =
     f\<lparr>sf_format := imx219_reset_colorspace ((sf_format f)\<lparr>fmt_width := im_width m,
         fmt_height := im_height m, fmt_field := V4L2_FIELD_NONE\<rparr>)\<rparr>"

text \<open>\<^verbatim>\<open>__imx219_get_pad_format\<close>, called with the lock held.\<close>

definition imx219_get_pad_format_locked ::
  "pad_config \<Rightarrow> v4l2_subdev_format \<Rightarrow> imx219 \<Rightarrow> int \<times> pad_config \<times> v4l2_subdev_format \<times> imx219" where
  "imx219_get_pad_format_locked cfg f s =
     (if sf_which f = V4L2_SUBDEV_FORMAT_TRY
      then let (code, s) = imx219_get_format_code (fmt_code (cfg (sf_pad f))) s;
               try_fmt = (cfg (sf_pad f))\<lparr>fmt_code := code\<rparr>
           in (0, cfg(sf_pad f := try_fmt), f\<lparr>sf_format := try_fmt\<rparr>, s)
      else case im_mode s of
             None \<Rightarrow> (- EFAULT, cfg, f, emit NullDeref s)
           | Some m \<Rightarrow>
               let f = imx219_update_pad_format m f;
                   (code, s) = imx219_get_format_code (fmt_code (im_fmt s)) s
               in (0, cfg, f\<lparr>sf_format := (sf_format f)\<lparr>fmt_code := code\<rparr>\<rparr>, s))"

definition imx219_get_pad_format ::
  "pad_config \<Rightarrow> v4l2_subdev_format \<Rightarrow> imx219 \<Rightarrow> int \<times> pad_config \<times> v4l2_subdev_format \<times> imx219" where
  "imx219_get_pad_format cfg f s =
     (let s = emit MutexLock s;
          (ret, cfg, f, s) = imx219_get_pad_format_locked cfg f s
      in (ret, cfg, f, emit MutexUnlock s))"

text \<open>The controls that follow the mode: blanking, exposure limits.\<close>

definition imx219_mode_controls :: "kapi \<Rightarrow> imx219 kcb \<Rightarrow> imx219_mode \<Rightarrow> imx219 \<Rightarrow> imx219" where
  "imx219_mode_controls k c m s =
     (let vblank = im_vts_def m - im_height m;
          s = snd (v4l2_ctrl_modify_range c (imx219_set_ctrl k c) V4L2_CID_VBLANK IMX219_VBLANK_MIN
                (uint (IMX219_VTS_MAX - im_height m)) 1 (uint vblank) s);
          s = snd (v4l2_ctrl_s_ctrl c (imx219_set_ctrl k c) V4L2_CID_VBLANK (sint vblank) s);
          s = imx219_exposure_range k c (sint (im_vts_def m - 4)) s;
          hblank = sint (IMX219_PPL_DEFAULT - im_width m)
      in snd (v4l2_ctrl_modify_range c (imx219_set_ctrl k c) V4L2_CID_HBLANK hblank hblank 1 hblank s))"

definition imx219_set_pad_format ::
  "kapi \<Rightarrow> imx219 kcb \<Rightarrow> pad_config \<Rightarrow> v4l2_subdev_format \<Rightarrow> imx219 \<Rightarrow>
   int \<times> pad_config \<times> v4l2_subdev_format \<times> imx219" where
  "imx219_set_pad_format k c cfg f s =
     (let s = emit MutexLock s;
          i = find_index (\<lambda>c. c = fmt_code (sf_format f)) codes;
          i = (if length codes \<le> i then 0 else i);
          (code, s) = imx219_get_format_code (codes ! i) s;
          f = f\<lparr>sf_format := (sf_format f)\<lparr>fmt_code := code\<rparr>\<rparr>
      in case v4l2_find_nearest_size k im_width im_height supported_modes
                (fmt_width (sf_format f)) (fmt_height (sf_format f)) of
           None \<Rightarrow> (- EFAULT, cfg, f, emit NullDeref s)
         | Some m \<Rightarrow>
             let f = imx219_update_pad_format m f
             in if sf_which f = V4L2_SUBDEV_FORMAT_TRY
                then (0, cfg(sf_pad f := sf_format f), f, emit MutexUnlock s)
                else if im_mode s \<noteq> Some m \<or> fmt_code (im_fmt s) \<noteq> fmt_code (sf_format f)
                then let s = s\<lparr>im_fmt := sf_format f, im_mode := Some m\<rparr>;
                         s = imx219_mode_controls k c m s
                     in (0, cfg, f, emit MutexUnlock s)
                else (0, cfg, f, emit MutexUnlock s))"

section \<open>Formats\<close>

text \<open>The format the driver describes for a mode and a code.\<close>

definition imx219_native_fmt :: "u32 \<Rightarrow> imx219_mode \<Rightarrow> v4l2_mbus_framefmt" where
  "imx219_native_fmt code m = \<lparr>fmt_width = im_width m, fmt_height = im_height m, fmt_code = code,
     fmt_field = V4L2_FIELD_NONE, fmt_colorspace = V4L2_COLORSPACE_SRGB,
     fmt_ycbcr_enc = V4L2_YCBCR_ENC_601, fmt_quantization = V4L2_QUANTIZATION_FULL_RANGE,
     fmt_xfer_func = V4L2_XFER_FUNC_SRGB\<rparr>"

lemma update_pad_format_native:
  "imx219_update_pad_format m f = f\<lparr>sf_format := imx219_native_fmt (fmt_code (sf_format f)) m\<rparr>"
  by (simp add: imx219_update_pad_format_def imx219_reset_colorspace_def imx219_native_fmt_def
      V4L2_MAP_YCBCR_ENC_DEFAULT_def V4L2_MAP_XFER_FUNC_DEFAULT_def V4L2_MAP_QUANTIZATION_DEFAULT_def)

text \<open>The code for the active flips, whatever the state of the lock.\<close>

definition imx219_turned :: "imx219 \<Rightarrow> u32 \<Rightarrow> u32" where
  "imx219_turned s code = codes ! ((if raw8_code code then 4 else 0) + imx219_flip s)"

lemma get_format_code_turned:
  "imx219_get_format_code code s = (imx219_turned s code, lockdep_assert_held s)"
  by (simp add: get_format_code_eq imx219_turned_def)

lemma turned_in [simp]: "imx219_turned s code \<in> set codes"
  by (simp add: imx219_turned_def)

lemma raw8_turned [simp]: "raw8_code (imx219_turned s code) = raw8_code code"
  by (simp add: imx219_turned_def raw8_nth)

lemma turned_idem [simp]: "imx219_turned s (imx219_turned s code) = imx219_turned s code"
  unfolding imx219_turned_def [of s "imx219_turned s code"] raw8_turned
  by (simp add: imx219_turned_def)

lemma turned_cong: "imx219_flip t = imx219_flip s \<Longrightarrow> imx219_turned t = imx219_turned s"
  by (simp add: imx219_turned_def fun_eq_iff)

text \<open>The index that the search of \<^verbatim>\<open>imx219_set_pad_format\<close> ends with selects the same bit depth.\<close>

lemma raw8_search:
  "raw8_code (codes ! (if length codes \<le> find_index (\<lambda>c. c = code) codes then 0
     else find_index (\<lambda>c. c = code) codes)) = raw8_code code"
  by (simp add: code_index raw8_nth) (simp add: raw8_code_def)

lemma turned_search:
  "imx219_turned s (codes ! (if length codes \<le> find_index (\<lambda>c. c = code) codes then 0
     else find_index (\<lambda>c. c = code) codes)) = imx219_turned s code"
  unfolding imx219_turned_def raw8_search ..

section \<open>Setting a format\<close>

definition imx219_wf :: "imx219 \<Rightarrow> bool" where
  "imx219_wf s \<longleftrightarrow> (\<exists>m \<in> set supported_modes. im_mode s = Some m) \<and> fmt_code (im_fmt s) \<in> set codes"

lemma lock_flip [simp]:
  "imx219_flip (emit e s) = imx219_flip s" "imx219_flip (lockdep_assert_held s) = imx219_flip s"
  "imx219_turned (emit e s) = imx219_turned s"
  "im_mode (emit e s) = im_mode s" "im_fmt (emit e s) = im_fmt s"
  "im_streaming (emit e s) = im_streaming s" "pattern_ok (emit e s) = pattern_ok s"
  "pattern_ok (lockdep_assert_held s) = pattern_ok s"
  "pattern_ok (s\<lparr>im_fmt := a, im_mode := b\<rparr>) = pattern_ok s" "imx219_flip (s\<lparr>im_fmt := a, im_mode := b\<rparr>) = imx219_flip s"
  by (simp_all add: imx219_flip_def imx219_turned_def pattern_ok_def fun_eq_iff) (simp_all add: emit_def)

lemma lock_held [simp]:
  "0 \<le> balance lock_delta (hist s) \<Longrightarrow> lockdep_assert_held (emit MutexLock s) = emit MutexLock s"
  by (simp add: lockdep_assert_held_def mutex_held_def)

lemma set_pad_cases:
  assumes "nearest_spec (nearest_size k)" and "imx219_set_pad_format k c cfg f s = (r, cfg', f', s')"
  obtains m where "r = 0" and "m \<in> set supported_modes"
    and "\<And>m'. m' \<in> set supported_modes \<Longrightarrow>
      size_error (fmt_width (sf_format f)) (fmt_height (sf_format f)) (im_width m, im_height m) \<le>
      size_error (fmt_width (sf_format f)) (fmt_height (sf_format f)) (im_width m', im_height m')"
    and "f' = f\<lparr>sf_format := imx219_native_fmt (imx219_turned s (fmt_code (sf_format f))) m\<rparr>"
    and "if sf_which f = V4L2_SUBDEV_FORMAT_TRY
         then cfg' = cfg(sf_pad f := sf_format f') \<and>
           s' = emit MutexUnlock (lockdep_assert_held (emit MutexLock s))
         else cfg' = cfg \<and>
           (if im_mode s = Some m \<and> fmt_code (im_fmt s) = fmt_code (sf_format f')
            then s' = emit MutexUnlock (lockdep_assert_held (emit MutexLock s))
            else s' = emit MutexUnlock (imx219_mode_controls k c m
              ((lockdep_assert_held (emit MutexLock s))\<lparr>im_fmt := sf_format f', im_mode := Some m\<rparr>)))"
proof -
  obtain m where m: "v4l2_find_nearest_size k im_width im_height supported_modes
        (fmt_width (sf_format f)) (fmt_height (sf_format f)) = Some m" "m \<in> set supported_modes"
    and best: "\<And>m'. m' \<in> set supported_modes \<Longrightarrow>
      size_error (fmt_width (sf_format f)) (fmt_height (sf_format f)) (im_width m, im_height m) \<le>
      size_error (fmt_width (sf_format f)) (fmt_height (sf_format f)) (im_width m', im_height m')"
    using imx219_sizes.nearest_best [OF assms(1)] by blast
  note eq = assms(2) [unfolded imx219_set_pad_format_def Let_def get_format_code_turned prod.case
      turned_search, simplified m(1) update_pad_format_native, simplified]
  show ?thesis
    by (rule that [OF _ m(2) best]) (use eq m(1) in \<open>auto simp: imx219_native_fmt_def split: if_splits\<close>)
qed

lemma get_pad_active:
  assumes "im_mode s = Some m" and "sf_which f \<noteq> V4L2_SUBDEV_FORMAT_TRY"
  shows "imx219_get_pad_format cfg f s =
    (0, cfg, f\<lparr>sf_format := imx219_native_fmt (imx219_turned s (fmt_code (im_fmt s))) m\<rparr>,
     emit MutexUnlock (lockdep_assert_held (emit MutexLock s)))"
  using assms
  by (simp add: imx219_get_pad_format_def imx219_get_pad_format_locked_def get_format_code_turned
      update_pad_format_native imx219_native_fmt_def Let_def)

lemma get_pad_try:
  assumes "sf_which f = V4L2_SUBDEV_FORMAT_TRY"
  shows "imx219_get_pad_format cfg f s =
    (let t = (cfg (sf_pad f))\<lparr>fmt_code := imx219_turned s (fmt_code (cfg (sf_pad f)))\<rparr>
     in (0, cfg(sf_pad f := t), f\<lparr>sf_format := t\<rparr>,
         emit MutexUnlock (lockdep_assert_held (emit MutexLock s))))"
  using assms
  by (simp add: imx219_get_pad_format_def imx219_get_pad_format_locked_def get_format_code_turned Let_def)

section \<open>The controls of a mode\<close>

lemma mode_controls_neutral:
  assumes "pm_spec c" and "pm_usable k" and "range_spec imx219_ctrl_step c"
    and "set_spec imx219_ctrl_step c"
  shows "im_neutral s (imx219_mode_controls k c m s)"
proof -
  note sc = set_ctrl_neutral [OF assms(1-3)]
  show ?thesis
    unfolding imx219_mode_controls_def Let_def
    by (intro im_neutral_trans [OF _ control_neutral(1) [OF sc assms(3)]]
        im_neutral_trans [OF _ exposure_range_neutral [OF assms(1-3)]]
        im_neutral_trans [OF _ control_neutral(2) [OF sc assms(4)]]
        control_neutral(1) [OF sc assms(3)])
qed

lemma mode_controls_touches:
  assumes "pm_spec c" and "range_spec imx219_ctrl_step c" and "set_spec imx219_ctrl_step c"
  shows "touches imx219_ctrl_regs s (imx219_mode_controls k c m s)"
proof -
  note sc = set_ctrl_touches [OF assms(1,2)]
  have ex: "touches imx219_ctrl_regs s (imx219_exposure_range k c ma s)" for ma s
    unfolding imx219_exposure_range_def Let_def
    by (rule control_touches(1) [OF apply_ctrl_touches [OF assms(1)] assms(2)])
  show ?thesis
    unfolding imx219_mode_controls_def Let_def
    by (intro touches_trans [OF _ control_touches(1) [OF sc assms(2)]] touches_trans [OF _ ex]
        touches_trans [OF _ control_touches(2) [OF sc assms(3)]] control_touches(1) [OF sc assms(2)])
qed

lemma imx219_control_trace:
  assumes "\<And>i s. prefix (hist s) (hist (snd (f i s)))"
  shows "range_spec imx219_ctrl_step c \<Longrightarrow>
      \<exists>h. hist (snd (v4l2_ctrl_modify_range c f i mi ma st df s)) =
        hist s @ CtrlModifyRange i mi ma st df # h"
    and "set_spec imx219_ctrl_step c \<Longrightarrow>
      \<exists>h. hist (snd (v4l2_ctrl_s_ctrl c f i v s)) = hist s @ CtrlSet i v # h"
  by (rule control_trace [where W = imx219_ctrl_step and f = f]; auto intro: ctrl_step_hist assms)+

lemma apply_ctrl_prefix:
  "pm_spec c \<Longrightarrow> prefix (hist s) (hist (snd (imx219_apply_ctrl k c i s)))"
  using apply_ctrl_keeps by (simp add: keeps_blanking_def)

lemma exposure_range_trace:
  assumes "pm_spec c" and "range_spec imx219_ctrl_step c"
  shows "\<exists>mi st h. hist (imx219_exposure_range k c ma s) =
    hist s @ CtrlModifyRange V4L2_CID_EXPOSURE mi ma st (imx219_exposure_def ma) # h"
  using imx219_control_trace(1) [where f = "imx219_apply_ctrl k c", OF apply_ctrl_prefix [OF assms(1)] assms(2)]
  unfolding imx219_exposure_range_def Let_def by blast

lemma set_ctrl_prefix:
  assumes "pm_spec c" and "range_spec imx219_ctrl_step c"
  shows "prefix (hist s) (hist (snd (imx219_set_ctrl k c i s)))"
  unfolding imx219_set_ctrl_def
proof (rule run_steps_rel [where R = "\<lambda>s s'. prefix (hist s) (hist s')"])
  fix f s
  assume "f \<in> set [\<lambda>s. if i = V4L2_CID_VBLANK
          then deref (im_mode s) (\<lambda>m s. (0, imx219_exposure_range k c
                 (sint (im_height m + imx219_ctrl_val i s - 4)) s)) s
          else (0, s), imx219_apply_ctrl k c i]"
  moreover have "prefix (hist s) (hist (imx219_exposure_range k c ma s))" for ma
    using exposure_range_trace [OF assms, of k ma s] by (auto simp: prefix_def)
  ultimately show "prefix (hist s) (hist (snd (f s)))"
    by (auto simp: deref_def apply_ctrl_prefix [OF assms(1)] split: option.split)
qed (auto intro: prefix_order.trans)

lemma mode_controls_trace:
  assumes "pm_spec c" and "range_spec imx219_ctrl_step c" and "set_spec imx219_ctrl_step c"
    and "m \<in> set supported_modes"
  shows "\<exists>h1 h2 h3 h4 mi st. hist (imx219_mode_controls k c m s) = hist s @
    CtrlModifyRange V4L2_CID_VBLANK IMX219_VBLANK_MIN (0xffff - uint (im_height m)) 1
      (uint (im_vts_def m) - uint (im_height m)) # h1 @
    CtrlSet V4L2_CID_VBLANK (uint (im_vts_def m) - uint (im_height m)) # h2 @
    CtrlModifyRange V4L2_CID_EXPOSURE mi (uint (im_vts_def m) - 4) st
      (imx219_exposure_def (uint (im_vts_def m) - 4)) # h3 @
    CtrlModifyRange V4L2_CID_HBLANK (3448 - uint (im_width m)) (3448 - uint (im_width m)) 1
      (3448 - uint (im_width m)) # h4"
proof -
  let ?f = "imx219_set_ctrl k c" and ?v = "uint (im_vts_def m) - uint (im_height m)"
    and ?hb = "3448 - uint (im_width m)"
  note trace = imx219_control_trace [where f = ?f, OF set_ctrl_prefix [OF assms(1,2)]]
  define s1 where "s1 = snd (v4l2_ctrl_modify_range c ?f V4L2_CID_VBLANK IMX219_VBLANK_MIN
    (0xffff - uint (im_height m)) 1 ?v s)"
  define s2 where "s2 = snd (v4l2_ctrl_s_ctrl c ?f V4L2_CID_VBLANK ?v s1)"
  define s3 where "s3 = imx219_exposure_range k c (uint (im_vts_def m) - 4) s2"
  obtain h1 where h1: "hist s1 = hist s @ CtrlModifyRange V4L2_CID_VBLANK IMX219_VBLANK_MIN
      (0xffff - uint (im_height m)) 1 ?v # h1"
    unfolding s1_def using trace(1) [OF assms(2)] by blast
  obtain h2 where h2: "hist s2 = hist s1 @ CtrlSet V4L2_CID_VBLANK ?v # h2"
    unfolding s2_def using trace(2) [OF assms(3)] by blast
  obtain mi st h3 where h3: "hist s3 = hist s2 @ CtrlModifyRange V4L2_CID_EXPOSURE mi
      (uint (im_vts_def m) - 4) st (imx219_exposure_def (uint (im_vts_def m) - 4)) # h3"
    unfolding s3_def using exposure_range_trace [OF assms(1,2)] by blast
  obtain h4 where "hist (imx219_mode_controls k c m s) = hist s3 @
      CtrlModifyRange V4L2_CID_HBLANK ?hb ?hb 1 ?hb # h4"
    unfolding imx219_mode_controls_def Let_def mode_arith [OF assms(4)]
      s3_def [unfolded s2_def s1_def, symmetric]
    using trace(1) [OF assms(2)] by blast
  then show ?thesis
    by (intro exI [of _ h1] exI [of _ h2] exI [of _ h3] exI [of _ h4] exI [of _ mi] exI [of _ st])
      (simp add: h1 h2 h3)
qed

section \<open>A concrete framework\<close>

text \<open>
  The control framework for examples: values are stored, and setting the controls up runs the
  operation of each writable one.
\<close>

definition imx219_store :: "u32 \<Rightarrow> int \<Rightarrow> imx219 \<Rightarrow> imx219" where
  "imx219_store i v s =
     (if i = V4L2_CID_HFLIP \<or> i = V4L2_CID_VFLIP \<or> i = V4L2_CID_TEST_PATTERN then s
      else s\<lparr>im_ctrls := (im_ctrls s)(i := (im_ctrls s i)\<lparr>ctrl_val := v\<rparr>)\<rparr>)"

definition imx219_cb :: "imx219 kcb" where
  "imx219_cb = ideal_cb imx219_ctrl_ids imx219_store"

lemma store_step: "imx219_ctrl_step s (imx219_store i v s)"
  by (auto simp: imx219_ctrl_step_def imx219_store_def imx219_flip_def pattern_ok_def
      intro: exI [of _ "im_ctrls s"])

lemma imx219_cb_specs [simp]:
  "pm_spec imx219_cb" "range_spec imx219_ctrl_step imx219_cb" "setup_spec imx219_ctrl_step imx219_cb"
  "set_spec imx219_ctrl_step imx219_cb" "pm_reports imx219_cb"
  "setup_reports imx219_ctrl_step imx219_ctrl_ids imx219_cb"
  by (simp_all add: imx219_cb_def ideal_cb_set_spec store_step)

lemma ideal_usable [simp]: "pm_usable (ideal dflt)"
  by (simp add: pm_usable_def)

definition imx219_request :: "u32 \<Rightarrow> v4l2_subdev_format" where
  "imx219_request which = \<lparr>sf_which = which, sf_pad = 0,
     sf_format = zero_fmt\<lparr>fmt_width := 1900, fmt_height := 1000, fmt_code := MEDIA_BUS_FMT_SBGGR8_1X8\<rparr>\<rparr>"

lemma subseq_after: "subseq xs ys \<Longrightarrow> subseq (a # xs) (h @ a # ys)"
  by (induction h) auto

section \<open>Setting the active format\<close>

lemma lockdep_balance [simp]:
  "balance lock_delta (hist (lockdep_assert_held s)) = balance lock_delta (hist s)"
  "balance pm_delta (hist (lockdep_assert_held s)) = balance pm_delta (hist s)"
  "NullDeref \<in> set (hist (lockdep_assert_held s)) \<longleftrightarrow> NullDeref \<in> set (hist s)"
  by (simp_all add: lockdep_assert_held_def)

text \<open>What a successful change of the active format leaves.\<close>

lemma set_pad_active:
  assumes "nearest_spec (nearest_size k)" and "pm_spec c" and "pm_usable k"
    and "range_spec imx219_ctrl_step c" and "set_spec imx219_ctrl_step c"
    and "sf_which f \<noteq> V4L2_SUBDEV_FORMAT_TRY"
    and "imx219_set_pad_format k c cfg f s = (r, cfg', f', s')"
  obtains m where "r = 0" and "cfg' = cfg" and "m \<in> set supported_modes" and "im_mode s' = Some m"
    and "fmt_code (im_fmt s') = imx219_turned s (fmt_code (sf_format f))"
    and "f' = f\<lparr>sf_format := imx219_native_fmt (imx219_turned s (fmt_code (sf_format f))) m\<rparr>"
    and "imx219_flip s' = imx219_flip s" and "im_streaming s' = im_streaming s"
    and "balance lock_delta (hist s') = balance lock_delta (hist s)"
    and "balance pm_delta (hist s') = balance pm_delta (hist s)"
    and "pattern_ok s \<Longrightarrow> pattern_ok s'"
    and "pattern_ok s \<Longrightarrow> NullDeref \<in> set (hist s') \<Longrightarrow> NullDeref \<in> set (hist s)"
  using assms(1,7)
proof (cases rule: set_pad_cases)
  case (1 m)
  let ?l = "lockdep_assert_held (emit MutexLock s)" and ?c = "imx219_turned s (fmt_code (sf_format f))"
  have code: "fmt_code (sf_format f') = ?c"
    using 1(4) by (simp add: imx219_native_fmt_def)
  show ?thesis
  proof (cases "im_mode s = Some m \<and> fmt_code (im_fmt s) = ?c")
    case True
    then have "s' = emit MutexUnlock ?l" using 1(5) assms(6) code by simp
    with True 1(1-5) assms(6) show ?thesis by (intro that) simp_all
  next
    case False
    let ?t = "?l\<lparr>im_fmt := sf_format f', im_mode := Some m\<rparr>"
    have "s' = emit MutexUnlock (imx219_mode_controls k c m ?t)"
      using False 1(5) assms(6) code by auto
    moreover have "im_neutral ?t (imx219_mode_controls k c m ?t)"
      using assms(2-5) by (rule mode_controls_neutral)
    ultimately show ?thesis
      using 1(1-5) assms(6) code
      by (intro that) (simp_all add: im_neutral_def split: if_splits)
  qed
qed

section \<open>Properties\<close>

text \<open>
  trying a format always succeeds: the answer has the size of a mode, no mode being nearer to the
  request, and a code of the requested depth in the colour order of the active flips; it becomes the
  try format of that pad, the driver is untouched and the lock is free again; querying the try format
  and trying the answer again both give the same answer.
\<close>

theorem imx219_set_fmt_try:
  assumes "nearest_spec (nearest_size k)" and "0 \<le> balance lock_delta (hist s)"
    and "sf_which f = V4L2_SUBDEV_FORMAT_TRY"
    and "imx219_set_pad_format k c cfg f s = (r, cfg', f', s')"
  shows "r = 0 \<and> s' = emit MutexUnlock (emit MutexLock s) \<and> cfg' = cfg(sf_pad f := sf_format f') \<and>
    (\<exists>m \<in> set supported_modes.
       sf_format f' = imx219_native_fmt (imx219_turned s (fmt_code (sf_format f))) m \<and>
       (\<forall>m' \<in> set supported_modes.
          size_error (fmt_width (sf_format f)) (fmt_height (sf_format f)) (im_width m, im_height m) \<le>
          size_error (fmt_width (sf_format f)) (fmt_height (sf_format f)) (im_width m', im_height m'))) \<and>
    imx219_set_pad_format k c cfg' f' s = (0, cfg', f', s') \<and>
    imx219_get_pad_format cfg' f' s = (0, cfg', f', s')"
  using assms(1,4)
proof (cases rule: set_pad_cases)
  case (1 m)
  then have st: "cfg' = cfg(sf_pad f := sf_format f')" "s' = emit MutexUnlock (emit MutexLock s)"
    using assms(2,3) by simp_all
  have near: "v4l2_find_nearest_size k im_width im_height supported_modes (im_width m) (im_height m) = Some m"
    using imx219_sizes.nearest_own [OF assms(1) 1(2)] .
  have again: "imx219_set_pad_format k c cfg' f' s = (0, cfg', f', s')"
    unfolding imx219_set_pad_format_def Let_def get_format_code_turned prod.case turned_search
    using 1(4) st assms(2,3)
    by (simp add: update_pad_format_native imx219_native_fmt_def near)
  have "imx219_get_pad_format cfg' f' s = (0, cfg', f', s')"
    using 1(4) st assms(2,3) by (simp add: get_pad_try Let_def) (simp add: imx219_native_fmt_def)
  with 1(1-4) st again show ?thesis by (auto intro!: bexI [of _ m])
qed

theorem imx219_set_fmt_try_witness:
  "\<exists>cfg' f' s'. imx219_set_pad_format (ideal (\<lambda>_. 0)) imx219_cb (\<lambda>p. zero_fmt)
       (imx219_request V4L2_SUBDEV_FORMAT_TRY) imx219_example = (0, cfg', f', s') \<and>
     hist s' = [MutexLock, MutexUnlock] \<and> cfg' 0 = sf_format f'"
proof -
  obtain r cfg' f' s' where eq: "imx219_set_pad_format (ideal (\<lambda>_. 0)) imx219_cb (\<lambda>p. zero_fmt)
      (imx219_request V4L2_SUBDEV_FORMAT_TRY) imx219_example = (r, cfg', f', s')"
    by (metis prod_cases4)
  show ?thesis
    using imx219_set_fmt_try [OF _ _ _ eq] eq
    by (auto simp: imx219_request_def imx219_example_def)
qed

text \<open>
  C30: setting the active format always succeeds, whatever the bus and the supplies do; querying it
  then returns exactly the format that the set call returned.  The driver holds a mode of its table
  and a code of its table, the flips and the streaming flag are as before, the lock is free again
  and no runtime-PM reference is gained or lost.
\<close>

theorem imx219_set_get_active:
  assumes "nearest_spec (nearest_size k)" and "pm_spec c" and "pm_usable k"
    and "range_spec imx219_ctrl_step c" and "set_spec imx219_ctrl_step c"
    and "sf_which f \<noteq> V4L2_SUBDEV_FORMAT_TRY"
    and "imx219_set_pad_format k c cfg f s = (r, cfg', f', s')"
  shows "r = 0 \<and> imx219_wf s' \<and> (\<exists>s2. imx219_get_pad_format cfg' f s' = (0, cfg', f', s2)) \<and>
    imx219_flip s' = imx219_flip s \<and> im_streaming s' = im_streaming s \<and>
    balance lock_delta (hist s') = balance lock_delta (hist s) \<and>
    balance pm_delta (hist s') = balance pm_delta (hist s)"
  using assms
proof (cases rule: set_pad_active)
  case (1 m)
  have "imx219_turned s' (fmt_code (im_fmt s')) = fmt_code (im_fmt s')"
    using 1(5) turned_cong [OF 1(7)] by simp
  then have "imx219_get_pad_format cfg' f s' =
      (0, cfg', f', emit MutexUnlock (lockdep_assert_held (emit MutexLock s')))"
    using get_pad_active [OF 1(4) assms(6), of cfg'] 1(5,6) by simp
  moreover have "imx219_wf s'" using 1(3,4,5) by (auto simp: imx219_wf_def)
  ultimately show ?thesis using 1 by simp
qed

theorem imx219_set_get_active_witness:
  "\<exists>cfg' f' s1 s2. imx219_set_pad_format (ideal (\<lambda>_. 0)) imx219_cb (\<lambda>p. zero_fmt)
       (imx219_request V4L2_SUBDEV_FORMAT_ACTIVE) imx219_example = (0, cfg', f', s1) \<and>
     imx219_get_pad_format cfg' (imx219_request V4L2_SUBDEV_FORMAT_ACTIVE) s1 = (0, cfg', f', s2) \<and>
     imx219_wf s1"
proof -
  obtain r cfg' f' s' where eq: "imx219_set_pad_format (ideal (\<lambda>_. 0)) imx219_cb (\<lambda>p. zero_fmt)
      (imx219_request V4L2_SUBDEV_FORMAT_ACTIVE) imx219_example = (r, cfg', f', s')"
    by (metis prod_cases4)
  show ?thesis
    using imx219_set_get_active [OF _ _ _ _ _ _ eq] eq by (auto simp: imx219_request_def)
qed

text \<open>
  a change of the active format makes the controls follow the mode, in this order: the vertical
  blanking gets the range from its minimum of four lines to the largest frame, then is set to the
  default frame length of the mode; the exposure is limited to four lines less than that frame; the
  horizontal blanking is pinned to the rest of the fixed line length.  None of the differences wraps
  around, and the frame the blanking describes is the default frame of the mode.
\<close>

theorem imx219_mode_change_controls:
  assumes "nearest_spec (nearest_size k)" and "pm_spec c" and "range_spec imx219_ctrl_step c"
    and "set_spec imx219_ctrl_step c" and "sf_which f \<noteq> V4L2_SUBDEV_FORMAT_TRY"
    and "imx219_set_pad_format k c cfg f s = (r, cfg', f', s')"
    and "\<And>m. im_mode s = Some m \<Longrightarrow>
      (im_width m, im_height m) \<noteq> (fmt_width (sf_format f'), fmt_height (sf_format f'))"
  shows "\<exists>m \<in> set supported_modes. \<exists>mi st h.
    fmt_width (sf_format f') = im_width m \<and> fmt_height (sf_format f') = im_height m \<and>
    hist s' = hist s @ h \<and>
    subseq [CtrlModifyRange V4L2_CID_VBLANK IMX219_VBLANK_MIN (0xffff - uint (im_height m)) 1
              (uint (im_vts_def m) - uint (im_height m)),
            CtrlSet V4L2_CID_VBLANK (uint (im_vts_def m) - uint (im_height m)),
            CtrlModifyRange V4L2_CID_EXPOSURE mi (uint (im_vts_def m) - 4) st
              (imx219_exposure_def (uint (im_vts_def m) - 4)),
            CtrlModifyRange V4L2_CID_HBLANK (3448 - uint (im_width m)) (3448 - uint (im_width m)) 1
              (3448 - uint (im_width m))] h \<and>
    IMX219_VBLANK_MIN \<le> uint (im_vts_def m) - uint (im_height m) \<and> 0 < 3448 - uint (im_width m)"
  using assms(1,6)
proof (cases rule: set_pad_cases)
  case (1 m)
  let ?t = "(lockdep_assert_held (emit MutexLock s))\<lparr>im_fmt := sf_format f', im_mode := Some m\<rparr>"
  have sz: "fmt_width (sf_format f') = im_width m" "fmt_height (sf_format f') = im_height m"
    using 1(4) by (simp_all add: imx219_native_fmt_def)
  then have "im_mode s \<noteq> Some m" using assms(7) by auto
  then have s': "s' = emit MutexUnlock (imx219_mode_controls k c m ?t)"
    using 1(5) assms(5) by auto
  obtain h where h: "hist ?t = hist s @ h"
    by (cases "mutex_held (emit MutexLock s)") (simp_all add: lockdep_assert_held_def)
  obtain h1 h2 h3 h4 mi st where tr: "hist (imx219_mode_controls k c m ?t) = hist ?t @
    CtrlModifyRange V4L2_CID_VBLANK IMX219_VBLANK_MIN (0xffff - uint (im_height m)) 1
      (uint (im_vts_def m) - uint (im_height m)) # h1 @
    CtrlSet V4L2_CID_VBLANK (uint (im_vts_def m) - uint (im_height m)) # h2 @
    CtrlModifyRange V4L2_CID_EXPOSURE mi (uint (im_vts_def m) - 4) st
      (imx219_exposure_def (uint (im_vts_def m) - 4)) # h3 @
    CtrlModifyRange V4L2_CID_HBLANK (3448 - uint (im_width m)) (3448 - uint (im_width m)) 1
      (3448 - uint (im_width m)) # h4"
    using mode_controls_trace [OF assms(2-4) 1(2), of k ?t] by blast
  show ?thesis
    unfolding s' hist_emit tr h append.assoc
    by (rule bexI [OF _ 1(2)], rule exI [of _ mi], rule exI [of _ st], rule exI, intro conjI,
        rule sz, rule sz, rule refl)
      (use supported_modes_bounds [OF 1(2)] in \<open>simp_all add: subseq_after\<close>)
qed

lemma request_nearest:
  "v4l2_find_nearest_size (ideal dflt) im_width im_height supported_modes 1900 1000 =
     Some imx219_mode_1920x1080"
  by (simp add: v4l2_find_nearest_size_def ideal_def supported_modes_def size_error_def)
    (simp add: imx219_mode_defs)

lemma request_format:
  assumes "imx219_set_pad_format (ideal dflt) c cfg (imx219_request w) s = (r, cfg', f', s')"
  shows "fmt_width (sf_format f') = 1920" and "fmt_height (sf_format f') = 1080"
  using assms unfolding imx219_set_pad_format_def Let_def get_format_code_turned prod.case
  by (auto simp: imx219_request_def request_nearest zero_fmt_def update_pad_format_native
      imx219_native_fmt_def imx219_mode_1920x1080_def split: if_splits)

theorem imx219_mode_change_controls_witness:
  "\<exists>cfg' f' s'. imx219_set_pad_format (ideal (\<lambda>_. 0)) imx219_cb (\<lambda>p. zero_fmt)
       (imx219_request V4L2_SUBDEV_FORMAT_ACTIVE) imx219_example = (0, cfg', f', s') \<and>
     CtrlSet V4L2_CID_VBLANK 683 \<in> set (hist s')"
proof -
  obtain r cfg' f' s' where eq: "imx219_set_pad_format (ideal (\<lambda>_. 0)) imx219_cb (\<lambda>p. zero_fmt)
      (imx219_request V4L2_SUBDEV_FORMAT_ACTIVE) imx219_example = (r, cfg', f', s')"
    by (metis prod_cases4)
  note fmt = request_format [OF eq]
  have r: "r = 0" using eq by (rule set_pad_cases [rotated]) simp_all
  have "im_width m \<noteq> 1920" if "im_mode imx219_example = Some m" for m
    using that by (auto simp: imx219_example_def imx219_mode_3280x2464_def)
  then obtain m h mi st where m: "m \<in> set supported_modes" "im_width m = 1920" "hist s' = h"
    and sub: "subseq [CtrlModifyRange V4L2_CID_VBLANK IMX219_VBLANK_MIN (0xffff - uint (im_height m)) 1
              (uint (im_vts_def m) - uint (im_height m)),
            CtrlSet V4L2_CID_VBLANK (uint (im_vts_def m) - uint (im_height m)),
            CtrlModifyRange V4L2_CID_EXPOSURE mi (uint (im_vts_def m) - 4) st
              (imx219_exposure_def (uint (im_vts_def m) - 4)),
            CtrlModifyRange V4L2_CID_HBLANK (3448 - uint (im_width m)) (3448 - uint (im_width m)) 1
              (3448 - uint (im_width m))] h"
    using imx219_mode_change_controls [OF _ _ _ _ _ eq] fmt
    by (auto simp: imx219_request_def) (simp add: imx219_example_def)
  have "m = imx219_mode_1920x1080"
    using m(1,2) by (cases rule: supported_modes_cases) (simp_all add: imx219_mode_defs)
  with sub m(3) have "CtrlSet V4L2_CID_VBLANK 683 \<in> set (hist s')"
    using list_emb_set [OF sub, of "CtrlSet V4L2_CID_VBLANK 683"] by (auto simp: imx219_mode_1920x1080_def)
  with eq r show ?thesis by blast
qed

text \<open>
  nothing stops a change of the active format while the sensor streams: the call succeeds, the
  driver still counts as streaming and reports the new mode from now on, but of the sensor only
  control registers may have been written; the registers of crop window, output size and binning
  still hold the mode the stream was started with.
\<close>

theorem imx219_set_fmt_while_streaming:
  assumes "nearest_spec (nearest_size k)" and "pm_spec c" and "pm_usable k"
    and "range_spec imx219_ctrl_step c" and "set_spec imx219_ctrl_step c"
    and "sf_which f \<noteq> V4L2_SUBDEV_FORMAT_TRY" and "im_streaming s"
    and "imx219_set_pad_format k c cfg f s = (r, cfg', f', s')"
  shows "r = 0 \<and> im_streaming s' \<and>
    (\<exists>m \<in> set supported_modes. im_mode s' = Some m \<and> fmt_width (sf_format f') = im_width m \<and>
       fmt_height (sf_format f') = im_height m) \<and>
    (\<forall>a \<in> set imx219_picture_regs. bus_image (hist s') a = bus_image (hist s) a)"
proof -
  have lock: "touches imx219_ctrl_regs s (lockdep_assert_held (emit MutexLock s))"
    by (simp add: lockdep_assert_held_def touches_def)
  have unlock: "touches imx219_ctrl_regs t (emit MutexUnlock t)" for t :: imx219
    by (simp add: touches_emit)
  have upd: "touches imx219_ctrl_regs s (t\<lparr>im_fmt := a, im_mode := b\<rparr>)"
    if "touches imx219_ctrl_regs s t" for t a b
    using that by (simp add: touches_def)
  from assms(1,8) have "touches imx219_ctrl_regs s s'"
    by (cases rule: set_pad_cases)
      (auto split: if_splits intro: touches_trans [OF _ unlock] lock
        touches_trans [OF upd [OF lock] mode_controls_touches [OF assms(2,4,5)]])
  note pic = touches_picture [OF this]
  from assms(1-6,8) show ?thesis
    by (cases rule: set_pad_active) (use assms(7) pic in \<open>auto simp: imx219_native_fmt_def\<close>)
qed

theorem imx219_set_fmt_while_streaming_witness:
  "\<exists>cfg' f' s'. imx219_set_pad_format (ideal (\<lambda>_. 0)) imx219_cb (\<lambda>p. zero_fmt)
       (imx219_request V4L2_SUBDEV_FORMAT_ACTIVE) (imx219_example\<lparr>im_streaming := True\<rparr>) =
       (0, cfg', f', s') \<and> im_streaming s' \<and> fmt_width (sf_format f') = 1920 \<and>
     bus_image (hist s') 0x016c = None"
proof -
  obtain r cfg' f' s' where eq: "imx219_set_pad_format (ideal (\<lambda>_. 0)) imx219_cb (\<lambda>p. zero_fmt)
      (imx219_request V4L2_SUBDEV_FORMAT_ACTIVE) (imx219_example\<lparr>im_streaming := True\<rparr>) = (r, cfg', f', s')"
    by (metis prod_cases4)
  show ?thesis
    using imx219_set_fmt_while_streaming [OF _ _ _ _ _ _ _ eq] eq request_format [OF eq]
    by (auto simp: imx219_request_def imx219_picture_regs_def imx219_example_def bus_image_def)
qed

text \<open>
  enumeration and selection agree: a code that enumeration reports (there are two, one per depth,
  in the colour order of the active flips) and a size it reports for the active code are accepted
  unchanged by trying that format.  Both enumeration calls compute the code without taking the lock
  that the computation asserts: called with the lock free, each leaves a lock warning, while opening,
  getting and trying a format leave none.
\<close>

theorem imx219_enumeration_consistent:
  assumes "nearest_spec (nearest_size k)" and "balance lock_delta (hist s) = 0"
    and "imx219_enum_mbus_code i old s = (0, code, s1)"
    and "imx219_enum_frame_size j active s = (0, Some ((w, w'), (h, h')), s2)"
    and "fmt_code g = code" and "fmt_width g = w" and "fmt_height g = h"
  shows "w = w' \<and> h = h' \<and> i < 2 \<and> j < 4 \<and>
    (\<exists>cfg' f'. imx219_set_pad_format k c cfg \<lparr>sf_which = V4L2_SUBDEV_FORMAT_TRY, sf_pad = p,
         sf_format = g\<rparr> s = (0, cfg', f', emit MutexUnlock (emit MutexLock s)) \<and>
       fmt_code (sf_format f') = code \<and> fmt_width (sf_format f') = w \<and> fmt_height (sf_format f') = h) \<and>
    hist s1 = hist s @ [LockdepWarn] \<and> hist s2 = hist s @ [LockdepWarn] \<and>
    hist (snd (snd (imx219_open cfg s))) = hist s @ [MutexLock, MutexUnlock]"
proof -
  have warn: "lockdep_assert_held s = emit LockdepWarn s"
    using assms(2) by (simp add: lockdep_assert_held_def mutex_held_def)
  have i: "i < 2" "code = imx219_turned s code" "s1 = emit LockdepWarn s"
    using assms(3)
    by (auto simp: imx219_enum_mbus_code_def get_format_code_turned warn word_less_nat_alt split: if_splits)
  have j: "unat j < 4" "w = im_width (supported_modes ! unat j)" "h = im_height (supported_modes ! unat j)"
      "w' = w" "h' = h" "s2 = emit LockdepWarn s"
    using assms(4)
    by (auto simp: imx219_enum_frame_size_def get_format_code_turned warn supported_modes_def Let_def
        split: if_splits)
  have mem: "supported_modes ! unat j \<in> set supported_modes"
    using j(1) by (intro nth_mem) (simp add: supported_modes_def)
  have near: "v4l2_find_nearest_size k im_width im_height supported_modes w h = Some (supported_modes ! unat j)"
    unfolding j(2,3) using imx219_sizes.nearest_own [OF assms(1) mem] .
  have "\<exists>cfg' f'. imx219_set_pad_format k c cfg \<lparr>sf_which = V4L2_SUBDEV_FORMAT_TRY, sf_pad = p,
         sf_format = g\<rparr> s = (0, cfg', f', emit MutexUnlock (emit MutexLock s)) \<and>
       fmt_code (sf_format f') = code \<and> fmt_width (sf_format f') = w \<and> fmt_height (sf_format f') = h"
    unfolding imx219_set_pad_format_def Let_def get_format_code_turned prod.case turned_search
    using assms(2,5-7) i(2) near j(2,3)
    by (simp add: update_pad_format_native imx219_native_fmt_def)
  moreover have "hist (snd (snd (imx219_open cfg s))) = hist s @ [MutexLock, MutexUnlock]"
    using assms(2) by (simp add: imx219_open_def get_format_code_turned Let_def)
  ultimately show ?thesis
    using i j by (simp add: word_less_nat_alt)
qed

theorem imx219_enumeration_consistent_witness:
  "\<exists>cfg' f'. imx219_set_pad_format (ideal (\<lambda>_. 0)) imx219_cb (\<lambda>p. zero_fmt)
       \<lparr>sf_which = V4L2_SUBDEV_FORMAT_TRY, sf_pad = 0, sf_format = zero_fmt\<lparr>
          fmt_code := MEDIA_BUS_FMT_SRGGB8_1X8, fmt_width := 640, fmt_height := 480\<rparr>\<rparr> imx219_example =
       (0, cfg', f', emit MutexUnlock (emit MutexLock imx219_example)) \<and>
     fmt_code (sf_format f') = MEDIA_BUS_FMT_SRGGB8_1X8"
proof -
  let ?f = "zero_fmt\<lparr>fmt_code := MEDIA_BUS_FMT_SRGGB8_1X8, fmt_width := 640, fmt_height := 480\<rparr>"
  have e: "imx219_enum_mbus_code 1 0 imx219_example =
      (0, MEDIA_BUS_FMT_SRGGB8_1X8, lockdep_assert_held imx219_example)"
    by (simp add: imx219_enum_mbus_code_def get_format_code_eq imx219_flip_def imx219_example_def
        zero_ctrl_def) (simp add: codes_def raw8_code_def)
  have s: "imx219_enum_frame_size 3 MEDIA_BUS_FMT_SRGGB10_1X10 imx219_example =
      (0, Some ((640, 640), (480, 480)), lockdep_assert_held imx219_example)"
    by (simp add: imx219_enum_frame_size_def get_format_code_eq imx219_flip_def imx219_example_def
        zero_ctrl_def supported_modes_def Let_def) (simp add: codes_def raw8_code_def imx219_mode_defs)
  show ?thesis
    using imx219_enumeration_consistent [OF _ _ e s, of "ideal (\<lambda>_. 0)" ?f imx219_cb "\<lambda>p. zero_fmt" 0]
    by (auto simp: imx219_example_def zero_fmt_def)
qed

end
