(* ===== verification/Imx219_Stream.thy ===== *)
theory Imx219_Stream
  imports Imx219_Pad
begin

text \<open>
  Streaming of the IMX219 driver: programming the mode and the pixel format, starting and stopping
  the stream with its runtime-PM reference, and system suspend and resume.  The lemmas give the
  register image that a start leaves, and the balance of lock and usage count on every path.
\<close>

section \<open>Operations\<close>

definition imx219_set_framefmt :: "kapi \<Rightarrow> imx219 op" where
  "imx219_set_framefmt k s =
     (if raw8_code (fmt_code (im_fmt s)) then imx219_write_regs k (imx219_regs raw8_framefmt_regs) s
      else if raw10_code (fmt_code (im_fmt s))
      then imx219_write_regs k (imx219_regs raw10_framefmt_regs) s
      else (- EINVAL, s))"

definition imx219_start_streaming :: "kapi \<Rightarrow> imx219 kcb \<Rightarrow> imx219 op" where
  "imx219_start_streaming k c s = run_steps [
     (\<lambda>s. deref (im_mode s) (\<lambda>m. imx219_write_regs k (im_regs m)) s),
     imx219_set_framefmt k,
     v4l2_ctrl_handler_setup c (imx219_set_ctrl k c),
     imx219_write_reg k IMX219_REG_MODE_SELECT IMX219_REG_VALUE_08BIT IMX219_MODE_STREAMING] s"

definition imx219_stop_streaming :: "kapi \<Rightarrow> imx219 \<Rightarrow> imx219" where
  "imx219_stop_streaming k s =
     snd (imx219_write_reg k IMX219_REG_MODE_SELECT IMX219_REG_VALUE_08BIT IMX219_MODE_STANDBY s)"

text \<open>The flag and the grabbed flips once a start or a stop is through.\<close>

definition imx219_stream_set :: "int \<Rightarrow> imx219 \<Rightarrow> imx219" where
  "imx219_stream_set enable s =
     (let s = s\<lparr>im_streaming := enable \<noteq> 0\<rparr>;
          s = emit (CtrlGrab V4L2_CID_VFLIP (enable \<noteq> 0)) s;
          s = emit (CtrlGrab V4L2_CID_HFLIP (enable \<noteq> 0)) s
      in emit MutexUnlock s)"

definition imx219_set_stream :: "kapi \<Rightarrow> imx219 kcb \<Rightarrow> int \<Rightarrow> imx219 op" where
  "imx219_set_stream k c enable s =
     (let s = emit MutexLock s
      in if of_bool (im_streaming s) = enable then (0, emit MutexUnlock s)
      else if enable \<noteq> 0
      then let (ret, s) = pm_runtime_get_sync c (imx219_power_on k) s
           in if ret < 0 then (ret, emit MutexUnlock (emit PmPutNoidle s))
           else let (ret, s) = imx219_start_streaming k c s
           in if ret \<noteq> 0 then (ret, emit MutexUnlock (pm_runtime_put c imx219_power_off s))
           else (ret, imx219_stream_set enable s)
      else let s = imx219_stop_streaming k s;
               s = pm_runtime_put c imx219_power_off s
           in (0, imx219_stream_set enable s))"

definition imx219_suspend :: "kapi \<Rightarrow> imx219 op" where
  "imx219_suspend k s = (0, if im_streaming s then imx219_stop_streaming k s else s)"

definition imx219_resume :: "kapi \<Rightarrow> imx219 kcb \<Rightarrow> imx219 op" where
  "imx219_resume k c s =
     (if im_streaming s
      then let (ret, s) = imx219_start_streaming k c s
           in if ret \<noteq> 0 then (ret, (imx219_stop_streaming k s)\<lparr>im_streaming := False\<rparr>) else (0, s)
      else (0, s))"

section \<open>What starting and stopping keep\<close>

lemma set_framefmt_emits [emits_rules]: "emits bus_event s (snd (imx219_set_framefmt k s))"
  by (simp add: imx219_set_framefmt_def write_regs_emits)

lemma stop_streaming_neutral: "im_neutral s (imx219_stop_streaming k s)"
  unfolding imx219_stop_streaming_def by (intro bus_im_neutral write_reg_emits)

lemma start_streaming_neutral:
  assumes "pm_spec c" and "pm_usable k" and "range_spec imx219_ctrl_step c"
    and "setup_spec imx219_ctrl_step c"
  shows "im_neutral s (snd (imx219_start_streaming k c s))"
  unfolding imx219_start_streaming_def
proof (rule run_steps_rel [where R = im_neutral])
  fix f s
  assume "f \<in> set [\<lambda>s. deref (im_mode s) (\<lambda>m. imx219_write_regs k (im_regs m)) s,
    imx219_set_framefmt k, v4l2_ctrl_handler_setup c (imx219_set_ctrl k c),
    imx219_write_reg k IMX219_REG_MODE_SELECT IMX219_REG_VALUE_08BIT IMX219_MODE_STREAMING]"
  moreover have "im_neutral s (snd (v4l2_ctrl_handler_setup c (imx219_set_ctrl k c) s))"
    using set_ctrl_neutral [OF assms(1-3)] assms(4) by (rule control_neutral(3))
  ultimately show "im_neutral s (snd (f s))"
    by (auto simp: deref_def fault_neutral bus_im_neutral [OF write_regs_emits]
        bus_im_neutral [OF write_reg_emits] bus_im_neutral [OF set_framefmt_emits] split: option.split)
qed (auto intro: im_neutral_trans)

lemma pm_get_on_neutral:
  assumes "pm_spec c" shows "im_neutral s (snd (pm_get c (imx219_power_on k) s))"
  by (rule pm_get_cases [OF assms, of "imx219_power_on k" s]) (auto simp: power_im_neutral)

section \<open>The image of a started stream\<close>

definition imx219_table :: "imx219_mode \<Rightarrow> (u16 \<times> u8) list" where
  "imx219_table m = map (\<lambda>r. (ir_address r, ir_val r)) (im_regs m)"

lemma regs_pairs [simp]: "map (\<lambda>r. (ir_address r, ir_val r)) (imx219_regs tab) = tab"
  by (induction tab) (auto simp: imx219_regs_def)

text \<open>
  What the registers of a mode say: the window read out (start and end of columns and rows), the size
  that leaves the sensor, the binning and the line length, high byte first.
\<close>

definition imx219_decoded :: "(u16 \<rightharpoonup> u8) \<Rightarrow> imx219_mode \<Rightarrow> bool" where
  "imx219_decoded img m \<longleftrightarrow>
     (\<exists>x0 x1 y0 y1 w h ppl b.
        reg16 img 0x0164 = Some x0 \<and> reg16 img 0x0166 = Some x1 \<and>
        reg16 img 0x0168 = Some y0 \<and> reg16 img 0x016a = Some y1 \<and>
        reg16 img 0x016c = Some w \<and> reg16 img 0x016e = Some h \<and> reg16 img 0x0162 = Some ppl \<and>
        img 0x0174 = Some b \<and> img 0x0175 = Some b \<and>
        uint w = uint (im_width m) \<and> uint h = uint (im_height m) \<and>
        uint ppl = uint IMX219_PPL_DEFAULT \<and>
        (let f = (if b = 0 then 1 else 2)
         in uint x1 - uint x0 + 1 = f * uint w \<and> uint y1 - uint y0 + 1 = f * uint h) \<and>
        uint x1 < 3280 \<and> uint y1 < 2464)"

lemma mode_table_decoded:
  assumes "m \<in> set supported_modes"
  shows "imx219_decoded (img(map fst (imx219_table m) [\<mapsto>] map snd (imx219_table m))) m"
  using assms
  by (cases rule: supported_modes_cases)
    (simp_all add: imx219_decoded_def imx219_table_def imx219_mode_defs imx219_table_defs reg16_def
      be16_def)

text \<open>The registers written after the mode table do not reach the picture or the line length.\<close>

definition imx219_late_regs :: "u16 set" where
  "imx219_late_regs = imx219_ctrl_regs \<union> {IMX219_REG_MODE_SELECT, 0x018c, 0x018d, 0x0309}"

lemma decoded_touches:
  assumes "touches imx219_late_regs s s'" and "imx219_decoded (bus_image (hist s)) m"
  shows "imx219_decoded (bus_image (hist s')) m"
proof -
  have "set (0x0162 # 0x0163 # imx219_picture_regs) \<inter> imx219_late_regs = {}"
    by (simp add: imx219_late_regs_def imx219_picture_regs_def imx219_ctrl_regs_def)
  then have "list_all (\<lambda>a. bus_image (hist s') a = bus_image (hist s) a)
      (0x0162 # 0x0163 # imx219_picture_regs)"
    using assms(1) unfolding touches_def list_all_iff by blast
  then show ?thesis
    using assms(2) by (simp add: imx219_decoded_def reg16_def imx219_picture_regs_def)
qed

text \<open>The depth that the pixel format registers announce.\<close>

definition imx219_depth :: "(u16 \<rightharpoonup> u8) \<Rightarrow> u8 \<Rightarrow> bool" where
  "imx219_depth img d \<longleftrightarrow> img 0x018c = Some d \<and> img 0x018d = Some d \<and> img 0x0309 = Some d"

lemma set_framefmt_image:
  assumes "imx219_set_framefmt k s = (0, s')"
  shows "touches imx219_late_regs s s'" and "fmt_code (im_fmt s) \<in> set codes"
    and "imx219_depth (bus_image (hist s')) (if raw8_code (fmt_code (im_fmt s)) then 8 else 10)"
proof -
  obtain d where d: "imx219_write_regs k (imx219_regs [(0x018c, d), (0x018d, d), (0x0309, d)]) s = (0, s')"
      "d = (if raw8_code (fmt_code (im_fmt s)) then 8 else 10)"
    using assms
    by (auto simp: imx219_set_framefmt_def raw8_framefmt_regs_def raw10_framefmt_regs_def split: if_splits)
  note img = write_regs_image [OF d(1), simplified]
  show "touches imx219_late_regs s s'"
    by (auto simp: touches_def img imx219_late_regs_def)
  show "imx219_depth (bus_image (hist s')) (if raw8_code (fmt_code (im_fmt s)) then 8 else 10)"
    by (simp add: imx219_depth_def img d(2))
  show "fmt_code (im_fmt s) \<in> set codes"
    using assms by (auto simp: imx219_set_framefmt_def codes_cases split: if_splits)
qed

lemma depth_touches:
  assumes "touches (imx219_ctrl_regs \<union> {IMX219_REG_MODE_SELECT}) s s'"
    and "imx219_depth (bus_image (hist s)) d"
  shows "imx219_depth (bus_image (hist s')) d"
  using assms unfolding touches_def imx219_depth_def by (simp add: imx219_ctrl_regs_def)

lemma start_streaming_image:
  assumes "pm_spec c" and "range_spec imx219_ctrl_step c" and "setup_spec imx219_ctrl_step c"
    and "im_mode s = Some m" and "m \<in> set supported_modes"
    and "imx219_start_streaming k c s = (0, s')"
  shows "imx219_decoded (bus_image (hist s')) m"
    and "imx219_depth (bus_image (hist s')) (if raw8_code (fmt_code (im_fmt s)) then 8 else 10)"
    and "bus_image (hist s') IMX219_REG_MODE_SELECT = Some 1" and "fmt_code (im_fmt s) \<in> set codes"
proof -
  obtain s1 s2 s3 where s1: "imx219_write_regs k (im_regs m) s = (0, s1)"
    and s2: "imx219_set_framefmt k s1 = (0, s2)"
    and s3: "v4l2_ctrl_handler_setup c (imx219_set_ctrl k c) s2 = (0, s3)"
    and s4: "imx219_write_reg k IMX219_REG_MODE_SELECT 1 1 s3 = (0, s')"
    using assms(4,6) by (auto simp: imx219_start_streaming_def run_steps_Cons_0)
  have fmt: "im_fmt s1 = im_fmt s"
    using write_regs_emits [of s k "im_regs m"] s1 by (auto simp: emits_def)
  have t23: "touches imx219_ctrl_regs s2 s3"
    using control_touches(3) [where f = "imx219_set_ctrl k c", OF set_ctrl_touches [OF assms(1,2)]
        assms(3), of s2] s3 by simp
  have t34: "touches {IMX219_REG_MODE_SELECT} s3 s'"
    using write_reg_1_touches [of IMX219_REG_MODE_SELECT s3 k 1] s4 by simp
  let ?A = "imx219_ctrl_regs \<union> {IMX219_REG_MODE_SELECT}"
  have t: "touches ?A s2 s'"
    by (rule touches_trans [OF touches_mono [OF t23] touches_mono [OF t34]]) auto
  have late: "touches imx219_late_regs s2 s'"
    using t by (rule touches_mono) (auto simp: imx219_late_regs_def)
  have "imx219_decoded (bus_image (hist s1)) m"
    using mode_table_decoded [OF assms(5)] write_regs_image [of k "imx219_table m" s s1] s1
    by (simp add: imx219_table_def write_regs_pairs)
  then show "imx219_decoded (bus_image (hist s')) m"
    by (rule decoded_touches [OF touches_trans [OF set_framefmt_image(1) [OF s2] late]])
  show "imx219_depth (bus_image (hist s')) (if raw8_code (fmt_code (im_fmt s)) then 8 else 10)"
    using depth_touches [OF t set_framefmt_image(3) [OF s2]] by (simp add: fmt)
  show "bus_image (hist s') IMX219_REG_MODE_SELECT = Some 1"
    using write_reg_1_image [OF s4] by simp
  show "fmt_code (im_fmt s) \<in> set codes"
    using set_framefmt_image(2) [OF s2] by (simp add: fmt)
qed

section \<open>Starting and stopping\<close>

lemma set_stream_cases:
  assumes "imx219_set_stream k c enable s = (r, s')"
  obtains (same) "of_bool (im_streaming s) = enable" and "r = 0"
      and "s' = emit MutexUnlock (emit MutexLock s)"
  | (no_power) s1 where "enable \<noteq> 0" and "of_bool (im_streaming s) \<noteq> enable" and "r < 0"
      and "pm_get c (imx219_power_on k) (emit PmGetSync (emit MutexLock s)) = (r, s1)"
      and "s' = emit MutexUnlock (emit PmPutNoidle s1)"
  | (no_start) r1 s1 s2 where "enable \<noteq> 0" and "of_bool (im_streaming s) \<noteq> enable" and "r \<noteq> 0"
      and "pm_get c (imx219_power_on k) (emit PmGetSync (emit MutexLock s)) = (r1, s1)"
      and "imx219_start_streaming k c s1 = (r, s2)"
      and "s' = emit MutexUnlock (pm_put c imx219_power_off (emit PmPut s2))"
  | (started) r1 s1 s2 where "enable \<noteq> 0" and "of_bool (im_streaming s) \<noteq> enable" and "r = 0"
      and "pm_get c (imx219_power_on k) (emit PmGetSync (emit MutexLock s)) = (r1, s1)"
      and "imx219_start_streaming k c s1 = (0, s2)" and "s' = imx219_stream_set enable s2"
  | (stopped) "enable = 0" and "im_streaming s" and "r = 0"
      and "s' = imx219_stream_set 0 (pm_put c imx219_power_off (emit PmPut
             (imx219_stop_streaming k (emit MutexLock s))))"
  using assms
  by (auto simp: imx219_set_stream_def pm_runtime_get_sync_def pm_runtime_put_def Let_def
      split: if_splits prod.splits)

lemma stream_set_fields [simp]:
  "im_streaming (imx219_stream_set e s) = (e \<noteq> 0)" "im_mode (imx219_stream_set e s) = im_mode s"
  "im_fmt (imx219_stream_set e s) = im_fmt s" "imx219_flip (imx219_stream_set e s) = imx219_flip s"
  "balance pm_delta (hist (imx219_stream_set e s)) = balance pm_delta (hist s)"
  "balance lock_delta (hist (imx219_stream_set e s)) = balance lock_delta (hist s) - 1"
  "bus_image (hist (imx219_stream_set e s)) = bus_image (hist s)"
  "pattern_ok (imx219_stream_set e s) = pattern_ok s"
  "NullDeref \<in> set (hist (imx219_stream_set e s)) \<longleftrightarrow> NullDeref \<in> set (hist s)"
  by (simp_all add: imx219_stream_set_def Let_def imx219_flip_def pattern_ok_def) (simp_all add: emit_def)

text \<open>
  The account of a start or stop: the flag, the runtime-PM reference that goes with it and the lock;
  mode, format
  and flips as before, and no fault.
\<close>

definition stream_account :: "bool \<Rightarrow> imx219 \<Rightarrow> imx219 \<Rightarrow> bool" where
  "stream_account on s s' \<longleftrightarrow> im_streaming s' = on \<and>
     balance pm_delta (hist s') = balance pm_delta (hist s) + of_bool on - of_bool (im_streaming s) \<and>
     balance lock_delta (hist s') = balance lock_delta (hist s) \<and>
     im_mode s' = im_mode s \<and> im_fmt s' = im_fmt s \<and> imx219_flip s' = imx219_flip s \<and>
     (imx219_ready s \<longrightarrow> imx219_ready s' \<and> (NullDeref \<in> set (hist s') \<longrightarrow> NullDeref \<in> set (hist s)))"

lemma set_stream_account:
  assumes "pm_spec c" and "pm_usable k" and "range_spec imx219_ctrl_step c"
    and "setup_spec imx219_ctrl_step c" and "enable = 0 \<or> enable = 1"
    and "imx219_set_stream k c enable s = (r, s')"
  shows "stream_account (if r = 0 then enable = 1 else im_streaming s) s s'"
proof -
  let ?g = "emit PmGetSync (emit MutexLock s)"
  note start = start_streaming_neutral [OF assms(1-4)]
  have get: "im_neutral ?g s1" if "pm_get c (imx219_power_on k) ?g = (r1, s1)" for r1 s1
    using pm_get_on_neutral [OF assms(1), of ?g k] that by simp
  have put: "im_neutral t (pm_put c imx219_power_off t)" for t
    using assms(1) by (rule pm_put_off_neutral)
  from assms(6) show ?thesis
  proof (cases rule: set_stream_cases)
    case same
    then show ?thesis using assms(5) by (auto simp: stream_account_def imx219_ready_def)
  next
    case (no_power s1)
    then show ?thesis using get [OF no_power(4)] by (simp add: stream_account_def im_neutral_def imx219_ready_def)
  next
    case (no_start r1 s1 s2)
    then show ?thesis
      using get [OF no_start(4)] start [of s1] put [of "emit PmPut s2"]
      by (simp add: stream_account_def im_neutral_def imx219_ready_def)
  next
    case (started r1 s1 s2)
    then show ?thesis
      using get [OF started(4)] start [of s1] assms(5) by (auto simp: stream_account_def im_neutral_def imx219_ready_def)
  next
    case stopped
    then show ?thesis
      using stop_streaming_neutral [of "emit MutexLock s" k]
        put [of "emit PmPut (imx219_stop_streaming k (emit MutexLock s))"]
      by (simp add: stream_account_def im_neutral_def imx219_ready_def)
  qed
qed

lemma start_streaming_ok:
  assumes "bus_ok k" and "pm_spec c" and "pm_usable k" and "range_spec imx219_ctrl_step c"
    and "setup_reports imx219_ctrl_step imx219_ctrl_ids c" and "imx219_ready s"
    and "fmt_code (im_fmt s) \<in> set codes"
  shows "fst (imx219_start_streaming k c s) = 0"
proof -
  obtain m where m: "im_mode s = Some m" using assms(6) by (auto simp: imx219_ready_def)
  obtain s1 where s1: "imx219_write_regs k (im_regs m) s = (0, s1)"
    using ok_pair [OF write_regs_ok [OF assms(1), of "im_regs m" s]] by blast
  have n1: "im_neutral s s1"
    using bus_im_neutral [OF write_regs_emits, of s k "im_regs m"] s1 by simp
  then have "fst (imx219_set_framefmt k s1) = 0"
    using assms(7) write_regs_ok [OF assms(1)]
    by (auto simp: imx219_set_framefmt_def im_neutral_def codes_cases)
  then obtain s2 where s2: "imx219_set_framefmt k s1 = (0, s2)" by (metis ok_pair)
  have "im_neutral s1 s2" using bus_im_neutral [OF set_framefmt_emits, of s1 k] s2 by simp
  then have "imx219_ready (emit CtrlHandlerSetup s2)"
    using n1 assms(6) neutral_ready emit_im_neutral [of CtrlHandlerSetup s2] by auto
  then have "fst (ctrl_setup c (imx219_set_ctrl k c) (emit CtrlHandlerSetup s2)) = 0"
    by (rule setup_reportsD [OF assms(5)])
      (rule set_ctrl_ok [OF assms(1-4)] neutral_ready [OF set_ctrl_neutral [OF assms(2-4)]]
        neutral_ready [OF ctrl_step_neutral]; assumption)+
  then obtain s3 where "v4l2_ctrl_handler_setup c (imx219_set_ctrl k c) s2 = (0, s3)"
    unfolding v4l2_ctrl_handler_setup_def by (metis ok_pair)
  then show ?thesis
    using m s1 s2 write_reg_ok [OF assms(1), of 1 IMX219_REG_MODE_SELECT 1 s3]
    by (auto simp: imx219_start_streaming_def run_steps.simps(2) split: prod.split)
qed

lemma im_power_on_ok:
  assumes "\<And>h r. regulator_ret k h r = 0" and "\<And>h. clk_ret k h = 0"
  shows "fst (imx219_power_on k s) = 0"
  using assms by (simp add: imx219_power_on_def regulator_enable_def clk_prepare_enable_def Let_def)

lemma set_stream_ok:
  assumes "bus_ok k" and "\<And>h r. regulator_ret k h r = 0" and "\<And>h. clk_ret k h = 0"
    and "pm_spec c" and "pm_usable k" and "range_spec imx219_ctrl_step c" and "pm_reports c"
    and "setup_reports imx219_ctrl_step imx219_ctrl_ids c" and "imx219_ready s"
    and "fmt_code (im_fmt s) \<in> set codes"
  shows "fst (imx219_set_stream k c 1 s) = 0"
proof -
  let ?g = "emit PmGetSync (emit MutexLock s)"
  obtain r s' where eq: "imx219_set_stream k c 1 s = (r, s')" by (cases "imx219_set_stream k c 1 s")
  have ok: "fst (imx219_start_streaming k c s1) = 0"
    if "pm_get c (imx219_power_on k) ?g = (r1, s1)" for r1 s1
  proof (rule start_streaming_ok [OF assms(1,4,5,6,8)])
    have n: "im_neutral ?g s1" using pm_get_on_neutral [OF assms(4), of ?g k] that by simp
    have "imx219_ready ?g" using assms(9) by (simp add: imx219_ready_def pattern_ok_def emit_def)
    then show "imx219_ready s1" by (rule neutral_ready [OF n])
    show "fmt_code (im_fmt s1) \<in> set codes" using n assms(10) by (simp add: im_neutral_def)
  qed
  from eq show ?thesis
  proof (cases rule: set_stream_cases)
    case (no_power s1)
    have "0 \<le> fst (pm_get c (imx219_power_on k) ?g)"
      using assms(7) im_power_on_ok [OF assms(2,3)] by (simp add: pm_reports_def)
    with no_power show ?thesis by simp
  next
    case (no_start r1 s1 s2)
    with ok [OF no_start(4)] show ?thesis by simp
  qed (use eq in simp_all)
qed

lemma example_ready: "imx219_ready imx219_example" "fmt_code (im_fmt imx219_example) \<in> set codes"
  by (simp_all add: imx219_ready_def pattern_ok_def imx219_example_def zero_ctrl_def codes_def)

lemma example_starts: "fst (imx219_set_stream (ideal (\<lambda>_. 0)) imx219_cb 1 imx219_example) = 0"
  by (rule set_stream_ok) (simp_all add: example_ready)

section \<open>Properties\<close>

text \<open>
  C16: when starting the stream returns zero, the sensor is programmed with the mode and the format
  the driver holds: the size registers decode to width and height, the window read out is that size
  or, with binning, twice that size and inside the pixel array, the line length is the fixed one, the
  pixel format registers hold 8 or 10 bits as the code says, and the sensor is in streaming mode.  The
  user's controls, applied in between, disturb none of it.
\<close>

theorem imx219_start_programs_mode:
  assumes "pm_spec c" and "range_spec imx219_ctrl_step c" and "setup_spec imx219_ctrl_step c"
    and "im_mode s = Some m" and "m \<in> set supported_modes" and "\<not> im_streaming s"
    and "imx219_set_stream k c 1 s = (0, s')"
  shows "imx219_decoded (bus_image (hist s')) m \<and>
    imx219_depth (bus_image (hist s')) (if raw8_code (fmt_code (im_fmt s)) then 8 else 10) \<and>
    bus_image (hist s') IMX219_REG_MODE_SELECT = Some 1 \<and> fmt_code (im_fmt s) \<in> set codes"
  using assms(7)
proof (cases rule: set_stream_cases)
  case (started r1 s1 s2)
  let ?g = "emit PmGetSync (emit MutexLock s)"
  have "im_mode s1 = Some m" "im_fmt s1 = im_fmt s"
    using pm_get_on_neutral [OF assms(1), of ?g k] started(4) assms(4) by (simp_all add: im_neutral_def)
  with start_streaming_image [OF assms(1-3) _ assms(5) started(5)] started(6) show ?thesis
    by simp
qed (use assms(6) in simp_all)

theorem imx219_start_programs_mode_witness:
  "\<exists>s'. imx219_set_stream (ideal (\<lambda>_. 0)) imx219_cb 1 imx219_example = (0, s') \<and>
     imx219_decoded (bus_image (hist s')) imx219_mode_3280x2464"
proof -
  let ?t = "imx219_set_stream (ideal (\<lambda>_. 0)) imx219_cb 1 imx219_example"
  have eq: "?t = (0, snd ?t)" by (rule ok_pair [OF example_starts])
  show ?thesis
    using imx219_start_programs_mode [OF _ _ _ _ _ _ eq] eq
    by (auto simp: imx219_example_def supported_modes_def)
qed

text \<open>
  C33: on a working bus with working supplies, the stream can always be started from a state that has a
  mode and a code of the tables and a test pattern of the menu; the driver then counts as streaming and
  holds exactly one runtime-PM reference more than before if it was not streaming.
\<close>

theorem imx219_stream_starts:
  assumes "bus_ok k" and "\<And>h r. regulator_ret k h r = 0" and "\<And>h. clk_ret k h = 0"
    and "pm_spec c" and "pm_usable k" and "range_spec imx219_ctrl_step c"
    and "setup_spec imx219_ctrl_step c" and "pm_reports c"
    and "setup_reports imx219_ctrl_step imx219_ctrl_ids c" and "imx219_wf s" and "pattern_ok s"
  shows "\<exists>s'. imx219_set_stream k c 1 s = (0, s') \<and> im_streaming s' \<and>
    balance pm_delta (hist s') = balance pm_delta (hist s) + (if im_streaming s then 0 else 1)"
proof -
  have "imx219_ready s" "fmt_code (im_fmt s) \<in> set codes"
    using assms(10,11) by (auto simp: imx219_ready_def imx219_wf_def)
  then have "imx219_set_stream k c 1 s = (0, snd (imx219_set_stream k c 1 s))"
    by (intro ok_pair set_stream_ok [OF assms(1-6,8,9)])
  with set_stream_account [OF assms(4-7) _ this] show ?thesis
    by (auto simp: stream_account_def)
qed

theorem imx219_stream_starts_witness:
  "\<exists>s'. imx219_set_stream (ideal (\<lambda>_. 0)) imx219_cb 1 imx219_example = (0, s') \<and> im_streaming s' \<and>
     balance pm_delta (hist s') = 1"
proof -
  have "imx219_wf imx219_example" "pattern_ok imx219_example"
    by (simp_all add: imx219_wf_def imx219_example_def supported_modes_def codes_def pattern_ok_def
        zero_ctrl_def)
  then show ?thesis
    using imx219_stream_starts [of "ideal (\<lambda>_. 0)" imx219_cb imx219_example]
    by (simp add: imx219_example_def)
qed

text \<open>
  C17: starting and stopping keep their books on every path: the lock is given back; when the call
  returns zero the flag is the request, and the runtime-PM count has changed by the change of the flag
  (repeating a request changes nothing and only takes and releases the lock); when it fails, flag and
  count are as before, whether power-up or the programming of the sensor failed.  Mode, format and
  flips are never touched.
\<close>

theorem imx219_set_stream_balance:
  assumes "pm_spec c" and "pm_usable k" and "range_spec imx219_ctrl_step c"
    and "setup_spec imx219_ctrl_step c" and "enable = 0 \<or> enable = 1"
    and "imx219_set_stream k c enable s = (r, s')"
  shows "stream_account (if r = 0 then enable = 1 else im_streaming s) s s' \<and>
    (of_bool (im_streaming s) = enable \<longrightarrow> r = 0 \<and> s' = emit MutexUnlock (emit MutexLock s)) \<and>
    (enable = 0 \<longrightarrow> r = 0)"
  using set_stream_account [OF assms] assms(6)
  by (auto elim!: set_stream_cases)

theorem imx219_set_stream_balance_witness:
  "stream_account False imx219_example
     (snd (imx219_set_stream ((ideal (\<lambda>_. 0))\<lparr>clk_ret := (\<lambda>h. - 5)\<rparr>) imx219_cb 1 imx219_example))"
proof -
  let ?k = "(ideal (\<lambda>_. 0))\<lparr>clk_ret := (\<lambda>h. - 5)\<rparr>"
  have u: "pm_usable ?k" by (simp add: pm_usable_def)
  have r: "fst (imx219_set_stream ?k imx219_cb 1 imx219_example) = - 5"
    by (simp add: imx219_set_stream_def imx219_example_def pm_runtime_get_sync_def imx219_cb_def
        ideal_cb_def imx219_power_on_def regulator_enable_def clk_prepare_enable_def Let_def)
  show ?thesis
    using imx219_set_stream_balance [OF _ u _ _ _ prod.collapse [symmetric], of imx219_cb 1 imx219_example] r
    by (simp add: imx219_example_def)
qed

text \<open>
  a system resume that cannot restart the stream returns the error and clears the streaming flag,
  but keeps the runtime-PM reference of the stream and the grabbed flips.  Since stopping the stream
  is now a repeated request, it returns zero without giving the reference back: the device stays
  powered.
\<close>

theorem imx219_resume_failure_keeps_reference:
  assumes "pm_spec c" and "pm_usable k" and "range_spec imx219_ctrl_step c"
    and "setup_spec imx219_ctrl_step c"
    and "imx219_resume k c s = (r, s1)" and "r \<noteq> 0"
    and "imx219_set_stream k c 0 s1 = (r', s2)"
  shows "im_streaming s \<and> \<not> im_streaming s1 \<and> r' = 0 \<and> s2 = emit MutexUnlock (emit MutexLock s1) \<and>
    balance pm_delta (hist s2) = balance pm_delta (hist s)"
proof -
  obtain s0 where s0: "im_streaming s" "imx219_start_streaming k c s = (r, s0)"
      "s1 = (imx219_stop_streaming k s0)\<lparr>im_streaming := False\<rparr>"
    using assms(5,6) by (auto simp: imx219_resume_def split: if_splits prod.splits)
  have "im_neutral s s0" using start_streaming_neutral [OF assms(1-4), of s] s0(2) by simp
  then have pm: "balance pm_delta (hist s1) = balance pm_delta (hist s)"
    using stop_streaming_neutral [of s0 k] s0(3) by (simp add: im_neutral_def)
  from assms(7) have "r' = 0 \<and> s2 = emit MutexUnlock (emit MutexLock s1)"
    by (cases rule: set_stream_cases) (use s0(3) in simp_all)
  with s0 pm show ?thesis by simp
qed

theorem imx219_resume_failure_keeps_reference_witness:
  "balance pm_delta (hist (snd (imx219_set_stream ((ideal (\<lambda>_. 0))\<lparr>i2c_send_ret := (\<lambda>h d. - 5)\<rparr>) imx219_cb 0
     (snd (imx219_resume ((ideal (\<lambda>_. 0))\<lparr>i2c_send_ret := (\<lambda>h d. - 5)\<rparr>) imx219_cb
        (imx219_example\<lparr>hist := [PmGetSync], im_streaming := True\<rparr>)))))) = 1"
proof -
  let ?k = "(ideal (\<lambda>_. 0))\<lparr>i2c_send_ret := (\<lambda>h d. - 5)\<rparr>"
  let ?s = "imx219_example\<lparr>hist := [PmGetSync], im_streaming := True\<rparr>"
  have u: "pm_usable ?k" by (simp add: pm_usable_def)
  have "fst (imx219_start_streaming ?k imx219_cb ?s) = - 5"
    by (simp add: imx219_start_streaming_def run_steps.simps(2) imx219_example_def
        imx219_mode_3280x2464_def imx219_regs_def mode_3280x2464_regs_def write_reg_1 Let_def)
  then have r: "fst (imx219_resume ?k imx219_cb ?s) \<noteq> 0"
    by (simp add: imx219_resume_def split: prod.split) (metis fst_conv zero_neq_neg_numeral)
  show ?thesis
    using imx219_resume_failure_keeps_reference [OF imx219_cb_specs(1) u imx219_cb_specs(2,3)
        prod.collapse [symmetric] r prod.collapse [symmetric], THEN conjunct2, THEN conjunct2,
        THEN conjunct2, THEN conjunct2]
    by simp
qed

end
