(* ===== verification/Imx219_Probe.thy ===== *)
theory Imx219_Probe
  imports Imx219_Stream
begin

text \<open>
  Probe and removal of the IMX219 driver, and the driver as a whole: the supplies and resources that
  probe and removal balance, and an invariant of every state that the operations reach from a
  successful probe.  Device-managed resources are released by the driver core and do not appear.
\<close>

section \<open>Operations\<close>

definition imx219_get_regulators :: "kapi \<Rightarrow> imx219 op" where
  "imx219_get_regulators k s =
     (let s = s\<lparr>im_supplies := map ((!) imx219_supply_name) [0..<length imx219_supply_name]\<rparr>
      in (bulk_get_ret k (hist s), s))"

definition imx219_identify_module :: "kapi \<Rightarrow> imx219 op" where
  "imx219_identify_module k s =
     (let (ret, val, s) = imx219_read_reg k IMX219_REG_CHIP_ID IMX219_REG_VALUE_16BIT 0 s
      in if ret \<noteq> 0 then (ret, s)
      else if val \<noteq> IMX219_CHIP_ID then (- EIO, s)
      else (0, s))"

definition imx219_s_power :: "int \<Rightarrow> imx219 op" where
  "imx219_s_power on s = (0, s)"

definition imx219_link_setup :: "u32 \<Rightarrow> imx219 op" where
  "imx219_link_setup flags s = (0, s)"

text \<open>
  The endpoint is a local variable of the check: it is freed on every path, also when parsing failed,
  which \<^verbatim>\<open>v4l2_fwnode_endpoint_free\<close> allows.
\<close>

definition imx219_check_hwcfg :: "kapi \<Rightarrow> imx219 op" where
  "imx219_check_hwcfg k s =
     (if \<not> endpoint_node k (hist s) then (- EINVAL, s)
      else let s = emit FwnodeGet s;
               parse = endpoint_parse_ret k (hist s);
               lanes = endpoint_lanes k (hist s);
               freqs = endpoint_freqs k (hist s);
               s = emit (EndpointParse parse) s;
               ret = (if parse \<noteq> 0 then - EINVAL
                      else if lanes \<noteq> 2 then - EINVAL
                      else if freqs = [] then - EINVAL
                      else if length freqs \<noteq> 1 \<or> freqs ! 0 \<noteq> IMX219_DEFAULT_LINK_FREQ then - EINVAL
                      else 0);
               s = emit EndpointFree s
           in (ret, emit FwnodePut s))"

text \<open>The zeroed instance of \<^verbatim>\<open>devm_kzalloc\<close>.\<close>

definition imx219_kzalloc :: "imx219 \<Rightarrow> imx219" where
  "imx219_kzalloc s = \<lparr>hist = hist s, im_fmt = zero_fmt, im_xclk = NullPtr, im_xclk_freq = 0,
     im_reset_gpio = NullPtr, im_supplies = [], im_ctrls = (\<lambda>i. zero_ctrl), im_mode = None,
     im_streaming = False\<rparr>"

definition imx219_error_power_off :: "imx219 \<Rightarrow> imx219" where
  "imx219_error_power_off s = snd (imx219_power_off s)"

definition imx219_error_handler_free :: "imx219 \<Rightarrow> imx219" where
  "imx219_error_handler_free s = imx219_error_power_off (imx219_free_controls s)"

definition imx219_error_media_entity :: "imx219 \<Rightarrow> imx219" where
  "imx219_error_media_entity s = imx219_error_handler_free (emit EntityCleanup s)"

text \<open>From the default format on: pads, registration, runtime PM.\<close>

definition imx219_probe_subdev :: "kapi \<Rightarrow> imx219 kcb \<Rightarrow> imx219 op" where
  "imx219_probe_subdev k c s =
     (let s = imx219_set_default_format s;
          ret = pads_init_ret k (hist s);
          s = emit (EntityPadsInit ret) s
      in if ret \<noteq> 0 then (ret, imx219_error_handler_free s)
      else let ret = async_register_ret k (hist s);
               s = emit (AsyncRegister ret) s
      in if ret < 0 then (ret, imx219_error_media_entity s)
      else let s = emit PmSetActive s;
               s = emit PmEnable s
      in (0, pm_runtime_idle c imx219_power_off s))"

text \<open>The powered sensor: identification, the switch through streaming to standby, controls.\<close>

definition imx219_probe_sensor :: "kapi \<Rightarrow> imx219 op" where
  "imx219_probe_sensor k s =
     (let (ret, s) = imx219_identify_module k s
      in if ret \<noteq> 0 then (ret, imx219_error_power_off s)
      else let s = s\<lparr>im_mode := Some (supported_modes ! 0)\<rparr>;
               (ret, s) = imx219_write_reg k IMX219_REG_MODE_SELECT IMX219_REG_VALUE_08BIT
                            IMX219_MODE_STREAMING s
      in if ret < 0 then (ret, imx219_error_power_off s)
      else let s = emit (UsleepRange 100 110) s;
               (ret, s) = imx219_write_reg k IMX219_REG_MODE_SELECT IMX219_REG_VALUE_08BIT
                            IMX219_MODE_STANDBY s
      in if ret < 0 then (ret, imx219_error_power_off s)
      else let s = emit (UsleepRange 100 110) s;
               (ret, s) = imx219_init_controls k s
      in if ret \<noteq> 0 then (ret, imx219_error_power_off s)
      else (0, s))"

text \<open>Hardware description, clock, supplies and reset line; an error returns at once.\<close>

definition imx219_probe_board :: "kapi \<Rightarrow> imx219 op" where
  "imx219_probe_board k s = run_steps [
     (\<lambda>s. let (ret, s) = imx219_check_hwcfg k s in (if ret \<noteq> 0 then - EINVAL else 0, s)),
     (\<lambda>s. let s = s\<lparr>im_xclk := clk_get k (hist s)\<rparr>
          in if IS_ERR (im_xclk s) then (PTR_ERR (im_xclk s), s) else (0, s)),
     (\<lambda>s. let s = s\<lparr>im_xclk_freq := ucast (clk_rate k (hist s))\<rparr>
          in if im_xclk_freq s \<noteq> IMX219_XCLK_FREQ then (- EINVAL, s) else (0, s)),
     imx219_get_regulators k,
     act (\<lambda>s. s\<lparr>im_reset_gpio := gpio_get k (hist s) GPIO_RESET\<rparr>),
     imx219_power_on k] s"

definition imx219_probe :: "kapi \<Rightarrow> imx219 kcb \<Rightarrow> imx219 op" where
  "imx219_probe k c s =
     (if \<not> kzalloc_ok k (hist s) then (- ENOMEM, s)
      else let s = emit SubdevInit (imx219_kzalloc s);
               (ret, s) = imx219_probe_board k s
      in if ret \<noteq> 0 then (ret, s)
      else let (ret, s) = imx219_probe_sensor k s
      in if ret \<noteq> 0 then (ret, s)
      else imx219_probe_subdev k c s)"

definition imx219_remove :: "kapi \<Rightarrow> imx219 op" where
  "imx219_remove k s =
     (let s = emit AsyncUnregister s;
          s = emit EntityCleanup s;
          s = imx219_free_controls s;
          s = emit PmDisable s;
          s = (if rpm_suspended k (hist s) then s else snd (imx219_power_off s))
      in (0, emit PmSetSuspended s))"

section \<open>Books of a probe\<close>

text \<open>Whether a parsed endpoint is still allocated.\<close>

fun endpoint_event :: "kevent \<Rightarrow> bool \<Rightarrow> bool" where
  "endpoint_event (EndpointParse ret) b = (ret = 0 \<or> b)"
| "endpoint_event EndpointFree b = False"
| "endpoint_event _ b = b"

definition endpoint_live :: "kevent list \<Rightarrow> bool" where
  "endpoint_live h = fold endpoint_event h False"

lemma endpoint_live_append [simp]:
  "endpoint_live (h @ es) = fold endpoint_event es (endpoint_live h)"
  by (simp add: endpoint_live_def)

text \<open>
  \<open>books d s s'\<close>: between the two states the count of each resource has changed by \<open>d\<close>, no endpoint has
  been left allocated, usage count and lock are balanced and no fault has happened.
\<close>

definition books :: "(resource \<Rightarrow> int) \<Rightarrow> imx219 \<Rightarrow> imx219 \<Rightarrow> bool" where
  "books d s s' \<longleftrightarrow> (\<forall>x. x \<noteq> Endpoint \<longrightarrow> held x s' = held x s + d x) \<and>
     (endpoint_live (hist s') \<longrightarrow> endpoint_live (hist s)) \<and>
     balance pm_delta (hist s') = balance pm_delta (hist s) \<and>
     balance lock_delta (hist s') = balance lock_delta (hist s) \<and>
     (NullDeref \<in> set (hist s') \<longrightarrow> NullDeref \<in> set (hist s))"

lemma books_refl [simp, intro]: "books (\<lambda>_. 0) s s"
  by (simp add: books_def)

lemma books_trans: "books d a b \<Longrightarrow> books e b c \<Longrightarrow> books (\<lambda>x. d x + e x) a c"
  by (simp add: books_def)

lemma books_hist: "books d s s' \<Longrightarrow> hist t = hist s \<Longrightarrow> hist t' = hist s' \<Longrightarrow> books d t t'"
  by (simp add: books_def held_def)

definition book_free :: "kevent \<Rightarrow> bool" where
  "book_free e \<longleftrightarrow> resource_use e = None \<and> pm_delta e = 0 \<and> lock_delta e = 0 \<and> e \<noteq> NullDeref \<and>
     (\<forall>b. endpoint_event e b = b)"

lemma grows_books:
  assumes "grows book_free s s'" shows "books (\<lambda>_. 0) s s'"
proof -
  obtain es where es: "hist s' = hist s @ es" "list_all book_free es"
    using assms by (auto simp: grows_def)
  have "fold endpoint_event es b = b" for b
    using es(2) by (induction es arbitrary: b) (auto simp: book_free_def)
  moreover have "NullDeref \<notin> set es"
    using es(2) by (auto simp: list_all_iff book_free_def)
  moreover have "held x s' = held x s" for x
    unfolding held_def using assms
    by (rule grows_balance) (simp add: book_free_def resource_delta_def)
  ultimately show ?thesis
    using es grows_balance [OF assms, of pm_delta] grows_balance [OF assms, of lock_delta]
    by (auto simp: books_def book_free_def)
qed

lemma book_free_events:
  "bus_event e \<Longrightarrow> book_free e" "power_event e \<Longrightarrow> book_free e" "range_ok e \<Longrightarrow> book_free e"
  by (cases e; simp add: book_free_def)+

lemma emits_books:
  "emits bus_event s s' \<Longrightarrow> books (\<lambda>_. 0) s s'" "emits power_event s s' \<Longrightarrow> books (\<lambda>_. 0) s s'"
  by (auto intro!: grows_books elim!: grows_mono [OF emits_grows] book_free_events)

lemma bus_level: "emits bus_event s s' \<Longrightarrow> level x s' = level x s"
  using grows_level [OF emits_grows, of bus_event s s' x] by simp

lemma power_off_books: "books (\<lambda>_. 0) s (snd (imx219_power_off s))"
  by (intro emits_books(2) power_emits)

lemma power_off_fields [simp]:
  "im_mode (snd (imx219_power_off s)) = im_mode s" "im_fmt (snd (imx219_power_off s)) = im_fmt s"
  "im_streaming (snd (imx219_power_off s)) = im_streaming s"
  "im_ctrls (snd (imx219_power_off s)) = im_ctrls s"
  "im_reset_gpio (snd (imx219_power_off s)) = im_reset_gpio s"
  by (simp_all add: imx219_power_off_def Let_def emit_def)

section \<open>Parts of probe\<close>

definition board_keeps :: "imx219 \<Rightarrow> imx219 \<Rightarrow> bool" where
  "board_keeps s s' \<longleftrightarrow> books (\<lambda>_. 0) s s' \<and> (\<forall>x. level x s' = level x s) \<and>
     im_mode s' = im_mode s \<and> im_ctrls s' = im_ctrls s \<and> im_streaming s' = im_streaming s"

lemma board_keeps_trans: "board_keeps a b \<Longrightarrow> board_keeps b c \<Longrightarrow> board_keeps a c"
  by (auto simp: board_keeps_def books_def)

lemma board_keeps_fields:
  "hist s' = hist s \<Longrightarrow> im_mode s' = im_mode s \<Longrightarrow> im_ctrls s' = im_ctrls s \<Longrightarrow>
     im_streaming s' = im_streaming s \<Longrightarrow> board_keeps s s'"
  by (simp add: board_keeps_def books_def held_def level_def)

lemma board_keeps_upd [simp]:
  "board_keeps s s" "board_keeps s (s\<lparr>im_xclk := a\<rparr>)" "board_keeps s (s\<lparr>im_xclk_freq := b\<rparr>)"
  "board_keeps s (s\<lparr>im_supplies := n\<rparr>)" "board_keeps s (s\<lparr>im_reset_gpio := g\<rparr>)"
  by (rule board_keeps_fields; simp)+

lemma check_hwcfg_keeps: "board_keeps s (snd (imx219_check_hwcfg k s))"
proof -
  have "level x (snd (imx219_check_hwcfg k s)) = level x s" for x
    by (cases x) (simp_all add: imx219_check_hwcfg_def Let_def)
  moreover have "held x (snd (imx219_check_hwcfg k s)) = held x s" if "x \<noteq> Endpoint" for x
    using that by (cases x) (simp_all add: imx219_check_hwcfg_def Let_def resource_delta_def)
  ultimately show ?thesis
    by (simp add: board_keeps_def books_def) (simp add: imx219_check_hwcfg_def Let_def emit_def)
qed

lemma probe_board_keeps:
  assumes "imx219_probe_board k s = (r, s')"
  shows "books (\<lambda>_. 0) s s' \<and> level x s' = level x s + (if r = 0 \<and> imx219_draws s x then 1 else 0) \<and>
    im_mode s' = im_mode s \<and> im_ctrls s' = im_ctrls s \<and> im_streaming s' = im_streaming s"
proof -
  define fs where "fs = [(\<lambda>s. let (ret, s) = imx219_check_hwcfg k s in (if ret \<noteq> 0 then - EINVAL else 0, s)),
     (\<lambda>s. let s = s\<lparr>im_xclk := clk_get k (hist s)\<rparr>
          in if IS_ERR (im_xclk s) then (PTR_ERR (im_xclk s), s) else (0, s)),
     (\<lambda>s. let s = s\<lparr>im_xclk_freq := ucast (clk_rate k (hist s))\<rparr>
          in if im_xclk_freq s \<noteq> IMX219_XCLK_FREQ then (- EINVAL, s) else (0, s)),
     imx219_get_regulators k,
     act (\<lambda>s. s\<lparr>im_reset_gpio := gpio_get k (hist s) GPIO_RESET\<rparr>)]"
  have run: "run_steps (fs @ [imx219_power_on k]) s = (r, s')"
    using assms by (simp add: fs_def imx219_probe_board_def)
  have "board_keeps s (snd (run_steps fs s))"
  proof (rule run_steps_rel [where R = board_keeps])
    fix f s
    assume "f \<in> set fs"
    then show "board_keeps s (snd (f s))"
      using check_hwcfg_keeps [of s k]
      by (auto simp: fs_def Let_def imx219_get_regulators_def act_def split: prod.splits)
  qed (auto intro: board_keeps_trans)
  moreover obtain r1 s1 where 1: "run_steps fs s = (r1, s1)" by (cases "run_steps fs s")
  ultimately have k1: "board_keeps s s1" by simp
  show ?thesis
  proof (cases "r1 = 0")
    case True
    then have on: "imx219_power_on k s1 = (r, s')"
      using run 1 by (simp add: run_steps_append run_steps.simps(2) split: prod.splits if_splits)
    then have e: "emits power_event s1 s'" using power_emits(1) [of s1 k] by simp
    show ?thesis
      using k1 e books_trans [OF _ emits_books(2) [OF e], of "\<lambda>_. 0" s] imx219_power.attempt [OF on, of x]
      by (auto simp: board_keeps_def imx219_draws_def emits_def)
  next
    case False
    then show ?thesis
      using run 1 k1 by (auto simp: run_steps_append board_keeps_def)
  qed
qed

text \<open>A created control has its default value.\<close>

definition create_spec :: "kapi \<Rightarrow> bool" where
  "create_spec k \<longleftrightarrow> (\<forall>h i mi ma st df. \<forall>c. ctrl_create k h i mi ma st df = Some c \<longrightarrow> ctrl_val c = df)"

lemma ctrl_new_pattern:
  assumes "create_spec k" and "pattern_ok s" and "i = V4L2_CID_TEST_PATTERN \<longrightarrow> 0 \<le> df \<and> df < 5"
  shows "pattern_ok (imx219_ctrl_new k i mi ma st df f s)"
  using assms
  by (auto simp: imx219_ctrl_new_def Let_def pattern_ok_def create_spec_def emit_def split: option.split)

lemma new_controls_pattern:
  "create_spec k \<Longrightarrow> pattern_ok s \<Longrightarrow> pattern_ok (imx219_new_controls k m s)"
  unfolding imx219_new_controls_def Let_def fold.simps o_def id_def
  by (intro ctrl_new_pattern) simp_all

lemma books_emit:
  assumes "pm_delta e = 0" and "lock_delta e = 0" and "e \<noteq> NullDeref" and "e \<noteq> EndpointParse 0"
  shows "books (\<lambda>x. resource_delta x e) s (emit e s)"
  using assms by (cases e) (simp_all add: books_def)

lemma books_cong: "books d s s' \<Longrightarrow> (\<And>x. x \<noteq> Endpoint \<Longrightarrow> d x = e x) \<Longrightarrow> books e s s'"
  by (auto simp: books_def)

lemma new_controls_grow:
  "m \<in> set supported_modes \<Longrightarrow> grows range_ok s (imx219_new_controls k m s)"
  using new_controls_hist [of m k s] by (auto simp: grows_def)

lemma range_ok_supply [simp]: "range_ok e \<Longrightarrow> supply_delta x e = 0"
  by (cases x; cases e) simp_all

lemma init_controls_keeps:
  assumes "imx219_init_controls k s = (r, s')" and "im_mode s = Some m" and "m \<in> set supported_modes"
  shows "books (\<lambda>x. if r = 0 \<and> (x = Mutex \<or> x = Handler) then 1 else 0) s s' \<and>
    level x s' = level x s \<and> im_mode s' = im_mode s \<and> im_streaming s' = im_streaming s \<and>
    im_reset_gpio s' = im_reset_gpio s \<and> (create_spec k \<and> pattern_ok s \<longrightarrow> pattern_ok s')"
proof (cases "handler_init_ret k (hist s) 9 = 0")
  case False
  then show ?thesis using assms(1,2) by (auto simp: imx219_init_controls_def Let_def)
next
  case True
  let ?t = "emit MutexInit (emit (CtrlHandlerInit 9) s)"
  let ?n = "imx219_new_controls k m ?t"
  let ?d = "\<lambda>x. resource_delta x (CtrlHandlerInit 9) + resource_delta x MutexInit + 0"
  have n: "books ?d s ?n"
    by (intro books_trans [OF books_trans [OF books_emit books_emit] grows_books]
        grows_mono [OF new_controls_grow [OF assms(3)]] book_free_events(3)) simp_all
  have lv: "level x ?n = level x s"
    using grows_level [OF new_controls_grow [OF assms(3), of ?t k] range_ok_supply, of x] by (cases x) simp_all
  have f: "books (\<lambda>x. ?d x + resource_delta x CtrlHandlerFree + resource_delta x MutexDestroy) s
      (emit MutexDestroy (emit CtrlHandlerFree ?n))"
    by (rule books_trans [OF books_trans [OF n books_emit] books_emit]) simp_all
  have pat: "create_spec k \<and> pattern_ok s \<longrightarrow> pattern_ok ?n"
    using new_controls_pattern [of k ?t m] by (auto simp: pattern_ok_def emit_def)
  show ?thesis
  proof (cases "handler_error k (hist ?n) = 0")
    case T: True
    then have "r = 0" "s' = ?n" using True assms(1,2) by (auto simp: imx219_init_controls_def Let_def)
    then show ?thesis
      using lv pat books_cong [OF n] new_controls_fields [of k m ?t]
      by (auto simp: resource_delta_def emit_def)
  next
    case F: False
    then have "r \<noteq> 0" "s' = emit MutexDestroy (emit CtrlHandlerFree ?n)"
      using True assms(1,2) by (auto simp: imx219_init_controls_def Let_def)
    moreover have "level x (emit MutexDestroy (emit CtrlHandlerFree ?n)) = level x s"
      using lv by (cases x) simp_all
    ultimately show ?thesis
      using pat books_cong [OF f] new_controls_fields [of k m ?t]
      by (auto simp: resource_delta_def pattern_ok_def emit_def)
  qed
qed

lemma identify_emits: "emits bus_event s (snd (imx219_identify_module k s))"
  using read_reg_emits [of s k IMX219_REG_CHIP_ID IMX219_REG_VALUE_16BIT 0]
  by (auto simp: imx219_identify_module_def split: prod.split)

text \<open>Up to the controls: traffic and delays only, and the default mode.\<close>

lemma wake_books:
  assumes "emits bus_event s s'" shows "books (\<lambda>_. 0) s (emit (UsleepRange a b) s')"
    and "level x (emit (UsleepRange a b) s') = level x s"
  using books_trans [OF emits_books(1) [OF assms] books_emit, of "UsleepRange a b"]
    bus_level [OF assms, of x]
  by (simp_all add: resource_delta_def) (cases x; simp)

lemma probe_sensor_cases:
  assumes "imx219_probe_sensor k s = (r, s')"
  obtains (failed) t where "r \<noteq> 0" and "s' = snd (imx219_power_off t)" and "books (\<lambda>_. 0) s t"
      and "\<And>x. level x t = level x s" and "im_streaming t = im_streaming s"
  | (ready) t where "r = 0" and "books (\<lambda>_. 0) s t" and "\<And>x. level x t = level x s"
      and "im_mode t = Some (supported_modes ! 0)" and "im_ctrls t = im_ctrls s"
      and "im_streaming t = im_streaming s" and "im_reset_gpio t = im_reset_gpio s"
      and "imx219_init_controls k t = (0, s')"
  | (no_controls) t where "r \<noteq> 0" and "books (\<lambda>_. 0) s t" and "\<And>x. level x t = level x s"
      and "im_mode t = Some (supported_modes ! 0)" and "im_streaming t = im_streaming s"
      and "\<exists>u. imx219_init_controls k t = (r, u) \<and> s' = snd (imx219_power_off u)"
proof -
  obtain r1 s1 where 1: "imx219_identify_module k s = (r1, s1)" by (cases "imx219_identify_module k s")
  let ?m = "s1\<lparr>im_mode := Some (supported_modes ! 0)\<rparr>"
  obtain r2 s2 where 2: "imx219_write_reg k IMX219_REG_MODE_SELECT 1 1 ?m = (r2, s2)"
    by (cases "imx219_write_reg k IMX219_REG_MODE_SELECT 1 1 ?m")
  let ?u = "emit (UsleepRange 100 110) s2"
  obtain r3 s3 where 3: "imx219_write_reg k IMX219_REG_MODE_SELECT 1 0 ?u = (r3, s3)"
    by (cases "imx219_write_reg k IMX219_REG_MODE_SELECT 1 0 ?u")
  let ?v = "emit (UsleepRange 100 110) s3"
  have e: "emits bus_event s s1" "emits bus_event ?m s2" "emits bus_event ?u s3"
    using identify_emits [of s k] 1 write_reg_emits [of ?m k IMX219_REG_MODE_SELECT 1 1] 2
      write_reg_emits [of ?u k IMX219_REG_MODE_SELECT 1 0] 3 by simp_all
  have b1: "books (\<lambda>_. 0) s s1" "books (\<lambda>_. 0) s ?m" "level x s1 = level x s" "level x ?m = level x s" for x
    using emits_books(1) [OF e(1)] bus_level [OF e(1), of x] by (simp_all add: books_def held_def level_def)
  have b2: "books (\<lambda>_. 0) s s2" "books (\<lambda>_. 0) s ?u" "level x s2 = level x s" "level x ?u = level x s" for x
    using books_trans [OF b1(2) emits_books(1) [OF e(2)]] books_trans [OF b1(2) wake_books(1) [OF e(2)]]
      bus_level [OF e(2), of x] wake_books(2) [OF e(2), of x] b1(4) [of x] by simp_all
  have b3: "books (\<lambda>_. 0) s s3" "books (\<lambda>_. 0) s ?v" "level x s3 = level x s" "level x ?v = level x s" for x
    using books_trans [OF b2(2) emits_books(1) [OF e(3)]] books_trans [OF b2(2) wake_books(1) [OF e(3)]]
      bus_level [OF e(3), of x] wake_books(2) [OF e(3), of x] b2(4) [of x] by simp_all
  have f: "im_streaming s1 = im_streaming s" "im_streaming s2 = im_streaming s"
      "im_streaming s3 = im_streaming s" "im_mode s3 = Some (supported_modes ! 0)"
      "im_ctrls s3 = im_ctrls s" "im_reset_gpio s3 = im_reset_gpio s"
    using e by (auto simp: emits_def emit_def)
  note def = assms [unfolded imx219_probe_sensor_def imx219_error_power_off_def Let_def 1 prod.case 2 3]
  consider "r1 \<noteq> 0" | "r1 = 0" "r2 < 0" | "r1 = 0" "0 \<le> r2" "r3 < 0" | "r1 = 0" "0 \<le> r2" "0 \<le> r3"
    by linarith
  then show ?thesis
  proof cases
    case 1
    then show ?thesis using def b1 f by (intro failed [of s1]) (auto simp: 2 3)
  next
    case 2
    then show ?thesis using def b2 f by (intro failed [of s2]) (auto simp: 3)
  next
    case 3
    then show ?thesis using def b3 f by (intro failed [of s3]) auto
  next
    case 4
    obtain r4 s4 where 5: "imx219_init_controls k ?v = (r4, s4)" by (cases "imx219_init_controls k ?v")
    have v: "im_mode ?v = Some (supported_modes ! 0)" "im_ctrls ?v = im_ctrls s"
        "im_streaming ?v = im_streaming s" "im_reset_gpio ?v = im_reset_gpio s"
      using f by (simp_all add: emit_def)
    show ?thesis
    proof (cases "r4 = 0")
      case True
      then show ?thesis using def 4 5 b3 v by (intro ready [of ?v]) auto
    next
      case False
      then show ?thesis using def 4 5 b3 v by (intro no_controls [of ?v]) auto
    qed
  qed
qed

lemma power_off_level: "level x (snd (imx219_power_off s)) = level x s - (if imx219_draws s x then 1 else 0)"
  by (rule imx219_power.off_level)

lemma draws_eq: "imx219_draws s = imx219_draws t"
  by (simp add: imx219_draws_def fun_eq_iff)

lemma idle_cases:
  assumes "pm_spec c"
  obtains "pm_runtime_idle c imx219_power_off s = emit PmIdle s"
  | "pm_runtime_idle c imx219_power_off s = snd (imx219_power_off (emit PmIdle s))"
  unfolding pm_runtime_idle_def by (rule pm_put_cases [OF assms]) (use that in blast)+

lemma probe_subdev_cases:
  assumes "imx219_probe_subdev k c s = (r, s')" and "\<And>h. async_register_ret k h \<le> 0"
  obtains (failed) t where "r \<noteq> 0" and "s' = snd (imx219_power_off t)"
      and "books (\<lambda>x. if x = Mutex \<or> x = Handler then - 1 else 0) s t" and "\<And>x. level x t = level x s"
  | (up) t where "r = 0" and "s' = pm_runtime_idle c imx219_power_off t"
      and "books (\<lambda>x. if x = RuntimePm \<or> x = Subdev then 1 else 0) s t" and "\<And>x. level x t = level x s"
      and "im_mode t = im_mode s" and "fmt_code (im_fmt t) = MEDIA_BUS_FMT_SRGGB10_1X10"
      and "im_streaming t = im_streaming s" and "im_ctrls t = im_ctrls s"
      and "im_reset_gpio t = im_reset_gpio s"
proof -
  let ?d = "imx219_set_default_format s"
  let ?p = "pads_init_ret k (hist ?d)"
  let ?e = "emit (EntityPadsInit ?p) ?d"
  let ?a = "async_register_ret k (hist ?e)"
  let ?g = "emit (AsyncRegister ?a) ?e"
  have d: "hist ?d = hist s" "im_mode ?d = im_mode s" "im_streaming ?d = im_streaming s"
      "im_ctrls ?d = im_ctrls s" "im_reset_gpio ?d = im_reset_gpio s"
      "fmt_code (im_fmt ?d) = MEDIA_BUS_FMT_SRGGB10_1X10"
    by (simp_all add: imx219_set_default_format_def Let_def)
  note def = assms(1) [unfolded imx219_probe_subdev_def Let_def]
  have lv: "supply_delta x (EntityPadsInit n) = 0" "supply_delta x (AsyncRegister n) = 0"
      "supply_delta x CtrlHandlerFree = 0" "supply_delta x MutexDestroy = 0"
      "supply_delta x EntityCleanup = 0" "supply_delta x PmSetActive = 0" "supply_delta x PmEnable = 0"
    for x n by (cases x; simp)+
  have ld: "level x ?d = level x s" "held y ?d = held y s" for x y
    by (simp_all add: level_def held_def d(1))
  consider "?p \<noteq> 0" | "?p = 0" "?a < 0" | "?p = 0" "?a = 0" using assms(2) [of "hist ?e"] by linarith
  then show ?thesis
  proof cases
    case 1
    then show ?thesis
      using def by (intro failed [of "imx219_free_controls ?e"])
        (auto simp: imx219_error_handler_free_def imx219_error_power_off_def imx219_free_controls_def
          books_def resource_delta_def lv ld d(1))
  next
    case 2
    then show ?thesis
      using def by (intro failed [of "imx219_free_controls (emit EntityCleanup ?g)"])
        (auto simp: imx219_error_media_entity_def imx219_error_handler_free_def
          imx219_error_power_off_def imx219_free_controls_def books_def resource_delta_def lv ld d(1))
  next
    case 3
    have fields: "im_mode (emit e t) = im_mode t" "im_fmt (emit e t) = im_fmt t"
        "im_ctrls (emit e t) = im_ctrls t" "im_reset_gpio (emit e t) = im_reset_gpio t" for e and t :: imx219
      by (simp_all add: emit_def)
    show ?thesis
      using def 3 by (intro up [of "emit PmEnable (emit PmSetActive ?g)"])
        (auto simp: books_def resource_delta_def lv ld d fields)
  qed
qed

lemma supported_first [simp]: "supported_modes ! 0 \<in> set supported_modes"
  by (simp add: supported_modes_def)

lemma probe_sensor_keeps:
  assumes "imx219_probe_sensor k s = (r, s')"
  shows "books (\<lambda>x. if r = 0 \<and> (x = Mutex \<or> x = Handler) then 1 else 0) s s' \<and>
    level x s' = level x s - of_bool (r \<noteq> 0 \<and> imx219_draws s x) \<and>
    (r = 0 \<longrightarrow> im_streaming s' = im_streaming s \<and> im_mode s' = Some (supported_modes ! 0) \<and>
       (create_spec k \<and> pattern_ok s \<longrightarrow> pattern_ok s'))"
  using assms
proof (cases rule: probe_sensor_cases)
  case (failed t)
  then show ?thesis
    using books_trans [OF failed(3) power_off_books] draws_eq [of t s] by (simp add: power_off_level)
next
  case (ready t)
  note i = init_controls_keeps [OF ready(8,4) supported_first]
  have "pattern_ok t = pattern_ok s" using ready(5) by (simp add: pattern_ok_def)
  with i [of x] ready books_trans [OF ready(2) i [THEN conjunct1]] show ?thesis by simp
next
  case (no_controls t)
  then obtain u where u: "imx219_init_controls k t = (r, u)" "s' = snd (imx219_power_off u)" by blast
  note i = init_controls_keeps [OF u(1) no_controls(4) supported_first]
  show ?thesis
    using u(2) i [of x] no_controls(1,3) draws_eq [of u s]
      books_trans [OF books_trans [OF no_controls(2) i [THEN conjunct1]] power_off_books]
    by (simp add: power_off_level)
qed

lemma idle_keeps:
  assumes "pm_spec c" and "t = pm_runtime_idle c imx219_power_off s"
  shows "books (\<lambda>_. 0) s t \<and> ((\<forall>x. level x t = level x s) \<or> (\<forall>x. level x t = level x s - of_bool (imx219_draws s x))) \<and>
    im_mode t = im_mode s \<and> im_fmt t = im_fmt s \<and> im_ctrls t = im_ctrls s \<and>
    im_streaming t = im_streaming s \<and> im_reset_gpio t = im_reset_gpio s"
proof -
  let ?i = "emit PmIdle s"
  have i: "books (\<lambda>_. 0) s ?i" "level x ?i = level x s" for x
    using books_emit [of PmIdle s] by (simp_all add: resource_delta_def) (cases x; simp)
  show ?thesis
    using idle_cases [OF assms(1), of s]
  proof cases
    case 1
    with i assms(2) show ?thesis by (simp add: emit_def)
  next
    case 2
    with i assms(2) books_trans [OF i(1) power_off_books] draws_eq [of ?i s] show ?thesis
      by (simp add: power_off_level) (simp add: emit_def)
  qed
qed

lemma probe_subdev_keeps:
  assumes "imx219_probe_subdev k c s = (r, s')" and "pm_spec c" and "\<And>h. async_register_ret k h \<le> 0"
  shows "books (\<lambda>x. if r = 0 then (if x = RuntimePm \<or> x = Subdev then 1 else 0)
      else if x = Mutex \<or> x = Handler then - 1 else 0) s s' \<and>
    (r \<noteq> 0 \<longrightarrow> level x s' = level x s - of_bool (imx219_draws s x)) \<and>
    (r = 0 \<longrightarrow> ((\<forall>x. level x s' = level x s) \<or> (\<forall>x. level x s' = level x s - of_bool (imx219_draws s x))) \<and>
       im_mode s' = im_mode s \<and> fmt_code (im_fmt s') = MEDIA_BUS_FMT_SRGGB10_1X10 \<and>
       im_streaming s' = im_streaming s \<and> im_ctrls s' = im_ctrls s \<and> im_reset_gpio s' = im_reset_gpio s)"
  using assms(1,3)
proof (cases rule: probe_subdev_cases)
  case (failed t)
  then show ?thesis
    using books_trans [OF failed(3) power_off_books] draws_eq [of t s] by (simp add: power_off_level)
next
  case (up t)
  note i = idle_keeps [OF assms(2) up(2)]
  show ?thesis
    using i up books_trans [OF up(3) i [THEN conjunct1]] draws_eq [of t s] by simp
qed

lemma probe_keeps:
  assumes "imx219_probe k c s = (r, s')" and "pm_spec c" and "\<And>h. async_register_ret k h \<le> 0"
  shows "books (\<lambda>x. if r = 0 \<and> x \<noteq> Fwnode then 1 else 0) s s' \<and>
    (r \<noteq> 0 \<longrightarrow> level x s' = level x s) \<and>
    (r = 0 \<longrightarrow> ((\<forall>x. level x s' = level x s) \<or> (\<forall>x. level x s' = level x s + of_bool (imx219_draws s x))) \<and>
       im_mode s' = Some (supported_modes ! 0) \<and> fmt_code (im_fmt s') = MEDIA_BUS_FMT_SRGGB10_1X10 \<and>
       \<not> im_streaming s' \<and> (create_spec k \<longrightarrow> pattern_ok s'))"
proof -
  let ?z = "emit SubdevInit (imx219_kzalloc s)"
  have z: "books (\<lambda>_. 0) s ?z" "\<not> im_streaming ?z" "pattern_ok ?z"
    by (auto simp: books_def held_def resource_delta_def imx219_kzalloc_def pattern_ok_def emit_def
        zero_ctrl_def)
  have lz: "level x ?z = level x s" for x by (cases x) (simp_all add: level_def imx219_kzalloc_def)
  obtain r1 s1 where 1: "imx219_probe_board k ?z = (r1, s1)" by (cases "imx219_probe_board k ?z")
  obtain r2 s2 where 2: "imx219_probe_sensor k s1 = (r2, s2)" by (cases "imx219_probe_sensor k s1")
  note b = probe_board_keeps [OF 1] and p = probe_sensor_keeps [OF 2]
  have b1: "books (\<lambda>_. 0) s s1" using books_trans [OF z(1) b [THEN conjunct1]] by simp
  have l1: "level x s1 = level x s + of_bool (r1 = 0 \<and> imx219_draws s x)" for x
    using b [of x] lz [of x] draws_eq [of ?z s] by simp
  have l2: "level x s2 = level x s + of_bool (r2 = 0 \<and> imx219_draws s x)" if "r1 = 0" for x
    using p [of x] l1 [of x] that draws_eq [of s1 s] by auto
  have pat: "pattern_ok s1" "\<not> im_streaming s1" using b z(2,3) by (simp_all add: pattern_ok_def)
  note b2 = books_trans [OF b1 p [THEN conjunct1]]
  consider "\<not> kzalloc_ok k (hist s)" "r \<noteq> 0" "s' = s"
    | "kzalloc_ok k (hist s)" "r1 \<noteq> 0" "r = r1" "s' = s1"
    | "kzalloc_ok k (hist s)" "r1 = 0" "r2 \<noteq> 0" "r = r2" "s' = s2"
    | "kzalloc_ok k (hist s)" "r1 = 0" "r2 = 0" "imx219_probe_subdev k c s2 = (r, s')"
    using assms(1) by (auto simp: imx219_probe_def Let_def 1 2 split: if_splits)
  then show ?thesis
  proof cases
    case c: 4
    note q = probe_subdev_keeps [OF c(4) assms(2,3)]
    have "books (\<lambda>x. if r = 0 \<and> x \<noteq> Fwnode then 1 else 0) s s'"
      by (rule books_cong [OF books_trans [OF b2 q [THEN conjunct1]]]) (use c(3) in \<open>case_tac x; simp\<close>)
    moreover have "level x s2 = level x s + of_bool (imx219_draws s2 x)" for x
      using l2 [OF c(2), of x] c(3) draws_eq [of s2 s] by simp
    ultimately show ?thesis
      using q [of x] p c(3) pat draws_eq [of s2 s] by (auto simp: pattern_ok_def)
  qed (use b1 b2 l1 l2 in auto)
qed

section \<open>A working board\<close>

text \<open>
  Everything that the device tree and the board have to provide, the reset line apart: two lanes at
  the one link frequency, a 24 MHz clock, supplies that come up, a sensor that answers with its
  identity, and frameworks that accept the device.
\<close>

definition imx219_board :: "kapi \<Rightarrow> (u16 \<Rightarrow> u8) \<Rightarrow> bool" where
  "imx219_board k dflt \<longleftrightarrow> bus_ok k \<and> regfile_xfer k dflt \<and> dflt 0 = 0x02 \<and> dflt 1 = 0x19 \<and>
     (\<forall>h. kzalloc_ok k h \<and> endpoint_node k h \<and> endpoint_parse_ret k h = 0 \<and> endpoint_lanes k h = 2 \<and>
        endpoint_freqs k h = [IMX219_DEFAULT_LINK_FREQ] \<and> clk_get k h = Obj \<and>
        clk_rate k h = 24000000 \<and> bulk_get_ret k h = 0 \<and> (\<forall>r. regulator_ret k h r = 0) \<and>
        clk_ret k h = 0 \<and> (\<forall>n. handler_init_ret k h n = 0) \<and> handler_error k h = 0 \<and>
        pads_init_ret k h = 0 \<and> async_register_ret k h = 0)"

definition imx219_ids :: "u16 \<Rightarrow> u8" where
  "imx219_ids a = (if a = 0 then 0x02 else if a = 1 then 0x19 else 0)"

lemma ideal_imx219_board: "imx219_board (ideal imx219_ids) imx219_ids"
  by (simp add: imx219_board_def imx219_ids_def) (simp add: ideal_def ideal_env_def)

lemma ideal_create [simp]: "create_spec (ideal dflt)"
  by (simp add: create_spec_def ideal_def ideal_env_def)

lemma probe_board_ok:
  assumes "imx219_board k dflt"
  shows "\<exists>h s1. imx219_probe_board k s = (0, s1) \<and> im_reset_gpio s1 = gpio_get k h GPIO_RESET \<and>
    bus_image (hist s1) = bus_image (hist s)"
  using assms
  by (simp add: imx219_board_def imx219_probe_board_def run_steps.simps(2) imx219_check_hwcfg_def
      imx219_get_regulators_def imx219_power_on_def regulator_enable_def clk_prepare_enable_def
      act_def Let_def) (auto simp: emit_def)

lemma identify_ok:
  assumes "imx219_board k dflt" and "bus_image (hist s) 0 = None" and "bus_image (hist s) 1 = None"
  shows "fst (imx219_identify_module k s) = 0"
proof -
  have "regfile_xfer k dflt" "i2c_xfer_ret k (hist s) [hi8 0, lo8 0] 2 = 2"
    using assms(1) by (simp_all add: imx219_board_def bus_ok_def)
  from read_reg_2 [OF this, of 0] show ?thesis
    using assms by (auto simp: imx219_identify_module_def imx219_board_def reg_value_def)
qed

lemma im_probe_sensor_ok:
  assumes "imx219_board k dflt" and "bus_image (hist s) 0 = None" and "bus_image (hist s) 1 = None"
  shows "fst (imx219_probe_sensor k s) = 0"
proof -
  have w: "fst (imx219_write_reg k a 1 v t) = 0" for a v and t :: imx219
    using assms(1) by (intro write_reg_ok) (simp_all add: imx219_board_def)
  have i: "fst (imx219_init_controls k t) = 0" if "im_mode t \<noteq> None" for t
    using that assms(1) by (auto simp: imx219_init_controls_def imx219_board_def Let_def)
  obtain s1 where 1: "imx219_identify_module k s = (0, s1)"
    using ok_pair [OF identify_ok [OF assms]] by blast
  let ?m = "s1\<lparr>im_mode := Some (supported_modes ! 0)\<rparr>"
  obtain s2 where 2: "imx219_write_reg k IMX219_REG_MODE_SELECT 1 1 ?m = (0, s2)"
    using ok_pair [OF w] by blast
  let ?u = "emit (UsleepRange 100 110) s2"
  obtain s3 where 3: "imx219_write_reg k IMX219_REG_MODE_SELECT 1 0 ?u = (0, s3)"
    using ok_pair [OF w] by blast
  have "im_mode (emit (UsleepRange 100 110) s3) \<noteq> None"
    using write_reg_emits [of ?m k IMX219_REG_MODE_SELECT 1 1] 2
      write_reg_emits [of ?u k IMX219_REG_MODE_SELECT 1 0] 3
    by (auto simp: emits_def emit_def)
  from i [OF this] show ?thesis
    by (auto simp: imx219_probe_sensor_def 1 2 3 Let_def split: prod.split)
qed

lemma im_probe_ok:
  assumes "imx219_board k dflt" and "bus_image (hist s) 0 = None" and "bus_image (hist s) 1 = None"
    and "pm_spec c"
  shows "\<exists>h s'. imx219_probe k c s = (0, s') \<and> im_reset_gpio s' = gpio_get k h GPIO_RESET"
proof -
  let ?z = "emit SubdevInit (imx219_kzalloc s)"
  have hz: "bus_image (hist ?z) = bus_image (hist s)" by (simp add: imx219_kzalloc_def)
  obtain h s1 where 1: "imx219_probe_board k ?z = (0, s1)" "im_reset_gpio s1 = gpio_get k h GPIO_RESET"
      "bus_image (hist s1) = bus_image (hist s)"
    using probe_board_ok [OF assms(1), of ?z] hz by auto
  obtain s2 where 2: "imx219_probe_sensor k s1 = (0, s2)"
    using ok_pair [OF im_probe_sensor_ok [OF assms(1), of s1]] 1(3) assms(2,3) by auto
  have "im_reset_gpio s2 = im_reset_gpio s1"
    using 2
  proof (cases rule: probe_sensor_cases)
    case (ready t)
    then show ?thesis using init_controls_keeps [OF ready(8,4) supported_first] by simp
  qed simp_all
  moreover obtain r s' where 3: "imx219_probe_subdev k c s2 = (r, s')"
    by (cases "imx219_probe_subdev k c s2")
  moreover have "r = 0"
    using 3 assms(1) by (auto simp: imx219_probe_subdev_def imx219_board_def Let_def)
  ultimately have "im_reset_gpio s' = gpio_get k h GPIO_RESET"
    using probe_subdev_keeps [OF 3 assms(4)] 1(2) assms(1) by (simp add: imx219_board_def)
  with 1(1) 2 3 \<open>r = 0\<close> assms(1) show ?thesis
    by (auto simp: imx219_probe_def imx219_board_def Let_def)
qed

section \<open>Reachable states\<close>

text \<open>
  The operations the kernel invokes on a probed device, in any order: streaming, formats,
  enumeration, controls (the framework stores new values first, a menu control inside its menu),
  system sleep and the runtime-PM callbacks.
\<close>

inductive imx219_step :: "kapi \<Rightarrow> imx219 kcb \<Rightarrow> imx219 \<Rightarrow> imx219 \<Rightarrow> bool" for k c where
  stream: "enable = 0 \<or> enable = 1 \<Longrightarrow> imx219_set_stream k c enable s = (r, s') \<Longrightarrow> imx219_step k c s s'"
| set_format: "imx219_set_pad_format k c cfg f s = (r, cfg', f', s') \<Longrightarrow> imx219_step k c s s'"
| get_format: "imx219_get_pad_format cfg f s = (r, cfg', f', s') \<Longrightarrow> imx219_step k c s s'"
| opened: "imx219_open cfg s = (r, cfg', s') \<Longrightarrow> imx219_step k c s s'"
| enum_code: "imx219_enum_mbus_code i old s = (r, code, s') \<Longrightarrow> imx219_step k c s s'"
| enum_size: "imx219_enum_frame_size i code s = (r, sz, s') \<Longrightarrow> imx219_step k c s s'"
| control: "pattern_ok (s\<lparr>im_ctrls := cs\<rparr>) \<Longrightarrow> imx219_set_ctrl k c i (s\<lparr>im_ctrls := cs\<rparr>) = (r, s') \<Longrightarrow>
    imx219_step k c s s'"
| suspended: "imx219_suspend k s = (r, s') \<Longrightarrow> imx219_step k c s s'"
| resumed: "imx219_resume k c s = (r, s') \<Longrightarrow> imx219_step k c s s'"
| powered: "imx219_power_on k s = (r, s') \<Longrightarrow> imx219_step k c s s'"
| unpowered: "imx219_power_off s = (r, s') \<Longrightarrow> imx219_step k c s s'"

inductive imx219_reach :: "kapi \<Rightarrow> imx219 kcb \<Rightarrow> imx219 \<Rightarrow> bool" for k c where
  probed: "hist s = [] \<Longrightarrow> imx219_probe k c s = (0, s') \<Longrightarrow> imx219_reach k c s'"
| step: "imx219_reach k c s \<Longrightarrow> imx219_step k c s s' \<Longrightarrow> imx219_reach k c s'"

definition imx219_inv :: "imx219 \<Rightarrow> bool" where
  "imx219_inv s \<longleftrightarrow> imx219_wf s \<and> pattern_ok s \<and> NullDeref \<notin> set (hist s) \<and>
     balance lock_delta (hist s) = 0 \<and> of_bool (im_streaming s) \<le> balance pm_delta (hist s)"

lemma inv_ready: "imx219_inv s \<Longrightarrow> imx219_ready s"
  by (auto simp: imx219_inv_def imx219_wf_def imx219_ready_def)

lemma neutral_inv: "im_neutral s s' \<Longrightarrow> imx219_inv s \<Longrightarrow> imx219_inv s'"
  by (auto simp: im_neutral_def imx219_inv_def imx219_wf_def)

lemma lockdep_neutral: "im_neutral s (lockdep_assert_held s)"
  by (simp add: lockdep_assert_held_def emit_im_neutral)

lemma locked_neutral_im: "im_neutral s (emit MutexUnlock (lockdep_assert_held (emit MutexLock s)))"
  by (simp add: im_neutral_def)

lemma control_inv:
  assumes "pm_spec c" and "pm_usable k" and "range_spec imx219_ctrl_step c"
    and "imx219_inv s" and "pattern_ok (s\<lparr>im_ctrls := cs\<rparr>)"
  shows "imx219_inv (snd (imx219_set_ctrl k c i (s\<lparr>im_ctrls := cs\<rparr>)))"
proof (rule neutral_inv [OF set_ctrl_neutral [OF assms(1-3)]])
  show "imx219_inv (s\<lparr>im_ctrls := cs\<rparr>)"
    using assms(4,5) by (simp add: imx219_inv_def imx219_wf_def)
qed

lemma set_pad_inv:
  assumes "nearest_spec (nearest_size k)" and "pm_spec c" and "pm_usable k"
    and "range_spec imx219_ctrl_step c" and "set_spec imx219_ctrl_step c"
    and "imx219_set_pad_format k c cfg f s = (r, cfg', f', s')" and "imx219_inv s"
  shows "imx219_inv s'"
proof (cases "sf_which f = V4L2_SUBDEV_FORMAT_TRY")
  case True
  from assms(1,6) have "s' = emit MutexUnlock (lockdep_assert_held (emit MutexLock s))"
    by (cases rule: set_pad_cases) (use True in simp)
  then show ?thesis using neutral_inv [OF locked_neutral_im assms(7)] by simp
next
  case False
  from assms(1-5) False assms(6) show ?thesis
    by (cases rule: set_pad_active) (use assms(7) in \<open>auto simp: imx219_inv_def imx219_wf_def\<close>)
qed

lemma get_pad_inv:
  assumes "imx219_get_pad_format cfg f s = (r, cfg', f', s')" and "imx219_inv s"
  shows "imx219_inv s'"
proof -
  obtain m where "im_mode s = Some m" using assms(2) by (auto simp: imx219_inv_def imx219_wf_def)
  then have "s' = emit MutexUnlock (lockdep_assert_held (emit MutexLock s))"
    using assms(1) get_pad_active [of s m f cfg] get_pad_try [of f cfg s]
    by (cases "sf_which f = V4L2_SUBDEV_FORMAT_TRY") (auto simp: Let_def)
  then show ?thesis using neutral_inv [OF locked_neutral_im assms(2)] by simp
qed

lemma query_inv:
  assumes "imx219_inv s"
  shows "imx219_open cfg s = (r, cfg', s') \<Longrightarrow> imx219_inv s'"
    and "imx219_enum_mbus_code i old s = (r, code, s') \<Longrightarrow> imx219_inv s'"
    and "imx219_enum_frame_size i a s = (r, sz, s') \<Longrightarrow> imx219_inv s'"
  using neutral_inv [OF locked_neutral_im assms] neutral_inv [OF lockdep_neutral assms] assms
  by (auto simp: imx219_open_def imx219_enum_mbus_code_def imx219_enum_frame_size_def
      get_format_code_turned Let_def split: if_splits)

lemma resume_inv:
  assumes "pm_spec c" and "pm_usable k" and "range_spec imx219_ctrl_step c"
    and "setup_spec imx219_ctrl_step c" and "imx219_resume k c s = (r, s')" and "imx219_inv s"
  shows "imx219_inv s'"
proof -
  obtain r1 s1 where 1: "imx219_start_streaming k c s = (r1, s1)" by (cases "imx219_start_streaming k c s")
  have i1: "imx219_inv s1"
    using neutral_inv [OF start_streaming_neutral [OF assms(1-4)] assms(6)] 1 by (metis snd_conv)
  have "imx219_inv ((imx219_stop_streaming k s1)\<lparr>im_streaming := False\<rparr>)"
    using neutral_inv [OF stop_streaming_neutral [of s1 k] i1]
    by (cases "im_streaming (imx219_stop_streaming k s1)")
      (simp_all add: imx219_inv_def imx219_wf_def pattern_ok_def)
  then show ?thesis
    using assms(5,6) 1 i1 by (auto simp: imx219_resume_def split: if_splits)
qed

lemma imx219_step_inv:
  assumes "nearest_spec (nearest_size k)" and "pm_spec c" and "pm_usable k"
    and "range_spec imx219_ctrl_step c" and "set_spec imx219_ctrl_step c"
    and "setup_spec imx219_ctrl_step c" and "imx219_step k c s s'" and "imx219_inv s"
  shows "imx219_inv s'"
  using assms(7)
proof cases
  case (stream enable r)
  then have a: "stream_account (if r = 0 then enable = 1 else im_streaming s) s s'"
    by (intro set_stream_account [OF assms(2,3,4,6)])
  then show ?thesis
    using assms(8) inv_ready [OF assms(8)]
    by (auto simp: stream_account_def imx219_inv_def imx219_wf_def imx219_ready_def split: if_splits)
next
  case set_format
  then show ?thesis by (rule set_pad_inv [OF assms(1-5) _ assms(8)])
next
  case get_format
  then show ?thesis by (rule get_pad_inv [OF _ assms(8)])
next
  case opened
  then show ?thesis by (rule query_inv(1) [OF assms(8)])
next
  case enum_code
  then show ?thesis by (rule query_inv(2) [OF assms(8)])
next
  case enum_size
  then show ?thesis by (rule query_inv(3) [OF assms(8)])
next
  case (control cs i r)
  then show ?thesis using control_inv [OF assms(2-4,8) control(1), of i] by simp
next
  case suspended
  then show ?thesis
    using neutral_inv [OF stop_streaming_neutral assms(8)] assms(8)
    by (auto simp: imx219_suspend_def split: if_splits)
next
  case resumed
  then show ?thesis by (rule resume_inv [OF assms(2,3,4,6) _ assms(8)])
next
  case powered
  then show ?thesis using neutral_inv [OF power_im_neutral(1) [of s k] assms(8)] by simp
next
  case unpowered
  then show ?thesis using neutral_inv [OF power_im_neutral(2) [of s] assms(8)] by simp
qed

section \<open>Properties\<close>

text \<open>
  C28: a probe that fails holds nothing and has switched nothing: mutex, control handler, runtime PM,
  registration and firmware node are back to the count before, no parsed endpoint is left allocated,
  and every supply and the clock are at their level before.  A probe that succeeds holds each of them
  once (the firmware node is given back), with the sensor powered or already suspended again, and
  leaves the driver not streaming, with the largest mode and a code of its table.
\<close>

theorem imx219_probe_resources:
  assumes "imx219_probe k c s = (r, s')" and "pm_spec c" and "\<And>h. async_register_ret k h \<le> 0"
  shows "(x \<noteq> Endpoint \<longrightarrow> held x s' = held x s + (if r = 0 \<and> x \<noteq> Fwnode then 1 else 0)) \<and>
    (endpoint_live (hist s') \<longrightarrow> endpoint_live (hist s)) \<and>
    level y s' - level y s \<in> (if r = 0 \<and> imx219_draws s y then {0, 1} else {0}) \<and>
    (r = 0 \<longrightarrow> imx219_wf s' \<and> im_mode s' = Some imx219_mode_3280x2464 \<and> \<not> im_streaming s')"
  using probe_keeps [OF assms, of y]
  by (auto simp: books_def imx219_wf_def supported_modes_def codes_def)

theorem imx219_probe_resources_witness:
  "held Mutex (snd (imx219_probe ((ideal imx219_ids)\<lparr>clk_ret := (\<lambda>h. - 5)\<rparr>) imx219_cb imx219_example)) = 0"
proof -
  let ?k = "(ideal imx219_ids)\<lparr>clk_ret := (\<lambda>h. - 5)\<rparr>"
  have a: "async_register_ret ?k h \<le> 0" for h by (simp add: ideal_def ideal_env_def)
  have "fst (imx219_probe_board ?k t) \<noteq> 0" for t
    by (simp add: imx219_probe_board_def run_steps.simps(2) imx219_check_hwcfg_def
        imx219_get_regulators_def imx219_power_on_def regulator_enable_def clk_prepare_enable_def
        act_def Let_def)
  then have "fst (imx219_probe ?k imx219_cb imx219_example) \<noteq> 0"
    by (auto simp: imx219_probe_def Let_def split: prod.split)
      (metis fst_conv)
  then show ?thesis
    using imx219_probe_resources [where x = Mutex and k = ?k and s = imx219_example,
        OF prod.collapse [symmetric] imx219_cb_specs(1) a]
    by (simp add: held_def imx219_example_def)
qed

text \<open>
  removal after a successful probe gives everything back: mutex, control handler, runtime PM,
  registration, and, when runtime PM reports the device as suspended exactly when its clock is off,
  every supply and the clock.
\<close>

theorem imx219_remove_after_probe:
  assumes "imx219_probe k c s = (0, s1)" and "pm_spec c" and "\<And>h. async_register_ret k h \<le> 0"
    and "\<And>h. rpm_suspended k h \<longleftrightarrow> balance clk_delta h = balance clk_delta (hist s)"
    and "imx219_remove k s1 = (r, s')"
  shows "r = 0 \<and> level y s' = level y s \<and> (x \<noteq> Endpoint \<longrightarrow> held x s' = held x s) \<and>
    (endpoint_live (hist s') \<longrightarrow> endpoint_live (hist s))"
proof -
  let ?t = "emit PmDisable (imx219_free_controls (emit EntityCleanup (emit AsyncUnregister s1)))"
  note p = probe_keeps [OF assms(1-3)]
  have l: "level x ?t = level x s1" "level x (emit PmSetSuspended u) = level x u" for x and u :: imx219
    by (cases x; simp add: imx219_free_controls_def)+
  have h: "held x ?t = held x s" if "x \<noteq> Endpoint" for x
    using that p by (cases x) (simp_all add: books_def imx219_free_controls_def resource_delta_def)
  have hp: "held x (emit PmSetSuspended u) = held x u" for u :: imx219 by (simp add: resource_delta_def)
  have ho: "x \<noteq> Endpoint \<Longrightarrow> held x (snd (imx219_power_off ?t)) = held x ?t"
      "endpoint_live (hist (snd (imx219_power_off ?t))) \<longrightarrow> endpoint_live (hist ?t)"
    using power_off_books [of ?t] by (simp_all add: books_def)
  have ep: "endpoint_live (hist ?t) \<longrightarrow> endpoint_live (hist s)"
    using p by (simp add: books_def imx219_free_controls_def)
  have "rpm_suspended k (hist ?t) \<longleftrightarrow> level Clock s1 = level Clock s"
    using assms(4) [of "hist ?t"] l(1) [of Clock] by (simp add: level_def)
  moreover have "imx219_draws s Clock" by (simp add: imx219_draws_def)
  ultimately have susp: "level x s1 = level x s + of_bool (\<not> rpm_suspended k (hist ?t) \<and> imx219_draws s x)" for x
    using p [of x] by auto
  have "level y (snd (imx219_power_off ?t)) = level y s1 - of_bool (imx219_draws s y)"
    using l(1) [of y] draws_eq [of ?t s] by (simp add: power_off_level)
  with assms(5) susp [of y] l h [of x] hp ho ep show ?thesis
    by (auto simp: imx219_remove_def Let_def split: if_splits)
qed

theorem imx219_remove_after_probe_witness:
  "\<exists>s1 s'. imx219_probe ((ideal imx219_ids)\<lparr>rpm_suspended := (\<lambda>h. balance clk_delta h = 0)\<rparr>) imx219_cb
       imx219_example = (0, s1) \<and>
     imx219_remove ((ideal imx219_ids)\<lparr>rpm_suspended := (\<lambda>h. balance clk_delta h = 0)\<rparr>) s1 = (0, s') \<and>
     level (Rail BULK) s' = 0 \<and> held Handler s' = 0"
proof -
  let ?k = "(ideal imx219_ids)\<lparr>rpm_suspended := (\<lambda>h. balance clk_delta h = 0)\<rparr>"
  have b: "imx219_board ?k imx219_ids"
    using ideal_imx219_board by (simp add: imx219_board_def bus_ok_def regfile_xfer_def)
  have n: "bus_image (hist imx219_example) a = None" for a by (simp add: imx219_example_def bus_image_def)
  obtain s1 where p: "imx219_probe ?k imx219_cb imx219_example = (0, s1)"
    using im_probe_ok [OF b n n imx219_cb_specs(1)] by blast
  obtain r s' where q: "imx219_remove ?k s1 = (r, s')" by (cases "imx219_remove ?k s1")
  have a: "async_register_ret ?k h \<le> 0" for h using b by (simp add: imx219_board_def)
  have z: "rpm_suspended ?k h \<longleftrightarrow> balance clk_delta h = balance clk_delta (hist imx219_example)" for h
    by (simp add: imx219_example_def)
  show ?thesis
    using imx219_remove_after_probe [where y = "Rail BULK" and x = Handler,
        OF p imx219_cb_specs(1) a z q] p q
    by (simp add: level_def held_def imx219_example_def)
qed

text \<open>
  probe stores whatever the request for the optional reset line returns and does not look at it:
  on a board where everything else is in order, a request that fails, for instance because the GPIO
  controller is not there yet, leaves the error pointer in the driver and probe returns zero.
\<close>

theorem imx219_probe_ignores_reset:
  assumes "imx219_board k dflt" and "bus_image (hist s) 0 = None" and "bus_image (hist s) 1 = None"
    and "pm_spec c" and "\<And>h. gpio_get k h GPIO_RESET = ErrPtr e"
  shows "\<exists>s'. imx219_probe k c s = (0, s') \<and> im_reset_gpio s' = ErrPtr e"
  using im_probe_ok [OF assms(1-4)] assms(5) by auto

theorem imx219_probe_ignores_reset_witness:
  "\<exists>s'. imx219_probe ((ideal imx219_ids)\<lparr>gpio_get := (\<lambda>h g. ErrPtr (- 517))\<rparr>) imx219_cb imx219_example =
     (0, s') \<and> im_reset_gpio s' = ErrPtr (- 517)"
proof -
  have "imx219_board ((ideal imx219_ids)\<lparr>gpio_get := (\<lambda>h g. ErrPtr (- 517))\<rparr>) imx219_ids"
    using ideal_imx219_board by (simp add: imx219_board_def bus_ok_def regfile_xfer_def)
  then show ?thesis
    by (rule imx219_probe_ignores_reset) (simp_all add: imx219_example_def bus_image_def)
qed

text \<open>
  C10: in every state that the operations of the driver reach from a successful probe, in any order and
  with any failures of the bus and the supplies, the driver has a mode and a code of its tables and a
  test pattern of its menu, has never followed a NULL pointer or read outside a table, does not hold
  its lock, and holds a runtime-PM reference whenever it counts as streaming.
\<close>

theorem imx219_reach_invariant:
  assumes "nearest_spec (nearest_size k)" and "pm_spec c" and "pm_usable k"
    and "range_spec imx219_ctrl_step c" and "set_spec imx219_ctrl_step c"
    and "setup_spec imx219_ctrl_step c" and "create_spec k" and "\<And>h. async_register_ret k h \<le> 0"
    and "imx219_reach k c s"
  shows "imx219_wf s \<and> pattern_ok s \<and> NullDeref \<notin> set (hist s) \<and> balance lock_delta (hist s) = 0 \<and>
    (im_streaming s \<longrightarrow> 0 < balance pm_delta (hist s))"
proof -
  have "imx219_inv s"
    using assms(9)
  proof induction
    case (probed s s')
    show ?case
      using probe_keeps [OF probed(2) assms(2,8)] probed(1) assms(7)
      by (auto simp: imx219_inv_def imx219_wf_def books_def codes_def)
  next
    case (step s s')
    show ?case by (rule imx219_step_inv [OF assms(1-6) step(2,3)])
  qed
  then show ?thesis by (auto simp: imx219_inv_def)
qed

theorem imx219_reach_invariant_witness:
  "\<exists>s. imx219_reach (ideal imx219_ids) imx219_cb s \<and> imx219_wf s \<and> \<not> NullDeref \<in> set (hist s)"
proof -
  have n: "bus_image (hist imx219_example) a = None" for a by (simp add: imx219_example_def bus_image_def)
  obtain s' where "imx219_probe (ideal imx219_ids) imx219_cb imx219_example = (0, s')"
    using im_probe_ok [OF ideal_imx219_board n n imx219_cb_specs(1)] by blast
  then have r: "imx219_reach (ideal imx219_ids) imx219_cb s'"
    by (rule imx219_reach.probed [rotated]) (simp add: imx219_example_def)
  have a: "async_register_ret (ideal imx219_ids) h \<le> 0" for h by (simp add: ideal_def ideal_env_def)
  show ?thesis
    using imx219_reach_invariant [OF _ _ _ _ _ _ _ a r] r by auto
qed

end
