(* ===== verification/Capture.thy ===== *)
theory Capture
  imports Csis_Probe Ov5648_Probe Imx219_Probe
begin

text \<open>
  The front of the capture pipeline: a sensor behind the receiver.  \<open>ov5648_remote\<close> and \<open>imx219_remote\<close> are
  the operations of the two sensor drivers as the receiver calls them, with a NULL pad configuration.  The
  locale \<open>sensor_formats\<close> is what the receiver needs of a sensor; both drivers satisfy it, and the facts about
  the pipeline are proved in it once.
\<close>

section \<open>The sensors as remote sub-devices\<close>

text \<open>
  \<^verbatim>\<open>v4l2_subdev_get_try_format\<close> addresses an entry of the pad configuration, which the receiver passes as
  NULL: the sensor faults with its lock held when it gets as far as using the try format.
\<close>

definition null_cfg :: pad_config where
  "null_cfg pad = zero_fmt"

definition null_try :: "v4l2_subdev_format \<Rightarrow> 'a kstate_scheme \<Rightarrow>
    int \<times> v4l2_subdev_format \<times> 'a kstate_scheme \<Rightarrow> int \<times> v4l2_subdev_format \<times> 'a kstate_scheme" where
  "null_try f s res =
     (if sf_which f = V4L2_SUBDEV_FORMAT_TRY \<and> fst res = 0
      then (- EFAULT, fst (snd res), emit NullDeref (emit MutexLock s)) else res)"

definition fill_sizes :: "((u32 \<times> u32) \<times> (u32 \<times> u32)) option \<Rightarrow> frame_size_enum \<Rightarrow> frame_size_enum" where
  "fill_sizes sz fse =
     (case sz of None \<Rightarrow> fse | Some (w, h) \<Rightarrow> fse\<lparr>fse_width := w, fse_height := h\<rparr>)"

definition ov5648_remote :: "kapi \<Rightarrow> ov5648 remote_ops" where
  "ov5648_remote k = \<lparr>
     r_s_power = Some (\<lambda>on s. let (ret, s) = ov5648_s_power on s in (ret, on, s)),
     r_set_fmt = Some (\<lambda>f s. null_try f s
       (let (ret, _, f, s) = ov5648_set_fmt k null_cfg f s in (ret, f, s))),
     r_get_fmt = Some (\<lambda>f s. null_try f s (ov5648_get_fmt null_cfg f s)),
     r_s_frame_interval = Some ov5648_g_frame_interval,
     r_g_frame_interval = Some ov5648_g_frame_interval,
     r_enum_frame_size = Some (\<lambda>fse s.
       let (ret, sz) = ov5648_enum_frame_size (fse_index fse) in (ret, fill_sizes sz fse, s)),
     r_enum_frame_interval = Some (\<lambda>fie s.
       let (ret, iv) = ov5648_enum_frame_interval (fie_index fie) (fie_code fie) (fie_width fie) (fie_height fie)
       in (ret, case iv of None \<Rightarrow> fie | Some iv \<Rightarrow> fie\<lparr>fie_interval := iv\<rparr>, s))\<rparr>"

definition imx219_remote :: "kapi \<Rightarrow> imx219 kcb \<Rightarrow> imx219 remote_ops" where
  "imx219_remote k c = \<lparr>
     r_s_power = Some (\<lambda>on s. let (ret, s) = imx219_s_power on s in (ret, on, s)),
     r_set_fmt = Some (\<lambda>f s. null_try f s
       (let (ret, _, f, s) = imx219_set_pad_format k c null_cfg f s in (ret, f, s))),
     r_get_fmt = Some (\<lambda>f s. null_try f s
       (let (ret, _, f, s) = imx219_get_pad_format null_cfg f s in (ret, f, s))),
     r_s_frame_interval = None,
     r_g_frame_interval = None,
     r_enum_frame_size = Some (\<lambda>fse s.
       let (ret, sz, s) = imx219_enum_frame_size (fse_index fse) (fse_code fse) s in (ret, fill_sizes sz fse, s)),
     r_enum_frame_interval = None\<rparr>"

lemma null_try_active [simp]: "sf_which f \<noteq> V4L2_SUBDEV_FORMAT_TRY \<Longrightarrow> null_try f s res = res"
  by (simp add: null_try_def)

lemma scan_pads_cong:
  assumes "hist t = hist s" and "cs_pads t = cs_pads s" and "cs_num_pads t = cs_num_pads s"
  shows "csis_scan_pads k t i = csis_scan_pads k s i"
proof -
  have "csis_scan_pads k t i = Some p \<longleftrightarrow> csis_scan_pads k s i = Some p" for p
    unfolding scan_pads_Some assms ..
  then show ?thesis by (metis not_Some_eq)
qed

text \<open>Starting through the sub-device operation, as far as the registers are concerned.\<close>

lemma regs_reads [simp]: "regs (fold (\<lambda>off s. snd (readl k b off s)) offs s) = regs s"
  by (induction offs arbitrary: s) simp_all

lemma regs_dumps [simp]:
  "regs (dump_csis_regs k s) = regs s" "regs (dump_gasket_regs k s) = regs s"
  by (simp_all add: dump_csis_regs_def dump_gasket_regs_def)

lemma s_stream_on:
  assumes "pm_spec c"
  obtains t where "mipi_csis_s_stream k c 1 s = (0, dump_gasket_regs k (dump_csis_regs k (mipi_csis_start_stream k t)))"
    and "cs_csis_fmt t = cs_csis_fmt s" and "cs_format t = cs_format s" and "cs_num_lanes t = cs_num_lanes s"
    and "cs_hs_settle t = cs_hs_settle s" and "cs_clk_settle t = cs_clk_settle s" and "cs_remote t = cs_remote s"
proof -
  obtain r u where u: "pm_runtime_get_sync c (mipi_csis_runtime_resume k) s = (r, u)"
    by (cases "pm_runtime_get_sync c (mipi_csis_runtime_resume k) s")
  note f = hw_fields [OF pm_get_emits [OF assms u]]
  show thesis
    by (rule that [of "mipi_csis_clear_counters u"])
      (simp_all add: mipi_csis_s_stream_def u mipi_csis_clear_counters_def Let_def, simp_all add: emit_def f)
qed

lemma s_stream_fields:
  assumes "pm_spec c" and "cs_csis_fmt s \<noteq> None"
  shows "cs_csis_fmt (snd (mipi_csis_s_stream k c 1 s)) = cs_csis_fmt s"
    "cs_format (snd (mipi_csis_s_stream k c 1 s)) = cs_format s"
    "cs_num_lanes (snd (mipi_csis_s_stream k c 1 s)) = cs_num_lanes s"
    "cs_hs_settle (snd (mipi_csis_s_stream k c 1 s)) = cs_hs_settle s"
    "cs_clk_settle (snd (mipi_csis_s_stream k c 1 s)) = cs_clk_settle s"
    "cs_remote (snd (mipi_csis_s_stream k c 1 s)) = cs_remote s"
proof -
  obtain t where t: "mipi_csis_s_stream k c 1 s = (0, dump_gasket_regs k (dump_csis_regs k (mipi_csis_start_stream k t)))"
      "cs_csis_fmt t = cs_csis_fmt s" "cs_format t = cs_format s" "cs_num_lanes t = cs_num_lanes s"
      "cs_hs_settle t = cs_hs_settle s" "cs_clk_settle t = cs_clk_settle s" "cs_remote t = cs_remote s"
    using s_stream_on [OF assms(1), of k s] by metis
  have "emits hw_event t (mipi_csis_start_stream k t)"
    by (rule emits_start_stream [OF emits_refl]) (use assms(2) t(2) in simp)
  then have "emits hw_event t (snd (mipi_csis_s_stream k c 1 s))"
    unfolding t(1) snd_conv dump_csis_regs_def dump_gasket_regs_def
    by (blast intro: emits_trans emits_reads)
  from hw_fields [OF this] t show "cs_csis_fmt (snd (mipi_csis_s_stream k c 1 s)) = cs_csis_fmt s"
    "cs_format (snd (mipi_csis_s_stream k c 1 s)) = cs_format s"
    "cs_num_lanes (snd (mipi_csis_s_stream k c 1 s)) = cs_num_lanes s"
    "cs_hs_settle (snd (mipi_csis_s_stream k c 1 s)) = cs_hs_settle s"
    "cs_clk_settle (snd (mipi_csis_s_stream k c 1 s)) = cs_clk_settle s"
    "cs_remote (snd (mipi_csis_s_stream k c 1 s)) = cs_remote s" by simp_all
qed

section \<open>What the receiver needs of a sensor\<close>

text \<open>
  \<open>env\<close>: the kernel functions that the sensor driver calls do what they promise.
  \<open>answers m s\<close>: a sensor in state \<open>s\<close> has the active format \<open>m\<close>.  Setting the active format ends in such a
  state when it reports success, querying it returns its format and keeps it, and the code is one that the
  receiver knows.
\<close>

locale sensor_formats =
  fixes r :: "'r remote_ops" and answers :: "v4l2_mbus_framefmt \<Rightarrow> 'r \<Rightarrow> bool" and env :: bool
  assumes set_active: "env \<Longrightarrow> sf_which f \<noteq> V4L2_SUBDEV_FORMAT_TRY \<Longrightarrow>
      \<exists>g. r_set_fmt r = Some g \<and> (\<forall>ret f' s'. g f s = (ret, f', s') \<longrightarrow> 0 \<le> ret \<longrightarrow> answers (sf_format f') s')"
    and get_active: "sf_which f \<noteq> V4L2_SUBDEV_FORMAT_TRY \<Longrightarrow> answers m s \<Longrightarrow>
      \<exists>g s'. r_get_fmt r = Some g \<and> g f s = (0, f\<lparr>sf_format := m\<rparr>, s') \<and> answers m s'"
    and known: "answers m s \<Longrightarrow> fmt_code m \<in> pf_code ` set mipi_csis_formats"
    and sized: "answers m s \<Longrightarrow> fmt_width m \<noteq> 0 \<and> fmt_height m \<noteq> 0"
begin

text \<open>Setting and querying through the receiver.\<close>

lemma configured:
  assumes env and pad: "csis_get_remote_sensor_pad k s = Some p" "rp_is_subdev p"
    and act: "sf_which f \<noteq> V4L2_SUBDEV_FORMAT_TRY" "sf_which g \<noteq> V4L2_SUBDEV_FORMAT_TRY"
    and set: "mipi_csis_set_fmt k r f s = (0, f', s1)"
    and get: "mipi_csis_get_fmt k r g s1 = (ret, g', s2)"
  shows "ret = 0 \<and> sf_format g' = sf_format f' \<and> answers (sf_format f') (cs_remote s2) \<and>
    (\<exists>fmt \<in> set mipi_csis_formats. pf_code fmt = fmt_code (sf_format f') \<and>
       s2 = s\<lparr>cs_csis_fmt := Some fmt, cs_format := sf_format f', cs_remote := cs_remote s2\<rparr>)"
proof -
  let ?f = "f\<lparr>sf_pad := rp_index p\<rparr>" and ?g = "g\<lparr>sf_pad := rp_index p\<rparr>"
  obtain op where op: "r_set_fmt r = Some op"
      "\<And>ret f' s'. op ?f (cs_remote s) = (ret, f', s') \<Longrightarrow> 0 \<le> ret \<Longrightarrow> answers (sf_format f') s'"
    using set_active [OF assms(1), of ?f "cs_remote s"] act(1) by auto
  obtain r1 f1 t1 where o1: "op ?f (cs_remote s) = (r1, f1, t1)" by (cases "op ?f (cs_remote s)")
  have "0 \<le> r1"
    using set pad o1 op(1)
    by (auto simp: mipi_csis_set_fmt_def csis_get_remote_subdev_def v4l2_subdev_call_def Let_def split: if_splits)
  from op(2) [OF o1 this] have a: "answers (sf_format f1) t1" .
  then obtain fmt where fmt: "fmt \<in> set mipi_csis_formats" "pf_code fmt = fmt_code (sf_format f1)"
      "find_csis_format (fmt_code (sf_format f1)) = Some fmt"
    using known [OF a] that by (auto simp: find_csis_format_Some)
  have s1: "f' = f1" "s1 = s\<lparr>cs_remote := t1, cs_csis_fmt := Some fmt\<rparr>"
    using set pad o1 op(1) \<open>0 \<le> r1\<close> fmt(3)
    by (auto simp: mipi_csis_set_fmt_def csis_get_remote_subdev_def v4l2_subdev_call_def Let_def)
  have pad1: "csis_get_remote_sensor_pad k s1 = Some p"
    using pad(1) scan_pads_cong [of s1 s k 0] by (simp add: csis_get_remote_sensor_pad_def s1)
  obtain op2 t2 where o2: "r_get_fmt r = Some op2" "op2 ?g t1 = (0, ?g\<lparr>sf_format := sf_format f1\<rparr>, t2)"
      "answers (sf_format f1) t2"
    using get_active [OF _ a, of ?g] act(2) by auto
  have "ret = 0" "g' = ?g\<lparr>sf_format := sf_format f1\<rparr>" "s2 = s1\<lparr>cs_remote := t2, cs_format := sf_format f1\<rparr>"
    using get pad1 pad(2) o2
    by (auto simp: mipi_csis_get_fmt_def csis_get_remote_subdev_def v4l2_subdev_call_def Let_def s1)
  with s1 fmt o2(3) show ?thesis by auto
qed


text \<open>Then streaming programs the geometry and the data type of the sensor.\<close>

lemma streams:
  assumes env and "csis_get_remote_sensor_pad k s = Some p" "rp_is_subdev p"
    and "sf_which f \<noteq> V4L2_SUBDEV_FORMAT_TRY" "sf_which g \<noteq> V4L2_SUBDEV_FORMAT_TRY"
    and "mipi_csis_set_fmt k r f s = (0, f', s1)" and "mipi_csis_get_fmt k r g s1 = (ret, g', s2)"
    and hw: "csis_hw k" "pm_spec c" "cs_hs_settle s < 256" "cs_clk_settle s < 4" "unat (cs_num_lanes s) \<le> 4"
    and "mipi_csis_s_stream k c 1 s2 = (ret', s3)"
  shows "ret = 0 \<and> ret' = 0 \<and> sf_format g' = sf_format f' \<and>
    answers (sf_format f') (cs_remote s3) \<and>
    gasket_size (regs s3) = Some (fmt_width (sf_format f'), fmt_height (sf_format f')) \<and>
    (\<exists>fmt \<in> set mipi_csis_formats. pf_code fmt = fmt_code (sf_format f') \<and>
       cs_csis_fmt s3 = Some fmt \<and> params_programmed fmt s3 (regs s3) \<and> switches True s3 (regs s3))"
proof -
  from configured [OF assms(1-7)] obtain fmt where c: "ret = 0" "sf_format g' = sf_format f'"
      "answers (sf_format f') (cs_remote s2)" and fmt: "fmt \<in> set mipi_csis_formats"
      "pf_code fmt = fmt_code (sf_format f')"
    and s2: "s2 = s\<lparr>cs_csis_fmt := Some fmt, cs_format := sf_format f', cs_remote := cs_remote s2\<rparr>" by blast
  have f2: "cs_csis_fmt s2 = Some fmt" "cs_format s2 = sf_format f'" "cs_num_lanes s2 = cs_num_lanes s"
      "cs_hs_settle s2 = cs_hs_settle s" "cs_clk_settle s2 = cs_clk_settle s"
    by (subst s2; simp)+
  obtain t where t: "mipi_csis_s_stream k c 1 s2 = (0, dump_gasket_regs k (dump_csis_regs k (mipi_csis_start_stream k t)))"
      "cs_csis_fmt t = cs_csis_fmt s2" "cs_format t = cs_format s2" "cs_num_lanes t = cs_num_lanes s2"
      "cs_hs_settle t = cs_hs_settle s2" "cs_clk_settle t = cs_clk_settle s2"
    using s_stream_on [OF hw(2), of k s2] by metis
  have r3: "ret' = 0" "regs s3 = regs (mipi_csis_start_stream k t)" using assms(13) by (auto simp: t(1))
  have f3: "cs_csis_fmt s3 = Some fmt" "cs_format s3 = sf_format f'" "cs_num_lanes s3 = cs_num_lanes t"
      "cs_hs_settle s3 = cs_hs_settle t" "cs_clk_settle s3 = cs_clk_settle t" "cs_remote s3 = cs_remote s2"
    using s_stream_fields [OF hw(2), of s2 k] assms(13) t f2 by simp_all
  have "params_programmed fmt t (regs s3) \<and> switches True t (regs s3) \<and>
      gasket_size (regs s3) = Some (fmt_width (cs_format t), fmt_height (cs_format t))"
    unfolding r3(2) using start_stream_regs [OF hw(1) _ fmt(1), of t] t f2 hw(3-5) sized [OF c(3)] by simp
  with c r3 f3 fmt t f2 show ?thesis by (auto simp: params_programmed_def switches_def)
qed

end

section \<open>Both drivers are such sensors\<close>

definition ov5648_answers :: "v4l2_mbus_framefmt \<Rightarrow> ov5648 \<Rightarrow> bool" where
  "ov5648_answers m s \<longleftrightarrow> (\<exists>md \<in> set ov5648_modes. mode s = Some md \<and> mbus_code s \<in> set ov5648_mbus_codes \<and>
     m = ov5648_native_fmt (mbus_code s) md)"

definition imx219_answers :: "v4l2_mbus_framefmt \<Rightarrow> imx219 \<Rightarrow> bool" where
  "imx219_answers m s \<longleftrightarrow> (\<exists>md \<in> set supported_modes. im_mode s = Some md \<and>
     m = imx219_native_fmt (imx219_turned s (fmt_code (im_fmt s))) md)"

lemma sensor_codes_known:
  "set ov5648_mbus_codes \<subseteq> pf_code ` set mipi_csis_formats" "set codes \<subseteq> pf_code ` set mipi_csis_formats"
  by (simp_all add: ov5648_mbus_codes_def codes_def mipi_csis_formats_def pix_format_entry_def)

lemma ov5648_set_answers:
  assumes "nearest_spec (nearest_size k)" and "sf_which f \<noteq> V4L2_SUBDEV_FORMAT_TRY"
    and "ov5648_set_fmt k cfg f s = (ret, cfg', f', s')" and "0 \<le> ret"
  shows "ov5648_answers (sf_format f') s'"
  using assms(1,3)
proof (cases rule: set_fmt_cases)
  case busy
  with assms(4) show ?thesis by simp
next
  case (picked m)
  let ?c = "ov5648_find_format (fmt_code (sf_format f))"
  have "mode s' = Some m \<and> mbus_code s' = ?c"
  proof (cases "mode s = Some m \<and> mbus_code s = ?c")
    case True
    then show ?thesis using picked(5) assms(2) by (simp add: emit_def)
  next
    case False
    then obtain s1 where sc: "ov5648_state_configure k (Some m) ?c (emit MutexLock s) = (ret, s1)"
      and s': "s' = emit MutexUnlock s1"
      using picked(5) assms(2) by auto
    from sc show ?thesis
      by (cases rule: state_configure_cases) (use assms(4) in \<open>simp_all add: s' emit_def\<close>)
  qed
  with picked(2,4) show ?thesis by (auto simp: ov5648_answers_def)
qed

lemma imx219_mode_nonempty: "md \<in> set supported_modes \<Longrightarrow> im_width md \<noteq> 0 \<and> im_height md \<noteq> 0"
  by (erule supported_modes_cases) (simp_all add: imx219_mode_defs)

lemma ov5648_mode_nonempty: "md \<in> set ov5648_modes \<Longrightarrow> output_size_x md \<noteq> 0 \<and> output_size_y md \<noteq> 0"
proof -
  have "\<forall>m \<in> set ov5648_modes. output_size_x m \<noteq> 0 \<and> output_size_y m \<noteq> 0"
    unfolding ov5648_modes_all by (simp add: ov5648_mode_defs)
  then show "md \<in> set ov5648_modes \<Longrightarrow> output_size_x md \<noteq> 0 \<and> output_size_y md \<noteq> 0" by blast
qed

lemma ov5648_answers_emit [simp]: "ov5648_answers m (emit e s) = ov5648_answers m s"
  by (simp add: ov5648_answers_def)

interpretation ov5648_sensor: sensor_formats "ov5648_remote k" ov5648_answers "nearest_spec (nearest_size k)" for k
proof unfold_locales
  fix f :: v4l2_subdev_format and s :: ov5648 and m
  assume act: "sf_which f \<noteq> V4L2_SUBDEV_FORMAT_TRY"
  show "\<exists>g. r_set_fmt (ov5648_remote k) = Some g \<and>
      (\<forall>ret f' s'. g f s = (ret, f', s') \<longrightarrow> 0 \<le> ret \<longrightarrow> ov5648_answers (sf_format f') s')"
    if "nearest_spec (nearest_size k)"
    using act ov5648_set_answers [OF that act]
    by (auto simp: ov5648_remote_def Let_def split: prod.split)
  assume "ov5648_answers m s"
  then obtain md where md: "mode s = Some md" "m = ov5648_native_fmt (mbus_code s) md"
    by (auto simp: ov5648_answers_def)
  show "\<exists>g s'. r_get_fmt (ov5648_remote k) = Some g \<and> g f s = (0, f\<lparr>sf_format := m\<rparr>, s') \<and> ov5648_answers m s'"
    using get_fmt_active [OF md(1) act, of null_cfg] act \<open>ov5648_answers m s\<close>
    by (simp add: ov5648_remote_def md(2))
next
  fix m s
  assume a: "ov5648_answers m s"
  show "fmt_code m \<in> pf_code ` set mipi_csis_formats"
    using a sensor_codes_known(1) by (auto simp: ov5648_answers_def ov5648_native_fmt_def)
  show "fmt_width m \<noteq> 0 \<and> fmt_height m \<noteq> 0"
    using a ov5648_mode_nonempty by (auto simp: ov5648_answers_def ov5648_native_fmt_def)
qed

definition imx219_env :: "kapi \<Rightarrow> imx219 kcb \<Rightarrow> bool" where
  "imx219_env k c \<longleftrightarrow> nearest_spec (nearest_size k) \<and> pm_spec c \<and> pm_usable k \<and>
     range_spec imx219_ctrl_step c \<and> set_spec imx219_ctrl_step c"

lemma imx219_answers_lock [simp]:
  "imx219_answers m (emit MutexUnlock (lockdep_assert_held (emit MutexLock s))) = imx219_answers m s"
proof -
  let ?t = "emit MutexUnlock (lockdep_assert_held (emit MutexLock s))"
  have "im_mode ?t = im_mode s" "im_fmt ?t = im_fmt s" "imx219_flip ?t = imx219_flip s"
    by (simp_all add: lockdep_assert_held_def)
  moreover from this(3) have "imx219_turned ?t = imx219_turned s" by (rule turned_cong)
  ultimately show ?thesis unfolding imx219_answers_def by metis
qed

interpretation imx219_sensor: sensor_formats "imx219_remote k c" imx219_answers "imx219_env k c" for k c
proof unfold_locales
  fix f :: v4l2_subdev_format and s :: imx219 and m
  assume act: "sf_which f \<noteq> V4L2_SUBDEV_FORMAT_TRY"
  show "\<exists>g. r_set_fmt (imx219_remote k c) = Some g \<and>
      (\<forall>ret f' s'. g f s = (ret, f', s') \<longrightarrow> 0 \<le> ret \<longrightarrow> imx219_answers (sf_format f') s')"
    if e: "imx219_env k c"
  proof -
    have "imx219_answers (sf_format f') s'" if set: "imx219_set_pad_format k c null_cfg f s = (ret, cfg', f', s')"
      for ret cfg' f' s'
    proof -
      from e have specs: "nearest_spec (nearest_size k)" "pm_spec c" "pm_usable k"
          "range_spec imx219_ctrl_step c" "set_spec imx219_ctrl_step c" by (simp_all add: imx219_env_def)
      obtain md where md: "md \<in> set supported_modes" "im_mode s' = Some md"
          "fmt_code (im_fmt s') = imx219_turned s (fmt_code (sf_format f))"
          "sf_format f' = imx219_native_fmt (imx219_turned s (fmt_code (sf_format f))) md"
          "imx219_flip s' = imx219_flip s"
        using specs act set by (rule set_pad_active) simp
      then show ?thesis by (simp add: imx219_answers_def turned_cong [OF md(5)])
    qed
    with act show ?thesis by (auto simp: imx219_remote_def Let_def split: prod.split)
  qed
  assume "imx219_answers m s"
  then obtain md where md: "im_mode s = Some md" "m = imx219_native_fmt (imx219_turned s (fmt_code (im_fmt s))) md"
    by (auto simp: imx219_answers_def)
  show "\<exists>g s'. r_get_fmt (imx219_remote k c) = Some g \<and> g f s = (0, f\<lparr>sf_format := m\<rparr>, s') \<and> imx219_answers m s'"
    using get_pad_active [OF md(1) act, of null_cfg] act \<open>imx219_answers m s\<close>
    by (simp add: imx219_remote_def md(2))
next
  fix m s
  assume a: "imx219_answers m s"
  show "fmt_code m \<in> pf_code ` set mipi_csis_formats"
    using a sensor_codes_known(2) by (auto simp: imx219_answers_def imx219_native_fmt_def)
  show "fmt_width m \<noteq> 0 \<and> fmt_height m \<noteq> 0"
    using a imx219_mode_nonempty by (auto simp: imx219_answers_def imx219_native_fmt_def)
qed

section \<open>The pipeline\<close>

text \<open>The receiver of the examples in front of a sensor in state \<open>r\<close>.\<close>

definition csis_behind :: "'r \<Rightarrow> 'r csi_state" where
  "csis_behind r = \<lparr>hist = [], cs_index = 0, cs_regs = Obj, cs_mipi_clk = Obj, cs_disp_axi = Obj,
     cs_disp_apb = Obj, cs_irq = 17, cs_clk_frequency = 166000000, cs_hs_settle = 13, cs_clk_settle = 2,
     cs_num_lanes = 2, cs_max_num_lanes = 4, cs_wclk_ext = False, cs_csis_fmt = Some (mipi_csis_formats ! 0),
     cs_format = zero_fmt, cs_pkt_data = None, cs_pkt_len = 0, cs_events = mipi_csis_events,
     cs_mipi_phy_regulator = Obj, cs_gasket = Obj, cs_mix_gpr = Obj, cs_soft_resetn = Obj, cs_clk_enable = Obj,
     cs_mipi_reset = Obj, cs_phy_reset_fn = Some Mx8mn, cs_hdr = False, cs_pads = [1, 1, 1, 1, 2, 2, 2, 2],
     cs_num_pads = 8, cs_remote = r\<rparr>"

lemma behind_pad: "csis_get_remote_sensor_pad ideal_soc (csis_behind r) = Some \<lparr>rp_index = 0, rp_is_subdev = True\<rparr>"
  by (simp add: csis_get_remote_sensor_pad_def csis_scan_pads.simps csis_behind_def ideal_soc_def)

lemma set_fmt_ok:
  assumes "csis_get_remote_sensor_pad k s = Some p" and "rp_is_subdev p" and "r_set_fmt r = Some g"
    and "g (f\<lparr>sf_pad := rp_index p\<rparr>) (cs_remote s) = (r0, f0, t)" and "0 \<le> r0"
  obtains f' s' where "mipi_csis_set_fmt k r f s = (0, f', s')"
  using assms by (cases "find_csis_format (fmt_code (sf_format f0))")
    (auto simp: mipi_csis_set_fmt_def csis_get_remote_subdev_def v4l2_subdev_call_def Let_def)

lemma behind_ok:
  "cs_hs_settle (csis_behind r) < 256" "cs_clk_settle (csis_behind r) < 4" "unat (cs_num_lanes (csis_behind r)) \<le> 4"
  by (simp_all add: csis_behind_def)

text \<open>
  C4: an OV5648 behind the receiver: after the active format has been set through the receiver and queried
  back, as the capture driver does it, starting the receiver programs the size of the mode that the sensor
  has selected and the data type of the sensor's code; what was reported is what the sensor is set to.
\<close>

theorem capture_ov5648_streams:
  assumes "nearest_spec (nearest_size kk)" and "csis_get_remote_sensor_pad k s = Some p" and "rp_is_subdev p"
    and "sf_which f \<noteq> V4L2_SUBDEV_FORMAT_TRY" and "sf_which g \<noteq> V4L2_SUBDEV_FORMAT_TRY"
    and "mipi_csis_set_fmt k (ov5648_remote kk) f s = (0, f', s1)"
    and "mipi_csis_get_fmt k (ov5648_remote kk) g s1 = (ret, g', s2)"
    and "csis_hw k" and "pm_spec c" and "cs_hs_settle s < 256" and "cs_clk_settle s < 4"
    and "unat (cs_num_lanes s) \<le> 4" and "mipi_csis_s_stream k c 1 s2 = (ret', s3)"
  shows "ret = 0 \<and> ret' = 0 \<and> sf_format g' = sf_format f' \<and>
    (\<exists>md \<in> set ov5648_modes. mode (cs_remote s3) = Some md \<and>
       gasket_size (regs s3) = Some (output_size_x md, output_size_y md)) \<and>
    (\<exists>fmt \<in> set mipi_csis_formats. pf_code fmt = mbus_code (cs_remote s3) \<and>
       params_programmed fmt s3 (regs s3) \<and> switches True s3 (regs s3))"
proof -
  note r = ov5648_sensor.streams [OF assms]
  from r obtain md where md: "md \<in> set ov5648_modes" "mode (cs_remote s3) = Some md"
      "sf_format f' = ov5648_native_fmt (mbus_code (cs_remote s3)) md"
    by (auto simp: ov5648_answers_def)
  from r show ?thesis
    by (intro conjI bexI [OF _ md(1)]) (auto simp: md ov5648_native_fmt_def)
qed

theorem capture_ov5648_streams_witness:
  "\<exists>f' s1 ret g' s2 s3. mipi_csis_set_fmt ideal_soc (ov5648_remote (ideal ov5648_ids))
       (ov5648_request V4L2_SUBDEV_FORMAT_ACTIVE) (csis_behind ov5648_example) = (0, f', s1) \<and>
     mipi_csis_get_fmt ideal_soc (ov5648_remote (ideal ov5648_ids)) (ov5648_request V4L2_SUBDEV_FORMAT_ACTIVE) s1 =
       (0, g', s2) \<and> mipi_csis_s_stream ideal_soc (ideal_cb [] (\<lambda>i v s. s)) 1 s2 = (0, s3) \<and>
     sf_format g' = sf_format f' \<and> gasket_size (regs s3) \<noteq> None"
proof -
  let ?k = "ideal_soc" and ?r = "ov5648_remote (ideal ov5648_ids)" and ?c = "ideal_cb [] (\<lambda>i v s. s)"
  let ?q = "ov5648_request V4L2_SUBDEV_FORMAT_ACTIVE" and ?s = "csis_behind ov5648_example"
  let ?qpad = "?q\<lparr>sf_pad := 0\<rparr>"
  have near: "nearest_spec (nearest_size (ideal ov5648_ids))" by simp
  have act: "sf_which ?q \<noteq> V4L2_SUBDEV_FORMAT_TRY" "sf_which ?qpad \<noteq> V4L2_SUBDEV_FORMAT_TRY"
    by (simp_all add: ov5648_request_def)
  obtain r0 cfg' f0 t where eq: "ov5648_set_fmt (ideal ov5648_ids) null_cfg ?qpad ov5648_example = (r0, cfg', f0, t)"
    by (metis prod_cases4)
  have "r0 = 0"
    using near eq
  proof (cases rule: set_fmt_cases)
    case (picked m)
    have "fst (ov5648_state_configure (ideal ov5648_ids) (Some m)
        (ov5648_find_format (fmt_code (sf_format ?qpad))) (emit MutexLock ov5648_example)) = 0"
      by (rule state_configure_ok [OF ideal_board picked(2) find_format_supported])
        (simp add: ov5648_example_def emit_def)
    then show ?thesis
      using picked(5) act by (auto split: if_splits)
  qed simp
  moreover obtain op where op: "r_set_fmt ?r = Some op" "op ?qpad ov5648_example = (r0, f0, t)"
    using eq act by (simp add: ov5648_remote_def Let_def)
  moreover have "cs_remote ?s = ov5648_example" by (simp add: csis_behind_def)
  ultimately obtain f' s1 where set: "mipi_csis_set_fmt ?k ?r ?q ?s = (0, f', s1)"
    using set_fmt_ok [OF behind_pad _ op(1), of ?q ov5648_example r0 f0 t] by auto
  obtain ret g' s2 where get: "mipi_csis_get_fmt ?k ?r ?q s1 = (ret, g', s2)" by (metis prod_cases3)
  obtain ret' s3 where str: "mipi_csis_s_stream ?k ?c 1 s2 = (ret', s3)" by fastforce
  have "ret = 0 \<and> ret' = 0 \<and> sf_format g' = sf_format f' \<and> gasket_size (regs s3) \<noteq> None"
    using capture_ov5648_streams [OF near behind_pad _ act(1) act(1) set get ideal_csis_hw _ behind_ok str] by auto
  with set get str show ?thesis by blast
qed

text \<open>
  C3: an IMX219 behind the receiver: the same, with the colour order of the active flips; setting the format
  cannot fail.
\<close>

theorem capture_imx219_streams:
  assumes "nearest_spec (nearest_size kk)" and "pm_spec cc" and "pm_usable kk"
    and "range_spec imx219_ctrl_step cc" and "set_spec imx219_ctrl_step cc"
    and "csis_get_remote_sensor_pad k s = Some p" and "rp_is_subdev p"
    and "sf_which f \<noteq> V4L2_SUBDEV_FORMAT_TRY" and "sf_which g \<noteq> V4L2_SUBDEV_FORMAT_TRY"
    and "mipi_csis_set_fmt k (imx219_remote kk cc) f s = (r, f', s1)"
    and "mipi_csis_get_fmt k (imx219_remote kk cc) g s1 = (ret, g', s2)"
    and "csis_hw k" and "pm_spec c" and "cs_hs_settle s < 256" and "cs_clk_settle s < 4"
    and "unat (cs_num_lanes s) \<le> 4" and "mipi_csis_s_stream k c 1 s2 = (ret', s3)"
  shows "r = 0 \<and> ret = 0 \<and> ret' = 0 \<and> sf_format g' = sf_format f' \<and>
    (\<exists>md \<in> set supported_modes. im_mode (cs_remote s3) = Some md \<and>
       gasket_size (regs s3) = Some (im_width md, im_height md)) \<and>
    (\<exists>fmt \<in> set mipi_csis_formats.
       pf_code fmt = imx219_turned (cs_remote s3) (fmt_code (im_fmt (cs_remote s3))) \<and>
       params_programmed fmt s3 (regs s3) \<and> switches True s3 (regs s3))"
proof -
  have env: "imx219_env kk cc" using assms(1-5) by (simp add: imx219_env_def)
  obtain r0 cfg' f0 t where eq: "imx219_set_pad_format kk cc null_cfg (f\<lparr>sf_pad := rp_index p\<rparr>) (cs_remote s) =
      (r0, cfg', f0, t)" by (metis prod_cases4)
  have "r0 = 0" using assms(1) eq by (rule set_pad_cases)
  obtain op where "r_set_fmt (imx219_remote kk cc) = Some op" "op (f\<lparr>sf_pad := rp_index p\<rparr>) (cs_remote s) = (r0, f0, t)"
    using eq assms(8) by (simp add: imx219_remote_def Let_def)
  from set_fmt_ok [OF assms(6,7) this] \<open>r0 = 0\<close> assms(10) have r: "r = 0" by auto
  note st = imx219_sensor.streams [OF env assms(6-9) assms(10) [unfolded r] assms(11-17)]
  then obtain md where md: "md \<in> set supported_modes" "im_mode (cs_remote s3) = Some md"
      "sf_format f' = imx219_native_fmt (imx219_turned (cs_remote s3) (fmt_code (im_fmt (cs_remote s3)))) md"
    by (auto simp: imx219_answers_def)
  from st r show ?thesis
    by (intro conjI bexI [OF _ md(1)]) (auto simp: md imx219_native_fmt_def)
qed

theorem capture_imx219_streams_witness:
  "\<exists>f' s1 g' s2 s3. mipi_csis_set_fmt ideal_soc (imx219_remote (ideal (\<lambda>_. 0)) imx219_cb)
       (imx219_request V4L2_SUBDEV_FORMAT_ACTIVE) (csis_behind imx219_example) = (0, f', s1) \<and>
     mipi_csis_get_fmt ideal_soc (imx219_remote (ideal (\<lambda>_. 0)) imx219_cb)
       (imx219_request V4L2_SUBDEV_FORMAT_ACTIVE) s1 = (0, g', s2) \<and>
     mipi_csis_s_stream ideal_soc (ideal_cb [] (\<lambda>i v s. s)) 1 s2 = (0, s3) \<and> gasket_size (regs s3) \<noteq> None"
proof -
  let ?k = "ideal_soc" and ?r = "imx219_remote (ideal (\<lambda>_. 0)) imx219_cb" and ?c = "ideal_cb [] (\<lambda>i v s. s)"
  let ?q = "imx219_request V4L2_SUBDEV_FORMAT_ACTIVE" and ?s = "csis_behind imx219_example"
  have act: "sf_which ?q \<noteq> V4L2_SUBDEV_FORMAT_TRY" by (simp add: imx219_request_def)
  obtain r f' s1 where set: "mipi_csis_set_fmt ?k ?r ?q ?s = (r, f', s1)" by (metis prod_cases3)
  obtain ret g' s2 where get: "mipi_csis_get_fmt ?k ?r ?q s1 = (ret, g', s2)" by (metis prod_cases3)
  obtain ret' s3 where str: "mipi_csis_s_stream ?k ?c 1 s2 = (ret', s3)" by fastforce
  have "r = 0 \<and> ret = 0 \<and> ret' = 0 \<and> gasket_size (regs s3) \<noteq> None"
    using capture_imx219_streams [OF _ _ _ _ _ behind_pad _ act act set get ideal_csis_hw _ behind_ok str] by auto
  with set get str show ?thesis by blast
qed

text \<open>
  setting a format does not touch the stored size, only querying does: streaming after a set without a
  query programs the old size, whatever the sensor has been set to.
\<close>

theorem capture_set_without_get:
  assumes "mipi_csis_set_fmt k r f s = (0, f', s1)" and "csis_hw k" and "pm_spec c"
    and "cs_hs_settle s < 256" and "cs_clk_settle s < 4" and "unat (cs_num_lanes s) \<le> 4"
    and "fmt_width (cs_format s) \<noteq> 0" and "fmt_height (cs_format s) \<noteq> 0"
  shows "gasket_size (regs (snd (mipi_csis_s_stream k c 1 s1))) =
    Some (fmt_width (cs_format s), fmt_height (cs_format s))"
proof -
  have "(\<exists>fmt \<in> set mipi_csis_formats. cs_csis_fmt s1 = Some fmt) \<and> cs_format s1 = cs_format s \<and>
      cs_num_lanes s1 = cs_num_lanes s \<and> cs_hs_settle s1 = cs_hs_settle s \<and> cs_clk_settle s1 = cs_clk_settle s"
    using assms(1)
    by (auto simp: mipi_csis_set_fmt_def v4l2_subdev_call_def Let_def find_csis_format_Some
        split: option.splits prod.splits if_splits)
  then obtain fmt where fmt: "fmt \<in> set mipi_csis_formats" "cs_csis_fmt s1 = Some fmt"
    and s1: "cs_format s1 = cs_format s" "cs_num_lanes s1 = cs_num_lanes s"
      "cs_hs_settle s1 = cs_hs_settle s" "cs_clk_settle s1 = cs_clk_settle s" by blast
  obtain t where "mipi_csis_s_stream k c 1 s1 = (0, dump_gasket_regs k (dump_csis_regs k (mipi_csis_start_stream k t)))"
      "cs_csis_fmt t = Some fmt" "cs_format t = cs_format s" "cs_num_lanes t = cs_num_lanes s"
      "cs_hs_settle t = cs_hs_settle s" "cs_clk_settle t = cs_clk_settle s"
    using s_stream_on [OF assms(3), of k s1] fmt(2) s1 by metis
  with start_stream_regs [OF assms(2) _ fmt(1), of t] assms(4-8) show ?thesis by simp
qed

theorem capture_set_without_get_witness:
  "\<exists>f' s1. mipi_csis_set_fmt ideal_soc (example_remote MEDIA_BUS_FMT_SBGGR8_1X8) example_request csis_example =
     (0, f', s1) \<and> fmt_width (sf_format f') = 640 \<and>
     gasket_size (regs (snd (mipi_csis_s_stream ideal_soc (ideal_cb [] (\<lambda>i v s. s)) 1 s1))) = Some (2592, 1944)"
proof -
  obtain f' s1 where m: "mipi_csis_set_fmt ideal_soc (example_remote MEDIA_BUS_FMT_SBGGR8_1X8)
      example_request csis_example = (0, f', s1)" "fmt_width (sf_format f') = 640"
    by (cases "find_csis_format MEDIA_BUS_FMT_SBGGR8_1X8")
      (simp_all add: mipi_csis_set_fmt_def example_remote_pad csis_get_remote_subdev_def v4l2_subdev_call_def
        example_remote_def example_request_def Let_def)
  from capture_set_without_get [OF m(1) ideal_csis_hw _ example_settle] m show ?thesis
    by (auto simp: csis_example_def zero_fmt_def)
qed

text \<open>
  the receiver hands a request for a try format on without a pad configuration: either sensor driver
  dereferences the NULL pointer, with its lock held.
\<close>

theorem capture_try_faults:
  assumes "nearest_spec (nearest_size kk)" and "sf_which f = V4L2_SUBDEV_FORMAT_TRY"
    and "csis_get_remote_sensor_pad k s = Some p" and "csis_get_remote_sensor_pad k t = Some q"
    and "rp_is_subdev p" and "rp_is_subdev q" and "\<not> streaming (cs_remote s)"
  shows "hist (cs_remote (snd (snd (mipi_csis_set_fmt k (ov5648_remote kk) f s)))) =
      hist (cs_remote s) @ [MutexLock, NullDeref] \<and>
    hist (cs_remote (snd (snd (mipi_csis_set_fmt k (imx219_remote kk cc) f t)))) =
      hist (cs_remote t) @ [MutexLock, NullDeref]"
proof -
  have fault: "hist (snd (snd (null_try f s' res))) = hist s' @ [MutexLock, NullDeref]" if "fst res = 0"
    for s' :: "'x kstate_scheme" and res
    using assms(2) that by (simp add: null_try_def)
  have set: "cs_remote (snd (snd (mipi_csis_set_fmt k r f u))) = snd (snd (g (f\<lparr>sf_pad := rp_index p'\<rparr>) (cs_remote u)))"
    if "csis_get_remote_sensor_pad k u = Some p'" "rp_is_subdev p'" "r_set_fmt r = Some g"
    for r :: "'y remote_ops" and u p' g
    using that by (auto simp: mipi_csis_set_fmt_def csis_get_remote_subdev_def v4l2_subdev_call_def Let_def
        split: prod.split option.split)
  obtain r1 c1 f1 s1 where 1: "ov5648_set_fmt kk null_cfg (f\<lparr>sf_pad := rp_index p\<rparr>) (cs_remote s) = (r1, c1, f1, s1)"
    by (metis prod_cases4)
  have "r1 = 0"
    using assms(1) 1 by (cases rule: set_fmt_cases) (use assms(2,7) in auto)
  obtain r2 c2 f2 s2 where 2: "imx219_set_pad_format kk cc null_cfg (f\<lparr>sf_pad := rp_index q\<rparr>) (cs_remote t) =
      (r2, c2, f2, s2)" by (metis prod_cases4)
  have "r2 = 0" using assms(1) 2 by (rule set_pad_cases)
  show ?thesis
    using assms(2) \<open>r1 = 0\<close> \<open>r2 = 0\<close>
    by (simp add: set [OF assms(3,5)]
        set [OF assms(4,6)] ov5648_remote_def imx219_remote_def 1 2 null_try_def)
qed

theorem capture_try_faults_witness:
  "NullDeref \<in> set (hist (cs_remote (snd (snd (mipi_csis_set_fmt ideal_soc (ov5648_remote (ideal ov5648_ids))
     (ov5648_request V4L2_SUBDEV_FORMAT_TRY) (csis_behind ov5648_example))))))"
  using capture_try_faults [where s = "csis_behind ov5648_example" and t = "csis_behind imx219_example"
      and kk = "ideal ov5648_ids" and f = "ov5648_request V4L2_SUBDEV_FORMAT_TRY", OF _ _ behind_pad behind_pad]
  by (simp add: ov5648_request_def csis_behind_def ov5648_example_def)

text \<open>
  turning the picture of an IMX219 changes the colour order of its code but never what the receiver and
  the gasket are programmed with: for all flips the code is known to the receiver with one register value and
  one data type.
\<close>

theorem capture_flips_keep_type:
  "\<exists>fmt \<in> set mipi_csis_formats. \<exists>fmt' \<in> set mipi_csis_formats.
     find_csis_format (imx219_turned s code) = Some fmt \<and> find_csis_format (imx219_turned s' code) = Some fmt' \<and>
     pf_fmt_reg fmt' = pf_fmt_reg fmt \<and> data_alignment fmt' = data_alignment fmt \<and>
     gasket_data_type (pf_code fmt') = gasket_data_type (pf_code fmt)"
proof -
  have "list_all (\<lambda>f. pf_code f \<in> set codes \<longrightarrow> pf_fmt_reg f =
      (if raw8_code (pf_code f) then MIPI_CSIS_ISPCFG_FMT_RAW8 else MIPI_CSIS_ISPCFG_FMT_RAW10) \<and>
      data_alignment f = (if raw8_code (pf_code f) then 8 else 16)) mipi_csis_formats"
    by (simp add: mipi_csis_formats_def pix_format_entry_def codes_def raw8_code_def)
  then have depth: "pf_fmt_reg f = (if raw8_code (pf_code f) then MIPI_CSIS_ISPCFG_FMT_RAW8 else MIPI_CSIS_ISPCFG_FMT_RAW10)"
      "data_alignment f = (if raw8_code (pf_code f) then 8 else 16)"
    if "f \<in> set mipi_csis_formats" "pf_code f \<in> set codes" for f
    using that unfolding list_all_iff by blast+
  obtain fmt fmt' where f: "fmt \<in> set mipi_csis_formats" "pf_code fmt = imx219_turned s code"
      "fmt' \<in> set mipi_csis_formats" "pf_code fmt' = imx219_turned s' code"
    using sensor_codes_known(2) turned_in [of s code] turned_in [of s' code] by (metis imageE subsetD)
  then have "pf_fmt_reg fmt' = pf_fmt_reg fmt" "data_alignment fmt' = data_alignment fmt"
    by (simp_all add: depth)
  with f gasket_type_of_format [OF f(1)] gasket_type_of_format [OF f(3)] show ?thesis
    by (intro bexI [OF _ f(1)] bexI [OF _ f(3)]) (simp add: find_csis_format_Some)
qed

end
