(* ===== verification/Isi_Data.thy ===== *)
theory Isi_Data
  imports Soc
begin

text \<open>
  Constants, tables and structures of the image sensing interface of the i.MX8
  (\<^verbatim>\<open>imx8-isi-hw.h\<close>, \<^verbatim>\<open>imx8-isi-core.h\<close>, \<^verbatim>\<open>imx8-common.h\<close> and the tables of \<^verbatim>\<open>imx8-isi-core.c\<close> under
  \<^verbatim>\<open>exercise-09-dec-21/camera/staging/media/imx\<close>): the unit behind the receiver that scales, converts and stores
  frames.  Names follow the source; only the constants that the code uses appear.
\<close>

section \<open>Registers\<close>

abbreviation (input) CHNL_CTRL :: u32 where
  "CHNL_CTRL \<equiv> 0x0"

abbreviation (input) CHNL_CTRL_CHNL_EN_OFFSET :: nat where
  "CHNL_CTRL_CHNL_EN_OFFSET \<equiv> 31"

abbreviation (input) CHNL_CTRL_CHNL_EN_MASK :: u32 where
  "CHNL_CTRL_CHNL_EN_MASK \<equiv> 0x80000000"

abbreviation (input) CHNL_CTRL_CHNL_EN_DISABLE :: u32 where
  "CHNL_CTRL_CHNL_EN_DISABLE \<equiv> 0"

abbreviation (input) CHNL_CTRL_CHNL_EN_ENABLE :: u32 where
  "CHNL_CTRL_CHNL_EN_ENABLE \<equiv> 1"

abbreviation (input) CHNL_CTRL_CLK_EN_OFFSET :: nat where
  "CHNL_CTRL_CLK_EN_OFFSET \<equiv> 30"

abbreviation (input) CHNL_CTRL_CLK_EN_MASK :: u32 where
  "CHNL_CTRL_CLK_EN_MASK \<equiv> 0x40000000"

abbreviation (input) CHNL_CTRL_CLK_EN_DISABLE :: u32 where
  "CHNL_CTRL_CLK_EN_DISABLE \<equiv> 0"

abbreviation (input) CHNL_CTRL_CLK_EN_ENABLE :: u32 where
  "CHNL_CTRL_CLK_EN_ENABLE \<equiv> 1"

abbreviation (input) CHNL_CTRL_CHNL_BYPASS_OFFSET :: nat where
  "CHNL_CTRL_CHNL_BYPASS_OFFSET \<equiv> 29"

abbreviation (input) CHNL_CTRL_CHNL_BYPASS_MASK :: u32 where
  "CHNL_CTRL_CHNL_BYPASS_MASK \<equiv> 0x20000000"

abbreviation (input) CHNL_CTRL_CHNL_BYPASS_ENABLE :: u32 where
  "CHNL_CTRL_CHNL_BYPASS_ENABLE \<equiv> 1"

abbreviation (input) CHNL_CTRL_CHAIN_BUF_OFFSET :: nat where
  "CHNL_CTRL_CHAIN_BUF_OFFSET \<equiv> 25"

abbreviation (input) CHNL_CTRL_CHAIN_BUF_MASK :: u32 where
  "CHNL_CTRL_CHAIN_BUF_MASK \<equiv> 0x6000000"

abbreviation (input) CHNL_CTRL_CHAIN_BUF_2_CHAIN :: u32 where
  "CHNL_CTRL_CHAIN_BUF_2_CHAIN \<equiv> 1"

abbreviation (input) CHNL_CTRL_SW_RST :: u32 where
  "CHNL_CTRL_SW_RST \<equiv> 0x1000000"

abbreviation (input) CHNL_CTRL_BLANK_PXL_OFFSET :: nat where
  "CHNL_CTRL_BLANK_PXL_OFFSET \<equiv> 16"

abbreviation (input) CHNL_CTRL_MIPI_VC_ID_OFFSET :: nat where
  "CHNL_CTRL_MIPI_VC_ID_OFFSET \<equiv> 6"

abbreviation (input) CHNL_CTRL_MIPI_VC_ID_MASK :: u32 where
  "CHNL_CTRL_MIPI_VC_ID_MASK \<equiv> 0xc0"

abbreviation (input) CHNL_CTRL_MIPI_VC_ID_VC0 :: u32 where
  "CHNL_CTRL_MIPI_VC_ID_VC0 \<equiv> 0"

abbreviation (input) CHNL_CTRL_MIPI_VC_ID_VC3 :: u32 where
  "CHNL_CTRL_MIPI_VC_ID_VC3 \<equiv> 3"

abbreviation (input) CHNL_CTRL_SRC_TYPE_OFFSET :: nat where
  "CHNL_CTRL_SRC_TYPE_OFFSET \<equiv> 4"

abbreviation (input) CHNL_CTRL_SRC_TYPE_MASK :: u32 where
  "CHNL_CTRL_SRC_TYPE_MASK \<equiv> 0x10"

abbreviation (input) CHNL_CTRL_SRC_TYPE_MEMORY :: u32 where
  "CHNL_CTRL_SRC_TYPE_MEMORY \<equiv> 1"

abbreviation (input) CHNL_CTRL_SRC_INPUT_OFFSET :: nat where
  "CHNL_CTRL_SRC_INPUT_OFFSET \<equiv> 0"

abbreviation (input) CHNL_CTRL_SRC_INPUT_MASK :: u32 where
  "CHNL_CTRL_SRC_INPUT_MASK \<equiv> 0x7"

abbreviation (input) CHNL_IMG_CTRL :: u32 where
  "CHNL_IMG_CTRL \<equiv> 0x4"

abbreviation (input) CHNL_IMG_CTRL_FORMAT_OFFSET :: nat where
  "CHNL_IMG_CTRL_FORMAT_OFFSET \<equiv> 24"

abbreviation (input) CHNL_IMG_CTRL_FORMAT_MASK :: u32 where
  "CHNL_IMG_CTRL_FORMAT_MASK \<equiv> 0x3F000000"

abbreviation (input) CHNL_IMG_CTRL_GBL_ALPHA_VAL_OFFSET :: nat where
  "CHNL_IMG_CTRL_GBL_ALPHA_VAL_OFFSET \<equiv> 16"

abbreviation (input) CHNL_IMG_CTRL_GBL_ALPHA_VAL_MASK :: u32 where
  "CHNL_IMG_CTRL_GBL_ALPHA_VAL_MASK \<equiv> 0xFF0000"

abbreviation (input) CHNL_IMG_CTRL_GBL_ALPHA_EN_OFFSET :: nat where
  "CHNL_IMG_CTRL_GBL_ALPHA_EN_OFFSET \<equiv> 15"

abbreviation (input) CHNL_IMG_CTRL_GBL_ALPHA_EN_ENABLE :: u32 where
  "CHNL_IMG_CTRL_GBL_ALPHA_EN_ENABLE \<equiv> 1"

abbreviation (input) CHNL_IMG_CTRL_GBL_ALPHA_EN_MASK :: u32 where
  "CHNL_IMG_CTRL_GBL_ALPHA_EN_MASK \<equiv> 0x8000"

abbreviation (input) CHNL_IMG_CTRL_DEINT_OFFSET :: nat where
  "CHNL_IMG_CTRL_DEINT_OFFSET \<equiv> 12"

abbreviation (input) CHNL_IMG_CTRL_DEINT_MASK :: u32 where
  "CHNL_IMG_CTRL_DEINT_MASK \<equiv> 0x7000"

abbreviation (input) CHNL_IMG_CTRL_DEINT_LDOUBLE_ODD_EVEN :: u32 where
  "CHNL_IMG_CTRL_DEINT_LDOUBLE_ODD_EVEN \<equiv> 6"

abbreviation (input) CHNL_IMG_CTRL_DEINT_LDOUBLE_EVEN_ODD :: u32 where
  "CHNL_IMG_CTRL_DEINT_LDOUBLE_EVEN_ODD \<equiv> 7"

abbreviation (input) CHNL_IMG_CTRL_DEC_X_OFFSET :: nat where
  "CHNL_IMG_CTRL_DEC_X_OFFSET \<equiv> 10"

abbreviation (input) CHNL_IMG_CTRL_DEC_X_MASK :: u32 where
  "CHNL_IMG_CTRL_DEC_X_MASK \<equiv> 0xC00"

abbreviation (input) CHNL_IMG_CTRL_DEC_Y_OFFSET :: nat where
  "CHNL_IMG_CTRL_DEC_Y_OFFSET \<equiv> 8"

abbreviation (input) CHNL_IMG_CTRL_DEC_Y_MASK :: u32 where
  "CHNL_IMG_CTRL_DEC_Y_MASK \<equiv> 0x300"

abbreviation (input) CHNL_IMG_CTRL_CROP_EN_OFFSET :: nat where
  "CHNL_IMG_CTRL_CROP_EN_OFFSET \<equiv> 7"

abbreviation (input) CHNL_IMG_CTRL_CROP_EN_MASK :: u32 where
  "CHNL_IMG_CTRL_CROP_EN_MASK \<equiv> 0x80"

abbreviation (input) CHNL_IMG_CTRL_CROP_EN_ENABLE :: u32 where
  "CHNL_IMG_CTRL_CROP_EN_ENABLE \<equiv> 1"

abbreviation (input) CHNL_IMG_CTRL_VFLIP_EN_OFFSET :: nat where
  "CHNL_IMG_CTRL_VFLIP_EN_OFFSET \<equiv> 6"

abbreviation (input) CHNL_IMG_CTRL_VFLIP_EN_MASK :: u32 where
  "CHNL_IMG_CTRL_VFLIP_EN_MASK \<equiv> 0x40"

abbreviation (input) CHNL_IMG_CTRL_VFLIP_EN_ENABLE :: u32 where
  "CHNL_IMG_CTRL_VFLIP_EN_ENABLE \<equiv> 1"

abbreviation (input) CHNL_IMG_CTRL_HFLIP_EN_OFFSET :: nat where
  "CHNL_IMG_CTRL_HFLIP_EN_OFFSET \<equiv> 5"

abbreviation (input) CHNL_IMG_CTRL_HFLIP_EN_MASK :: u32 where
  "CHNL_IMG_CTRL_HFLIP_EN_MASK \<equiv> 0x20"

abbreviation (input) CHNL_IMG_CTRL_HFLIP_EN_ENABLE :: u32 where
  "CHNL_IMG_CTRL_HFLIP_EN_ENABLE \<equiv> 1"

abbreviation (input) CHNL_IMG_CTRL_YCBCR_MODE_OFFSET :: nat where
  "CHNL_IMG_CTRL_YCBCR_MODE_OFFSET \<equiv> 3"

abbreviation (input) CHNL_IMG_CTRL_YCBCR_MODE_MASK :: u32 where
  "CHNL_IMG_CTRL_YCBCR_MODE_MASK \<equiv> 0x8"

abbreviation (input) CHNL_IMG_CTRL_YCBCR_MODE_ENABLE :: u32 where
  "CHNL_IMG_CTRL_YCBCR_MODE_ENABLE \<equiv> 1"

abbreviation (input) CHNL_IMG_CTRL_CSC_MODE_OFFSET :: nat where
  "CHNL_IMG_CTRL_CSC_MODE_OFFSET \<equiv> 1"

abbreviation (input) CHNL_IMG_CTRL_CSC_MODE_MASK :: u32 where
  "CHNL_IMG_CTRL_CSC_MODE_MASK \<equiv> 0x6"

abbreviation (input) CHNL_IMG_CTRL_CSC_MODE_YCBCR2RGB :: u32 where
  "CHNL_IMG_CTRL_CSC_MODE_YCBCR2RGB \<equiv> 1"

abbreviation (input) CHNL_IMG_CTRL_CSC_MODE_RGB2YCBCR :: u32 where
  "CHNL_IMG_CTRL_CSC_MODE_RGB2YCBCR \<equiv> 3"

abbreviation (input) CHNL_IMG_CTRL_CSC_BYPASS_MASK :: u32 where
  "CHNL_IMG_CTRL_CSC_BYPASS_MASK \<equiv> 0x1"

abbreviation (input) CHNL_IMG_CTRL_CSC_BYPASS_ENABLE :: u32 where
  "CHNL_IMG_CTRL_CSC_BYPASS_ENABLE \<equiv> 0x1"

abbreviation (input) CHNL_OUT_BUF_CTRL :: u32 where
  "CHNL_OUT_BUF_CTRL \<equiv> 0x8"

abbreviation (input) CHNL_OUT_BUF_CTRL_LOAD_BUF2_ADDR_MASK :: u32 where
  "CHNL_OUT_BUF_CTRL_LOAD_BUF2_ADDR_MASK \<equiv> 0x8000"

abbreviation (input) CHNL_OUT_BUF_CTRL_LOAD_BUF1_ADDR_MASK :: u32 where
  "CHNL_OUT_BUF_CTRL_LOAD_BUF1_ADDR_MASK \<equiv> 0x4000"

abbreviation (input) CHNL_IMG_CFG :: u32 where
  "CHNL_IMG_CFG \<equiv> 0xC"

abbreviation (input) CHNL_IMG_CFG_HEIGHT_OFFSET :: nat where
  "CHNL_IMG_CFG_HEIGHT_OFFSET \<equiv> 16"

abbreviation (input) CHNL_IMG_CFG_WIDTH_OFFSET :: nat where
  "CHNL_IMG_CFG_WIDTH_OFFSET \<equiv> 0"

abbreviation (input) CHNL_IER :: u32 where
  "CHNL_IER \<equiv> 0x10"

abbreviation (input) CHNL_IER_FRM_RCVD_EN_MASK :: u32 where
  "CHNL_IER_FRM_RCVD_EN_MASK \<equiv> 0x20000000"

abbreviation (input) CHNL_IER_AXI_WR_ERR_V_EN_MASK :: u32 where
  "CHNL_IER_AXI_WR_ERR_V_EN_MASK \<equiv> 0x10000000"

abbreviation (input) CHNL_IER_AXI_WR_ERR_U_EN_MASK :: u32 where
  "CHNL_IER_AXI_WR_ERR_U_EN_MASK \<equiv> 0x8000000"

abbreviation (input) CHNL_IER_AXI_WR_ERR_Y_EN_MASK :: u32 where
  "CHNL_IER_AXI_WR_ERR_Y_EN_MASK \<equiv> 0x4000000"

abbreviation (input) CHNL_STS :: u32 where
  "CHNL_STS \<equiv> 0x14"

abbreviation (input) CHNL_STS_FRM_STRD_MASK :: u32 where
  "CHNL_STS_FRM_STRD_MASK \<equiv> 0x20000000"

abbreviation (input) CHNL_STS_AXI_WR_ERR_V_MASK :: u32 where
  "CHNL_STS_AXI_WR_ERR_V_MASK \<equiv> 0x10000000"

abbreviation (input) CHNL_STS_AXI_WR_ERR_U_MASK :: u32 where
  "CHNL_STS_AXI_WR_ERR_U_MASK \<equiv> 0x8000000"

abbreviation (input) CHNL_STS_AXI_WR_ERR_Y_MASK :: u32 where
  "CHNL_STS_AXI_WR_ERR_Y_MASK \<equiv> 0x4000000"

abbreviation (input) CHNL_SCALE_FACTOR :: u32 where
  "CHNL_SCALE_FACTOR \<equiv> 0x18"

abbreviation (input) CHNL_SCALE_FACTOR_Y_SCALE_OFFSET :: nat where
  "CHNL_SCALE_FACTOR_Y_SCALE_OFFSET \<equiv> 16"

abbreviation (input) CHNL_SCALE_OFFSET :: u32 where
  "CHNL_SCALE_OFFSET \<equiv> 0x1C"

abbreviation (input) CHNL_CROP_ULC :: u32 where
  "CHNL_CROP_ULC \<equiv> 0x20"

abbreviation (input) CHNL_CROP_ULC_X_OFFSET :: nat where
  "CHNL_CROP_ULC_X_OFFSET \<equiv> 16"

abbreviation (input) CHNL_CROP_LRC :: u32 where
  "CHNL_CROP_LRC \<equiv> 0x24"

abbreviation (input) CHNL_CROP_LRC_X_OFFSET :: nat where
  "CHNL_CROP_LRC_X_OFFSET \<equiv> 16"

abbreviation (input) CHNL_CSC_COEFF0 :: u32 where
  "CHNL_CSC_COEFF0 \<equiv> 0x28"

abbreviation (input) CHNL_CSC_COEFF1 :: u32 where
  "CHNL_CSC_COEFF1 \<equiv> 0x2C"

abbreviation (input) CHNL_CSC_COEFF2 :: u32 where
  "CHNL_CSC_COEFF2 \<equiv> 0x30"

abbreviation (input) CHNL_CSC_COEFF3 :: u32 where
  "CHNL_CSC_COEFF3 \<equiv> 0x34"

abbreviation (input) CHNL_CSC_COEFF4 :: u32 where
  "CHNL_CSC_COEFF4 \<equiv> 0x38"

abbreviation (input) CHNL_CSC_COEFF5 :: u32 where
  "CHNL_CSC_COEFF5 \<equiv> 0x3C"

abbreviation (input) CHNL_ROI_0_ALPHA :: u32 where
  "CHNL_ROI_0_ALPHA \<equiv> 0x40"

abbreviation (input) CHNL_ROI_0_ULC :: u32 where
  "CHNL_ROI_0_ULC \<equiv> 0x44"

abbreviation (input) CHNL_ROI_0_LRC :: u32 where
  "CHNL_ROI_0_LRC \<equiv> 0x48"

abbreviation (input) CHNL_ROI_1_ALPHA :: u32 where
  "CHNL_ROI_1_ALPHA \<equiv> 0x4C"

abbreviation (input) CHNL_ROI_1_ULC :: u32 where
  "CHNL_ROI_1_ULC \<equiv> 0x50"

abbreviation (input) CHNL_ROI_1_LRC :: u32 where
  "CHNL_ROI_1_LRC \<equiv> 0x54"

abbreviation (input) CHNL_ROI_2_ALPHA :: u32 where
  "CHNL_ROI_2_ALPHA \<equiv> 0x58"

abbreviation (input) CHNL_ROI_2_ULC :: u32 where
  "CHNL_ROI_2_ULC \<equiv> 0x5C"

abbreviation (input) CHNL_ROI_2_LRC :: u32 where
  "CHNL_ROI_2_LRC \<equiv> 0x60"

abbreviation (input) CHNL_ROI_3_ALPHA :: u32 where
  "CHNL_ROI_3_ALPHA \<equiv> 0x64"

abbreviation (input) CHNL_ROI_3_ULC :: u32 where
  "CHNL_ROI_3_ULC \<equiv> 0x68"

abbreviation (input) CHNL_ROI_3_LRC :: u32 where
  "CHNL_ROI_3_LRC \<equiv> 0x6C"

abbreviation (input) CHNL_OUT_BUF1_ADDR_Y :: u32 where
  "CHNL_OUT_BUF1_ADDR_Y \<equiv> 0x70"

abbreviation (input) CHNL_OUT_BUF1_ADDR_U :: u32 where
  "CHNL_OUT_BUF1_ADDR_U \<equiv> 0x74"

abbreviation (input) CHNL_OUT_BUF1_ADDR_V :: u32 where
  "CHNL_OUT_BUF1_ADDR_V \<equiv> 0x78"

abbreviation (input) CHNL_OUT_BUF_PITCH :: u32 where
  "CHNL_OUT_BUF_PITCH \<equiv> 0x7C"

abbreviation (input) CHNL_OUT_BUF_PITCH_LINE_PITCH_OFFSET :: nat where
  "CHNL_OUT_BUF_PITCH_LINE_PITCH_OFFSET \<equiv> 0"

abbreviation (input) CHNL_IN_BUF_ADDR :: u32 where
  "CHNL_IN_BUF_ADDR \<equiv> 0x80"

abbreviation (input) CHNL_IN_BUF_PITCH :: u32 where
  "CHNL_IN_BUF_PITCH \<equiv> 0x84"

abbreviation (input) CHNL_IN_BUF_PITCH_LINE_PITCH_OFFSET :: nat where
  "CHNL_IN_BUF_PITCH_LINE_PITCH_OFFSET \<equiv> 0"

abbreviation (input) CHNL_IN_BUF_PITCH_LINE_PITCH_MASK :: u32 where
  "CHNL_IN_BUF_PITCH_LINE_PITCH_MASK \<equiv> 0xFFFF"

abbreviation (input) CHNL_MEM_RD_CTRL :: u32 where
  "CHNL_MEM_RD_CTRL \<equiv> 0x88"

abbreviation (input) CHNL_MEM_RD_CTRL_IMG_TYPE_OFFSET :: nat where
  "CHNL_MEM_RD_CTRL_IMG_TYPE_OFFSET \<equiv> 28"

abbreviation (input) CHNL_MEM_RD_CTRL_IMG_TYPE_MASK :: u32 where
  "CHNL_MEM_RD_CTRL_IMG_TYPE_MASK \<equiv> 0xF0000000"

abbreviation (input) CHNL_MEM_RD_CTRL_READ_MEM_OFFSET :: nat where
  "CHNL_MEM_RD_CTRL_READ_MEM_OFFSET \<equiv> 0"

abbreviation (input) CHNL_MEM_RD_CTRL_READ_MEM_MASK :: u32 where
  "CHNL_MEM_RD_CTRL_READ_MEM_MASK \<equiv> 1"

abbreviation (input) CHNL_MEM_RD_CTRL_READ_MEM_ENABLE :: u32 where
  "CHNL_MEM_RD_CTRL_READ_MEM_ENABLE \<equiv> 1"

abbreviation (input) CHNL_OUT_BUF2_ADDR_Y :: u32 where
  "CHNL_OUT_BUF2_ADDR_Y \<equiv> 0x8C"

abbreviation (input) CHNL_OUT_BUF2_ADDR_U :: u32 where
  "CHNL_OUT_BUF2_ADDR_U \<equiv> 0x90"

abbreviation (input) CHNL_OUT_BUF2_ADDR_V :: u32 where
  "CHNL_OUT_BUF2_ADDR_V \<equiv> 0x94"

abbreviation (input) CHNL_SCL_IMG_CFG :: u32 where
  "CHNL_SCL_IMG_CFG \<equiv> 0x98"

abbreviation (input) CHNL_SCL_IMG_CFG_HEIGHT_OFFSET :: nat where
  "CHNL_SCL_IMG_CFG_HEIGHT_OFFSET \<equiv> 16"

abbreviation (input) CHNL_FLOW_CTRL :: u32 where
  "CHNL_FLOW_CTRL \<equiv> 0x9C"

abbreviation (input) ISI_DOWNSCALE_THRESHOLD :: u32 where
  "ISI_DOWNSCALE_THRESHOLD \<equiv> 0x4000"

abbreviation (input) ISI_2K :: u32 where
  "ISI_2K \<equiv> 2048"

section \<open>Interfaces\<close>

abbreviation (input) ISI_INPUT_INTERFACE_DC0 :: u32 where
  "ISI_INPUT_INTERFACE_DC0 \<equiv> 0"

abbreviation (input) ISI_INPUT_INTERFACE_DC1 :: u32 where
  "ISI_INPUT_INTERFACE_DC1 \<equiv> 1"

abbreviation (input) ISI_INPUT_INTERFACE_MIPI0_CSI2 :: u32 where
  "ISI_INPUT_INTERFACE_MIPI0_CSI2 \<equiv> 2"

abbreviation (input) ISI_INPUT_INTERFACE_MIPI1_CSI2 :: u32 where
  "ISI_INPUT_INTERFACE_MIPI1_CSI2 \<equiv> 3"

abbreviation (input) ISI_INPUT_INTERFACE_HDMI :: u32 where
  "ISI_INPUT_INTERFACE_HDMI \<equiv> 4"

abbreviation (input) ISI_INPUT_INTERFACE_MEM :: u32 where
  "ISI_INPUT_INTERFACE_MEM \<equiv> 5"

abbreviation (input) ISI_INPUT_INTERFACE_PARALLEL_CSI :: u32 where
  "ISI_INPUT_INTERFACE_PARALLEL_CSI \<equiv> 6"

section \<open>Formats of the user-space headers\<close>

abbreviation (input) MEDIA_BUS_FMT_RGB565_1X16 :: u32 where
  "MEDIA_BUS_FMT_RGB565_1X16 \<equiv> 0x1017"

abbreviation (input) MEDIA_BUS_FMT_BGR888_1X24 :: u32 where
  "MEDIA_BUS_FMT_BGR888_1X24 \<equiv> 0x1013"

abbreviation (input) MEDIA_BUS_FMT_YUYV8_1X16 :: u32 where
  "MEDIA_BUS_FMT_YUYV8_1X16 \<equiv> 0x2011"

abbreviation (input) MEDIA_BUS_FMT_AYUV8_1X32 :: u32 where
  "MEDIA_BUS_FMT_AYUV8_1X32 \<equiv> 0x2017"

abbreviation (input) MEDIA_BUS_FMT_YUV8_1X24 :: u32 where
  "MEDIA_BUS_FMT_YUV8_1X24 \<equiv> 0x2025"

section \<open>Structures\<close>

text \<open>A format: bus code, pixel format, code of the output format register, planes and bits per pixel.\<close>

record mxc_isi_fmt =
  if_name :: string
  if_mbus_code :: u32
  if_fourcc :: u32
  if_color :: u32
  if_memplanes :: u16
  if_colplanes :: u16
  if_depth :: "u8 list"
  if_mdataplanes :: u16

record frame_addr =
  fa_y :: u32
  fa_cb :: u32
  fa_cr :: u32

record mxc_isi_frame =
  o_width :: u32
  o_height :: u32
  c_width :: u32
  c_height :: u32
  h_off :: u32
  v_off :: u32
  f_width :: u32
  f_height :: u32
  sizeimage :: "u32 list"
  bytesperline :: "u32 list"
  f_fmt :: "mxc_isi_fmt option"

datatype mxc_isi_buf_id = MXC_ISI_BUF1 | MXC_ISI_BUF2

text \<open>
  A buffer: of the videobuf2 part the sequence number, the planes with their bus addresses, sizes and payloads,
  and whether the driver marked it active.
\<close>

record mxc_isi_buffer =
  b_sequence :: u32
  b_num_planes :: nat
  b_plane_dma :: "nat \<Rightarrow> u64"
  b_plane_size :: "nat \<Rightarrow> u64"
  b_payload :: "nat \<Rightarrow> u64"
  b_vb_active :: bool
  b_paddr :: frame_addr
  b_id :: mxc_isi_buf_id
  b_discard :: bool

record mxc_isi_chan_src =
  src_dc0 :: u32
  src_dc1 :: u32
  src_mipi0 :: u32
  src_mipi1 :: u32
  src_hdmi :: u32
  src_csi :: u32
  src_mem :: u32

record mxc_isi_reg =
  reg_offset :: u32
  reg_mask :: u32

record mxc_isi_ier_reg =
  oflw_y_buf_en :: mxc_isi_reg
  oflw_u_buf_en :: mxc_isi_reg
  oflw_v_buf_en :: mxc_isi_reg
  excs_oflw_y_buf_en :: mxc_isi_reg
  excs_oflw_u_buf_en :: mxc_isi_reg
  excs_oflw_v_buf_en :: mxc_isi_reg
  panic_y_buf_en :: mxc_isi_reg
  panic_u_buf_en :: mxc_isi_reg
  panic_v_buf_en :: mxc_isi_reg

record mxc_isi_panic_thd =
  thd_mask :: u32
  thd_offset :: u32
  threshold :: u32

record mxc_isi_set_thd =
  panic_set_thd_y :: mxc_isi_panic_thd
  panic_set_thd_u :: mxc_isi_panic_thd
  panic_set_thd_v :: mxc_isi_panic_thd

text \<open>The two sets of clock operations that the platform data can name.\<close>

datatype mxc_isi_dev_ops = Imx8_clk_ops | Imx8mn_clk_ops

record mxc_isi_plat_data =
  pd_ops :: mxc_isi_dev_ops
  pd_chan_src :: mxc_isi_chan_src
  pd_ier_reg :: mxc_isi_ier_reg
  pd_set_thd :: mxc_isi_set_thd

text \<open>
  The channel: \<^verbatim>\<open>struct mxc_isi_dev\<close>, with what its register code reads of the capture device behind
  \<^verbatim>\<open>isi_cap\<close>: the number of planes, the addresses of the discard buffer and the source frame.  The tables of
  the platform data, which \<^verbatim>\<open>mxc_isi_soc_match\<close> overwrites, are a copy of the channel's own.
\<close>

record isi_state = kstate +
  isi_pdata :: mxc_isi_plat_data
  isi_chain :: kptr
  isi_chain_buf :: bool
  isi_alpha :: u8
  isi_buf_active_reverse :: bool
  isi_xfactor :: u32
  isi_yfactor :: u32
  isi_pre_dec_x :: u32
  isi_pre_dec_y :: u32
  isi_status :: u32
  isi_in_port :: u32
  isi_sub_in_port :: u32
  isi_hflip :: bool
  isi_vflip :: bool
  isi_cscen :: bool
  isi_scale :: bool
  isi_alphaen :: bool
  isi_crop :: bool
  isi_deinterlace :: "1 word"
  isi_is_streaming :: bool
  isi_m2m_enabled :: bool
  isi_usage_count :: int
  isi_id :: int
  isi_clks :: "isi_clk \<Rightarrow> kptr"
  isi_soft_resetn :: kptr
  isi_clk_enable :: kptr
  cap_num_planes :: nat
  cap_discard_dma :: "nat \<Rightarrow> u64"
  cap_src_f :: mxc_isi_frame

section \<open>Tables\<close>

definition isi_reg_entry :: "u32 \<Rightarrow> u32 \<Rightarrow> mxc_isi_reg" where
  "isi_reg_entry off m = \<lparr>reg_offset = off, reg_mask = m\<rparr>"

definition isi_thd_entry :: "u32 \<Rightarrow> u32 \<Rightarrow> u32 \<Rightarrow> mxc_isi_panic_thd" where
  "isi_thd_entry m off t = \<lparr>thd_mask = m, thd_offset = off, threshold = t\<rparr>"

definition mxc_imx8_chan_src :: mxc_isi_chan_src where
  "mxc_imx8_chan_src = \<lparr>src_dc0 = 0, src_dc1 = 1, src_mipi0 = 2, src_mipi1 = 3, src_hdmi = 4, src_csi = 4,
     src_mem = 5\<rparr>"

definition mxc_imx8_isi_ier_v0 :: mxc_isi_ier_reg where
  "mxc_imx8_isi_ier_v0 = \<lparr>
     oflw_y_buf_en = isi_reg_entry 16 0x10000, oflw_u_buf_en = isi_reg_entry 19 0x80000,
     oflw_v_buf_en = isi_reg_entry 22 0x400000,
     excs_oflw_y_buf_en = isi_reg_entry 17 0x20000, excs_oflw_u_buf_en = isi_reg_entry 20 0x100000,
     excs_oflw_v_buf_en = isi_reg_entry 23 0x800000,
     panic_y_buf_en = isi_reg_entry 18 0x40000, panic_u_buf_en = isi_reg_entry 21 0x200000,
     panic_v_buf_en = isi_reg_entry 24 0x1000000\<rparr>"

definition mxc_imx8_isi_thd_v0 :: mxc_isi_set_thd where
  "mxc_imx8_isi_thd_v0 = \<lparr>
     panic_set_thd_y = isi_thd_entry 0x03 0 0x2, panic_set_thd_u = isi_thd_entry 0x18 3 0x2,
     panic_set_thd_v = isi_thd_entry 0xC0 6 0x2\<rparr>"

definition mxc_imx8_isi_ier_v1 :: mxc_isi_ier_reg where
  "mxc_imx8_isi_ier_v1 = \<lparr>
     oflw_y_buf_en = isi_reg_entry 19 0x80000, oflw_u_buf_en = isi_reg_entry 21 0x200000,
     oflw_v_buf_en = isi_reg_entry 23 0x800000,
     excs_oflw_y_buf_en = isi_reg_entry 0 0, excs_oflw_u_buf_en = isi_reg_entry 0 0,
     excs_oflw_v_buf_en = isi_reg_entry 0 0,
     panic_y_buf_en = isi_reg_entry 20 0x100000, panic_u_buf_en = isi_reg_entry 22 0x400000,
     panic_v_buf_en = isi_reg_entry 24 0x1000000\<rparr>"

definition mxc_imx8_isi_ier_v2 :: mxc_isi_ier_reg where
  "mxc_imx8_isi_ier_v2 = \<lparr>
     oflw_y_buf_en = isi_reg_entry 18 0x40000, oflw_u_buf_en = isi_reg_entry 20 0x100000,
     oflw_v_buf_en = isi_reg_entry 22 0x400000,
     excs_oflw_y_buf_en = isi_reg_entry 0 0, excs_oflw_u_buf_en = isi_reg_entry 0 0,
     excs_oflw_v_buf_en = isi_reg_entry 0 0,
     panic_y_buf_en = isi_reg_entry 19 0x80000, panic_u_buf_en = isi_reg_entry 21 0x200000,
     panic_v_buf_en = isi_reg_entry 23 0x800000\<rparr>"

definition mxc_imx8_isi_thd_v1 :: mxc_isi_set_thd where
  "mxc_imx8_isi_thd_v1 = \<lparr>
     panic_set_thd_y = isi_thd_entry 0x0000F 0 0x7, panic_set_thd_u = isi_thd_entry 0x00F00 8 0x7,
     panic_set_thd_v = isi_thd_entry 0xF0000 16 0x7\<rparr>"

definition mxc_imx8mn_chan_src :: mxc_isi_chan_src where
  "mxc_imx8mn_chan_src = \<lparr>src_dc0 = 0, src_dc1 = 0, src_mipi0 = 0, src_mipi1 = 1, src_hdmi = 0, src_csi = 0,
     src_mem = 2\<rparr>"

definition mxc_imx8_data :: mxc_isi_plat_data where
  "mxc_imx8_data = \<lparr>pd_ops = Imx8_clk_ops, pd_chan_src = mxc_imx8_chan_src, pd_ier_reg = mxc_imx8_isi_ier_v0,
     pd_set_thd = mxc_imx8_isi_thd_v0\<rparr>"

definition mxc_imx8mn_data :: mxc_isi_plat_data where
  "mxc_imx8mn_data = \<lparr>pd_ops = Imx8mn_clk_ops, pd_chan_src = mxc_imx8mn_chan_src, pd_ier_reg = mxc_imx8_isi_ier_v1,
     pd_set_thd = mxc_imx8_isi_thd_v1\<rparr>"

text \<open>The three setters of a frame.\<close>

definition set_frame_bounds :: "u32 \<Rightarrow> u32 \<Rightarrow> mxc_isi_frame \<Rightarrow> mxc_isi_frame" where
  "set_frame_bounds w h f = f\<lparr>o_width := w, o_height := h, c_width := w, c_height := h, f_width := w, f_height := h\<rparr>"

definition set_frame_out :: "u32 \<Rightarrow> u32 \<Rightarrow> mxc_isi_frame \<Rightarrow> mxc_isi_frame" where
  "set_frame_out w h f = f\<lparr>c_width := w, c_height := h, f_width := w, f_height := h\<rparr>"

definition set_frame_crop :: "u32 \<Rightarrow> u32 \<Rightarrow> u32 \<Rightarrow> u32 \<Rightarrow> mxc_isi_frame \<Rightarrow> mxc_isi_frame" where
  "set_frame_crop l t w h f = f\<lparr>h_off := l, v_off := t, c_width := w, c_height := h\<rparr>"

text \<open>
  Panic thresholds fit their fields and the fields of the three planes do not overlap; so do the interrupt
  bits of a layout.
\<close>

definition thd_ok :: "mxc_isi_set_thd \<Rightarrow> bool" where
  "thd_ok t \<longleftrightarrow> (\<forall>p \<in> {panic_set_thd_y t, panic_set_thd_u t, panic_set_thd_v t}.
       push_bit (unat (thd_offset p)) (threshold p) AND NOT (thd_mask p) = 0) \<and>
     thd_mask (panic_set_thd_y t) AND thd_mask (panic_set_thd_u t) = 0 \<and>
     thd_mask (panic_set_thd_y t) AND thd_mask (panic_set_thd_v t) = 0 \<and>
     thd_mask (panic_set_thd_u t) AND thd_mask (panic_set_thd_v t) = 0 \<and>
     (thd_mask (panic_set_thd_y t) OR thd_mask (panic_set_thd_u t) OR thd_mask (panic_set_thd_v t)) AND 0xC000 = 0"

lemma thds_ok [simp]: "thd_ok mxc_imx8_isi_thd_v0" "thd_ok mxc_imx8_isi_thd_v1"
  by (simp_all add: thd_ok_def mxc_imx8_isi_thd_v0_def mxc_imx8_isi_thd_v1_def isi_thd_entry_def)

end
