(* ===== verification/Isi_Hw.thy ===== *)
theory Isi_Hw
  imports Isi_Data
begin

text \<open>
  The register programming of a channel of the imaging interface (\<^verbatim>\<open>imx8-isi-hw.c\<close>): output buffers, reset,
  source, colour conversion, scaling, cropping, alpha, flips, interrupts, and reading frames from memory.
  The lemmas compute the registers that the sequences leave behind.
\<close>

section \<open>Formats\<close>

text \<open>Colour conversion coefficients: row 0 converts YUV to RGB, row 1 RGB to YUV.\<close>

definition coeffs :: "u32 list list" where
  "coeffs = [
     [0x0000012A, 0x012A0198, 0x0730079C, 0x0204012A, 0x01F00000, 0x01800180],
     [0x00810041, 0x07db0019, 0x007007b6, 0x07a20070, 0x001007ee, 0x00800080]]"

definition is_rgb :: "u32 \<Rightarrow> bool" where
  "is_rgb pix_fmt \<longleftrightarrow> pix_fmt = V4L2_PIX_FMT_RGB565 \<or> pix_fmt = V4L2_PIX_FMT_RGB24 \<or>
     pix_fmt = V4L2_PIX_FMT_RGB32 \<or> pix_fmt = V4L2_PIX_FMT_BGR32 \<or> pix_fmt = V4L2_PIX_FMT_XRGB32 \<or>
     pix_fmt = V4L2_PIX_FMT_XBGR32 \<or> pix_fmt = V4L2_PIX_FMT_BGR24 \<or> pix_fmt = V4L2_PIX_FMT_RGBA32 \<or>
     pix_fmt = V4L2_PIX_FMT_ABGR32 \<or> pix_fmt = V4L2_PIX_FMT_ARGB32"

definition is_yuv :: "u32 \<Rightarrow> bool" where
  "is_yuv pix_fmt \<longleftrightarrow> pix_fmt = V4L2_PIX_FMT_YUYV \<or> pix_fmt = V4L2_PIX_FMT_YUV32 \<or>
     pix_fmt = V4L2_PIX_FMT_YUV444M \<or> pix_fmt = V4L2_PIX_FMT_YUV24 \<or> pix_fmt = V4L2_PIX_FMT_NV12"

section \<open>Output buffers\<close>

text \<open>The two bits of the status register that name the buffer in use are swapped on some chips.\<close>

definition is_buf_active :: "nat \<Rightarrow> 'a isi_state_scheme \<Rightarrow> bool" where
  "is_buf_active buf_id s =
     (let status = isi_status s; reverse = isi_buf_active_reverse s
      in if buf_id = 1
         then (if reverse then status AND 0x100 \<noteq> 0 else status AND 0x200 \<noteq> 0)
         else (if reverse then status AND 0x200 \<noteq> 0 else status AND 0x100 \<noteq> 0))"

definition isi_chain_buf_config :: "sapi \<Rightarrow> mxc_isi_frame \<Rightarrow> 'a isi_state_scheme \<Rightarrow> 'a isi_state_scheme" where
  "isi_chain_buf_config k frm s =
     (if o_width frm > ISI_2K
      then let s = modify_reg k ISI_REGS CHNL_CTRL
                 (\<lambda>val. (val AND NOT CHNL_CTRL_CHAIN_BUF_MASK) OR
                        push_bit CHNL_CTRL_CHAIN_BUF_OFFSET CHNL_CTRL_CHAIN_BUF_2_CHAIN) s;
               s = (if isi_chain s \<noteq> NullPtr then regmap_write ISI_CHAIN CHNL_CTRL CHNL_CTRL_CLK_EN_MASK s else s)
           in s\<lparr>isi_chain_buf := True\<rparr>
      else let s = modify_reg k ISI_REGS CHNL_CTRL (\<lambda>val. val AND NOT CHNL_CTRL_CHAIN_BUF_MASK) s
           in s\<lparr>isi_chain_buf := False\<rparr>)"

text \<open>The addresses of a buffer: those of the discard buffer, or of the planes of the video buffer.\<close>

definition outbuf_paddr :: "mxc_isi_buffer \<Rightarrow> 'a isi_state_scheme \<Rightarrow> frame_addr" where
  "outbuf_paddr buf s =
     (let dma = (if b_discard buf then cap_discard_dma s else b_plane_dma buf);
          n = (if b_discard buf then cap_num_planes s else b_num_planes buf);
          paddr = (b_paddr buf)\<lparr>fa_y := ucast (dma 0)\<rparr>;
          paddr = (if n = 2 then paddr\<lparr>fa_cb := ucast (dma 1)\<rparr> else paddr)
      in if n = 3 then paddr\<lparr>fa_cb := ucast (dma 1), fa_cr := ucast (dma 2)\<rparr> else paddr)"

definition mxc_isi_channel_set_outbuf ::
  "sapi \<Rightarrow> mxc_isi_buffer \<Rightarrow> 'a isi_state_scheme \<Rightarrow> mxc_isi_buffer \<times> 'a isi_state_scheme" where
  "mxc_isi_channel_set_outbuf k buf s =
     (let framecount = b_sequence buf;
          paddr = outbuf_paddr buf s;
          buf = buf\<lparr>b_paddr := paddr\<rparr>;
          (val, s) = readl k ISI_REGS CHNL_OUT_BUF_CTRL s
      in if framecount = 0 \<or> is_buf_active 2 s \<and> framecount \<noteq> 1
         then let s = writel ISI_REGS CHNL_OUT_BUF1_ADDR_Y (fa_y paddr) s;
                  s = writel ISI_REGS CHNL_OUT_BUF1_ADDR_U (fa_cb paddr) s;
                  s = writel ISI_REGS CHNL_OUT_BUF1_ADDR_V (fa_cr paddr) s;
                  val = val XOR CHNL_OUT_BUF_CTRL_LOAD_BUF1_ADDR_MASK
              in (buf\<lparr>b_id := MXC_ISI_BUF1\<rparr>, writel ISI_REGS CHNL_OUT_BUF_CTRL val s)
         else if framecount = 1 \<or> is_buf_active 1 s
         then let s = writel ISI_REGS CHNL_OUT_BUF2_ADDR_Y (fa_y paddr) s;
                  s = writel ISI_REGS CHNL_OUT_BUF2_ADDR_U (fa_cb paddr) s;
                  s = writel ISI_REGS CHNL_OUT_BUF2_ADDR_V (fa_cr paddr) s;
                  val = val XOR CHNL_OUT_BUF_CTRL_LOAD_BUF2_ADDR_MASK
              in (buf\<lparr>b_id := MXC_ISI_BUF2\<rparr>, writel ISI_REGS CHNL_OUT_BUF_CTRL val s)
         else (buf, writel ISI_REGS CHNL_OUT_BUF_CTRL val s))"

definition mxc_isi_channel_set_m2m_src_addr ::
  "mxc_isi_buffer \<Rightarrow> 'a isi_state_scheme \<Rightarrow> mxc_isi_buffer \<times> 'a isi_state_scheme" where
  "mxc_isi_channel_set_m2m_src_addr buf s =
     (let paddr = (b_paddr buf)\<lparr>fa_y := ucast (b_plane_dma buf 0)\<rparr>
      in (buf\<lparr>b_paddr := paddr\<rparr>, writel ISI_REGS CHNL_IN_BUF_ADDR (fa_y paddr) s))"

section \<open>Reset and source\<close>

definition mxc_isi_channel_sw_reset :: "sapi \<Rightarrow> 'a isi_state_scheme \<Rightarrow> 'a isi_state_scheme" where
  "mxc_isi_channel_sw_reset k s =
     (let (val, s) = readl k ISI_REGS CHNL_CTRL s;
          val = val OR CHNL_CTRL_SW_RST;
          s = writel ISI_REGS CHNL_CTRL val s;
          s = emit (Soc (Mdelay 5)) s;
          val = val AND NOT CHNL_CTRL_SW_RST
      in writel ISI_REGS CHNL_CTRL val s)"

text \<open>The switch of \<^verbatim>\<open>mxc_isi_channel_source_config\<close>: the bits of an input.  Unknown inputs set none.\<close>

definition isi_source_bits :: "mxc_isi_chan_src \<Rightarrow> u32 \<Rightarrow> u32 \<Rightarrow> u32" where
  "isi_source_bits src in_port sub =
     (let vc = (if sub \<le> CHNL_CTRL_MIPI_VC_ID_VC3 \<and> sub \<ge> CHNL_CTRL_MIPI_VC_ID_VC0
                then push_bit CHNL_CTRL_MIPI_VC_ID_OFFSET sub else 0)
      in if in_port = ISI_INPUT_INTERFACE_MIPI0_CSI2 then src_mipi0 src OR vc
         else if in_port = ISI_INPUT_INTERFACE_MIPI1_CSI2 then src_mipi1 src OR vc
         else if in_port = ISI_INPUT_INTERFACE_DC0 then src_dc0 src
         else if in_port = ISI_INPUT_INTERFACE_DC1 then src_dc1 src
         else if in_port = ISI_INPUT_INTERFACE_HDMI then src_hdmi src
         else if in_port = ISI_INPUT_INTERFACE_PARALLEL_CSI then src_csi src
         else if in_port = ISI_INPUT_INTERFACE_MEM
         then src_mem src OR push_bit CHNL_CTRL_SRC_TYPE_OFFSET CHNL_CTRL_SRC_TYPE_MEMORY
         else 0)"

definition mxc_isi_channel_source_config :: "sapi \<Rightarrow> 'a isi_state_scheme \<Rightarrow> 'a isi_state_scheme" where
  "mxc_isi_channel_source_config k s =
     modify_reg k ISI_REGS CHNL_CTRL
       (\<lambda>val. (val AND NOT (CHNL_CTRL_MIPI_VC_ID_MASK OR CHNL_CTRL_SRC_INPUT_MASK OR CHNL_CTRL_SRC_TYPE_MASK)) OR
              isi_source_bits (pd_chan_src (isi_pdata s)) (isi_in_port s) (isi_sub_in_port s)) s"

section \<open>The image pipeline\<close>

definition mxc_isi_channel_set_flip :: "sapi \<Rightarrow> 'a isi_state_scheme \<Rightarrow> 'a isi_state_scheme" where
  "mxc_isi_channel_set_flip k s =
     modify_reg k ISI_REGS CHNL_IMG_CTRL
       (\<lambda>val. let val = val AND NOT (CHNL_IMG_CTRL_VFLIP_EN_MASK OR CHNL_IMG_CTRL_HFLIP_EN_MASK);
                  val = (if isi_vflip s
                         then val OR push_bit CHNL_IMG_CTRL_VFLIP_EN_OFFSET CHNL_IMG_CTRL_VFLIP_EN_ENABLE else val)
              in if isi_hflip s
                 then val OR push_bit CHNL_IMG_CTRL_HFLIP_EN_OFFSET CHNL_IMG_CTRL_HFLIP_EN_ENABLE else val) s"

definition isi_write_coeffs :: "nat \<Rightarrow> 'a isi_state_scheme \<Rightarrow> 'a isi_state_scheme" where
  "isi_write_coeffs csc s =
     (let s = writel ISI_REGS CHNL_CSC_COEFF0 (coeffs ! csc ! 0) s;
          s = writel ISI_REGS CHNL_CSC_COEFF1 (coeffs ! csc ! 1) s;
          s = writel ISI_REGS CHNL_CSC_COEFF2 (coeffs ! csc ! 2) s;
          s = writel ISI_REGS CHNL_CSC_COEFF3 (coeffs ! csc ! 3) s;
          s = writel ISI_REGS CHNL_CSC_COEFF4 (coeffs ! csc ! 4) s
      in writel ISI_REGS CHNL_CSC_COEFF5 (coeffs ! csc ! 5) s)"

text \<open>The formats are dereferenced after the first register read.\<close>

definition mxc_isi_channel_set_csc ::
  "sapi \<Rightarrow> mxc_isi_frame \<Rightarrow> mxc_isi_frame \<Rightarrow> 'a isi_state_scheme \<Rightarrow> 'a isi_state_scheme" where
  "mxc_isi_channel_set_csc k src_f dst_f s =
     (let (val, s) = readl k ISI_REGS CHNL_IMG_CTRL s;
          val = val AND NOT (CHNL_IMG_CTRL_FORMAT_MASK OR CHNL_IMG_CTRL_YCBCR_MODE_MASK OR
                             CHNL_IMG_CTRL_CSC_BYPASS_MASK OR CHNL_IMG_CTRL_CSC_MODE_MASK)
      in case f_fmt dst_f of None \<Rightarrow> emit NullDeref s | Some dst_fmt \<Rightarrow>
      let val = val OR push_bit CHNL_IMG_CTRL_FORMAT_OFFSET (if_color dst_fmt);
          s = s\<lparr>isi_cscen := True\<rparr>
      in case f_fmt src_f of None \<Rightarrow> emit NullDeref s | Some src_fmt \<Rightarrow>
      if is_yuv (if_fourcc src_fmt) \<and> is_rgb (if_fourcc dst_fmt)
      then let val = val OR push_bit CHNL_IMG_CTRL_CSC_MODE_OFFSET CHNL_IMG_CTRL_CSC_MODE_YCBCR2RGB;
               val = val OR push_bit CHNL_IMG_CTRL_YCBCR_MODE_OFFSET CHNL_IMG_CTRL_YCBCR_MODE_ENABLE;
               s = isi_write_coeffs 0 s
           in writel ISI_REGS CHNL_IMG_CTRL val s
      else if is_rgb (if_fourcc src_fmt) \<and> is_yuv (if_fourcc dst_fmt)
      then let val = val OR push_bit CHNL_IMG_CTRL_CSC_MODE_OFFSET CHNL_IMG_CTRL_CSC_MODE_RGB2YCBCR;
               s = isi_write_coeffs 1 s
           in writel ISI_REGS CHNL_IMG_CTRL val s
      else let s = s\<lparr>isi_cscen := False\<rparr>
           in writel ISI_REGS CHNL_IMG_CTRL (val OR CHNL_IMG_CTRL_CSC_BYPASS_ENABLE) s)"

text \<open>A rectangle, its signed corner as the bits of the register arithmetic.\<close>

record v4l2_rect =
  r_left :: u32
  r_top :: u32
  r_width :: u32
  r_height :: u32

definition mxc_isi_channel_set_alpha_roi0 :: "v4l2_rect \<Rightarrow> 'a isi_state_scheme \<Rightarrow> 'a isi_state_scheme" where
  "mxc_isi_channel_set_alpha_roi0 rect s =
     (let val0 = push_bit 16 (r_left rect) OR r_top rect;
          s = writel ISI_REGS CHNL_ROI_0_ULC val0 s;
          val1 = push_bit 16 (r_width rect) OR r_height rect
      in writel ISI_REGS CHNL_ROI_0_LRC (val0 + val1) s)"

definition mxc_isi_channel_set_alpha :: "sapi \<Rightarrow> 'a isi_state_scheme \<Rightarrow> 'a isi_state_scheme" where
  "mxc_isi_channel_set_alpha k s =
     modify_reg k ISI_REGS CHNL_IMG_CTRL
       (\<lambda>val. let val = val AND NOT (CHNL_IMG_CTRL_GBL_ALPHA_VAL_MASK OR CHNL_IMG_CTRL_GBL_ALPHA_EN_MASK)
              in if isi_alphaen s
                 then val OR (push_bit CHNL_IMG_CTRL_GBL_ALPHA_VAL_OFFSET (ucast (isi_alpha s)) OR
                              push_bit CHNL_IMG_CTRL_GBL_ALPHA_EN_OFFSET CHNL_IMG_CTRL_GBL_ALPHA_EN_ENABLE)
                 else val) s"

definition set_thd_field :: "mxc_isi_panic_thd \<Rightarrow> u32 \<Rightarrow> u32" where
  "set_thd_field t val = (val AND NOT (thd_mask t)) OR push_bit (unat (thd_offset t)) (threshold t)"

definition mxc_isi_channel_set_panic_threshold :: "sapi \<Rightarrow> 'a isi_state_scheme \<Rightarrow> 'a isi_state_scheme" where
  "mxc_isi_channel_set_panic_threshold k s =
     (let set_thd = pd_set_thd (isi_pdata s)
      in modify_reg k ISI_REGS CHNL_OUT_BUF_CTRL
           (\<lambda>val. set_thd_field (panic_set_thd_v set_thd)
              (set_thd_field (panic_set_thd_u set_thd) (set_thd_field (panic_set_thd_y set_thd) val))) s)"

definition mxc_isi_channel_set_chain_buf :: "sapi \<Rightarrow> 'a isi_state_scheme \<Rightarrow> 'a isi_state_scheme" where
  "mxc_isi_channel_set_chain_buf k s =
     (if isi_chain_buf s
      then modify_reg k ISI_REGS CHNL_CTRL
             (\<lambda>val. (val AND NOT CHNL_CTRL_CHAIN_BUF_MASK) OR
                    push_bit CHNL_CTRL_CHAIN_BUF_OFFSET CHNL_CTRL_CHAIN_BUF_2_CHAIN) s
      else s)"

definition mxc_isi_channel_deinterlace_init :: "'a isi_state_scheme \<Rightarrow> 'a isi_state_scheme" where
  "mxc_isi_channel_deinterlace_init s = s"

definition mxc_isi_channel_set_deinterlace :: "sapi \<Rightarrow> 'a isi_state_scheme \<Rightarrow> 'a isi_state_scheme" where
  "mxc_isi_channel_set_deinterlace k s =
     (let (val, s) = readl k ISI_REGS CHNL_IMG_CTRL s;
          val = val AND NOT CHNL_IMG_CTRL_DEINT_MASK;
          d = ucast (isi_deinterlace s) :: u32;
          val = (if d \<noteq> 0 then val OR push_bit CHNL_IMG_CTRL_DEINT_OFFSET d else val);
          s = (if d = CHNL_IMG_CTRL_DEINT_LDOUBLE_ODD_EVEN \<or> d = CHNL_IMG_CTRL_DEINT_LDOUBLE_EVEN_ODD
               then mxc_isi_channel_deinterlace_init s else s)
      in writel ISI_REGS CHNL_IMG_CTRL val s)"

text \<open>
  The divisions of \<^verbatim>\<open>mxc_isi_channel_set_crop\<close> come before any register is written.
\<close>

definition mxc_isi_channel_set_crop :: "sapi \<Rightarrow> 'a isi_state_scheme \<Rightarrow> 'a isi_state_scheme" where
  "mxc_isi_channel_set_crop k s =
     (let src_f = cap_src_f s;
          (val, s) = readl k ISI_REGS CHNL_IMG_CTRL s;
          val = val AND NOT CHNL_IMG_CTRL_CROP_EN_MASK
      in if o_height src_f = f_height src_f \<and> o_width src_f = f_width src_f
         then let s = s\<lparr>isi_crop := False\<rparr> in writel ISI_REGS CHNL_IMG_CTRL val s
         else if isi_scale s \<and> (isi_xfactor s = 0 \<or> isi_yfactor s = 0) then emit (Soc DivByZero) s
         else let cropx = (\<lambda>v. if isi_scale s
                    then drop_bit (unat (isi_pre_dec_x s)) (push_bit 12 v div isi_xfactor s) else v);
                  cropy = (\<lambda>v. if isi_scale s
                    then drop_bit (unat (isi_pre_dec_y s)) (push_bit 12 v div isi_yfactor s) else v);
                  s = s\<lparr>isi_crop := True\<rparr>;
                  val = val OR push_bit CHNL_IMG_CTRL_CROP_EN_OFFSET CHNL_IMG_CTRL_CROP_EN_ENABLE;
                  val0 = cropy (v_off src_f) OR push_bit CHNL_CROP_ULC_X_OFFSET (cropx (h_off src_f));
                  val1 = cropy (f_height src_f) OR push_bit CHNL_CROP_LRC_X_OFFSET (cropx (f_width src_f));
                  s = writel ISI_REGS CHNL_CROP_ULC val0 s;
                  s = writel ISI_REGS CHNL_CROP_LRC (val1 + val0) s
              in writel ISI_REGS CHNL_IMG_CTRL val s)"

section \<open>Scaling\<close>

definition mxc_isi_channel_clear_scaling :: "sapi \<Rightarrow> 'a isi_state_scheme \<Rightarrow> 'a isi_state_scheme" where
  "mxc_isi_channel_clear_scaling k s =
     (let s = writel ISI_REGS CHNL_SCALE_FACTOR 0x10001000 s
      in modify_reg k ISI_REGS CHNL_IMG_CTRL
           (\<lambda>val0. val0 AND NOT (CHNL_IMG_CTRL_DEC_X_MASK OR CHNL_IMG_CTRL_DEC_Y_MASK)) s)"

text \<open>One axis of the scaler: the factor in units of 1/4096 and the logarithm of the decimation.\<close>

definition isi_scale_axis :: "u32 \<Rightarrow> u32 \<Rightarrow> u32 \<times> u32" where
  "isi_scale_axis src dst =
     (let ratio = src div dst
      in if ratio > 1
         then let (dec, e) = (if ratio < 4 then (2, 1) else if ratio < 8 then (4, 2) else (8, 3))
              in (src * 0x1000 div (dst * dec), e)
         else (src * 0x1000 div dst, 0))"

definition isi_clamp_scale :: "u32 \<Rightarrow> u32" where
  "isi_clamp_scale v = (if v > ISI_DOWNSCALE_THRESHOLD then ISI_DOWNSCALE_THRESHOLD else v)"

definition mxc_isi_channel_set_scaling ::
  "sapi \<Rightarrow> mxc_isi_frame \<Rightarrow> mxc_isi_frame \<Rightarrow> 'a isi_state_scheme \<Rightarrow> 'a isi_state_scheme" where
  "mxc_isi_channel_set_scaling k src_f dst_f s =
     (if f_height dst_f = f_height src_f \<and> f_width dst_f = f_width src_f
      then mxc_isi_channel_clear_scaling k (s\<lparr>isi_scale := False\<rparr>)
      else let s = s\<lparr>isi_scale := True\<rparr>
      in if f_width dst_f = 0 \<or> f_height dst_f = 0 then emit (Soc DivByZero) s
      else let (xscale, xdec) = isi_scale_axis (f_width src_f) (f_width dst_f);
               (yscale, ydec) = isi_scale_axis (f_height src_f) (f_height dst_f);
               s = modify_reg k ISI_REGS CHNL_IMG_CTRL
                 (\<lambda>val0. let val0 = val0 OR CHNL_IMG_CTRL_YCBCR_MODE_MASK;
                             val0 = val0 AND NOT (CHNL_IMG_CTRL_DEC_X_MASK OR CHNL_IMG_CTRL_DEC_Y_MASK)
                         in val0 OR (push_bit CHNL_IMG_CTRL_DEC_X_OFFSET xdec OR
                                     push_bit CHNL_IMG_CTRL_DEC_Y_OFFSET ydec)) s;
               val1 = isi_clamp_scale xscale OR push_bit CHNL_SCALE_FACTOR_Y_SCALE_OFFSET (isi_clamp_scale yscale);
               s = writel ISI_REGS CHNL_SCALE_FACTOR val1 s;
               val1 = o_width dst_f OR push_bit CHNL_SCL_IMG_CFG_HEIGHT_OFFSET (o_height dst_f);
               s = writel ISI_REGS CHNL_SCL_IMG_CFG val1 s
      in writel ISI_REGS CHNL_SCALE_OFFSET 0 s)"

section \<open>Initialising and configuring a channel\<close>

definition mxc_isi_channel_init :: "sapi \<Rightarrow> 'a isi_state_scheme \<Rightarrow> 'a isi_state_scheme" where
  "mxc_isi_channel_init k s =
     (let s = mxc_isi_channel_sw_reset k s
      in modify_reg k ISI_REGS CHNL_CTRL
           (\<lambda>val. val OR push_bit CHNL_CTRL_CLK_EN_OFFSET CHNL_CTRL_CLK_EN_ENABLE) s)"

definition mxc_isi_channel_deinit :: "sapi \<Rightarrow> 'a isi_state_scheme \<Rightarrow> 'a isi_state_scheme" where
  "mxc_isi_channel_deinit k s =
     (let s = mxc_isi_channel_sw_reset k s;
          s = writel ISI_REGS CHNL_CTRL (push_bit CHNL_CTRL_CLK_EN_OFFSET CHNL_CTRL_CLK_EN_DISABLE) s
      in if isi_chain_buf s \<and> isi_chain s \<noteq> NullPtr then regmap_write ISI_CHAIN CHNL_CTRL 0x0 s else s)"

definition mxc_isi_channel_config ::
  "sapi \<Rightarrow> mxc_isi_frame \<Rightarrow> mxc_isi_frame \<Rightarrow> 'a isi_state_scheme \<Rightarrow> 'a isi_state_scheme" where
  "mxc_isi_channel_config k src_f dst_f s =
     (let s = isi_chain_buf_config k src_f s;
          val = o_width src_f OR push_bit CHNL_IMG_CFG_HEIGHT_OFFSET (o_height src_f);
          s = writel ISI_REGS CHNL_IMG_CFG val s;
          s = writel ISI_REGS CHNL_SCL_IMG_CFG val s;
          s = mxc_isi_channel_set_csc k src_f dst_f s;
          s = mxc_isi_channel_set_scaling k src_f dst_f s;
          s = mxc_isi_channel_source_config k s;
          s = writel ISI_REGS CHNL_OUT_BUF_PITCH (bytesperline dst_f ! 0) s;
          s = mxc_isi_channel_set_flip k s;
          s = mxc_isi_channel_set_alpha k s;
          s = mxc_isi_channel_set_panic_threshold k s
      in modify_reg k ISI_REGS CHNL_CTRL
           (\<lambda>val. let val = val AND NOT CHNL_CTRL_CHNL_BYPASS_MASK
                  in if \<not> isi_cscen s \<and> \<not> isi_scale s
                     then val OR push_bit CHNL_CTRL_CHNL_BYPASS_OFFSET CHNL_CTRL_CHNL_BYPASS_ENABLE else val) s)"

section \<open>Interrupts, enabling and reading from memory\<close>

definition mxc_isi_enable_irq :: "'a isi_state_scheme \<Rightarrow> 'a isi_state_scheme" where
  "mxc_isi_enable_irq s =
     (let ier_reg = pd_ier_reg (isi_pdata s);
          val = CHNL_IER_FRM_RCVD_EN_MASK OR CHNL_IER_AXI_WR_ERR_U_EN_MASK OR
                CHNL_IER_AXI_WR_ERR_V_EN_MASK OR CHNL_IER_AXI_WR_ERR_Y_EN_MASK;
          val = val OR (reg_mask (oflw_y_buf_en ier_reg) OR reg_mask (oflw_u_buf_en ier_reg) OR
                        reg_mask (oflw_v_buf_en ier_reg));
          val = val OR (reg_mask (excs_oflw_y_buf_en ier_reg) OR reg_mask (excs_oflw_u_buf_en ier_reg) OR
                        reg_mask (excs_oflw_v_buf_en ier_reg));
          val = val OR (reg_mask (panic_y_buf_en ier_reg) OR reg_mask (panic_u_buf_en ier_reg) OR
                        reg_mask (panic_v_buf_en ier_reg))
      in writel ISI_REGS CHNL_IER val s)"

definition mxc_isi_disable_irq :: "'a isi_state_scheme \<Rightarrow> 'a isi_state_scheme" where
  "mxc_isi_disable_irq s = writel ISI_REGS CHNL_IER 0 s"

definition mxc_isi_get_irq_status :: "sapi \<Rightarrow> 'a isi_state_scheme \<Rightarrow> u32 \<times> 'a isi_state_scheme" where
  "mxc_isi_get_irq_status k s = readl k ISI_REGS CHNL_STS s"

definition mxc_isi_clean_irq_status :: "u32 \<Rightarrow> 'a isi_state_scheme \<Rightarrow> 'a isi_state_scheme" where
  "mxc_isi_clean_irq_status val s = writel ISI_REGS CHNL_STS val s"

definition mxc_isi_clean_registers :: "sapi \<Rightarrow> 'a isi_state_scheme \<Rightarrow> 'a isi_state_scheme" where
  "mxc_isi_clean_registers k s =
     (let (status, s) = mxc_isi_get_irq_status k s in mxc_isi_clean_irq_status status s)"

definition mxc_isi_m2m_start_read :: "sapi \<Rightarrow> 'a isi_state_scheme \<Rightarrow> 'a isi_state_scheme" where
  "mxc_isi_m2m_start_read k s =
     (let (val, s) = readl k ISI_REGS CHNL_MEM_RD_CTRL s;
          val = val AND NOT CHNL_MEM_RD_CTRL_READ_MEM_MASK;
          s = writel ISI_REGS CHNL_MEM_RD_CTRL val s;
          s = emit (Soc (Udelay 300)) s;
          val = val OR push_bit CHNL_MEM_RD_CTRL_READ_MEM_OFFSET CHNL_MEM_RD_CTRL_READ_MEM_ENABLE
      in writel ISI_REGS CHNL_MEM_RD_CTRL val s)"

text \<open>The register dump exists in debugging builds only.\<close>

definition dump_isi_regs :: "'a isi_state_scheme \<Rightarrow> 'a isi_state_scheme" where
  "dump_isi_regs s = s"

definition mxc_isi_channel_enable :: "sapi \<Rightarrow> bool \<Rightarrow> 'a isi_state_scheme \<Rightarrow> 'a isi_state_scheme" where
  "mxc_isi_channel_enable k m2m_enabled s =
     (let src_mem = src_mem (pd_chan_src (isi_pdata s));
          s = modify_reg k ISI_REGS CHNL_CTRL
            (\<lambda>val. let val = val OR push_bit CHNL_CTRL_BLANK_PXL_OFFSET 0xff;
                       val = (if m2m_enabled
                              then (val AND NOT (CHNL_CTRL_SRC_TYPE_MASK OR CHNL_CTRL_SRC_INPUT_MASK)) OR
                                   (push_bit CHNL_CTRL_SRC_INPUT_OFFSET src_mem OR
                                    push_bit CHNL_CTRL_SRC_TYPE_OFFSET CHNL_CTRL_SRC_TYPE_MEMORY)
                              else val);
                       val = val AND NOT CHNL_CTRL_CHNL_EN_MASK
                   in val OR push_bit CHNL_CTRL_CHNL_EN_OFFSET CHNL_CTRL_CHNL_EN_ENABLE) s;
          s = mxc_isi_clean_registers k s;
          s = mxc_isi_enable_irq s
      in if m2m_enabled then mxc_isi_m2m_start_read k s
         else emit (Msleep 300) (dump_isi_regs s))"

definition mxc_isi_channel_disable :: "sapi \<Rightarrow> 'a isi_state_scheme \<Rightarrow> 'a isi_state_scheme" where
  "mxc_isi_channel_disable k s =
     (let s = mxc_isi_disable_irq s
      in modify_reg k ISI_REGS CHNL_CTRL
           (\<lambda>val. let val = val AND NOT (CHNL_CTRL_CHNL_EN_MASK OR CHNL_CTRL_CLK_EN_MASK);
                      val = val OR push_bit CHNL_CTRL_CHNL_EN_OFFSET CHNL_CTRL_CHNL_EN_DISABLE
                  in val OR push_bit CHNL_CTRL_CLK_EN_OFFSET CHNL_CTRL_CLK_EN_DISABLE) s)"

definition mxc_isi_m2m_config_src :: "sapi \<Rightarrow> mxc_isi_frame \<Rightarrow> 'a isi_state_scheme \<Rightarrow> 'a isi_state_scheme" where
  "mxc_isi_m2m_config_src k src_f s =
     (let (val, s) = readl k ISI_REGS CHNL_MEM_RD_CTRL s;
          val = val AND NOT CHNL_MEM_RD_CTRL_IMG_TYPE_MASK
      in case f_fmt src_f of
           None \<Rightarrow> emit NullDeref s
         | Some fmt \<Rightarrow>
      let s = writel ISI_REGS CHNL_MEM_RD_CTRL (val OR push_bit CHNL_MEM_RD_CTRL_IMG_TYPE_OFFSET (if_color fmt)) s;
          s = writel ISI_REGS CHNL_IMG_CFG (push_bit CHNL_IMG_CFG_WIDTH_OFFSET (f_width src_f) OR
                                            push_bit CHNL_IMG_CFG_HEIGHT_OFFSET (f_height src_f)) s
      in writel ISI_REGS CHNL_IN_BUF_PITCH (push_bit CHNL_IN_BUF_PITCH_LINE_PITCH_OFFSET (bytesperline src_f ! 0)) s)"

definition mxc_isi_m2m_config_dst :: "sapi \<Rightarrow> mxc_isi_frame \<Rightarrow> 'a isi_state_scheme \<Rightarrow> 'a isi_state_scheme" where
  "mxc_isi_m2m_config_dst k dst_f s =
     (let (val, s) = readl k ISI_REGS CHNL_IMG_CTRL s;
          val = val AND NOT CHNL_IMG_CTRL_FORMAT_MASK
      in case f_fmt dst_f of
           None \<Rightarrow> emit NullDeref s
         | Some fmt \<Rightarrow>
      let s = writel ISI_REGS CHNL_IMG_CTRL (val OR push_bit CHNL_IMG_CTRL_FORMAT_OFFSET (if_color fmt)) s
      in modify_reg k ISI_REGS CHNL_OUT_BUF_PITCH
           (\<lambda>val. (val AND NOT CHNL_IN_BUF_PITCH_LINE_PITCH_MASK) OR
                  push_bit CHNL_OUT_BUF_PITCH_LINE_PITCH_OFFSET (bytesperline dst_f ! 0)) s)"

section \<open>What the register code leaves alone\<close>

text \<open>The fields of a channel, from equal extensions of the history.\<close>

lemma isi_more_fields:
  fixes s t :: "'a isi_state_scheme"
  assumes "kstate.more s = kstate.more t"
  shows
  "isi_pdata s = isi_pdata t" "isi_chain s = isi_chain t" "isi_chain_buf s = isi_chain_buf t"
  "isi_alpha s = isi_alpha t" "isi_buf_active_reverse s = isi_buf_active_reverse t"
  "isi_xfactor s = isi_xfactor t" "isi_yfactor s = isi_yfactor t" "isi_pre_dec_x s = isi_pre_dec_x t"
  "isi_pre_dec_y s = isi_pre_dec_y t" "isi_status s = isi_status t" "isi_in_port s = isi_in_port t"
  "isi_sub_in_port s = isi_sub_in_port t" "isi_hflip s = isi_hflip t" "isi_vflip s = isi_vflip t"
  "isi_cscen s = isi_cscen t" "isi_scale s = isi_scale t" "isi_alphaen s = isi_alphaen t"
  "isi_crop s = isi_crop t" "isi_deinterlace s = isi_deinterlace t" "isi_is_streaming s = isi_is_streaming t"
  "isi_m2m_enabled s = isi_m2m_enabled t" "isi_usage_count s = isi_usage_count t" "isi_id s = isi_id t"
  "isi_clks s = isi_clks t" "isi_soft_resetn s = isi_soft_resetn t" "isi_clk_enable s = isi_clk_enable t"
  "cap_num_planes s = cap_num_planes t" "cap_discard_dma s = cap_discard_dma t" "cap_src_f s = cap_src_f t"
  using assms by (cases s; cases t; simp)+

lemma more_modify_reg [simp]: "kstate.more (modify_reg k b off f s) = kstate.more s"
  by (simp add: modify_reg_upd)

lemmas isi_emit [simp] = isi_more_fields [OF more_emit]
lemmas isi_writel [simp] = isi_more_fields [OF more_writel]
lemmas isi_readl [simp] = isi_more_fields [OF more_readl]
lemmas isi_modify [simp] = isi_more_fields [OF more_modify_reg]
lemmas isi_regmap [simp] = isi_more_fields [OF more_regmap_write]

section \<open>Registers that read back\<close>

text \<open>The registers that the code modifies in steps read back what was written.\<close>

definition isi_hw :: "sapi \<Rightarrow> bool" where
  "isi_hw k \<longleftrightarrow> plain_reg k ISI_REGS CHNL_CTRL \<and> plain_reg k ISI_REGS CHNL_IMG_CTRL \<and>
     plain_reg k ISI_REGS CHNL_OUT_BUF_CTRL \<and> plain_reg k ISI_REGS CHNL_OUT_BUF_PITCH"

lemma ideal_isi_hw [simp]: "isi_hw ideal_soc"
  by (simp add: isi_hw_def)

text \<open>Modifying a register that is known: no reset as long as the reset bit stays clear.\<close>

lemma isi_modify_known:
  assumes "isi_hw k" and "regs s (ISI_REGS, off) = Some c" and "off \<in> {CHNL_CTRL, CHNL_IMG_CTRL, CHNL_OUT_BUF_CTRL}"
    and "off = CHNL_CTRL \<Longrightarrow> \<not> bit (f c) 24"
  shows "regs (modify_reg k ISI_REGS off f s) = (regs s)((ISI_REGS, off) \<mapsto> f c)"
proof -
  have "plain_reg k ISI_REGS off" using assms(1,3) by (auto simp: isi_hw_def)
  from plain_reg_read [OF this] assms(2) have "mmio k (hist s) ISI_REGS off = c" by simp
  with assms(4) show ?thesis by simp
qed

lemma isi_modify_other:
  "off \<noteq> CHNL_CTRL \<Longrightarrow> regs (modify_reg k ISI_REGS off f s) =
     (regs s)((ISI_REGS, off) \<mapsto> f (mmio k (hist s) ISI_REGS off))"
  by simp

lemma isi_writel_other [simp]:
  "off \<noteq> CHNL_CTRL \<Longrightarrow> regs (writel ISI_REGS off v s) = (regs s)((ISI_REGS, off) \<mapsto> v)"
  by simp

text \<open>The state after initialising: only the control register is known, with the clock on.\<close>

lemma isi_init_regs:
  assumes "isi_hw k"
  shows "\<exists>c. regs (mxc_isi_channel_init k s) =
      (\<lambda>(b, off). if b = ISI_REGS then if off = CHNL_CTRL then Some c else None else regs s (b, off)) \<and>
    bit c 30 \<and> \<not> bit c 24"
proof -
  let ?v = "mmio k (hist s) ISI_REGS CHNL_CTRL"
  let ?t = "mxc_isi_channel_sw_reset k s" and ?c = "(?v OR CHNL_CTRL_SW_RST) AND NOT CHNL_CTRL_SW_RST"
  have t: "regs ?t = (\<lambda>(b, off). if b = ISI_REGS then if off = CHNL_CTRL then Some ?c else None else regs s (b, off))"
    by (rule ext) (auto simp: mxc_isi_channel_sw_reset_def Let_def case_prod_beta writel_def bit_simps)
  then have "regs ?t (ISI_REGS, CHNL_CTRL) = Some ?c" by simp
  from isi_modify_known [OF assms this, of "\<lambda>val. val OR push_bit 30 1"]
  have "regs (mxc_isi_channel_init k s) = (regs ?t)((ISI_REGS, CHNL_CTRL) \<mapsto> ?c OR push_bit 30 1)"
    by (simp add: mxc_isi_channel_init_def Let_def bit_simps)
  then have "regs (mxc_isi_channel_init k s) = (\<lambda>(b, off). if b = ISI_REGS then
      if off = CHNL_CTRL then Some (?c OR push_bit 30 1) else None else regs s (b, off))"
    unfolding t by (auto simp: fun_eq_iff)
  then show ?thesis by (intro exI conjI) (assumption, simp_all add: bit_simps)
qed

lemma isi_init_fields [simp]:
  "kstate.more (mxc_isi_channel_init k s) = kstate.more s"
  by (simp add: mxc_isi_channel_init_def mxc_isi_channel_sw_reset_def Let_def case_prod_beta modify_reg_upd)

lemmas isi_init_same [simp] = isi_more_fields [OF isi_init_fields]

section \<open>What a configured channel looks like\<close>

definition isi_converts :: "mxc_isi_fmt \<Rightarrow> mxc_isi_fmt \<Rightarrow> bool" where
  "isi_converts sf df \<longleftrightarrow> is_yuv (if_fourcc sf) \<and> is_rgb (if_fourcc df) \<or> is_rgb (if_fourcc sf) \<and> is_yuv (if_fourcc df)"

definition isi_scales :: "mxc_isi_frame \<Rightarrow> mxc_isi_frame \<Rightarrow> bool" where
  "isi_scales src dst \<longleftrightarrow> \<not> (f_height dst = f_height src \<and> f_width dst = f_width src)"

text \<open>
  The bits of an input fit the fields of the control register.
\<close>

definition chan_src_ok :: "mxc_isi_chan_src \<Rightarrow> bool" where
  "chan_src_ok c \<longleftrightarrow> (\<forall>v \<in> {src_dc0 c, src_dc1 c, src_mipi0 c, src_mipi1 c, src_hdmi c, src_csi c, src_mem c}. v < 8)"

lemma chan_src_tables [simp]: "chan_src_ok mxc_imx8_chan_src" "chan_src_ok mxc_imx8mn_chan_src"
  by (simp_all add: chan_src_ok_def mxc_imx8_chan_src_def mxc_imx8mn_chan_src_def)

lemma source_bits_in:
  assumes "chan_src_ok c" and "bit (isi_source_bits c p q) i"
  shows "i < 3 \<or> i = 4 \<or> i = 6 \<or> i = 7"
proof -
  have low: "i < 3" if "v < 8" "bit v i" for v :: u32
    using word_below_bit [of v 3 i] that by simp
  have q: "i = 6 \<or> i = 7" if "q \<le> 3" "bit (push_bit 6 q) i" for q :: u32
  proof -
    have "6 \<le> i" "bit q (i - 6)" using that(2) by (simp_all add: bit_simps)
    moreover have "q < 2 ^ 2" using that(1) by (simp add: word_le_nat_alt word_less_nat_alt)
    ultimately show ?thesis using word_below_bit [of q 2 "i - 6"] by linarith
  qed
  have 16: "i = 4" if "bit (16 :: u32) i" 
  proof -
    have "bit (push_bit 4 (1 :: u32)) i" using that by simp
    then show ?thesis by (simp only: bit_push_bit_iff bit_1_iff) simp
  qed
  show ?thesis
    using assms low q 16 unfolding isi_source_bits_def chan_src_ok_def Let_def
    by (auto simp: bit_or_iff split: if_splits)
qed

lemma source_bits_mask:
  assumes "chan_src_ok c"
  shows "isi_source_bits c p q AND 0xd7 = isi_source_bits c p q"
proof (rule bit_word_eqI)
  fix i
  assume "i < LENGTH(32)"
  show "bit (isi_source_bits c p q AND 0xd7) i \<longleftrightarrow> bit (isi_source_bits c p q) i"
    using source_bits_in [OF assms, of p q i] by (auto simp: bit_and_iff less_Suc_eq numeral_eq_Suc)
qed

lemma source_bits_high: "chan_src_ok c \<Longrightarrow> 8 \<le> i \<Longrightarrow> \<not> bit (isi_source_bits c p q) i"
  using source_bits_in by fastforce

text \<open>The registers of a channel that scales and converts \<open>src\<close> to \<open>dst\<close>, decoded.\<close>

definition isi_programmed ::
  "mxc_isi_frame \<Rightarrow> mxc_isi_frame \<Rightarrow> mxc_isi_fmt \<Rightarrow> mxc_isi_fmt \<Rightarrow> 'a isi_state_scheme \<Rightarrow> mmio_map \<Rightarrow> bool" where
  "isi_programmed src dst sf df s m \<longleftrightarrow>
     m (ISI_REGS, CHNL_IMG_CFG) = Some (o_width src OR push_bit 16 (o_height src)) \<and>
     m (ISI_REGS, CHNL_SCL_IMG_CFG) = Some (if isi_scales src dst then o_width dst OR push_bit 16 (o_height dst)
                                            else o_width src OR push_bit 16 (o_height src)) \<and>
     m (ISI_REGS, CHNL_OUT_BUF_PITCH) = Some (bytesperline dst ! 0) \<and>
     m (ISI_REGS, CHNL_SCALE_FACTOR) = Some
       (if isi_scales src dst
        then isi_clamp_scale (fst (isi_scale_axis (f_width src) (f_width dst))) OR
             push_bit 16 (isi_clamp_scale (fst (isi_scale_axis (f_height src) (f_height dst))))
        else 0x10001000) \<and>
     (\<exists>img. m (ISI_REGS, CHNL_IMG_CTRL) = Some img \<and> field 24 6 img = if_color df \<and>
        field 10 2 img = (if isi_scales src dst then snd (isi_scale_axis (f_width src) (f_width dst)) else 0) \<and>
        field 8 2 img = (if isi_scales src dst then snd (isi_scale_axis (f_height src) (f_height dst)) else 0) \<and>
        bit img 0 = (\<not> isi_converts sf df) \<and> bit img 5 = isi_hflip s \<and> bit img 6 = isi_vflip s \<and>
        bit img 15 = isi_alphaen s \<and> field 16 8 img = (if isi_alphaen s then ucast (isi_alpha s) else 0)) \<and>
     (\<exists>c. m (ISI_REGS, CHNL_CTRL) = Some c \<and> bit c 30 \<and>
        bit c 29 = (\<not> isi_converts sf df \<and> \<not> isi_scales src dst) \<and>
        field 25 2 c = (if 2048 < o_width src then 1 else 0) \<and>
        c AND 0xd7 = isi_source_bits (pd_chan_src (isi_pdata s)) (isi_in_port s) (isi_sub_in_port s))"

section \<open>The steps of the configuration\<close>

text \<open>Conversion enables and scale of the steps; the rest of the structure is kept.\<close>

lemma isi_chain_config_fields [simp]:
  "isi_pdata (isi_chain_buf_config k f s) = isi_pdata s" "isi_in_port (isi_chain_buf_config k f s) = isi_in_port s"
  "isi_sub_in_port (isi_chain_buf_config k f s) = isi_sub_in_port s"
  "isi_hflip (isi_chain_buf_config k f s) = isi_hflip s" "isi_vflip (isi_chain_buf_config k f s) = isi_vflip s"
  "isi_alphaen (isi_chain_buf_config k f s) = isi_alphaen s" "isi_alpha (isi_chain_buf_config k f s) = isi_alpha s"
  by (simp_all add: isi_chain_buf_config_def Let_def)

lemma isi_csc_fields [simp]:
  "isi_pdata (mxc_isi_channel_set_csc k f g s) = isi_pdata s" "isi_in_port (mxc_isi_channel_set_csc k f g s) = isi_in_port s"
  "isi_sub_in_port (mxc_isi_channel_set_csc k f g s) = isi_sub_in_port s"
  "isi_hflip (mxc_isi_channel_set_csc k f g s) = isi_hflip s" "isi_vflip (mxc_isi_channel_set_csc k f g s) = isi_vflip s"
  "isi_alphaen (mxc_isi_channel_set_csc k f g s) = isi_alphaen s" "isi_alpha (mxc_isi_channel_set_csc k f g s) = isi_alpha s"
  by (simp_all add: mxc_isi_channel_set_csc_def isi_write_coeffs_def Let_def case_prod_beta split: option.split)

lemma isi_scaling_fields [simp]:
  "isi_pdata (mxc_isi_channel_set_scaling k f g s) = isi_pdata s"
  "isi_in_port (mxc_isi_channel_set_scaling k f g s) = isi_in_port s"
  "isi_sub_in_port (mxc_isi_channel_set_scaling k f g s) = isi_sub_in_port s"
  "isi_hflip (mxc_isi_channel_set_scaling k f g s) = isi_hflip s"
  "isi_vflip (mxc_isi_channel_set_scaling k f g s) = isi_vflip s"
  "isi_alphaen (mxc_isi_channel_set_scaling k f g s) = isi_alphaen s"
  "isi_alpha (mxc_isi_channel_set_scaling k f g s) = isi_alpha s"
  "isi_cscen (mxc_isi_channel_set_scaling k f g s) = isi_cscen s"
  "isi_scale (mxc_isi_channel_set_scaling k f g s) = isi_scales f g"
  by (simp_all add: mxc_isi_channel_set_scaling_def mxc_isi_channel_clear_scaling_def isi_scales_def Let_def case_prod_beta)

lemma isi_step_fields [simp]:
  "kstate.more (mxc_isi_channel_source_config k s) = kstate.more s"
  "kstate.more (mxc_isi_channel_set_flip k s) = kstate.more s"
  "kstate.more (mxc_isi_channel_set_alpha k s) = kstate.more s"
  "kstate.more (mxc_isi_channel_set_panic_threshold k s) = kstate.more s"
  by (simp_all add: mxc_isi_channel_source_config_def mxc_isi_channel_set_flip_def mxc_isi_channel_set_alpha_def
      mxc_isi_channel_set_panic_threshold_def Let_def modify_reg_upd)

lemmas isi_source_same [simp] = isi_more_fields [OF isi_step_fields(1)]
lemmas isi_flip_same [simp] = isi_more_fields [OF isi_step_fields(2)]
lemmas isi_alpha_same [simp] = isi_more_fields [OF isi_step_fields(3)]
lemmas isi_panic_same [simp] = isi_more_fields [OF isi_step_fields(4)]

lemma isi_chain_config_regs:
  assumes "isi_hw k" and "regs s (ISI_REGS, CHNL_CTRL) = Some c" and "\<not> bit c 24"
  shows "regs (isi_chain_buf_config k f s) (ISI_REGS, off) = (if off = CHNL_CTRL
      then Some ((c AND NOT 0x6000000) OR (if 2048 < o_width f then push_bit 25 1 else 0))
      else regs s (ISI_REGS, off))"
  using isi_modify_known [OF assms(1,2), of "\<lambda>val. (val AND NOT 0x6000000) OR push_bit 25 1"]
    isi_modify_known [OF assms(1,2), of "\<lambda>val. val AND NOT 0x6000000"] assms(3)
  by (simp add: isi_chain_buf_config_def Let_def bit_simps)

lemma isi_csc_regs:
  assumes "f_fmt src = Some sf" and "f_fmt dst = Some df"
  shows "isi_cscen (mxc_isi_channel_set_csc k src dst s) = isi_converts sf df"
    and "\<exists>img. regs (mxc_isi_channel_set_csc k src dst s) (ISI_REGS, CHNL_IMG_CTRL) = Some img \<and>
      (if_color df < 64 \<longrightarrow> field 24 6 img = if_color df) \<and> bit img 0 = (\<not> isi_converts sf df)"
    and "off \<notin> {CHNL_IMG_CTRL, CHNL_CSC_COEFF0, CHNL_CSC_COEFF1, CHNL_CSC_COEFF2, CHNL_CSC_COEFF3, CHNL_CSC_COEFF4,
      CHNL_CSC_COEFF5} \<Longrightarrow> regs (mxc_isi_channel_set_csc k src dst s) (ISI_REGS, off) = regs s (ISI_REGS, off)"
proof -
  note go = mxc_isi_channel_set_csc_def isi_write_coeffs_def Let_def case_prod_beta assms isi_converts_def
  show "isi_cscen (mxc_isi_channel_set_csc k src dst s) = isi_converts sf df"
    by (simp add: go)
  have f: "field 24 6 ((x AND NOT 0x3F00000F) OR push_bit 24 c OR y) = c" if "c < 64" "field 24 6 y = 0" for x c y :: u32
  proof -
    have "field 24 6 (x AND NOT 0x3F00000F) = 0"
      by (rule field_clear) (simp add: field_def mask_eq_exp_minus_1)
    with that take_bit_below [of c 6] show ?thesis by (simp add: field_or field_push)
  qed
  have z: "field 24 6 (0xA :: u32) = 0" "field 24 6 (6 :: u32) = 0" "field 24 6 (1 :: u32) = 0"
    by (simp_all add: field_def)
  show "\<exists>img. regs (mxc_isi_channel_set_csc k src dst s) (ISI_REGS, CHNL_IMG_CTRL) = Some img \<and>
      (if_color df < 64 \<longrightarrow> field 24 6 img = if_color df) \<and> bit img 0 = (\<not> isi_converts sf df)"
    using f [of "if_color df"] z by (auto simp: go bit_simps or.assoc)
  show "regs (mxc_isi_channel_set_csc k src dst s) (ISI_REGS, off) = regs s (ISI_REGS, off)"
    if "off \<notin> {CHNL_IMG_CTRL, CHNL_CSC_COEFF0, CHNL_CSC_COEFF1, CHNL_CSC_COEFF2, CHNL_CSC_COEFF3, CHNL_CSC_COEFF4,
      CHNL_CSC_COEFF5}"
    using that by (simp add: go)
qed

lemma isi_scale_axis_dec: "snd (isi_scale_axis a b) < 2 ^ 2"
  by (simp add: isi_scale_axis_def Let_def)

lemma isi_scaling_regs:
  fixes src dst :: mxc_isi_frame
  assumes hw: "isi_hw k" and img: "regs s (ISI_REGS, CHNL_IMG_CTRL) = Some img"
    and dst: "f_width dst \<noteq> 0" "f_height dst \<noteq> 0"
  defines "m \<equiv> regs (mxc_isi_channel_set_scaling k src dst s)"
    and "x \<equiv> isi_scale_axis (f_width src) (f_width dst)" and "y \<equiv> isi_scale_axis (f_height src) (f_height dst)"
  shows "\<exists>img'. m (ISI_REGS, CHNL_IMG_CTRL) = Some img' \<and> field 24 6 img' = field 24 6 img \<and> bit img' 0 = bit img 0 \<and>
      field 10 2 img' = (if isi_scales src dst then snd x else 0) \<and>
      field 8 2 img' = (if isi_scales src dst then snd y else 0)"
    and "m (ISI_REGS, CHNL_SCALE_FACTOR) = Some (if isi_scales src dst
      then isi_clamp_scale (fst x) OR push_bit 16 (isi_clamp_scale (fst y)) else 0x10001000)"
    and "m (ISI_REGS, CHNL_SCL_IMG_CFG) = (if isi_scales src dst
      then Some (o_width dst OR push_bit 16 (o_height dst)) else regs s (ISI_REGS, CHNL_SCL_IMG_CFG))"
    and "off \<notin> {CHNL_IMG_CTRL, CHNL_SCALE_FACTOR, CHNL_SCL_IMG_CFG, CHNL_SCALE_OFFSET} \<Longrightarrow>
      m (ISI_REGS, off) = regs s (ISI_REGS, off)"
proof -
  note go = m_def x_def y_def mxc_isi_channel_set_scaling_def mxc_isi_channel_clear_scaling_def Let_def
    case_prod_beta isi_scales_def dst
  have read: "mmio k h ISI_REGS CHNL_IMG_CTRL = v" if "mmio_image h (ISI_REGS, CHNL_IMG_CTRL) = Some v" for h v
    using plain_reg_read [of k ISI_REGS CHNL_IMG_CTRL h] hw that by (simp add: isi_hw_def)
  have imgs: "mmio k (hist s) ISI_REGS CHNL_IMG_CTRL = img"
      "mmio k (hist (writel ISI_REGS CHNL_SCALE_FACTOR v (s\<lparr>isi_scale := b\<rparr>))) ISI_REGS CHNL_IMG_CTRL = img" for v b
    using img by (auto intro: read)
  have kept: "field 24 6 (v AND NOT 0xF00) = field 24 6 v" "field 10 2 (v AND NOT 0xF00) = 0"
      "field 8 2 (v AND NOT 0xF00) = 0" for v :: u32
    by (rule field_keep field_clear, simp add: field_def mask_eq_exp_minus_1)+
  have eight: "field 24 6 (8 :: u32) = 0"
    by (simp add: field_def)
  have d: "field 24 6 (push_bit 10 a) = 0" "field 24 6 (push_bit 8 a) = 0" "field 10 2 (push_bit 10 a) = a"
      "field 10 2 (push_bit 8 a) = 0" "field 8 2 (push_bit 10 a) = 0" "field 8 2 (push_bit 8 a) = a"
    if "a < 2 ^ 2" for a :: u32
    using that field_push_below [OF that] take_bit_below [OF that] by (simp_all add: field_push field_push_above)
  note dx = d [OF isi_scale_axis_dec]
  show "\<exists>img'. m (ISI_REGS, CHNL_IMG_CTRL) = Some img' \<and> field 24 6 img' = field 24 6 img \<and> bit img' 0 = bit img 0 \<and>
      field 10 2 img' = (if isi_scales src dst then snd x else 0) \<and>
      field 8 2 img' = (if isi_scales src dst then snd y else 0)"
    by (simp add: go imgs field_or kept [simplified] eight dx bit_simps)
  show "m (ISI_REGS, CHNL_SCALE_FACTOR) = Some (if isi_scales src dst
      then isi_clamp_scale (fst x) OR push_bit 16 (isi_clamp_scale (fst y)) else 0x10001000)"
    by (simp add: go)
  show "m (ISI_REGS, CHNL_SCL_IMG_CFG) = (if isi_scales src dst
      then Some (o_width dst OR push_bit 16 (o_height dst)) else regs s (ISI_REGS, CHNL_SCL_IMG_CFG))"
    by (simp add: go)
  show "m (ISI_REGS, off) = regs s (ISI_REGS, off)"
    if "off \<notin> {CHNL_IMG_CTRL, CHNL_SCALE_FACTOR, CHNL_SCL_IMG_CFG, CHNL_SCALE_OFFSET}"
    using that by (simp add: go)
qed

text \<open>The flips and the alpha value leave the format and the decimation alone.\<close>

definition img_keeps :: "u32 \<Rightarrow> u32 \<Rightarrow> bool" where
  "img_keeps a b \<longleftrightarrow> field 24 6 a = field 24 6 b \<and> field 10 2 a = field 10 2 b \<and> field 8 2 a = field 8 2 b \<and>
     bit a 0 = bit b 0"

lemma isi_flip_regs:
  assumes "isi_hw k" and "regs s (ISI_REGS, CHNL_IMG_CTRL) = Some img"
  shows "\<exists>img'. regs (mxc_isi_channel_set_flip k s) = (regs s)((ISI_REGS, CHNL_IMG_CTRL) \<mapsto> img') \<and>
    bit img' 5 = isi_hflip s \<and> bit img' 6 = isi_vflip s \<and> img_keeps img' img"
proof -
  have kept: "field 24 6 (v AND NOT 0x60) = field 24 6 v" "field 10 2 (v AND NOT 0x60) = field 10 2 v"
      "field 8 2 (v AND NOT 0x60) = field 8 2 v" for v :: u32
    by (rule field_keep, simp add: field_def)+
  have z: "field 24 6 c = 0" "field 10 2 c = 0" "field 8 2 c = 0" if "c = 0x60 \<or> c = 0x40 \<or> c = (0x20 :: u32)" for c
    using that by (auto simp: field_def)
  show ?thesis
    unfolding mxc_isi_channel_set_flip_def Let_def
    by (subst isi_modify_known [OF assms], simp, simp, rule exI, rule conjI, rule refl)
       (simp add: img_keeps_def bit_simps field_or kept [simplified] z)
qed

lemma isi_alpha_regs:
  assumes "isi_hw k" and "regs s (ISI_REGS, CHNL_IMG_CTRL) = Some img"
  shows "\<exists>img'. regs (mxc_isi_channel_set_alpha k s) = (regs s)((ISI_REGS, CHNL_IMG_CTRL) \<mapsto> img') \<and>
    bit img' 15 = isi_alphaen s \<and> field 16 8 img' = (if isi_alphaen s then ucast (isi_alpha s) else 0) \<and>
    bit img' 5 = bit img 5 \<and> bit img' 6 = bit img 6 \<and> img_keeps img' img"
proof -
  have kept: "field 24 6 (v AND NOT 0xFF8000) = field 24 6 v" "field 10 2 (v AND NOT 0xFF8000) = field 10 2 v"
      "field 8 2 (v AND NOT 0xFF8000) = field 8 2 v" "field 16 8 (v AND NOT 0xFF8000) = 0" for v :: u32
    by (rule field_keep field_clear, simp add: field_def mask_eq_exp_minus_1)+
  have a: "field 24 6 (push_bit 16 (ucast b)) = 0" "field 10 2 (push_bit 16 (ucast b)) = 0"
      "field 8 2 (push_bit 16 (ucast b)) = 0" "field 16 8 (push_bit 16 (ucast b)) = ucast b"
    for b :: u8
    by (rule bit_word_eqI; auto simp: bit_simps dest: bit_imp_le_length)+
  have z: "field 24 6 (0x8000 :: u32) = 0" "field 10 2 (0x8000 :: u32) = 0" "field 8 2 (0x8000 :: u32) = 0"
      "field 16 8 (0x8000 :: u32) = 0"
    by (simp_all add: field_def)
  show ?thesis
    unfolding mxc_isi_channel_set_alpha_def Let_def
    by (subst isi_modify_known [OF assms], simp, simp, rule exI, rule conjI, rule refl)
       (simp add: img_keeps_def bit_simps field_or kept [simplified] z a)
qed

lemma isi_source_regs:
  assumes "isi_hw k" and "regs s (ISI_REGS, CHNL_CTRL) = Some c" and "\<not> bit c 24"
    and "chan_src_ok (pd_chan_src (isi_pdata s))"
  shows "\<exists>c'. regs (mxc_isi_channel_source_config k s) = (regs s)((ISI_REGS, CHNL_CTRL) \<mapsto> c') \<and>
    c' AND 0xd7 = isi_source_bits (pd_chan_src (isi_pdata s)) (isi_in_port s) (isi_sub_in_port s) \<and>
    field 25 2 c' = field 25 2 c \<and> bit c' 30 = bit c 30 \<and> \<not> bit c' 24"
proof -
  let ?b = "isi_source_bits (pd_chan_src (isi_pdata s)) (isi_in_port s) (isi_sub_in_port s)"
  let ?c = "(c AND NOT 0xd7) OR ?b"
  note high = source_bits_high [OF assms(4)]
  have mask: "?c AND 0xd7 = ?b"
  proof -
    have "(c AND NOT 0xd7) AND 0xd7 = 0" by (simp only: and.assoc bit.conj_cancel_left bit.conj_zero_right)
    then show ?thesis by (simp only: bit.conj_disj_distrib2 source_bits_mask [OF assms(4)] or.left_neutral)
  qed
  have chain: "field 25 2 ?c = field 25 2 c"
  proof -
    have "field 25 2 ?b = 0" by (rule bit_word_eqI) (simp add: bit_simps high)
    moreover have "field 25 2 (c AND NOT 0xd7) = field 25 2 c" by (rule field_keep) (simp add: field_def)
    ultimately show ?thesis by (simp only: field_or or.right_neutral)
  qed
  have bits: "bit ?c 30 = bit c 30" "\<not> bit ?c 24"
    using assms(3) by (simp_all add: bit_simps high)
  have "regs (mxc_isi_channel_source_config k s) = (regs s)((ISI_REGS, CHNL_CTRL) \<mapsto> ?c)"
    using isi_modify_known [OF assms(1,2), of "\<lambda>val. (val AND NOT 0xd7) OR ?b"] bits(2)
    by (simp add: mxc_isi_channel_source_config_def)
  with mask chain bits show ?thesis by blast
qed

lemma isi_config_regs:
  fixes src dst :: mxc_isi_frame
  assumes hw: "isi_hw k" and fmt: "f_fmt src = Some sf" "f_fmt dst = Some df" "if_color df < 64"
    and dst: "f_width dst \<noteq> 0" "f_height dst \<noteq> 0" and ok: "chan_src_ok (pd_chan_src (isi_pdata s))"
    and c: "regs s (ISI_REGS, CHNL_CTRL) = Some c" "bit c 30" "\<not> bit c 24"
  shows "isi_programmed src dst sf df s (regs (mxc_isi_channel_config k src dst s))"
proof -
  let ?val = "o_width src OR push_bit 16 (o_height src)"
  define s1 where "s1 = isi_chain_buf_config k src s"
  define s2 where "s2 = writel ISI_REGS CHNL_SCL_IMG_CFG ?val (writel ISI_REGS CHNL_IMG_CFG ?val s1)"
  define s3 where "s3 = mxc_isi_channel_set_csc k src dst s2"
  define s4 where "s4 = mxc_isi_channel_set_scaling k src dst s3"
  define s5 where "s5 = mxc_isi_channel_source_config k s4"
  define s6 where "s6 = writel ISI_REGS CHNL_OUT_BUF_PITCH (bytesperline dst ! 0) s5"
  define s7 where "s7 = mxc_isi_channel_set_flip k s6"
  define s8 where "s8 = mxc_isi_channel_set_alpha k s7"
  define s9 where "s9 = mxc_isi_channel_set_panic_threshold k s8"
  note same = s1_def s2_def s3_def s4_def s5_def s6_def s7_def s8_def s9_def
  let ?m = "regs s9"
  have cfg: "mxc_isi_channel_config k src dst s = modify_reg k ISI_REGS CHNL_CTRL
      (\<lambda>val. let val = val AND NOT CHNL_CTRL_CHNL_BYPASS_MASK
             in if \<not> isi_converts sf df \<and> \<not> isi_scales src dst then val OR push_bit 29 1 else val) s9"
    by (simp add: mxc_isi_channel_config_def Let_def same isi_csc_regs(1) [OF fmt(1,2)])
  obtain i3 where i3: "regs s3 (ISI_REGS, CHNL_IMG_CTRL) = Some i3" "field 24 6 i3 = if_color df"
      "bit i3 0 = (\<not> isi_converts sf df)"
    using isi_csc_regs(2) [OF fmt(1,2), of k s2] fmt(3) by (auto simp: s3_def)
  note sc = isi_scaling_regs [OF hw i3(1) dst, where src = src, folded s4_def]
  from sc(1) obtain i4 where i4: "regs s4 (ISI_REGS, CHNL_IMG_CTRL) = Some i4" "field 24 6 i4 = if_color df"
      "bit i4 0 = (\<not> isi_converts sf df)"
      "field 10 2 i4 = (if isi_scales src dst then snd (isi_scale_axis (f_width src) (f_width dst)) else 0)"
      "field 8 2 i4 = (if isi_scales src dst then snd (isi_scale_axis (f_height src) (f_height dst)) else 0)"
    using i3 by auto
  let ?c1 = "(c AND NOT 0x6000000) OR (if 2048 < o_width src then push_bit 25 1 else 0)"
  have c4: "regs s4 (ISI_REGS, CHNL_CTRL) = Some ?c1" "\<not> bit ?c1 24"
    using isi_chain_config_regs [OF hw c(1,3)] c(3)
    by (simp_all add: sc(4) s3_def isi_csc_regs(3) [OF fmt(1,2)] s2_def s1_def bit_simps)
  have ok4: "chan_src_ok (pd_chan_src (isi_pdata s4))" using ok by (simp add: same)
  from isi_source_regs [OF hw c4 ok4] obtain c5 where c5: "regs s5 = (regs s4)((ISI_REGS, CHNL_CTRL) \<mapsto> c5)"
      "c5 AND 0xd7 = isi_source_bits (pd_chan_src (isi_pdata s)) (isi_in_port s) (isi_sub_in_port s)"
      "field 25 2 c5 = (if 2048 < o_width src then 1 else 0)" "bit c5 30" "\<not> bit c5 24"
    using c(2) field_clear [of 25 2 "0x6000000" c]
    by (auto simp: s5_def bit_simps field_or field_def mask_eq_exp_minus_1) (simp_all add: same)
  have i6: "regs s6 (ISI_REGS, CHNL_IMG_CTRL) = Some i4" by (simp add: s6_def c5(1) i4(1))
  from isi_flip_regs [OF hw this] obtain i7 where i7: "regs s7 = (regs s6)((ISI_REGS, CHNL_IMG_CTRL) \<mapsto> i7)"
      "bit i7 5 = isi_hflip s" "bit i7 6 = isi_vflip s" "img_keeps i7 i4" by (auto simp: same)
  then have "regs s7 (ISI_REGS, CHNL_IMG_CTRL) = Some i7" by simp
  from isi_alpha_regs [OF hw this] obtain i8 where i8: "regs s8 = (regs s7)((ISI_REGS, CHNL_IMG_CTRL) \<mapsto> i8)"
      "bit i8 15 = isi_alphaen s" "field 16 8 i8 = (if isi_alphaen s then ucast (isi_alpha s) else 0)"
      "bit i8 5 = isi_hflip s" "bit i8 6 = isi_vflip s" "img_keeps i8 i7"
    using i7 by (auto simp: same)
  have m: "?m (ISI_REGS, off) = regs s8 (ISI_REGS, off)" if "off \<noteq> CHNL_OUT_BUF_CTRL" for off
    using that by (simp add: s9_def mxc_isi_channel_set_panic_threshold_def Let_def)
  have ctrl: "?m (ISI_REGS, CHNL_CTRL) = Some c5" by (simp add: m i8(1) i7(1) s6_def c5(1))
  let ?f = "\<lambda>val. if \<not> isi_converts sf df \<and> \<not> isi_scales src dst
      then (val AND NOT 0x20000000) OR push_bit 29 1 else val AND NOT (0x20000000 :: u32)"
  have bypass: "?f c5 AND 0xd7 = c5 AND 0xd7" "field 25 2 (?f c5) = field 25 2 c5"
  proof -
    have "field 25 2 (c5 AND NOT 0x20000000) = field 25 2 c5" by (rule field_keep) (simp add: field_def)
    moreover have "field 25 2 (0x20000000 :: u32) = 0" by (simp add: field_def)
    ultimately show "field 25 2 (?f c5) = field 25 2 c5" by (simp add: field_or)
    have "(c5 AND NOT 0x20000000) AND 0xd7 = c5 AND 0xd7" "(0x20000000 :: u32) AND 0xd7 = 0"
      by (simp_all add: and.assoc)
    then show "?f c5 AND 0xd7 = c5 AND 0xd7" by (simp add: bit.conj_disj_distrib2)
  qed
  have "regs (mxc_isi_channel_config k src dst s) = ?m((ISI_REGS, CHNL_CTRL) \<mapsto> ?f c5)"
    unfolding cfg by (subst isi_modify_known [OF hw ctrl]) (use c5(5) in \<open>simp_all add: bit_simps Let_def\<close>)
  moreover have "bit (?f c5) 30" "bit (?f c5) 29 = (\<not> isi_converts sf df \<and> \<not> isi_scales src dst)"
    using c5(4) by (simp_all add: bit_simps)
  ultimately show ?thesis
    unfolding isi_programmed_def
    using i4 i7 i8 c5 m sc bypass by (simp add: img_keeps_def s2_def s3_def s6_def isi_csc_regs(3) [OF fmt(1,2)])
qed

section \<open>Properties\<close>

text \<open>A channel of a chip, formats and frames for the witnesses.\<close>

definition isi_example :: isi_state where
  "isi_example = \<lparr>hist = [], isi_pdata = mxc_imx8mn_data, isi_chain = Obj, isi_chain_buf = False, isi_alpha = 0x80,
     isi_buf_active_reverse = False, isi_xfactor = 0, isi_yfactor = 0, isi_pre_dec_x = 0, isi_pre_dec_y = 0,
     isi_status = 0, isi_in_port = ISI_INPUT_INTERFACE_MIPI0_CSI2, isi_sub_in_port = 0, isi_hflip = True,
     isi_vflip = False, isi_cscen = False, isi_scale = False, isi_alphaen = True, isi_crop = False,
     isi_deinterlace = 0, isi_is_streaming = False, isi_m2m_enabled = False, isi_usage_count = 0, isi_id = 0,
     isi_clks = (\<lambda>_. Obj), isi_soft_resetn = Obj, isi_clk_enable = Obj, cap_num_planes = 1,
     cap_discard_dma = (\<lambda>_. 0),
     cap_src_f = \<lparr>o_width = 0, o_height = 0, c_width = 0, c_height = 0, h_off = 0, v_off = 0, f_width = 0,
       f_height = 0, sizeimage = [0, 0, 0], bytesperline = [0, 0, 0], f_fmt = None\<rparr>\<rparr>"

definition frame_of :: "u32 \<Rightarrow> u32 \<Rightarrow> mxc_isi_fmt \<Rightarrow> mxc_isi_frame" where
  "frame_of w h fmt = \<lparr>o_width = w, o_height = h, c_width = w, c_height = h, h_off = 0, v_off = 0, f_width = w,
     f_height = h, sizeimage = [w * h, 0, 0], bytesperline = [w, 0, 0], f_fmt = Some fmt\<rparr>"

definition example_fmt :: "u32 \<Rightarrow> u32 \<Rightarrow> mxc_isi_fmt" where
  "example_fmt fourcc color = \<lparr>if_name = [], if_mbus_code = 0, if_fourcc = fourcc, if_color = color, if_memplanes = 1,
     if_colplanes = 1, if_depth = [16], if_mdataplanes = 0\<rparr>"

lemma isi_configured:
  assumes "isi_hw k" and "f_fmt src = Some sf" and "f_fmt dst = Some df" and "if_color df < 64"
    and "f_width dst \<noteq> 0" and "f_height dst \<noteq> 0" and "chan_src_ok (pd_chan_src (isi_pdata s))"
  shows "isi_programmed src dst sf df s
    (regs (mxc_isi_channel_config k src dst (mxc_isi_channel_init k s)))"
proof -
  let ?s = "mxc_isi_channel_init k s"
  obtain c where c: "regs ?s (ISI_REGS, CHNL_CTRL) = Some c" "bit c 30" "\<not> bit c 24"
    using isi_init_regs [OF assms(1), of s] by auto
  have "isi_programmed src dst sf df ?s (regs (mxc_isi_channel_config k src dst ?s))"
    by (rule isi_config_regs [OF assms(1-6) _ c]) (simp add: assms(7))
  then show ?thesis by (simp only: isi_programmed_def isi_init_same)
qed

text \<open>
  C7: initialising and configuring a channel leaves registers that decode to what was asked for: the source and
  the scaled size, the line pitch, the output format, the scale factors and decimations, colour conversion
  exactly when one side is RGB and the other YUV, the flips and the alpha value, the input of the platform,
  the second line buffer exactly for sources wider than 2048 pixels, and the bypass exactly when there is
  nothing to convert and nothing to scale.
\<close>

theorem isi_config_programs:
  assumes "isi_hw k" and "f_fmt src = Some sf" and "f_fmt dst = Some df" and "if_color df < 64"
    and "f_width dst \<noteq> 0" and "f_height dst \<noteq> 0" and "chan_src_ok (pd_chan_src (isi_pdata s))"
  shows "isi_programmed src dst sf df s
    (regs (mxc_isi_channel_config k src dst (mxc_isi_channel_init k s)))"
  using assms by (rule isi_configured)

theorem isi_config_programs_witness:
  "isi_programmed (frame_of 3280 2464 (example_fmt V4L2_PIX_FMT_RGB32 0)) (frame_of 1640 1232 (example_fmt V4L2_PIX_FMT_YUYV 0x20))
     (example_fmt V4L2_PIX_FMT_RGB32 0) (example_fmt V4L2_PIX_FMT_YUYV 0x20) isi_example
     (regs (mxc_isi_channel_config ideal_soc (frame_of 3280 2464 (example_fmt V4L2_PIX_FMT_RGB32 0))
        (frame_of 1640 1232 (example_fmt V4L2_PIX_FMT_YUYV 0x20)) (mxc_isi_channel_init ideal_soc isi_example)))"
  by (rule isi_config_programs) (simp_all add: frame_of_def example_fmt_def isi_example_def mxc_imx8mn_data_def)

text \<open>The exponent of the decimation, and the quotient of the 32-bit product.\<close>

definition dec_exponent :: "nat \<Rightarrow> nat" where
  "dec_exponent q = (if q < 2 then 0 else if q < 4 then 1 else if q < 8 then 2 else 3)"

lemma dec_exponent_le [simp]: "dec_exponent q \<le> 3"
  by (simp add: dec_exponent_def)

lemma dec_exponent_bounds:
  fixes src dst :: nat
  assumes "0 < dst"
  defines "n \<equiv> dec_exponent (src div dst)"
  shows "n = 0 \<or> 2 ^ n * dst \<le> src" and "n < 3 \<Longrightarrow> src < 2 ^ (n + 1) * dst"
proof -
  have small: "src div dst < c \<longleftrightarrow> src < c * dst" for c
    using assms(1) by (simp add: div_less_iff_less_mult)
  show "n = 0 \<or> 2 ^ n * dst \<le> src" by (auto simp: n_def dec_exponent_def small)
  show "src < 2 ^ (n + 1) * dst" if "n < 3"
    using that by (auto simp: n_def dec_exponent_def small split: if_splits)
qed

lemma isi_scale_axis_exact:
  fixes src dst :: u32
  assumes "0 < dst" and "isi_scale_axis src dst = (f, e)"
  defines "n \<equiv> dec_exponent (unat src div unat dst)"
  shows "unat e = n" and "unat f = unat src * 4096 mod 2 ^ 32 div (unat dst * 2 ^ n)"
proof -
  let ?q = "unat src div unat dst"
  have q: "unat (src div dst) = ?q" by (simp add: unat_div)
  have mul: "unat (src * 4096) = unat src * 4096 mod 2 ^ 32" by (simp add: unat_word_ariths)
  note n = n_def dec_exponent_def
  have f: "f = src * 4096 div (dst * 2 ^ n)"
    using assms(2) q unfolding isi_scale_axis_def n Let_def word_less_nat_alt by (auto split: if_splits)
  show "unat e = n"
    using assms(2) q unfolding isi_scale_axis_def n Let_def word_less_nat_alt by (auto split: if_splits)
  have "n = 0 \<or> 2 ^ n * unat dst \<le> unat src"
    using assms(1) unfolding n_def by (intro dec_exponent_bounds) (simp add: word_less_nat_alt)
  then have "unat dst * 2 ^ n \<le> max (unat dst) (unat src)" by (auto simp: mult.commute)
  moreover have "max (unat dst) (unat src) < 2 ^ 32"
    using unsigned_less [of src, where ?'a = nat] unsigned_less [of dst, where ?'a = nat] by simp
  ultimately have "unat dst * 2 ^ n < 2 ^ 32" by (rule le_less_trans)
  then have den: "unat (dst * 2 ^ n) = unat dst * 2 ^ n"
    by (subst unat_mult_lem [THEN iffD1]) (auto simp: n split: if_splits)
  show "unat f = unat src * 4096 mod 2 ^ 32 div (unat dst * 2 ^ n)" by (simp add: f unat_div mul den)
qed

lemma isi_scale_factor_fits:
  fixes src dst :: nat
  assumes "0 < dst"
  defines "n \<equiv> dec_exponent (src div dst)"
  shows "if src < 32 * dst then src * 4096 div (dst * 2 ^ n) < 2 ^ 14
    else n = 3 \<and> 2 ^ 14 \<le> src * 4096 div (dst * 2 ^ n)"
proof -
  have small: "src < c * dst \<longleftrightarrow> src div dst < c" for c
    using assms(1) by (simp add: div_less_iff_less_mult)
  note n = n_def dec_exponent_def
  show ?thesis
  proof (cases "src < 32 * dst")
    case True
    then have "src < 4 * 2 ^ n * dst" by (auto simp: n small split: if_splits)
    then have "src * 4096 < 2 ^ 14 * (dst * 2 ^ n)" by (simp add: ac_simps)
    then show ?thesis using True assms(1) by (simp add: div_less_iff_less_mult)
  next
    case False
    then have "n = 3" by (auto simp: n small)
    moreover have "2 ^ 14 \<le> src * 4096 div (dst * 2 ^ n)"
      using False assms(1) by (simp add: \<open>n = 3\<close> less_eq_div_iff_mult_less_eq)
    ultimately show ?thesis using False by simp
  qed
qed

lemma isi_clamp_scale_cases:
  "unat f < 2 ^ 14 \<Longrightarrow> isi_clamp_scale f = f" "2 ^ 14 \<le> unat f \<Longrightarrow> isi_clamp_scale f = 0x4000"
proof -
  show "isi_clamp_scale f = f" if "unat f < 2 ^ 14"
    using that by (simp add: isi_clamp_scale_def word_less_nat_alt)
  show "isi_clamp_scale f = 0x4000" if "2 ^ 14 \<le> unat f"
  proof -
    have "0x4000 \<le> f" using that by (simp add: word_le_nat_alt)
    then show ?thesis by (simp add: isi_clamp_scale_def antisym)
  qed
qed

text \<open>
  C20: for every source and every output that is not zero, the scaler decimates by two, four or eight when the
  source is at least two, four or eight times as large, by no more than that, and not at all below two.  The factor
  computed, in units of 1/4096, is the quotient, rounded down, of the 32-bit product of the source with 4096 by the
  decimated output: the product wraps around for a source of 2^20 pixels or more.  For a smaller source it is exact;
  then the factor fits its 14 bits and is written as it is as long as the source is less than 32 times as large.
  Beyond that the code writes its upper limit, which does not fit: the field of the factor becomes zero and a
  reserved bit is set.
\<close>

theorem isi_scale_bounds:
  fixes src dst :: u32
  assumes "0 < dst" and "isi_scale_axis src dst = (f, e)"
  shows "unat e \<le> 3 \<and> (unat e = 0 \<or> 2 ^ unat e * unat dst \<le> unat src) \<and>
    (unat e < 3 \<longrightarrow> unat src < 2 ^ (unat e + 1) * unat dst) \<and>
    unat f = unat src * 4096 mod 2 ^ 32 div (unat dst * 2 ^ unat e) \<and>
    (src < 2 ^ 20 \<longrightarrow>
      unat f = unat src * 4096 div (unat dst * 2 ^ unat e) \<and>
      (if unat src < 32 * unat dst then isi_clamp_scale f = f \<and> unat f < 2 ^ 14
       else unat e = 3 \<and> field 0 14 (isi_clamp_scale f) = 0 \<and> bit (isi_clamp_scale f) 14))"
proof -
  have d: "0 < unat dst" using assms(1) by (simp add: word_less_nat_alt)
  note e = isi_scale_axis_exact(1) [OF assms] and f = isi_scale_axis_exact(2) [OF assms]
  have exact: "unat f = unat src * 4096 div (unat dst * 2 ^ unat e)" if "src < 2 ^ 20"
    using that by (simp add: f e word_less_nat_alt)
  have "if unat src < 32 * unat dst then isi_clamp_scale f = f \<and> unat f < 2 ^ 14
       else unat e = 3 \<and> field 0 14 (isi_clamp_scale f) = 0 \<and> bit (isi_clamp_scale f) 14" if "src < 2 ^ 20"
    using isi_scale_factor_fits [OF d, of "unat src", folded e] unfolding exact [OF that, symmetric]
    by (auto simp: isi_clamp_scale_cases field_def split: if_splits)
  moreover have "unat e \<le> 3" by (simp add: e)
  ultimately show ?thesis
    using exact dec_exponent_bounds [OF d, of "unat src", folded e] f [folded e] by blast
qed

text \<open>Decimation by two with an exact factor, a ratio beyond the field, and a product that wraps around.\<close>

theorem isi_scale_bounds_witness:
  "(let (f, e) = isi_scale_axis 3280 1640 in f = 4096 \<and> unat f = unat (3280 :: u32) * 4096 div (unat (1640 :: u32) * 2 ^ unat e)) \<and>
   field 0 14 (isi_clamp_scale (fst (isi_scale_axis 3280 100))) = 0 \<and>
   unat (fst (isi_scale_axis 0x100000 0x100000)) = 0"
proof -
  have a: "isi_scale_axis 3280 1640 = (4096, 1)" "isi_scale_axis 3280 100 = (16793, 3)"
      "isi_scale_axis 0x100000 0x100000 = (0, 0)"
    by (simp_all add: isi_scale_axis_def)
  show ?thesis
    using isi_scale_bounds [OF _ a(1)] isi_scale_bounds [OF _ a(2)] isi_scale_bounds [OF _ a(3)] by (simp add: a)
qed

end
