(* ===== verification/Isi_Core.thy ===== *)
theory Isi_Core
  imports Isi_Hw
begin

text \<open>
  The platform driver of an imaging channel (\<^verbatim>\<open>imx8-isi-core.c\<close>): clocks of the two families of chips, chip
  revisions, device tree, reset lines, probe and removal, runtime and system power management.  The
  interrupt handler is in \<open>Isi_Queue\<close>, with the frames it completes.
\<close>

section \<open>The environment\<close>

text \<open>
  What the kernel answers: clock handles and enables, the entry of the chip table that matches the chip, the
  property \<^verbatim>\<open>interface\<close> (the code and the values read), whether there is an interrupt resource, the population
  of the children.
\<close>

record iapi =
  isi_clk_handle :: "kevent list \<Rightarrow> isi_clk \<Rightarrow> kptr"
  isi_clk_ret :: "kevent list \<Rightarrow> isi_clk \<Rightarrow> int"
  soc_device_match :: "kevent list \<Rightarrow> nat option"
  of_interface :: "kevent list \<Rightarrow> int \<times> u32 \<times> u32"
  irq_resource :: "kevent list \<Rightarrow> bool"
  populate_ret :: "kevent list \<Rightarrow> int"

definition isi_answers :: "iapi \<Rightarrow> bool" where
  "isi_answers v \<longleftrightarrow> (\<forall>h c. isi_clk_ret v h c \<le> 0)"

abbreviation (input) EAGAIN :: int where "EAGAIN \<equiv> 11"

abbreviation (input) ENXIO :: int where "ENXIO \<equiv> 6"

abbreviation (input) MXC_ISI_MAX_DEVS :: int where "MXC_ISI_MAX_DEVS \<equiv> 8"

section \<open>Clocks\<close>

definition isi_get_clk :: "iapi \<Rightarrow> isi_clk \<Rightarrow> 'a isi_state_scheme op" where
  "isi_get_clk v c s =
     (let s = s\<lparr>isi_clks := (isi_clks s)(c := isi_clk_handle v (hist s) c)\<rparr>
      in if IS_ERR (isi_clks s c) then (PTR_ERR (isi_clks s c), s) else (0, s))"

definition isi_prepare_enable :: "iapi \<Rightarrow> isi_clk \<Rightarrow> 'a isi_state_scheme op" where
  "isi_prepare_enable v c s =
     (let ret = isi_clk_ret v (hist s) c;
          s = emit (Soc (Isi (IsiClkEnable c ret))) s
      in if ret < 0 then (ret, s) else (0, s))"

definition isi_disable_unprepare :: "isi_clk \<Rightarrow> 'a isi_state_scheme \<Rightarrow> 'a isi_state_scheme" where
  "isi_disable_unprepare c s = emit (Soc (Isi (IsiClkDisable c))) s"

definition mxc_imx8_clk_get :: "iapi \<Rightarrow> 'a isi_state_scheme op" where
  "mxc_imx8_clk_get v = isi_get_clk v CLK_ISI"

definition mxc_imx8_clk_enable :: "iapi \<Rightarrow> 'a isi_state_scheme op" where
  "mxc_imx8_clk_enable v = isi_prepare_enable v CLK_ISI"

definition mxc_imx8_clk_disable :: "'a isi_state_scheme \<Rightarrow> 'a isi_state_scheme" where
  "mxc_imx8_clk_disable s = isi_disable_unprepare CLK_ISI s"

definition mxc_imx8mn_clk_get :: "iapi \<Rightarrow> 'a isi_state_scheme op" where
  "mxc_imx8mn_clk_get v = run_steps [isi_get_clk v CLK_AXI, isi_get_clk v CLK_APB, isi_get_clk v CLK_ROOT_AXI,
     isi_get_clk v CLK_ROOT_APB]"

definition mxc_imx8mn_clk_enable :: "iapi \<Rightarrow> 'a isi_state_scheme op" where
  "mxc_imx8mn_clk_enable v = run_steps [isi_prepare_enable v CLK_AXI, isi_prepare_enable v CLK_APB,
     isi_prepare_enable v CLK_ROOT_AXI, isi_prepare_enable v CLK_ROOT_APB]"

definition mxc_imx8mn_clk_disable :: "'a isi_state_scheme \<Rightarrow> 'a isi_state_scheme" where
  "mxc_imx8mn_clk_disable s =
     (let s = isi_disable_unprepare CLK_ROOT_AXI s;
          s = isi_disable_unprepare CLK_ROOT_APB s;
          s = isi_disable_unprepare CLK_AXI s
      in isi_disable_unprepare CLK_APB s)"

text \<open>Calls through the operations of the platform data, which both tables provide.\<close>

definition mxc_isi_clk_get :: "iapi \<Rightarrow> 'a isi_state_scheme op" where
  "mxc_isi_clk_get v s =
     (case pd_ops (isi_pdata s) of Imx8_clk_ops \<Rightarrow> mxc_imx8_clk_get v s | Imx8mn_clk_ops \<Rightarrow> mxc_imx8mn_clk_get v s)"

definition mxc_isi_clk_enable :: "iapi \<Rightarrow> 'a isi_state_scheme op" where
  "mxc_isi_clk_enable v s =
     (case pd_ops (isi_pdata s) of Imx8_clk_ops \<Rightarrow> mxc_imx8_clk_enable v s
      | Imx8mn_clk_ops \<Rightarrow> mxc_imx8mn_clk_enable v s)"

definition mxc_isi_clk_disable :: "'a isi_state_scheme \<Rightarrow> 'a isi_state_scheme" where
  "mxc_isi_clk_disable s =
     (case pd_ops (isi_pdata s) of Imx8_clk_ops \<Rightarrow> mxc_imx8_clk_disable s
      | Imx8mn_clk_ops \<Rightarrow> mxc_imx8mn_clk_disable s)"

section \<open>Reset lines\<close>

definition isi_disp_mix_sft_rstn :: "sapi \<Rightarrow> kptr \<Rightarrow> bool \<Rightarrow> 'a isi_state_scheme op" where
  "isi_disp_mix_sft_rstn k reset enable s =
     (if reset = NullPtr then (0, s)
      else if enable then reset_control_assert k SOFT_RESETN reset s
      else reset_control_deassert k SOFT_RESETN reset s)"

definition isi_disp_mix_clks_enable :: "sapi \<Rightarrow> kptr \<Rightarrow> bool \<Rightarrow> 'a isi_state_scheme op" where
  "isi_disp_mix_clks_enable k reset enable s =
     (if reset = NullPtr then (0, s)
      else if enable then reset_control_assert k CLK_ENABLE reset s
      else reset_control_deassert k CLK_ENABLE reset s)"

fun isi_reset_loop ::
  "sapi \<Rightarrow> (string option \<times> kptr) list \<Rightarrow> nat \<Rightarrow> 'a isi_state_scheme \<Rightarrow> nat \<times> 'a isi_state_scheme" where
  "isi_reset_loop k [] rstc_num s = (rstc_num, s)"
| "isi_reset_loop k ((node, rstc) # nodes) rstc_num s =
     (case node of
        None \<Rightarrow> isi_reset_loop k nodes rstc_num s
      | Some cmp \<Rightarrow>
          if IS_ERR rstc then isi_reset_loop k nodes rstc_num s
          else if of_compat k ''isi,soft-resetn'' cmp
          then isi_reset_loop k nodes (Suc rstc_num) (s\<lparr>isi_soft_resetn := rstc\<rparr>)
          else if of_compat k ''isi,clk-enable'' cmp
          then isi_reset_loop k nodes (Suc rstc_num) (s\<lparr>isi_clk_enable := rstc\<rparr>)
          else isi_reset_loop k nodes rstc_num s)"

definition mxc_isi_of_parse_resets :: "sapi \<Rightarrow> 'a isi_state_scheme op" where
  "mxc_isi_of_parse_resets k s =
     (let ret = of_phandle_ret k (hist s)
      in if ret \<noteq> 0 then (ret, s)
      else let s = emit FwnodeGet s;
               (rstc_num, s) = isi_reset_loop k (of_reset_nodes k (hist s)) 0 s
      in if rstc_num = 0 then (- EINVAL, s)
      else (0, emit FwnodePut s))"

section \<open>Chip and device tree\<close>

definition imx8_soc :: "(string \<times> string option) list" where
  "imx8_soc = [(''i.MX8QXP'', Some ''1.0''), (''i.MX8QXP'', Some ''1.1''), (''i.MX8QXP'', Some ''1.2''),
     (''i.MX8QM'', Some ''1.0''), (''i.MX8QM'', Some ''1.1''), (''i.MX8MN'', Some ''1.0''), (''i.MX8MP'', None)]"

text \<open>\<^verbatim>\<open>strcmp(a, b) > 0\<close>.\<close>

fun str_after :: "string \<Rightarrow> string \<Rightarrow> bool" where
  "str_after [] b = False"
| "str_after (x # a) [] = True"
| "str_after (x # a) (y # b) = (of_char y < (of_char x :: nat) \<or> x = y \<and> str_after a b)"

text \<open>The match is an entry of the table above; a newer chip replaces tables of the platform data.\<close>

definition mxc_isi_soc_match :: "iapi \<Rightarrow> 'a isi_state_scheme op" where
  "mxc_isi_soc_match v s =
     (case soc_device_match v (hist s) of
        None \<Rightarrow> (- EINVAL, s)
      | Some i \<Rightarrow>
          let (soc_id, revision) = imx8_soc ! i;
              s = s\<lparr>isi_buf_active_reverse := False\<rparr>;
              pd = isi_pdata s
          in if soc_id = ''i.MX8QXP'' \<or> soc_id = ''i.MX8QM''
             then (case revision of
                     None \<Rightarrow> (0, emit NullDeref s)
                   | Some r \<Rightarrow>
                       (0, if str_after r ''1.1''
                           then s\<lparr>isi_pdata := pd\<lparr>pd_ier_reg := mxc_imx8_isi_ier_v1, pd_set_thd := mxc_imx8_isi_thd_v1\<rparr>,
                                  isi_buf_active_reverse := True\<rparr>
                           else s))
             else if soc_id = ''i.MX8MP''
             then (0, s\<lparr>isi_pdata := pd\<lparr>pd_ier_reg := mxc_imx8_isi_ier_v2\<rparr>, isi_buf_active_reverse := True\<rparr>)
             else (0, s))"

definition mxc_isi_parse_dt :: "sapi \<Rightarrow> iapi \<Rightarrow> 'a isi_state_scheme op" where
  "mxc_isi_parse_dt k v s =
     (let s = s\<lparr>isi_id := of_alias_id k (hist s) ''isi''\<rparr>;
          (ret, in_port, sub_in_port) = of_interface v (hist s)
      in if ret < 0 then (ret, s)
      else (0, s\<lparr>isi_in_port := in_port, isi_sub_in_port := sub_in_port\<rparr>))"

definition mxc_isi_of_match :: "(string \<times> mxc_isi_plat_data) list" where
  "mxc_isi_of_match = [(''fsl,imx8-isi'', mxc_imx8_data), (''fsl,imx8mn-isi'', mxc_imx8mn_data)]"

section \<open>Probe and removal\<close>

text \<open>
  The zeroed structure of \<^verbatim>\<open>devm_kzalloc\<close>.  The pointer to the platform data is set before it is read.
\<close>

definition isi_kzalloc :: "'a isi_state_scheme \<Rightarrow> 'a isi_state_scheme" where
  "isi_kzalloc s = s\<lparr>isi_chain := NullPtr, isi_chain_buf := False, isi_alpha := 0, isi_buf_active_reverse := False,
     isi_xfactor := 0, isi_yfactor := 0, isi_pre_dec_x := 0, isi_pre_dec_y := 0, isi_status := 0, isi_in_port := 0,
     isi_sub_in_port := 0, isi_hflip := False, isi_vflip := False, isi_cscen := False, isi_scale := False,
     isi_alphaen := False, isi_crop := False, isi_deinterlace := 0, isi_is_streaming := False,
     isi_m2m_enabled := False, isi_usage_count := 0, isi_id := 0, isi_clks := (\<lambda>_. NullPtr),
     isi_soft_resetn := NullPtr, isi_clk_enable := NullPtr\<rparr>"

text \<open>Up to the clock handles and the register map: nothing is switched on.\<close>

definition isi_probe_board :: "sapi \<Rightarrow> iapi \<Rightarrow> 'a isi_state_scheme op" where
  "isi_probe_board k v = run_steps [
     (\<lambda>s. case of_match k (hist s) (map fst mxc_isi_of_match) of
            None \<Rightarrow> (- EINVAL, s)
          | Some i \<Rightarrow> (0, s\<lparr>isi_pdata := snd (mxc_isi_of_match ! i)\<rparr>)),
     (\<lambda>s. let (ret, s) = mxc_isi_soc_match v s in if ret < 0 then (ret, s) else (0, s)),
     (\<lambda>s. let (ret, s) = mxc_isi_parse_dt k v s in if ret < 0 then (ret, s) else (0, s)),
     (\<lambda>s. if isi_id s \<ge> MXC_ISI_MAX_DEVS \<or> isi_id s < 0 then (- EINVAL, s) else (0, s)),
     act (\<lambda>s. let s = s\<lparr>isi_chain := syscon k (hist s) ''isi_chain''\<rparr>
              in if IS_ERR (isi_chain s) then s\<lparr>isi_chain := NullPtr\<rparr> else s),
     act (\<lambda>s. (emit MutexInit s)\<lparr>isi_usage_count := 0\<rparr>),
     (\<lambda>s. if of_bool k (hist s) ''no-reset-control'' then (0, s) else mxc_isi_of_parse_resets k s),
     (\<lambda>s. let (ret, s) = mxc_isi_clk_get v s in if ret < 0 then (ret, s) else (0, s)),
     (\<lambda>s. let p = ioremap k (hist s) in if IS_ERR p then (PTR_ERR p, s) else (0, s))]"

text \<open>The label \<^verbatim>\<open>err\<close>.\<close>

definition isi_probe_err :: "sapi \<Rightarrow> 'a isi_state_scheme op" where
  "isi_probe_err k s =
     (let s = snd (isi_disp_mix_clks_enable k (isi_clk_enable s) False s);
          s = snd (isi_disp_mix_sft_rstn k (isi_soft_resetn s) True s)
      in (- ENXIO, mxc_isi_clk_disable s))"

definition isi_probe_device :: "sapi \<Rightarrow> iapi \<Rightarrow> 'a isi_state_scheme op" where
  "isi_probe_device k v s =
     (let s = snd (isi_disp_mix_sft_rstn k (isi_soft_resetn s) False s);
          s = snd (isi_disp_mix_clks_enable k (isi_clk_enable s) True s);
          s = mxc_isi_clean_registers k s
      in if \<not> irq_resource v (hist s) then isi_probe_err k s
      else let ret = irq_request_ret k (hist s);
               s = emit (Soc (IrqRequest ret)) s
      in if ret < 0 then isi_probe_err k s
      else let s = mxc_isi_channel_set_chain_buf k s;
               s = emit (Soc (Isi (Populate (populate_ret v (hist s))))) s;
               s = mxc_isi_clk_disable s
      in (0, emit PmEnable s))"

definition mxc_isi_probe :: "sapi \<Rightarrow> iapi \<Rightarrow> 'a isi_state_scheme op" where
  "mxc_isi_probe k v s =
     (if \<not> soc_kzalloc k (hist s) then (- ENOMEM, s)
      else let (ret, s) = isi_probe_board k v (isi_kzalloc s)
      in if ret \<noteq> 0 then (ret, s)
      else let (ret, s) = mxc_isi_clk_enable v s
      in if ret < 0 then (ret, s)
      else isi_probe_device k v s)"

definition mxc_isi_remove :: "'a isi_state_scheme op" where
  "mxc_isi_remove s = (0, emit PmDisable (emit (Soc (Isi Depopulate)) s))"

section \<open>Power management\<close>

definition mxc_isi_runtime_suspend :: "sapi \<Rightarrow> 'a isi_state_scheme op" where
  "mxc_isi_runtime_suspend k s =
     (let s = snd (isi_disp_mix_clks_enable k (isi_clk_enable s) False s)
      in (0, mxc_isi_clk_disable s))"

definition mxc_isi_runtime_resume :: "sapi \<Rightarrow> iapi \<Rightarrow> 'a isi_state_scheme op" where
  "mxc_isi_runtime_resume k v s =
     (let (ret, s) = mxc_isi_clk_enable v s
      in if ret \<noteq> 0 then (ret, s)
      else let s = snd (isi_disp_mix_sft_rstn k (isi_soft_resetn s) False s);
               s = snd (isi_disp_mix_clks_enable k (isi_clk_enable s) True s)
      in (0, s))"

definition mxc_isi_pm_suspend :: "sapi \<Rightarrow> ('a isi_state_scheme) scb \<Rightarrow> 'a isi_state_scheme op" where
  "mxc_isi_pm_suspend k f s =
     (if isi_is_streaming s then (- EAGAIN, s)
      else force_suspend f (mxc_isi_runtime_suspend k) (emit (Soc PmForceSuspend) s))"

definition mxc_isi_pm_resume :: "sapi \<Rightarrow> iapi \<Rightarrow> ('a isi_state_scheme) scb \<Rightarrow> 'a isi_state_scheme op" where
  "mxc_isi_pm_resume k v f s = force_resume f (mxc_isi_runtime_resume k v) (emit (Soc PmForceResume) s)"

section \<open>Clock levels\<close>

fun isi_ev :: "kevent \<Rightarrow> isi_event option" where
  "isi_ev (Soc (Isi e)) = Some e"
| "isi_ev _ = None"

fun isi_ev_delta :: "isi_clk \<Rightarrow> isi_event \<Rightarrow> int" where
  "isi_ev_delta c (IsiClkEnable c' ret) = (if c' = c \<and> ret = 0 then 1 else 0)"
| "isi_ev_delta c (IsiClkDisable c') = (if c' = c then - 1 else 0)"
| "isi_ev_delta c _ = 0"

definition isi_clk_delta :: "isi_clk \<Rightarrow> kevent \<Rightarrow> int" where
  "isi_clk_delta c e = (case isi_ev e of None \<Rightarrow> 0 | Some x \<Rightarrow> isi_ev_delta c x)"

lemma isi_clk_delta_simps [simp]:
  "isi_clk_delta c (Soc (Isi x)) = isi_ev_delta c x" "isi_ev e = None \<Longrightarrow> isi_clk_delta c e = 0"
  by (simp_all add: isi_clk_delta_def)

definition isi_level :: "isi_clk \<Rightarrow> 'a kstate_scheme \<Rightarrow> int" where
  "isi_level c s = balance (isi_clk_delta c) (hist s)"

lemma isi_level_emit [simp]: "isi_level c (emit e s) = isi_level c s + isi_clk_delta c e"
  by (simp add: isi_level_def)

lemma isi_level_cong: "hist s = hist t \<Longrightarrow> isi_level c s = isi_level c t"
  by (simp add: isi_level_def)

text \<open>The clocks of each family of chips.\<close>

fun clocked_by :: "mxc_isi_dev_ops \<Rightarrow> isi_clk \<Rightarrow> bool" where
  "clocked_by Imx8_clk_ops c = (c = CLK_ISI)"
| "clocked_by Imx8mn_clk_ops c = (c \<noteq> CLK_ISI)"

definition isi_draws :: "'a isi_state_scheme \<Rightarrow> isi_clk \<Rightarrow> bool" where
  "isi_draws s = clocked_by (pd_ops (isi_pdata s))"

text \<open>Events that are not about the clocks.\<close>

definition isi_idle :: "kevent \<Rightarrow> bool" where
  "isi_idle e \<longleftrightarrow> (\<forall>c ret. isi_ev e \<noteq> Some (IsiClkEnable c ret) \<and> isi_ev e \<noteq> Some (IsiClkDisable c))"

lemma isi_idle_delta [simp]:
  assumes "isi_idle e" shows "isi_clk_delta c e = 0"
proof (cases "isi_ev e")
  case (Some x)
  with assms show ?thesis by (cases x) (simp_all add: isi_clk_delta_def isi_idle_def)
qed simp

lemma grows_isi_level: "grows isi_idle s t \<Longrightarrow> isi_level c t = isi_level c s"
  unfolding isi_level_def by (erule grows_balance) simp

lemma isi_level_reset [simp]:
  "isi_level c (snd (isi_disp_mix_sft_rstn k p on s)) = isi_level c s"
  "isi_level c (snd (isi_disp_mix_clks_enable k p on s)) = isi_level c s"
  by (simp_all add: isi_disp_mix_sft_rstn_def isi_disp_mix_clks_enable_def reset_control_assert_def
      reset_control_deassert_def Let_def)

lemma more_reset [simp]:
  "kstate.more (snd (isi_disp_mix_sft_rstn k p on s)) = kstate.more s"
  "kstate.more (snd (isi_disp_mix_clks_enable k p on s)) = kstate.more s"
  by (simp_all add: isi_disp_mix_sft_rstn_def isi_disp_mix_clks_enable_def reset_control_assert_def
      reset_control_deassert_def Let_def)

lemmas isi_sft_same [simp] = isi_more_fields [OF more_reset(1)]
lemmas isi_clks_same [simp] = isi_more_fields [OF more_reset(2)]

lemma more_clk_disable [simp]: "kstate.more (mxc_isi_clk_disable s) = kstate.more s"
  by (simp add: mxc_isi_clk_disable_def mxc_imx8_clk_disable_def mxc_imx8mn_clk_disable_def isi_disable_unprepare_def
      Let_def split: mxc_isi_dev_ops.split)

lemma isi_level_clk_disable [simp]:
  "isi_level c (mxc_isi_clk_disable s) = isi_level c s - (if isi_draws s c then 1 else 0)"
  by (cases "pd_ops (isi_pdata s)"; cases c)
     (simp_all add: mxc_isi_clk_disable_def mxc_imx8_clk_disable_def mxc_imx8mn_clk_disable_def
       isi_disable_unprepare_def isi_draws_def Let_def)

text \<open>Enabling: all of the clocks, or those before the one that fails.\<close>

lemma isi_clk_enable_more:
  "mxc_isi_clk_enable v s = (r, s') \<Longrightarrow> kstate.more s' = kstate.more s"
  by (auto simp: mxc_isi_clk_enable_def mxc_imx8_clk_enable_def mxc_imx8mn_clk_enable_def isi_prepare_enable_def
      run_steps.simps(2) Let_def split: mxc_isi_dev_ops.splits if_splits)

lemma isi_clk_enable_trace:
  assumes "isi_answers v" and "mxc_isi_clk_enable v s = (r, s')"
  shows "r \<le> 0"
    and "r = 0 \<Longrightarrow> isi_level c s' = isi_level c s + (if isi_draws s c then 1 else 0)"
proof -
  have a: "isi_clk_ret v h d = 0" if "\<not> isi_clk_ret v h d < 0" for h d
  proof -
    have "isi_clk_ret v h d \<le> 0" using assms(1) by (simp add: isi_answers_def)
    with that show ?thesis by simp
  qed
  note go = mxc_isi_clk_enable_def mxc_imx8_clk_enable_def mxc_imx8mn_clk_enable_def isi_prepare_enable_def
    run_steps.simps(2) Let_def isi_draws_def
  show "r \<le> 0"
    using assms(2) by (auto simp: go split: mxc_isi_dev_ops.splits if_splits)
  show "isi_level c s' = isi_level c s + (if isi_draws s c then 1 else 0)" if "r = 0"
    using assms(2) that by (cases c) (auto simp: go a split: mxc_isi_dev_ops.splits if_splits)
qed

interpretation isi_power: soc_power "isi_answers v" isi_level isi_idle isi_draws
  "mxc_isi_runtime_resume k v" "mxc_isi_runtime_suspend k" for k v
proof unfold_locales
  fix s s' :: "'a isi_state_scheme" and c
  assume up: "mxc_isi_runtime_resume k v s = (0, s')"
  obtain r t where t: "mxc_isi_clk_enable v s = (r, t)" by (cases "mxc_isi_clk_enable v s")
  have r: "r = 0" using up t by (auto simp: mxc_isi_runtime_resume_def Let_def split: if_splits)
  have s': "s' = snd (isi_disp_mix_clks_enable k (isi_clk_enable (snd (isi_disp_mix_sft_rstn k (isi_soft_resetn t) False t)))
      True (snd (isi_disp_mix_sft_rstn k (isi_soft_resetn t) False t)))"
    using up t r by (simp add: mxc_isi_runtime_resume_def Let_def)
  show "isi_draws s' = isi_draws s"
    using isi_more_fields(1) [OF isi_clk_enable_more [OF t]] by (simp add: isi_draws_def s')
  show "isi_level c s' = isi_level c s + (if isi_draws s c then 1 else 0)" if "isi_answers v"
    using isi_clk_enable_trace(2) [OF that t r, of c] by (simp add: s')
next
  fix s s' :: "'a isi_state_scheme" and c
  assume "mxc_isi_runtime_suspend k s = (0, s')"
  then have "s' = mxc_isi_clk_disable (snd (isi_disp_mix_clks_enable k (isi_clk_enable s) False s))"
    by (simp add: mxc_isi_runtime_suspend_def Let_def)
  then show "isi_level c s' = isi_level c s - (if isi_draws s c then 1 else 0)"
    by (simp add: isi_draws_def)
next
  fix s s' :: "'a isi_state_scheme" and c
  show "isi_level c s' = isi_level c s" if "grows isi_idle s s'"
    using that by (rule grows_isi_level)
qed

section \<open>Probe\<close>

text \<open>Up to the register map no clock is touched.\<close>

lemma isi_reset_loop_hist: "hist (snd (isi_reset_loop k nodes n s)) = hist s"
  by (induction k nodes n s rule: isi_reset_loop.induct) (auto split: option.split)

lemma isi_parse_resets_level: "isi_level c (snd (mxc_isi_of_parse_resets k s)) = isi_level c s"
proof -
  obtain m t where t: "isi_reset_loop k (of_reset_nodes k (hist (emit FwnodeGet s))) 0 (emit FwnodeGet s) = (m, t)"
    by (cases "isi_reset_loop k (of_reset_nodes k (hist (emit FwnodeGet s))) 0 (emit FwnodeGet s)")
  then have "isi_level c t = isi_level c (emit FwnodeGet s)"
    using isi_reset_loop_hist [of k _ 0 "emit FwnodeGet s"] by (intro isi_level_cong) (metis snd_conv)
  then show ?thesis by (auto simp: mxc_isi_of_parse_resets_def Let_def t [simplified])
qed

lemma isi_clk_get_hist: "hist (snd (mxc_isi_clk_get v s)) = hist s"
  by (simp add: mxc_isi_clk_get_def mxc_imx8_clk_get_def mxc_imx8mn_clk_get_def isi_get_clk_def run_steps.simps(2)
      Let_def split: mxc_isi_dev_ops.split)

lemma isi_soc_match_level: "isi_level c (snd (mxc_isi_soc_match v s)) = isi_level c s"
  by (auto simp: mxc_isi_soc_match_def Let_def case_prod_beta isi_level_def emit_def split: option.split)

lemma isi_probe_board_level: "isi_level c (snd (isi_probe_board k v s)) = isi_level c s"
proof -
  let ?R = "\<lambda>s t. isi_level c t = isi_level c s"
  have clk: "isi_level c (snd (mxc_isi_clk_get v s)) = isi_level c s" for s :: "'a isi_state_scheme"
    by (rule isi_level_cong) (rule isi_clk_get_hist)
  have keep: "isi_level c (s\<lparr>isi_id := i\<rparr>) = isi_level c s" "isi_level c (s\<lparr>isi_pdata := d\<rparr>) = isi_level c s"
      "isi_level c (s\<lparr>isi_chain := p\<rparr>) = isi_level c s" "isi_level c (s\<lparr>isi_usage_count := n\<rparr>) = isi_level c s"
      "isi_level c (s\<lparr>isi_id := i, isi_in_port := a, isi_sub_in_port := b\<rparr>) = isi_level c s"
    for s :: "'a isi_state_scheme" and i d p n a b by (simp_all add: isi_level_def)
  show ?thesis
    unfolding isi_probe_board_def
    by (rule run_steps_rel [where R = ?R]) (auto simp: Let_def case_prod_beta mxc_isi_parse_dt_def act_def
        clk keep isi_soc_match_level isi_parse_resets_level split: option.split)
qed

lemma isi_probe_device_level:
  "isi_level c (snd (isi_probe_device k v s)) = isi_level c s - (if isi_draws s c then 1 else 0)"
proof -
  have clean: "isi_level c (mxc_isi_clean_registers k t) = isi_level c t"
      "isi_draws (mxc_isi_clean_registers k t) = isi_draws t" for t :: "'a isi_state_scheme"
    by (simp_all add: mxc_isi_clean_registers_def mxc_isi_get_irq_status_def mxc_isi_clean_irq_status_def
        case_prod_beta readl_def writel_def Let_def isi_draws_def)
  have rst: "isi_draws (snd (isi_disp_mix_sft_rstn k p on t)) = isi_draws t"
      "isi_draws (snd (isi_disp_mix_clks_enable k p on t)) = isi_draws t" for p on and t :: "'a isi_state_scheme"
    by (simp_all add: isi_draws_def)
  have err: "isi_level c (snd (isi_probe_err k t)) = isi_level c t - (if isi_draws t c then 1 else 0)" for t :: "'a isi_state_scheme"
    by (simp add: isi_probe_err_def Let_def isi_draws_def)
  have chain: "isi_level c (mxc_isi_channel_set_chain_buf k t) = isi_level c t"
      "isi_draws (mxc_isi_channel_set_chain_buf k t) = isi_draws t" for t :: "'a isi_state_scheme"
    by (simp_all add: mxc_isi_channel_set_chain_buf_def modify_reg_upd isi_level_def isi_clk_delta_def isi_draws_def)
  have em: "isi_draws (emit e t) = isi_draws t" for e and t :: "'a isi_state_scheme"
    by (simp add: isi_draws_def)
  show ?thesis
    unfolding isi_probe_device_def Let_def by (simp add: clean rst err chain em)
qed

text \<open>
  C23: whatever the kernel answers, probing a channel leaves the clocks as it found them, on success as well as
  on its error paths, with one exception: when a clock cannot be enabled, the code returned is that of the clock
  and the state is the one in which enabling stopped.
\<close>

theorem isi_probe_clocks:
  assumes "isi_answers v" and "mxc_isi_probe k v s = (r, s')"
  shows "(\<forall>c. isi_level c s' = isi_level c s) \<or> r < 0 \<and> (\<exists>t. mxc_isi_clk_enable v t = (r, s') \<and> (\<forall>c. isi_level c t = isi_level c s))"
proof (cases "soc_kzalloc k (hist s)")
  case True
  obtain r1 s1 where 1: "isi_probe_board k v (isi_kzalloc s) = (r1, s1)" by (cases "isi_probe_board k v (isi_kzalloc s)")
  obtain r2 s2 where 2: "mxc_isi_clk_enable v s1 = (r2, s2)" by (cases "mxc_isi_clk_enable v s1")
  have k: "isi_level c (isi_kzalloc s) = isi_level c s" for c by (simp add: isi_level_def isi_kzalloc_def)
  have l1: "isi_level c s1 = isi_level c s" for c using isi_probe_board_level [of c k v "isi_kzalloc s"] 1 k by simp
  consider "r1 \<noteq> 0" | "r1 = 0" "r2 < 0" | "r1 = 0" "r2 = 0" using isi_clk_enable_trace(1) [OF assms(1) 2] by linarith
  then show ?thesis
  proof cases
    case 1
    with assms(2) True \<open>isi_probe_board k v (isi_kzalloc s) = (r1, s1)\<close> l1 show ?thesis by (simp add: mxc_isi_probe_def)
  next
    case 2
    with assms(2) True 1 \<open>mxc_isi_clk_enable v s1 = (r2, s2)\<close> l1 show ?thesis by (auto simp: mxc_isi_probe_def)
  next
    case 3
    then have s': "s' = snd (isi_probe_device k v s2)"
      using assms(2) True 1 2 by (simp add: mxc_isi_probe_def)
    have d: "isi_draws s2 = isi_draws s1"
      using isi_more_fields(1) [OF isi_clk_enable_more [OF 2]] by (simp add: isi_draws_def)
    have "isi_level c s' = isi_level c s" for c
      using isi_clk_enable_trace(2) [OF assms(1) 2 3(2), of c] l1 d by (simp add: s' isi_probe_device_level)
    then show ?thesis by blast
  qed
qed (use assms(2) in \<open>simp add: mxc_isi_probe_def\<close>)

text \<open>A board with the newer chip, and clocks of which the second may fail.\<close>

definition isi_board :: sapi where
  "isi_board = ideal_soc\<lparr>of_match := (\<lambda>h tab. Some 1), of_bool := (\<lambda>h n. True)\<rparr>"

definition isi_ideal :: "int \<Rightarrow> iapi" where
  "isi_ideal e = \<lparr>isi_clk_handle = (\<lambda>h c. Obj), isi_clk_ret = (\<lambda>h c. if c = CLK_APB then e else 0),
     soc_device_match = (\<lambda>h. Some 5), of_interface = (\<lambda>h. (0, 2, 0)), irq_resource = (\<lambda>h. True),
     populate_ret = (\<lambda>h. 0)\<rparr>"

lemma isi_ideal_answers [simp]: "e \<le> 0 \<Longrightarrow> isi_answers (isi_ideal e)"
  by (simp add: isi_answers_def isi_ideal_def)

lemma isi_board_of_match: "isi_probe_board isi_board (isi_ideal e) (isi_kzalloc isi_example) =
  (0, (emit MutexInit (isi_kzalloc isi_example))\<lparr>isi_pdata := mxc_imx8mn_data, isi_id := 0, isi_in_port := 2, isi_sub_in_port := 0,
      isi_chain := Obj, isi_usage_count := 0,
      isi_clks := (isi_clks (isi_kzalloc isi_example))(CLK_AXI := Obj, CLK_APB := Obj, CLK_ROOT_AXI := Obj, CLK_ROOT_APB := Obj)\<rparr>)"
  by (simp add: isi_probe_board_def run_steps.simps(2) isi_board_def ideal_soc_def isi_ideal_def mxc_isi_of_match_def
      mxc_isi_soc_match_def imx8_soc_def mxc_isi_parse_dt_def act_def mxc_isi_clk_get_def mxc_imx8mn_data_def
      mxc_imx8mn_clk_get_def isi_get_clk_def Let_def isi_kzalloc_def isi_example_def emit_def)

theorem isi_probe_clocks_witness:
  "(\<exists>s'. mxc_isi_probe isi_board (isi_ideal 0) isi_example = (0, s') \<and> (\<forall>c. isi_level c s' = 0)) \<and>
   (\<exists>s'. mxc_isi_probe isi_board (isi_ideal (- 5)) isi_example = (- 5, s') \<and> isi_level CLK_AXI s' = 1)"
proof
  let ?t = "snd (isi_probe_board isi_board (isi_ideal 0) (isi_kzalloc isi_example))"
  note clk = mxc_isi_clk_enable_def mxc_imx8mn_clk_enable_def isi_prepare_enable_def run_steps.simps(2) Let_def
  have k: "soc_kzalloc isi_board h" for h by (simp add: isi_board_def ideal_soc_def)
  have 0: "isi_level c isi_example = 0" for c by (simp add: isi_level_def isi_example_def)
  have "fst (isi_probe_device isi_board (isi_ideal e) s) = 0" for e and s :: isi_state
    by (simp add: isi_probe_device_def Let_def isi_ideal_def isi_board_def ideal_soc_def)
  moreover have "fst (mxc_isi_clk_enable (isi_ideal 0) s) = 0" for s :: isi_state
    by (simp add: clk mxc_imx8_clk_enable_def isi_ideal_def split: mxc_isi_dev_ops.split)
  ultimately have "fst (mxc_isi_probe isi_board (isi_ideal 0) isi_example) = 0"
    by (simp add: mxc_isi_probe_def k isi_board_of_match Let_def case_prod_beta)
  then obtain s' where s': "mxc_isi_probe isi_board (isi_ideal 0) isi_example = (0, s')"
    by (cases "mxc_isi_probe isi_board (isi_ideal 0) isi_example") auto
  with isi_probe_clocks [OF isi_ideal_answers s'] show "\<exists>s'. mxc_isi_probe isi_board (isi_ideal 0) isi_example = (0, s') \<and>
      (\<forall>c. isi_level c s' = 0)" by (simp add: 0)
  show "\<exists>s'. mxc_isi_probe isi_board (isi_ideal (- 5)) isi_example = (- 5, s') \<and> isi_level CLK_AXI s' = 1"
    by (simp add: mxc_isi_probe_def k isi_board_of_match clk mxc_imx8mn_data_def)
       (simp add: isi_ideal_def isi_level_def isi_kzalloc_def isi_example_def emit_def)
qed

end
