(* ===== verification/Isi_Queue.thy ===== *)
theory Isi_Queue
  imports Isi_Core "HOL-Library.Multiset"
begin

text \<open>
  The frame buffers of the capture device (the videobuf2 operations and \<^verbatim>\<open>mxc_isi_cap_frame_write_done\<close> of
  \<^verbatim>\<open>imx8-isi-cap.c\<close>, the interrupt handler of \<^verbatim>\<open>imx8-isi-core.c\<close>).  The hardware writes frames to two slots in
  turn.  The driver keeps three lists of buffers: pending ones of the user, active ones whose addresses are in
  the slots, and a pair of its own that takes the frames for which the user has provided no buffer.
\<close>

section \<open>State\<close>

text \<open>
  The capture device extends the channel.  A list holds references to buffers, the buffers themselves are in
  the store \<open>cap_bufs\<close>: \<open>UserBuf i\<close> is buffer \<open>i\<close> of the videobuf2 queue, \<open>DiscardBuf i\<close> is
  \<^verbatim>\<open>buf_discard[i]\<close>.  The sub-device at the other end of the link is \<open>cap_remote\<close>.
\<close>

record 'r isi_cap = isi_state +
  cap_bufs :: "buf_ref \<Rightarrow> mxc_isi_buffer"
  out_pending :: "buf_ref list"
  out_active :: "buf_ref list"
  out_discard :: "buf_ref list"
  cap_dst_f :: mxc_isi_frame
  cap_frame_count :: u32
  cap_discard_size :: "nat \<Rightarrow> u32"
  cap_link_setup :: bool
  cap_ctrls_ready :: bool
  cap_pads :: "u32 list"
  cap_num_pads :: nat
  cap_registered :: bool
  cap_id :: u32
  cap_remote :: 'r

text \<open>What the kernel answers: coherent memory and its bus address, by plane.\<close>

record vapi =
  dma_alloc_ok :: "kevent list \<Rightarrow> nat \<Rightarrow> u32 \<Rightarrow> bool"
  dma_addr :: "kevent list \<Rightarrow> nat \<Rightarrow> u64"

abbreviation (input) ENOBUFS :: int where "ENOBUFS \<equiv> 105"

section \<open>Preparing and queueing\<close>

text \<open>
  The \<^verbatim>\<open>switch\<close> falls through from the third plane to the first; the number of planes is not checked against
  the buffer.
\<close>

definition mxc_isi_update_buf_paddr :: "mxc_isi_buffer \<Rightarrow> u16 \<Rightarrow> int \<times> mxc_isi_buffer" where
  "mxc_isi_update_buf_paddr buf memplanes =
     (let paddr = (b_paddr buf)\<lparr>fa_cb := 0, fa_cr := 0\<rparr>;
          y = ucast (b_plane_dma buf 0); cb = ucast (b_plane_dma buf 1); cr = ucast (b_plane_dma buf 2)
      in if memplanes = 3 then (0, buf\<lparr>b_paddr := paddr\<lparr>fa_y := y, fa_cb := cb, fa_cr := cr\<rparr>\<rparr>)
         else if memplanes = 2 then (0, buf\<lparr>b_paddr := paddr\<lparr>fa_y := y, fa_cb := cb\<rparr>\<rparr>)
         else if memplanes = 1 then (0, buf\<lparr>b_paddr := paddr\<lparr>fa_y := y\<rparr>\<rparr>)
         else (- EINVAL, buf\<lparr>b_paddr := paddr\<rparr>))"

text \<open>The code, and the number of planes with their sizes.\<close>

definition cap_vb2_queue_setup :: "'r isi_cap \<Rightarrow> int \<times> (u16 \<times> u32 list) option" where
  "cap_vb2_queue_setup s =
     (let dst_f = cap_dst_f s
      in case f_fmt dst_f of
           None \<Rightarrow> (- EINVAL, None)
         | Some fmt \<Rightarrow>
      let wh = ucast (f_width dst_f * f_height dst_f) :: u64;
          sizes = map (\<lambda>i. let size = ucast (wh * ucast (if_depth fmt ! i) div 8) :: u32;
                               size = (if i = 1 \<and> if_fourcc fmt = V4L2_PIX_FMT_NV12 then drop_bit 1 size else size)
                           in max size (sizeimage dst_f ! i)) [0..<unat (if_memplanes fmt)]
      in (0, Some (if_memplanes fmt, sizes)))"

fun prepare_planes :: "mxc_isi_frame \<Rightarrow> nat list \<Rightarrow> mxc_isi_buffer \<Rightarrow> int \<times> mxc_isi_buffer" where
  "prepare_planes dst_f [] buf = (0, buf)"
| "prepare_planes dst_f (i # is) buf =
     (let size = ucast (sizeimage dst_f ! i) :: u64
      in if b_plane_size buf i < size then (- EINVAL, buf)
         else prepare_planes dst_f is (buf\<lparr>b_payload := (b_payload buf)(i := size)\<rparr>))"

definition cap_vb2_buffer_prepare :: "buf_ref \<Rightarrow> 'r isi_cap op" where
  "cap_vb2_buffer_prepare r s =
     (case f_fmt (cap_dst_f s) of
        None \<Rightarrow> (- EINVAL, s)
      | Some fmt \<Rightarrow>
          let (ret, buf) = prepare_planes (cap_dst_f s) [0..<unat (if_memplanes fmt)] (cap_bufs s r)
          in (ret, s\<lparr>cap_bufs := (cap_bufs s)(r := buf)\<rparr>))"

definition cap_vb2_buffer_queue :: "buf_ref \<Rightarrow> 'r isi_cap \<Rightarrow> 'r isi_cap" where
  "cap_vb2_buffer_queue r s =
     (let s = emit (Soc (Isi CapSpinLock)) s
      in case f_fmt (cap_dst_f s) of
           None \<Rightarrow> emit NullDeref s
         | Some fmt \<Rightarrow>
      let buf = snd (mxc_isi_update_buf_paddr (cap_bufs s r) (if_mdataplanes fmt));
          s = s\<lparr>cap_bufs := (cap_bufs s)(r := buf), out_pending := out_pending s @ [r]\<rparr>
      in emit (Soc (Isi CapSpinUnlock)) s)"

section \<open>A frame has been written\<close>

text \<open>Number a buffer and put its addresses into a slot.\<close>

definition isi_load_buf :: "sapi \<Rightarrow> buf_ref \<Rightarrow> u32 \<Rightarrow> 'r isi_cap \<Rightarrow> 'r isi_cap" where
  "isi_load_buf k r seq s =
     (let (buf, s) = mxc_isi_channel_set_outbuf k ((cap_bufs s r)\<lparr>b_sequence := seq\<rparr>) s
      in s\<lparr>cap_bufs := (cap_bufs s)(r := buf)\<rparr>)"

definition isi_mark_active :: "buf_ref \<Rightarrow> 'r isi_cap \<Rightarrow> 'r isi_cap" where
  "isi_mark_active r s = s\<lparr>cap_bufs := (cap_bufs s)(r := (cap_bufs s r)\<lparr>b_vb_active := True\<rparr>)\<rparr>"

definition mxc_isi_cap_frame_write_done :: "sapi \<Rightarrow> 'r isi_cap \<Rightarrow> 'r isi_cap" where
  "mxc_isi_cap_frame_write_done k s =
     (case out_active s of
        [] \<Rightarrow> s
      | r # rest \<Rightarrow>
      let buf = cap_bufs s r
      in if is_buf_active 1 s \<and> b_id buf = MXC_ISI_BUF1 \<or> is_buf_active 2 s \<and> b_id buf = MXC_ISI_BUF2 then s
      else let s = s\<lparr>out_active := rest\<rparr>;
               s = (if b_discard buf then s\<lparr>out_discard := out_discard s @ [r]\<rparr>
                    else emit (Soc (Isi (BufDone r True))) s);
               s = s\<lparr>cap_frame_count := cap_frame_count s + 1\<rparr>
      in case out_pending s of
           [] \<Rightarrow> (case out_discard s of
                    [] \<Rightarrow> s
                  | d # ds \<Rightarrow> let s = isi_load_buf k d (cap_frame_count s) s
                              in s\<lparr>out_discard := ds, out_active := out_active s @ [d]\<rparr>)
         | p # ps \<Rightarrow> let s = isi_load_buf k p (cap_frame_count s) s;
                         s = isi_mark_active p s
                     in s\<lparr>out_pending := ps, out_active := out_active s @ [p]\<rparr>)"

text \<open>
  The interrupt handler.  Channels that serve the memory-to-memory device hand a frame on to its driver, the
  parameter \<open>m2m\<close>.  The error bits are logged only.
\<close>

definition mxc_isi_irq_handler ::
  "sapi \<Rightarrow> ('r isi_cap \<Rightarrow> 'r isi_cap) \<Rightarrow> 'r isi_cap \<Rightarrow> 'r isi_cap" where
  "mxc_isi_irq_handler k m2m s =
     (let s = emit (Soc SpinLock) s;
          (status, s) = mxc_isi_get_irq_status k s;
          s = s\<lparr>isi_status := status\<rparr>;
          s = mxc_isi_clean_irq_status status s;
          s = (if status AND CHNL_STS_FRM_STRD_MASK \<noteq> 0
               then if isi_m2m_enabled s then m2m s else mxc_isi_cap_frame_write_done k s
               else s)
      in emit (Soc SpinUnlock) s)"

section \<open>Starting and stopping\<close>

text \<open>
  The loop over the planes of the discard buffer, from plane \<open>i\<close> on with \<open>m\<close> left.  The allocation is of whole
  pages.
\<close>

definition isi_free_discard :: "nat \<Rightarrow> 'r isi_cap \<Rightarrow> 'r isi_cap" where
  "isi_free_discard n s = fold (\<lambda>j s. emit (Soc (Isi (DmaFree j (cap_discard_size s j)))) s) [0..<n] s"

fun isi_alloc_discard :: "vapi \<Rightarrow> nat \<Rightarrow> nat \<Rightarrow> 'r isi_cap op" where
  "isi_alloc_discard v i 0 s = (0, s)"
| "isi_alloc_discard v i (Suc m) s =
     (let size = sizeimage (cap_dst_f s) ! i;
          s = s\<lparr>cap_discard_size := (cap_discard_size s)(i := size)\<rparr>;
          ok = dma_alloc_ok v (hist s) i size;
          addr = dma_addr v (hist s) i;
          s = emit (Soc (Isi (DmaAlloc i size ok))) s
      in if ok then isi_alloc_discard v (Suc i) m (s\<lparr>cap_discard_dma := (cap_discard_dma s)(i := addr)\<rparr>)
         else (- ENOMEM, isi_free_discard i s))"

definition isi_add_discard :: "nat \<Rightarrow> 'r isi_cap \<Rightarrow> 'r isi_cap" where
  "isi_add_discard i s =
     s\<lparr>cap_bufs := (cap_bufs s)(DiscardBuf i := (cap_bufs s (DiscardBuf i))\<lparr>b_discard := True\<rparr>),
       out_discard := out_discard s @ [DiscardBuf i]\<rparr>"

text \<open>
  \<open>cnt\<close> is the number of buffers that the user has queued.  The first slot gets a discard buffer, the second
  the first pending one; reading the head of an empty list is an access outside it.
\<close>

definition cap_vb2_start_streaming :: "sapi \<Rightarrow> vapi \<Rightarrow> nat \<Rightarrow> 'r isi_cap op" where
  "cap_vb2_start_streaming k v cnt s =
     (if cnt < 2 then (- ENOBUFS, s)
      else let (ret, s) = isi_alloc_discard v 0 (cap_num_planes s) s
      in if ret \<noteq> 0 then (ret, s)
      else let s = emit (Soc (Isi CapSpinLock)) s;
               s = isi_add_discard 0 s;
               s = isi_add_discard 1 s;
               d = hd (out_discard s);
               s = isi_mark_active d s;
               s = isi_load_buf k d 0 s;
               s = s\<lparr>out_discard := tl (out_discard s), out_active := out_active s @ [d]\<rparr>
      in case out_pending s of
           [] \<Rightarrow> (- EFAULT, emit (Soc (Isi (OutOfBounds ''out_pending'' 0))) s)
         | p # ps \<Rightarrow>
      let s = isi_mark_active p s;
          s = isi_load_buf k p 1 s;
          s = s\<lparr>out_pending := ps, out_active := out_active s @ [p]\<rparr>;
          s = s\<lparr>cap_frame_count := 1\<rparr>
      in (0, emit (Soc (Isi CapSpinUnlock)) s))"

text \<open>The loops that empty the lists: each buffer of the user is handed back with an error.\<close>

fun isi_flush :: "buf_ref list \<Rightarrow> 'r isi_cap \<Rightarrow> 'r isi_cap" where
  "isi_flush [] s = s"
| "isi_flush (r # rs) s = isi_flush rs (emit (Soc (Isi (BufDone r False))) s)"

definition cap_vb2_stop_streaming :: "sapi \<Rightarrow> 'r isi_cap \<Rightarrow> 'r isi_cap" where
  "cap_vb2_stop_streaming k s =
     (let s = mxc_isi_channel_disable k s;
          s = emit (Soc (Isi CapSpinLock)) s;
          s = isi_flush (filter (\<lambda>r. \<not> b_discard (cap_bufs s r)) (out_active s)) s;
          s = s\<lparr>out_active := []\<rparr>;
          s = isi_flush (out_pending s) s;
          s = s\<lparr>out_pending := [], out_discard := []\<rparr>;
          s = emit (Soc (Isi CapSpinUnlock)) s
      in isi_free_discard (cap_num_planes s) s)"

section \<open>Where buffers are\<close>

fun own :: "buf_ref \<Rightarrow> bool" where
  "own (DiscardBuf _) = True"
| "own (UserBuf _) = False"

definition buf_lists :: "'r isi_cap \<Rightarrow> buf_ref list" where
  "buf_lists s = out_active s @ out_pending s @ out_discard s"

text \<open>
  A buffer is on one list, once; pending buffers are the user's, discard buffers the driver's, and the pair of
  the driver is among the active or the discard buffers.
\<close>

definition queue_wf :: "'r isi_cap \<Rightarrow> bool" where
  "queue_wf s \<longleftrightarrow> distinct (buf_lists s) \<and> (\<forall>r \<in> set (buf_lists s). b_discard (cap_bufs s r) = own r) \<and>
     list_all (Not \<circ> own) (out_pending s) \<and> list_all own (out_discard s) \<and>
     {DiscardBuf 0, DiscardBuf 1} \<subseteq> set (out_active s) \<union> set (out_discard s)"

text \<open>The addresses in the registers of a slot; a buffer is in its slot.\<close>

fun slot_addrs :: "mmio_map \<Rightarrow> mxc_isi_buf_id \<Rightarrow> u32 option list" where
  "slot_addrs m MXC_ISI_BUF1 = map m [(ISI_REGS, CHNL_OUT_BUF1_ADDR_Y), (ISI_REGS, CHNL_OUT_BUF1_ADDR_U),
     (ISI_REGS, CHNL_OUT_BUF1_ADDR_V)]"
| "slot_addrs m MXC_ISI_BUF2 = map m [(ISI_REGS, CHNL_OUT_BUF2_ADDR_Y), (ISI_REGS, CHNL_OUT_BUF2_ADDR_U),
     (ISI_REGS, CHNL_OUT_BUF2_ADDR_V)]"

definition buf_addrs :: "mxc_isi_buffer \<Rightarrow> u32 option list" where
  "buf_addrs b = map Some [fa_y (b_paddr b), fa_cb (b_paddr b), fa_cr (b_paddr b)]"

definition in_slot :: "'r isi_cap \<Rightarrow> buf_ref \<Rightarrow> bool" where
  "in_slot s r \<longleftrightarrow> slot_addrs (regs s) (b_id (cap_bufs s r)) = buf_addrs (cap_bufs s r)"

text \<open>A streaming device: two active buffers in the two slots.\<close>

definition streaming_wf :: "'r isi_cap \<Rightarrow> bool" where
  "streaming_wf s \<longleftrightarrow> queue_wf s \<and>
     (\<exists>a b. out_active s = [a, b] \<and> b_id (cap_bufs s a) \<noteq> b_id (cap_bufs s b) \<and> in_slot s a \<and> in_slot s b) \<and>
     f_fmt (cap_dst_f s) \<noteq> None \<and> \<not> isi_m2m_enabled s \<and> cap_frame_count s \<noteq> 0"

lemma slot_addrs_cong:
  "(\<And>off. off \<in> {0x70, 0x74, 0x78, 0x8C, 0x90, 0x94} \<Longrightarrow> m (ISI_REGS, off) = m' (ISI_REGS, off)) \<Longrightarrow>
     slot_addrs m i = slot_addrs m' i"
  by (cases i) simp_all

text \<open>What loading a buffer into a slot does.\<close>

definition load_slot :: "u32 \<Rightarrow> 'r isi_cap \<Rightarrow> mxc_isi_buf_id" where
  "load_slot seq s = (if seq = 0 \<or> is_buf_active 2 s \<and> seq \<noteq> 1 then MXC_ISI_BUF1 else MXC_ISI_BUF2)"

lemma active_read [simp]: "is_buf_active i (snd (readl k b off s)) = is_buf_active i s"
  by (simp add: is_buf_active_def)

lemma more_cap_fields:
  fixes s t :: "'r isi_cap"
  assumes "kstate.more s = kstate.more t"
  shows "cap_bufs s = cap_bufs t" "out_pending s = out_pending t" "out_active s = out_active t"
    "out_discard s = out_discard t" "cap_dst_f s = cap_dst_f t" "cap_frame_count s = cap_frame_count t"
    "cap_discard_size s = cap_discard_size t" "cap_remote s = cap_remote t"
  using assms by (cases s; cases t; simp)+

lemmas cap_emit [simp] = more_cap_fields [OF more_emit]
lemmas cap_writel [simp] = more_cap_fields [OF more_writel]
lemmas cap_readl [simp] = more_cap_fields [OF more_readl]

lemma more_outbuf [simp]: "kstate.more (snd (mxc_isi_channel_set_outbuf k b s)) = kstate.more s"
  by (simp add: mxc_isi_channel_set_outbuf_def Let_def case_prod_beta)

lemmas isi_outbuf_same [simp] = isi_more_fields [OF more_outbuf]
lemmas cap_outbuf_same [simp] = more_cap_fields [OF more_outbuf]

lemma load_buf_fields [simp]:
  "out_pending (isi_load_buf k r q s) = out_pending s" "out_active (isi_load_buf k r q s) = out_active s"
  "out_discard (isi_load_buf k r q s) = out_discard s" "cap_dst_f (isi_load_buf k r q s) = cap_dst_f s"
  "cap_frame_count (isi_load_buf k r q s) = cap_frame_count s"
  "isi_m2m_enabled (isi_load_buf k r q s) = isi_m2m_enabled s"
  "cap_num_planes (isi_load_buf k r q s) = cap_num_planes s"
  by (simp_all add: isi_load_buf_def case_prod_beta)

lemma load_buf_slot:
  assumes "q = 0 \<or> q = 1 \<or> is_buf_active 1 s \<or> is_buf_active 2 s"
  shows "\<exists>b. cap_bufs (isi_load_buf k r q s) = (cap_bufs s)(r := b) \<and> b_id b = load_slot q s \<and>
      b_discard b = b_discard (cap_bufs s r)"
    and "in_slot (isi_load_buf k r q s) r"
    and "i \<noteq> load_slot q s \<Longrightarrow> slot_addrs (regs (isi_load_buf k r q s)) i = slot_addrs (regs s) i"
proof -
  note go = isi_load_buf_def mxc_isi_channel_set_outbuf_def Let_def case_prod_beta load_slot_def
  show "\<exists>b. cap_bufs (isi_load_buf k r q s) = (cap_bufs s)(r := b) \<and> b_id b = load_slot q s \<and>
      b_discard b = b_discard (cap_bufs s r)"
    using assms by (auto simp: go)
  show "in_slot (isi_load_buf k r q s) r"
    using assms by (auto simp: go in_slot_def buf_addrs_def)
  show "slot_addrs (regs (isi_load_buf k r q s)) i = slot_addrs (regs s) i" if "i \<noteq> load_slot q s"
    using that assms by (cases i) (auto simp: go split: if_splits)
qed

text \<open>The buffers handed back in a history, with the error flag; and those the driver holds.\<close>

definition done_of :: "kevent \<Rightarrow> (buf_ref \<times> bool) option" where
  "done_of e = (case isi_ev e of Some (BufDone r ok) \<Rightarrow> Some (r, ok) | _ \<Rightarrow> None)"

definition returned :: "kevent list \<Rightarrow> (buf_ref \<times> bool) list" where
  "returned h = List.map_filter done_of h"

definition held_bufs :: "'r isi_cap \<Rightarrow> buf_ref list" where
  "held_bufs s = filter (Not \<circ> own) (out_active s @ out_pending s)"

lemma returned_append [simp]: "returned (h @ h') = returned h @ returned h'"
  by (simp add: returned_def map_filter_def)

lemma returned_simps [simp]:
  "returned [] = []" "returned (Soc (Isi (BufDone r ok)) # h) = (r, ok) # returned h"
  "isi_ev e = None \<Longrightarrow> returned (e # h) = returned h"
  "returned (Soc (Isi CapSpinLock) # h) = returned h" "returned (Soc (Isi CapSpinUnlock) # h) = returned h"
  by (simp_all add: returned_def map_filter_def done_of_def)

lemma returned_writel [simp]: "returned (hist (writel b off v s)) = returned (hist s)"
  by (simp add: writel_def)

lemma returned_readl [simp]: "returned (hist (snd (readl k b off s))) = returned (hist s)"
  by (simp add: readl_def Let_def)

lemma returned_load [simp]: "returned (hist (isi_load_buf k r q s)) = returned (hist s)"
  by (simp add: isi_load_buf_def mxc_isi_channel_set_outbuf_def Let_def case_prod_beta)

lemma mark_active_fields [simp]:
  "out_pending (isi_mark_active r s) = out_pending s" "out_active (isi_mark_active r s) = out_active s"
  "out_discard (isi_mark_active r s) = out_discard s" "cap_dst_f (isi_mark_active r s) = cap_dst_f s"
  "cap_frame_count (isi_mark_active r s) = cap_frame_count s" "hist (isi_mark_active r s) = hist s"
  "isi_m2m_enabled (isi_mark_active r s) = isi_m2m_enabled s" "isi_status (isi_mark_active r s) = isi_status s"
  "b_id (cap_bufs (isi_mark_active r s) x) = b_id (cap_bufs s x)"
  "b_discard (cap_bufs (isi_mark_active r s) x) = b_discard (cap_bufs s x)"
  "b_paddr (cap_bufs (isi_mark_active r s) x) = b_paddr (cap_bufs s x)"
  by (simp_all add: isi_mark_active_def)

lemma mark_in_slot [simp]: "in_slot (isi_mark_active r s) x = in_slot s x"
  by (simp add: in_slot_def buf_addrs_def)

lemma in_slot_keep:
  assumes "in_slot s a" and "q = 0 \<or> q = 1 \<or> is_buf_active 1 s \<or> is_buf_active 2 s"
    and "b_id (cap_bufs s a) \<noteq> load_slot q s" and "a \<noteq> r"
  shows "in_slot (isi_load_buf k r q s) a" and "cap_bufs (isi_load_buf k r q s) a = cap_bufs s a"
proof -
  obtain b where b: "cap_bufs (isi_load_buf k r q s) = (cap_bufs s)(r := b)"
    using load_buf_slot(1) [OF assms(2)] by blast
  then show "cap_bufs (isi_load_buf k r q s) a = cap_bufs s a" using assms(4) by simp
  then show "in_slot (isi_load_buf k r q s) a"
    using assms(1) load_buf_slot(3) [OF assms(2,3)] by (simp add: in_slot_def)
qed

text \<open>
  The slot of a completed frame is the slot that the next buffer gets, so its buffer leaves as the new one
  comes, and the other active buffer stays where it is.
\<close>

lemma completed_slot:
  assumes "is_buf_active 1 s \<or> is_buf_active 2 s" and "q \<noteq> 0" and "q \<noteq> 1"
    and "\<not> (is_buf_active 1 s \<and> i = MXC_ISI_BUF1 \<or> is_buf_active 2 s \<and> i = MXC_ISI_BUF2)"
  shows "load_slot q s = i"
  using assms by (cases i) (auto simp: load_slot_def)

text \<open>The next buffer, taken from the head of a list.\<close>

lemma next_buffer_wf:
  fixes k :: sapi
  assumes wf: "distinct (b # r # ps @ ds)" and q: "is_buf_active 1 s \<or> is_buf_active 2 s" "q \<noteq> 0" "q \<noteq> 1"
    and act: "out_active s = [b]" and slot: "in_slot s b" "load_slot q s \<noteq> b_id (cap_bufs s b)"
    and disc: "\<forall>x \<in> set (b # r # ps @ ds). b_discard (cap_bufs s x) = own x"
  defines "t \<equiv> isi_load_buf k r q s"
  shows "b_id (cap_bufs t b) \<noteq> b_id (cap_bufs t r)" "in_slot t b" "in_slot t r"
    "\<forall>x \<in> set (b # r # ps @ ds). b_discard (cap_bufs t x) = own x"
proof -
  have q': "q = 0 \<or> q = 1 \<or> is_buf_active 1 s \<or> is_buf_active 2 s" using q by blast
  have "b \<noteq> r" using wf by auto
  obtain c where c: "cap_bufs t = (cap_bufs s)(r := c)" "b_id c = load_slot q s" "b_discard c = b_discard (cap_bufs s r)"
    using load_buf_slot(1) [OF q', of k r] by (auto simp: t_def)
  show "b_id (cap_bufs t b) \<noteq> b_id (cap_bufs t r)" using c \<open>b \<noteq> r\<close> slot(2) by simp
  show "in_slot t r" unfolding t_def by (rule load_buf_slot(2) [OF q'])
  show "in_slot t b"
    unfolding t_def by (rule in_slot_keep(1) [OF slot(1) q' _ \<open>b \<noteq> r\<close>]) (use slot(2) in simp)
  show "\<forall>x \<in> set (b # r # ps @ ds). b_discard (cap_bufs t x) = own x" using disc c by simp
qed

text \<open>The device after the completed buffer has left.\<close>

definition frame_taken :: "'r isi_cap \<Rightarrow> buf_ref \<Rightarrow> buf_ref list \<Rightarrow> 'r isi_cap" where
  "frame_taken s r rest =
     (let s = s\<lparr>out_active := rest\<rparr>;
          s = (if b_discard (cap_bufs s r) then s\<lparr>out_discard := out_discard s @ [r]\<rparr>
               else emit (Soc (Isi (BufDone r True))) s)
      in s\<lparr>cap_frame_count := cap_frame_count s + 1\<rparr>)"

lemma frame_taken_fields [simp]:
  "out_active (frame_taken s r rest) = rest" "out_pending (frame_taken s r rest) = out_pending s"
  "out_discard (frame_taken s r rest) = (if b_discard (cap_bufs s r) then out_discard s @ [r] else out_discard s)"
  "cap_frame_count (frame_taken s r rest) = cap_frame_count s + 1" "cap_bufs (frame_taken s r rest) = cap_bufs s"
  "cap_dst_f (frame_taken s r rest) = cap_dst_f s" "isi_m2m_enabled (frame_taken s r rest) = isi_m2m_enabled s"
  "isi_status (frame_taken s r rest) = isi_status s"
  "isi_buf_active_reverse (frame_taken s r rest) = isi_buf_active_reverse s"
  "regs (frame_taken s r rest) = regs s"
  "returned (hist (frame_taken s r rest)) = returned (hist s) @ (if b_discard (cap_bufs s r) then [] else [(r, True)])"
  by (simp_all add: frame_taken_def Let_def)

lemma frame_taken_slots [simp]:
  "is_buf_active i (frame_taken s r rest) = is_buf_active i s" "in_slot (frame_taken s r rest) x = in_slot s x"
  "load_slot q (frame_taken s r rest) = load_slot q s"
  by (simp_all add: is_buf_active_def in_slot_def load_slot_def)

lemma frame_write_done_cases:
  assumes "streaming_wf s" and "is_buf_active 1 s \<or> is_buf_active 2 s" and "cap_frame_count s \<noteq> - 1"
  obtains (skip) "mxc_isi_cap_frame_write_done k s = s"
  | (pending) a b p ps where "out_active s = [a, b]" and "out_pending s = p # ps"
      and "mxc_isi_cap_frame_write_done k s = (isi_mark_active p (isi_load_buf k p (cap_frame_count s + 1) (frame_taken s a [b])))
        \<lparr>out_pending := ps, out_active := [b, p]\<rparr>"
      and "load_slot (cap_frame_count s + 1) s = b_id (cap_bufs s a)"
  | (discard) a b d ds where "out_active s = [a, b]" and "out_pending s = []"
      and "out_discard (frame_taken s a [b]) = d # ds"
      and "mxc_isi_cap_frame_write_done k s = (isi_load_buf k d (cap_frame_count s + 1) (frame_taken s a [b]))
        \<lparr>out_discard := ds, out_active := [b, d]\<rparr>"
      and "load_slot (cap_frame_count s + 1) s = b_id (cap_bufs s a)"
proof -
  from assms(1) obtain a b where ab: "out_active s = [a, b]" "cap_frame_count s \<noteq> 0" and q: "queue_wf s"
    by (auto simp: streaming_wf_def)
  let ?q = "cap_frame_count s + 1"
  have q0: "?q \<noteq> 0" "?q \<noteq> 1" using assms(3) ab(2) by (simp_all add: add_eq_0_iff2)
  let ?skip = "is_buf_active 1 s \<and> b_id (cap_bufs s a) = MXC_ISI_BUF1 \<or> is_buf_active 2 s \<and> b_id (cap_bufs s a) = MXC_ISI_BUF2"
  note go = mxc_isi_cap_frame_write_done_def ab(1) frame_taken_def Let_def
  show thesis
  proof (cases ?skip)
    case True
    then show thesis by (intro skip) (simp add: go)
  next
    case False
    from completed_slot [OF assms(2) q0 this] have slot: "load_slot ?q s = b_id (cap_bufs s a)" .
    show thesis
    proof (cases "out_pending s")
      case (Cons p ps)
      with False show thesis by (intro pending [OF ab(1) Cons _ slot]) (auto simp: go)
    next
      case Nil
      have "out_discard (frame_taken s a [b]) \<noteq> []"
        using q by (auto simp: queue_wf_def ab(1) Nil buf_lists_def)
      then obtain d ds where d: "out_discard (frame_taken s a [b]) = d # ds" by (cases "out_discard (frame_taken s a [b])") auto
      with False Nil show thesis by (intro discard [OF ab(1) Nil d _ slot]) (auto simp: go)
    qed
  qed
qed

lemma streaming_wfI:
  assumes "out_active u = [b, r]" and "out_pending u = ps" and "out_discard u = ds" and "distinct (b # r # ps @ ds)"
    and "\<forall>x \<in> set (b # r # ps @ ds). b_discard (cap_bufs u x) = own x" and "list_all (Not \<circ> own) ps"
    and "list_all own ds" and "{DiscardBuf 0, DiscardBuf 1} \<subseteq> set (b # r # ds)"
    and "b_id (cap_bufs u b) \<noteq> b_id (cap_bufs u r)" and "in_slot u b" and "in_slot u r"
    and "f_fmt (cap_dst_f u) \<noteq> None" and "\<not> isi_m2m_enabled u" and "cap_frame_count u \<noteq> 0"
  shows "streaming_wf u"
proof -
  have "buf_lists u = b # r # ps @ ds" by (simp add: buf_lists_def assms(1-3))
  moreover have "set (out_active u) \<union> set (out_discard u) = set (b # r # ds)" by (auto simp: assms(1,3))
  ultimately have "queue_wf u" unfolding queue_wf_def assms(2,3) using assms(4-8) by metis
  with assms(1,9-14) show ?thesis unfolding streaming_wf_def by metis
qed

lemma in_slot_lists [simp]:
  "in_slot (s\<lparr>out_pending := ps, out_active := qs\<rparr>) r = in_slot s r"
  "in_slot (s\<lparr>out_discard := ps, out_active := qs\<rparr>) r = in_slot s r"
  by (simp_all add: in_slot_def)

lemma frame_write_done_wf:
  assumes wf: "streaming_wf s" and act: "is_buf_active 1 s \<or> is_buf_active 2 s" and fc: "cap_frame_count s \<noteq> - 1"
  shows "streaming_wf (mxc_isi_cap_frame_write_done k s)"
proof -
  let ?q = "cap_frame_count s + 1"
  have q0: "?q \<noteq> 0" "?q \<noteq> 1" using wf fc by (simp_all add: streaming_wf_def add_eq_0_iff2)
  have base: "queue_wf s" "f_fmt (cap_dst_f s) \<noteq> None" "\<not> isi_m2m_enabled s"
    using wf by (simp_all add: streaming_wf_def)
  from wf act fc show ?thesis
  proof (cases rule: frame_write_done_cases [where k = k])
    case skip
    then show ?thesis using wf by simp
  next
    case (pending a b p ps)
    let ?s = "frame_taken s a [b]" and ?ds = "out_discard (frame_taken s a [b])"
    have b: "in_slot s b" "b_id (cap_bufs s a) \<noteq> b_id (cap_bufs s b)"
      using wf pending(1) by (auto simp: streaming_wf_def)
    have rest: "list_all (Not \<circ> own) ps" "list_all own ?ds" "{DiscardBuf 0, DiscardBuf 1} \<subseteq> set (b # p # ?ds)"
      using base(1) by (auto simp: queue_wf_def buf_lists_def pending(1,2))
    have wf0: "distinct (b # p # ps @ ?ds)" "\<forall>x \<in> set (b # p # ps @ ?ds). b_discard (cap_bufs ?s x) = own x"
      using base(1) by (auto simp: queue_wf_def buf_lists_def pending(1,2))
    note nb = next_buffer_wf [OF wf0(1) _ q0 _ _ _ wf0(2), of k]
    have "in_slot ?s b" "is_buf_active 1 ?s \<or> is_buf_active 2 ?s" "load_slot ?q ?s \<noteq> b_id (cap_bufs ?s b)"
      using b act pending(4) by simp_all
    note nb = nb [OF this(2) frame_taken_fields(1) this(1,3)]
    show ?thesis
      unfolding pending(3)
    proof (rule streaming_wfI [of _ b p ps ?ds])
      let ?t = "isi_load_buf k p ?q ?s"
      let ?u = "(isi_mark_active p ?t)\<lparr>out_pending := ps, out_active := [b, p]\<rparr>"
      have c: "b_id (cap_bufs ?u x) = b_id (cap_bufs ?t x)" "b_discard (cap_bufs ?u x) = b_discard (cap_bufs ?t x)" for x
        by simp_all
      show "\<forall>x \<in> set (b # p # ps @ ?ds). b_discard (cap_bufs ?u x) = own x" unfolding c by (rule nb(4))
      show "b_id (cap_bufs ?u b) \<noteq> b_id (cap_bufs ?u p)" unfolding c by (rule nb(1))
      show "in_slot ?u b" "in_slot ?u p" using nb(2,3) by simp_all
    qed (use base q0(1) rest wf0(1) in simp_all)
  next
    case (discard a b d ds)
    let ?s = "frame_taken s a [b]"
    have b: "in_slot s b" "b_id (cap_bufs s a) \<noteq> b_id (cap_bufs s b)"
      using wf discard(1) by (auto simp: streaming_wf_def)
    have wf0: "distinct (b # d # [] @ ds)" "\<forall>x \<in> set (b # d # [] @ ds). b_discard (cap_bufs ?s x) = own x"
        "{DiscardBuf 0, DiscardBuf 1} \<subseteq> set (b # d # ds)" "list_all own (d # ds)"
      unfolding append_Nil discard(3) [symmetric]
      using base(1) by (auto simp: queue_wf_def buf_lists_def discard(1,2))
    note nb = next_buffer_wf [OF wf0(1) _ q0 _ _ _ wf0(2), of k]
    have "in_slot ?s b" "is_buf_active 1 ?s \<or> is_buf_active 2 ?s" "load_slot ?q ?s \<noteq> b_id (cap_bufs ?s b)"
      using b act discard(5) by simp_all
    note nb = nb [OF this(2) frame_taken_fields(1) this(1,3)]
    show ?thesis
      unfolding discard(4)
    proof (rule streaming_wfI [of _ b d "[]" ds])
      let ?t = "isi_load_buf k d ?q ?s"
      let ?u = "?t\<lparr>out_discard := ds, out_active := [b, d]\<rparr>"
      have c: "cap_bufs ?u = cap_bufs ?t" by simp
      show "\<forall>x \<in> set (b # d # [] @ ds). b_discard (cap_bufs ?u x) = own x" unfolding c by (rule nb(4))
      show "b_id (cap_bufs ?u b) \<noteq> b_id (cap_bufs ?u d)" unfolding c by (rule nb(1))
      show "in_slot ?u b" "in_slot ?u d" using nb(2,3) by simp_all
    qed (use base q0(1) wf0(1,3,4) discard(2) in simp_all)
  qed
qed

text \<open>A buffer of the user is held until it is handed back, once.\<close>

lemma frame_write_done_books:
  assumes "streaming_wf s" and "is_buf_active 1 s \<or> is_buf_active 2 s" and "cap_frame_count s \<noteq> - 1"
  shows "mset (held_bufs (mxc_isi_cap_frame_write_done k s)) +
      mset (map fst (returned (hist (mxc_isi_cap_frame_write_done k s)))) =
    mset (held_bufs s) + mset (map fst (returned (hist s)))"
proof -
  have own: "b_discard (cap_bufs s x) = own x" if "x \<in> set (out_active s)" for x
    using assms(1) that by (simp add: streaming_wf_def queue_wf_def buf_lists_def)
  from assms show ?thesis
  proof (cases rule: frame_write_done_cases [where k = k])
    case (pending a b p ps)
    then have "\<not> own p" using assms(1) by (simp add: streaming_wf_def queue_wf_def)
    with pending own show ?thesis by (auto simp: held_bufs_def)
  next
    case (discard a b d ds)
    moreover have "list_all own (out_discard (frame_taken s a [b]))"
      using assms(1) own [of a] discard(1) by (auto simp: streaming_wf_def queue_wf_def)
    then have "own d" unfolding discard(3) by simp
    ultimately show ?thesis using own by (auto simp: held_bufs_def)
  qed simp
qed

section \<open>The operations keep the invariant\<close>

lemma streaming_wf_cong:
  assumes "cap_bufs t = cap_bufs s" "out_active t = out_active s" "out_pending t = out_pending s"
    "out_discard t = out_discard s" "cap_dst_f t = cap_dst_f s" "cap_frame_count t = cap_frame_count s"
    "isi_m2m_enabled t = isi_m2m_enabled s" "\<And>i. slot_addrs (regs t) i = slot_addrs (regs s) i"
  shows "streaming_wf t = streaming_wf s"
  using assms by (simp add: streaming_wf_def queue_wf_def buf_lists_def in_slot_def)

text \<open>A frame interrupt names the slot that the hardware turns to.\<close>

definition isi_status_spec :: "sapi \<Rightarrow> bool" where
  "isi_status_spec k \<longleftrightarrow> (\<forall>h. mmio k h ISI_REGS CHNL_STS AND CHNL_STS_FRM_STRD_MASK \<noteq> 0 \<longrightarrow>
     mmio k h ISI_REGS CHNL_STS AND 0x100 \<noteq> 0 \<or> mmio k h ISI_REGS CHNL_STS AND 0x200 \<noteq> 0)"

text \<open>The state in which the handler looks at the frame.\<close>

definition irq_seen :: "sapi \<Rightarrow> 'r isi_cap \<Rightarrow> 'r isi_cap" where
  "irq_seen k s =
     (let s = emit (Soc SpinLock) s; (status, s) = mxc_isi_get_irq_status k s
      in mxc_isi_clean_irq_status status (s\<lparr>isi_status := status\<rparr>))"

lemma irq_seen_fields [simp]:
  "cap_bufs (irq_seen k s) = cap_bufs s" "out_active (irq_seen k s) = out_active s"
  "out_pending (irq_seen k s) = out_pending s" "out_discard (irq_seen k s) = out_discard s"
  "cap_dst_f (irq_seen k s) = cap_dst_f s" "cap_frame_count (irq_seen k s) = cap_frame_count s"
  "isi_m2m_enabled (irq_seen k s) = isi_m2m_enabled s" "returned (hist (irq_seen k s)) = returned (hist s)"
  "isi_status (irq_seen k s) = mmio k (hist s @ [Soc SpinLock]) ISI_REGS CHNL_STS"
  "slot_addrs (regs (irq_seen k s)) i = slot_addrs (regs s) i" "held_bufs (irq_seen k s) = held_bufs s"
  by (cases i; simp add: irq_seen_def mxc_isi_get_irq_status_def mxc_isi_clean_irq_status_def Let_def case_prod_beta
      held_bufs_def)+

lemma irq_handler_eq:
  "mxc_isi_irq_handler k m2m s = emit (Soc SpinUnlock)
     (if isi_status (irq_seen k s) AND CHNL_STS_FRM_STRD_MASK \<noteq> 0
      then if isi_m2m_enabled (irq_seen k s) then m2m (irq_seen k s) else mxc_isi_cap_frame_write_done k (irq_seen k s)
      else irq_seen k s)"
proof -
  have "isi_status (irq_seen k s) = fst (mxc_isi_get_irq_status k (emit (Soc SpinLock) s))"
    by (simp add: mxc_isi_get_irq_status_def)
  then show ?thesis by (simp add: mxc_isi_irq_handler_def irq_seen_def Let_def case_prod_beta)
qed

lemma irq_handler_wf:
  assumes spec: "isi_status_spec k" and wf: "streaming_wf s" and fc: "cap_frame_count s \<noteq> - 1"
  shows "streaming_wf (mxc_isi_irq_handler k m2m s)"
    and "mset (held_bufs (mxc_isi_irq_handler k m2m s)) + mset (map fst (returned (hist (mxc_isi_irq_handler k m2m s)))) =
      mset (held_bufs s) + mset (map fst (returned (hist s)))"
proof -
  let ?s = "irq_seen k s"
  have ws: "streaming_wf ?s" using wf by (subst streaming_wf_cong [of _ s]) simp_all
  have m2m: "\<not> isi_m2m_enabled s" using wf by (simp add: streaming_wf_def)
  have fs: "cap_frame_count ?s \<noteq> - 1" using fc by simp
  have em: "streaming_wf (emit (Soc SpinUnlock) t) = streaming_wf t" "held_bufs (emit (Soc SpinUnlock) t) = held_bufs t"
    for t :: "'a isi_cap"
    by (rule streaming_wf_cong; simp) (simp add: held_bufs_def)
  have act: "is_buf_active 1 ?s \<or> is_buf_active 2 ?s" if "isi_status ?s AND CHNL_STS_FRM_STRD_MASK \<noteq> 0"
    using spec that unfolding isi_status_spec_def is_buf_active_def Let_def by auto
  note go = irq_handler_eq em m2m
  show "streaming_wf (mxc_isi_irq_handler k m2m s)"
    using ws frame_write_done_wf [OF ws act fs] by (simp add: go)
  show "mset (held_bufs (mxc_isi_irq_handler k m2m s)) + mset (map fst (returned (hist (mxc_isi_irq_handler k m2m s)))) =
      mset (held_bufs s) + mset (map fst (returned (hist s)))"
    using frame_write_done_books [OF ws act fs, of k] by (simp add: go)
qed

lemma buffer_queue_wf:
  assumes wf: "streaming_wf s" and new: "UserBuf i \<notin> set (buf_lists s)" and buf: "\<not> b_discard buf"
  defines "t \<equiv> cap_vb2_buffer_queue (UserBuf i) (s\<lparr>cap_bufs := (cap_bufs s)(UserBuf i := buf)\<rparr>)"
  shows "streaming_wf t" and "held_bufs t = held_bufs s @ [UserBuf i]" and "returned (hist t) = returned (hist s)"
proof -
  obtain fmt where fmt: "f_fmt (cap_dst_f s) = Some fmt" using wf by (auto simp: streaming_wf_def)
  let ?b = "snd (mxc_isi_update_buf_paddr buf (if_mdataplanes fmt))"
  have d: "\<not> b_discard ?b" using buf by (simp add: mxc_isi_update_buf_paddr_def Let_def)
  have t: "t = emit (Soc (Isi CapSpinUnlock)) ((emit (Soc (Isi CapSpinLock)) s)\<lparr>cap_bufs := (cap_bufs s)(UserBuf i := ?b),
      out_pending := out_pending s @ [UserBuf i]\<rparr>)"
    by (simp add: t_def cap_vb2_buffer_queue_def Let_def fmt emit_def)
  from wf obtain a b where ab: "out_active s = [a, b]" "b_id (cap_bufs s a) \<noteq> b_id (cap_bufs s b)" "in_slot s a"
      "in_slot s b" "queue_wf s" by (auto simp: streaming_wf_def)
  have ne: "UserBuf i \<noteq> a" "UserBuf i \<noteq> b" using new ab(1) by (auto simp: buf_lists_def)
  show "streaming_wf t"
  proof (rule streaming_wfI [of t a b "out_pending s @ [UserBuf i]" "out_discard s"])
    show "distinct (a # b # (out_pending s @ [UserBuf i]) @ out_discard s)"
      using ab(1,5) new ne by (auto simp: queue_wf_def buf_lists_def)
    show "\<forall>x \<in> set (a # b # (out_pending s @ [UserBuf i]) @ out_discard s). b_discard (cap_bufs t x) = own x"
      using ab(1,5) d by (auto simp: queue_wf_def buf_lists_def t)
    show "in_slot t a" "in_slot t b" using ab(3,4) ne by (simp_all add: in_slot_def t)
  qed (use ab ne wf in \<open>auto simp: t queue_wf_def streaming_wf_def\<close>)
  show "held_bufs t = held_bufs s @ [UserBuf i]" "returned (hist t) = returned (hist s)"
    by (simp_all add: t held_bufs_def)
qed

section \<open>Starting and stopping\<close>

text \<open>Memory traffic of the discard buffer leaves the lists, the buffers and the books alone.\<close>

definition same_queues :: "'r isi_cap \<Rightarrow> 'r isi_cap \<Rightarrow> bool" where
  "same_queues s t \<longleftrightarrow> cap_bufs t = cap_bufs s \<and> out_active t = out_active s \<and> out_pending t = out_pending s \<and>
     out_discard t = out_discard s \<and> cap_dst_f t = cap_dst_f s \<and> isi_m2m_enabled t = isi_m2m_enabled s \<and>
     cap_num_planes t = cap_num_planes s \<and> returned (hist t) = returned (hist s) \<and> regs t = regs s"

lemma same_queues_emit [simp]:
  "same_queues s (emit (Soc (Isi (DmaFree j n))) t) = same_queues s t"
  "same_queues s (emit (Soc (Isi (DmaAlloc j n ok))) t) = same_queues s t"
  "same_queues s (t\<lparr>cap_discard_dma := a\<rparr>) = same_queues s t"
  "same_queues s (t\<lparr>cap_discard_size := z\<rparr>) = same_queues s t"
  by (simp_all add: same_queues_def returned_def map_filter_def done_of_def)

lemma same_queues_refl [simp]: "same_queues s s"
  by (simp add: same_queues_def)

lemma same_queues_fold:
  "same_queues s t \<Longrightarrow> same_queues s (fold (\<lambda>j s. emit (Soc (Isi (DmaFree j (cap_discard_size s j)))) s) js t)"
  by (induction js arbitrary: t) simp_all

lemma same_queues_free: "same_queues s t \<Longrightarrow> same_queues s (isi_free_discard n t)"
  by (simp add: isi_free_discard_def same_queues_fold)

lemma same_queues_alloc: "same_queues s t \<Longrightarrow> same_queues s (snd (isi_alloc_discard v i m t))"
  by (induction v i m t rule: isi_alloc_discard.induct) (auto simp: Let_def same_queues_free)

text \<open>A device before its stream: the user has queued buffers, nothing is active.\<close>

definition stream_ready :: "'r isi_cap \<Rightarrow> bool" where
  "stream_ready s \<longleftrightarrow> out_active s = [] \<and> out_discard s = [] \<and> distinct (out_pending s) \<and>
     (\<forall>r \<in> set (out_pending s). \<not> own r \<and> \<not> b_discard (cap_bufs s r)) \<and>
     f_fmt (cap_dst_f s) \<noteq> None \<and> \<not> isi_m2m_enabled s"

lemma start_streaming_wf:
  assumes rdy: "stream_ready s" and start: "cap_vb2_start_streaming k v cnt s = (0, t)"
  shows "streaming_wf t" and "held_bufs t = held_bufs s" and "returned (hist t) = returned (hist s)"
    and "cap_frame_count t = 1"
proof -
  obtain r1 s1 where 1: "isi_alloc_discard v 0 (cap_num_planes s) s = (r1, s1)" by (cases "isi_alloc_discard v 0 (cap_num_planes s) s")
  have "r1 = 0" using start 1 by (auto simp: cap_vb2_start_streaming_def split: if_splits)
  have same: "same_queues s s1" using same_queues_alloc [of s s v 0 "cap_num_planes s"] 1 by simp
  let ?s2 = "isi_mark_active (DiscardBuf 0) (isi_add_discard 1 (isi_add_discard 0 (emit (Soc (Isi CapSpinLock)) s1)))"
  let ?s3 = "(isi_load_buf k (DiscardBuf 0) 0 ?s2)\<lparr>out_discard := [DiscardBuf 1], out_active := [DiscardBuf 0]\<rparr>"
  obtain p ps where p: "out_pending s = p # ps"
    using start rdy same 1 by (cases "out_pending s") (auto simp: cap_vb2_start_streaming_def Let_def isi_add_discard_def
        stream_ready_def same_queues_def split: if_splits)
  let ?s4 = "isi_mark_active p ?s3"
  let ?s5 = "(isi_load_buf k p 1 ?s4)\<lparr>out_pending := ps, out_active := [DiscardBuf 0, p]\<rparr>"
  have t: "t = emit (Soc (Isi CapSpinUnlock)) (?s5\<lparr>cap_frame_count := 1\<rparr>)"
    using start rdy same 1 p \<open>r1 = 0\<close> by (auto simp: cap_vb2_start_streaming_def Let_def isi_add_discard_def
        stream_ready_def same_queues_def split: if_splits)
  have u: "\<not> own p" "\<forall>r \<in> set ps. \<not> own r" "p \<notin> set ps" "distinct ps" "p \<noteq> DiscardBuf 0"
      "\<forall>r \<in> set (p # ps). \<not> b_discard (cap_bufs s r)"
    using rdy by (auto simp: stream_ready_def p)
  obtain c where c: "cap_bufs ?s3 = (cap_bufs ?s2)(DiscardBuf 0 := c)" "b_id c = MXC_ISI_BUF1" "b_discard c"
    using load_buf_slot(1) [of 0 ?s2 k "DiscardBuf 0"] by (auto simp: load_slot_def isi_add_discard_def)
  have 3: "in_slot ?s3 (DiscardBuf 0)" using load_buf_slot(2) [of 0 ?s2 k "DiscardBuf 0"] by simp
  obtain d where d: "cap_bufs ?s5 = (cap_bufs ?s4)(p := d)" "b_id d = MXC_ISI_BUF2"
      "b_discard d = b_discard (cap_bufs ?s4 p)"
    using load_buf_slot(1) [of 1 ?s4 k p] by (auto simp: load_slot_def)
  have 5: "in_slot ?s5 p" using load_buf_slot(2) [of 1 ?s4 k p] by simp
  have "in_slot (isi_load_buf k p 1 ?s4) (DiscardBuf 0)"
    by (rule in_slot_keep(1)) (use 3 c u(5) in \<open>simp_all add: load_slot_def\<close>)
  then have 50: "in_slot ?s5 (DiscardBuf 0)" by simp
  have bufs: "b_discard (cap_bufs ?s5 r) = b_discard (cap_bufs s r)" if "\<not> own r" for r
    using that d c same by (cases r) (auto simp: isi_add_discard_def same_queues_def isi_mark_active_def)
  have bufs1: "b_discard (cap_bufs ?s5 (DiscardBuf 0))" "b_discard (cap_bufs ?s5 (DiscardBuf 1))"
    using d c u(1,5) by (auto simp: isi_add_discard_def isi_mark_active_def)
  have id: "b_id (cap_bufs ?s5 (DiscardBuf 0)) \<noteq> b_id (cap_bufs ?s5 p)" using d(1,2) c(1,2) u(5) by simp
  show "streaming_wf t"
  proof (rule streaming_wfI [of t "DiscardBuf 0" p ps "[DiscardBuf 1]"])
    show "in_slot t (DiscardBuf 0)" "in_slot t p" using 50 5 by (simp_all add: t in_slot_def)
    show "\<forall>x \<in> set (DiscardBuf 0 # p # ps @ [DiscardBuf 1]). b_discard (cap_bufs t x) = own x"
      using bufs bufs1 u by (simp add: t)
    show "b_id (cap_bufs t (DiscardBuf 0)) \<noteq> b_id (cap_bufs t p)" using id by (simp add: t)
    show "f_fmt (cap_dst_f t) \<noteq> None" "\<not> isi_m2m_enabled t"
      using rdy same by (simp_all add: t isi_add_discard_def stream_ready_def same_queues_def isi_mark_active_def)
  qed (use u in \<open>auto simp: t list_all_iff\<close>)
  show "held_bufs t = held_bufs s"
    using rdy u by (simp add: t held_bufs_def stream_ready_def p)
  show "returned (hist t) = returned (hist s)"
    using same by (simp add: t isi_add_discard_def same_queues_def)
  show "cap_frame_count t = 1" by (simp add: t)
qed

text \<open>
  Streams: from a successful start, the user queues buffers that the driver does not hold and the hardware
  raises interrupts, in any order; \<open>qs\<close> collects the buffers that were ever queued.  The frame counter has 32
  bits and the numbers 0 and 1 are special to \<^verbatim>\<open>mxc_isi_channel_set_outbuf\<close>, so a stream is followed for at most
  2^32 - 2 frames.
\<close>

inductive isi_stream :: "sapi \<Rightarrow> buf_ref multiset \<Rightarrow> 'r isi_cap \<Rightarrow> bool" for k where
  start: "stream_ready s \<Longrightarrow> cap_vb2_start_streaming k v cnt s = (0, s') \<Longrightarrow>
    isi_stream k (mset (held_bufs s) + mset (map fst (returned (hist s)))) s'"
| queue: "isi_stream k qs s \<Longrightarrow> UserBuf i \<notin> set (buf_lists s) \<Longrightarrow> \<not> b_discard buf \<Longrightarrow>
    isi_stream k (add_mset (UserBuf i) qs)
      (cap_vb2_buffer_queue (UserBuf i) (s\<lparr>cap_bufs := (cap_bufs s)(UserBuf i := buf)\<rparr>))"
| frame: "isi_stream k qs s \<Longrightarrow> cap_frame_count s \<noteq> - 1 \<Longrightarrow> isi_stream k qs (mxc_isi_irq_handler k m2m s)"

lemma isi_stream_wf:
  assumes "isi_status_spec k" and "isi_stream k qs s"
  shows "streaming_wf s" and "mset (held_bufs s) + mset (map fst (returned (hist s))) = qs"
proof -
  from assms(2) have "streaming_wf s \<and> mset (held_bufs s) + mset (map fst (returned (hist s))) = qs"
  proof induction
    case (start s v cnt s')
    with start_streaming_wf [OF this] show ?case by simp
  next
    case (queue qs s i buf)
    with buffer_queue_wf [of s i buf] show ?case by simp
  next
    case (frame qs s m2m)
    with irq_handler_wf [OF assms(1), of s m2m] show ?case by simp
  qed
  then show "streaming_wf s" "mset (held_bufs s) + mset (map fst (returned (hist s))) = qs" by simp_all
qed

lemma disable_fields [simp]: "kstate.more (mxc_isi_channel_disable k s) = kstate.more s"
  by (simp add: mxc_isi_channel_disable_def mxc_isi_disable_irq_def Let_def)

lemmas cap_disable [simp] = more_cap_fields [OF disable_fields]

lemma returned_disable [simp]: "returned (hist (mxc_isi_channel_disable k s)) = returned (hist s)"
  by (simp add: mxc_isi_channel_disable_def mxc_isi_disable_irq_def Let_def modify_reg_upd)

lemma flush_fields [simp]:
  "kstate.more (isi_flush rs s) = kstate.more s"
  "returned (hist (isi_flush rs s)) = returned (hist s) @ map (\<lambda>r. (r, False)) rs"
  "regs (isi_flush rs s) = regs s"
  by (induction rs arbitrary: s) simp_all

lemmas cap_flush [simp] = more_cap_fields [OF flush_fields(1)]

section \<open>Properties\<close>

text \<open>
  The buffer behind a slot of the hardware: active, with its addresses in the registers of the slot, and either
  the driver's own or one that the driver holds for the user.
\<close>

definition slot_buffer :: "'r isi_cap \<Rightarrow> mxc_isi_buf_id \<Rightarrow> buf_ref \<Rightarrow> bool" where
  "slot_buffer s i r \<longleftrightarrow> r \<in> set (out_active s) \<and> b_id (cap_bufs s r) = i \<and>
     slot_addrs (regs s) i = buf_addrs (cap_bufs s r) \<and> (own r \<or> r \<in> set (held_bufs s))"

lemma buf_id_other: "(a :: mxc_isi_buf_id) \<noteq> b \<Longrightarrow> i = a \<or> i = b"
  by (cases i; cases a; cases b) simp_all

text \<open>
  C6: throughout a stream, whatever the user queues and whenever the interrupts come, each of the two slots that
  the hardware writes to holds the addresses of exactly one active buffer; that buffer is the driver's own or
  one that the user has queued and the driver has not handed back.  No buffer is on two lists, and two are
  always active.  Queueing and interrupts are whole steps, one after another: the code takes a different spinlock in
  each, so that this is an assumption and not what the locks provide.
\<close>

theorem isi_dma_safe:
  assumes "isi_status_spec k" and "isi_stream k qs s"
  shows "(\<forall>i. \<exists>!r. slot_buffer s i r) \<and> length (out_active s) = 2 \<and>
    distinct (out_active s @ out_pending s @ out_discard s)"
proof -
  from isi_stream_wf(1) [OF assms] obtain a b where ab: "out_active s = [a, b]"
      "b_id (cap_bufs s a) \<noteq> b_id (cap_bufs s b)" "in_slot s a" "in_slot s b" and q: "queue_wf s"
    unfolding streaming_wf_def by blast
  have sb: "slot_buffer s i r \<longleftrightarrow> (r = a \<or> r = b) \<and> b_id (cap_bufs s r) = i" for i r
    using ab(3,4) unfolding slot_buffer_def in_slot_def held_bufs_def ab(1) by auto
  have "\<exists>!r. slot_buffer s i r" for i
    using buf_id_other [OF ab(2), of i] ab(2) unfolding sb by metis
  moreover have "distinct (out_active s @ out_pending s @ out_discard s)"
    using q by (simp add: queue_wf_def buf_lists_def)
  ultimately show ?thesis using ab(1) by simp
qed

text \<open>A board whose interrupts report a frame in the first slot, and a device with two queued buffers.\<close>

definition frame_board :: "u32 \<Rightarrow> sapi" where
  "frame_board st = ideal_soc\<lparr>mmio := (\<lambda>h b off. if b = ISI_REGS \<and> off = CHNL_STS then st else mmio ideal_soc h b off)\<rparr>"

definition free_memory :: vapi where
  "free_memory = \<lparr>dma_alloc_ok = (\<lambda>h i n. True), dma_addr = (\<lambda>h i. 0x40000000 + of_nat i * 0x1000000)\<rparr>"

definition example_buf :: "u64 \<Rightarrow> mxc_isi_buffer" where
  "example_buf a = \<lparr>b_sequence = 0, b_num_planes = 1, b_plane_dma = (\<lambda>_. a), b_plane_size = (\<lambda>_. 0x1000000),
     b_payload = (\<lambda>_. 0), b_vb_active = False, b_paddr = \<lparr>fa_y = 0, fa_cb = 0, fa_cr = 0\<rparr>, b_id = MXC_ISI_BUF1,
     b_discard = False\<rparr>"

definition example_cap :: "buf_ref list \<Rightarrow> unit isi_cap" where
  "example_cap qs = isi_state.extend isi_example
     (isi_cap.fields (\<lambda>r. example_buf (case r of UserBuf i \<Rightarrow> 0x50000000 + of_nat i * 0x1000000 | DiscardBuf i \<Rightarrow> 0)) qs [] []
        (frame_of 1640 1232 (example_fmt V4L2_PIX_FMT_YUYV 0x20)) 0 (\<lambda>_. 0) True True [] 0 True 0 ())"

lemma frame_board_spec [simp]: "isi_status_spec (frame_board 0x20000100)"
  by (simp add: isi_status_spec_def frame_board_def)

lemma example_stream_ready: "stream_ready (example_cap [UserBuf 0, UserBuf 1])"
  by (simp add: stream_ready_def example_cap_def isi_state.defs isi_cap.defs isi_example_def example_buf_def frame_of_def)

lemma example_stream_starts: "fst (cap_vb2_start_streaming k free_memory 2 (example_cap [UserBuf 0, UserBuf 1])) = 0"
  by (simp add: cap_vb2_start_streaming_def example_cap_def isi_state.defs isi_cap.defs isi_example_def
      free_memory_def Let_def isi_add_discard_def case_prod_beta)

text \<open>The example streams, and takes a frame.\<close>

definition example_stream :: "unit isi_cap" where
  "example_stream = snd (cap_vb2_start_streaming (frame_board 0x20000100) free_memory 2 (example_cap [UserBuf 0, UserBuf 1]))"

lemma example_start_eq: "cap_vb2_start_streaming (frame_board 0x20000100) free_memory 2 (example_cap [UserBuf 0, UserBuf 1]) =
    (0, example_stream)"
  unfolding example_stream_def using example_stream_starts by (metis prod.collapse)

lemmas example_running = start_streaming_wf [OF example_stream_ready example_start_eq]

lemma example_isi_stream:
  "isi_stream (frame_board 0x20000100) {#UserBuf 0, UserBuf 1#} example_stream"
proof -
  have "held_bufs (example_cap [UserBuf 0, UserBuf 1]) = [UserBuf 0, UserBuf 1]"
      "returned (hist (example_cap [UserBuf 0, UserBuf 1])) = []"
    by (simp_all add: held_bufs_def example_cap_def isi_state.defs isi_cap.defs isi_example_def)
  with isi_stream.start [OF example_stream_ready example_start_eq] show ?thesis by (simp add: add_mset_commute)
qed

lemma example_frame:
  "isi_stream (frame_board 0x20000100) {#UserBuf 0, UserBuf 1#} (mxc_isi_irq_handler (frame_board 0x20000100) id example_stream)"
  by (rule isi_stream.frame [OF example_isi_stream]) (simp add: example_running(4))

theorem isi_dma_safe_witness:
  "\<exists>!r. slot_buffer (mxc_isi_irq_handler (frame_board 0x20000100) id example_stream) MXC_ISI_BUF2 r"
  using isi_dma_safe [OF frame_board_spec example_frame] by blast

text \<open>
  C15: the books of a stream: every buffer that was ever queued is held by the driver, or has been handed back,
  exactly once, whatever the order of queueing and interrupts, each a whole step; that they do not overlap is assumed,
  as they take different spinlocks.
\<close>

theorem isi_buffers_once:
  assumes "isi_status_spec k" and "isi_stream k qs s"
  shows "mset (held_bufs s) + mset (map fst (returned (hist s))) = qs"
  by (rule isi_stream_wf(2) [OF assms])

theorem isi_buffers_once_witness:
  "let s = mxc_isi_irq_handler (frame_board 0x20000100) id example_stream
   in mset (held_bufs s) + mset (map fst (returned (hist s))) = {#UserBuf 0, UserBuf 1#}"
  using isi_buffers_once [OF frame_board_spec example_frame] by simp

text \<open>
  C22: stopping a stream empties the three lists and hands every buffer that the driver still holds back with an
  error; after it the books are closed.
\<close>

theorem isi_stop_returns:
  assumes "isi_status_spec k" and "isi_stream k qs s" and "cap_vb2_stop_streaming k s = s'"
  shows "out_active s' = [] \<and> out_pending s' = [] \<and> out_discard s' = [] \<and>
    returned (hist s') = returned (hist s) @ map (\<lambda>r. (r, False)) (held_bufs s) \<and>
    mset (map fst (returned (hist s'))) = qs"
proof -
  from isi_stream_wf [OF assms(1,2)] have wf: "streaming_wf s" and books: "mset (held_bufs s) + mset (map fst (returned (hist s))) = qs" .
  have act: "filter (\<lambda>r. \<not> b_discard (cap_bufs s r)) (out_active s) = filter (Not \<circ> own) (out_active s)"
    using wf by (auto simp: streaming_wf_def queue_wf_def buf_lists_def intro: filter_cong)
  have pend: "filter (Not \<circ> own) (out_pending s) = out_pending s"
    using wf by (simp add: streaming_wf_def queue_wf_def list_all_iff)
  have free: "returned (hist (isi_free_discard n t)) = returned (hist t)" "out_active (isi_free_discard n t) = out_active t"
      "out_pending (isi_free_discard n t) = out_pending t" "out_discard (isi_free_discard n t) = out_discard t"
    for n and t :: "'a isi_cap"
    using same_queues_free [OF same_queues_refl, of t n] by (simp_all add: same_queues_def)
  have "returned (hist s') = returned (hist s) @ map (\<lambda>r. (r, False)) (held_bufs s)"
    unfolding assms(3) [symmetric]
    by (simp add: cap_vb2_stop_streaming_def Let_def free held_bufs_def act pend)
  moreover have "out_active s' = []" "out_pending s' = []" "out_discard s' = []"
    unfolding assms(3) [symmetric] by (simp_all add: cap_vb2_stop_streaming_def Let_def free)
  ultimately show ?thesis using books by (simp add: o_def add.commute)
qed

theorem isi_stop_returns_witness:
  "mset (map fst (returned (hist (cap_vb2_stop_streaming (frame_board 0x20000100) example_stream)))) =
     {#UserBuf 0, UserBuf 1#}"
  using isi_stop_returns [OF frame_board_spec example_isi_stream refl] by blast

text \<open>
  C21: an interrupt never changes the addresses of the slot that the hardware is filling, the one slot that the
  status names as active.
\<close>

theorem isi_irq_keeps_filling:
  assumes "streaming_wf s" and "cap_frame_count s \<noteq> - 1" and "mxc_isi_irq_handler k m2m s = s'"
    and "is_buf_active 1 (irq_seen k s) \<noteq> is_buf_active 2 (irq_seen k s)"
    and "i = (if is_buf_active 1 (irq_seen k s) then MXC_ISI_BUF1 else MXC_ISI_BUF2)"
  shows "slot_addrs (regs s') i = slot_addrs (regs s) i"
proof -
  let ?s = "irq_seen k s" and ?q = "cap_frame_count s + 1"
  have ws: "streaming_wf ?s" using assms(1) by (subst streaming_wf_cong [of _ s]) simp_all
  have act: "is_buf_active 1 ?s \<or> is_buf_active 2 ?s" and fs: "cap_frame_count ?s \<noteq> - 1" using assms(2,4) by auto
  have q: "?q \<noteq> 0" "?q \<noteq> 1" using assms(1,2) by (simp_all add: streaming_wf_def add_eq_0_iff2)
  have i: "i \<noteq> load_slot ?q ?s" using assms(4,5) q by (auto simp: load_slot_def)
  have "slot_addrs (regs (mxc_isi_cap_frame_write_done k ?s)) i = slot_addrs (regs ?s) i"
    using ws act fs
  proof (cases rule: frame_write_done_cases [where k = k])
    case (pending a b p ps)
    with load_buf_slot(3) [of ?q "frame_taken ?s a [b]" i k p] act i show ?thesis by simp
  next
    case (discard a b d ds)
    with load_buf_slot(3) [of ?q "frame_taken ?s a [b]" i k d] act i show ?thesis by simp
  qed simp
  moreover have "\<not> isi_m2m_enabled s" using assms(1) by (simp add: streaming_wf_def)
  ultimately show ?thesis unfolding assms(3) [symmetric] by (simp add: irq_handler_eq)
qed

theorem isi_irq_keeps_filling_witness:
  "\<exists>i. slot_addrs (regs (mxc_isi_irq_handler (frame_board 0x20000100) id example_stream)) i =
     slot_addrs (regs example_stream) i"
proof -
  have "is_buf_active 1 (irq_seen (frame_board 0x20000100) s) \<noteq> is_buf_active 2 (irq_seen (frame_board 0x20000100) s)"
    for s :: "unit isi_cap"
    by (simp add: is_buf_active_def Let_def frame_board_def)
  from isi_irq_keeps_filling [OF example_running(1) _ refl this refl] show ?thesis
    by (auto simp: example_running(4))
qed

text \<open>
  starting a stream that fails, for want of buffers or of memory, keeps every buffer of the user on the
  pending list and hands none back.
\<close>

theorem isi_start_failure_keeps:
  assumes "out_pending s \<noteq> []" and "cap_vb2_start_streaming k v cnt s = (r, t)" and "r \<noteq> 0"
  shows "(cnt < 2 \<and> r = - ENOBUFS \<or> r = - ENOMEM) \<and> out_pending t = out_pending s \<and> returned (hist t) = returned (hist s)"
proof -
  have err: "fst (isi_alloc_discard v i m s) = 0 \<or> fst (isi_alloc_discard v i m s) = - ENOMEM" for i m and s :: "'a isi_cap"
    by (induction v i m s rule: isi_alloc_discard.induct) (auto simp: Let_def)
  obtain r1 s1 where 1: "isi_alloc_discard v 0 (cap_num_planes s) s = (r1, s1)" by (cases "isi_alloc_discard v 0 (cap_num_planes s) s")
  have same: "same_queues s s1" using same_queues_alloc [of s s v 0 "cap_num_planes s"] 1 by simp
  show ?thesis
  proof (cases "cnt < 2")
    case False
    with assms(2,3) 1 err [of 0 "cap_num_planes s" s] have "r = r1" "t = s1" "r1 = - ENOMEM"
      using same assms(1) by (auto simp: cap_vb2_start_streaming_def Let_def isi_add_discard_def same_queues_def
          split: if_splits list.splits)
    with same show ?thesis by (simp add: same_queues_def)
  qed (use assms(2) in \<open>simp add: cap_vb2_start_streaming_def\<close>)
qed

theorem isi_start_failure_keeps_witness:
  "\<exists>t. cap_vb2_start_streaming ideal_soc free_memory 1 (example_cap [UserBuf 0]) = (- ENOBUFS, t) \<and> out_pending t = [UserBuf 0]"
proof -
  have 1: "cap_vb2_start_streaming ideal_soc free_memory 1 (example_cap [UserBuf 0]) = (- ENOBUFS, example_cap [UserBuf 0])"
    by (simp add: cap_vb2_start_streaming_def)
  have p: "out_pending (example_cap [UserBuf 0]) = [UserBuf 0]"
    by (simp add: example_cap_def isi_state.defs isi_cap.defs isi_example_def)
  have "out_pending (example_cap [UserBuf 0]) \<noteq> []" by (simp add: p)
  from isi_start_failure_keeps [OF this 1] p have "out_pending (example_cap [UserBuf 0]) = [UserBuf 0]" by simp
  with 1 show ?thesis by blast
qed

end
