(* ===== verification/Isi_Formats.thy ===== *)
theory Isi_Formats
  imports Isi_Queue Csis_Dev "HOL-Library.Signed_Division"
begin

text \<open>
  Formats, sizes and rectangles of the capture device (\<^verbatim>\<open>imx8-isi-cap.c\<close>): the two format tables, their
  searches, the format and selection ioctls of the video node, and the same operations of the sub-device.
\<close>

section \<open>Constants\<close>

text \<open>Codes of the output format register.\<close>

abbreviation (input) MXC_ISI_OUT_FMT_RAW8 :: u32 where
  "MXC_ISI_OUT_FMT_RAW8 \<equiv> 0xB"

abbreviation (input) MXC_ISI_OUT_FMT_RAW10 :: u32 where
  "MXC_ISI_OUT_FMT_RAW10 \<equiv> 0xC"

abbreviation (input) MXC_ISI_OUT_FMT_RAW12 :: u32 where
  "MXC_ISI_OUT_FMT_RAW12 \<equiv> 0xE"

abbreviation (input) MXC_ISI_OUT_FMT_RGB565 :: u32 where
  "MXC_ISI_OUT_FMT_RGB565 \<equiv> 0xA"

abbreviation (input) MXC_ISI_OUT_FMT_BGR32P :: u32 where
  "MXC_ISI_OUT_FMT_BGR32P \<equiv> 0x7"

abbreviation (input) MXC_ISI_OUT_FMT_RGB32P :: u32 where
  "MXC_ISI_OUT_FMT_RGB32P \<equiv> 0x6"

abbreviation (input) MXC_ISI_OUT_FMT_YUV422_1P8P :: u32 where
  "MXC_ISI_OUT_FMT_YUV422_1P8P \<equiv> 0x20"

abbreviation (input) MXC_ISI_OUT_FMT_YUV444_1P8 :: u32 where
  "MXC_ISI_OUT_FMT_YUV444_1P8 \<equiv> 0x13"

abbreviation (input) MXC_ISI_OUT_FMT_YUV420_2P8P :: u32 where
  "MXC_ISI_OUT_FMT_YUV420_2P8P \<equiv> 0x31"

abbreviation (input) MXC_ISI_OUT_FMT_YUV444_3P8P :: u32 where
  "MXC_ISI_OUT_FMT_YUV444_3P8P \<equiv> 0x12"

abbreviation (input) MXC_ISI_OUT_FMT_XRGB32 :: u32 where
  "MXC_ISI_OUT_FMT_XRGB32 \<equiv> 0x5"

abbreviation (input) MXC_ISI_OUT_FMT_ARGB32 :: u32 where
  "MXC_ISI_OUT_FMT_ARGB32 \<equiv> 0x2"

text \<open>Pads of the sub-device.\<close>

abbreviation (input) MXC_ISI_SD_PAD_SINK_MIPI0_VC0 :: u32 where
  "MXC_ISI_SD_PAD_SINK_MIPI0_VC0 \<equiv> 0"

abbreviation (input) MXC_ISI_SD_PAD_SINK_MIPI0_VC1 :: u32 where
  "MXC_ISI_SD_PAD_SINK_MIPI0_VC1 \<equiv> 1"

abbreviation (input) MXC_ISI_SD_PAD_SINK_MIPI0_VC2 :: u32 where
  "MXC_ISI_SD_PAD_SINK_MIPI0_VC2 \<equiv> 2"

abbreviation (input) MXC_ISI_SD_PAD_SINK_MIPI0_VC3 :: u32 where
  "MXC_ISI_SD_PAD_SINK_MIPI0_VC3 \<equiv> 3"

abbreviation (input) MXC_ISI_SD_PAD_SINK_MIPI1_VC0 :: u32 where
  "MXC_ISI_SD_PAD_SINK_MIPI1_VC0 \<equiv> 4"

abbreviation (input) MXC_ISI_SD_PAD_SINK_MIPI1_VC1 :: u32 where
  "MXC_ISI_SD_PAD_SINK_MIPI1_VC1 \<equiv> 5"

abbreviation (input) MXC_ISI_SD_PAD_SINK_MIPI1_VC2 :: u32 where
  "MXC_ISI_SD_PAD_SINK_MIPI1_VC2 \<equiv> 6"

abbreviation (input) MXC_ISI_SD_PAD_SINK_MIPI1_VC3 :: u32 where
  "MXC_ISI_SD_PAD_SINK_MIPI1_VC3 \<equiv> 7"

abbreviation (input) MXC_ISI_SD_PAD_SINK_DC0 :: u32 where
  "MXC_ISI_SD_PAD_SINK_DC0 \<equiv> 8"

abbreviation (input) MXC_ISI_SD_PAD_SINK_DC1 :: u32 where
  "MXC_ISI_SD_PAD_SINK_DC1 \<equiv> 9"

abbreviation (input) MXC_ISI_SD_PAD_SINK_HDMI :: u32 where
  "MXC_ISI_SD_PAD_SINK_HDMI \<equiv> 10"

abbreviation (input) MXC_ISI_SD_PAD_SINK_MEM :: u32 where
  "MXC_ISI_SD_PAD_SINK_MEM \<equiv> 11"

abbreviation (input) MXC_ISI_SD_PAD_SOURCE_MEM :: u32 where
  "MXC_ISI_SD_PAD_SOURCE_MEM \<equiv> 12"

abbreviation (input) MXC_ISI_SD_PAD_SOURCE_DC0 :: u32 where
  "MXC_ISI_SD_PAD_SOURCE_DC0 \<equiv> 13"

abbreviation (input) MXC_ISI_SD_PAD_SOURCE_DC1 :: u32 where
  "MXC_ISI_SD_PAD_SOURCE_DC1 \<equiv> 14"

abbreviation (input) MXC_ISI_SD_PAD_SINK_PARALLEL_CSI :: u32 where
  "MXC_ISI_SD_PAD_SINK_PARALLEL_CSI \<equiv> 15"

abbreviation (input) MXC_ISI_SD_PADS_NUM :: u32 where
  "MXC_ISI_SD_PADS_NUM \<equiv> 16"

text \<open>Constants of the user-space headers.\<close>

abbreviation (input) V4L2_SEL_TGT_CROP :: u32 where
  "V4L2_SEL_TGT_CROP \<equiv> 0x0000"

abbreviation (input) V4L2_SEL_TGT_CROP_DEFAULT :: u32 where
  "V4L2_SEL_TGT_CROP_DEFAULT \<equiv> 0x0001"

abbreviation (input) V4L2_SEL_TGT_CROP_BOUNDS :: u32 where
  "V4L2_SEL_TGT_CROP_BOUNDS \<equiv> 0x0002"

abbreviation (input) V4L2_SEL_TGT_COMPOSE :: u32 where
  "V4L2_SEL_TGT_COMPOSE \<equiv> 0x0100"

abbreviation (input) V4L2_SEL_TGT_COMPOSE_DEFAULT :: u32 where
  "V4L2_SEL_TGT_COMPOSE_DEFAULT \<equiv> 0x0101"

abbreviation (input) V4L2_SEL_TGT_COMPOSE_BOUNDS :: u32 where
  "V4L2_SEL_TGT_COMPOSE_BOUNDS \<equiv> 0x0102"

abbreviation (input) V4L2_SEL_FLAG_GE :: u32 where
  "V4L2_SEL_FLAG_GE \<equiv> 0x1"

abbreviation (input) V4L2_SEL_FLAG_LE :: u32 where
  "V4L2_SEL_FLAG_LE \<equiv> 0x2"

abbreviation (input) V4L2_BUF_TYPE_VIDEO_CAPTURE_MPLANE :: u32 where
  "V4L2_BUF_TYPE_VIDEO_CAPTURE_MPLANE \<equiv> 9"

abbreviation (input) MEDIA_LNK_FL_ENABLED :: u32 where
  "MEDIA_LNK_FL_ENABLED \<equiv> 0x1"

abbreviation (input) ERANGE :: int where "ERANGE \<equiv> 34"

section \<open>Format tables\<close>

text \<open>Name, pixel format, bus code, register code, number of planes (of memory and of colour), depth of each plane.\<close>

definition out_format_entry :: "string \<Rightarrow> u32 \<Rightarrow> u32 \<Rightarrow> u32 \<Rightarrow> u16 \<Rightarrow> u8 list \<Rightarrow> mxc_isi_fmt" where
  "out_format_entry name fourcc mbus color planes depth = \<lparr>if_name = name, if_mbus_code = mbus, if_fourcc = fourcc,
     if_color = color, if_memplanes = planes, if_colplanes = planes, if_depth = depth, if_mdataplanes = 0\<rparr>"

definition mxc_isi_out_formats :: "mxc_isi_fmt list" where
  "mxc_isi_out_formats = [
     out_format_entry ''Y8-RAW'' V4L2_PIX_FMT_GREY MEDIA_BUS_FMT_Y8_1X8 MXC_ISI_OUT_FMT_RAW8 1 [8, 0, 0],
     out_format_entry ''Y10-RAW'' V4L2_PIX_FMT_Y10 MEDIA_BUS_FMT_Y10_1X10 MXC_ISI_OUT_FMT_RAW10 1 [16, 0, 0],
     out_format_entry ''Y12-RAW'' V4L2_PIX_FMT_Y12 MEDIA_BUS_FMT_Y12_1X12 MXC_ISI_OUT_FMT_RAW12 1 [16, 0, 0],
     out_format_entry ''SBGGR8-RAW'' V4L2_PIX_FMT_SBGGR8 MEDIA_BUS_FMT_SBGGR8_1X8 MXC_ISI_OUT_FMT_RAW8 1 [8, 0, 0],
     out_format_entry ''SGBRG8-RAW'' V4L2_PIX_FMT_SGBRG8 MEDIA_BUS_FMT_SGBRG8_1X8 MXC_ISI_OUT_FMT_RAW8 1 [8, 0, 0],
     out_format_entry ''SGRBG8-RAW'' V4L2_PIX_FMT_SGRBG8 MEDIA_BUS_FMT_SGRBG8_1X8 MXC_ISI_OUT_FMT_RAW8 1 [8, 0, 0],
     out_format_entry ''SRGGB8-RAW'' V4L2_PIX_FMT_SRGGB8 MEDIA_BUS_FMT_SRGGB8_1X8 MXC_ISI_OUT_FMT_RAW8 1 [8, 0, 0],
     out_format_entry ''SBGGR10-RAW'' V4L2_PIX_FMT_SBGGR10 MEDIA_BUS_FMT_SBGGR10_1X10 MXC_ISI_OUT_FMT_RAW10 1 [16, 0, 0],
     out_format_entry ''SGBRG10-RAW'' V4L2_PIX_FMT_SGBRG10 MEDIA_BUS_FMT_SGBRG10_1X10 MXC_ISI_OUT_FMT_RAW10 1 [16, 0, 0],
     out_format_entry ''SGRBG10-RAW'' V4L2_PIX_FMT_SGRBG10 MEDIA_BUS_FMT_SGRBG10_1X10 MXC_ISI_OUT_FMT_RAW10 1 [16, 0, 0],
     out_format_entry ''SRGGB10-RAW'' V4L2_PIX_FMT_SRGGB10 MEDIA_BUS_FMT_SRGGB10_1X10 MXC_ISI_OUT_FMT_RAW10 1 [16, 0, 0],
     out_format_entry ''SBGGR12-RAW'' V4L2_PIX_FMT_SBGGR12 MEDIA_BUS_FMT_SBGGR12_1X12 MXC_ISI_OUT_FMT_RAW12 1 [16, 0, 0],
     out_format_entry ''SGBRG12-RAW'' V4L2_PIX_FMT_SGBRG12 MEDIA_BUS_FMT_SGBRG12_1X12 MXC_ISI_OUT_FMT_RAW12 1 [16, 0, 0],
     out_format_entry ''SGRBG12-RAW'' V4L2_PIX_FMT_SGRBG12 MEDIA_BUS_FMT_SGRBG12_1X12 MXC_ISI_OUT_FMT_RAW12 1 [16, 0, 0],
     out_format_entry ''SRGGB12-RAW'' V4L2_PIX_FMT_SRGGB12 MEDIA_BUS_FMT_SRGGB12_1X12 MXC_ISI_OUT_FMT_RAW12 1 [16, 0, 0],
     out_format_entry ''RGB565'' V4L2_PIX_FMT_RGB565 MEDIA_BUS_FMT_RGB565_1X16 MXC_ISI_OUT_FMT_RGB565 1 [16, 0, 0],
     out_format_entry ''RGB24'' V4L2_PIX_FMT_RGB24 MEDIA_BUS_FMT_RGB888_1X24 MXC_ISI_OUT_FMT_BGR32P 1 [24, 0, 0],
     out_format_entry ''BGR24'' V4L2_PIX_FMT_BGR24 MEDIA_BUS_FMT_BGR888_1X24 MXC_ISI_OUT_FMT_RGB32P 1 [24, 0, 0],
     out_format_entry ''YUYV-16'' V4L2_PIX_FMT_YUYV MEDIA_BUS_FMT_YUYV8_1X16 MXC_ISI_OUT_FMT_YUV422_1P8P 1 [16, 0, 0],
     out_format_entry ''YUV32 (X-Y-U-V)'' V4L2_PIX_FMT_YUV32 MEDIA_BUS_FMT_AYUV8_1X32 MXC_ISI_OUT_FMT_YUV444_1P8 1 [32, 0, 0],
     out_format_entry ''NV12 (YUYV)'' V4L2_PIX_FMT_NV12 MEDIA_BUS_FMT_YUYV8_1X16 MXC_ISI_OUT_FMT_YUV420_2P8P 2 [8, 8, 0],
     out_format_entry ''YUV444M (Y-U-V)'' V4L2_PIX_FMT_YUV444M MEDIA_BUS_FMT_YUV8_1X24 MXC_ISI_OUT_FMT_YUV444_3P8P 3 [8, 8, 8],
     out_format_entry ''xBGR32'' V4L2_PIX_FMT_XBGR32 MEDIA_BUS_FMT_RGB888_1X24 MXC_ISI_OUT_FMT_XRGB32 1 [32, 0, 0],
     out_format_entry ''ABGR32'' V4L2_PIX_FMT_ABGR32 MEDIA_BUS_FMT_RGB888_1X24 MXC_ISI_OUT_FMT_ARGB32 1 [32, 0, 0]]"

definition mxc_isi_src_formats :: "mxc_isi_fmt list" where
  "mxc_isi_src_formats = [
     out_format_entry ''RGB32'' V4L2_PIX_FMT_RGB32 0 0 1 [32, 0, 0],
     out_format_entry ''YUV32 (X-Y-U-V)'' V4L2_PIX_FMT_YUV32 0 0 1 [32, 0, 0]]"

text \<open>Reading beyond the table is not defined; the callers stay within it.\<close>

definition mxc_isi_get_format :: "nat \<Rightarrow> mxc_isi_fmt option" where
  "mxc_isi_get_format index =
     (if index < length mxc_isi_out_formats then Some (mxc_isi_out_formats ! index) else None)"

text \<open>
  The search: a pixel format or a bus code that is looked for, and the default entry \<open>index\<close> that is returned
  when neither is found.
\<close>

fun find_format_loop ::
  "mxc_isi_fmt list \<Rightarrow> u32 option \<Rightarrow> u32 option \<Rightarrow> int \<Rightarrow> int \<Rightarrow> mxc_isi_fmt option \<Rightarrow> mxc_isi_fmt option" where
  "find_format_loop [] pixelformat mbus_code index i def_fmt = def_fmt"
| "find_format_loop (fmt # fmts) pixelformat mbus_code index i def_fmt =
     (if pixelformat = Some (if_fourcc fmt) then Some fmt
      else if mbus_code = Some (if_mbus_code fmt) then Some fmt
      else find_format_loop fmts pixelformat mbus_code index (i + 1) (if index = i then Some fmt else def_fmt))"

definition mxc_isi_find_format :: "u32 option \<Rightarrow> u32 option \<Rightarrow> int \<Rightarrow> mxc_isi_fmt option" where
  "mxc_isi_find_format pixelformat mbus_code index =
     (if index \<ge> int (length mxc_isi_out_formats) then None
      else find_format_loop mxc_isi_out_formats pixelformat mbus_code index 0 None)"

definition mxc_isi_get_src_fmt :: "v4l2_subdev_format \<Rightarrow> mxc_isi_fmt" where
  "mxc_isi_get_src_fmt sd_fmt =
     (let code = fmt_code (sf_format sd_fmt);
          index = (if code \<in> {MEDIA_BUS_FMT_YUYV8_1X16, MEDIA_BUS_FMT_YVYU8_2X8, MEDIA_BUS_FMT_AYUV8_1X32,
                              MEDIA_BUS_FMT_UYVY8_2X8, MEDIA_BUS_FMT_YUYV8_2X8} then 1 else 0)
      in mxc_isi_src_formats ! index)"

section \<open>The environment\<close>

text \<open>
  What the kernel answers to the capture device: whether buffers are allocated, the device tree of the parent,
  the media graph (links of the video node, of the sub-device, of the sub-device it is connected to and of the
  one behind that, the pads of the former with what is connected to them), return codes.
\<close>

record mapi =
  vb2_is_busy :: "kevent list \<Rightarrow> bool"
  parent_compatible :: "kevent list \<Rightarrow> string \<Rightarrow> bool"
  vdev_num_links :: "kevent list \<Rightarrow> nat"
  sd_num_links :: "kevent list \<Rightarrow> nat"
  csi_num_links :: "kevent list \<Rightarrow> nat"
  csi_pads :: "kevent list \<Rightarrow> (u32 \<times> remote_pad option) list"
  sensor_num_links :: "kevent list \<Rightarrow> nat"
  fh_open_ret :: "kevent list \<Rightarrow> int"
  graph_walk_ret :: "kevent list \<Rightarrow> int"
  ctrl_error :: "kevent list \<Rightarrow> int"
  vb2_init_ret :: "kevent list \<Rightarrow> int"
  video_register_ret :: "kevent list \<Rightarrow> int"
  host_parent :: "kevent list \<Rightarrow> bool"
  host_data :: "kevent list \<Rightarrow> bool"

section \<open>Formats of the video node\<close>

text \<open>
  \<^verbatim>\<open>struct v4l2_pix_format_mplane\<close> as far as it is used, with the pitches and sizes of its planes.
\<close>

record pix_format_mplane =
  pm_width :: u32
  pm_height :: u32
  pm_pixelformat :: u32
  pm_field :: u32
  pm_colorspace :: u32
  pm_bytesperline :: "u32 list"
  pm_sizeimage :: "u32 list"
  pm_num_planes :: nat

definition mxc_isi_cap_g_fmt_mplane :: "pix_format_mplane \<Rightarrow> 'r isi_cap \<Rightarrow> int \<times> pix_format_mplane \<times> 'r isi_cap" where
  "mxc_isi_cap_g_fmt_mplane pix s =
     (let dst_f = cap_dst_f s
      in case f_fmt dst_f of
           None \<Rightarrow> (- EFAULT, pix, emit NullDeref s)
         | Some fmt \<Rightarrow>
      let n = unat (if_memplanes fmt);
          pix = pix\<lparr>pm_width := o_width dst_f, pm_height := o_height dst_f, pm_field := V4L2_FIELD_NONE,
            pm_pixelformat := if_fourcc fmt, pm_colorspace := V4L2_COLORSPACE_JPEG, pm_num_planes := n\<rparr>;
          pix = fold (\<lambda>i pix. pix\<lparr>pm_bytesperline := (pm_bytesperline pix)[i := bytesperline dst_f ! i],
            pm_sizeimage := (pm_sizeimage pix)[i := sizeimage dst_f ! i]\<rparr>) [0..<n] pix
      in (0, pix, s))"

definition mxc_isi_cap_try_fmt_mplane :: "pix_format_mplane \<Rightarrow> int" where
  "mxc_isi_cap_try_fmt_mplane pix =
     (if find_index (\<lambda>fmt. if_fourcc fmt = pm_pixelformat pix) mxc_isi_out_formats \<ge> length mxc_isi_out_formats
      then - EINVAL
      else if pm_width pix = 0 \<or> pm_height pix = 0 then - EINVAL
      else 0)"

text \<open>
  The pitch and the size of plane \<open>i\<close>.  \<^verbatim>\<open>bpl\<close> is an \<^verbatim>\<open>int\<close>, its quotient is converted back to compare it.
\<close>

definition plane_pitch :: "mxc_isi_fmt \<Rightarrow> pix_format_mplane \<Rightarrow> nat \<Rightarrow> u32" where
  "plane_pitch fmt pix i =
     (let bpl = sint (pm_bytesperline pix ! i);
          depth = if_depth fmt ! i
      in if bpl = 0 \<or> word_of_int (bpl sdiv uint (drop_bit 3 depth)) < pm_width pix
         then drop_bit 3 (pm_width pix * ucast depth) else pm_bytesperline pix ! i)"

definition plane_image :: "mxc_isi_fmt \<Rightarrow> u32 \<Rightarrow> u32 \<Rightarrow> nat \<Rightarrow> u32" where
  "plane_image fmt width height i =
     (if i = 1 \<and> if_fourcc fmt = V4L2_PIX_FMT_NV12
      then drop_bit 3 (width * drop_bit 1 height * ucast (if_depth fmt ! i))
      else drop_bit 3 (width * height * ucast (if_depth fmt ! i)))"

definition set_planes :: "mxc_isi_fmt \<Rightarrow> pix_format_mplane \<Rightarrow> pix_format_mplane" where
  "set_planes fmt pix = fold (\<lambda>i pix. pix\<lparr>pm_bytesperline := (pm_bytesperline pix)[i := plane_pitch fmt pix i],
     pm_sizeimage := (pm_sizeimage pix)[i := plane_image fmt (pm_width pix) (pm_height pix) i]\<rparr>)
     [0..<pm_num_planes pix] pix"

text \<open>Of \<^verbatim>\<open>isi_cap->pix\<close> only the number of planes is read elsewhere.\<close>

definition mxc_isi_cap_s_fmt_mplane ::
  "mapi \<Rightarrow> pix_format_mplane \<Rightarrow> 'r isi_cap \<Rightarrow> int \<times> pix_format_mplane \<times> 'r isi_cap" where
  "mxc_isi_cap_s_fmt_mplane m pix s =
     (if vb2_is_busy m (hist s) then (- EBUSY, pix, s)
      else let i = find_index (\<lambda>fmt. if_fourcc fmt = pm_pixelformat pix) mxc_isi_out_formats
      in if i \<ge> length mxc_isi_out_formats then (- EINVAL, pix, s)
      else if pm_height pix = 0 \<or> pm_width pix = 0 then (- EINVAL, pix, s)
      else let fmt = mxc_isi_out_formats ! i;
               dst_f = (cap_dst_f s)\<lparr>f_fmt := Some fmt, f_height := pm_height pix, f_width := pm_width pix\<rparr>;
               pix = set_planes fmt (pix\<lparr>pm_num_planes := unat (if_memplanes fmt)\<rparr>);
               dst_f = (if pm_num_planes pix > 1
                 then fold (\<lambda>i f. f\<lparr>bytesperline := (bytesperline f)[i := pm_bytesperline pix ! i],
                        sizeimage := (sizeimage f)[i := pm_sizeimage pix ! i]\<rparr>) [0..<pm_num_planes pix] dst_f
                 else let bpl = f_width dst_f * ucast (if_depth fmt ! 0) div 8
                      in dst_f\<lparr>bytesperline := (bytesperline dst_f)[0 := bpl],
                           sizeimage := (sizeimage dst_f)[0 := f_height dst_f * bpl]\<rparr>);
               dst_f = set_frame_bounds (pm_width pix) (pm_height pix) dst_f
      in (0, pix, s\<lparr>cap_dst_f := dst_f, cap_num_planes := pm_num_planes pix\<rparr>))"

section \<open>Selections of the video node\<close>

record v4l2_selection =
  sel_type :: u32
  sel_target :: u32
  sel_flags :: u32
  sel_r :: v4l2_rect

text \<open>The switch falls through from the targets of the composition to those of the crop.\<close>

definition mxc_isi_cap_g_selection :: "v4l2_selection \<Rightarrow> 'r isi_cap \<Rightarrow> int \<times> v4l2_selection" where
  "mxc_isi_cap_g_selection sel s =
     (if sel_type sel \<noteq> V4L2_BUF_TYPE_VIDEO_CAPTURE_MPLANE then (- EINVAL, sel)
      else let t = sel_target sel;
               f = (if t \<in> {V4L2_SEL_TGT_COMPOSE_DEFAULT, V4L2_SEL_TGT_COMPOSE_BOUNDS, V4L2_SEL_TGT_COMPOSE}
                    then cap_dst_f s else cap_src_f s)
      in if t \<in> {V4L2_SEL_TGT_COMPOSE_DEFAULT, V4L2_SEL_TGT_COMPOSE_BOUNDS, V4L2_SEL_TGT_CROP_BOUNDS, V4L2_SEL_TGT_CROP_DEFAULT}
         then (0, sel\<lparr>sel_r := \<lparr>r_left = 0, r_top = 0, r_width = o_width f, r_height = o_height f\<rparr>\<rparr>)
      else if t \<in> {V4L2_SEL_TGT_COMPOSE, V4L2_SEL_TGT_CROP}
         then (0, sel\<lparr>sel_r := \<lparr>r_left = h_off f, r_top = v_off f, r_width = f_width f, r_height = f_height f\<rparr>\<rparr>)
      else (- EINVAL, sel))"

text \<open>Positions are signed, sums with a size unsigned.\<close>

definition enclosed_rectangle :: "v4l2_rect \<Rightarrow> v4l2_rect \<Rightarrow> bool" where
  "enclosed_rectangle a b =
     (if sint (r_left a) < sint (r_left b) \<or> sint (r_top a) < sint (r_top b) then False
      else if r_left a + r_width a > r_left b + r_width b then False
      else if r_top a + r_height a > r_top b + r_height b then False
      else True)"

definition mxc_isi_cap_s_selection :: "v4l2_selection \<Rightarrow> 'r isi_cap \<Rightarrow> int \<times> v4l2_selection \<times> 'r isi_cap" where
  "mxc_isi_cap_s_selection sel s =
     (let rect = sel_r sel
      in if sel_type sel \<noteq> V4L2_BUF_TYPE_VIDEO_CAPTURE_MPLANE then (- EINVAL, sel, s)
      else if sel_target sel \<noteq> V4L2_SEL_TGT_COMPOSE \<and> sel_target sel \<noteq> V4L2_SEL_TGT_CROP then (- EINVAL, sel, s)
      else if sel_flags sel AND V4L2_SEL_FLAG_LE \<noteq> 0 \<and> \<not> enclosed_rectangle rect (sel_r sel) then (- ERANGE, sel, s)
      else if sel_flags sel AND V4L2_SEL_FLAG_GE \<noteq> 0 \<and> \<not> enclosed_rectangle (sel_r sel) rect then (- ERANGE, sel, s)
      else let sel = sel\<lparr>sel_r := rect\<rparr>;
               s = emit (Soc (Isi CapSpinLock)) s;
               crop = set_frame_crop (r_left (sel_r sel)) (r_top (sel_r sel)) (r_width (sel_r sel)) (r_height (sel_r sel));
               s = (if sel_target sel = V4L2_SEL_TGT_COMPOSE then s\<lparr>cap_dst_f := crop (cap_dst_f s)\<rparr>
                    else s\<lparr>cap_src_f := crop (cap_src_f s)\<rparr>)
      in (0, sel, emit (Soc (Isi CapSpinUnlock)) s))"

section \<open>Operations of the sub-device\<close>

definition mxc_isi_subdev_enum_mbus_code :: "'r isi_cap op" where
  "mxc_isi_subdev_enum_mbus_code s = (0, s)"

definition source_pads :: "u32 set" where
  "source_pads = {MXC_ISI_SD_PAD_SOURCE_MEM, MXC_ISI_SD_PAD_SOURCE_DC0, MXC_ISI_SD_PAD_SOURCE_DC1}"

definition sink_pads :: "u32 set" where
  "sink_pads = {MXC_ISI_SD_PAD_SINK_MIPI0_VC0, MXC_ISI_SD_PAD_SINK_MIPI0_VC1, MXC_ISI_SD_PAD_SINK_MIPI0_VC2,
     MXC_ISI_SD_PAD_SINK_MIPI0_VC3, MXC_ISI_SD_PAD_SINK_MIPI1_VC0, MXC_ISI_SD_PAD_SINK_MIPI1_VC1,
     MXC_ISI_SD_PAD_SINK_MIPI1_VC2, MXC_ISI_SD_PAD_SINK_MIPI1_VC3, MXC_ISI_SD_PAD_SINK_HDMI,
     MXC_ISI_SD_PAD_SINK_DC0, MXC_ISI_SD_PAD_SINK_DC1, MXC_ISI_SD_PAD_SINK_MEM}"

definition mxc_isi_link_setup :: "u32 \<Rightarrow> u32 \<Rightarrow> u32 \<Rightarrow> 'r isi_cap op" where
  "mxc_isi_link_setup local_flags local_index flags s =
     (if flags AND MEDIA_LNK_FL_ENABLED = 0 then (0, s)
      else if local_flags AND MEDIA_PAD_FL_SOURCE \<noteq> 0
      then if local_index \<in> source_pads then (0, s) else (- EINVAL, s)
      else if local_flags AND MEDIA_PAD_FL_SINK \<noteq> 0
      then if local_index \<in> insert MXC_ISI_SD_PAD_SINK_PARALLEL_CSI sink_pads then (0, s) else (- EINVAL, s)
      else (0, s))"

text \<open>A frame without a format only leads to a warning.\<close>

definition mxc_isi_subdev_get_fmt ::
  "v4l2_subdev_format \<Rightarrow> 'r isi_cap \<Rightarrow> int \<times> v4l2_subdev_format \<times> 'r isi_cap" where
  "mxc_isi_subdev_get_fmt fmt s =
     (let s = emit MutexLock s
      in if sf_pad fmt \<notin> source_pads \<and> sf_pad fmt \<notin> sink_pads then (- 1, fmt, emit MutexUnlock s)
      else let f = (if sf_pad fmt \<in> source_pads then cap_dst_f s else cap_src_f s);
               mf = sf_format fmt;
               mf = (case f_fmt f of None \<Rightarrow> mf | Some x \<Rightarrow> mf\<lparr>fmt_code := if_mbus_code x\<rparr>);
               mf = mf\<lparr>fmt_width := f_width f, fmt_height := f_height f, fmt_colorspace := V4L2_COLORSPACE_JPEG\<rparr>
      in (0, fmt\<lparr>sf_format := mf\<rparr>, emit MutexUnlock s))"

text \<open>
  The reference to the parent node is not dropped.  After the loop over the planes its counter is the number of
  planes: with three planes the pitch that follows is read and written behind the arrays, over the pointer to the
  format; the model records the access and goes on.
\<close>

definition mxc_isi_subdev_set_fmt :: "mapi \<Rightarrow> v4l2_subdev_format \<Rightarrow> 'r isi_cap op" where
  "mxc_isi_subdev_set_fmt m fmt s =
     (let mf = sf_format fmt
      in if sf_pad fmt < MXC_ISI_SD_PAD_SOURCE_MEM \<and> vb2_is_busy m (hist s) then (- EBUSY, s)
      else let i = find_index (\<lambda>out_fmt. fmt_code mf = if_mbus_code out_fmt) mxc_isi_out_formats
      in if i \<ge> length mxc_isi_out_formats then (- EINVAL, s)
      else let s = emit FwnodeGet s
      in if parent_compatible m (hist s) ''fsl,imx8mn-isi'' \<and> fmt_width mf > ISI_2K then (- EINVAL, s)
      else let s = emit MutexLock s;
               out_fmt = mxc_isi_out_formats ! i;
               dst_f = (cap_dst_f s)\<lparr>f_fmt := Some out_fmt\<rparr>;
               n = unat (if_memplanes out_fmt);
               (dst_f, s) =
                 (if n > 1
                  then let dst_f = fold (\<lambda>i f. f\<lparr>sizeimage := (sizeimage f)[i := plane_image out_fmt (fmt_width mf) (fmt_height mf) i]\<rparr>)
                             [0..<n] dst_f
                       in if n < 3
                          then (dst_f\<lparr>bytesperline := (bytesperline dst_f)[n := drop_bit 3 (fmt_width mf * ucast (if_depth out_fmt ! n))]\<rparr>, s)
                          else (dst_f, emit (Soc (Isi (OutOfBounds ''bytesperline'' n))) s)
                  else let bpl = fmt_width mf * ucast (if_depth out_fmt ! 0) div 8
                       in (dst_f\<lparr>bytesperline := (bytesperline dst_f)[0 := bpl],
                             sizeimage := (sizeimage dst_f)[0 := fmt_height mf * bpl]\<rparr>, s));
               dst_f = set_frame_bounds (fmt_width mf) (fmt_height mf) dst_f
      in (0, emit MutexUnlock (s\<lparr>cap_dst_f := dst_f\<rparr>)))"

text \<open>
  Selections of the sub-device, with the try rectangles of the pad configuration, the crop and the
  composition of each pad.  An index beyond the pads selects the first one.
\<close>

record v4l2_subdev_selection =
  ss_which :: u32
  ss_pad :: u32
  ss_target :: u32
  ss_r :: v4l2_rect

record try_rects =
  try_crop :: "nat \<Rightarrow> v4l2_rect"
  try_compose :: "nat \<Rightarrow> v4l2_rect"

definition try_pad :: "u32 \<Rightarrow> 'r isi_cap \<Rightarrow> nat" where
  "try_pad p s = (if unat p \<ge> cap_num_pads s then 0 else unat p)"

definition mxc_isi_subdev_get_selection ::
  "try_rects \<Rightarrow> v4l2_subdev_selection \<Rightarrow> 'r isi_cap \<Rightarrow> int \<times> v4l2_subdev_selection \<times> 'r isi_cap" where
  "mxc_isi_subdev_get_selection cfg sel s =
     (let s = emit MutexLock s;
          t = ss_target sel;
          f = (if t = V4L2_SEL_TGT_COMPOSE_BOUNDS \<or> t = V4L2_SEL_TGT_COMPOSE then cap_dst_f s else cap_src_f s)
      in if t = V4L2_SEL_TGT_COMPOSE_BOUNDS \<or> t = V4L2_SEL_TGT_CROP_BOUNDS
         then (0, sel\<lparr>ss_r := \<lparr>r_left = 0, r_top = 0, r_width = o_width f, r_height = o_height f\<rparr>\<rparr>, emit MutexUnlock s)
      else if t \<noteq> V4L2_SEL_TGT_CROP \<and> t \<noteq> V4L2_SEL_TGT_COMPOSE then (- EINVAL, sel, emit MutexUnlock s)
      else let p = try_pad (ss_pad sel) s;
               r = (if ss_which sel = V4L2_SUBDEV_FORMAT_TRY
                    then if t = V4L2_SEL_TGT_CROP then try_crop cfg p else try_compose cfg p
                    else \<lparr>r_left = h_off f, r_top = v_off f, r_width = f_width f, r_height = f_height f\<rparr>)
      in (0, sel\<lparr>ss_r := r\<rparr>, emit MutexUnlock s))"

definition mxc_isi_subdev_set_selection ::
  "try_rects \<Rightarrow> v4l2_subdev_selection \<Rightarrow> 'r isi_cap \<Rightarrow> int \<times> try_rects \<times> 'r isi_cap" where
  "mxc_isi_subdev_set_selection cfg sel s =
     (let s = emit MutexLock s;
          t = ss_target sel; r = ss_r sel
      in if t \<noteq> V4L2_SEL_TGT_CROP \<and> t \<noteq> V4L2_SEL_TGT_COMPOSE then (- EINVAL, cfg, emit MutexUnlock s)
      else let p = try_pad (ss_pad sel) s
      in if ss_which sel = V4L2_SUBDEV_FORMAT_TRY
         then (0, if t = V4L2_SEL_TGT_CROP then cfg\<lparr>try_crop := (try_crop cfg)(p := r)\<rparr>
                  else cfg\<lparr>try_compose := (try_compose cfg)(p := r)\<rparr>, emit MutexUnlock s)
      else let s = emit (Soc (Isi CapSpinLock)) s;
               crop = set_frame_crop (r_left r) (r_top r) (r_width r) (r_height r);
               s = (if t = V4L2_SEL_TGT_COMPOSE then s\<lparr>cap_dst_f := crop (cap_dst_f s)\<rparr>
                    else s\<lparr>cap_src_f := crop (cap_src_f s)\<rparr>);
               s = emit (Soc (Isi CapSpinUnlock)) s
      in (0, cfg, emit MutexUnlock s))"

section \<open>Tables and searches\<close>

text \<open>What a format of the table looks like, in memory.\<close>

definition plain_format :: "mxc_isi_fmt \<Rightarrow> bool" where
  "plain_format fmt \<longleftrightarrow> if_memplanes fmt = 1 \<and> tl (if_depth fmt) = [0, 0] \<and> hd (if_depth fmt) \<in> {8, 16, 24, 32} \<and>
     if_fourcc fmt \<notin> {V4L2_PIX_FMT_NV12, V4L2_PIX_FMT_YUV444M}"

lemma out_formats_planes:
  "fmt \<in> set mxc_isi_out_formats \<Longrightarrow> plain_format fmt \<or>
     if_memplanes fmt = 2 \<and> if_fourcc fmt = V4L2_PIX_FMT_NV12 \<and> if_depth fmt = [8, 8, 0] \<or>
     if_memplanes fmt = 3 \<and> if_fourcc fmt = V4L2_PIX_FMT_YUV444M \<and> if_depth fmt = [8, 8, 8]"
proof -
  have "list_all (\<lambda>fmt. plain_format fmt \<or>
     if_memplanes fmt = 2 \<and> if_fourcc fmt = V4L2_PIX_FMT_NV12 \<and> if_depth fmt = [8, 8, 0] \<or>
     if_memplanes fmt = 3 \<and> if_fourcc fmt = V4L2_PIX_FMT_YUV444M \<and> if_depth fmt = [8, 8, 8]) mxc_isi_out_formats"
    unfolding mxc_isi_out_formats_def out_format_entry_def plain_format_def by simp
  then show "fmt \<in> set mxc_isi_out_formats \<Longrightarrow> plain_format fmt \<or>
     if_memplanes fmt = 2 \<and> if_fourcc fmt = V4L2_PIX_FMT_NV12 \<and> if_depth fmt = [8, 8, 0] \<or>
     if_memplanes fmt = 3 \<and> if_fourcc fmt = V4L2_PIX_FMT_YUV444M \<and> if_depth fmt = [8, 8, 8]"
    by (simp only: list_all_iff)
qed

lemma find_fourcc:
  assumes "find_index (\<lambda>fmt. if_fourcc fmt = c) mxc_isi_out_formats < length mxc_isi_out_formats"
  defines "fmt \<equiv> mxc_isi_out_formats ! find_index (\<lambda>fmt. if_fourcc fmt = c) mxc_isi_out_formats"
  shows "fmt \<in> set mxc_isi_out_formats" "if_fourcc fmt = c"
  using assms(1) find_index_hit [OF assms(1)] by (simp_all add: fmt_def)

section \<open>Setting the format\<close>

lemma fold_list_update:
  "distinct is \<Longrightarrow> fold (\<lambda>i xs. xs[i := f i]) is xs = map (\<lambda>i. if i \<in> set is then f i else xs ! i) [0..<length xs]"
proof (induction "is" arbitrary: xs)
  case Nil
  then show ?case by (simp add: map_nth)
next
  case (Cons i "is")
  then show ?case by (auto simp: nth_list_update intro!: nth_equalityI)
qed

lemma set_planes_fields:
  "set_planes fmt pix = pix\<lparr>
     pm_bytesperline := fold (\<lambda>i xs. xs[i := plane_pitch fmt pix i]) [0..<pm_num_planes pix] (pm_bytesperline pix),
     pm_sizeimage := fold (\<lambda>i xs. xs[i := plane_image fmt (pm_width pix) (pm_height pix) i]) [0..<pm_num_planes pix] (pm_sizeimage pix)\<rparr>"
proof -
  have 1: "fold (\<lambda>i p. p\<lparr>pm_bytesperline := (pm_bytesperline p)[i := plane_pitch fmt p i],
     pm_sizeimage := (pm_sizeimage p)[i := plane_image fmt (pm_width p) (pm_height p) i]\<rparr>) is p =
     p\<lparr>pm_bytesperline := fold (\<lambda>i xs. xs[i := plane_pitch fmt p i]) is (pm_bytesperline p),
       pm_sizeimage := fold (\<lambda>i xs. xs[i := plane_image fmt (pm_width p) (pm_height p) i]) is (pm_sizeimage p)\<rparr>"
    if "distinct is" for "is" p
    using that
  proof (induction "is" arbitrary: p)
    case (Cons i "is")
    let ?p = "p\<lparr>pm_bytesperline := (pm_bytesperline p)[i := plane_pitch fmt p i],
       pm_sizeimage := (pm_sizeimage p)[i := plane_image fmt (pm_width p) (pm_height p) i]\<rparr>"
    have "plane_pitch fmt ?p j = plane_pitch fmt p j" if "j \<in> set is" for j
      using Cons.prems that by (cases "i = j") (simp_all add: plane_pitch_def Let_def)
    then have "fold (\<lambda>i xs. xs[i := plane_pitch fmt ?p i]) is xs = fold (\<lambda>i xs. xs[i := plane_pitch fmt p i]) is xs" for xs
      by (intro fold_cong) simp_all
    with Cons.IH [of ?p] Cons.prems show ?case by simp
  qed simp
  show ?thesis unfolding set_planes_def by (rule 1) simp
qed

lemma frame_fold:
  "fold (\<lambda>i f. f\<lparr>bytesperline := (bytesperline f)[i := g i], sizeimage := (sizeimage f)[i := h i]\<rparr>) is f =
     f\<lparr>bytesperline := fold (\<lambda>i xs. xs[i := g i]) is (bytesperline f), sizeimage := fold (\<lambda>i xs. xs[i := h i]) is (sizeimage f)\<rparr>"
  "fold (\<lambda>i f. f\<lparr>sizeimage := (sizeimage f)[i := h i]\<rparr>) is f = f\<lparr>sizeimage := fold (\<lambda>i xs. xs[i := h i]) is (sizeimage f)\<rparr>"
  by (induction "is" arbitrary: f) simp_all

lemma pix_fold:
  "fold (\<lambda>i p. p\<lparr>pm_bytesperline := (pm_bytesperline p)[i := g i], pm_sizeimage := (pm_sizeimage p)[i := h i]\<rparr>) is p =
     p\<lparr>pm_bytesperline := fold (\<lambda>i xs. xs[i := g i]) is (pm_bytesperline p),
       pm_sizeimage := fold (\<lambda>i xs. xs[i := h i]) is (pm_sizeimage p)\<rparr>"
  by (induction "is" arbitrary: p) simp_all

lemma fold_update_nth [simp]:
  assumes "n \<le> length xs"
  shows "length (fold (\<lambda>i xs. xs[i := f i]) [0..<n] xs) = length xs"
    and "i < n \<Longrightarrow> fold (\<lambda>i xs. xs[i := f i]) [0..<n] xs ! i = f i"
  using assms by (simp_all add: fold_list_update)

lemma plane_nth:
  assumes "i < n" and "n \<le> length xs"
  shows "(if 1 < n then fold (\<lambda>i xs. xs[i := g i]) [0..<n] xs else xs[0 := a]) ! i = (if 1 < n then g i else a)"
proof (cases "1 < n")
  case False
  then have "i = 0" "0 < length xs" using assms by linarith+
  with False show ?thesis by simp
qed (use assms in simp)

text \<open>A frame and a request have room for three planes.\<close>

definition frame_room :: "'r isi_cap \<Rightarrow> pix_format_mplane \<Rightarrow> bool" where
  "frame_room s pix \<longleftrightarrow> length (bytesperline (cap_dst_f s)) = 3 \<and> length (sizeimage (cap_dst_f s)) = 3 \<and>
     3 \<le> length (pm_bytesperline pix) \<and> 3 \<le> length (pm_sizeimage pix)"

lemma planes_le:
  "fmt \<in> set mxc_isi_out_formats \<Longrightarrow> unat (if_memplanes fmt) \<le> 3 \<and> 1 \<le> unat (if_memplanes fmt)"
  using out_formats_planes [of fmt] by (auto simp: plain_format_def)

lemma s_fmt_cases:
  assumes "mxc_isi_cap_s_fmt_mplane m pix s = (0, pix', s')" and "frame_room s pix"
  obtains fmt d where "fmt \<in> set mxc_isi_out_formats" "if_fourcc fmt = pm_pixelformat pix"
    "pm_width pix \<noteq> 0" "pm_height pix \<noteq> 0"
    "s' = s\<lparr>cap_dst_f := d, cap_num_planes := unat (if_memplanes fmt)\<rparr>" "f_fmt d = Some fmt"
    "o_width d = pm_width pix" "o_height d = pm_height pix" "f_width d = pm_width pix" "f_height d = pm_height pix"
    "pix' = set_planes fmt (pix\<lparr>pm_num_planes := unat (if_memplanes fmt)\<rparr>)"
    "\<And>i. i < unat (if_memplanes fmt) \<Longrightarrow> bytesperline d ! i =
       (if if_memplanes fmt = 1 then pm_width pix * ucast (if_depth fmt ! 0) div 8 else plane_pitch fmt pix i)"
    "\<And>i. i < unat (if_memplanes fmt) \<Longrightarrow> sizeimage d ! i =
       (if if_memplanes fmt = 1 then pm_height pix * (pm_width pix * ucast (if_depth fmt ! 0) div 8)
        else plane_image fmt (pm_width pix) (pm_height pix) i)"
proof -
  let ?i = "find_index (\<lambda>fmt. if_fourcc fmt = pm_pixelformat pix) mxc_isi_out_formats"
  let ?fmt = "mxc_isi_out_formats ! ?i"
  let ?n = "unat (if_memplanes ?fmt)"
  have i: "?i < length mxc_isi_out_formats" and wh: "pm_width pix \<noteq> 0" "pm_height pix \<noteq> 0"
    using assms(1) by (auto simp: mxc_isi_cap_s_fmt_mplane_def Let_def split: if_splits)
  note fmt = find_fourcc [OF i]
  note n = planes_le [OF fmt(1)]
  have one: "if_memplanes ?fmt = 1 \<longleftrightarrow> \<not> 1 < ?n"
    using n by (auto simp: word_unat_eq_iff)
  have pitch: "plane_pitch f (p\<lparr>pm_num_planes := k\<rparr>) j = plane_pitch f p j" for f p k j
    by (simp add: plane_pitch_def Let_def)
  have room: "length (bytesperline (cap_dst_f s)) = 3" "length (sizeimage (cap_dst_f s)) = 3"
      "3 \<le> length (pm_bytesperline pix)" "3 \<le> length (pm_sizeimage pix)"
    using assms(2) by (simp_all add: frame_room_def)
  let ?f = "(cap_dst_f s)\<lparr>f_fmt := Some ?fmt, f_height := pm_height pix, f_width := pm_width pix\<rparr>"
  let ?bpl = "pm_width pix * ucast (if_depth ?fmt ! 0) div 8"
  define bs where "bs = (if 1 < ?n then fold (\<lambda>i xs. xs[i := plane_pitch ?fmt pix i]) [0..<?n] (bytesperline (cap_dst_f s))
    else (bytesperline (cap_dst_f s))[0 := ?bpl])"
  define zs where "zs = (if 1 < ?n
    then fold (\<lambda>i xs. xs[i := plane_image ?fmt (pm_width pix) (pm_height pix) i]) [0..<?n] (sizeimage (cap_dst_f s))
    else (sizeimage (cap_dst_f s))[0 := pm_height pix * ?bpl])"
  let ?d = "set_frame_bounds (pm_width pix) (pm_height pix) (?f\<lparr>bytesperline := bs, sizeimage := zs\<rparr>)"
  have sel: "fold (\<lambda>i xs. xs[i := fold (\<lambda>i xs. xs[i := g i]) [0..<k] ys ! i]) [0..<k] xs = fold (\<lambda>i xs. xs[i := g i]) [0..<k] xs"
    if "k \<le> length ys" "k \<le> length xs" for g :: "nat \<Rightarrow> u32" and xs ys k
    using that by (intro nth_equalityI) (auto simp: fold_list_update)
  have eq0: "(ret, p, t) = (0, set_planes ?fmt (pix\<lparr>pm_num_planes := ?n\<rparr>), s\<lparr>cap_dst_f := ?d, cap_num_planes := ?n\<rparr>)"
    if "(ret, p, t) = mxc_isi_cap_s_fmt_mplane m pix s" "ret = 0" for ret p t
    using that i wh n room
    by (auto simp: mxc_isi_cap_s_fmt_mplane_def Let_def set_planes_fields frame_fold pitch bs_def zs_def sel split: if_splits)
  have eq: "pix' = set_planes ?fmt (pix\<lparr>pm_num_planes := ?n\<rparr>)" "s' = s\<lparr>cap_dst_f := ?d, cap_num_planes := ?n\<rparr>"
    using eq0 [OF assms(1) [symmetric] refl] by simp_all
  have b: "bs ! i = (if if_memplanes ?fmt = 1 then ?bpl else plane_pitch ?fmt pix i)"
    and z: "zs ! i = (if if_memplanes ?fmt = 1 then pm_height pix * ?bpl
      else plane_image ?fmt (pm_width pix) (pm_height pix) i)" if "i < ?n" for i
  proof -
    have k: "?n \<le> length (bytesperline (cap_dst_f s))" "?n \<le> length (sizeimage (cap_dst_f s))"
      using n room(1,2) by simp_all
    show "bs ! i = (if if_memplanes ?fmt = 1 then ?bpl else plane_pitch ?fmt pix i)"
      unfolding bs_def plane_nth [OF that k(1)] one by (cases "1 < ?n") simp_all
    show "zs ! i = (if if_memplanes ?fmt = 1 then pm_height pix * ?bpl
        else plane_image ?fmt (pm_width pix) (pm_height pix) i)"
      unfolding zs_def plane_nth [OF that k(2)] one by (cases "1 < ?n") simp_all
  qed
  show thesis
    by (rule that [OF fmt wh eq(2)]) (simp_all add: set_frame_bounds_def eq(1) b z)
qed

section \<open>Sizes without wrap-around\<close>

lemma unat_drop: "unat (drop_bit n (x :: 'a::len word)) = unat x div 2 ^ n"
  unfolding unat_drop_bit_eq by (rule drop_bit_eq_div)

lemma unat_up: "unat (ucast (x :: u32) :: u64) = unat x"
  using unsigned_less [of x, where ?'a = nat] by (simp add: unsigned_ucast_eq take_bit_nat_eq_self)

lemma unat_prod:
  fixes x y :: u32
  assumes "unat x * unat y < 2 ^ 32" shows "unat (x * y) = unat x * unat y"
  using assms by (subst unat_mult_lem [THEN iffD1]) simp_all

lemma packed_sizes:
  fixes w h :: u32 and d :: u8
  assumes d: "d \<in> {8, 16, 24, 32}"
  shows "unat w * unat d < 2 ^ 32 \<Longrightarrow> unat (drop_bit 3 (w * ucast d)) = unat w * unat d div 8"
    and "w * ucast d div 8 = drop_bit 3 (w * ucast d)"
    and "unat w * unat h * unat d < 2 ^ 32 \<Longrightarrow> unat (drop_bit 3 (w * h * ucast d)) = unat w * unat h * (unat d div 8)"
    and "unat w * unat h * unat d < 2 ^ 32 \<Longrightarrow> h \<noteq> 0 \<Longrightarrow> h * drop_bit 3 (w * ucast d) = drop_bit 3 (w * h * ucast d)"
proof -
  define c where "c = unat d div 8"
  have dc: "unat d = 8 * c" and ud: "unat (ucast d :: u32) = 8 * c" and c: "0 < c" using d by (auto simp: c_def)
  show "w * ucast d div 8 = drop_bit 3 (w * ucast d)" by (simp add: drop_bit_eq_div)
  show line: "unat (drop_bit 3 (w * ucast d)) = unat w * unat d div 8" if "unat w * unat d < 2 ^ 32"
    using that by (simp add: unat_drop unat_prod ud dc)
  show area: "unat (drop_bit 3 (w * h * ucast d)) = unat w * unat h * (unat d div 8)" if le: "unat w * unat h * unat d < 2 ^ 32"
  proof -
    have "unat w * unat h \<le> unat w * unat h * unat d" using c by (simp add: dc)
    then have "unat (w * h) = unat w * unat h" using le by (intro unat_prod) linarith
    then show ?thesis using le by (simp add: unat_drop unat_prod ud dc)
  qed
  show "h * drop_bit 3 (w * ucast d) = drop_bit 3 (w * h * ucast d)" if le: "unat w * unat h * unat d < 2 ^ 32" and "h \<noteq> 0"
  proof -
    have "1 \<le> unat h" using \<open>h \<noteq> 0\<close> by (simp add: Suc_leI unat_gt_0)
    then have "unat w * 1 * unat d \<le> unat w * unat h * unat d" by (intro mult_le_mono) simp_all
    then have "unat w * unat d < 2 ^ 32" using le by linarith
    from line [OF this] have l: "unat (drop_bit 3 (w * ucast d)) = unat w * c" by (simp add: dc)
    have "unat h * (unat w * c) < 2 ^ 32" using le by (simp add: dc ac_simps)
    then have "unat (h * drop_bit 3 (w * ucast d)) = unat h * (unat w * c)" by (simp add: unat_prod l)
    also have "\<dots> = unat (drop_bit 3 (w * h * ucast d))" using area [OF le] by (simp add: dc)
    finally show ?thesis by (simp only: word_unat_eq_iff)
  qed
qed

lemma pitch_cases: "plane_pitch fmt pix i \<in> {drop_bit 3 (pm_width pix * ucast (if_depth fmt ! i)), pm_bytesperline pix ! i}"
  by (simp add: plane_pitch_def Let_def)

lemma prepare_planes_fit:
  "prepare_planes f is b = (0, b') \<Longrightarrow> i \<in> set is \<Longrightarrow> ucast (sizeimage f ! i) \<le> b_plane_size b i"
proof (induction f "is" b rule: prepare_planes.induct)
  case (2 f j "is" b)
  then show ?case by (auto simp: Let_def split: if_splits)
qed simp

lemma prepare_planes_size: "prepare_planes f is b = (r, b') \<Longrightarrow> b_plane_size b' = b_plane_size b"
  by (induction f "is" b rule: prepare_planes.induct) (auto simp: Let_def split: if_splits)

text \<open>The lines of a plane.\<close>

definition plane_lines :: "mxc_isi_fmt \<Rightarrow> u32 \<Rightarrow> nat \<Rightarrow> nat" where
  "plane_lines fmt h i = (if i = 1 \<and> if_fourcc fmt = V4L2_PIX_FMT_NV12 then unat h div 2 else unat h)"

lemma plane_image_lines:
  assumes "if_depth fmt ! i = 8" and "unat w * unat h * 8 < 2 ^ 32"
  shows "unat (plane_image fmt w h i) = unat w * plane_lines fmt h i"
proof (cases "i = 1 \<and> if_fourcc fmt = V4L2_PIX_FMT_NV12")
  case True
  have half: "unat (drop_bit 1 h) = unat h div 2"
    by (simp only: unat_drop power_one_right)
  have "unat w * (unat h div 2) \<le> unat w * unat h" by simp
  then have "unat w * unat (drop_bit 1 h) * 8 < 2 ^ 32" unfolding half using assms(2) by linarith
  then show ?thesis
    using packed_sizes(3) [of 8 w "drop_bit 1 h"] True assms(1) half by (simp add: plane_image_def plane_lines_def)
next
  case False
  then show ?thesis
    using packed_sizes(3) [of 8 w h] assms(2) unfolding plane_image_def plane_lines_def if_not_P [OF False] assms(1) by simp
qed

text \<open>The pitch of a plane with one byte for each pixel: packed unless a larger one is requested.\<close>

lemma byte_pitch:
  assumes "if_depth fmt ! 0 = 8" and "unat (pm_width pix) * 8 < 2 ^ 32" and "pm_width pix \<noteq> 0" and "pm_bytesperline pix ! 0 < 2 ^ 31"
  shows "plane_pitch fmt pix 0 = max (pm_width pix) (pm_bytesperline pix ! 0)"
proof -
  let ?p = "pm_bytesperline pix ! 0"
  have "uint ?p < 2 ^ 31" using assms(4) by (simp add: word_less_def)
  moreover have "- (2 ^ 31 :: int) \<le> uint ?p" by (rule order_trans [of _ 0]) simp_all
  ultimately have "sint ?p = uint ?p" using signed_take_bit_int_eq_self [of 31 "uint ?p"] by (simp add: sint_uint)
  moreover have "drop_bit 3 (pm_width pix * 8) = pm_width pix"
    using packed_sizes(1) [of 8 "pm_width pix"] assms(2) by (simp add: word_unat_eq_iff)
  ultimately show ?thesis
    using assms(1,3) by (auto simp: plane_pitch_def Let_def drop_bit_eq_div max_def uint_0_iff)
qed

section \<open>Properties\<close>

text \<open>The frame that a successful request leaves and the answer that it gives.\<close>

lemma s_fmt_frame:
  assumes "mxc_isi_cap_s_fmt_mplane m pix s = (0, pix', s')" and "frame_room s pix"
  obtains fmt d where "fmt \<in> set mxc_isi_out_formats" "if_fourcc fmt = pm_pixelformat pix" "f_fmt d = Some fmt"
    "s' = s\<lparr>cap_dst_f := d, cap_num_planes := unat (if_memplanes fmt)\<rparr>"
    "o_width d = pm_width pix" "o_height d = pm_height pix" "pm_width pix \<noteq> 0" "pm_height pix \<noteq> 0"
    "pm_num_planes pix' = unat (if_memplanes fmt)"
    "\<And>i. i < unat (if_memplanes fmt) \<Longrightarrow> pm_bytesperline pix' ! i = plane_pitch fmt pix i \<and>
       pm_sizeimage pix' ! i = plane_image fmt (pm_width pix) (pm_height pix) i"
    "if_memplanes fmt = 1 \<Longrightarrow> if_depth fmt ! 0 \<in> {8, 16, 24, 32} \<and>
       bytesperline d ! 0 = drop_bit 3 (pm_width pix * ucast (if_depth fmt ! 0)) \<and>
       sizeimage d ! 0 = pm_height pix * drop_bit 3 (pm_width pix * ucast (if_depth fmt ! 0))"
    "\<And>i. if_memplanes fmt \<noteq> 1 \<Longrightarrow> i < unat (if_memplanes fmt) \<Longrightarrow> if_depth fmt ! 0 = 8 \<and> if_depth fmt ! i = 8 \<and>
       bytesperline d ! i = plane_pitch fmt pix i \<and> sizeimage d ! i = plane_image fmt (pm_width pix) (pm_height pix) i"
  using s_fmt_cases [OF assms]
proof cases
  case (1 fmt d)
  have room: "3 \<le> length (pm_bytesperline pix)" "3 \<le> length (pm_sizeimage pix)"
    using assms(2) by (simp_all add: frame_room_def)
  have p: "plane_pitch fmt (pix\<lparr>pm_num_planes := k\<rparr>) i = plane_pitch fmt pix i" for k i
    by (simp add: plane_pitch_def Let_def)
  have k: "unat (if_memplanes fmt) \<le> length (pm_bytesperline pix)" "unat (if_memplanes fmt) \<le> length (pm_sizeimage pix)"
    using planes_le [OF 1(1)] room by linarith+
  have one: "if_depth fmt ! 0 \<in> {8, 16, 24, 32} \<and> bytesperline d ! 0 = drop_bit 3 (pm_width pix * ucast (if_depth fmt ! 0)) \<and>
       sizeimage d ! 0 = pm_height pix * drop_bit 3 (pm_width pix * ucast (if_depth fmt ! 0))" if "if_memplanes fmt = 1"
  proof -
    have dep: "if_depth fmt ! 0 \<in> {8, 16, 24, 32}"
      using out_formats_planes [OF 1(1)] that by (cases "if_depth fmt") (auto simp: plain_format_def)
    with that show ?thesis using 1(12,13) [of 0] by (simp add: packed_sizes(2) [OF dep])
  qed
  have more: "if_depth fmt ! 0 = 8 \<and> if_depth fmt ! i = 8 \<and>
       bytesperline d ! i = plane_pitch fmt pix i \<and> sizeimage d ! i = plane_image fmt (pm_width pix) (pm_height pix) i"
    if "if_memplanes fmt \<noteq> 1" "i < unat (if_memplanes fmt)" for i
  proof -
    have "if_memplanes fmt = 2 \<and> if_depth fmt = [8, 8, 0] \<or> if_memplanes fmt = 3 \<and> if_depth fmt = [8, 8, 8]"
      using out_formats_planes [OF 1(1)] that(1) by (auto simp: plain_format_def)
    moreover from this that(2) have "i = 0 \<or> i = 1 \<or> i = 2 \<and> if_depth fmt = [8, 8, 8]" by auto
    ultimately have "if_depth fmt ! 0 = 8 \<and> if_depth fmt ! i = 8" by auto
    with that show ?thesis using 1(12,13) [OF that(2)] by simp
  qed
  show thesis
    by (rule that [OF 1(1,2) 1(6) 1(5) 1(7,8) 1(3,4) _ _ one more])
      (use k in \<open>simp_all add: 1(11) set_planes_fields p\<close>)
qed


lemma prepare_planes_ok:
  "(\<And>i. i \<in> set is \<Longrightarrow> ucast (sizeimage f ! i) \<le> b_plane_size b i) \<Longrightarrow> fst (prepare_planes f is b) = 0"
  by (induction f "is" b rule: prepare_planes.induct) (auto simp: Let_def not_less)

text \<open>
  C8: in a request and a frame with room for three planes, a buffer that the driver has accepted after a format was set has room, in each plane, for the size stored for
  that plane.  The channel writes the lines of a plane at the pitch of the first plane.  With one plane the buffer
  has room for the height times that pitch, as 32-bit arithmetic computes it, and so for every line as long as that
  product fits 32 bits; the pitch is a line of pixels as long as the bits of a line fit.  With two or three planes,
  as long as no larger pitch than the width was requested and the bits of a plane fit 32 bits, the pitch is the width
  and the buffer has room for every line in each plane.  The driver checks none of these bounds; \<open>isi_size_wraps\<close>
  shows a frame beyond them.
\<close>

theorem isi_lines_fit:
  assumes "mxc_isi_cap_s_fmt_mplane m pix s = (0, pix', s1)" and "frame_room s pix"
    and "cap_vb2_buffer_prepare r s1 = (0, s2)" and "i < pm_num_planes pix'"
  defines "pitch \<equiv> bytesperline (cap_dst_f s2) ! 0" and "room \<equiv> unat (b_plane_size (cap_bufs s2 r) i)"
  shows "\<exists>fmt \<in> set mxc_isi_out_formats. f_fmt (cap_dst_f s2) = Some fmt \<and> if_fourcc fmt = pm_pixelformat pix \<and>
    unat (sizeimage (cap_dst_f s2) ! i) \<le> room \<and>
    (pm_num_planes pix' = 1 \<longrightarrow>
       unat (pm_height pix) * unat pitch mod 2 ^ 32 \<le> room \<and>
       (unat (pm_height pix) * unat pitch < 2 ^ 32 \<longrightarrow> unat (pm_height pix) * unat pitch \<le> room) \<and>
       (unat (pm_width pix) * unat (if_depth fmt ! 0) < 2 ^ 32 \<longrightarrow>
          unat pitch = unat (pm_width pix) * unat (if_depth fmt ! 0) div 8)) \<and>
    (pm_num_planes pix' \<noteq> 1 \<and> pm_bytesperline pix ! 0 \<le> pm_width pix \<and>
       unat (pm_width pix) * unat (pm_height pix) * 8 < 2 ^ 32 \<longrightarrow>
       pitch = pm_width pix \<and> plane_lines fmt (pm_height pix) i * unat pitch \<le> room)"
  using s_fmt_frame [OF assms(1,2)]
proof cases
  case (1 fmt d)
  let ?w = "pm_width pix" and ?h = "pm_height pix" and ?n = "unat (if_memplanes fmt)"
  have i: "i < ?n" and zero: "0 < ?n" using assms(4) by (simp_all add: 1(9))
  have one: "?n = 1 \<longleftrightarrow> if_memplanes fmt = 1" by (simp add: word_unat_eq_iff)
  obtain b where prep: "prepare_planes d [0..<?n] (cap_bufs s r) = (0, b)" "cap_bufs s2 r = b" "cap_dst_f s2 = d"
    using assms(3) by (auto simp: cap_vb2_buffer_prepare_def 1(3,4) Let_def split: prod.splits)
  have "ucast (sizeimage d ! i) \<le> b_plane_size b i"
    using prepare_planes_fit [OF prep(1)] prepare_planes_size [OF prep(1)] i by simp
  then have fit: "unat (sizeimage d ! i) \<le> room" by (simp add: room_def prep(2) word_le_nat_alt unat_up)
  have pitch: "pitch = bytesperline d ! 0" by (simp add: pitch_def prep(3))
  have single: "unat ?h * unat pitch mod 2 ^ 32 \<le> room \<and>
       (unat ?w * unat (if_depth fmt ! 0) < 2 ^ 32 \<longrightarrow> unat pitch = unat ?w * unat (if_depth fmt ! 0) div 8)" if "?n = 1"
  proof -
    note o = 1(11) [OF that [unfolded one]]
    have "unat (sizeimage d ! i) = unat ?h * unat pitch mod 2 ^ 32"
      using o i that by (simp add: pitch unat_word_ariths)
    then show ?thesis using fit o packed_sizes(1) [of "if_depth fmt ! 0" ?w] by (simp add: pitch)
  qed
  have multi: "pitch = ?w \<and> plane_lines fmt ?h i * unat pitch \<le> room"
    if "?n \<noteq> 1" "pm_bytesperline pix ! 0 \<le> ?w" and le: "unat ?w * unat ?h * 8 < 2 ^ 32"
  proof -
    note o = 1(12) [OF that(1) [unfolded one] i] and o0 = 1(12) [OF that(1) [unfolded one] zero]
    have "1 \<le> unat ?h" using 1(8) by (simp add: Suc_leI unat_gt_0)
    then have "unat ?w * 1 * 8 \<le> unat ?w * unat ?h * 8" by (intro mult_le_mono) simp_all
    then have w8: "unat ?w * 8 < 2 ^ 32" using le by linarith
    then have "?w < 2 ^ 31" by (simp add: word_less_nat_alt)
    with that(2) have "pm_bytesperline pix ! 0 < 2 ^ 31" by (rule le_less_trans)
    from byte_pitch [OF conjunct1 [OF o] w8 1(7) this] o0 that(2) have p: "pitch = ?w" by (simp add: pitch max_def)
    have "unat (sizeimage d ! i) = unat ?w * plane_lines fmt ?h i"
      using plane_image_lines [OF _ le, of fmt i] o by simp
    with fit p show ?thesis by (simp add: mult.commute)
  qed
  from fit single multi show ?thesis unfolding 1(9) prep(3) by (intro bexI [OF _ 1(1)]) (auto simp: 1(2,3))
qed

text \<open>
  C24: with any format of two or three planes a larger pitch is taken over while the sizes stay those of packed
  lines: while the queue is idle, for a frame of at least one and less than 2^29 pixels and every pitch \<open>p\<close> from the width up to half the range a request
  succeeds after which the channel will be programmed with the pitch \<open>p\<close>, while buffers of the packed size are
  accepted, which is less than the lines take when the pitch is larger than the width.
\<close>

theorem isi_padded_lines_overrun:
  assumes "\<not> vb2_is_busy m (hist s)" and "frame_room s pix"
    and "fmt \<in> set mxc_isi_out_formats" and "1 < if_memplanes fmt" and "pm_pixelformat pix = if_fourcc fmt"
    and "0 < pm_width pix" and "0 < pm_height pix" and "unat (pm_width pix) * unat (pm_height pix) * 8 < 2 ^ 32"
    and "pm_bytesperline pix ! 0 = p" and "pm_width pix \<le> p" and "p < 2 ^ 31"
  shows "\<exists>pix' s1. mxc_isi_cap_s_fmt_mplane m pix s = (0, pix', s1) \<and> bytesperline (cap_dst_f s1) ! 0 = p \<and>
    sizeimage (cap_dst_f s1) ! 0 = pm_width pix * pm_height pix \<and>
    (\<forall>r. (\<forall>i. ucast (pm_width pix * pm_height pix) \<le> b_plane_size (cap_bufs s1 r) i) \<longrightarrow> fst (cap_vb2_buffer_prepare r s1) = 0) \<and>
    (pm_width pix < p \<longrightarrow> unat (sizeimage (cap_dst_f s1) ! 0) < unat (pm_height pix) * unat p)"
proof -
  let ?w = "pm_width pix" and ?h = "pm_height pix"
  have "\<exists>f \<in> set mxc_isi_out_formats. if_fourcc f = pm_pixelformat pix" using assms(3,5) by auto
  then have "find_index (\<lambda>f. if_fourcc f = pm_pixelformat pix) mxc_isi_out_formats < length mxc_isi_out_formats"
    by (simp add: find_index_less)
  then have "fst (mxc_isi_cap_s_fmt_mplane m pix s) = 0"
    using assms(1,6,7) by (simp add: mxc_isi_cap_s_fmt_mplane_def Let_def not_le word_gt_0)
  then obtain pix' s1 where set: "mxc_isi_cap_s_fmt_mplane m pix s = (0, pix', s1)"
    by (cases "mxc_isi_cap_s_fmt_mplane m pix s") simp
  from s_fmt_frame [OF set assms(2)] show ?thesis
  proof cases
    case (1 g d)
    let ?n = "unat (if_memplanes g)"
    have many: "if_memplanes g \<noteq> 1" "1 < ?n"
      using out_formats_planes [OF 1(1)] out_formats_planes [OF assms(3)] assms(4,5) 1(2) by (auto simp: plain_format_def)
    have zero: "0 < ?n" using many(2) by simp
    note o = 1(12) [OF many(1)] and o0 = 1(12) [OF many(1) zero]
    have h: "1 \<le> unat ?h" using 1(8) by (simp add: Suc_leI unat_gt_0)
    then have "unat ?w * 1 * 8 \<le> unat ?w * unat ?h * 8" by (intro mult_le_mono) simp_all
    then have w8: "unat ?w * 8 < 2 ^ 32" using assms(8) by linarith
    have pitch: "bytesperline d ! 0 = p"
      using byte_pitch [OF conjunct1 [OF o0] w8 1(7)] o0 assms(9-11) by (simp add: max_def)
    have wh: "unat (?w * ?h) = unat ?w * unat ?h" using assms(8) by (intro unat_prod) linarith
    have sizes: "unat (sizeimage d ! i) = unat ?w * plane_lines g ?h i" if "i < ?n" for i
      using o [OF that] plane_image_lines [OF _ assms(8), of g i] by simp
    have "plane_lines g ?h i \<le> unat ?h" for i by (simp add: plane_lines_def)
    then have small: "ucast (sizeimage d ! i) \<le> (ucast (?w * ?h) :: u64)" if "i < ?n" for i
      using sizes [OF that] by (simp add: word_le_nat_alt unat_up wh)
    have "fst (cap_vb2_buffer_prepare r s1) = 0" if big: "\<forall>i. ucast (?w * ?h) \<le> b_plane_size (cap_bufs s1 r) i" for r
    proof -
      have "fst (prepare_planes d [0..<?n] (cap_bufs s r)) = 0"
        by (rule prepare_planes_ok) (use small big in \<open>auto simp: 1(4) intro: order_trans\<close>)
      then show ?thesis by (simp add: cap_vb2_buffer_prepare_def 1(3,4) case_prod_beta)
    qed
    moreover have z: "sizeimage d ! 0 = ?w * ?h"
      using sizes [OF zero] by (simp add: word_unat_eq_iff wh plane_lines_def)
    moreover have "unat ?w * unat ?h < unat ?h * unat p" if "?w < p"
      using that h by (simp add: word_less_nat_alt mult.commute)
    ultimately show ?thesis using set pitch by (auto simp: 1(4) wh)
  qed
qed

text \<open>
  setting a rectangle and reading it back: whatever the flags and whatever rectangle is asked for, setting
  succeeds, and reading it back gives the position that was set, but the size of the frame instead of the size
  that was set.
\<close>

theorem isi_selection_size_lost:
  assumes "sel_type sel = V4L2_BUF_TYPE_VIDEO_CAPTURE_MPLANE" and "sel_target sel \<in> {V4L2_SEL_TGT_CROP, V4L2_SEL_TGT_COMPOSE}"
  shows "\<exists>s'. mxc_isi_cap_s_selection sel s = (0, sel, s') \<and>
    (let f = (if sel_target sel = V4L2_SEL_TGT_COMPOSE then cap_dst_f s else cap_src_f s)
     in mxc_isi_cap_g_selection sel s' = (0, sel\<lparr>sel_r := (sel_r sel)\<lparr>r_width := f_width f, r_height := f_height f\<rparr>\<rparr>))"
proof -
  have "enclosed_rectangle r r" for r by (simp add: enclosed_rectangle_def)
  with assms show ?thesis
    by (auto simp: mxc_isi_cap_s_selection_def mxc_isi_cap_g_selection_def Let_def set_frame_crop_def)
qed

lemma planes_of_code:
  "f \<in> set mxc_isi_out_formats \<Longrightarrow> unat (if_memplanes f) \<ge> 3 \<longleftrightarrow> if_mbus_code f = MEDIA_BUS_FMT_YUV8_1X24"
proof -
  have "list_all (\<lambda>f. unat (if_memplanes f) \<ge> 3 \<longleftrightarrow> if_mbus_code f = MEDIA_BUS_FMT_YUV8_1X24) mxc_isi_out_formats"
    unfolding mxc_isi_out_formats_def out_format_entry_def by simp
  then show "f \<in> set mxc_isi_out_formats \<Longrightarrow> unat (if_memplanes f) \<ge> 3 \<longleftrightarrow> if_mbus_code f = MEDIA_BUS_FMT_YUV8_1X24"
    by (simp only: list_all_iff)
qed

text \<open>
  C38: through the sub-device, the bus code for three planes makes the driver write behind the array of pitches,
  over the pointer to the format; every other code stays within the frame.
\<close>

theorem isi_subdev_fmt_overrun:
  assumes "mxc_isi_subdev_set_fmt m fmt s = (0, s')"
  shows "Soc (Isi (OutOfBounds ''bytesperline'' 3)) \<in> set (drop (length (hist s)) (hist s')) \<longleftrightarrow>
    fmt_code (sf_format fmt) = MEDIA_BUS_FMT_YUV8_1X24"
proof -
  let ?i = "find_index (\<lambda>out_fmt. fmt_code (sf_format fmt) = if_mbus_code out_fmt) mxc_isi_out_formats"
  let ?f = "mxc_isi_out_formats ! ?i"
  have i: "?i < length mxc_isi_out_formats"
    using assms by (auto simp: mxc_isi_subdev_set_fmt_def Let_def split: if_splits)
  then have "(unat (if_memplanes ?f) \<ge> 3) = (fmt_code (sf_format fmt) = MEDIA_BUS_FMT_YUV8_1X24)" "unat (if_memplanes ?f) \<le> 3"
    using find_index_hit [OF i] planes_of_code planes_le by auto
  then show ?thesis
    using assms i by (auto simp: mxc_isi_subdev_set_fmt_def Let_def split: if_splits prod.splits)
qed

section \<open>Examples\<close>

definition idle_media :: mapi where
  "idle_media = \<lparr>vb2_is_busy = (\<lambda>h. False), parent_compatible = (\<lambda>h c. False), vdev_num_links = (\<lambda>h. 1),
     sd_num_links = (\<lambda>h. 1), csi_num_links = (\<lambda>h. 2),
     csi_pads = (\<lambda>h. [(MEDIA_PAD_FL_SINK, Some \<lparr>rp_index = 0, rp_is_subdev = True\<rparr>)]), sensor_num_links = (\<lambda>h. 1),
     fh_open_ret = (\<lambda>h. 0), graph_walk_ret = (\<lambda>h. 0), ctrl_error = (\<lambda>h. 0), vb2_init_ret = (\<lambda>h. 0),
     video_register_ret = (\<lambda>h. 0), host_parent = (\<lambda>h. True), host_data = (\<lambda>h. True)\<rparr>"

definition request :: "u32 \<Rightarrow> u32 \<Rightarrow> pix_format_mplane" where
  "request pf bpl = \<lparr>pm_width = 640, pm_height = 480, pm_pixelformat = pf, pm_field = 0, pm_colorspace = 0,
     pm_bytesperline = [bpl, 0, 0], pm_sizeimage = [0, 0, 0], pm_num_planes = 0\<rparr>"

lemma request_room: "frame_room (example_cap qs) (request pf bpl)"
  by (simp add: frame_room_def example_cap_def isi_state.defs isi_cap.defs isi_example_def frame_of_def request_def)

lemma request_yuyv: "\<exists>pix' s'. mxc_isi_cap_s_fmt_mplane idle_media (request V4L2_PIX_FMT_YUYV 2048) (example_cap qs) = (0, pix', s')"
  by (simp add: mxc_isi_cap_s_fmt_mplane_def Let_def idle_media_def request_def mxc_isi_out_formats_def out_format_entry_def)

lemma yuyv_entry:
  assumes "fmt \<in> set mxc_isi_out_formats" and "if_fourcc fmt = V4L2_PIX_FMT_YUYV"
  shows "if_memplanes fmt = 1" and "if_depth fmt ! 0 = 16"
proof -
  have "list_all (\<lambda>fmt. if_fourcc fmt = V4L2_PIX_FMT_YUYV \<longrightarrow> if_memplanes fmt = 1 \<and> if_depth fmt ! 0 = 16) mxc_isi_out_formats"
    unfolding mxc_isi_out_formats_def out_format_entry_def by simp
  with assms show "if_memplanes fmt = 1" "if_depth fmt ! 0 = 16" by (auto simp only: list_all_iff)
qed


text \<open>A buffer of sixteen megabytes that is accepted for a frame of 640 by 480 pixels.\<close>

lemma yuyv_prepared:
  assumes "mxc_isi_cap_s_fmt_mplane idle_media (request V4L2_PIX_FMT_YUYV 2048) (example_cap []) = (0, pix', s1)"
  shows "pm_num_planes pix' = 1 \<and> fst (cap_vb2_buffer_prepare (UserBuf 0) s1) = 0"
  using s_fmt_frame [OF assms request_room]
proof cases
  case (1 fmt d)
  have y: "if_memplanes fmt = 1" "if_depth fmt ! 0 = 16" using yuyv_entry [OF 1(1)] 1(2) by (simp_all add: request_def)
  then have "sizeimage d ! 0 = 614400" using 1(11) by (simp add: request_def)
  then have "fst (prepare_planes d [0..<1] (example_buf a)) = 0" for a
    by (intro prepare_planes_ok) (simp add: example_buf_def)
  then show ?thesis
    using y 1(3) by (simp add: 1(4,9) cap_vb2_buffer_prepare_def case_prod_beta example_cap_def isi_state.defs isi_cap.defs)
qed

theorem isi_lines_fit_witness:
  "\<exists>pix' s1 s2. mxc_isi_cap_s_fmt_mplane idle_media (request V4L2_PIX_FMT_YUYV 2048) (example_cap []) = (0, pix', s1) \<and>
     cap_vb2_buffer_prepare (UserBuf 0) s1 = (0, s2) \<and> unat (bytesperline (cap_dst_f s2) ! 0) = 1280 \<and>
     480 * unat (bytesperline (cap_dst_f s2) ! 0) \<le> unat (b_plane_size (cap_bufs s2 (UserBuf 0)) 0)"
proof -
  obtain pix' s1 where r: "mxc_isi_cap_s_fmt_mplane idle_media (request V4L2_PIX_FMT_YUYV 2048) (example_cap []) = (0, pix', s1)"
    using request_yuyv by blast
  note p = yuyv_prepared [OF r]
  then obtain s2 where s2: "cap_vb2_buffer_prepare (UserBuf 0) s1 = (0, s2)"
    by (cases "cap_vb2_buffer_prepare (UserBuf 0) s1") simp
  have "0 < pm_num_planes pix'" using p by simp
  from isi_lines_fit [OF r request_room s2 this] obtain fmt where f: "fmt \<in> set mxc_isi_out_formats"
      "if_fourcc fmt = V4L2_PIX_FMT_YUYV"
      "640 * unat (if_depth fmt ! 0) < 2 ^ 32 \<longrightarrow> unat (bytesperline (cap_dst_f s2) ! 0) = 640 * unat (if_depth fmt ! 0) div 8"
      "480 * unat (bytesperline (cap_dst_f s2) ! 0) < 2 ^ 32 \<longrightarrow>
         480 * unat (bytesperline (cap_dst_f s2) ! 0) \<le> unat (b_plane_size (cap_bufs s2 (UserBuf 0)) 0)"
    using p by (auto simp: request_def)
  with r s2 yuyv_entry [OF f(1,2)] show ?thesis by auto
qed

text \<open>A pitch of 4096 bytes for planes of 640 by 480 bytes, with two and with three planes.\<close>

theorem isi_padded_lines_overrun_witness:
  "(\<exists>pix' s1. mxc_isi_cap_s_fmt_mplane idle_media (request V4L2_PIX_FMT_NV12 4096) (example_cap []) = (0, pix', s1) \<and>
      bytesperline (cap_dst_f s1) ! 0 = 4096 \<and> unat (sizeimage (cap_dst_f s1) ! 0) < 480 * 4096) \<and>
   (\<exists>pix' s1. mxc_isi_cap_s_fmt_mplane idle_media (request V4L2_PIX_FMT_YUV444M 4096) (example_cap []) = (0, pix', s1) \<and>
      bytesperline (cap_dst_f s1) ! 0 = 4096 \<and> unat (sizeimage (cap_dst_f s1) ! 0) < 480 * 4096)"
proof -
  have idle: "\<not> vb2_is_busy idle_media (hist (example_cap []))" by (simp add: idle_media_def)
  have f: "mxc_isi_out_formats ! 20 \<in> set mxc_isi_out_formats" "mxc_isi_out_formats ! 21 \<in> set mxc_isi_out_formats"
    by (rule nth_mem, simp add: mxc_isi_out_formats_def)+
  have e: "1 < if_memplanes (mxc_isi_out_formats ! 20)" "1 < if_memplanes (mxc_isi_out_formats ! 21)"
      "if_fourcc (mxc_isi_out_formats ! 20) = V4L2_PIX_FMT_NV12" "if_fourcc (mxc_isi_out_formats ! 21) = V4L2_PIX_FMT_YUV444M"
    by (simp_all add: mxc_isi_out_formats_def out_format_entry_def)
  show ?thesis
    using isi_padded_lines_overrun [OF idle request_room f(1) e(1), of V4L2_PIX_FMT_NV12 4096 4096]
      isi_padded_lines_overrun [OF idle request_room f(2) e(2), of V4L2_PIX_FMT_YUV444M 4096 4096]
    by (simp add: request_def e) metis
qed

text \<open>
  The sizes wrap around.  A frame of 65536 by 65536 pixels of one byte is taken with a size of zero, and then every
  buffer is accepted.  A frame of 16384 by 32768 pixels of two bytes is answered with a size of zero, while 2^30 is
  stored and reported.
\<close>

theorem isi_size_wraps:
  "\<exists>pix' s1. mxc_isi_cap_s_fmt_mplane idle_media
       (request V4L2_PIX_FMT_GREY 0\<lparr>pm_width := 0x10000, pm_height := 0x10000\<rparr>) (example_cap []) = (0, pix', s1) \<and>
     bytesperline (cap_dst_f s1) ! 0 = 0x10000 \<and> sizeimage (cap_dst_f s1) ! 0 = 0 \<and> (\<forall>r. fst (cap_vb2_buffer_prepare r s1) = 0)"
  by (simp add: mxc_isi_cap_s_fmt_mplane_def Let_def idle_media_def request_def mxc_isi_out_formats_def out_format_entry_def
      set_planes_fields set_frame_bounds_def cap_vb2_buffer_prepare_def example_cap_def isi_state.defs isi_cap.defs isi_example_def
      frame_of_def)

theorem isi_size_answers_differ:
  "\<exists>pix' s1. mxc_isi_cap_s_fmt_mplane idle_media
       (request V4L2_PIX_FMT_YUYV 0\<lparr>pm_width := 0x4000, pm_height := 0x8000\<rparr>) (example_cap []) = (0, pix', s1) \<and>
     pm_sizeimage pix' ! 0 = 0 \<and> sizeimage (cap_dst_f s1) ! 0 = 0x40000000"
  by (simp add: mxc_isi_cap_s_fmt_mplane_def Let_def idle_media_def request_def mxc_isi_out_formats_def out_format_entry_def
      set_planes_fields set_frame_bounds_def plane_image_def example_cap_def isi_state.defs isi_cap.defs isi_example_def
      frame_of_def)

theorem isi_selection_size_lost_witness:
  "\<exists>s'. mxc_isi_cap_s_selection \<lparr>sel_type = V4L2_BUF_TYPE_VIDEO_CAPTURE_MPLANE, sel_target = V4L2_SEL_TGT_COMPOSE, sel_flags = V4L2_SEL_FLAG_LE,
       sel_r = \<lparr>r_left = 8, r_top = 4, r_width = 320, r_height = 240\<rparr>\<rparr> (example_cap []) =
     (0, \<lparr>sel_type = V4L2_BUF_TYPE_VIDEO_CAPTURE_MPLANE, sel_target = V4L2_SEL_TGT_COMPOSE, sel_flags = V4L2_SEL_FLAG_LE,
       sel_r = \<lparr>r_left = 8, r_top = 4, r_width = 320, r_height = 240\<rparr>\<rparr>, s')"
  using isi_selection_size_lost [of "\<lparr>sel_type = V4L2_BUF_TYPE_VIDEO_CAPTURE_MPLANE, sel_target = V4L2_SEL_TGT_COMPOSE,
     sel_flags = V4L2_SEL_FLAG_LE, sel_r = \<lparr>r_left = 8, r_top = 4, r_width = 320, r_height = 240\<rparr>\<rparr>" "example_cap []"] by auto

definition subdev_request :: "u32 \<Rightarrow> v4l2_subdev_format" where
  "subdev_request code = \<lparr>sf_which = V4L2_SUBDEV_FORMAT_ACTIVE, sf_pad = MXC_ISI_SD_PAD_SOURCE_MEM, sf_format = zero_fmt\<lparr>fmt_code := code,
     fmt_width := 640, fmt_height := 480\<rparr>\<rparr>"

theorem isi_subdev_fmt_overrun_witness:
  "Soc (Isi (OutOfBounds ''bytesperline'' 3)) \<in> set (hist (snd (mxc_isi_subdev_set_fmt idle_media (subdev_request MEDIA_BUS_FMT_YUV8_1X24)
     (example_cap []))))"
proof -
  have "fst (mxc_isi_subdev_set_fmt idle_media (subdev_request MEDIA_BUS_FMT_YUV8_1X24) (example_cap [])) = 0"
    by (simp add: mxc_isi_subdev_set_fmt_def Let_def idle_media_def subdev_request_def mxc_isi_out_formats_def out_format_entry_def
        case_prod_beta)
  then have "mxc_isi_subdev_set_fmt idle_media (subdev_request MEDIA_BUS_FMT_YUV8_1X24) (example_cap []) =
      (0, snd (mxc_isi_subdev_set_fmt idle_media (subdev_request MEDIA_BUS_FMT_YUV8_1X24) (example_cap [])))"
    by (rule ok_pair)
  from isi_subdev_fmt_overrun [OF this] show ?thesis
    by (auto simp: subdev_request_def dest: in_set_dropD)
qed

end
