(* ===== verification/Isi_Cap.thy ===== *)
theory Isi_Cap
  imports Isi_Formats
begin

text \<open>
  The capture device of an imaging channel (\<^verbatim>\<open>imx8-isi-cap.c\<close>): the sub-device it is connected to, its control,
  opening and closing, streaming, the remaining ioctls, registration, probe and removal.
\<close>

section \<open>The environment\<close>

text \<open>
  Calls into videobuf2 and the media core that call back into the driver: starting the queue may run
  \<^verbatim>\<open>start_streaming\<close> with the number of queued buffers, stopping it and closing the file may run \<^verbatim>\<open>stop_streaming\<close>,
  and removing the sub-device runs \<^verbatim>\<open>unregistered\<close>.
\<close>

record 's vcb =
  vb_streamon :: "(nat \<Rightarrow> 's op) \<Rightarrow> 's op"
  vb_streamoff :: "('s \<Rightarrow> 's) \<Rightarrow> 's op"
  vb_release :: "('s \<Rightarrow> 's) \<Rightarrow> 's op"
  sd_unregister :: "('s \<Rightarrow> 's) \<Rightarrow> 's \<Rightarrow> 's"

definition vb2_spec :: "'s vcb \<Rightarrow> bool" where
  "vb2_spec q \<longleftrightarrow>
     (\<forall>f s. (\<exists>r. vb_streamon q f s = (r, s)) \<or> (\<exists>n. vb_streamon q f s = f n s)) \<and>
     (\<forall>f s. \<exists>r. vb_streamoff q f s = (r, s) \<or> vb_streamoff q f s = (r, f s)) \<and>
     (\<forall>f s. \<exists>r. vb_release q f s = (r, s) \<or> vb_release q f s = (r, f s))"

abbreviation (input) EPROBE_DEFER :: int where "EPROBE_DEFER \<equiv> 517"

abbreviation (input) V4L2_CID_ALPHA_COMPONENT :: u32 where
  "V4L2_CID_ALPHA_COMPONENT \<equiv> 0x980929"

abbreviation (input) V4L2_CTRL_FLAG_INACTIVE :: u32 where
  "V4L2_CTRL_FLAG_INACTIVE \<equiv> 0x0010"

abbreviation (input) V4L2_CAP_VIDEO_CAPTURE_MPLANE :: u32 where
  "V4L2_CAP_VIDEO_CAPTURE_MPLANE \<equiv> 0x00001000"

abbreviation (input) V4L2_CAP_STREAMING :: u32 where
  "V4L2_CAP_STREAMING \<equiv> 0x04000000"

abbreviation (input) V4L2_CAP_DEVICE_CAPS :: u32 where
  "V4L2_CAP_DEVICE_CAPS \<equiv> 0x80000000"

section \<open>The sub-device at the other end\<close>

text \<open>An entity is the list of its pads: the flags and what the pad is connected to.\<close>

definition cap_entity :: "sapi \<Rightarrow> 'r isi_cap \<Rightarrow> (u32 \<times> remote_pad option) list" where
  "cap_entity k s = map (\<lambda>i. (cap_pads s ! i, media_remote_pad k (hist s) i)) [0..<cap_num_pads s]"

fun mxc_isi_get_remote_source_pad :: "(u32 \<times> remote_pad option) list \<Rightarrow> remote_pad option" where
  "mxc_isi_get_remote_source_pad [] = None"
| "mxc_isi_get_remote_source_pad ((flags, peer) # pads) =
     (if flags AND MEDIA_PAD_FL_SINK \<noteq> 0
      then case peer of Some p \<Rightarrow> Some p | None \<Rightarrow> mxc_isi_get_remote_source_pad pads
      else mxc_isi_get_remote_source_pad pads)"

definition mxc_get_remote_subdev :: "(u32 \<times> remote_pad option) list \<Rightarrow> bool" where
  "mxc_get_remote_subdev pads =
     (case mxc_isi_get_remote_source_pad pads of None \<Rightarrow> False | Some p \<Rightarrow> rp_is_subdev p)"

definition is_entity_link_setup :: "sapi \<Rightarrow> mapi \<Rightarrow> 'r isi_cap \<Rightarrow> bool" where
  "is_entity_link_setup k m s =
     (if vdev_num_links m (hist s) = 0 \<or> sd_num_links m (hist s) = 0 then False
      else if \<not> mxc_get_remote_subdev (cap_entity k s) \<or> csi_num_links m (hist s) = 0 then False
      else if \<not> mxc_get_remote_subdev (csi_pads m (hist s)) \<or> sensor_num_links m (hist s) = 0 then False
      else True)"

definition cap_subdev_call ::
  "('x, 'r) remote_op \<Rightarrow> 'x \<Rightarrow> 'r isi_cap \<Rightarrow> int \<times> 'x \<times> 'r isi_cap" where
  "cap_subdev_call f x s =
     (case f of None \<Rightarrow> (- ENOIOCTLCMD, x, s)
      | Some g \<Rightarrow> let (ret, x', r) = g x (cap_remote s) in (ret, x', s\<lparr>cap_remote := r\<rparr>))"

section \<open>The pipeline\<close>

text \<open>
  The walk over the media graph visits entities: some are not sub-devices, some sub-devices have no \<^verbatim>\<open>s_stream\<close>
  operation.  Their state is part of the remote state.
\<close>

type_synonym 'r entity = "(int \<Rightarrow> 'r \<Rightarrow> int \<times> 'r) option option"

fun pipeline_loop :: "'r entity list \<Rightarrow> bool \<Rightarrow> int \<Rightarrow> 'r isi_cap op" where
  "pipeline_loop [] enable ret s = (ret, s)"
| "pipeline_loop (e # es) enable ret s =
     (case e of
        None \<Rightarrow> pipeline_loop es enable ret s
      | Some f \<Rightarrow>
          let (ret, s) = (case f of None \<Rightarrow> (- ENOIOCTLCMD, s)
                          | Some g \<Rightarrow> let (ret, r) = g (if enable then 1 else 0) (cap_remote s) in (ret, s\<lparr>cap_remote := r\<rparr>))
          in if ret < 0 \<and> ret \<noteq> - ENOIOCTLCMD then (ret, s) else pipeline_loop es enable ret s)"

definition mxc_isi_pipeline_enable ::
  "mapi \<Rightarrow> (kevent list \<Rightarrow> 'r entity list) \<Rightarrow> bool \<Rightarrow> 'r isi_cap op" where
  "mxc_isi_pipeline_enable m g enable s =
     (let s = emit (Soc (Isi GraphLock)) s;
          ret = graph_walk_ret m (hist s)
      in if ret \<noteq> 0 then (ret, emit (Soc (Isi GraphUnlock)) s)
      else let (ret, s) = pipeline_loop (g (hist s)) enable ret s
           in (ret, emit (Soc (Isi GraphUnlock)) s))"

section \<open>The control\<close>

definition mxc_isi_s_ctrl :: "u32 \<Rightarrow> u32 \<Rightarrow> int \<Rightarrow> 'r isi_cap op" where
  "mxc_isi_s_ctrl cid flags val s =
     (if flags AND V4L2_CTRL_FLAG_INACTIVE \<noteq> 0 then (0, s)
      else let s = emit (Soc SpinLock) s
      in if cid = V4L2_CID_ALPHA_COMPONENT
         then if val < 0 \<or> val > 255 then (- EINVAL, s)
              else (0, emit (Soc SpinUnlock) (s\<lparr>isi_alpha := word_of_int val, isi_alphaen := True\<rparr>))
         else (- EINVAL, s))"

definition mxc_isi_ctrls_create :: "mapi \<Rightarrow> 'r isi_cap op" where
  "mxc_isi_ctrls_create m s =
     (if cap_ctrls_ready s then (0, s)
      else let s = emit (CtrlHandlerInit 4) s;
               s = emit (CtrlNew V4L2_CID_ALPHA_COMPONENT 0 0xff 1 0) s;
               error = ctrl_error m (hist s);
               s = (if error = 0 then s\<lparr>cap_ctrls_ready := True\<rparr> else s)
           in (error, s))"

definition mxc_isi_ctrls_delete :: "'r isi_cap \<Rightarrow> 'r isi_cap" where
  "mxc_isi_ctrls_delete s =
     (if cap_ctrls_ready s then (emit CtrlHandlerFree s)\<lparr>cap_ctrls_ready := False\<rparr> else s)"

section \<open>Opening and closing\<close>

text \<open>
  Runtime power management of the capture device resumes and suspends its parent, the channel.  Two locks are
  taken: that of the capture device, and at the end that of the channel.
\<close>

definition mxc_isi_capture_open ::
  "sapi \<Rightarrow> iapi \<Rightarrow> mapi \<Rightarrow> 'r isi_cap kcb \<Rightarrow> 'r remote_ops \<Rightarrow> 'r isi_cap op" where
  "mxc_isi_capture_open k v m c r s =
     (let s = emit MutexLock s;
          s = s\<lparr>cap_link_setup := is_entity_link_setup k m s\<rparr>
      in if \<not> cap_link_setup s then (0, emit MutexUnlock s)
      else let s = emit MutexUnlock s
      in if isi_m2m_enabled s then (- EBUSY, s)
      else if \<not> mxc_get_remote_subdev (cap_entity k s) then (- ENODEV, s)
      else let s = emit MutexLock s;
               ret = fh_open_ret m (hist s);
               s = emit MutexUnlock (emit (Soc (Isi (FhOpen ret))) s)
      in if ret \<noteq> 0 then (ret, s)
      else let (_, s) = pm_runtime_get_sync c (mxc_isi_runtime_resume k v) s;
               (ret, _, s) = cap_subdev_call (r_s_power r) 1 s
      in if ret \<noteq> 0 then (ret, pm_runtime_put c (mxc_isi_runtime_suspend k) s)
      else let s = emit (Soc (Isi ChanMutexLock)) s;
               s = s\<lparr>isi_usage_count := isi_usage_count s + 1, isi_m2m_enabled := False\<rparr>
      in (0, emit (Soc (Isi ChanMutexUnlock)) s))"

text \<open>
  \<^verbatim>\<open>_vb2_fop_release\<close> stops the queue if it is streaming and releases the file handle.
\<close>

definition mxc_isi_capture_release ::
  "sapi \<Rightarrow> 'r isi_cap kcb \<Rightarrow> 'r isi_cap vcb \<Rightarrow> 'r remote_ops \<Rightarrow> 'r isi_cap op" where
  "mxc_isi_capture_release k c q r s =
     (if \<not> cap_link_setup s then (0, s)
      else let (ret, s) =
        (if \<not> mxc_get_remote_subdev (cap_entity k s) then (- 1, s)
         else let s = emit MutexLock s;
                  (ret, s) = vb_release q (cap_vb2_stop_streaming k) s;
                  s = emit MutexUnlock (emit (Soc (Isi (FhRelease ret))) s)
         in if ret \<noteq> 0 then (ret, s)
         else let s = (if isi_usage_count s > 0
                then let s = s\<lparr>isi_usage_count := isi_usage_count s - 1\<rparr>
                     in if isi_usage_count s = 0 then mxc_isi_channel_deinit k s else s
                else s);
                  (ret, _, s) = cap_subdev_call (r_s_power r) 0 s
         in (ret, s))
      in (ret, pm_runtime_put c (mxc_isi_runtime_suspend k) s))"

section \<open>Streaming\<close>

text \<open>The format that is passed to the remote sub-device is uninitialised beyond the fields assigned here.\<close>

definition mxc_isi_source_fmt_init ::
  "sapi \<Rightarrow> 'r remote_ops \<Rightarrow> v4l2_mbus_framefmt \<Rightarrow> 'r isi_cap op" where
  "mxc_isi_source_fmt_init k r stack s =
     (case mxc_isi_get_remote_source_pad (cap_entity k s) of
        None \<Rightarrow> (- EINVAL, s)
      | Some source_pad \<Rightarrow>
      if \<not> mxc_get_remote_subdev (cap_entity k s) then (- EINVAL, s)
      else case f_fmt (cap_dst_f s) of
        None \<Rightarrow> (- EFAULT, emit NullDeref s)
      | Some fmt \<Rightarrow>
      let dst_f = cap_dst_f s;
          src_fmt = \<lparr>sf_which = V4L2_SUBDEV_FORMAT_ACTIVE, sf_pad = rp_index source_pad,
            sf_format = stack\<lparr>fmt_code := if_mbus_code fmt, fmt_width := f_width dst_f, fmt_height := f_height dst_f\<rparr>\<rparr>;
          (ret, _, s) = cap_subdev_call (r_set_fmt r) src_fmt s
      in if ret < 0 \<and> ret \<noteq> - ENOIOCTLCMD then (ret, s)
      else let src_fmt = \<lparr>sf_which = V4L2_SUBDEV_FORMAT_ACTIVE, sf_pad = rp_index source_pad, sf_format = zero_fmt\<rparr>;
               (ret, src_fmt, s) = cap_subdev_call (r_get_fmt r) src_fmt s
      in if ret < 0 \<and> ret \<noteq> - ENOIOCTLCMD then (ret, s)
      else let src_f = (cap_src_f s)\<lparr>f_fmt := Some (mxc_isi_get_src_fmt src_fmt)\<rparr>;
               src_f = set_frame_bounds (fmt_width (sf_format src_fmt)) (fmt_height (sf_format src_fmt)) src_f;
               s = s\<lparr>cap_src_f := src_f\<rparr>
      in if f_width (cap_dst_f s) > f_width src_f \<or> f_height (cap_dst_f s) > f_height src_f then (- EINVAL, s)
         else (0, s))"

definition mxc_isi_config_parm :: "sapi \<Rightarrow> 'r remote_ops \<Rightarrow> v4l2_mbus_framefmt \<Rightarrow> 'r isi_cap op" where
  "mxc_isi_config_parm k r stack s =
     (let (ret, s) = mxc_isi_source_fmt_init k r stack s
      in if ret < 0 then (- EINVAL, s)
      else let s = mxc_isi_channel_init k s
      in (0, mxc_isi_channel_config k (cap_src_f s) (cap_dst_f s) s))"

definition mxc_isi_cap_streamon ::
  "sapi \<Rightarrow> vapi \<Rightarrow> mapi \<Rightarrow> 'r isi_cap vcb \<Rightarrow> 'r remote_ops \<Rightarrow> (kevent list \<Rightarrow> 'r entity list) \<Rightarrow>
   v4l2_mbus_framefmt \<Rightarrow> 'r isi_cap op" where
  "mxc_isi_cap_streamon k v m q r g stack s =
     (let (ret, s) = mxc_isi_config_parm k r stack s
      in if ret < 0 then (ret, s)
      else let (ret, s) = vb_streamon q (cap_vb2_start_streaming k v) s;
               s = emit (Soc (Isi (VbStreamOn ret))) s;
               s = mxc_isi_channel_enable k (isi_m2m_enabled s) s;
               (ret, s) = mxc_isi_pipeline_enable m g True s
      in if ret < 0 \<and> ret \<noteq> - ENOIOCTLCMD then (ret, s)
      else (0, s\<lparr>isi_is_streaming := True\<rparr>))"

definition mxc_isi_cap_streamoff ::
  "sapi \<Rightarrow> mapi \<Rightarrow> 'r isi_cap vcb \<Rightarrow> (kevent list \<Rightarrow> 'r entity list) \<Rightarrow> 'r isi_cap op" where
  "mxc_isi_cap_streamoff k m q g s =
     (let (_, s) = mxc_isi_pipeline_enable m g False s;
          s = mxc_isi_channel_disable k s;
          (ret, s) = vb_streamoff q (cap_vb2_stop_streaming k) s;
          s = emit (Soc (Isi (VbStreamOff ret))) s
      in (ret, s\<lparr>isi_is_streaming := False\<rparr>))"

section \<open>Queries\<close>

fun decimal :: "nat \<Rightarrow> string" where
  "decimal n = (if n < 10 then [char_of (48 + n)] else decimal (n div 10) @ [char_of (48 + n mod 10)])"

declare decimal.simps [simp del]

text \<open>Driver, card, bus information (from the device name), device capabilities, capabilities.\<close>

definition mxc_isi_cap_querycap :: "string \<Rightarrow> 'r isi_cap \<Rightarrow> int \<times> (string \<times> string \<times> string \<times> u32 \<times> u32)" where
  "mxc_isi_cap_querycap dev_name s =
     (let bus_info = take 31 (''platform:'' @ dev_name @ ''.'' @ decimal (unat (cap_id s)));
          device_caps = V4L2_CAP_STREAMING OR V4L2_CAP_VIDEO_CAPTURE_MPLANE
      in (0, ''mxc-isi-cap'', ''mxc-isi-cap'', bus_info, device_caps, device_caps OR V4L2_CAP_DEVICE_CAPS))"

text \<open>The description and the pixel format.\<close>

definition mxc_isi_cap_enum_fmt ::
  "sapi \<Rightarrow> 'r remote_ops \<Rightarrow> u32 \<Rightarrow> 'r isi_cap \<Rightarrow> int \<times> (string \<times> u32) option \<times> 'r isi_cap" where
  "mxc_isi_cap_enum_fmt k r index s =
     (if index > 0 then (- EINVAL, None, s)
      else case mxc_isi_get_remote_source_pad (cap_entity k s) of
        None \<Rightarrow> (- EINVAL, None, s)
      | Some source_pad \<Rightarrow>
      if \<not> mxc_get_remote_subdev (cap_entity k s) then (- EINVAL, None, s)
      else let src_fmt = \<lparr>sf_which = V4L2_SUBDEV_FORMAT_ACTIVE, sf_pad = rp_index source_pad, sf_format = zero_fmt\<rparr>;
               (ret, src_fmt, s) = cap_subdev_call (r_get_fmt r) src_fmt s
      in if ret < 0 \<and> ret \<noteq> - ENOIOCTLCMD then (- EINVAL, None, s)
      else case mxc_isi_find_format None (Some (fmt_code (sf_format src_fmt))) 0 of
        None \<Rightarrow> (- EINVAL, None, s)
      | Some fmt \<Rightarrow> (0, Some (take 31 (if_name fmt), if_fourcc fmt), s))"

text \<open>The helpers of the V4L2 core that get and set the frame interval through the remote sub-device.\<close>

definition mxc_isi_cap_g_parm ::
  "sapi \<Rightarrow> ('x \<Rightarrow> 'r \<Rightarrow> int \<times> 'x \<times> 'r) \<Rightarrow> 'x \<Rightarrow> 'r isi_cap \<Rightarrow> int \<times> 'x \<times> 'r isi_cap" where
  "mxc_isi_cap_g_parm k g_parm_cap a s =
     (if \<not> mxc_get_remote_subdev (cap_entity k s) then (- ENODEV, a, s)
      else cap_subdev_call (Some g_parm_cap) a s)"

definition mxc_isi_cap_s_parm ::
  "sapi \<Rightarrow> ('x \<Rightarrow> 'r \<Rightarrow> int \<times> 'x \<times> 'r) \<Rightarrow> 'x \<Rightarrow> 'r isi_cap \<Rightarrow> int \<times> 'x \<times> 'r isi_cap" where
  "mxc_isi_cap_s_parm k s_parm_cap a s =
     (if \<not> mxc_get_remote_subdev (cap_entity k s) then (- ENODEV, a, s)
      else cap_subdev_call (Some s_parm_cap) a s)"

text \<open>A size is discrete, or a range with step one.  The reference to the parent node is not dropped.\<close>

datatype frmsize = Discrete u32 u32 | Stepwise "u32 \<times> u32" "u32 \<times> u32"

definition mxc_isi_cap_enum_framesizes ::
  "sapi \<Rightarrow> mapi \<Rightarrow> 'r remote_ops \<Rightarrow> u32 \<Rightarrow> u32 \<Rightarrow> 'r isi_cap \<Rightarrow> int \<times> frmsize option \<times> 'r isi_cap" where
  "mxc_isi_cap_enum_framesizes k m r index pixel_format s =
     (case mxc_isi_find_format (Some pixel_format) None 0 of
        None \<Rightarrow> (- EINVAL, None, s)
      | Some fmt \<Rightarrow>
      if if_fourcc fmt \<noteq> pixel_format then (- EINVAL, None, s)
      else if \<not> mxc_get_remote_subdev (cap_entity k s) then (- ENODEV, None, s)
      else let fse = \<lparr>fse_index = index, fse_pad = 0, fse_code = if_mbus_code fmt, fse_width = (0, 0), fse_height = (0, 0)\<rparr>;
               (ret, fse, s) = cap_subdev_call (r_enum_frame_size r) fse s
      in if ret \<noteq> 0 then (ret, None, s)
      else let s = emit FwnodeGet s;
               (min_w, max_w) = fse_width fse; (min_h, max_h) = fse_height fse
      in if parent_compatible m (hist s) ''fsl,imx8mp-isi'' \<and> (max_w > ISI_2K \<or> min_w > ISI_2K) \<and> cap_id s = 1
         then (- EINVAL, None, s)
      else if min_w = max_w \<and> min_h = max_h then (0, Some (Discrete min_w min_h), s)
      else (0, Some (Stepwise (min_w, max_w) (min_h, max_h)), s))"

definition mxc_isi_cap_enum_frameintervals ::
  "sapi \<Rightarrow> mapi \<Rightarrow> 'r remote_ops \<Rightarrow> u32 \<Rightarrow> u32 \<Rightarrow> u32 \<Rightarrow> u32 \<Rightarrow> 'r isi_cap \<Rightarrow> int \<times> v4l2_fract option \<times> 'r isi_cap" where
  "mxc_isi_cap_enum_frameintervals k m r index pixel_format width height s =
     (case mxc_isi_find_format (Some pixel_format) None 0 of
        None \<Rightarrow> (- EINVAL, None, s)
      | Some fmt \<Rightarrow>
      if if_fourcc fmt \<noteq> pixel_format then (- EINVAL, None, s)
      else if \<not> mxc_get_remote_subdev (cap_entity k s) then (- EINVAL, None, s)
      else let fie = \<lparr>fie_index = index, fie_pad = 0, fie_code = if_mbus_code fmt, fie_width = width, fie_height = height,
                 fie_interval = (0, 0)\<rparr>;
               (ret, fie, s) = cap_subdev_call (r_enum_frame_interval r) fie s
      in if ret \<noteq> 0 then (ret, None, s)
      else let s = emit FwnodeGet s
      in if parent_compatible m (hist s) ''fsl,imx8mp-isi'' \<and> fie_width fie > ISI_2K \<and> cap_id s = 1 then (- EINVAL, None, s)
      else (0, Some (fie_interval fie), s))"

section \<open>Registration\<close>

text \<open>The default format sets two of the six sizes of the frame.\<close>

definition mxc_isi_register_cap_device :: "sapi \<Rightarrow> mapi \<Rightarrow> 'r isi_cap op" where
  "mxc_isi_register_cap_device k m s =
     (let s = s\<lparr>cap_registered := False, out_pending := [], out_active := [], out_discard := []\<rparr>;
          ret = vb2_init_ret m (hist s)
      in if ret \<noteq> 0 then (ret, s)
      else let fmt = mxc_isi_out_formats ! 0;
               s = s\<lparr>cap_dst_f := (cap_dst_f s)\<lparr>f_width := 1280, f_height := 800, f_fmt := Some fmt\<rparr>\<rparr>;
               s = s\<lparr>cap_src_f := (cap_src_f s)\<lparr>f_fmt := Some fmt\<rparr>\<rparr>;
               ret = soc_pads_init_ret k (hist s);
               s = emit (EntityPadsInit ret) s
      in if ret \<noteq> 0 then (ret, s)
      else let (ret, s) = mxc_isi_ctrls_create m s
      in if ret \<noteq> 0 then (ret, emit EntityCleanup s)
      else let ret = video_register_ret m (hist s);
               s = emit (Soc (Isi (VideoRegister ret))) s
      in if ret \<noteq> 0 then (ret, emit EntityCleanup (mxc_isi_ctrls_delete s))
      else (0, s\<lparr>cap_registered := True\<rparr>))"

definition mxc_isi_subdev_registered :: "sapi \<Rightarrow> mapi \<Rightarrow> 'r isi_cap op" where
  "mxc_isi_subdev_registered k m s =
     (let (ret, s) = mxc_isi_register_cap_device k m s in if ret < 0 then (ret, s) else (0, s))"

definition mxc_isi_subdev_unregistered :: "'r isi_cap \<Rightarrow> 'r isi_cap" where
  "mxc_isi_subdev_unregistered s =
     (let s = emit MutexLock s;
          s = (if cap_registered s
               then let s = (emit (Soc (Isi VideoUnregister)) s)\<lparr>cap_registered := False\<rparr>;
                        s = mxc_isi_ctrls_delete s
                    in emit EntityCleanup s
               else s)
      in emit MutexUnlock s)"

section \<open>Probe and removal\<close>

text \<open>The zeroed structure: its frames, lists, buffers and flags.\<close>

definition zero_frame :: mxc_isi_frame where
  "zero_frame = \<lparr>o_width = 0, o_height = 0, c_width = 0, c_height = 0, h_off = 0, v_off = 0, f_width = 0, f_height = 0,
     sizeimage = [0, 0, 0], bytesperline = [0, 0, 0], f_fmt = None\<rparr>"

definition zero_buffer :: mxc_isi_buffer where
  "zero_buffer = \<lparr>b_sequence = 0, b_num_planes = 0, b_plane_dma = (\<lambda>_. 0), b_plane_size = (\<lambda>_. 0), b_payload = (\<lambda>_. 0),
     b_vb_active = False, b_paddr = \<lparr>fa_y = 0, fa_cb = 0, fa_cr = 0\<rparr>, b_id = MXC_ISI_BUF1, b_discard = False\<rparr>"

definition cap_kzalloc :: "'r isi_cap \<Rightarrow> 'r isi_cap" where
  "cap_kzalloc s = s\<lparr>cap_num_planes := 0, cap_discard_dma := (\<lambda>_. 0), cap_src_f := zero_frame,
     cap_bufs := (\<lambda>_. zero_buffer), out_pending := [], out_active := [], out_discard := [], cap_dst_f := zero_frame,
     cap_frame_count := 0, cap_discard_size := (\<lambda>_. 0), cap_link_setup := False, cap_ctrls_ready := False,
     cap_pads := replicate 16 0, cap_num_pads := 0, cap_registered := False, cap_id := 0\<rparr>"

text \<open>The host device is the channel: the parent of the node, and its driver data.\<close>

definition mxc_isi_dev_get_parent :: "mapi \<Rightarrow> 'r isi_cap \<Rightarrow> bool \<times> 'r isi_cap" where
  "mxc_isi_dev_get_parent m s =
     (let s = emit FwnodeGet s;
          found = host_parent m (hist s)
      in (found, emit FwnodePut s))"

definition mxc_isi_get_hostdata :: "mapi \<Rightarrow> 'r isi_cap \<Rightarrow> bool" where
  "mxc_isi_get_hostdata m s = host_data m (hist s)"

definition isi_cap_probe :: "sapi \<Rightarrow> mapi \<Rightarrow> 'r isi_cap op" where
  "isi_cap_probe k m s =
     (if \<not> soc_kzalloc k (hist s) then (- ENOMEM, s)
      else let s = cap_kzalloc s;
               (parent, s) = mxc_isi_dev_get_parent m s
      in if \<not> parent then (- EPROBE_DEFER, s)
      else if \<not> mxc_isi_get_hostdata m s then (- EPROBE_DEFER, s)
      else let s = s\<lparr>cap_id := word_of_int (isi_id s)\<rparr>;
               s = emit MutexInit s;
               s = emit SubdevInit s;
               pads = map (\<lambda>i. if of_nat i \<in> source_pads then MEDIA_PAD_FL_SOURCE
                               else if of_nat i \<in> insert MXC_ISI_SD_PAD_SINK_PARALLEL_CSI sink_pads then MEDIA_PAD_FL_SINK
                               else 0) [0..<16];
               s = s\<lparr>cap_pads := pads\<rparr>;
               ret = soc_pads_init_ret k (hist s);
               s = emit (EntityPadsInit ret) s
      in if ret \<noteq> 0 then (ret, s)
      else let s = s\<lparr>cap_num_pads := 16\<rparr>
      in (0, emit PmEnable s))"

definition isi_cap_remove :: "'r isi_cap vcb \<Rightarrow> 'r isi_cap op" where
  "isi_cap_remove q s =
     (let s = sd_unregister q mxc_isi_subdev_unregistered s;
          s = emit EntityCleanup s
      in (0, emit PmDisable s))"

end
