(* ===== verification/Isi_Device.thy ===== *)
theory Isi_Device
  imports Isi_Cap
begin

text \<open>
  What the capture device of an imaging channel does: configuring from the remote sub-device, starting to stream,
  opening and closing, its control, its registration.
\<close>

section \<open>Fields that the register code leaves alone\<close>

text \<open>What the register code of the channel does not write: the capture device and the mode of the channel.\<close>

definition cap_view :: "'r isi_cap \<Rightarrow> mxc_isi_frame \<times> mxc_isi_frame \<times> 'r \<times> bool \<times> nat \<times> mxc_isi_plat_data" where
  "cap_view s = (cap_src_f s, cap_dst_f s, cap_remote s, isi_m2m_enabled s, cap_num_planes s, isi_pdata s)"

lemma cap_view_more:
  assumes "kstate.more s = kstate.more t" shows "cap_view s = cap_view t"
  by (simp add: cap_view_def more_cap_fields [OF assms] isi_more_fields [OF assms])

lemma cap_view_emit [simp]: "cap_view (emit e s) = cap_view s"
  by (rule cap_view_more) simp

lemma cap_view_writel [simp]: "cap_view (writel b off v s) = cap_view s"
  by (rule cap_view_more) simp

lemma cap_view_modify [simp]: "cap_view (modify_reg k b off f s) = cap_view s"
  by (rule cap_view_more) simp

lemma cap_view_regmap [simp]: "cap_view (regmap_write b off v s) = cap_view s"
  by (rule cap_view_more) simp

lemma cap_view_readl [simp]: "cap_view (snd (readl k b off s)) = cap_view s"
  by (rule cap_view_more) simp

lemma cap_view_init [simp]: "cap_view (mxc_isi_channel_init k s) = cap_view s"
  by (rule cap_view_more) simp

lemma cap_view_flags [simp]:
  "cap_view (s\<lparr>isi_chain_buf := b\<rparr>) = cap_view s" "cap_view (s\<lparr>isi_cscen := b\<rparr>) = cap_view s"
  "cap_view (s\<lparr>isi_scale := b\<rparr>) = cap_view s" "cap_view (s\<lparr>isi_is_streaming := b\<rparr>) = cap_view s"
  by (simp_all add: cap_view_def)

lemma cap_view_csc [simp]: "cap_view (mxc_isi_channel_set_csc k a b s) = cap_view s"
  by (simp add: mxc_isi_channel_set_csc_def isi_write_coeffs_def Let_def case_prod_beta split: option.split)

lemma cap_view_scaling [simp]: "cap_view (mxc_isi_channel_set_scaling k a b s) = cap_view s"
  by (simp add: mxc_isi_channel_set_scaling_def mxc_isi_channel_clear_scaling_def Let_def case_prod_beta)

lemma cap_view_config [simp]: "cap_view (mxc_isi_channel_config k a b s) = cap_view s"
  by (simp add: mxc_isi_channel_config_def isi_chain_buf_config_def mxc_isi_channel_source_config_def
      mxc_isi_channel_set_flip_def mxc_isi_channel_set_alpha_def mxc_isi_channel_set_panic_threshold_def Let_def)

lemma cap_view_enable [simp]: "cap_view (mxc_isi_channel_enable k m s) = cap_view s"
  by (simp add: mxc_isi_channel_enable_def mxc_isi_clean_registers_def mxc_isi_get_irq_status_def
      mxc_isi_clean_irq_status_def mxc_isi_enable_irq_def mxc_isi_m2m_start_read_def dump_isi_regs_def Let_def case_prod_beta)

lemma cap_viewD:
  assumes "cap_view s = cap_view t"
  shows "cap_src_f s = cap_src_f t" "cap_dst_f s = cap_dst_f t" "cap_remote s = cap_remote t"
    "isi_m2m_enabled s = isi_m2m_enabled t" "cap_num_planes s = cap_num_planes t" "isi_pdata s = isi_pdata t"
  using assms by (simp_all add: cap_view_def)

lemmas cap_init_same [simp] = cap_viewD [OF cap_view_init]
lemmas cap_config_same [simp] = cap_viewD [OF cap_view_config]
lemmas cap_enable_same [simp] = cap_viewD [OF cap_view_enable]

section \<open>Configuring from the remote sub-device\<close>

lemma out_formats_color: "f \<in> set mxc_isi_out_formats \<Longrightarrow> if_color f < 64"
proof -
  have "list_all (\<lambda>f. if_color f < 64) mxc_isi_out_formats"
    unfolding mxc_isi_out_formats_def out_format_entry_def by simp
  then show "f \<in> set mxc_isi_out_formats \<Longrightarrow> if_color f < 64" by (simp only: list_all_iff)
qed

lemma src_fmt_in: "mxc_isi_get_src_fmt f \<in> set mxc_isi_src_formats"
  by (simp add: mxc_isi_get_src_fmt_def mxc_isi_src_formats_def Let_def)

lemma subdev_call_cases:
  "cap_subdev_call f x s = (ret, x', s') \<Longrightarrow> s' = s\<lparr>cap_remote := cap_remote s'\<rparr> \<and>
     (case f of None \<Rightarrow> ret = - ENOIOCTLCMD \<and> x' = x | Some g \<Rightarrow> g x (cap_remote s) = (ret, x', cap_remote s'))"
  by (auto simp: cap_subdev_call_def split: option.splits prod.splits)

lemma config_parm_cases:
  assumes "mxc_isi_config_parm k r stack s = (0, s')" and "f_fmt (cap_dst_f s) = Some fmt"
  obtains p r1 f1 t1 r2 f2 t2 where "mxc_isi_get_remote_source_pad (cap_entity k s) = Some p" "rp_is_subdev p"
    "cap_subdev_call (r_set_fmt r) \<lparr>sf_which = V4L2_SUBDEV_FORMAT_ACTIVE, sf_pad = rp_index p,
       sf_format = stack\<lparr>fmt_code := if_mbus_code fmt, fmt_width := f_width (cap_dst_f s), fmt_height := f_height (cap_dst_f s)\<rparr>\<rparr> s =
     (r1, f1, t1)" "0 \<le> r1 \<or> r1 = - ENOIOCTLCMD"
    "cap_subdev_call (r_get_fmt r) \<lparr>sf_which = V4L2_SUBDEV_FORMAT_ACTIVE, sf_pad = rp_index p, sf_format = zero_fmt\<rparr> t1 = (r2, f2, t2)"
    "0 \<le> r2 \<or> r2 = - ENOIOCTLCMD"
    "f_width (cap_dst_f s) \<le> fmt_width (sf_format f2)" "f_height (cap_dst_f s) \<le> fmt_height (sf_format f2)"
    "let src = set_frame_bounds (fmt_width (sf_format f2)) (fmt_height (sf_format f2))
             ((cap_src_f s)\<lparr>f_fmt := Some (mxc_isi_get_src_fmt f2)\<rparr>)
     in s' = mxc_isi_channel_config k src (cap_dst_f s) (mxc_isi_channel_init k (t2\<lparr>cap_src_f := src\<rparr>))"
proof -
  obtain ret u where u: "mxc_isi_source_fmt_init k r stack s = (ret, u)" by (cases "mxc_isi_source_fmt_init k r stack s")
  have s': "s' = mxc_isi_channel_config k (cap_src_f u) (cap_dst_f u) (mxc_isi_channel_init k u)" and "0 \<le> ret"
    using assms(1) u by (auto simp: mxc_isi_config_parm_def Let_def split: if_splits)
  obtain p where p: "mxc_isi_get_remote_source_pad (cap_entity k s) = Some p" "rp_is_subdev p"
    using u \<open>0 \<le> ret\<close> by (auto simp: mxc_isi_source_fmt_init_def mxc_get_remote_subdev_def split: option.splits if_splits)
  let ?F = "\<lparr>sf_which = V4L2_SUBDEV_FORMAT_ACTIVE, sf_pad = rp_index p, sf_format = stack\<lparr>fmt_code := if_mbus_code fmt,
     fmt_width := f_width (cap_dst_f s), fmt_height := f_height (cap_dst_f s)\<rparr>\<rparr>"
  let ?G = "\<lparr>sf_which = V4L2_SUBDEV_FORMAT_ACTIVE, sf_pad = rp_index p, sf_format = zero_fmt\<rparr>"
  obtain r1 f1 t1 where 1: "cap_subdev_call (r_set_fmt r) ?F s = (r1, f1, t1)" by (cases "cap_subdev_call (r_set_fmt r) ?F s")
  obtain r2 f2 t2 where 2: "cap_subdev_call (r_get_fmt r) ?G t1 = (r2, f2, t2)" by (cases "cap_subdev_call (r_get_fmt r) ?G t1")
  note keep = subdev_call_cases [OF 1, THEN conjunct1] subdev_call_cases [OF 2, THEN conjunct1]
  have same: "cap_dst_f t2 = cap_dst_f s" "cap_src_f t2 = cap_src_f s"
    by (subst keep(2), subst keep(1), simp)+
  have ok: "0 \<le> r1 \<or> r1 = - ENOIOCTLCMD"
    using u \<open>0 \<le> ret\<close> p 1 assms(2)
    by (cases "r1 < 0 \<and> r1 \<noteq> - ENOIOCTLCMD") (auto simp: mxc_isi_source_fmt_init_def mxc_get_remote_subdev_def Let_def)
  have ok2: "0 \<le> r2 \<or> r2 = - ENOIOCTLCMD"
    using u \<open>0 \<le> ret\<close> p 1 2 ok assms(2)
    by (cases "r2 < 0 \<and> r2 \<noteq> - ENOIOCTLCMD") (auto simp: mxc_isi_source_fmt_init_def mxc_get_remote_subdev_def Let_def)
  let ?src = "set_frame_bounds (fmt_width (sf_format f2)) (fmt_height (sf_format f2))
    ((cap_src_f s)\<lparr>f_fmt := Some (mxc_isi_get_src_fmt f2)\<rparr>)"
  have fin: "u = t2\<lparr>cap_src_f := ?src\<rparr> \<and> f_width (cap_dst_f s) \<le> fmt_width (sf_format f2) \<and> f_height (cap_dst_f s) \<le> fmt_height (sf_format f2)"
    using u \<open>0 \<le> ret\<close> p 1 2 ok ok2 assms(2)
    by (auto simp: mxc_isi_source_fmt_init_def mxc_get_remote_subdev_def Let_def same set_frame_bounds_def not_less split: if_splits)
  show thesis
    by (rule that [OF p 1 ok 2 ok2]) (use fin in \<open>simp_all add: s' same Let_def\<close>)
qed

lemma isi_programmed_cong:
  assumes "isi_programmed a b sf df t m" and "isi_pdata t = isi_pdata s" and "isi_hflip t = isi_hflip s" "isi_vflip t = isi_vflip s"
    and "isi_alphaen t = isi_alphaen s" "isi_alpha t = isi_alpha s" "isi_in_port t = isi_in_port s" "isi_sub_in_port t = isi_sub_in_port s"
  shows "isi_programmed a b sf df s m"
  using assms by (simp only: isi_programmed_def)

lemma config_parm_programs:
  assumes "isi_hw k" and "chan_src_ok (pd_chan_src (isi_pdata s))" and "f_fmt (cap_dst_f s) = Some df"
    and "df \<in> set mxc_isi_out_formats" and "f_width (cap_dst_f s) \<noteq> 0" and "f_height (cap_dst_f s) \<noteq> 0"
    and "r_get_fmt r = Some g" and "mxc_isi_config_parm k r stack s = (0, s')"
  obtains f t0 ret f' sf where "sf_which f = V4L2_SUBDEV_FORMAT_ACTIVE" "g f t0 = (ret, f', cap_remote s')"
    "o_width (cap_src_f s') = fmt_width (sf_format f')" "o_height (cap_src_f s') = fmt_height (sf_format f')"
    "cap_dst_f s' = cap_dst_f s" "f_width (cap_dst_f s) \<le> o_width (cap_src_f s')" "f_height (cap_dst_f s) \<le> o_height (cap_src_f s')"
    "sf \<in> set mxc_isi_src_formats" "isi_programmed (cap_src_f s') (cap_dst_f s) sf df s (regs s')"
  using config_parm_cases [OF assms(8,3)]
proof cases
  case (1 p r1 f1 t1 r2 f2 t2)
  let ?f = "\<lparr>sf_which = V4L2_SUBDEV_FORMAT_ACTIVE, sf_pad = rp_index p, sf_format = zero_fmt\<rparr>"
  let ?src = "set_frame_bounds (fmt_width (sf_format f2)) (fmt_height (sf_format f2))
    ((cap_src_f s)\<lparr>f_fmt := Some (mxc_isi_get_src_fmt f2)\<rparr>)"
  let ?u = "t2\<lparr>cap_src_f := ?src\<rparr>"
  have s': "s' = mxc_isi_channel_config k ?src (cap_dst_f s) (mxc_isi_channel_init k ?u)" using 1(9) by (simp add: Let_def)
  note t1 = subdev_call_cases [OF 1(3), THEN conjunct1] and t2 = subdev_call_cases [OF 1(5)]
  have same: "isi_pdata ?u = isi_pdata s" "isi_hflip ?u = isi_hflip s" "isi_vflip ?u = isi_vflip s" "isi_alphaen ?u = isi_alphaen s"
      "isi_alpha ?u = isi_alpha s" "isi_in_port ?u = isi_in_port s" "isi_sub_in_port ?u = isi_sub_in_port s"
    and dst: "cap_dst_f ?u = cap_dst_f s"
    by (subst t2 [THEN conjunct1], subst t1, simp)+
  have get: "g ?f (cap_remote t1) = (r2, f2, cap_remote s')"
    using t2 assms(7) by (simp add: s')
  have "isi_programmed ?src (cap_dst_f s) (mxc_isi_get_src_fmt f2) df ?u (regs s')"
    unfolding s' by (rule isi_configured) (use assms same out_formats_color in \<open>simp_all add: set_frame_bounds_def\<close>)
  from isi_programmed_cong [OF this same] show thesis
    by (intro that [OF _ get _ _ _ _ _ src_fmt_in]) (use 1(7,8) dst in \<open>simp_all add: s' set_frame_bounds_def\<close>)
qed

text \<open>
  C9: when configuring from the remote sub-device succeeds, the source of the channel is the size that the remote
  has just reported as active, the output is no larger, and the registers decode to a channel that takes that
  source and produces the output format.
\<close>

theorem isi_config_parm_programs:
  assumes "isi_hw k" and "chan_src_ok (pd_chan_src (isi_pdata s))" and "f_fmt (cap_dst_f s) = Some df"
    and "df \<in> set mxc_isi_out_formats" and "f_width (cap_dst_f s) \<noteq> 0" and "f_height (cap_dst_f s) \<noteq> 0"
    and "r_get_fmt r = Some g" and "mxc_isi_config_parm k r stack s = (0, s')"
  shows "\<exists>f t0 ret f'. sf_which f = V4L2_SUBDEV_FORMAT_ACTIVE \<and> g f t0 = (ret, f', cap_remote s') \<and>
    o_width (cap_src_f s') = fmt_width (sf_format f') \<and> o_height (cap_src_f s') = fmt_height (sf_format f') \<and>
    f_width (cap_dst_f s) \<le> o_width (cap_src_f s') \<and> f_height (cap_dst_f s) \<le> o_height (cap_src_f s') \<and>
    (\<exists>sf \<in> set mxc_isi_src_formats. isi_programmed (cap_src_f s') (cap_dst_f s) sf df s (regs s'))"
  using assms by (rule config_parm_programs) blast

section \<open>Streaming\<close>

lemma pipeline_loop_keeps: "snd (pipeline_loop es on ret s) = s\<lparr>cap_remote := cap_remote (snd (pipeline_loop es on ret s))\<rparr>"
proof (induction es on ret s rule: pipeline_loop.induct)
  case (2 e es on ret s)
  show ?case
  proof (cases e)
    case (Some f)
    obtain r u where c: "(case f of None \<Rightarrow> (- ENOIOCTLCMD, s)
        | Some g \<Rightarrow> let (ret, r) = g (if on then 1 else 0) (cap_remote s) in (ret, s\<lparr>cap_remote := r\<rparr>)) = (r, s\<lparr>cap_remote := u\<rparr>)"
    proof (cases f)
      case None then show thesis by (intro that [of _ "cap_remote s"]) simp
    next
      case (Some a) then show thesis
        by (cases "a (if on then 1 else 0) (cap_remote s)") (intro that, simp add: Let_def)
    qed
    show ?thesis
      using 2(2) [OF Some c [symmetric]] by (auto simp: Some c Let_def)
  qed (use 2 in simp)
qed simp

lemma pipeline_enable_keeps:
  "regs (snd (mxc_isi_pipeline_enable m g on s)) = regs s" "isi_is_streaming (snd (mxc_isi_pipeline_enable m g on s)) = isi_is_streaming s"
proof -
  have "regs (snd (pipeline_loop es on ret t)) = regs t" "isi_is_streaming (snd (pipeline_loop es on ret t)) = isi_is_streaming t"
    for es ret and t :: "'a isi_cap" by (subst pipeline_loop_keeps, simp)+
  then show "regs (snd (mxc_isi_pipeline_enable m g on s)) = regs s" "isi_is_streaming (snd (mxc_isi_pipeline_enable m g on s)) = isi_is_streaming s"
    by (simp_all add: mxc_isi_pipeline_enable_def Let_def case_prod_beta)
qed

text \<open>Enabling writes the enable bit.\<close>

lemma enable_writes:
  "\<exists>v es. hist (mxc_isi_channel_enable k m s) = hist s @ es \<and> Soc (MmioWrite ISI_REGS CHNL_CTRL v) \<in> set es \<and> bit v 31"
  by (auto simp: mxc_isi_channel_enable_def mxc_isi_clean_registers_def mxc_isi_get_irq_status_def
      mxc_isi_clean_irq_status_def mxc_isi_enable_irq_def mxc_isi_m2m_start_read_def dump_isi_regs_def Let_def case_prod_beta
      modify_reg_upd readl_def writel_def bit_simps)

lemma pipeline_enable_hist: "prefix (hist s) (hist (snd (mxc_isi_pipeline_enable m g on s)))"
proof -
  have "hist (snd (pipeline_loop es on ret t)) = hist t" for es ret and t :: "'a isi_cap"
    by (subst pipeline_loop_keeps) simp
  then show ?thesis by (simp add: mxc_isi_pipeline_enable_def Let_def case_prod_beta)
qed

text \<open>
  C39: starting to stream does not look at the result of the buffer queue: when the queue cannot be started - for
  want of buffers or of memory - and the sub-devices can, the call enables the channel, counts it as streaming and
  reports success.
\<close>

theorem isi_streamon_ignores_queue:
  assumes "mxc_isi_config_parm k r stack s = (0, t)" and "vb_streamon q (cap_vb2_start_streaming k v) t = (e, u)" and "e < 0"
    and "fst (mxc_isi_pipeline_enable m g True (mxc_isi_channel_enable k (isi_m2m_enabled u) (emit (Soc (Isi (VbStreamOn e))) u))) = 0"
  shows "\<exists>s' w. mxc_isi_cap_streamon k v m q r g stack s = (0, s') \<and> isi_is_streaming s' \<and>
    Soc (MmioWrite ISI_REGS CHNL_CTRL w) \<in> set (drop (length (hist u)) (hist s')) \<and> bit w 31"
proof -
  let ?w = "mxc_isi_channel_enable k (isi_m2m_enabled u) (emit (Soc (Isi (VbStreamOn e))) u)"
  obtain p where p: "mxc_isi_pipeline_enable m g True ?w = (0, p)" using ok_pair [OF assms(4)] by blast
  obtain x es where x: "hist ?w = hist u @ Soc (Isi (VbStreamOn e)) # es" "Soc (MmioWrite ISI_REGS CHNL_CTRL x) \<in> set es" "bit x 31"
    using enable_writes [of k "isi_m2m_enabled u" "emit (Soc (Isi (VbStreamOn e))) u"] by auto
  obtain es' where "hist p = hist ?w @ es'"
    using pipeline_enable_hist [of ?w m g True] p by (auto simp: prefix_def)
  with x p show ?thesis by (auto simp: mxc_isi_cap_streamon_def assms(1,2) Let_def)
qed

section \<open>References, locks and file handles\<close>

text \<open>File handles of the V4L2 core: one for every successful opening, given back by a release.\<close>

fun fh_delta :: "kevent \<Rightarrow> int" where
  "fh_delta (Soc (Isi (FhOpen ret))) = (if ret = 0 then 1 else 0)"
| "fh_delta (Soc (Isi (FhRelease _))) = - 1"
| "fh_delta _ = 0"

text \<open>
  The mutex of the channel, \<^verbatim>\<open>mxc_isi->lock\<close>; \<^verbatim>\<open>isi_cap->lock\<close> is the mutex of \<open>lock_delta\<close>.
\<close>

fun chan_delta :: "kevent \<Rightarrow> int" where
  "chan_delta (Soc (Isi ChanMutexLock)) = 1"
| "chan_delta (Soc (Isi ChanMutexUnlock)) = - 1"
| "chan_delta _ = 0"

text \<open>What opening and closing account for: power references, both mutexes, handles, users, and the link.\<close>

definition books :: "'r isi_cap \<Rightarrow> int \<times> int \<times> int \<times> int \<times> int \<times> bool" where
  "books s = (balance pm_delta (hist s), balance lock_delta (hist s), balance chan_delta (hist s), balance fh_delta (hist s),
     isi_usage_count s, cap_link_setup s)"

lemma books_same:
  assumes "kstate.more s = kstate.more t" and "hist s = hist t @ es"
    and "list_all (\<lambda>e. pm_delta e = 0 \<and> lock_delta e = 0 \<and> chan_delta e = 0 \<and> fh_delta e = 0) es"
  shows "books s = books t"
proof -
  have "isi_usage_count s = isi_usage_count t" by (rule isi_more_fields [OF assms(1)])
  moreover have "cap_link_setup s = cap_link_setup t" using assms(1) by (cases s; cases t) simp
  moreover have "balance pm_delta es = 0" "balance lock_delta es = 0" "balance chan_delta es = 0" "balance fh_delta es = 0"
    by (rule balance_zero [OF assms(3)]; simp)+
  ultimately show ?thesis by (simp add: books_def assms(2))
qed

lemma isi_books_emit:
  "pm_delta e = 0 \<Longrightarrow> lock_delta e = 0 \<Longrightarrow> chan_delta e = 0 \<Longrightarrow> fh_delta e = 0 \<Longrightarrow> books (emit e s) = books s"
  by (rule books_same [where es = "[e]"]) simp_all

lemma books_soc [simp]: "books (emit (Soc e) s) = books s" if "\<And>r. e \<noteq> Isi (FhOpen r)" "\<And>r. e \<noteq> Isi (FhRelease r)"
  "e \<noteq> Isi ChanMutexLock" "e \<noteq> Isi ChanMutexUnlock"
proof (rule isi_books_emit)
  show "chan_delta (Soc e) = 0" "fh_delta (Soc e) = 0" using that
  proof (atomize (full), cases e)
    case (Isi x) then show "chan_delta (Soc e) = 0 \<and> fh_delta (Soc e) = 0" using that by (cases x) simp_all
  qed simp_all
qed simp_all

lemma books_prims [simp]:
  "books (writel b off w s) = books s" "books (snd (readl k b off s)) = books s" "books (modify_reg k b off f s) = books s"
  "books (regmap_write b off w s) = books s"
  by (simp_all add: modify_reg_def writel_def readl_def regmap_write_def Let_def)

lemma books_fields [simp]:
  "books (s\<lparr>cap_remote := r\<rparr>) = books s" "books (s\<lparr>out_active := a\<rparr>) = books s" "books (s\<lparr>out_pending := a\<rparr>) = books s"
  "books (s\<lparr>out_discard := a\<rparr>) = books s"
  by (simp_all add: books_def)

lemma books_flush [simp]: "books (isi_flush rs s) = books s"
  by (induction rs arbitrary: s) simp_all

lemma books_free [simp]: "books (isi_free_discard n s) = books s"
  unfolding isi_free_discard_def by (induction n) simp_all

lemma books_disable [simp]: "books (mxc_isi_channel_disable k s) = books s"
  by (simp add: mxc_isi_channel_disable_def mxc_isi_disable_irq_def Let_def)

lemma books_stop [simp]: "books (cap_vb2_stop_streaming k s) = books s"
  by (simp add: cap_vb2_stop_streaming_def Let_def)

lemma books_deinit [simp]: "books (mxc_isi_channel_deinit k s) = books s"
  by (simp add: mxc_isi_channel_deinit_def mxc_isi_channel_sw_reset_def Let_def case_prod_beta)

lemma books_reset [simp]:
  "books (snd (isi_disp_mix_sft_rstn k p on s)) = books s" "books (snd (isi_disp_mix_clks_enable k p on s)) = books s"
  by (simp_all add: isi_disp_mix_sft_rstn_def isi_disp_mix_clks_enable_def reset_control_assert_def
      reset_control_deassert_def Let_def)

lemma books_clk [simp]: "books (mxc_isi_clk_disable s) = books s" "books (snd (mxc_isi_clk_enable v s)) = books s"
  by (simp_all add: mxc_isi_clk_disable_def mxc_imx8_clk_disable_def mxc_imx8mn_clk_disable_def isi_disable_unprepare_def
      mxc_isi_clk_enable_def mxc_imx8_clk_enable_def mxc_imx8mn_clk_enable_def isi_prepare_enable_def
      run_steps.simps(2) Let_def split: mxc_isi_dev_ops.splits)

lemma books_suspend [simp]: "books (snd (mxc_isi_runtime_suspend k s)) = books s"
  by (simp add: mxc_isi_runtime_suspend_def Let_def)

lemma books_resume [simp]: "books (snd (mxc_isi_runtime_resume k v s)) = books s"
  using books_clk(2) [of v s] by (simp add: mxc_isi_runtime_resume_def Let_def case_prod_beta)

lemma books_get:
  assumes "pm_spec c" shows "books (snd (pm_runtime_get_sync c (mxc_isi_runtime_resume k v) s)) = books (emit PmGetSync s)"
  unfolding pm_runtime_get_sync_def
  using pm_get_cases [OF assms, of "mxc_isi_runtime_resume k v" "emit PmGetSync s"] by (metis books_resume snd_conv)

lemma books_put:
  assumes "pm_spec c" shows "books (pm_runtime_put c (mxc_isi_runtime_suspend k) s) = books (emit PmPut s)"
  unfolding pm_runtime_put_def
  using pm_put_cases [OF assms, of "mxc_isi_runtime_suspend k" "emit PmPut s"] by (metis books_suspend)

lemma books_call [simp]: "books (snd (snd (cap_subdev_call f x s))) = books s"
  by (simp add: cap_subdev_call_def Let_def case_prod_beta split: option.split)

lemma books_vb:
  assumes "vb2_spec q" shows "books (snd (vb_release q (cap_vb2_stop_streaming k) s)) = books s"
  using assms unfolding vb2_spec_def by (metis books_stop snd_conv)

lemma link_emit [simp]: "cap_link_setup (emit e s) = cap_link_setup s"
  by (simp add: emit_def)

lemma books_events [simp]:
  "books (emit MutexLock s) = (let (pm, lk, ch, fh, u, l) = books s in (pm, lk + 1, ch, fh, u, l))"
  "books (emit MutexUnlock s) = (let (pm, lk, ch, fh, u, l) = books s in (pm, lk - 1, ch, fh, u, l))"
  "books (emit (Soc (Isi ChanMutexLock)) s) = (let (pm, lk, ch, fh, u, l) = books s in (pm, lk, ch + 1, fh, u, l))"
  "books (emit (Soc (Isi ChanMutexUnlock)) s) = (let (pm, lk, ch, fh, u, l) = books s in (pm, lk, ch - 1, fh, u, l))"
  "books (emit PmGetSync s) = (let (pm, lk, ch, fh, u, l) = books s in (pm + 1, lk, ch, fh, u, l))"
  "books (emit PmPut s) = (let (pm, lk, ch, fh, u, l) = books s in (pm - 1, lk, ch, fh, u, l))"
  "books (emit (Soc (Isi (FhOpen r))) s) = (let (pm, lk, ch, fh, u, l) = books s in (pm, lk, ch, fh + (if r = 0 then 1 else 0), u, l))"
  "books (emit (Soc (Isi (FhRelease r))) s) = (let (pm, lk, ch, fh, u, l) = books s in (pm, lk, ch, fh - 1, u, l))"
  "books (s\<lparr>isi_usage_count := i\<rparr>) = (let (pm, lk, ch, fh, u, l) = books s in (pm, lk, ch, fh, i, l))"
  "books (s\<lparr>isi_m2m_enabled := b\<rparr>) = books s"
  "books (s\<lparr>cap_link_setup := b\<rparr>) = (let (pm, lk, ch, fh, u, l) = books s in (pm, lk, ch, fh, u, b))"
  by (simp_all add: books_def Let_def)

lemma books_parts:
  assumes "books s = (pm, lk, ch, fh, u, l)"
  shows "isi_usage_count s = u" "cap_link_setup s = l" "balance pm_delta (hist s) = pm" "balance lock_delta (hist s) = lk"
    "balance chan_delta (hist s) = ch" "balance fh_delta (hist s) = fh"
  using assms by (simp_all add: books_def)

text \<open>Everything that opening can leave behind.\<close>

lemma open_books:
  assumes "pm_spec c" and "mxc_isi_capture_open k v m c r s = (ret, t)" and "books s = (pm, lk, ch, fh, u, l)"
  shows "books t = (pm, lk, ch, fh, u, False) \<and> ret = 0 \<or> books t = (pm, lk, ch, fh, u, True) \<and> ret \<noteq> 0 \<or>
    books t = (pm, lk, ch, fh + 1, u, True) \<and> ret \<noteq> 0 \<or> books t = (pm + 1, lk, ch, fh + 1, u + 1, True) \<and> ret = 0"
proof -
  let ?a = "(emit MutexLock s)\<lparr>cap_link_setup := is_entity_link_setup k m (emit MutexLock s)\<rparr>"
  let ?b = "emit MutexUnlock ?a"
  let ?r = "fh_open_ret m (hist (emit MutexLock ?b))"
  let ?d = "emit MutexUnlock (emit (Soc (Isi (FhOpen ?r))) (emit MutexLock ?b))"
  let ?e = "snd (pm_runtime_get_sync c (mxc_isi_runtime_resume k v) ?d)"
  let ?f = "cap_subdev_call (r_s_power r) 1 ?e"
  have a: "books ?a = (pm, lk + 1, ch, fh, u, is_entity_link_setup k m (emit MutexLock s))" by (simp add: assms(3))
  have d: "books ?d = (pm, lk, ch, fh + (if ?r = 0 then 1 else 0), u, is_entity_link_setup k m (emit MutexLock s))" by (simp add: assms(3))
  have f: "books (snd (snd ?f)) = (pm + 1, lk, ch, fh + (if ?r = 0 then 1 else 0), u, is_entity_link_setup k m (emit MutexLock s))"
    using d by (simp add: books_get [OF assms(1)])
  have uc: "isi_usage_count (snd (snd ?f)) = u" using books_parts(1) [OF f] .
  show ?thesis
    using assms(2) a d f uc books_parts(2) [OF a]
    by (auto simp: mxc_isi_capture_open_def Let_def case_prod_beta books_put [OF assms(1)] split: if_splits)
qed

text \<open>Everything that closing can give back.\<close>

lemma close_books:
  assumes "pm_spec c" and "vb2_spec q" and "mxc_isi_capture_release k c q r s = (ret, t)" and "books s = (pm, lk, ch, fh, u, True)"
  shows "\<exists>fh' u'. books t = (pm - 1, lk, ch, fh', u', True) \<and>
    (mxc_get_remote_subdev (cap_entity k s) \<longrightarrow> fh' = fh - 1 \<and>
       (fst (vb_release q (cap_vb2_stop_streaming k) (emit MutexLock s)) = 0 \<longrightarrow> 0 < u \<longrightarrow> u' = u - 1))"
proof -
  let ?a = "vb_release q (cap_vb2_stop_streaming k) (emit MutexLock s)"
  let ?b = "emit MutexUnlock (emit (Soc (Isi (FhRelease (fst ?a)))) (snd ?a))"
  let ?c = "if 0 < isi_usage_count ?b
    then let s = ?b\<lparr>isi_usage_count := isi_usage_count ?b - 1\<rparr> in if isi_usage_count s = 0 then mxc_isi_channel_deinit k s else s
    else ?b"
  have b: "books ?b = (pm, lk, ch, fh - 1, u, True)" by (simp add: books_vb [OF assms(2)] assms(4))
  have c: "books ?c = (pm, lk, ch, fh - 1, if 0 < u then u - 1 else u, True)"
    using b books_parts(1) [OF b] by (simp add: Let_def)
  have l: "cap_link_setup s" using books_parts(2) [OF assms(4)] by simp
  show ?thesis
    using assms(3,4) b c l
    by (auto simp: mxc_isi_capture_release_def case_prod_beta Let_def books_put [OF assms(1)] split: if_splits)
qed

section \<open>Properties of opening and closing\<close>

text \<open>
  C25: whatever the sub-devices and the core answer, an opening leaves neither the mutex of the node nor that of the
  channel locked, and it holds a reference on the power of the channel and counts a user exactly when it reports
  success with its links set up.
\<close>

theorem isi_open_books:
  assumes "pm_spec c" and "mxc_isi_capture_open k v m c r s = (ret, t)"
  shows "balance lock_delta (hist t) = balance lock_delta (hist s) \<and> balance chan_delta (hist t) = balance chan_delta (hist s) \<and>
    balance pm_delta (hist t) = balance pm_delta (hist s) + (if ret = 0 \<and> cap_link_setup t then 1 else 0) \<and>
    isi_usage_count t = isi_usage_count s + (if ret = 0 \<and> cap_link_setup t then 1 else 0)"
proof -
  obtain pm lk ch fh u l where s: "books s = (pm, lk, ch, fh, u, l)" by (cases "books s")
  from open_books [OF assms s] books_parts [OF s] show ?thesis
    by (elim disjE conjE) (auto dest: books_parts)
qed

text \<open>
  C26: closing a file whose opening reported success gives back what opening it took: whatever the sub-devices, the queue and the core answer, the
  power reference and both mutexes; when the sub-device is still connected, the file handle, even if the queue reports
  a failure; and when the queue, besides, reports that it was released, and the number of users was not negative, the place among the users.
\<close>

theorem isi_open_close:
  assumes "pm_spec c" and "vb2_spec q"
    and "mxc_isi_capture_open k v m c r s = (0, t)" and "mxc_isi_capture_release k c q r t = (ret, w)"
  shows "balance pm_delta (hist w) = balance pm_delta (hist s) \<and> balance lock_delta (hist w) = balance lock_delta (hist s) \<and>
    balance chan_delta (hist w) = balance chan_delta (hist s) \<and>
    (mxc_get_remote_subdev (cap_entity k t) \<longrightarrow> balance fh_delta (hist w) = balance fh_delta (hist s) \<and>
       (fst (vb_release q (cap_vb2_stop_streaming k) (emit MutexLock t)) = 0 \<and> 0 \<le> isi_usage_count s \<longrightarrow>
          isi_usage_count w = isi_usage_count s))"
proof -
  obtain pm lk ch fh u l where s: "books s = (pm, lk, ch, fh, u, l)" by (cases "books s")
  note part = books_parts [OF s]
  from open_books [OF assms(1,3) s] consider "books t = (pm, lk, ch, fh, u, False)" | "books t = (pm + 1, lk, ch, fh + 1, u + 1, True)"
    by auto
  then show ?thesis
  proof cases
    case 1
    then have "w = t" using assms(4) books_parts(2) [OF 1] by (simp add: mxc_isi_capture_release_def)
    then show ?thesis using books_parts [OF 1] part by simp
  next
    case 2
    then show ?thesis
      using close_books [OF assms(1,2,4) 2] part by (auto dest: books_parts)
  qed
qed

text \<open>
  when the sub-device cannot be powered, opening gives the power reference back but not the file handle: it
  reports an error with the handle of the V4L2 core still open, once for every attempt.
\<close>

theorem isi_open_leaks_handle:
  assumes "pm_spec c" and "r_s_power r = Some p" and "\<forall>on x. fst (p on x) \<noteq> 0" and "\<forall>h. fh_open_ret m h = 0"
    and "\<forall>h. media_remote_pad k h = R" and "is_entity_link_setup k m (emit MutexLock s)" and "\<not> isi_m2m_enabled s"
  shows "\<exists>ret t. mxc_isi_capture_open k v m c r s = (ret, t) \<and> ret \<noteq> 0 \<and>
    balance fh_delta (hist t) = balance fh_delta (hist s) + 1 \<and> balance pm_delta (hist t) = balance pm_delta (hist s) \<and>
    isi_usage_count t = isi_usage_count s"
proof -
  obtain pm lk ch fh u l where s: "books s = (pm, lk, ch, fh, u, l)" by (cases "books s")
  obtain ret t where o: "mxc_isi_capture_open k v m c r s = (ret, t)" by (cases "mxc_isi_capture_open k v m c r s")
  have ent: "cap_entity k x = cap_entity k y" if "cap_pads x = cap_pads y" "cap_num_pads x = cap_num_pads y" for x y :: "'a isi_cap"
    using assms(5) that by (simp add: cap_entity_def)
  have sub: "mxc_get_remote_subdev (cap_entity k (emit MutexLock s))"
    using assms(6) by (simp add: is_entity_link_setup_def split: if_splits)
  let ?a = "emit MutexUnlock ((emit MutexLock s)\<lparr>cap_link_setup := True\<rparr>)"
  let ?d = "emit MutexUnlock (emit (Soc (Isi (FhOpen 0))) (emit MutexLock ?a))"
  have "mxc_get_remote_subdev (cap_entity k ?a)"
    using sub ent [of ?a "emit MutexLock s"] by (simp add: emit_def)
  moreover have "fst (cap_subdev_call (r_s_power r) 1 x) \<noteq> 0" for x :: "'a isi_cap"
    using assms(2,3) by (simp add: cap_subdev_call_def case_prod_beta Let_def)
  ultimately have "ret \<noteq> 0 \<and> books t = books (emit PmPut (emit PmGetSync ?d))"
    using o assms(4,6,7)
    by (auto simp: mxc_isi_capture_open_def Let_def case_prod_beta books_put [OF assms(1)] books_get [OF assms(1)])
  then have "ret \<noteq> 0" and "books t = (pm, lk, ch, fh + 1, u, True)" by (simp_all add: s)
  from books_parts [OF this(2)] books_parts [OF s] o this(1) show ?thesis
    by (intro exI [of _ ret] exI [of _ t]) simp
qed

section \<open>Properties of the control and of registration\<close>

text \<open>
  C40: every refusal of a control value - an alpha value out of range, or another control - returns with the
  spinlock of the channel held, so that the next access to the channel, which takes the same lock, cannot proceed;
  an accepted value releases it.
\<close>

theorem isi_s_ctrl_keeps_lock:
  "balance spin_delta (hist (snd (mxc_isi_s_ctrl cid flags val s))) =
     balance spin_delta (hist s) + (if fst (mxc_isi_s_ctrl cid flags val s) = 0 then 0 else 1) \<and>
   (fst (mxc_isi_s_ctrl V4L2_CID_ALPHA_COMPONENT 0 val s) = 0 \<longleftrightarrow> 0 \<le> val \<and> val \<le> 255)"
  by (simp add: mxc_isi_s_ctrl_def Let_def)

lemma probe_zero: "isi_cap_probe k m s = (0, t) \<Longrightarrow> cap_dst_f t = zero_frame"
  by (auto simp: isi_cap_probe_def Let_def mxc_isi_dev_get_parent_def cap_kzalloc_def split: if_splits)

lemma ctrls_create_dst: "cap_dst_f (snd (mxc_isi_ctrls_create m s)) = cap_dst_f s"
  by (simp add: mxc_isi_ctrls_create_def Let_def)

lemma register_dst:
  assumes "mxc_isi_register_cap_device k m s = (0, t)"
  shows "cap_dst_f t = (cap_dst_f s)\<lparr>f_width := 1280, f_height := 800, f_fmt := Some (mxc_isi_out_formats ! 0)\<rparr>"
proof -
  have c: "mxc_isi_ctrls_create m x = (a, y) \<Longrightarrow> cap_dst_f y = cap_dst_f x" for x y :: "'a isi_cap" and a
    using ctrls_create_dst [of m x] by simp
  show ?thesis
    using assms by (auto simp: mxc_isi_register_cap_device_def Let_def split: if_splits prod.splits dest!: c)
qed

text \<open>
  the format that a new capture device reports before one is set is 0 by 0, although its registration asks for
  1280 by 800, and its images have no size: with that format a buffer of any size is accepted.
\<close>

theorem isi_default_format_empty:
  assumes "isi_cap_probe k m s = (0, t)" and "cap_dst_f u = cap_dst_f t" and "mxc_isi_register_cap_device k m u = (0, w)"
  shows "f_width (cap_dst_f w) = 1280 \<and> f_height (cap_dst_f w) = 800 \<and>
    (\<exists>pix'. mxc_isi_cap_g_fmt_mplane pix w = (0, pix', w) \<and> pm_width pix' = 0 \<and> pm_height pix' = 0) \<and>
    fst (cap_vb2_buffer_prepare r w) = 0"
proof -
  let ?f = "mxc_isi_out_formats ! 0"
  have w: "cap_dst_f w = zero_frame\<lparr>f_width := 1280, f_height := 800, f_fmt := Some ?f\<rparr>"
    using register_dst [OF assms(3)] probe_zero [OF assms(1)] by (simp add: assms(2))
  have f: "if_memplanes ?f = 1" by (simp add: mxc_isi_out_formats_def out_format_entry_def)
  show ?thesis
    by (simp add: w f mxc_isi_cap_g_fmt_mplane_def cap_vb2_buffer_prepare_def zero_frame_def Let_def case_prod_beta)
qed

section \<open>Examples of the capture device\<close>

definition no_remote :: "unit remote_ops" where
  "no_remote = \<lparr>r_s_power = None, r_set_fmt = None, r_get_fmt = None, r_s_frame_interval = None, r_g_frame_interval = None,
     r_enum_frame_size = None, r_enum_frame_interval = None\<rparr>"

text \<open>A channel with one pad, connected; a camera that reports a full frame.\<close>

definition linked_cap :: "unit isi_cap" where
  "linked_cap = (example_cap [])\<lparr>cap_pads := [MEDIA_PAD_FL_SINK], cap_num_pads := 1,
     cap_dst_f := frame_of 1640 1232 (mxc_isi_out_formats ! 0)\<rparr>"

definition full_frame :: "v4l2_subdev_format \<Rightarrow> unit \<Rightarrow> int \<times> v4l2_subdev_format \<times> unit" where
  "full_frame f u = (0, f\<lparr>sf_format := (sf_format f)\<lparr>fmt_width := 3280, fmt_height := 2464\<rparr>\<rparr>, u)"

definition camera :: "unit remote_ops" where
  "camera = no_remote\<lparr>r_s_power := Some (\<lambda>on u. (0, on, u)), r_get_fmt := Some full_frame\<rparr>"

definition keep_vb2 :: "'s vcb" where
  "keep_vb2 = \<lparr>vb_streamon = (\<lambda>f s. (- EINVAL, s)), vb_streamoff = (\<lambda>f s. (0, f s)), vb_release = (\<lambda>f s. (0, f s)),
     sd_unregister = (\<lambda>f s. f s)\<rparr>"

lemma keep_vb2_spec [simp]: "vb2_spec keep_vb2"
  by (auto simp: vb2_spec_def keep_vb2_def)

lemma linked_entity: "cap_pads s = [MEDIA_PAD_FL_SINK] \<Longrightarrow> cap_num_pads s = 1 \<Longrightarrow>
    mxc_isi_get_remote_source_pad (cap_entity ideal_soc s) = Some \<lparr>rp_index = 0, rp_is_subdev = True\<rparr>"
  by (simp add: cap_entity_def ideal_soc_def)

lemma linked_fields [simp]:
  "cap_pads linked_cap = [MEDIA_PAD_FL_SINK]" "cap_num_pads linked_cap = 1" "isi_pdata linked_cap = mxc_imx8mn_data"
  "cap_dst_f linked_cap = frame_of 1640 1232 (mxc_isi_out_formats ! 0)" "isi_m2m_enabled linked_cap = False"
  "isi_usage_count linked_cap = 0"
  by (simp_all add: linked_cap_def example_cap_def isi_state.defs isi_cap.defs isi_example_def)

lemma linked_hist: "hist linked_cap = []"
  by (simp add: linked_cap_def example_cap_def isi_state.defs isi_cap.defs isi_example_def)

lemma linked_links: "is_entity_link_setup ideal_soc idle_media (emit MutexLock linked_cap)"
  by (simp add: is_entity_link_setup_def mxc_get_remote_subdev_def linked_entity idle_media_def emit_def)

lemma linked_config: "fst (mxc_isi_config_parm ideal_soc camera stack linked_cap) = 0"
  by (simp add: mxc_isi_config_parm_def mxc_isi_source_fmt_init_def Let_def linked_entity mxc_get_remote_subdev_def
      cap_subdev_call_def camera_def no_remote_def full_frame_def frame_of_def set_frame_bounds_def case_prod_beta)

theorem isi_config_parm_programs_witness:
  "\<exists>s'. mxc_isi_config_parm ideal_soc camera zero_fmt linked_cap = (0, s') \<and>
    (\<exists>sf \<in> set mxc_isi_src_formats. isi_programmed (cap_src_f s') (cap_dst_f linked_cap) sf (mxc_isi_out_formats ! 0) linked_cap (regs s'))"
proof -
  obtain s' where s': "mxc_isi_config_parm ideal_soc camera zero_fmt linked_cap = (0, s')"
    using ok_pair [OF linked_config] by blast
  have "r_get_fmt camera = Some full_frame" by (simp add: camera_def)
  note * = isi_config_parm_programs [OF ideal_isi_hw _ _ _ _ _ this s']
  have "mxc_isi_out_formats ! 0 \<in> set mxc_isi_out_formats" by (simp add: mxc_isi_out_formats_def)
  from * [OF _ _ this] show ?thesis
    using s' by (auto simp: mxc_imx8mn_data_def frame_of_def)
qed

theorem isi_streamon_ignores_queue_witness:
  "\<exists>s' t w. mxc_isi_config_parm ideal_soc camera zero_fmt linked_cap = (0, t) \<and>
    mxc_isi_cap_streamon ideal_soc free_memory idle_media keep_vb2 camera (\<lambda>h. []) zero_fmt linked_cap = (0, s') \<and>
    isi_is_streaming s' \<and> Soc (MmioWrite ISI_REGS CHNL_CTRL w) \<in> set (drop (length (hist t)) (hist s')) \<and> bit w 31"
proof -
  obtain t where t: "mxc_isi_config_parm ideal_soc camera zero_fmt linked_cap = (0, t)"
    using ok_pair [OF linked_config] by blast
  have "vb_streamon keep_vb2 (cap_vb2_start_streaming ideal_soc free_memory) t = (- EINVAL, t)" by (simp add: keep_vb2_def)
  from isi_streamon_ignores_queue [OF t this, of idle_media "\<lambda>h. []"] show ?thesis
    using t by (simp add: mxc_isi_pipeline_enable_def idle_media_def Let_def)
qed

lemma resume_more: "kstate.more (snd (mxc_isi_runtime_resume k v s)) = kstate.more s"
  using isi_clk_enable_more [OF surjective_pairing, of v s] by (simp add: mxc_isi_runtime_resume_def Let_def case_prod_beta)

lemma more_pads: "kstate.more s = kstate.more t \<Longrightarrow>
    cap_pads s = cap_pads t \<and> cap_num_pads s = cap_num_pads t \<and> cap_link_setup s = cap_link_setup t"
  by (cases s; cases t) simp

lemma pads_emit [simp]: "cap_pads (emit e s) = cap_pads s" "cap_num_pads (emit e s) = cap_num_pads s"
  by (simp_all add: emit_def)

lemmas pads_resume [simp] = more_pads [OF resume_more]

lemma opened:
  "\<exists>t. mxc_isi_capture_open ideal_soc (isi_ideal 0) idle_media (ideal_cb [] (\<lambda>i v s. s)) camera linked_cap = (0, t) \<and>
     cap_link_setup t \<and> cap_pads t = [MEDIA_PAD_FL_SINK] \<and> cap_num_pads t = 1"
  using linked_links
  by (simp add: mxc_isi_capture_open_def Let_def case_prod_beta mxc_get_remote_subdev_def linked_entity pm_runtime_get_sync_def
      ideal_cb_def cap_subdev_call_def camera_def idle_media_def)

theorem isi_open_books_witness:
  "\<exists>t. mxc_isi_capture_open ideal_soc (isi_ideal 0) idle_media (ideal_cb [] (\<lambda>i v s. s)) camera linked_cap = (0, t) \<and>
     balance pm_delta (hist t) = balance pm_delta (hist linked_cap) + 1 \<and> isi_usage_count t = 1"
proof -
  obtain t where t: "mxc_isi_capture_open ideal_soc (isi_ideal 0) idle_media (ideal_cb [] (\<lambda>i v s. s)) camera linked_cap = (0, t)"
    "cap_link_setup t" using opened by blast
  from isi_open_books [OF ideal_cb_specs(1) t(1)] t show ?thesis by simp
qed

text \<open>A queue that is released, and one that reports a failure when it should be.\<close>

definition stuck_vb2 :: "'s vcb" where
  "stuck_vb2 = keep_vb2\<lparr>vb_release := (\<lambda>f s. (- EIO, s))\<rparr>"

theorem isi_open_close_witness:
  "\<exists>t ret w ret' w'. mxc_isi_capture_open ideal_soc (isi_ideal 0) idle_media (ideal_cb [] (\<lambda>i v s. s)) camera linked_cap = (0, t) \<and>
     mxc_isi_capture_release ideal_soc (ideal_cb [] (\<lambda>i v s. s)) keep_vb2 camera t = (ret, w) \<and>
     mxc_isi_capture_release ideal_soc (ideal_cb [] (\<lambda>i v s. s)) stuck_vb2 camera t = (ret', w') \<and>
     hist linked_cap = [] \<and> balance pm_delta (hist w) = 0 \<and> balance fh_delta (hist w) = 0 \<and> isi_usage_count w = 0 \<and>
     balance pm_delta (hist w') = 0 \<and> balance fh_delta (hist w') = 0"
proof -
  obtain t where t: "mxc_isi_capture_open ideal_soc (isi_ideal 0) idle_media (ideal_cb [] (\<lambda>i v s. s)) camera linked_cap = (0, t)"
    "cap_pads t = [MEDIA_PAD_FL_SINK]" "cap_num_pads t = 1" using opened by blast
  obtain ret w where w: "mxc_isi_capture_release ideal_soc (ideal_cb [] (\<lambda>i v s. s)) keep_vb2 camera t = (ret, w)" by fastforce
  obtain ret' w' where w': "mxc_isi_capture_release ideal_soc (ideal_cb [] (\<lambda>i v s. s)) stuck_vb2 camera t = (ret', w')" by fastforce
  have stuck: "vb2_spec stuck_vb2" by (auto simp: stuck_vb2_def vb2_spec_def keep_vb2_def)
  have "fst (vb_release keep_vb2 (cap_vb2_stop_streaming ideal_soc) (emit MutexLock t)) = 0" by (simp add: keep_vb2_def)
  with isi_open_close [OF ideal_cb_specs(1) keep_vb2_spec t(1) w] isi_open_close [OF ideal_cb_specs(1) stuck t(1) w'] t(1) w w'
  show ?thesis
    by (auto simp: mxc_get_remote_subdev_def linked_entity [OF t(2,3)] linked_hist)
qed

theorem isi_open_leaks_handle_witness:
  "\<exists>ret t. mxc_isi_capture_open ideal_soc (isi_ideal 0) idle_media (ideal_cb [] (\<lambda>i v s. s))
      (camera\<lparr>r_s_power := Some (\<lambda>on u. (- EIO, on, u))\<rparr>) linked_cap = (ret, t) \<and> ret \<noteq> 0 \<and> balance fh_delta (hist t) = balance fh_delta (hist linked_cap) + 1"
proof -
  have p: "r_s_power (camera\<lparr>r_s_power := Some (\<lambda>on u. (- EIO, on, u))\<rparr>) = Some (\<lambda>on u. (- EIO, on, u))" by simp
  have e: "\<forall>on x. fst ((\<lambda>on u. (- EIO, on, u)) (on :: int) (x :: unit)) \<noteq> 0" by simp
  have f: "\<forall>h. fh_open_ret idle_media h = 0" by (simp add: idle_media_def)
  have g: "\<forall>h. media_remote_pad ideal_soc h = media_remote_pad ideal_soc []" by (simp add: ideal_soc_def)
  have "\<not> isi_m2m_enabled linked_cap" by simp
  from isi_open_leaks_handle [OF ideal_cb_specs(1) p e f g linked_links this, of "isi_ideal 0" "[]" "\<lambda>i v s. s"]
  show ?thesis by blast
qed

theorem isi_default_format_empty_witness:
  "\<exists>t w. isi_cap_probe ideal_soc idle_media linked_cap = (0, t) \<and> mxc_isi_register_cap_device ideal_soc idle_media t = (0, w) \<and>
     fst (cap_vb2_buffer_prepare (UserBuf 0) w) = 0"
proof -
  have p: "fst (isi_cap_probe ideal_soc idle_media linked_cap) = 0"
    by (simp add: isi_cap_probe_def Let_def mxc_isi_dev_get_parent_def mxc_isi_get_hostdata_def idle_media_def ideal_soc_def)
  then obtain t where t: "isi_cap_probe ideal_soc idle_media linked_cap = (0, t)" using ok_pair by blast
  have "fst (mxc_isi_register_cap_device ideal_soc idle_media t) = 0"
    by (simp add: mxc_isi_register_cap_device_def Let_def mxc_isi_ctrls_create_def idle_media_def ideal_soc_def)
  then obtain w where w: "mxc_isi_register_cap_device ideal_soc idle_media t = (0, w)" using ok_pair by blast
  from isi_default_format_empty [OF t refl w] t w show ?thesis by blast
qed

end
