(* ===== verification/Isi_Pipeline.thy ===== *)
theory Isi_Pipeline
  imports Capture Isi_Device
begin

text \<open>
  The whole pipeline: a sensor, the receiver as the remote sub-device of an imaging channel, and the channel.
\<close>

section \<open>The receiver as a remote sub-device\<close>

definition csis_remote :: "sapi \<Rightarrow> 'r remote_ops \<Rightarrow> 'r csi_state remote_ops" where
  "csis_remote k r = \<lparr>
     r_s_power = Some (\<lambda>on s. let (ret, s) = mipi_csis_s_power k r on s in (ret, on, s)),
     r_set_fmt = Some (mipi_csis_set_fmt k r),
     r_get_fmt = Some (mipi_csis_get_fmt k r),
     r_s_frame_interval = Some (mipi_csis_s_frame_interval k r),
     r_g_frame_interval = Some (mipi_csis_g_frame_interval k r),
     r_enum_frame_size = Some (mipi_csis_enum_framesizes k r),
     r_enum_frame_interval = Some (mipi_csis_enum_frameintervals k r)\<rparr>"

lemma set_fmt_code: "mipi_csis_set_fmt k r f s = (ret, f', s') \<Longrightarrow> ret = 0 \<or> ret = - EINVAL"
  by (auto simp: mipi_csis_set_fmt_def Let_def split: option.splits prod.splits if_splits)

lemma call_some: "cap_subdev_call (Some g) x s = (ret, x', t) \<Longrightarrow> g x (cap_remote s) = (ret, x', cap_remote t)"
  by (auto simp: cap_subdev_call_def split: prod.splits)

text \<open>
  What configuring the channel has asked of the receiver: a successful set and a successful query of the active
  format; the channel has taken the size of the answer.
\<close>

lemma config_parm_remote:
  assumes "mxc_isi_config_parm k (csis_remote kc r) stack s = (0, s')" and "f_fmt (cap_dst_f s) = Some df"
  obtains f f1 u g ret g2 where "sf_which f = V4L2_SUBDEV_FORMAT_ACTIVE" "sf_which g = V4L2_SUBDEV_FORMAT_ACTIVE"
    "mipi_csis_set_fmt kc r f (cap_remote s) = (0, f1, u)" "mipi_csis_get_fmt kc r g u = (ret, g2, cap_remote s')"
    "o_width (cap_src_f s') = fmt_width (sf_format g2)" "o_height (cap_src_f s') = fmt_height (sf_format g2)"
    "f_width (cap_dst_f s) \<le> fmt_width (sf_format g2)" "f_height (cap_dst_f s) \<le> fmt_height (sf_format g2)"
  using config_parm_cases [OF assms]
proof cases
  case (1 p r1 f1 t1 r2 f2 t2)
  let ?f = "\<lparr>sf_which = V4L2_SUBDEV_FORMAT_ACTIVE, sf_pad = rp_index p, sf_format = stack\<lparr>fmt_code := if_mbus_code df,
     fmt_width := f_width (cap_dst_f s), fmt_height := f_height (cap_dst_f s)\<rparr>\<rparr>"
  let ?g = "\<lparr>sf_which = V4L2_SUBDEV_FORMAT_ACTIVE, sf_pad = rp_index p, sf_format = zero_fmt\<rparr>"
  have set: "mipi_csis_set_fmt kc r ?f (cap_remote s) = (r1, f1, cap_remote t1)"
    using call_some 1(3) by (fastforce simp: csis_remote_def)
  have get: "mipi_csis_get_fmt kc r ?g (cap_remote t1) = (r2, f2, cap_remote t2)"
    using call_some 1(5) by (fastforce simp: csis_remote_def)
  have "r1 = 0" using set_fmt_code [OF set] 1(4) by auto
  moreover have "cap_remote s' = cap_remote t2" using 1(9) by (simp add: Let_def)
  ultimately show thesis
    by (intro that [of ?f ?g f1 "cap_remote t1" r2 f2])
      (use set get 1(7-9) in \<open>simp_all add: Let_def set_frame_bounds_def\<close>)
qed

text \<open>
  A sensor, the receiver and the channel agree on the size: the channel takes the size that the sensor has set,
  and it is the size that starting the receiver programs into the gasket.
\<close>

context sensor_formats
begin

lemma frames:
  assumes env and "csis_get_remote_sensor_pad kc (cap_remote s) = Some p" "rp_is_subdev p"
    and "csis_hw kc" "pm_spec c" "cs_hs_settle (cap_remote s) < 256" "cs_clk_settle (cap_remote s) < 4"
      "unat (cs_num_lanes (cap_remote s)) \<le> 4"
    and "isi_hw k" and "chan_src_ok (pd_chan_src (isi_pdata s))" and "f_fmt (cap_dst_f s) = Some df"
    and "df \<in> set mxc_isi_out_formats" and "f_width (cap_dst_f s) \<noteq> 0" and "f_height (cap_dst_f s) \<noteq> 0"
    and "mxc_isi_config_parm k (csis_remote kc r) stack s = (0, s')"
    and "mipi_csis_s_stream kc c 1 (cap_remote s') = (ret, u)"
  shows "\<exists>m. answers m (cs_remote u) \<and> o_width (cap_src_f s') = fmt_width m \<and> o_height (cap_src_f s') = fmt_height m \<and>
    gasket_size (regs u) = Some (fmt_width m, fmt_height m) \<and>
    f_width (cap_dst_f s) \<le> fmt_width m \<and> f_height (cap_dst_f s) \<le> fmt_height m \<and>
    (\<exists>fmt \<in> set mipi_csis_formats. pf_code fmt = fmt_code m \<and> params_programmed fmt u (regs u) \<and> switches True u (regs u)) \<and>
    (\<exists>sf \<in> set mxc_isi_src_formats. isi_programmed (cap_src_f s') (cap_dst_f s) sf df s (regs s'))"
  using config_parm_remote [OF assms(15,11)]
proof cases
  case (1 f f1 v g ret' g2)
  have act: "sf_which f \<noteq> V4L2_SUBDEV_FORMAT_TRY" "sf_which g \<noteq> V4L2_SUBDEV_FORMAT_TRY" by (simp_all add: 1(1,2))
  have st: "sf_format g2 = sf_format f1" "answers (sf_format f1) (cs_remote u)"
      "gasket_size (regs u) = Some (fmt_width (sf_format f1), fmt_height (sf_format f1))"
      "\<exists>fmt \<in> set mipi_csis_formats. pf_code fmt = fmt_code (sf_format f1) \<and> params_programmed fmt u (regs u) \<and>
         switches True u (regs u)"
    using streams [OF assms(1-3) act 1(3,4) assms(4-8,16)] by blast+
  obtain sf where "sf \<in> set mxc_isi_src_formats" "isi_programmed (cap_src_f s') (cap_dst_f s) sf df s (regs s')"
    using config_parm_programs [OF assms(9-14) _ assms(15)] by (auto simp: csis_remote_def)
  with st 1(5-8) show ?thesis by (intro exI [of _ "sf_format f1"] conjI) (simp_all, blast)
qed

text \<open>When the sensor accepts the format and is large enough, configuring succeeds.\<close>

lemma configures:
  assumes env and "csis_get_remote_sensor_pad kc (cap_remote s) = Some q" "rp_is_subdev q"
    and "mxc_isi_get_remote_source_pad (cap_entity k s) = Some p" and "rp_is_subdev p" and "f_fmt (cap_dst_f s) = Some df"
    and "\<And>f. sf_which f \<noteq> V4L2_SUBDEV_FORMAT_TRY \<Longrightarrow> \<exists>f' u. mipi_csis_set_fmt kc r f (cap_remote s) = (0, f', u)"
    and "\<And>m x. answers m x \<Longrightarrow> f_width (cap_dst_f s) \<le> fmt_width m \<and> f_height (cap_dst_f s) \<le> fmt_height m"
  shows "fst (mxc_isi_config_parm k (csis_remote kc r) stack s) = 0"
proof -
  let ?f = "\<lparr>sf_which = V4L2_SUBDEV_FORMAT_ACTIVE, sf_pad = rp_index p, sf_format = stack\<lparr>fmt_code := if_mbus_code df,
     fmt_width := f_width (cap_dst_f s), fmt_height := f_height (cap_dst_f s)\<rparr>\<rparr>"
  let ?g = "\<lparr>sf_which = V4L2_SUBDEV_FORMAT_ACTIVE, sf_pad = rp_index p, sf_format = zero_fmt\<rparr>"
  have act: "sf_which ?f \<noteq> V4L2_SUBDEV_FORMAT_TRY" "sf_which ?g \<noteq> V4L2_SUBDEV_FORMAT_TRY" by simp_all
  obtain f1 u where set: "mipi_csis_set_fmt kc r ?f (cap_remote s) = (0, f1, u)" using assms(7) [OF act(1)] by blast
  obtain ret g2 v where get: "mipi_csis_get_fmt kc r ?g u = (ret, g2, v)" by (metis prod_cases3)
  have c: "ret = 0" "sf_format g2 = sf_format f1" "answers (sf_format f1) (cs_remote v)"
    using configured [OF assms(1-3) act set get] by blast+
  from assms(8) [OF c(3)] show ?thesis
    by (simp add: mxc_isi_config_parm_def mxc_isi_source_fmt_init_def mxc_get_remote_subdev_def cap_subdev_call_def
        csis_remote_def assms(4-6) set get c(1,2) set_frame_bounds_def not_less Let_def)
qed

end

section \<open>The two sensors\<close>

text \<open>
  C1: an IMX219, the receiver and an imaging channel: after the channel has been configured for streaming and the
  receiver started, the sensor has one of its modes, and its size is the size of the source of the channel, whose
  registers decode to it and to the requested output, and the size in the gasket of the receiver.
\<close>

theorem pipeline_imx219_frames:
  assumes "nearest_spec (nearest_size kk)" and "pm_spec cc" and "pm_usable kk"
    and "range_spec imx219_ctrl_step cc" and "set_spec imx219_ctrl_step cc"
    and "csis_get_remote_sensor_pad kc (cap_remote s) = Some p" and "rp_is_subdev p"
    and "csis_hw kc" and "pm_spec c" and "cs_hs_settle (cap_remote s) < 256" and "cs_clk_settle (cap_remote s) < 4"
    and "unat (cs_num_lanes (cap_remote s)) \<le> 4"
    and "isi_hw k" and "chan_src_ok (pd_chan_src (isi_pdata s))" and "f_fmt (cap_dst_f s) = Some df"
    and "df \<in> set mxc_isi_out_formats" and "f_width (cap_dst_f s) \<noteq> 0" and "f_height (cap_dst_f s) \<noteq> 0"
    and "mxc_isi_config_parm k (csis_remote kc (imx219_remote kk cc)) stack s = (0, s')"
    and "mipi_csis_s_stream kc c 1 (cap_remote s') = (ret, u)"
  shows "\<exists>md \<in> set supported_modes. im_mode (cs_remote u) = Some md \<and>
    o_width (cap_src_f s') = im_width md \<and> o_height (cap_src_f s') = im_height md \<and>
    gasket_size (regs u) = Some (im_width md, im_height md) \<and>
    f_width (cap_dst_f s) \<le> im_width md \<and> f_height (cap_dst_f s) \<le> im_height md \<and>
    (\<exists>sf \<in> set mxc_isi_src_formats. isi_programmed (cap_src_f s') (cap_dst_f s) sf df s (regs s'))"
proof -
  have env: "imx219_env kk cc" using assms(1-5) by (simp add: imx219_env_def)
  from imx219_sensor.frames [OF env assms(6-20)] obtain m where m: "imx219_answers m (cs_remote u)"
      "o_width (cap_src_f s') = fmt_width m" "o_height (cap_src_f s') = fmt_height m"
      "gasket_size (regs u) = Some (fmt_width m, fmt_height m)"
      "f_width (cap_dst_f s) \<le> fmt_width m" "f_height (cap_dst_f s) \<le> fmt_height m"
      "\<exists>sf \<in> set mxc_isi_src_formats. isi_programmed (cap_src_f s') (cap_dst_f s) sf df s (regs s')" by blast
  from m(1) obtain md where md: "md \<in> set supported_modes" "im_mode (cs_remote u) = Some md"
      "fmt_width m = im_width md" "fmt_height m = im_height md"
    by (auto simp: imx219_answers_def imx219_native_fmt_def)
  show ?thesis by (rule bexI [OF _ md(1)]) (use m(2-7) md(2-4) in simp)
qed

text \<open>
  C2: an OV5648, the receiver and an imaging channel: the same, for the modes of the OV5648.
\<close>

theorem pipeline_ov5648_frames:
  assumes "nearest_spec (nearest_size kk)"
    and "csis_get_remote_sensor_pad kc (cap_remote s) = Some p" and "rp_is_subdev p"
    and "csis_hw kc" and "pm_spec c" and "cs_hs_settle (cap_remote s) < 256" and "cs_clk_settle (cap_remote s) < 4"
    and "unat (cs_num_lanes (cap_remote s)) \<le> 4"
    and "isi_hw k" and "chan_src_ok (pd_chan_src (isi_pdata s))" and "f_fmt (cap_dst_f s) = Some df"
    and "df \<in> set mxc_isi_out_formats" and "f_width (cap_dst_f s) \<noteq> 0" and "f_height (cap_dst_f s) \<noteq> 0"
    and "mxc_isi_config_parm k (csis_remote kc (ov5648_remote kk)) stack s = (0, s')"
    and "mipi_csis_s_stream kc c 1 (cap_remote s') = (ret, u)"
  shows "\<exists>md \<in> set ov5648_modes. mode (cs_remote u) = Some md \<and>
    o_width (cap_src_f s') = output_size_x md \<and> o_height (cap_src_f s') = output_size_y md \<and>
    gasket_size (regs u) = Some (output_size_x md, output_size_y md) \<and>
    f_width (cap_dst_f s) \<le> output_size_x md \<and> f_height (cap_dst_f s) \<le> output_size_y md \<and>
    (\<exists>sf \<in> set mxc_isi_src_formats. isi_programmed (cap_src_f s') (cap_dst_f s) sf df s (regs s'))"
proof -
  from ov5648_sensor.frames [OF assms] obtain m where m: "ov5648_answers m (cs_remote u)"
      "o_width (cap_src_f s') = fmt_width m" "o_height (cap_src_f s') = fmt_height m"
      "gasket_size (regs u) = Some (fmt_width m, fmt_height m)"
      "f_width (cap_dst_f s) \<le> fmt_width m" "f_height (cap_dst_f s) \<le> fmt_height m"
      "\<exists>sf \<in> set mxc_isi_src_formats. isi_programmed (cap_src_f s') (cap_dst_f s) sf df s (regs s')" by blast
  from m(1) obtain md where md: "md \<in> set ov5648_modes" "mode (cs_remote u) = Some md"
      "fmt_width m = output_size_x md" "fmt_height m = output_size_y md"
    by (auto simp: ov5648_answers_def ov5648_native_fmt_def)
  show ?thesis by (rule bexI [OF _ md(1)]) (use m(2-7) md(2-4) in simp)
qed

section \<open>Examples\<close>

text \<open>A channel with one connected pad, whose output is the smallest mode of either sensor.\<close>

definition channel_behind :: "'r \<Rightarrow> 'r isi_cap" where
  "channel_behind r = isi_state.extend isi_example
     (isi_cap.fields (\<lambda>_. zero_buffer) [] [] [] (frame_of 640 480 (mxc_isi_out_formats ! 0)) 0 (\<lambda>_. 0) True True
        [MEDIA_PAD_FL_SINK] 1 True 0 r)"

lemma behind_fields [simp]:
  "cap_remote (channel_behind r) = r" "isi_pdata (channel_behind r) = mxc_imx8mn_data"
  "cap_dst_f (channel_behind r) = frame_of 640 480 (mxc_isi_out_formats ! 0)"
  "cap_pads (channel_behind r) = [MEDIA_PAD_FL_SINK]" "cap_num_pads (channel_behind r) = 1"
  by (simp_all add: channel_behind_def isi_state.defs isi_cap.defs isi_example_def)

lemma frame_640 [simp]:
  "f_width (frame_of 640 480 a) = 640" "f_height (frame_of 640 480 a) = 480" "f_fmt (frame_of w h a) = Some a"
  by (simp_all add: frame_of_def)

lemma behind_entity:
  "mxc_isi_get_remote_source_pad (cap_entity ideal_soc (channel_behind r)) = Some \<lparr>rp_index = 0, rp_is_subdev = True\<rparr>"
  by (simp add: cap_entity_def ideal_soc_def)

lemma first_out_format: "mxc_isi_out_formats ! 0 \<in> set mxc_isi_out_formats"
  by (simp add: mxc_isi_out_formats_def)

lemma channel_src_ok: "chan_src_ok (pd_chan_src mxc_imx8mn_data)"
  by (simp add: mxc_imx8mn_data_def)

lemma imx219_large: "imx219_answers m x \<Longrightarrow> 640 \<le> fmt_width m \<and> 480 \<le> fmt_height m"
proof -
  have "640 \<le> im_width md \<and> 480 \<le> im_height md" if "md \<in> set supported_modes" for md
    using that by (cases rule: supported_modes_cases) (simp_all add: imx219_mode_defs)
  then show "imx219_answers m x \<Longrightarrow> 640 \<le> fmt_width m \<and> 480 \<le> fmt_height m"
    by (auto simp: imx219_answers_def imx219_native_fmt_def)
qed

lemma ov5648_large: "ov5648_answers m x \<Longrightarrow> 640 \<le> fmt_width m \<and> 480 \<le> fmt_height m"
proof -
  have "\<forall>md \<in> set ov5648_modes. 640 \<le> output_size_x md \<and> 480 \<le> output_size_y md"
    unfolding ov5648_modes_all by (simp add: ov5648_mode_defs)
  then show "ov5648_answers m x \<Longrightarrow> 640 \<le> fmt_width m \<and> 480 \<le> fmt_height m"
    by (auto simp: ov5648_answers_def ov5648_native_fmt_def)
qed

lemma imx219_sets:
  assumes act: "sf_which f \<noteq> V4L2_SUBDEV_FORMAT_TRY"
  shows "\<exists>f' u. mipi_csis_set_fmt ideal_soc (imx219_remote (ideal (\<lambda>_. 0)) imx219_cb) f (csis_behind imx219_example) = (0, f', u)"
proof -
  let ?f = "f\<lparr>sf_pad := 0\<rparr>"
  obtain r0 cfg' f0 t where eq: "imx219_set_pad_format (ideal (\<lambda>_. 0)) imx219_cb null_cfg ?f imx219_example = (r0, cfg', f0, t)"
    by (metis prod_cases4)
  have "nearest_spec (nearest_size (ideal (\<lambda>_. 0)))" by simp
  then have "r0 = 0" using eq by (rule set_pad_cases)
  obtain op where op: "r_set_fmt (imx219_remote (ideal (\<lambda>_. 0)) imx219_cb) = Some op" "op ?f imx219_example = (r0, f0, t)"
    using eq act by (simp add: imx219_remote_def Let_def)
  have "cs_remote (csis_behind imx219_example) = imx219_example" by (simp add: csis_behind_def)
  with op(2) \<open>r0 = 0\<close> obtain f' u where "mipi_csis_set_fmt ideal_soc (imx219_remote (ideal (\<lambda>_. 0)) imx219_cb) f (csis_behind imx219_example) = (0, f', u)"
    using set_fmt_ok [OF behind_pad _ op(1), of f imx219_example r0 f0 t] by auto
  then show ?thesis by blast
qed

lemma ov5648_sets:
  assumes act: "sf_which f \<noteq> V4L2_SUBDEV_FORMAT_TRY"
  shows "\<exists>f' u. mipi_csis_set_fmt ideal_soc (ov5648_remote (ideal ov5648_ids)) f (csis_behind ov5648_example) = (0, f', u)"
proof -
  let ?f = "f\<lparr>sf_pad := 0\<rparr>"
  have near: "nearest_spec (nearest_size (ideal ov5648_ids))" by simp
  obtain r0 cfg' f0 t where eq: "ov5648_set_fmt (ideal ov5648_ids) null_cfg ?f ov5648_example = (r0, cfg', f0, t)"
    by (metis prod_cases4)
  have "r0 = 0"
    using near eq
  proof (cases rule: set_fmt_cases)
    case (picked m)
    have "fst (ov5648_state_configure (ideal ov5648_ids) (Some m)
        (ov5648_find_format (fmt_code (sf_format ?f))) (emit MutexLock ov5648_example)) = 0"
      by (rule state_configure_ok [OF ideal_board picked(2) find_format_supported]) (simp add: ov5648_example_def emit_def)
    then show ?thesis using picked(5) act by (auto split: if_splits)
  qed simp
  obtain op where op: "r_set_fmt (ov5648_remote (ideal ov5648_ids)) = Some op" "op ?f ov5648_example = (r0, f0, t)"
    using eq act by (simp add: ov5648_remote_def Let_def)
  have "cs_remote (csis_behind ov5648_example) = ov5648_example" by (simp add: csis_behind_def)
  with op(2) \<open>r0 = 0\<close> obtain f' u where "mipi_csis_set_fmt ideal_soc (ov5648_remote (ideal ov5648_ids)) f (csis_behind ov5648_example) = (0, f', u)"
    using set_fmt_ok [OF behind_pad _ op(1), of f ov5648_example r0 f0 t] by auto
  then show ?thesis by blast
qed

theorem pipeline_imx219_frames_witness:
  "\<exists>s' u. mxc_isi_config_parm ideal_soc (csis_remote ideal_soc (imx219_remote (ideal (\<lambda>_. 0)) imx219_cb)) zero_fmt
      (channel_behind (csis_behind imx219_example)) = (0, s') \<and>
    mipi_csis_s_stream ideal_soc (ideal_cb [] (\<lambda>i v s. s)) 1 (cap_remote s') = (0, u) \<and>
    gasket_size (regs u) = Some (o_width (cap_src_f s'), o_height (cap_src_f s'))"
proof -
  let ?s = "channel_behind (csis_behind imx219_example)"
  let ?r = "csis_remote ideal_soc (imx219_remote (ideal (\<lambda>_. 0)) imx219_cb)"
  have pad: "csis_get_remote_sensor_pad ideal_soc (cap_remote ?s) = Some \<lparr>rp_index = 0, rp_is_subdev = True\<rparr>"
    by (simp add: behind_pad)
  have "imx219_env (ideal (\<lambda>_. 0)) imx219_cb" by (simp add: imx219_env_def)
  from imx219_sensor.configures [OF this pad _ behind_entity, of _ zero_fmt] have "fst (mxc_isi_config_parm ideal_soc ?r zero_fmt ?s) = 0"
    using imx219_sets imx219_large by simp
  then obtain s' where s': "mxc_isi_config_parm ideal_soc ?r zero_fmt ?s = (0, s')" using ok_pair by blast
  obtain ret u where u: "mipi_csis_s_stream ideal_soc (ideal_cb [] (\<lambda>i v s. s)) 1 (cap_remote s') = (ret, u)" by fastforce
  then have "ret = 0" by (auto simp: mipi_csis_s_stream_def Let_def split: prod.splits)
  from pipeline_imx219_frames [OF _ _ _ _ _ pad _ ideal_csis_hw _ _ _ _ ideal_isi_hw _ _ first_out_format _ _ s' u]
  show ?thesis using s' u \<open>ret = 0\<close> by (auto simp: behind_ok channel_src_ok)
qed

theorem pipeline_ov5648_frames_witness:
  "\<exists>s' u. mxc_isi_config_parm ideal_soc (csis_remote ideal_soc (ov5648_remote (ideal ov5648_ids))) zero_fmt
      (channel_behind (csis_behind ov5648_example)) = (0, s') \<and>
    mipi_csis_s_stream ideal_soc (ideal_cb [] (\<lambda>i v s. s)) 1 (cap_remote s') = (0, u) \<and>
    gasket_size (regs u) = Some (o_width (cap_src_f s'), o_height (cap_src_f s'))"
proof -
  let ?s = "channel_behind (csis_behind ov5648_example)"
  let ?r = "csis_remote ideal_soc (ov5648_remote (ideal ov5648_ids))"
  have pad: "csis_get_remote_sensor_pad ideal_soc (cap_remote ?s) = Some \<lparr>rp_index = 0, rp_is_subdev = True\<rparr>"
    by (simp add: behind_pad)
  have near: "nearest_spec (nearest_size (ideal ov5648_ids))" by simp
  from ov5648_sensor.configures [OF near pad _ behind_entity, of _ zero_fmt] have "fst (mxc_isi_config_parm ideal_soc ?r zero_fmt ?s) = 0"
    using ov5648_sets ov5648_large by simp
  then obtain s' where s': "mxc_isi_config_parm ideal_soc ?r zero_fmt ?s = (0, s')" using ok_pair by blast
  obtain ret u where u: "mipi_csis_s_stream ideal_soc (ideal_cb [] (\<lambda>i v s. s)) 1 (cap_remote s') = (ret, u)" by fastforce
  then have "ret = 0" by (auto simp: mipi_csis_s_stream_def Let_def split: prod.splits)
  from pipeline_ov5648_frames [OF near pad _ ideal_csis_hw _ _ _ _ ideal_isi_hw _ _ first_out_format _ _ s' u]
  show ?thesis using s' u \<open>ret = 0\<close> by (auto simp: behind_ok channel_src_ok)
qed

end
