(* ===== verification/Spec2Isabelle.thy ===== *)
theory Spec2Isabelle
  imports Isi_Pipeline
begin

text \<open>
  Verification of the camera drivers of the repository: the sensor drivers for the OV5648
  (\<^verbatim>\<open>src/imx219/exercise-02/ov5648.c\<close>) and the IMX219 (\<^verbatim>\<open>src/imx219/exercise-02/imx219.c\<close>), V4L2
  sub-device drivers on the I2C bus, the driver of the MIPI CSI-2 receiver of the i.MX8 that a sensor
  feeds (\<^verbatim>\<open>imx8-mipi-csi2-sam.c\<close>), and the driver of an imaging channel, which takes the pixels of the receiver,
  scales and converts them and writes frames to memory (\<^verbatim>\<open>imx8-isi-hw.c\<close>, \<^verbatim>\<open>imx8-isi-core.c\<close> and \<^verbatim>\<open>imx8-isi-cap.c\<close>, all under \<^verbatim>\<open>src/exercise-09-dec-21/camera/staging/media/imx\<close>).

  \<^bold>\<open>The program.\<close>  A sensor driver probes a sensor, programs modes and controls into its registers, switches
  its supplies and clock through runtime power management, and starts and stops its stream.  The receiver
  sits behind one sensor: it hands format and power requests on to the sensor at the other end of its first
  connected link, derives its own register settings from the answers, and counts errors in its interrupt
  handler.  The imaging channel is two devices in one state: a platform device that owns registers, clocks and
  the interrupt, and a capture device with a video node, that sets the format of the remote sub-device, programs
  the channel from the answer, and exchanges the buffers of the user with the two slots of the hardware, filling in
  its own discard buffers when the user has none.  Every driver is called by, and calls into, the kernel: the I2C core, the regulator, clock, GPIO,
  reset and register-map frameworks, runtime PM, the V4L2 control framework and the media core.  Those
  are not part of the repository.  They are parameters of the model.

  \<^bold>\<open>How the code is modelled.\<close>
  \<^item> A driver structure is a record that extends \<open>kstate\<close>, whose one field is the history of calls into
    the kernel.  \<open>ov5648\<close> flattens \<^verbatim>\<open>struct ov5648\<close>, \<^verbatim>\<open>ov5648_state\<close> and \<^verbatim>\<open>ov5648_ctrls\<close>; \<open>imx219\<close> is
    \<^verbatim>\<open>struct imx219\<close> with fields prefixed \<open>im_\<close>, \<open>csi_state\<close> is \<^verbatim>\<open>struct csi_state\<close> with fields prefixed
    \<open>cs_\<close> and the state of the remote sub-device, a parameter, in \<open>cs_remote\<close>.  \<open>isi_state\<close> is \<^verbatim>\<open>struct mxc_isi_dev\<close> (fields \<open>isi_\<close>) and its extension
    \<open>isi_cap\<close> \<^verbatim>\<open>struct mxc_isi_cap_dev\<close> (fields \<open>cap_\<close> and the three lists of buffers); buffers are a store from references
    (\<open>UserBuf\<close>, \<open>DiscardBuf\<close>) to \<open>mxc_isi_buffer\<close>, and the lists hold references.  The controls of a handler are a map from control ids.
  \<^item> A C function with an \<^verbatim>\<open>int\<close> result is a function from the state to the code and the new state
    (\<open>'s op\<close>), with negative error numbers as in the source; a chain of calls with early returns is
    \<open>run_steps\<close>; \<^verbatim>\<open>goto\<close> labels are functions that fall through to each other.  Output parameters are
    additional results.
  \<^item> \<^verbatim>\<open>u8\<close> to \<^verbatim>\<open>u64\<close> are words of that width, \<^verbatim>\<open>int\<close> is \<^typ>\<open>int\<close> with the conversions from words written
    out.  Following a NULL pointer and reading outside a table are events of their own (\<open>NullDeref\<close>), so
    that their absence can be proved.
  \<^item> What the kernel answers is a record \<open>kapi\<close> of functions of the history, so every call may be answered
    differently; framework calls that call back into the driver are the record \<open>kcb\<close>.  The hypotheses on
    them state documented behaviour: \<open>pm_spec\<close>, \<open>pm_usable\<close>, \<open>pm_reports\<close> (runtime PM), \<open>setup_spec\<close>,
    \<open>set_spec\<close>, \<open>range_spec\<close>, \<open>setup_reports\<close>, \<open>create_spec\<close> (controls), \<open>nearest_spec\<close>
    (\<^verbatim>\<open>v4l2_find_nearest_size\<close>), \<open>bus_ok\<close>, \<open>regfile_recv\<close> and \<open>regfile_xfer\<close> (a bus that works and a
    sensor that stores what it is sent).  The receiver has the records \<open>sapi\<close> and \<open>scb\<close> in the same way, with
    \<open>force_spec\<close> (forced sleep), \<open>soc_answers\<close> (clock and regulator calls answer zero or an error) and
    \<open>csis_hw\<close> (the registers that are modified in steps read back what was written, the reset bit clears
    itself).  The imaging channel adds \<open>iapi\<close> (clocks and chip), \<open>vapi\<close> (memory for discard buffers), \<open>mapi\<close> (media
    graph, device tree, videobuf2) and \<open>vcb\<close> (videobuf2 calling back), with \<open>isi_answers\<close>, \<open>vb2_spec\<close> (the queue
    calls back at most once), \<open>isi_hw\<close> (registers read back) and \<open>isi_status_spec\<close> (an interrupt for a stored frame
    names one of the two slots).  \<open>ideal_soc\<close>, \<open>ideal_scb\<close>, \<open>ideal\<close>, \<open>ideal_cb\<close> and \<open>imx219_cb\<close> are executable instances.
  \<^item> Loops run over the tables of the drivers and are structural recursions, the pad search of the receiver
    (\<open>csis_scan_pads\<close>) a recursion with a measure; there is no fuel.  Properties of a stream of the imaging
    channel are about histories of less than 2^32 - 2 frames, after which the 32-bit frame counter, which the code
    also uses to select a slot, starts over.  The lists
    of the source (mode, register and code tables) are lists with the same entries in the same order.

  \<^bold>\<open>Theories.\<close>
  \<^item> \<open>Prelude\<close>: machine types, bit macros, \<open>run_steps\<close>, search loops.  \<open>Kernel\<close>: events, parameters, calls.
    \<open>History\<close>: what histories say: events a call may add (\<open>emits\<close>, \<open>grows\<close>), the register image the bus
    traffic leaves (\<open>bus_image\<close>), acquisitions against releases (\<open>balance\<close>).  \<open>V4l2\<close>: constants, formats and
    default macros of the user-space headers, and the size search.
  \<^item> Interfaces as locales: \<open>reg_port\<close> (\<open>Ov5648_IO\<close>: a one-byte register write and what a table of writes
    leaves), \<open>size_table\<close> (\<open>Size_Table\<close>: choosing a mode by size), \<open>power_pair\<close> and \<open>safe_power\<close>
    (\<open>Runtime\<close>: switching supplies on and off).  Each is interpreted on both drivers; the OV5648 satisfies
    \<open>power_pair\<close> but not \<open>safe_power\<close>.  \<open>soc_power\<close> (\<open>Soc\<close>: the power callbacks of a device on the chip) is
    interpreted on the receiver and on the imaging channel, \<open>sensor_formats\<close> (\<open>Capture\<close>: what the receiver needs of a sensor) on both
    sensor drivers.
  \<^item> OV5648: \<open>Ov5648_Regs\<close> and \<open>Ov5648_Data\<close> (register macros, structures, tables), \<open>Ov5648_IO\<close> (register
    access), \<open>Ov5648_Sensor\<close> (configuration of the sensor, clock tree), \<open>Ov5648_Ctrl\<close> (controls, link rates,
    state), \<open>Ov5648_Power\<close> (power sequence, suspend, resume, streaming), \<open>Ov5648_Pad\<close> (formats,
    enumeration, intervals), \<open>Ov5648_Probe\<close> (probe, removal, reachable states).
  \<^item> IMX219: \<open>Imx219_Data\<close> (constants, tables, structures), \<open>Imx219_IO\<close> (register access), \<open>Imx219_Power\<close>
    (runtime-PM callbacks), \<open>Imx219_Ctrl\<close> (Bayer order, control operation, control set-up),
    \<open>Imx219_Writes\<close> (which registers the controls reach), \<open>Imx219_Pad\<close> (formats, enumeration),
    \<open>Imx219_Stream\<close> (streaming, system sleep), \<open>Imx219_Probe\<close> (probe, removal, reachable states).

  \<^item> Receiver: \<open>Soc\<close> (registers by bank and offset, their image, fields of registers, clocks and supplies),
    \<open>Csis_Data\<close> (constants, tables, structure), \<open>Csis_Hw\<close> (register programming), \<open>Csis_Dev\<close> (sub-device
    operations, power, ioctls, interrupts), \<open>Csis_Probe\<close> (device tree, probe, removal, reachable states).
  \<^item> Imaging channel: \<open>Isi_Data\<close> (constants, tables, structures), \<open>Isi_Hw\<close> (\<^verbatim>\<open>imx8-isi-hw.c\<close>: registers), \<open>Isi_Core\<close>
    (\<^verbatim>\<open>imx8-isi-core.c\<close>: clocks, probe, removal, power), \<open>Isi_Queue\<close> (buffers and completed frames), \<open>Isi_Formats\<close>
    (formats and selections of node and sub-device), \<open>Isi_Cap\<close> (opening, control, streaming, queries, registration,
    probe) and \<open>Isi_Device\<close> (what these do).
  \<^item> \<open>Capture\<close>: the sensors as remote sub-devices of the receiver, with a NULL pad configuration, and the
    pipeline of a sensor and the receiver.  \<open>Isi_Pipeline\<close>: the receiver as the remote sub-device of an imaging channel
    (\<open>csis_remote\<close>), and the pipeline from a sensor to the channel.

  \<^bold>\<open>What is shown.\<close>
  \<^item> Registers: a successful mode configuration of the OV5648 and a successful start of the IMX219 leave
    registers that decode to the mode of the driver; the PLL registers of the OV5648 select the clock
    that the driver computes for the link-frequency control; written values and controls read back.
  \<^item> Formats: setting and getting agree, trying has no side effect and is idempotent, the nearest mode is
    chosen, enumeration agrees with selection, the reported Bayer order is that of the flips.
  \<^item> Arithmetic: control ranges and frame lengths of the sensors do not wrap around and fit their registers.  The imaging
    channel does not bound the sizes that it multiplies: its theorems say what 32-bit arithmetic leaves, and give the
    bound below which that is the exact value (the bits of a line or of a frame below 2^32, a source below 2^20 pixels).
  \<^item> Books: supplies, clock, lock, runtime-PM count and probe resources balance on every path where the
    code balances them, and the theorems say where it does not.
  \<^item> Whole drivers: the step relations \<open>ov5648_step\<close> and \<open>imx219_step\<close> and an invariant of every state that
    the operations reach from a successful probe, in any order and with any failures of the bus.
  \<^item> Receiver: starting leaves registers that decode to the lanes, settle times, format and size of the
    driver's state, for settle times that fit their fields; the clock settle time is merged into its field, stopping switches everything off, the interrupt handler stays inside its tables and
    buffer; the theorems also say where a data type, a clock, a supply or an error is lost.
  \<^item> Imaging channel: configuring leaves registers that decode to the source, scale factors, conversion and output
    of the driver's state; every buffer is in one place, the slot that the hardware fills is never given away, and
    stopping returns what the user queued; accepted buffers hold the lines that the channel writes, as long as the
    sizes do not wrap around, except for the formats of several planes with a larger pitch, where a theorem says that
    they are overrun; opening and
    closing balance; and the theorems say where a lock, a file handle, an error or a size is lost.
  \<^item> Pipeline: with either sensor, after a format has been set and queried through the receiver, the receiver
    streams with the size and the data type of the mode that the sensor has selected; and when an imaging channel has
    configured itself through the receiver, channel, receiver and sensor agree on that size.
  \<^item> Liveness: on a working board power-on succeeds and, with runtime power management enabled, restores the whole mode,
    and the stream can be started.

  \<^bold>\<open>Not modelled.\<close>
  \<^item> The other i.MX8 media drivers: the memory-to-memory device of an imaging channel (\<^verbatim>\<open>imx8-isi-m2m.c\<close>), the media
    device that links the parts (\<^verbatim>\<open>imx8-media-dev.c\<close>), the receivers \<^verbatim>\<open>imx8-mipi-csi2.c\<close> and
    \<^verbatim>\<open>imx8-parallel-csi.c\<close>.  The part of \<^verbatim>\<open>imx8-isi-hw.c\<close> that serves the memory-to-memory device is modelled.
  \<^item> Messages to the kernel log, the operation tables (\<^verbatim>\<open>struct v4l2_subdev_ops\<close> and the like), module
    registration, and device-managed release; the \<^verbatim>\<open>#if 0\<close> block of \<^verbatim>\<open>ov5648.c\<close>.
  \<^item> The debug register access of the OV5648 (\<^verbatim>\<open>CONFIG_VIDEO_ADV_DEBUG\<close>): it passes a pointer of the
    wrong type.
  \<^item> Concurrency: the operations run one after another, and an interrupt of the receiver or of the imaging channel is
    a step of its own between them.  For the sensors and the receiver this is what the lock of each driver provides;
    the model records where a function runs without the lock it asserts.  For the imaging channel it is an assumption of
    the model that the code does not establish: the interrupt handler changes the lists of buffers under the spinlock
    \<^verbatim>\<open>mxc_isi->slock\<close>, the operations of the queue change the same lists under \<^verbatim>\<open>isi_cap->slock\<close>, so that on two
    processors they can run at the same time.  What is shown of streams holds for executions in which they do not; races
    between the two are outside the model.  The events keep the locks apart: \<open>SpinLock\<close> is \<^verbatim>\<open>mxc_isi->slock\<close> and
    \<open>CapSpinLock\<close> is \<^verbatim>\<open>isi_cap->slock\<close>, \<open>MutexLock\<close> is \<^verbatim>\<open>isi_cap->lock\<close> and \<open>ChanMutexLock\<close> is \<^verbatim>\<open>mxc_isi->lock\<close>.
  \<^item> The rest of the repository: earlier versions of the two drivers (the one search loop that changed is
    compared in \<open>Ov5648_Pad\<close>), a copy of the kernel's staging drivers, exported kernel headers, capture programs in C++ and Python, device trees and logs.
\<close>

end
